(* ===== verification/Prelude.thy ===== *)
theory Prelude
  imports Main "HOL-Library.Word" "HOL-Library.Sublist"
begin

text \<open>
  Shared vocabulary of the development: identifiers and instants, the error values of
  the \<^verbatim>\<open>anyhow\<close> style, the state-and-error actions that stand for the server's asynchronous
  calls, and the operations of Rust's \<^verbatim>\<open>str\<close> and integer formatting that the components use.

  A Rust \<^verbatim>\<open>String\<close> is the list of its UTF-8 bytes, so \<^term>\<open>length\<close> is \<^verbatim>\<open>str::len\<close>.
\<close>

named_theorems act_simps \<open>evaluation of actions\<close>
named_theorems str_simps \<open>facts about the string operations\<close>

section \<open>Identifiers, instants, errors\<close>

type_synonym uuid = "128 word"
type_synonym instant = int
type_synonym i64 = "64 word"

text \<open>
  An \<^verbatim>\<open>anyhow::Error\<close>: a message, possibly wrapped in context messages. Its
  \<^verbatim>\<open>Display\<close> form is the outermost message alone.
\<close>

datatype anyhow = Msg string | Context string anyhow

primrec err_to_string :: "anyhow \<Rightarrow> string" where
  "err_to_string (Msg m) = m"
| "err_to_string (Context m e) = m"

section \<open>JSON documents\<close>

text \<open>
  A \<^verbatim>\<open>serde_json::Value\<close>. An object is the list of its members; \<^verbatim>\<open>Map\<close> keeps one member per
  key, and the accessors read the list as that map.
\<close>

datatype json =
    JNull | JBool bool | JInt int | JString string
  | JArray "json list" | JObject "(string \<times> json) list"

section \<open>Actions: state passing with an error result\<close>

text \<open>
  An asynchronous call that reads and writes the world \<^typ>\<open>'s\<close> and may fail: it returns
  the error or the value, and the world afterwards. Effects that happened before an error
  are kept, as they are in the source.
\<close>

type_synonym ('s, 'e, 'a) act = "'s \<Rightarrow> ('e + 'a) \<times> 's"
type_synonym ('s, 'a) io = "('s, anyhow, 'a) act"

definition act_ok :: "'a \<Rightarrow> ('s, 'e, 'a) act" where
  "act_ok x = (\<lambda>s. (Inr x, s))"

definition act_err :: "'e \<Rightarrow> ('s, 'e, 'a) act" where
  "act_err e = (\<lambda>s. (Inl e, s))"

text \<open>\<^verbatim>\<open>m.await?\<close> followed by the rest of the function.\<close>

definition act_bind :: "('s, 'e, 'a) act \<Rightarrow> ('a \<Rightarrow> ('s, 'e, 'b) act) \<Rightarrow> ('s, 'e, 'b) act" where
  "act_bind m f = (\<lambda>s. case m s of (Inl e, s') \<Rightarrow> (Inl e, s') | (Inr x, s') \<Rightarrow> f x s')"

text \<open>\<^verbatim>\<open>map_err\<close>, and its use as \<^verbatim>\<open>context\<close>.\<close>

definition act_map_err :: "('e \<Rightarrow> 'f) \<Rightarrow> ('s, 'e, 'a) act \<Rightarrow> ('s, 'f, 'a) act" where
  "act_map_err g m = (\<lambda>s. case m s of (Inl e, s') \<Rightarrow> (Inl (g e), s') | (Inr x, s') \<Rightarrow> (Inr x, s'))"

abbreviation act_context :: "string \<Rightarrow> ('s, 'a) io \<Rightarrow> ('s, 'a) io" where
  "act_context msg \<equiv> act_map_err (Context msg)"

text \<open>\<^verbatim>\<open>match m.await\<close>: the error is a value the caller looks at.\<close>

definition act_try :: "('s, 'e, 'a) act \<Rightarrow> ('e + 'a \<Rightarrow> ('s, 'f, 'b) act) \<Rightarrow> ('s, 'f, 'b) act" where
  "act_try m f = (\<lambda>s. case m s of (r, s') \<Rightarrow> f r s')"

text \<open>A pure fallible computation used inside an asynchronous function.\<close>

definition act_lift :: "'e + 'a \<Rightarrow> ('s, 'e, 'a) act" where
  "act_lift r = (\<lambda>s. (r, s))"

text \<open>\<^verbatim>\<open>opt.ok_or_else(|| anyhow!(msg))?\<close>\<close>

definition ok_or :: "'e \<Rightarrow> 'a option \<Rightarrow> 'e + 'a" where
  "ok_or e v = (case v of None \<Rightarrow> Inl e | Some x \<Rightarrow> Inr x)"

lemma act_ok_apply [simp, act_simps]: "act_ok x s = (Inr x, s)"
  by (simp add: act_ok_def)

lemma act_err_apply [simp, act_simps]: "act_err e s = (Inl e, s)"
  by (simp add: act_err_def)

lemma act_lift_apply [simp, act_simps]: "act_lift r s = (r, s)"
  by (simp add: act_lift_def)

lemma act_bind_eq_Inr:
  "act_bind m f s = (Inr y, t) \<longleftrightarrow> (\<exists>x u. m s = (Inr x, u) \<and> f x u = (Inr y, t))"
  by (auto simp: act_bind_def split: prod.splits sum.splits)

lemma act_bind_eq_Inl:
  "act_bind m f s = (Inl e, t) \<longleftrightarrow>
     m s = (Inl e, t) \<or> (\<exists>x u. m s = (Inr x, u) \<and> f x u = (Inl e, t))"
  by (auto simp: act_bind_def split: prod.splits sum.splits)

lemma act_bind_Inr: "m s = (Inr x, u) \<Longrightarrow> act_bind m f s = f x u"
  by (simp add: act_bind_def)

lemma act_bind_Inl: "m s = (Inl e, u) \<Longrightarrow> act_bind m f s = (Inl e, u)"
  by (simp add: act_bind_def)

lemma act_bind_ok [simp, act_simps]: "act_bind (act_ok x) f = f x"
  by (rule ext) (simp add: act_bind_def)

lemma act_bind_err [simp, act_simps]: "act_bind (act_err e) f = act_err e"
  by (rule ext) (simp add: act_bind_def)

lemma act_bind_lift [simp, act_simps]:
  "act_bind (act_lift (Inr x)) f = f x" "act_bind (act_lift (Inl e)) f = act_err e"
  by (rule ext, simp add: act_bind_def)+

lemma act_bind_assoc: "act_bind (act_bind m f) g = act_bind m (\<lambda>x. act_bind (f x) g)"
  by (rule ext) (simp add: act_bind_def split: prod.split sum.split)

lemma act_map_err_eq_Inr: "act_map_err g m s = (Inr x, t) \<longleftrightarrow> m s = (Inr x, t)"
  by (auto simp: act_map_err_def split: prod.splits sum.splits)

lemma ok_or_simps [simp]: "ok_or e None = Inl e" "ok_or e (Some x) = Inr x"
  by (simp_all add: ok_or_def)

lemma ok_or_eq_Inr: "ok_or e v = Inr x \<longleftrightarrow> v = Some x"
  by (cases v) simp_all

subsection \<open>Invariants of actions\<close>

text \<open>
  An action keeps a property of the world when it holds afterwards whatever the result is,
  an error included. The rules follow the structure of an action.
\<close>

definition keeps :: "('s \<Rightarrow> bool) \<Rightarrow> ('s, 'e, 'a) act \<Rightarrow> bool" where
  "keeps P m \<longleftrightarrow> (\<forall>s. P s \<longrightarrow> P (snd (m s)))"

lemma keepsI: "(\<And>s. P s \<Longrightarrow> P (snd (m s))) \<Longrightarrow> keeps P m"
  by (simp add: keeps_def)

lemma keepsD: "keeps P m \<Longrightarrow> P s \<Longrightarrow> P (snd (m s))"
  by (simp add: keeps_def)

lemma keeps_ok [intro, simp]: "keeps P (act_ok x)"
  by (simp add: keeps_def)

lemma keeps_err [intro, simp]: "keeps P (act_err e)"
  by (simp add: keeps_def)

lemma keeps_lift [intro, simp]: "keeps P (act_lift r)"
  by (simp add: keeps_def)

lemma keeps_bind [intro]:
  assumes "keeps P m" and "\<And>x. keeps P (f x)"
  shows "keeps P (act_bind m f)"
proof (rule keepsI)
  fix s assume "P s"
  with assms(1) have "P (snd (m s))" by (rule keepsD)
  with assms(2) show "P (snd (act_bind m f s))"
    by (auto simp: act_bind_def keeps_def split: prod.split sum.split)
qed

lemma keeps_try [intro]:
  assumes "keeps P m" and "\<And>r. keeps P (f r)"
  shows "keeps P (act_try m f)"
proof (rule keepsI)
  fix s assume "P s"
  with assms(1) have "P (snd (m s))" by (rule keepsD)
  with assms(2) show "P (snd (act_try m f s))"
    by (auto simp: act_try_def keeps_def split: prod.split)
qed

lemma keeps_map_err [intro]: "keeps P m \<Longrightarrow> keeps P (act_map_err g m)"
  by (auto simp: keeps_def act_map_err_def split: prod.split sum.split)

subsection \<open>A store beside the rest of the world\<close>

text \<open>
  A statement of the database, which raises (and changes nothing) or returns a value and the new
  store, and an action that leaves the store alone.
\<close>

definition run_tx :: "('w \<Rightarrow> string + 'a \<times> 'w) \<Rightarrow> ('w \<times> 'p, 'a) io" where
  "run_tx op = (\<lambda>(st, p). case op st of Inl e \<Rightarrow> (Inl (Msg e), (st, p))
     | Inr (x, st') \<Rightarrow> (Inr x, (st', p)))"

definition outside :: "('p, 'e, 'a) act \<Rightarrow> ('w \<times> 'p, 'e, 'a) act" where
  "outside m = (\<lambda>(st, p). case m p of (r, p') \<Rightarrow> (r, (st, p')))"

subsection \<open>Fallible values\<close>

text \<open>\<^verbatim>\<open>r?\<close> followed by the rest of a function without effects.\<close>

definition and_then :: "'e + 'a \<Rightarrow> ('a \<Rightarrow> 'e + 'b) \<Rightarrow> 'e + 'b" where
  "and_then r f = (case r of Inl e \<Rightarrow> Inl e | Inr x \<Rightarrow> f x)"

lemma and_then_simps [simp]:
  "and_then (Inl e) f = Inl e" "and_then (Inr x) f = f x"
  by (simp_all add: and_then_def)

lemma and_then_eq_Inr: "and_then r f = Inr y \<longleftrightarrow> (\<exists>x. r = Inr x \<and> f x = Inr y)"
  by (cases r) simp_all

text \<open>\<^verbatim>\<open>r.context(message)\<close>\<close>

definition with_context :: "string \<Rightarrow> anyhow + 'a \<Rightarrow> anyhow + 'a" where
  "with_context m r = (case r of Inl e \<Rightarrow> Inl (Context m e) | Inr x \<Rightarrow> Inr x)"

lemma with_context_eq_Inr [simp]: "with_context m r = Inr x \<longleftrightarrow> r = Inr x"
  by (cases r) (simp_all add: with_context_def)

section \<open>Strings\<close>

subsection \<open>Trimming\<close>

text \<open>
  The UTF-8 encodings of the characters for which \<^verbatim>\<open>char::is_whitespace\<close> holds (the Unicode
  property \<^verbatim>\<open>White_Space\<close>).
\<close>

definition utf8_whitespace :: "string list" where
  "utf8_whitespace =
    [[CHR 0x09], [CHR 0x0A], [CHR 0x0B], [CHR 0x0C], [CHR 0x0D], [CHR 0x20],
     [CHR 0xC2, CHR 0x85], [CHR 0xC2, CHR 0xA0], [CHR 0xE1, CHR 0x9A, CHR 0x80],
     [CHR 0xE2, CHR 0x80, CHR 0x80], [CHR 0xE2, CHR 0x80, CHR 0x81],
     [CHR 0xE2, CHR 0x80, CHR 0x82], [CHR 0xE2, CHR 0x80, CHR 0x83],
     [CHR 0xE2, CHR 0x80, CHR 0x84], [CHR 0xE2, CHR 0x80, CHR 0x85],
     [CHR 0xE2, CHR 0x80, CHR 0x86], [CHR 0xE2, CHR 0x80, CHR 0x87],
     [CHR 0xE2, CHR 0x80, CHR 0x88], [CHR 0xE2, CHR 0x80, CHR 0x89],
     [CHR 0xE2, CHR 0x80, CHR 0x8A], [CHR 0xE2, CHR 0x80, CHR 0xA8],
     [CHR 0xE2, CHR 0x80, CHR 0xA9], [CHR 0xE2, CHR 0x80, CHR 0xAF],
     [CHR 0xE2, CHR 0x81, CHR 0x9F], [CHR 0xE3, CHR 0x80, CHR 0x80]]"

definition strip_start :: "string \<Rightarrow> string option" where
  "strip_start s = (case find (\<lambda>w. prefix w s) utf8_whitespace of
     None \<Rightarrow> None | Some w \<Rightarrow> Some (drop (length w) s))"

definition strip_end :: "string \<Rightarrow> string option" where
  "strip_end s = (case find (\<lambda>w. suffix w s) utf8_whitespace of
     None \<Rightarrow> None | Some w \<Rightarrow> Some (take (length s - length w) s))"

lemma utf8_whitespace_nonempty: "w \<in> set utf8_whitespace \<Longrightarrow> 0 < length w"
  by (auto simp: utf8_whitespace_def)

lemma strip_start_shorter: "strip_start s = Some t \<Longrightarrow> length t < length s"
  by (auto simp: strip_start_def find_Some_iff prefix_def nth_mem
      dest!: utf8_whitespace_nonempty[OF nth_mem] split: option.splits)

lemma strip_end_shorter: "strip_end s = Some t \<Longrightarrow> length t < length s"
  by (auto simp: strip_end_def find_Some_iff suffix_def nth_mem
      dest!: utf8_whitespace_nonempty[OF nth_mem] split: option.splits)

function trim_start :: "string \<Rightarrow> string" where
  "trim_start s = (case strip_start s of None \<Rightarrow> s | Some t \<Rightarrow> trim_start t)"
  by pat_completeness auto
termination
  by (relation "measure length") (auto dest: strip_start_shorter)

function trim_end :: "string \<Rightarrow> string" where
  "trim_end s = (case strip_end s of None \<Rightarrow> s | Some t \<Rightarrow> trim_end t)"
  by pat_completeness auto
termination
  by (relation "measure length") (auto dest: strip_end_shorter)

declare trim_start.simps [simp del] trim_end.simps [simp del]

definition trim :: "string \<Rightarrow> string" where
  "trim s = trim_end (trim_start s)"

lemma strip_start_trim_start: "strip_start (trim_start s) = None"
proof (induction s rule: trim_start.induct)
  case (1 s)
  then show ?case
    by (cases "strip_start s") (simp_all add: trim_start.simps [of s])
qed

lemma strip_end_trim_end: "strip_end (trim_end s) = None"
proof (induction s rule: trim_end.induct)
  case (1 s)
  then show ?case
    by (cases "strip_end s") (simp_all add: trim_end.simps [of s])
qed

lemma strip_end_prefix: "strip_end s = Some t \<Longrightarrow> prefix t s"
  by (auto simp: strip_end_def take_is_prefix split: option.splits)

lemma prefix_trim_end: "prefix (trim_end s) s"
proof (induction s rule: trim_end.induct)
  case (1 s)
  then show ?case
    by (cases "strip_end s")
      (auto simp: trim_end.simps [of s] intro: prefix_order.trans dest: strip_end_prefix)
qed

lemma strip_start_None_prefix: "strip_start s = None \<Longrightarrow> prefix t s \<Longrightarrow> strip_start t = None"
  by (auto simp: strip_start_def find_None_iff split: option.splits intro: prefix_order.trans)

text \<open>Trimming leaves no whitespace at either end, so trimming again changes nothing.\<close>

lemma strip_start_trim: "strip_start (trim s) = None"
  unfolding trim_def by (rule strip_start_None_prefix [OF strip_start_trim_start prefix_trim_end])

lemma strip_end_trim: "strip_end (trim s) = None"
  by (simp add: trim_def strip_end_trim_end)

lemma trim_trim [simp, str_simps]: "trim (trim s) = trim s"
proof -
  have "trim_start (trim s) = trim s"
    by (subst trim_start.simps) (simp add: strip_start_trim)
  moreover have "trim_end (trim s) = trim s"
    by (subst trim_end.simps) (simp add: strip_end_trim)
  ultimately show ?thesis by (simp add: trim_def [of "trim s"])
qed

lemma length_trim_le: "length (trim s) \<le> length s"
proof -
  have "length (trim_start s) \<le> length s"
  proof (induction s rule: trim_start.induct)
    case (1 s)
    then show ?case
      by (cases "strip_start s")
        (auto simp: trim_start.simps [of s] dest: strip_start_shorter)
  qed
  moreover have "length (trim s) \<le> length (trim_start s)"
    unfolding trim_def by (rule prefix_length_le [OF prefix_trim_end])
  ultimately show ?thesis by simp
qed

text \<open>A blank string is one that trims to nothing.\<close>

abbreviation blank :: "string \<Rightarrow> bool" where
  "blank s \<equiv> trim s = []"

lemma trim_Nil [simp]: "trim [] = []"
  by code_simp

subsection \<open>ASCII case\<close>

definition ascii_upper :: "char \<Rightarrow> char" where
  "ascii_upper c = (let n = of_char c :: nat in if 97 \<le> n \<and> n \<le> 122 then char_of (n - 32) else c)"

definition ascii_lower :: "char \<Rightarrow> char" where
  "ascii_lower c = (let n = of_char c :: nat in if 65 \<le> n \<and> n \<le> 90 then char_of (n + 32) else c)"

definition to_ascii_uppercase :: "string \<Rightarrow> string" where
  "to_ascii_uppercase = map ascii_upper"

definition to_ascii_lowercase :: "string \<Rightarrow> string" where
  "to_ascii_lowercase = map ascii_lower"

definition eq_ignore_ascii_case :: "string \<Rightarrow> string \<Rightarrow> bool" where
  "eq_ignore_ascii_case a b \<longleftrightarrow> to_ascii_lowercase a = to_ascii_lowercase b"

definition is_ascii_alphabetic :: "char \<Rightarrow> bool" where
  "is_ascii_alphabetic c = (let n = of_char c :: nat in 65 \<le> n \<and> n \<le> 90 \<or> 97 \<le> n \<and> n \<le> 122)"

definition is_ascii_lowercase :: "char \<Rightarrow> bool" where
  "is_ascii_lowercase c = (let n = of_char c :: nat in 97 \<le> n \<and> n \<le> 122)"

definition is_ascii_digit :: "char \<Rightarrow> bool" where
  "is_ascii_digit c = (let n = of_char c :: nat in 48 \<le> n \<and> n \<le> 57)"

lemma ascii_upper_idem [simp]: "ascii_upper (ascii_upper c) = ascii_upper c"
  by (auto simp: ascii_upper_def Let_def of_char_of take_bit_nat_def)

lemma to_ascii_uppercase_idem [simp, str_simps]:
  "to_ascii_uppercase (to_ascii_uppercase s) = to_ascii_uppercase s"
  by (simp add: to_ascii_uppercase_def)

lemma eq_ignore_ascii_case_refl [simp]: "eq_ignore_ascii_case s s"
  by (simp add: eq_ignore_ascii_case_def)

lemma length_to_ascii_uppercase [simp]: "length (to_ascii_uppercase s) = length s"
  by (simp add: to_ascii_uppercase_def)

text \<open>No byte of a whitespace character is a letter, so trimming and upper-casing commute.\<close>

definition caseless :: "char \<Rightarrow> bool" where
  "caseless c \<longleftrightarrow> \<not> is_ascii_alphabetic c"

lemma ascii_upper_caseless_iff: "caseless b \<Longrightarrow> ascii_upper c = b \<longleftrightarrow> c = b"
  by (auto simp: caseless_def is_ascii_alphabetic_def ascii_upper_def Let_def of_char_of
      take_bit_nat_def)

lemma prefix_uppercase:
  "list_all caseless w \<Longrightarrow> prefix w (map ascii_upper s) \<longleftrightarrow> prefix w s"
proof (induction w arbitrary: s)
  case (Cons b w)
  then show ?case
    by (cases s) (auto simp: ascii_upper_caseless_iff [of b] eq_commute [of b])
qed simp

lemma suffix_uppercase:
  assumes "list_all caseless w"
  shows "suffix w (map ascii_upper s) \<longleftrightarrow> suffix w s"
proof -
  have "list_all caseless (rev w)" using assms by (simp add: list_all_iff)
  from prefix_uppercase [OF this, of "rev s"] show ?thesis
    by (simp add: suffix_to_prefix rev_map)
qed

lemma utf8_whitespace_caseless: "w \<in> set utf8_whitespace \<Longrightarrow> list_all caseless w"
  by (auto simp: utf8_whitespace_def caseless_def is_ascii_alphabetic_def)

lemma strip_start_uppercase:
  "strip_start (to_ascii_uppercase s) = map_option to_ascii_uppercase (strip_start s)"
proof -
  have "find (\<lambda>w. prefix w (map ascii_upper s)) utf8_whitespace =
        find (\<lambda>w. prefix w s) utf8_whitespace"
    by (rule find_cong) (simp_all add: prefix_uppercase utf8_whitespace_caseless)
  then show ?thesis
    by (simp add: strip_start_def to_ascii_uppercase_def drop_map split: option.split)
qed

lemma strip_end_uppercase:
  "strip_end (to_ascii_uppercase s) = map_option to_ascii_uppercase (strip_end s)"
proof -
  have "find (\<lambda>w. suffix w (map ascii_upper s)) utf8_whitespace =
        find (\<lambda>w. suffix w s) utf8_whitespace"
    by (rule find_cong) (simp_all add: suffix_uppercase utf8_whitespace_caseless)
  then show ?thesis
    by (simp add: strip_end_def to_ascii_uppercase_def take_map split: option.split)
qed

lemma trim_start_uppercase: "trim_start (to_ascii_uppercase s) = to_ascii_uppercase (trim_start s)"
proof (induction s rule: trim_start.induct)
  case (1 s)
  then show ?case
    by (cases "strip_start s")
      (simp_all add: trim_start.simps [of s] trim_start.simps [of "to_ascii_uppercase s"]
        strip_start_uppercase)
qed

lemma trim_end_uppercase: "trim_end (to_ascii_uppercase s) = to_ascii_uppercase (trim_end s)"
proof (induction s rule: trim_end.induct)
  case (1 s)
  then show ?case
    by (cases "strip_end s")
      (simp_all add: trim_end.simps [of s] trim_end.simps [of "to_ascii_uppercase s"]
        strip_end_uppercase)
qed

lemma trim_uppercase [str_simps]: "trim (to_ascii_uppercase s) = to_ascii_uppercase (trim s)"
  by (simp add: trim_def trim_start_uppercase trim_end_uppercase)

lemma to_ascii_uppercase_eq_Nil [simp]: "to_ascii_uppercase s = [] \<longleftrightarrow> s = []"
  by (simp add: to_ascii_uppercase_def)

subsection \<open>SQL text functions and UTF-8\<close>

text \<open>\<^verbatim>\<open>btrim\<close> removes blanks only.\<close>

definition btrim :: "string \<Rightarrow> string" where
  "btrim s = rev (dropWhile (\<lambda>c. c = CHR '' '') (rev (dropWhile (\<lambda>c. c = CHR '' '') s)))"

definition nullif_blank :: "string \<Rightarrow> string option" where
  "nullif_blank s = (let t = btrim s in if t = [] then None else Some t)"

definition coalesce :: "'a option \<Rightarrow> 'a \<Rightarrow> 'a" where
  "coalesce v d = (case v of Some x \<Rightarrow> x | None \<Rightarrow> d)"

text \<open>A byte that continues a UTF-8 sequence.\<close>

definition is_continuation_byte :: "char \<Rightarrow> bool" where
  "is_continuation_byte c = (let n = of_char c :: nat in 128 \<le> n \<and> n < 192)"

subsection \<open>Decimal numbers\<close>

definition digit_char :: "nat \<Rightarrow> char" where
  "digit_char d = char_of (48 + d)"

fun show_nat :: "nat \<Rightarrow> string" where
  "show_nat n = (if n < 10 then [digit_char n] else show_nat (n div 10) @ [digit_char (n mod 10)])"

declare show_nat.simps [simp del]

text \<open>The \<^verbatim>\<open>Display\<close> form of a signed integer.\<close>

definition show_int :: "int \<Rightarrow> string" where
  "show_int i = (if i < 0 then CHR ''-'' # show_nat (nat (- i)) else show_nat (nat i))"

text \<open>The value of a string of decimal digits.\<close>

fun read_nat_acc :: "nat \<Rightarrow> string \<Rightarrow> nat option" where
  "read_nat_acc acc [] = Some acc"
| "read_nat_acc acc (c # cs) =
     (if is_ascii_digit c then read_nat_acc (10 * acc + (of_char c - 48)) cs else None)"

lemma read_nat_acc_append:
  "read_nat_acc a (xs @ ys) =
     (case read_nat_acc a xs of None \<Rightarrow> None | Some b \<Rightarrow> read_nat_acc b ys)"
  by (induction xs arbitrary: a) auto

lemma of_char_digit_char: "d < 10 \<Longrightarrow> of_char (digit_char d) = 48 + d"
  by (simp add: digit_char_def of_char_of take_bit_nat_def)

lemma is_ascii_digit_digit_char: "d < 10 \<Longrightarrow> is_ascii_digit (digit_char d)"
  by (simp add: is_ascii_digit_def of_char_digit_char)

lemma read_show_nat: "read_nat_acc 0 (show_nat n) = Some n"
proof (induction n rule: show_nat.induct)
  case (1 n)
  then show ?case
    by (cases "n < 10")
      (simp_all add: show_nat.simps [of n] read_nat_acc_append is_ascii_digit_digit_char
        of_char_digit_char)
qed

lemma show_nat_nonempty [simp]: "show_nat n \<noteq> []"
  by (subst show_nat.simps) simp

lemma show_nat_inj: "show_nat m = show_nat n \<longleftrightarrow> m = n"
  by (metis option.inject read_show_nat)

lemma show_nat_digits: "list_all is_ascii_digit (show_nat n)"
proof (induction n rule: show_nat.induct)
  case (1 n)
  then show ?case
    by (cases "n < 10") (simp_all add: show_nat.simps [of n] is_ascii_digit_digit_char)
qed

lemma show_int_inj: "show_int i = show_int j \<longleftrightarrow> i = j"
proof -
  have neg: "show_nat n \<noteq> CHR ''-'' # xs" for n xs
    using show_nat_digits [of n] by (auto simp: is_ascii_digit_def)
  show ?thesis
    using neg neg[symmetric] by (auto simp: show_int_def show_nat_inj)
qed

text \<open>
  \<^verbatim>\<open>str::parse::<i64>\<close>: an optional sign, then at least one digit, each digit checked before the
  range of the accumulated value is.
\<close>

fun i64_digits :: "bool \<Rightarrow> int \<Rightarrow> string \<Rightarrow> anyhow + int" where
  "i64_digits neg acc [] = Inr acc"
| "i64_digits neg acc (c # cs) =
     (if is_ascii_digit c then
        let d = of_char c - 48; acc' = (if neg then 10 * acc - d else 10 * acc + d) in
        if neg \<and> acc' < - (2 ^ 63) then Inl (Msg ''number too small to fit in target type'')
        else if \<not> neg \<and> 2 ^ 63 \<le> acc' then Inl (Msg ''number too large to fit in target type'')
        else i64_digits neg acc' cs
      else Inl (Msg ''invalid digit found in string''))"

fun parse_i64 :: "string \<Rightarrow> anyhow + int" where
  "parse_i64 [] = Inl (Msg ''cannot parse integer from empty string'')"
| "parse_i64 (c # cs) =
     (if c = CHR ''-'' then
        (if cs = [] then Inl (Msg ''invalid digit found in string'') else i64_digits True 0 cs)
      else if c = CHR ''+'' then
        (if cs = [] then Inl (Msg ''invalid digit found in string'') else i64_digits False 0 cs)
      else i64_digits False 0 (c # cs))"

lemma digit_value: "is_ascii_digit c \<Longrightarrow> 48 \<le> (of_char c :: int)"
  by (metis is_ascii_digit_def of_nat_le_iff of_nat_numeral of_nat_of_char)

lemma i64_digits_range:
  "i64_digits neg acc cs = Inr v \<Longrightarrow> - (2 ^ 63) \<le> acc \<Longrightarrow> acc < 2 ^ 63 \<Longrightarrow>
     (if neg then acc \<le> 0 else 0 \<le> acc) \<Longrightarrow> - (2 ^ 63) \<le> v \<and> v < 2 ^ 63"
proof (induction neg acc cs rule: i64_digits.induct)
  case (2 neg acc c cs)
  with digit_value [of c] show ?case by (auto simp: Let_def split: if_splits)
qed simp

lemma parse_i64_range: "parse_i64 s = Inr v \<Longrightarrow> - (2 ^ 63) \<le> v \<and> v < 2 ^ 63"
  by (cases s) (auto simp del: i64_digits.simps split: if_splits dest!: i64_digits_range)

subsection \<open>Splitting\<close>

text \<open>\<^verbatim>\<open>str::split\<close> on a character: the pieces between its occurrences, at least one.\<close>

fun split_char :: "char \<Rightarrow> string \<Rightarrow> string list" where
  "split_char c [] = [[]]"
| "split_char c (x # xs) =
     (if x = c then [] # split_char c xs
      else case split_char c xs of [] \<Rightarrow> [[x]] | p # ps \<Rightarrow> (x # p) # ps)"

text \<open>\<^verbatim>\<open>splitn(2, c)\<close>: the text before the first occurrence and, if there is one, the text after.\<close>

definition split_once :: "char \<Rightarrow> string \<Rightarrow> string \<times> string option" where
  "split_once c s =
     (takeWhile (\<lambda>x. x \<noteq> c) s,
      case dropWhile (\<lambda>x. x \<noteq> c) s of [] \<Rightarrow> None | _ # rest \<Rightarrow> Some rest)"

subsection \<open>Lists\<close>

lemma find_Some_ex: "(\<exists>y. find P xs = Some y) \<longleftrightarrow> (\<exists>x\<in>set xs. P x)"
  by (induction xs) simp_all

lemma length_filter_mono:
  "(\<And>x. x \<in> set xs \<Longrightarrow> P x \<Longrightarrow> Q x) \<Longrightarrow> length (filter P xs) \<le> length (filter Q xs)"
  by (induction xs) (simp_all add: le_SucI)

lemma separator_unique:
  assumes "xs @ c # ys = xs' @ c # ys'" and "c \<notin> set xs" and "c \<notin> set xs'"
  shows "xs = xs' \<and> ys = ys'"
  using assms
proof (induction xs arbitrary: xs')
  case Nil
  then show ?case by (cases xs') auto
next
  case (Cons x xs)
  then show ?case by (cases xs') auto
qed

subsection \<open>Access to JSON documents\<close>

fun json_as_str :: "json \<Rightarrow> string option" where
  "json_as_str (JString s) = Some s"
| "json_as_str _ = None"

fun json_as_array :: "json \<Rightarrow> json list option" where
  "json_as_array (JArray vs) = Some vs"
| "json_as_array _ = None"

fun json_as_object :: "json \<Rightarrow> (string \<times> json) list option" where
  "json_as_object (JObject kvs) = Some kvs"
| "json_as_object _ = None"

text \<open>\<^verbatim>\<open>Value::get\<close> with a key\<close>

fun json_get :: "string \<Rightarrow> json \<Rightarrow> json option" where
  "json_get k (JObject kvs) = map_of kvs k"
| "json_get k _ = None"

text \<open>
  \<^verbatim>\<open>Value::pointer\<close>: the tokens between slashes lead through objects by key and through arrays by
  a decimal index without leading zeros. (No pointer of the program has an escaped character.)
\<close>

definition json_index :: "string \<Rightarrow> nat option" where
  "json_index s =
     (if s = [] \<or> hd s = CHR ''+'' \<or> hd s = CHR ''0'' \<and> length s \<noteq> 1 then None else read_nat_acc 0 s)"

fun json_step :: "string \<Rightarrow> json \<Rightarrow> json option" where
  "json_step k (JObject kvs) = map_of kvs k"
| "json_step k (JArray vs) =
     (case json_index k of Some i \<Rightarrow> if i < length vs then Some (vs ! i) else None | None \<Rightarrow> None)"
| "json_step k _ = None"

fun json_path :: "string list \<Rightarrow> json \<Rightarrow> json option" where
  "json_path [] v = Some v"
| "json_path (k # ks) v = (case json_step k v of None \<Rightarrow> None | Some w \<Rightarrow> json_path ks w)"

definition json_pointer :: "string \<Rightarrow> json \<Rightarrow> json option" where
  "json_pointer p v =
     (case p of [] \<Rightarrow> Some v
      | c # rest \<Rightarrow> if c = CHR ''/'' then json_path (split_char (CHR ''/'') rest) v else None)"

text \<open>Insertion into an object and removal of a key; the number of keys.\<close>

definition obj_insert :: "string \<Rightarrow> json \<Rightarrow> (string \<times> json) list \<Rightarrow> (string \<times> json) list" where
  "obj_insert k v kvs =
     (if k \<in> set (map fst kvs) then map (\<lambda>kv. if fst kv = k then (k, v) else kv) kvs else kvs @ [(k, v)])"

definition obj_remove :: "string \<Rightarrow> (string \<times> json) list \<Rightarrow> (string \<times> json) list" where
  "obj_remove k kvs = filter (\<lambda>kv. fst kv \<noteq> k) kvs"

definition obj_len :: "(string \<times> json) list \<Rightarrow> nat" where
  "obj_len kvs = length (remdups (map fst kvs))"

lemma map_of_replace:
  "map_of (map (\<lambda>kv. if fst kv = k then (k, v) else kv) kvs) j =
     (case map_of kvs j of None \<Rightarrow> None | Some x \<Rightarrow> Some (if j = k then v else x))"
  by (induction kvs) (auto split: option.split)

lemma map_of_obj_insert: "map_of (obj_insert k v kvs) j = (if j = k then Some v else map_of kvs j)"
proof (cases "k \<in> fst ` set kvs")
  case True
  then have "map_of kvs k \<noteq> None"
    by (simp add: map_of_eq_None_iff)
  then show ?thesis
    using True by (auto simp: obj_insert_def map_of_replace split: option.split)
next
  case False
  then have "map_of kvs k = None"
    by (simp add: map_of_eq_None_iff)
  then show ?thesis
    using False by (auto simp: obj_insert_def map_add_def split: option.split)
qed

lemma map_of_obj_remove: "map_of (obj_remove k kvs) j = (if j = k then None else map_of kvs j)"
  by (induction kvs) (auto simp: obj_remove_def)

subsection \<open>Identifiers as text\<close>

text \<open>The hyphenated lower-case form of an identifier, 8-4-4-4-12 hexadecimal digits.\<close>

definition hex_digit :: "nat \<Rightarrow> char" where
  "hex_digit n = (if n < 10 then char_of (48 + n) else char_of (87 + n))"

definition hex_digits :: "uuid \<Rightarrow> nat \<Rightarrow> nat \<Rightarrow> string" where
  "hex_digits u i j = map (\<lambda>k. hex_digit (nat (uint u div 16 ^ (31 - k) mod 16))) [i..<j]"

definition show_uuid :: "uuid \<Rightarrow> string" where
  "show_uuid u = hex_digits u 0 8 @ ''-'' @ hex_digits u 8 12 @ ''-'' @ hex_digits u 12 16 @ ''-'' @
     hex_digits u 16 20 @ ''-'' @ hex_digits u 20 32"

end
