(* ===== verification/Payment_Types.thy ===== *)
theory Payment_Types
  imports Prelude
begin

text \<open>
  The payments vocabulary of \<^verbatim>\<open>ocg-server/src/types/payments.rs\<close>: purchase and refund states,
  ticket types and their prices, the venue used for ticket tax, and price formatting. Amounts in
  minor units are \<^typ>\<open>int\<close>; the code copies, compares and divides them by a constant, so no
  operation of this theory can leave the \<^verbatim>\<open>i64\<close> range.
\<close>

section \<open>Enumerations\<close>

datatype EventPurchaseStatus =
    PurchaseCompleted | PurchaseExpired | PurchasePending | PurchaseRefunded
  | RefundPending | RefundRecoveryPending | RefundRequested

datatype EventRefundProgress =
    AwaitingCheckout | RefundInProcess | RefundQueuedForWorker | RecoveryRequired
  | RefundDone | RetryableFailure

datatype EventRefundRequestStatus = Approved | Approving | RequestPending | Rejected

datatype PaymentMode = Live | Test

datatype PaymentProvider = Stripe

datatype EventTicketTypeAvailability = InvitationOnly | Public

datatype TicketTaxBehavior = Exclusive | Inclusive

datatype TicketTaxCalculationMode = TaxAutomatic | TaxManual | TaxNone

definition collects_tax :: "TicketTaxCalculationMode \<Rightarrow> bool" where
  "collects_tax m \<longleftrightarrow> m \<noteq> TaxNone"

section \<open>Records\<close>

record EventPurchaseSummary =
  eps_amount_minor :: int
  eps_discount_amount_minor :: int
  eps_event_purchase_id :: uuid
  eps_event_ticket_type_id :: uuid
  eps_provisional_platform_fee_amount_minor :: int
  eps_status :: EventPurchaseStatus
  eps_ticket_title :: string
  eps_completed_at :: "instant option"
  eps_currency_code :: "string option"
  eps_discount_code :: "string option"
  eps_hold_expires_at :: "instant option"
  eps_provider_checkout_url :: "string option"
  eps_provider_object_account_id :: "string option"
  eps_provider_payment_reference :: "string option"
  eps_provider_session_id :: "string option"
  eps_provider_total_minor :: "int option"
  eps_refunded_at :: "instant option"

record EventTicketCurrentPrice =
  cp_amount_minor :: int
  cp_ends_at :: "instant option"
  cp_starts_at :: "instant option"

record EventTicketPriceWindow =
  pw_amount_minor :: int
  pw_event_ticket_price_window_id :: uuid
  pw_ends_at :: "instant option"
  pw_starts_at :: "instant option"

record EventTicketType =
  tt_active :: bool
  tt_availability :: EventTicketTypeAvailability
  tt_event_ticket_type_id :: uuid
  tt_order :: int
  tt_title :: string
  tt_current_price :: "EventTicketCurrentPrice option"
  tt_description :: "string option"
  tt_price_windows :: "EventTicketPriceWindow list"
  tt_remaining_seats :: "int option"
  tt_seats_total :: "int option"
  tt_sold_out :: bool

record FiscalSponsorSeller =
  fs_connected_account_id :: string
  fs_display_name :: string
  fs_provider :: PaymentProvider

record GroupPaymentRecipient =
  gr_provider :: PaymentProvider
  gr_recipient_id :: string
  gr_seller_display_name :: string

record TicketTaxRate =
  tr_display_name :: string
  tr_id :: string
  tr_inclusive :: bool
  tr_percentage :: string
  tr_jurisdiction :: "string option"

record TicketVenue =
  tv_address :: string
  tv_city :: string
  tv_country_code :: string
  tv_name :: string
  tv_zip_code :: string
  tv_state_code :: "string option"
  tv_state_name :: "string option"

record PreparedEventCheckout =
  pc_community_display_name :: string
  pc_community_name :: string
  pc_event_id :: uuid
  pc_event_name :: string
  pc_event_slug :: string
  pc_event_timezone :: string
  pc_group_name :: string
  pc_group_slug :: string
  pc_purchase :: EventPurchaseSummary
  pc_cached_performance_location_fingerprint :: "string option"
  pc_cached_product_fingerprint :: "string option"
  pc_cached_provider_tax_location_id :: "string option"
  pc_cached_provider_tax_product_id :: "string option"
  pc_event_starts_at :: "instant option"
  pc_group_slug_pretty :: "string option"
  pc_manual_tax_rate_ids :: "string list option"
  pc_seller :: "FiscalSponsorSeller option"
  pc_tax_behavior :: "TicketTaxBehavior option"
  pc_tax_calculation_mode :: "TicketTaxCalculationMode option"
  pc_tax_code :: "string option"
  pc_venue :: "TicketVenue option"

section \<open>Ticket prices\<close>

text \<open>The clock \<^verbatim>\<open>Utc::now()\<close> is the argument \<open>now\<close>.\<close>

definition is_active_now :: "instant \<Rightarrow> EventTicketPriceWindow \<Rightarrow> bool" where
  "is_active_now now w =
     (if (case pw_starts_at w of Some starts_at \<Rightarrow> now < starts_at | None \<Rightarrow> False) then False
      else if (case pw_ends_at w of Some ends_at \<Rightarrow> now > ends_at | None \<Rightarrow> False) then False
      else True)"

definition current_amount_minor :: "instant \<Rightarrow> EventTicketType \<Rightarrow> int option" where
  "current_amount_minor now t =
     (case map_option cp_amount_minor (tt_current_price t) of
        Some a \<Rightarrow> Some a
      | None \<Rightarrow> map_option pw_amount_minor (find (is_active_now now) (tt_price_windows t)))"

definition is_sellable_now :: "instant \<Rightarrow> EventTicketType \<Rightarrow> bool" where
  "is_sellable_now now t \<longleftrightarrow>
     tt_active t \<and> \<not> tt_sold_out t \<and> current_amount_minor now t \<noteq> None"

section \<open>Price formatting\<close>

definition ZERO_DECIMAL_CURRENCY_CODES :: "string list" where
  "ZERO_DECIMAL_CURRENCY_CODES =
     [''BIF'', ''CLP'', ''DJF'', ''GNF'', ''JPY'', ''KMF'', ''KRW'', ''MGA'', ''PYG'', ''RWF'',
      ''UGX'', ''VND'', ''VUV'', ''XAF'', ''XOF'', ''XPF'']"

definition normalized_currency_code :: "string \<Rightarrow> string" where
  "normalized_currency_code c = to_ascii_uppercase (trim c)"

definition uses_zero_decimal_minor_units :: "string \<Rightarrow> bool" where
  "uses_zero_decimal_minor_units c \<longleftrightarrow> c \<in> set ZERO_DECIMAL_CURRENCY_CODES"

text \<open>Rust's integer division truncates towards zero, and \<^verbatim>\<open>%\<close> takes the dividend's sign.\<close>

definition rust_div :: "int \<Rightarrow> int \<Rightarrow> int" where
  "rust_div a b = sgn a * sgn b * (\<bar>a\<bar> div \<bar>b\<bar>)"

definition rust_rem :: "int \<Rightarrow> int \<Rightarrow> int" where
  "rust_rem a b = a - b * rust_div a b"

text \<open>The format \<^verbatim>\<open>{:02}\<close> of a non-negative number.\<close>

definition show_pad2 :: "int \<Rightarrow> string" where
  "show_pad2 n = (let d = show_int n in replicate (2 - length d) (CHR ''0'') @ d)"

definition format_amount_minor :: "int \<Rightarrow> string \<Rightarrow> string" where
  "format_amount_minor amount_minor currency_code =
     (let code = normalized_currency_code currency_code in
      if uses_zero_decimal_minor_units code then code @ '' '' @ show_int amount_minor
      else code @ '' '' @ show_int (rust_div amount_minor 100) @ ''.'' @
           show_pad2 \<bar>rust_rem amount_minor 100\<bar>)"

definition formatted_current_price :: "instant \<Rightarrow> EventTicketType \<Rightarrow> string \<Rightarrow> string option" where
  "formatted_current_price now t currency_code =
     (case current_amount_minor now t of
        None \<Rightarrow> None
      | Some amount_minor \<Rightarrow>
          if amount_minor = 0 then Some ''Free''
          else Some (format_amount_minor amount_minor currency_code))"

section \<open>The ticket venue\<close>

datatype TicketVenueField =
  FieldAddress | FieldCity | FieldCountryCode | FieldName | FieldZipCode

definition has_valid_country_code :: "TicketVenue \<Rightarrow> bool" where
  "has_valid_country_code v \<longleftrightarrow>
     length (tv_country_code v) = 2 \<and> list_all is_ascii_alphabetic (tv_country_code v)"

definition missing_required_fields :: "TicketVenue \<Rightarrow> TicketVenueField list" where
  "missing_required_fields v =
     map fst (filter (\<lambda>(field, value). blank value)
       [(FieldAddress, tv_address v), (FieldCity, tv_city v),
        (FieldCountryCode, tv_country_code v), (FieldName, tv_name v),
        (FieldZipCode, tv_zip_code v)])"

definition filter_option :: "('a \<Rightarrow> bool) \<Rightarrow> 'a option \<Rightarrow> 'a option" where
  "filter_option P v = (case v of None \<Rightarrow> None | Some x \<Rightarrow> if P x then Some x else None)"

definition venue_normalized :: "TicketVenue \<Rightarrow> TicketVenue" where
  "venue_normalized v =
     \<lparr>tv_address = trim (tv_address v), tv_city = trim (tv_city v),
      tv_country_code = to_ascii_uppercase (trim (tv_country_code v)),
      tv_name = trim (tv_name v), tv_zip_code = trim (tv_zip_code v),
      tv_state_code = map_option to_ascii_uppercase
        (filter_option (\<lambda>s. s \<noteq> []) (map_option trim (tv_state_code v))),
      tv_state_name = filter_option (\<lambda>s. s \<noteq> []) (map_option trim (tv_state_name v))\<rparr>"

text \<open>
  The bytes fed to the digest: every part followed by a zero byte. SHA-256 with its hexadecimal
  encoding (the crates \<^verbatim>\<open>sha2\<close> and \<^verbatim>\<open>hex\<close>) is the parameter \<open>hex_sha256\<close>.
\<close>

definition fingerprint_input :: "string list \<Rightarrow> string" where
  "fingerprint_input parts = concat (map (\<lambda>p. p @ [CHR 0x00]) parts)"

definition venue_fingerprint_parts :: "TicketVenue \<Rightarrow> string list" where
  "venue_fingerprint_parts v =
     [tv_address v, tv_city v, tv_country_code v, tv_name v,
      (case tv_state_code v of None \<Rightarrow> [] | Some c \<Rightarrow> c), tv_zip_code v]"

definition performance_location_fingerprint :: "(string \<Rightarrow> string) \<Rightarrow> TicketVenue \<Rightarrow> string" where
  "performance_location_fingerprint hex_sha256 v =
     hex_sha256 (fingerprint_input (venue_fingerprint_parts v))"

section \<open>Properties\<close>

subsection \<open>Normalized venues and their fingerprint\<close>

lemma missing_required_fields_normalized:
  "missing_required_fields (venue_normalized v) = missing_required_fields v"
  by (simp add: missing_required_fields_def venue_normalized_def trim_uppercase)

lemma fingerprint_input_inj:
  assumes "fingerprint_input ps = fingerprint_input qs"
    and "\<forall>p\<in>set ps. CHR 0x00 \<notin> set p" and "\<forall>q\<in>set qs. CHR 0x00 \<notin> set q"
  shows "ps = qs"
  using assms
proof (induction ps arbitrary: qs)
  case Nil
  then show ?case by (cases qs) (auto simp: fingerprint_input_def)
next
  case (Cons p ps)
  obtain q qs' where qs: "qs = q # qs'"
    using Cons.prems(1) by (cases qs) (auto simp: fingerprint_input_def)
  have eq: "p @ CHR 0x00 # fingerprint_input ps = q @ CHR 0x00 # fingerprint_input qs'"
    using Cons.prems(1) by (simp add: fingerprint_input_def qs)
  have "p = q \<and> fingerprint_input ps = fingerprint_input qs'"
    by (rule separator_unique [OF eq]) (use Cons.prems(2,3) qs in auto)
  with Cons show ?case by (simp add: qs)
qed

text \<open>
  Normalizing a venue before provider use and caching is idempotent, and it never changes
  which required fields are reported missing, so a venue that validated before normalization is
  not rejected after it (nor the other way round).
\<close>

theorem venue_normalized_stable:
  "venue_normalized (venue_normalized v) = venue_normalized v \<and>
   missing_required_fields (venue_normalized v) = missing_required_fields v"
proof
  show "venue_normalized (venue_normalized v) = venue_normalized v"
    by (cases "tv_state_code v"; cases "tv_state_name v")
      (auto simp: venue_normalized_def filter_option_def trim_uppercase)
  show "missing_required_fields (venue_normalized v) = missing_required_fields v"
    by (rule missing_required_fields_normalized)
qed

text \<open>
  The zero byte after every part makes the digest input unambiguous: two venues whose parts
  contain no zero byte have the same fingerprint exactly when the parts agree or when the two
  digest inputs are an actual collision of the hash.
\<close>

theorem fingerprint_eq_iff:
  assumes "\<forall>p\<in>set (venue_fingerprint_parts v) \<union> set (venue_fingerprint_parts w). CHR 0x00 \<notin> set p"
  shows "performance_location_fingerprint sha v = performance_location_fingerprint sha w \<longleftrightarrow>
     venue_fingerprint_parts v = venue_fingerprint_parts w \<or>
     fingerprint_input (venue_fingerprint_parts v) \<noteq> fingerprint_input (venue_fingerprint_parts w) \<and>
     sha (fingerprint_input (venue_fingerprint_parts v)) =
       sha (fingerprint_input (venue_fingerprint_parts w))"
  using assms fingerprint_input_inj [of "venue_fingerprint_parts v" "venue_fingerprint_parts w"]
  by (auto simp: performance_location_fingerprint_def)

definition sample_venue :: "string \<Rightarrow> string \<Rightarrow> TicketVenue" where
  "sample_venue address city =
     \<lparr>tv_address = address, tv_city = city, tv_country_code = ''DE'', tv_name = ''Hall'',
      tv_zip_code = ''10115'', tv_state_code = None, tv_state_name = None\<rparr>"

theorem fingerprint_eq_iff_witness:
  "performance_location_fingerprint id (sample_venue ''ab'' ''c'') \<noteq>
   performance_location_fingerprint id (sample_venue ''a'' ''bc'')"
  using fingerprint_eq_iff [of "sample_venue ''ab'' ''c''" "sample_venue ''a'' ''bc''" id]
  by (simp add: sample_venue_def venue_fingerprint_parts_def)

subsection \<open>Prices\<close>

lemma rust_div_100:
  "rust_div a 100 = (if a < 0 then - ((- a) div 100) else a div 100)"
  by (simp add: rust_div_def sgn_if)

lemma rust_rem_100: "rust_rem a 100 = (if a < 0 then - ((- a) mod 100) else a mod 100)"
  by (auto simp: rust_rem_def rust_div_100 minus_div_mult_eq_mod mod_div_decomp algebra_simps
     simp flip: minus_div_mult_eq_mod minus_mult_div_eq_mod)

lemma abs_rust_rem_100: "\<bar>rust_rem a 100\<bar> = \<bar>a\<bar> mod 100"
  by (simp add: rust_rem_100)

lemma read_show_pad2: "0 \<le> n \<Longrightarrow> read_nat_acc 0 (show_pad2 n) = Some (nat n)"
proof -
  have "read_nat_acc 0 (replicate k (CHR ''0'') @ s) = read_nat_acc 0 s" for k s
    by (induction k) (simp_all add: is_ascii_digit_def)
  moreover assume "0 \<le> n"
  ultimately show ?thesis
    by (simp add: show_pad2_def Let_def show_int_def read_show_nat)
qed

lemma show_pad2_inj: "0 \<le> m \<Longrightarrow> 0 \<le> n \<Longrightarrow> show_pad2 m = show_pad2 n \<longleftrightarrow> m = n"
  by (metis int_nat_eq option.inject read_show_pad2)

lemma dot_notin_show_int: "CHR ''.'' \<notin> set (show_int i)"
  using show_nat_digits [of "nat i"] show_nat_digits [of "nat (- i)"]
  by (auto simp: show_int_def list_all_iff is_ascii_digit_def)

lemma whole_fraction_iff:
  "rust_div a 100 = rust_div b 100 \<and> \<bar>rust_rem a 100\<bar> = \<bar>rust_rem b 100\<bar> \<longleftrightarrow>
     a = b \<or> \<bar>a\<bar> = \<bar>b\<bar> \<and> \<bar>a\<bar> < 100"
proof
  assume eq: "rust_div a 100 = rust_div b 100 \<and> \<bar>rust_rem a 100\<bar> = \<bar>rust_rem b 100\<bar>"
  have abs_div: "\<bar>rust_div x 100\<bar> = \<bar>x\<bar> div 100" for x
    by (simp add: rust_div_100)
  have abs_eq: "\<bar>a\<bar> = \<bar>b\<bar>"
    using eq abs_div abs_rust_rem_100 by (metis div_mult_mod_eq)
  show "a = b \<or> \<bar>a\<bar> = \<bar>b\<bar> \<and> \<bar>a\<bar> < 100"
  proof (cases "a = b")
    case False
    with abs_eq have "a = - b" by linarith
    with eq have "\<bar>a\<bar> div 100 = 0"
      by (auto simp: rust_div_100 split: if_splits)
    with abs_eq show ?thesis by linarith
  qed simp
next
  assume "a = b \<or> \<bar>a\<bar> = \<bar>b\<bar> \<and> \<bar>a\<bar> < 100"
  then show "rust_div a 100 = rust_div b 100 \<and> \<bar>rust_rem a 100\<bar> = \<bar>rust_rem b 100\<bar>"
    unfolding abs_rust_rem_100 by (auto simp: rust_div_def)
qed

text \<open>
  A formatted price determines the amount, except that in a currency with two decimals an
  amount strictly between -100 and 0 is shown like its absolute value: the sign of a negative
  amount comes from the whole part alone, which is zero there.
\<close>

theorem format_amount_minor_eq_iff:
  "format_amount_minor a c = format_amount_minor b c \<longleftrightarrow>
     a = b \<or> \<not> uses_zero_decimal_minor_units (normalized_currency_code c) \<and>
             \<bar>a\<bar> = \<bar>b\<bar> \<and> \<bar>a\<bar> < 100"
proof (cases "uses_zero_decimal_minor_units (normalized_currency_code c)")
  case True
  then show ?thesis by (simp add: format_amount_minor_def Let_def show_int_inj)
next
  case False
  have "show_int (rust_div a 100) @ CHR ''.'' # show_pad2 \<bar>rust_rem a 100\<bar> =
        show_int (rust_div b 100) @ CHR ''.'' # show_pad2 \<bar>rust_rem b 100\<bar> \<longleftrightarrow>
        rust_div a 100 = rust_div b 100 \<and> \<bar>rust_rem a 100\<bar> = \<bar>rust_rem b 100\<bar>"
    using separator_unique [OF _ dot_notin_show_int dot_notin_show_int] show_int_inj show_pad2_inj
    by (metis abs_ge_zero)
  with False show ?thesis
    unfolding whole_fraction_iff by (simp add: format_amount_minor_def Let_def)
qed
text \<open>
  A ticket type is sellable exactly when it is active, not sold out and has a price, and the
  price is the precomputed current price or, without one, the amount of the first price window
  containing the current instant.
\<close>

theorem is_sellable_now_iff:
  "is_sellable_now now t \<longleftrightarrow>
     tt_active t \<and> \<not> tt_sold_out t \<and>
     ((\<exists>price. tt_current_price t = Some price) \<or>
      (\<exists>w\<in>set (tt_price_windows t).
         (case pw_starts_at w of None \<Rightarrow> True | Some s \<Rightarrow> s \<le> now) \<and>
         (case pw_ends_at w of None \<Rightarrow> True | Some e \<Rightarrow> now \<le> e)))"
proof -
  have active: "is_active_now now w \<longleftrightarrow>
      (case pw_starts_at w of None \<Rightarrow> True | Some s \<Rightarrow> s \<le> now) \<and>
      (case pw_ends_at w of None \<Rightarrow> True | Some e \<Rightarrow> now \<le> e)" for w
    by (auto simp: is_active_now_def split: option.splits)
  show ?thesis
    unfolding is_sellable_now_def current_amount_minor_def active [symmetric]
    by (cases "tt_current_price t") (simp_all add: find_Some_ex)
qed

end
