(* ===== verification/Payments_Interfaces.thy ===== *)
theory Payments_Interfaces
  imports Payment_Types
begin

text \<open>
  The two boundaries of the payments service. The types exchanged with a payments provider
  (\<^verbatim>\<open>ocg-server/src/services/payments/provider.rs\<close>) and with the database
  (\<^verbatim>\<open>ocg-server/src/db/payments.rs\<close>), and the traits \<^verbatim>\<open>PaymentsProvider\<close> and \<^verbatim>\<open>DBPayments\<close>.

  A trait object is a record of its methods. A method is an action on the world \<^typ>\<open>'s\<close>, which
  stands for the database, the provider and everything else outside the process; the code that
  uses a trait object takes the record as an argument, as it holds an \<^verbatim>\<open>Arc<dyn Trait>\<close>.
\<close>

section \<open>Types exchanged with the provider\<close>

record AutomaticTaxReadiness =
  atr_cached :: bool
  atr_fingerprint :: string
  atr_provider_tax_location_id :: string
  atr_state_code :: "string option"

datatype AutomaticTaxReadinessError =
    CountryInvalid string
  | FiscalSponsorNotReady string
  | IncompleteVenue "string list"
  | InvalidAddress
  | StateCodeInvalid string string
  | StateCodeRequired string
  | UnsupportedCountry
  | ReadinessUnexpected anyhow

definition readiness_error_code :: "AutomaticTaxReadinessError \<Rightarrow> string" where
  "readiness_error_code e = (case e of
     CountryInvalid _ \<Rightarrow> ''country_invalid''
   | FiscalSponsorNotReady _ \<Rightarrow> ''fiscal_sponsor_not_ready''
   | IncompleteVenue _ \<Rightarrow> ''incomplete_venue''
   | InvalidAddress \<Rightarrow> ''invalid_address''
   | StateCodeInvalid _ _ \<Rightarrow> ''state_code_invalid''
   | StateCodeRequired _ \<Rightarrow> ''state_code_required''
   | UnsupportedCountry \<Rightarrow> ''unsupported_country''
   | ReadinessUnexpected _ \<Rightarrow> ''provider_unavailable'')"

definition readiness_error_fields :: "AutomaticTaxReadinessError \<Rightarrow> string list" where
  "readiness_error_fields e = (case e of
     CountryInvalid _ \<Rightarrow> [''venue_country_code'']
   | UnsupportedCountry \<Rightarrow> [''venue_country_code'']
   | IncompleteVenue names \<Rightarrow> names
   | InvalidAddress \<Rightarrow> [''venue_address'', ''venue_city'', ''venue_zip_code'', ''venue_country_code'']
   | StateCodeInvalid _ _ \<Rightarrow> [''venue_state_code'']
   | StateCodeRequired _ \<Rightarrow> [''venue_state_code'']
   | FiscalSponsorNotReady _ \<Rightarrow> []
   | ReadinessUnexpected _ \<Rightarrow> [])"

definition is_correctable :: "AutomaticTaxReadinessError \<Rightarrow> bool" where
  "is_correctable e = (case e of ReadinessUnexpected _ \<Rightarrow> False | _ \<Rightarrow> True)"

record PerformanceLocationInput =
  pli_connected_seller_id :: string
  pli_venue :: TicketVenue
  pli_cached_fingerprint :: "string option"
  pli_cached_provider_tax_location_id :: "string option"

record ApplicationFeeAdjustmentInput =
  fai_amount_minor :: int
  fai_connected_seller_id :: string
  fai_event_purchase_id :: uuid
  fai_idempotency_key :: string
  fai_kind :: string
  fai_provider_application_fee_id :: string

record ApplicationFeeAdjustmentResult =
  far_provider_application_fee_refund_id :: string

record CheckoutFinancialContext =
  cfc_provider_charge_id :: string
  cfc_provider_payment_reference :: string
  cfc_provider_total_minor :: int
  cfc_tax_amount_minor :: int
  cfc_provider_application_fee_id :: "string option"

record CheckoutSession =
  cs_provider_object_account_id :: string
  cs_provider_session_id :: string
  cs_redirect_url :: string
  cs_performance_location_fingerprint :: "string option"
  cs_product_fingerprint :: "string option"
  cs_provider_tax_location_id :: "string option"
  cs_provider_tax_product_id :: "string option"

record CreateCheckoutSessionInput =
  ci_amount_minor :: int
  ci_base_url :: string
  ci_community_display_name :: string
  ci_community_name :: string
  ci_currency_code :: string
  ci_event_id :: uuid
  ci_event_name :: string
  ci_event_slug :: string
  ci_event_timezone :: string
  ci_group_name :: string
  ci_group_slug :: string
  ci_provisional_platform_fee_amount_minor :: int
  ci_purchase_id :: uuid
  ci_seller :: FiscalSponsorSeller
  ci_tax_behavior :: TicketTaxBehavior
  ci_tax_calculation_mode :: TicketTaxCalculationMode
  ci_ticket_title :: string
  ci_user_id :: uuid
  ci_venue :: TicketVenue
  ci_cached_performance_location_fingerprint :: "string option"
  ci_cached_product_fingerprint :: "string option"
  ci_cached_provider_tax_location_id :: "string option"
  ci_cached_provider_tax_product_id :: "string option"
  ci_discount_code :: "string option"
  ci_group_slug_pretty :: "string option"
  ci_manual_tax_rate_ids :: "string list option"
  ci_tax_code :: "string option"

definition public_group_slug :: "CreateCheckoutSessionInput \<Rightarrow> string" where
  "public_group_slug i = (case ci_group_slug_pretty i of Some s \<Rightarrow> s | None \<Rightarrow> ci_group_slug i)"

record CreditNoteInput =
  cni_amount_minor :: int
  cni_connected_seller_id :: string
  cni_event_purchase_id :: uuid
  cni_event_purchase_refund_id :: uuid
  cni_idempotency_key :: string
  cni_provider_invoice_id :: string
  cni_provider_refund_id :: string
  cni_tax_amount_minor :: int

record CreditNoteResult =
  cnr_provider_credit_note_id :: string
  cnr_provider_hosted_url :: "string option"
  cnr_provider_pdf_url :: "string option"

record FinancialDocument =
  fd_hosted_url :: "string option"
  fd_pdf_url :: "string option"

definition financial_document_url :: "FinancialDocument \<Rightarrow> string option" where
  "financial_document_url d = (case fd_hosted_url d of Some u \<Rightarrow> Some u | None \<Rightarrow> fd_pdf_url d)"

datatype FinancialDocumentKind = CreditNoteDocument | InvoiceDocument

record FindRefundInput =
  fri_amount_minor :: int
  fri_connected_seller_id :: string
  fri_provider_payment_reference :: string
  fri_purchase_id :: uuid
  fri_provider_refund_id :: "string option"

datatype FiscalSponsorReadinessError = NotReady string | SponsorUnexpected anyhow

record FiscalSponsorReadinessInput =
  fsi_connected_seller_id :: string
  fsi_provider :: PaymentProvider
  fsi_require_automatic_tax :: bool

record GetCheckoutFinancialContextInput =
  gci_connected_seller_id :: string
  gci_provider_session_id :: string

record GetFinancialDocumentInput =
  gdi_connected_seller_id :: string
  gdi_kind :: FinancialDocumentKind
  gdi_provider_document_id :: string

record ListTaxRatesInput =
  lti_connected_seller_id :: string
  lti_tax_behavior :: TicketTaxBehavior

datatype PaymentsWebhookEndpoint = ConnectedAccount | PlatformAccount

datatype RefundPaymentStatus = RefundFailed | RefundIsPending | RefundSucceeded

text \<open>The fields of each variant are in the order of the declaration in the source.\<close>

datatype PaymentsWebhookEvent =
    ApplicationFeeCreated (wfee_amount_minor: int) (wfee_connected_account_id: string)
      (wfee_is_live: bool) (wfee_provider_application_fee_id: string)
      (wfee_provider_charge_id: string)
  | CheckoutCompleted (wcc_connected_account_id: string) (wcc_is_live: bool)
      (wcc_provider_session_id: string)
  | CheckoutExpired (wce_connected_account_id: string) (wce_is_live: bool)
      (wce_provider_session_id: string)
  | InvoicePaid (wip_connected_account_id: string) (wip_hosted_url: string) (wip_is_live: bool)
      (wip_provider_invoice_id: string) (wip_purchase_id: uuid) (wip_pdf_url: "string option")
  | WebhookNoop
  | RefundUpdated (wru_amount_minor: int) (wru_connected_account_id: string)
      (wru_currency_code: string) (wru_is_live: bool) (wru_provider_payment_reference: string)
      (wru_provider_refund_id: string) (wru_purchase_id: uuid) (wru_status: RefundPaymentStatus)

record RefundPaymentInput =
  rpi_amount_minor :: int
  rpi_connected_seller_id :: string
  rpi_idempotency_key :: string
  rpi_provider_payment_reference :: string
  rpi_purchase_id :: uuid

record RefundPaymentResult =
  rpr_provider_refund_id :: string
  rpr_status :: RefundPaymentStatus

record ValidateTaxRatesInput =
  vti_connected_seller_id :: string
  vti_manual_tax_rate_ids :: "string list"
  vti_tax_behavior :: TicketTaxBehavior

section \<open>The provider trait\<close>

text \<open>HTTP headers as the pairs of name and value the request carries, names in lower case.\<close>

type_synonym header_map = "(string \<times> string) list"

record 's PaymentsProvider =
  pp_create_checkout_session :: "CreateCheckoutSessionInput \<Rightarrow> ('s, CheckoutSession) io"
  pp_ensure_performance_location ::
    "PerformanceLocationInput \<Rightarrow> ('s, AutomaticTaxReadinessError, AutomaticTaxReadiness) act"
  pp_find_refund :: "FindRefundInput \<Rightarrow> ('s, RefundPaymentResult option) io"
  pp_get_checkout_financial_context ::
    "GetCheckoutFinancialContextInput \<Rightarrow> ('s, CheckoutFinancialContext) io"
  pp_get_financial_document :: "GetFinancialDocumentInput \<Rightarrow> ('s, FinancialDocument) io"
  pp_list_tax_rates :: "ListTaxRatesInput \<Rightarrow> ('s, TicketTaxRate list) io"
  pp_provider :: PaymentProvider
  pp_reconcile_application_fee_adjustment ::
    "ApplicationFeeAdjustmentInput \<Rightarrow> ('s, ApplicationFeeAdjustmentResult) io"
  pp_reconcile_credit_note :: "CreditNoteInput \<Rightarrow> ('s, CreditNoteResult) io"
  pp_refund_payment :: "RefundPaymentInput \<Rightarrow> ('s, RefundPaymentResult) io"
  pp_validate_fiscal_sponsor ::
    "FiscalSponsorReadinessInput \<Rightarrow> ('s, FiscalSponsorReadinessError, unit) act"
  pp_validate_tax_rates :: "ValidateTaxRatesInput \<Rightarrow> ('s, FiscalSponsorReadinessError, unit) act"
  pp_verify_and_parse_webhook ::
    "PaymentsWebhookEndpoint \<Rightarrow> header_map \<Rightarrow> string \<Rightarrow> ('s, PaymentsWebhookEvent) io"

section \<open>Types exchanged with the database\<close>

datatype EventPurchaseRefundKind =
    AttendanceCancellation | AutomaticUnfulfillableCheckout | EventCancellation
  | RefundRequestApproval

datatype EventPurchaseRefundStatus =
    Finalized | Processing | ProviderFailed | ProviderPending | ProviderSucceeded

record EventPurchaseRefund =
  rf_amount_minor :: int
  rf_currency_code :: string
  rf_event_purchase_id :: uuid
  rf_event_purchase_refund_id :: uuid
  rf_idempotency_key :: string
  rf_kind :: EventPurchaseRefundKind
  rf_payment_provider :: PaymentProvider
  rf_status :: EventPurchaseRefundStatus
  rf_terminal_failure :: bool
  rf_attempt_count :: int
  rf_claim_id :: "uuid option"
  rf_failure_message :: "string option"
  rf_finalized_at :: "instant option"
  rf_provider_payment_reference :: "string option"
  rf_provider_refund_id :: "string option"
  rf_provider_refunded_at :: "instant option"

record ClaimedEventPurchaseRefund =
  cr_connected_seller_id :: string
  cr_community_id :: uuid
  cr_event_id :: uuid
  cr_refund :: EventPurchaseRefund

record ClaimedEventPurchaseApplicationFeeAdjustment =
  cfa_amount_minor :: int
  cfa_claim_id :: uuid
  cfa_connected_seller_id :: string
  cfa_event_purchase_application_fee_adjustment_id :: uuid
  cfa_event_purchase_id :: uuid
  cfa_idempotency_key :: string
  cfa_kind :: string
  cfa_provider_application_fee_id :: string

record ClaimedEventPurchaseCreditNote =
  ccn_amount_minor :: int
  ccn_claim_id :: uuid
  ccn_connected_seller_id :: string
  ccn_event_purchase_credit_note_id :: uuid
  ccn_event_purchase_id :: uuid
  ccn_event_purchase_refund_id :: uuid
  ccn_idempotency_key :: string
  ccn_provider_invoice_id :: string
  ccn_provider_refund_id :: string
  ccn_tax_amount_minor :: int

record CompletedEventPurchase =
  cep_community_id :: uuid
  cep_event_id :: uuid
  cep_user_id :: uuid

record CompleteEventPurchaseRefundRecoveryInput =
  crr_actor_user_id :: uuid
  crr_event_purchase_refund_id :: uuid
  crr_group_id :: uuid
  crr_recovery_note :: string
  crr_recovery_reference :: string
  crr_notification_template_data :: "json option"
  crr_payment_provider :: "PaymentProvider option"

record EventPurchaseRefundRecoveryContext =
  erc_community_id :: uuid
  erc_event_id :: uuid
  erc_event_purchase_refund_id :: uuid
  erc_notification_required :: bool

record ReconcileEventPurchaseForCheckoutSessionInput =
  rci_payment_provider :: PaymentProvider
  rci_provider_charge_id :: string
  rci_provider_object_account_id :: string
  rci_provider_payment_reference :: string
  rci_provider_session_id :: string
  rci_provider_total_minor :: int
  rci_tax_amount_minor :: int
  rci_provider_application_fee_id :: "string option"

datatype ReconcileEventPurchaseResult =
    PurchaseReconciled CompletedEventPurchase | ReconcileNoop | RefundQueued

record UserPurchaseDocumentContext =
  udc_connected_seller_id :: string
  udc_payment_provider :: PaymentProvider
  udc_provider_document_id :: string

section \<open>The database trait\<close>

text \<open>The methods of \<^verbatim>\<open>DBPayments\<close> that the payments service calls.\<close>

record 's DBPayments =
  db_attach_application_fee_to_event_purchase ::
    "PaymentProvider \<Rightarrow> string \<Rightarrow> string \<Rightarrow> string \<Rightarrow> int \<Rightarrow> ('s, unit) io"
  db_attach_checkout_session_to_event_purchase ::
    "uuid \<Rightarrow> PaymentProvider \<Rightarrow> CheckoutSession \<Rightarrow> ('s, unit) io"
  db_attach_invoice_to_event_purchase ::
    "uuid \<Rightarrow> string \<Rightarrow> string \<Rightarrow> string \<Rightarrow> string option \<Rightarrow> ('s, unit) io"
  db_claim_event_purchase_application_fee_adjustment ::
    "PaymentProvider \<Rightarrow> ('s, ClaimedEventPurchaseApplicationFeeAdjustment option) io"
  db_claim_event_purchase_credit_note ::
    "PaymentProvider \<Rightarrow> ('s, ClaimedEventPurchaseCreditNote option) io"
  db_claim_event_purchase_refund ::
    "PaymentProvider \<Rightarrow> ('s, ClaimedEventPurchaseRefund option) io"
  db_complete_event_purchase_refund_recovery ::
    "CompleteEventPurchaseRefundRecoveryInput \<Rightarrow> ('s, unit) io"
  db_complete_free_event_purchase :: "uuid \<Rightarrow> ('s, CompletedEventPurchase) io"
  db_expire_event_purchase_for_checkout_session ::
    "PaymentProvider \<Rightarrow> string \<Rightarrow> string \<Rightarrow> ('s, unit) io"
  db_finalize_event_purchase_refund ::
    "uuid \<Rightarrow> uuid \<Rightarrow> json \<Rightarrow> PaymentProvider option \<Rightarrow> ('s, unit) io"
  db_get_event_purchase_refund :: "uuid \<Rightarrow> ('s, EventPurchaseRefund) io"
  db_get_event_purchase_refund_recovery_context ::
    "uuid \<Rightarrow> uuid \<Rightarrow> ('s, EventPurchaseRefundRecoveryContext) io"
  db_get_event_purchase_summary :: "uuid \<Rightarrow> ('s, EventPurchaseSummary) io"
  db_get_payment_provider_tax_location ::
    "PaymentProvider \<Rightarrow> string \<Rightarrow> string \<Rightarrow> ('s, string option) io"
  db_get_user_purchase_document_context ::
    "uuid \<Rightarrow> uuid \<Rightarrow> uuid option \<Rightarrow> ('s, UserPurchaseDocumentContext option) io"
  db_queue_event_refund_request_approval ::
    "uuid \<Rightarrow> uuid \<Rightarrow> uuid \<Rightarrow> string option \<Rightarrow> ('s, unit) io"
  db_reconcile_event_purchase_for_checkout_session ::
    "ReconcileEventPurchaseForCheckoutSessionInput \<Rightarrow> ('s, ReconcileEventPurchaseResult) io"
  db_record_event_purchase_application_fee_adjustment_failure ::
    "uuid \<Rightarrow> uuid \<Rightarrow> string \<Rightarrow> ('s, unit) io"
  db_record_event_purchase_application_fee_adjustment_succeeded ::
    "uuid \<Rightarrow> uuid \<Rightarrow> string \<Rightarrow> ('s, unit) io"
  db_record_event_purchase_credit_note_failure :: "uuid \<Rightarrow> uuid \<Rightarrow> string \<Rightarrow> ('s, unit) io"
  db_record_event_purchase_credit_note_succeeded ::
    "uuid \<Rightarrow> uuid \<Rightarrow> string \<Rightarrow> string option \<Rightarrow> string option \<Rightarrow> ('s, unit) io"
  db_record_event_purchase_refund_pending ::
    "uuid \<Rightarrow> string \<Rightarrow> string \<Rightarrow> uuid option \<Rightarrow> ('s, EventPurchaseRefund) io"
  db_record_event_purchase_refund_retryable_failure ::
    "uuid \<Rightarrow> uuid \<Rightarrow> string \<Rightarrow> ('s, unit) io"
  db_record_event_purchase_refund_succeeded ::
    "uuid \<Rightarrow> string \<Rightarrow> string \<Rightarrow> uuid option \<Rightarrow> ('s, EventPurchaseRefund) io"
  db_record_event_purchase_refund_terminal_failed ::
    "uuid \<Rightarrow> string \<Rightarrow> string \<Rightarrow> string \<Rightarrow> uuid option \<Rightarrow> ('s, unit) io"
  db_reject_event_refund_request ::
    "uuid \<Rightarrow> uuid \<Rightarrow> uuid \<Rightarrow> string \<Rightarrow> ('s, CompletedEventPurchase) io"
  db_request_event_refund ::
    "uuid \<Rightarrow> uuid \<Rightarrow> uuid \<Rightarrow> string option \<Rightarrow> json \<Rightarrow> ('s, unit) io"
  db_requeue_stale_event_purchase_application_fee_adjustment_claims :: "('s, int) io"
  db_requeue_stale_event_purchase_credit_note_claims :: "('s, int) io"
  db_requeue_stale_event_purchase_refund_claims :: "('s, int) io"
  db_upsert_payment_provider_tax_location ::
    "PaymentProvider \<Rightarrow> string \<Rightarrow> string \<Rightarrow> string \<Rightarrow> TicketVenue \<Rightarrow> ('s, unit) io"

end
