(* ===== verification/Refund_Store.thy ===== *)
theory Refund_Store
  imports Payments_Interfaces "HOL-Library.Product_Lexorder"
begin

text \<open>
  The durable refund queue: the tables behind \<^verbatim>\<open>event_purchase_refund\<close> and the database functions
  of \<^verbatim>\<open>database/migrations/functions/payments/\<close> that move a refund through its lifecycle.

  A database function runs in one transaction: it either raises, and nothing it wrote is kept, or
  returns a value and the new store. Row locks serialise the transactions that touch a row, so a
  concurrent execution is a sequence of such transactions; a row locked by another transaction at
  the moment of a claim is in \<open>rs_locked\<close> and is skipped by it. Calls of database functions outside
  this component are recorded in \<open>rs_calls\<close>, in order. Instants are in seconds.
\<close>

section \<open>Tables\<close>

record refund_row =
  rr_id :: uuid
  rr_amount_minor :: int
  rr_created_at :: instant
  rr_currency_code :: string
  rr_event_purchase_id :: uuid
  rr_idempotency_key :: string
  rr_kind :: EventPurchaseRefundKind
  rr_payment_provider :: PaymentProvider
  rr_status :: EventPurchaseRefundStatus
  rr_event_refund_request_id :: "uuid option"
  rr_failure_message :: "string option"
  rr_finalized_at :: "instant option"
  rr_provider_refund_id :: "string option"
  rr_provider_refunded_at :: "instant option"
  rr_recovery_completed_at :: "instant option"
  rr_recovery_completed_by :: "uuid option"
  rr_recovery_note :: "string option"
  rr_recovery_reference :: "string option"
  rr_attempt_count :: int
  rr_next_attempt_at :: instant
  rr_terminal_failure :: bool
  rr_claim_id :: "uuid option"
  rr_claimed_at :: "instant option"
  rr_initiated_by_user_id :: "uuid option"
  rr_review_note :: "string option"

text \<open>The columns of the purchase that the refund functions read or write.\<close>

record purchase_row =
  pr_id :: uuid
  pr_event_id :: uuid
  pr_event_ticket_type_id :: uuid
  pr_user_id :: uuid
  pr_status :: EventPurchaseStatus
  pr_refunded_at :: "instant option"
  pr_event_discount_code_id :: "uuid option"
  pr_connected_seller_id :: "string option"
  pr_provider_payment_reference :: "string option"
  pr_provider_invoice_id :: "string option"
  pr_provider_object_account_id :: "string option"
  pr_final_platform_fee_amount_minor :: "int option"
  pr_provider_total_minor :: "int option"
  pr_tax_amount_minor :: "int option"
  pr_currency_code :: "string option"

record event_row =
  ev_id :: uuid
  ev_canceled :: bool
  ev_group_id :: uuid
  ev_community_id :: uuid

datatype attendee_status = Confirmed | QuestionsPending | AttendanceCanceled | OtherAttendeeStatus

record attendee_row =
  at_event_id :: uuid
  at_user_id :: uuid
  at_status :: attendee_status
  at_checked_in :: bool
  at_checked_in_at :: "instant option"
  at_canceled_at :: "instant option"
  at_canceled_by :: "uuid option"

record request_row =
  rq_id :: uuid
  rq_event_purchase_id :: uuid
  rq_status :: EventRefundRequestStatus
  rq_review_note :: "string option"
  rq_reviewed_at :: "instant option"
  rq_reviewed_by :: "uuid option"

record fee_adjustment_row =
  fa_amount_minor :: int
  fa_event_purchase_id :: uuid
  fa_idempotency_key :: string
  fa_kind :: string

record credit_note_row =
  cn_amount_minor :: "int option"
  cn_currency_code :: "string option"
  cn_event_purchase_refund_id :: uuid
  cn_idempotency_key :: string
  cn_provider_object_account_id :: "string option"
  cn_tax_amount_minor :: "int option"

text \<open>Calls of database functions of other components.\<close>

datatype db_call =
    ReconcileEventEnrollment uuid uuid "PaymentProvider option"
  | ReleaseEventDiscountCodeAvailability uuid
  | InsertAuditLog string "uuid option" uuid
  | EnqueueNotification string json uuid

record refund_store =
  rs_now :: instant
  rs_uuid_count :: nat
  rs_locked :: "uuid list"
  rs_refunds :: "refund_row list"
  rs_purchases :: "purchase_row list"
  rs_events :: "event_row list"
  rs_attendees :: "attendee_row list"
  rs_requests :: "request_row list"
  rs_fee_adjustments :: "fee_adjustment_row list"
  rs_credit_notes :: "credit_note_row list"
  rs_calls :: "db_call list"

section \<open>SQL idioms\<close>

text \<open>\<^verbatim>\<open>column <> value\<close> is not true for a null column.\<close>

definition sql_differs :: "'a option \<Rightarrow> 'a \<Rightarrow> bool" where
  "sql_differs col v = (case col of None \<Rightarrow> False | Some x \<Rightarrow> x \<noteq> v)"

text \<open>A database function: an exception, or the result and the store that is committed.\<close>

type_synonym 'a tx = "refund_store \<Rightarrow> string + 'a \<times> refund_store"

definition find_refund_row :: "uuid \<Rightarrow> refund_store \<Rightarrow> refund_row option" where
  "find_refund_row i st = find (\<lambda>r. rr_id r = i) (rs_refunds st)"

definition find_purchase_row :: "uuid \<Rightarrow> refund_store \<Rightarrow> purchase_row option" where
  "find_purchase_row i st = find (\<lambda>p. pr_id p = i) (rs_purchases st)"

definition find_event_row :: "uuid \<Rightarrow> refund_store \<Rightarrow> event_row option" where
  "find_event_row i st = find (\<lambda>e. ev_id e = i) (rs_events st)"

definition update_refund :: "uuid \<Rightarrow> (refund_row \<Rightarrow> refund_row) \<Rightarrow> refund_store \<Rightarrow> refund_store" where
  "update_refund i f st =
     st\<lparr>rs_refunds := map (\<lambda>r. if rr_id r = i then f r else r) (rs_refunds st)\<rparr>"

definition update_purchase :: "uuid \<Rightarrow> (purchase_row \<Rightarrow> purchase_row) \<Rightarrow> refund_store \<Rightarrow> refund_store" where
  "update_purchase i f st =
     st\<lparr>rs_purchases := map (\<lambda>p. if pr_id p = i then f p else p) (rs_purchases st)\<rparr>"

definition add_call :: "db_call \<Rightarrow> refund_store \<Rightarrow> refund_store" where
  "add_call c st = st\<lparr>rs_calls := rs_calls st @ [c]\<rparr>"

text \<open>The JSON object that the refund functions return, read back by \<^verbatim>\<open>serde\<close>.\<close>

definition refund_json :: "refund_row \<Rightarrow> string option \<Rightarrow> EventPurchaseRefund" where
  "refund_json r provider_payment_reference =
     \<lparr>rf_amount_minor = rr_amount_minor r, rf_currency_code = rr_currency_code r,
      rf_event_purchase_id = rr_event_purchase_id r, rf_event_purchase_refund_id = rr_id r,
      rf_idempotency_key = rr_idempotency_key r, rf_kind = rr_kind r,
      rf_payment_provider = rr_payment_provider r, rf_status = rr_status r,
      rf_terminal_failure = rr_terminal_failure r, rf_attempt_count = rr_attempt_count r,
      rf_claim_id = rr_claim_id r, rf_failure_message = rr_failure_message r,
      rf_finalized_at = rr_finalized_at r,
      rf_provider_payment_reference = provider_payment_reference,
      rf_provider_refund_id = rr_provider_refund_id r,
      rf_provider_refunded_at = rr_provider_refunded_at r\<rparr>"

section \<open>Claiming\<close>

definition refund_due :: "refund_store \<Rightarrow> PaymentProvider \<Rightarrow> refund_row \<Rightarrow> bool" where
  "refund_due st provider r \<longleftrightarrow>
     rr_payment_provider r = provider \<and> rr_next_attempt_at r \<le> rs_now st \<and>
     (rr_status r = ProviderSucceeded \<or>
      rr_status r = ProviderPending \<and> rr_attempt_count r < 10 \<or>
      rr_status r = ProviderFailed \<and> \<not> rr_terminal_failure r \<and> rr_attempt_count r < 10)"

definition claim_order :: "refund_row \<Rightarrow> nat \<times> instant \<times> instant \<times> int" where
  "claim_order r =
     (if rr_status r = ProviderSucceeded then 0 else 1, rr_next_attempt_at r, rr_created_at r,
      uint (rr_id r))"

definition claimable :: "refund_store \<Rightarrow> PaymentProvider \<Rightarrow> refund_row list" where
  "claimable st provider =
     sort_key claim_order
       (filter (\<lambda>r. refund_due st provider r \<and> rr_id r \<notin> set (rs_locked st)) (rs_refunds st))"

definition claim_row :: "uuid \<Rightarrow> instant \<Rightarrow> refund_row \<Rightarrow> refund_row" where
  "claim_row claim now r =
     r\<lparr>rr_attempt_count := (if rr_status r = ProviderSucceeded then rr_attempt_count r
                           else rr_attempt_count r + 1),
       rr_claim_id := Some claim, rr_claimed_at := Some now, rr_status := Processing\<rparr>"

text \<open>The claim identifier is what \<^verbatim>\<open>gen_random_uuid()\<close> returned.\<close>

definition claim_event_purchase_refund ::
    "uuid \<Rightarrow> PaymentProvider \<Rightarrow> ClaimedEventPurchaseRefund option tx" where
  "claim_event_purchase_refund v_claim_id provider st =
     (case claimable st provider of
        [] \<Rightarrow> Inr (None, st)
      | r # _ \<Rightarrow>
          let st' = update_refund (rr_id r) (claim_row v_claim_id (rs_now st)) st;
              r' = claim_row v_claim_id (rs_now st) r in
          (case find_purchase_row (rr_event_purchase_id r') st of
             None \<Rightarrow> Inl ''event purchase not found''
           | Some p \<Rightarrow>
               (case find_event_row (pr_event_id p) st of
                  None \<Rightarrow> Inl ''event purchase not found''
                | Some e \<Rightarrow>
                    (case pr_connected_seller_id p of
                       None \<Rightarrow> Inl ''event purchase is missing connected seller account''
                     | Some seller \<Rightarrow>
                         if nullif_blank seller = None
                         then Inl ''event purchase is missing connected seller account''
                         else Inr (Some \<lparr>cr_connected_seller_id = seller,
                                cr_community_id = ev_community_id e, cr_event_id = pr_event_id p,
                                cr_refund = refund_json r' (pr_provider_payment_reference p)\<rparr>,
                              st')))))"

section \<open>Recording provider results\<close>

text \<open>
  \<^verbatim>\<open>least(30, power(2, greatest(attempt_count - 1, 0))::int)\<close> minutes, in seconds. The cast cannot
  overflow: the attempt count stays below 11 (lemma \<open>refund_inv\<close> below).
\<close>

definition backoff_seconds :: "int \<Rightarrow> int" where
  "backoff_seconds attempt_count = 60 * min 30 (2 ^ nat (max (attempt_count - 1) 0))"

definition terminally_failed :: "refund_row \<Rightarrow> bool" where
  "terminally_failed r \<longleftrightarrow> rr_status r = ProviderFailed \<and> rr_terminal_failure r"

definition pending_row :: "string \<Rightarrow> instant \<Rightarrow> refund_row \<Rightarrow> refund_row" where
  "pending_row provider_refund_id now r =
     r\<lparr>rr_claim_id := None, rr_claimed_at := None, rr_failure_message := None,
       rr_next_attempt_at := now + backoff_seconds (rr_attempt_count r),
       rr_provider_refund_id := Some provider_refund_id, rr_status := ProviderPending,
       rr_terminal_failure := False\<rparr>"

definition record_event_purchase_refund_pending ::
    "uuid \<Rightarrow> string \<Rightarrow> string \<Rightarrow> uuid option \<Rightarrow> EventPurchaseRefund tx" where
  "record_event_purchase_refund_pending i expected_key provider_refund_id expected_claim st =
     (if nullif_blank expected_key = None then Inl ''expected idempotency key is required''
      else if nullif_blank provider_refund_id = None then Inl ''provider refund id is required''
      else case find_refund_row i st of
        None \<Rightarrow> Inl ''event purchase refund not found''
      | Some r \<Rightarrow>
          if rr_claim_id r \<noteq> expected_claim then Inl ''event purchase refund claim is stale''
          else if rr_idempotency_key r \<noteq> expected_key then Inr (refund_json r None, st)
          else if sql_differs (rr_provider_refund_id r) provider_refund_id
          then Inl ''event purchase refund already has a different provider refund id''
          else if rr_status r \<in> {Finalized, ProviderSucceeded} \<or> terminally_failed r
          then Inr (refund_json r None, st)
          else Inr (refund_json (pending_row provider_refund_id (rs_now st) r) None,
                    update_refund i (pending_row provider_refund_id (rs_now st)) st))"

definition retryable_failure_row :: "string \<Rightarrow> instant \<Rightarrow> refund_row \<Rightarrow> refund_row" where
  "retryable_failure_row message now r =
     r\<lparr>rr_claim_id := None, rr_claimed_at := None,
       rr_failure_message :=
         Some (coalesce (nullif_blank message) ''provider refund attempt failed''),
       rr_next_attempt_at := now + backoff_seconds (rr_attempt_count r),
       rr_status := ProviderFailed, rr_terminal_failure := False\<rparr>"

definition record_event_purchase_refund_retryable_failure ::
    "uuid \<Rightarrow> uuid \<Rightarrow> string \<Rightarrow> unit tx" where
  "record_event_purchase_refund_retryable_failure i claim message st =
     (case find_refund_row i st of
        Some r \<Rightarrow>
          if rr_claim_id r = Some claim \<and> rr_status r = Processing
          then Inr ((), update_refund i (retryable_failure_row message (rs_now st)) st)
          else Inl ''event purchase refund claim is no longer current''
      | None \<Rightarrow> Inl ''event purchase refund claim is no longer current'')"

definition succeeded_row :: "string \<Rightarrow> instant \<Rightarrow> refund_row \<Rightarrow> refund_row" where
  "succeeded_row provider_refund_id now r =
     r\<lparr>rr_failure_message := None, rr_next_attempt_at := now,
       rr_provider_refund_id := Some provider_refund_id,
       rr_provider_refunded_at := Some (coalesce (rr_provider_refunded_at r) now),
       rr_status := (if rr_claim_id r \<noteq> None then Processing
                     else if rr_finalized_at r = None then ProviderSucceeded else Finalized),
       rr_terminal_failure := False\<rparr>"

definition fee_adjustment_for :: "purchase_row \<Rightarrow> fee_adjustment_row list" where
  "fee_adjustment_for p =
     (case pr_final_platform_fee_amount_minor p of
        None \<Rightarrow> []
      | Some fee \<Rightarrow>
          if fee > 0
          then [\<lparr>fa_amount_minor = fee, fa_event_purchase_id = pr_id p,
                 fa_idempotency_key =
                   ''event-purchase-refund-fee-adjustment-'' @ show_uuid (pr_id p),
                 fa_kind = ''purchase-refund''\<rparr>]
          else [])"

definition credit_note_for :: "uuid \<Rightarrow> purchase_row \<Rightarrow> credit_note_row list" where
  "credit_note_for refund_id p =
     (if pr_provider_invoice_id p = None then []
      else [\<lparr>cn_amount_minor = pr_provider_total_minor p, cn_currency_code = pr_currency_code p,
             cn_event_purchase_refund_id = refund_id,
             cn_idempotency_key = ''event-purchase-credit-note-'' @ show_uuid refund_id,
             cn_provider_object_account_id = pr_provider_object_account_id p,
             cn_tax_amount_minor = pr_tax_amount_minor p\<rparr>])"

text \<open>The two \<^verbatim>\<open>insert ... on conflict do nothing\<close> statements.\<close>

definition queue_financial_work :: "uuid \<Rightarrow> purchase_row \<Rightarrow> refund_store \<Rightarrow> refund_store" where
  "queue_financial_work refund_id p st =
     st\<lparr>rs_fee_adjustments := rs_fee_adjustments st @
          filter (\<lambda>a. \<forall>b\<in>set (rs_fee_adjustments st).
                    (fa_event_purchase_id b, fa_kind b) \<noteq> (fa_event_purchase_id a, fa_kind a))
            (fee_adjustment_for p),
        rs_credit_notes := rs_credit_notes st @
          filter (\<lambda>c. \<forall>d\<in>set (rs_credit_notes st).
                    cn_event_purchase_refund_id d \<noteq> cn_event_purchase_refund_id c)
            (credit_note_for refund_id p)\<rparr>"

text \<open>
  Restoring the purchase of a refund that was finalized already: a purchase that waits for recovery
  becomes refunded again, and a purchase in any state but refunded is an error.
\<close>

definition restore_refunded_purchase :: "refund_row \<Rightarrow> refund_store \<Rightarrow> string + refund_store" where
  "restore_refunded_purchase r st =
     (if rr_finalized_at r = None then Inr st
      else case find_purchase_row (rr_event_purchase_id r) st of
        None \<Rightarrow> Inl ''finalized event purchase not found''
      | Some p \<Rightarrow>
          if pr_status p = RefundRecoveryPending
          then Inr (update_purchase (pr_id p)
                 (\<lambda>q. q\<lparr>pr_refunded_at := Some (coalesce (pr_refunded_at q) (rs_now st)),
                        pr_status := PurchaseRefunded\<rparr>) st)
          else if pr_status p = PurchaseRefunded then Inr st
          else Inl ''finalized event purchase not found'')"

definition record_event_purchase_refund_succeeded ::
    "uuid \<Rightarrow> string \<Rightarrow> string \<Rightarrow> uuid option \<Rightarrow> EventPurchaseRefund tx" where
  "record_event_purchase_refund_succeeded i expected_key provider_refund_id expected_claim st =
     (if nullif_blank expected_key = None then Inl ''expected idempotency key is required''
      else if nullif_blank provider_refund_id = None then Inl ''provider refund id is required''
      else case find_refund_row i st of
        None \<Rightarrow> Inl ''event purchase refund not found''
      | Some r \<Rightarrow>
          (case find_purchase_row (rr_event_purchase_id r) st of
             None \<Rightarrow> Inl ''event purchase refund not found''
           | Some p \<Rightarrow>
               if rr_claim_id r \<noteq> expected_claim then Inl ''event purchase refund claim is stale''
               else if rr_idempotency_key r \<noteq> expected_key \<or> terminally_failed r
               then Inr (refund_json r None, st)
               else if sql_differs (rr_provider_refund_id r) provider_refund_id
               then Inl ''event purchase refund already has a different provider refund id''
               else
                 let advance = rr_status r \<noteq> Finalized;
                     r' = (if advance then succeeded_row provider_refund_id (rs_now st) r else r);
                     st' = (if advance
                            then update_refund i (succeeded_row provider_refund_id (rs_now st)) st
                            else st) in
                 (case restore_refunded_purchase r' st' of
                    Inl e \<Rightarrow> Inl e
                  | Inr st'' \<Rightarrow> Inr (refund_json r' None, queue_financial_work i p st''))))"

definition terminal_failed_row :: "string \<Rightarrow> string \<Rightarrow> refund_row \<Rightarrow> refund_row" where
  "terminal_failed_row provider_refund_id message r =
     r\<lparr>rr_claim_id := None, rr_claimed_at := None,
       rr_failure_message := Some (case nullif_blank message of
           None \<Rightarrow> provider_refund_id | Some m \<Rightarrow> m @ '': '' @ provider_refund_id),
       rr_provider_refund_id := Some provider_refund_id, rr_provider_refunded_at := None,
       rr_status := ProviderFailed, rr_terminal_failure := True\<rparr>"

definition record_event_purchase_refund_terminal_failed ::
    "uuid \<Rightarrow> string \<Rightarrow> string \<Rightarrow> string \<Rightarrow> uuid option \<Rightarrow> unit tx" where
  "record_event_purchase_refund_terminal_failed i expected_key provider_refund_id message
     expected_claim st =
     (if nullif_blank expected_key = None then Inl ''expected idempotency key is required''
      else if nullif_blank provider_refund_id = None then Inl ''provider refund id is required''
      else case find_refund_row i st of
        None \<Rightarrow> Inl ''event purchase refund not found''
      | Some r \<Rightarrow>
          (case find_purchase_row (rr_event_purchase_id r) st of
             None \<Rightarrow> Inl ''event purchase refund not found''
           | Some p \<Rightarrow>
               if rr_claim_id r \<noteq> expected_claim then Inl ''event purchase refund claim is stale''
               else if rr_idempotency_key r \<noteq> expected_key then Inr ((), st)
               else if sql_differs (rr_provider_refund_id r) provider_refund_id
               then Inl ''event purchase refund already has a different provider refund id''
               else if terminally_failed r \<and> rr_provider_refund_id r = Some provider_refund_id
               then Inr ((), st)
               else
                 let st' = update_refund i (terminal_failed_row provider_refund_id message) st in
                 if rr_finalized_at r = None then Inr ((), st')
                 else if pr_status p \<in> {PurchaseRefunded, RefundRecoveryPending}
                 then Inr ((), update_purchase (pr_id p)
                             (\<lambda>q. q\<lparr>pr_status := RefundRecoveryPending\<rparr>) st')
                 else Inl ''finalized event purchase not found''))"

section \<open>Finalizing\<close>

text \<open>Another active purchase of the same user for the same event.\<close>

definition has_replacement :: "refund_store \<Rightarrow> purchase_row \<Rightarrow> bool" where
  "has_replacement st p \<longleftrightarrow>
     (\<exists>q\<in>set (rs_purchases st). pr_event_id q = pr_event_id p \<and> pr_id q \<noteq> pr_id p \<and>
        pr_status q \<in> {PurchaseCompleted, RefundRequested} \<and> pr_user_id q = pr_user_id p)"

definition cancel_attendance :: "purchase_row \<Rightarrow> uuid option \<Rightarrow> refund_store \<Rightarrow> refund_store" where
  "cancel_attendance p canceled_by st =
     (if has_replacement st p then st
      else st\<lparr>rs_attendees := map (\<lambda>a.
          if at_event_id a = pr_event_id p \<and> at_user_id a = pr_user_id p \<and>
             at_status a \<in> {Confirmed, QuestionsPending}
          then a\<lparr>at_canceled_at := Some (rs_now st), at_canceled_by := canceled_by,
                 at_checked_in := False, at_checked_in_at := None,
                 at_status := AttendanceCanceled\<rparr>
          else a) (rs_attendees st)\<rparr>)"

text \<open>Approving the attached request, if it is still in state approving.\<close>

definition approve_request ::
    "uuid option \<Rightarrow> (string option \<Rightarrow> string option) \<Rightarrow> uuid option \<Rightarrow> refund_store \<Rightarrow> refund_store" where
  "approve_request request_id note reviewer st =
     (case request_id of
        None \<Rightarrow> st
      | Some i \<Rightarrow> st\<lparr>rs_requests := map (\<lambda>q.
          if rq_id q = i \<and> rq_status q = Approving
          then q\<lparr>rq_review_note := note (rq_review_note q),
                 rq_reviewed_at := Some (coalesce (rq_reviewed_at q) (rs_now st)),
                 rq_reviewed_by := (case rq_reviewed_by q of None \<Rightarrow> reviewer | Some u \<Rightarrow> Some u),
                 rq_status := Approved\<rparr>
          else q) (rs_requests st)\<rparr>)"

definition release_discount :: "bool \<Rightarrow> purchase_row \<Rightarrow> refund_store \<Rightarrow> refund_store" where
  "release_discount applies p st =
     (case pr_event_discount_code_id p of
        None \<Rightarrow> st
      | Some d \<Rightarrow> if applies then add_call (ReleaseEventDiscountCodeAvailability d) st else st)"

definition finalized_row :: "instant \<Rightarrow> refund_row \<Rightarrow> refund_row" where
  "finalized_row now r =
     r\<lparr>rr_claim_id := None, rr_claimed_at := None, rr_failure_message := None,
       rr_finalized_at := Some now, rr_status := Finalized\<rparr>"

definition finalize_event_purchase_refund ::
    "uuid \<Rightarrow> uuid \<Rightarrow> json option \<Rightarrow> PaymentProvider option \<Rightarrow> unit tx" where
  "finalize_event_purchase_refund i claim template_data configured_provider st =
     (case template_data of
        None \<Rightarrow> Inl ''refund notification template data is required''
      | Some data \<Rightarrow>
      (case find_refund_row i st of
        None \<Rightarrow> Inl ''event purchase refund not found''
      | Some r \<Rightarrow>
      (case find_purchase_row (rr_event_purchase_id r) st of
        None \<Rightarrow> Inl ''event purchase refund not found''
      | Some p \<Rightarrow>
          let reconcile = add_call (ReconcileEventEnrollment (pr_event_id p)
                            (pr_event_ticket_type_id p) configured_provider);
              st1 = reconcile st in
          (case find_event_row (pr_event_id p) st of
             None \<Rightarrow> Inl ''event purchase not found''
           | Some e \<Rightarrow>
               if rr_status r = Finalized then Inr ((), st1)
               else if rr_claim_id r \<noteq> Some claim \<or> rr_provider_refunded_at r = None
               then Inl ''event purchase refund claim is not provider-complete''
               else
                 let st2 = cancel_attendance p (rr_initiated_by_user_id r) st1;
                     st3 = update_purchase (pr_id p)
                       (\<lambda>q. q\<lparr>pr_refunded_at := Some (rs_now st), pr_status := PurchaseRefunded\<rparr>) st2;
                     st4 = release_discount (rr_kind r \<noteq> AutomaticUnfulfillableCheckout) p st3;
                     st5 = approve_request (rr_event_refund_request_id r)
                       (\<lambda>_. rr_review_note r) (rr_initiated_by_user_id r) st4;
                     st6 = update_refund i (finalized_row (rs_now st)) st5;
                     st7 = reconcile st6;
                     st8 = add_call (InsertAuditLog ''event_refunded''
                       (rr_initiated_by_user_id r) (pr_event_id p)) st7 in
                 Inr ((), add_call (EnqueueNotification ''event-refund-approved'' data
                            (pr_user_id p)) st8)))))"

section \<open>Requeueing\<close>

definition stale_claim :: "refund_store \<Rightarrow> refund_row \<Rightarrow> bool" where
  "stale_claim st r \<longleftrightarrow>
     rr_status r = Processing \<and>
     (case rr_claimed_at r of None \<Rightarrow> False | Some t \<Rightarrow> t < rs_now st - 15 * 60)"

definition requeued_row :: "instant \<Rightarrow> refund_row \<Rightarrow> refund_row" where
  "requeued_row now r =
     r\<lparr>rr_claim_id := None, rr_claimed_at := None,
       rr_failure_message :=
         (if rr_provider_refunded_at r = None
          then Some (coalesce (rr_failure_message r) ''refund worker claim expired'')
          else rr_failure_message r),
       rr_next_attempt_at := now,
       rr_status := (if rr_provider_refunded_at r = None then ProviderFailed else ProviderSucceeded),
       rr_terminal_failure := False\<rparr>"

definition requeue_stale_event_purchase_refund_claims :: "int tx" where
  "requeue_stale_event_purchase_refund_claims st =
     Inr (int (length (filter (stale_claim st) (rs_refunds st))),
          st\<lparr>rs_refunds := map (\<lambda>r. if stale_claim st r then requeued_row (rs_now st) r else r)
               (rs_refunds st)\<rparr>)"

definition retried_row :: "instant \<Rightarrow> refund_row \<Rightarrow> refund_row" where
  "retried_row now r =
     r\<lparr>rr_attempt_count := 0, rr_failure_message := None, rr_next_attempt_at := now,
       rr_status := ProviderPending\<rparr>"

definition exhausted :: "refund_row \<Rightarrow> bool" where
  "exhausted r \<longleftrightarrow>
     rr_status r \<in> {ProviderFailed, ProviderPending} \<and> \<not> rr_terminal_failure r \<and>
     rr_attempt_count r \<ge> 10"

definition purchase_in_group :: "uuid \<Rightarrow> uuid \<Rightarrow> refund_store \<Rightarrow> bool" where
  "purchase_in_group group_id purchase_id st =
     (case find_purchase_row purchase_id st of
        None \<Rightarrow> False
      | Some p \<Rightarrow> (case find_event_row (pr_event_id p) st of
            None \<Rightarrow> False | Some e \<Rightarrow> ev_group_id e = group_id))"

definition requeue_event_purchase_refund :: "uuid \<Rightarrow> uuid \<Rightarrow> unit tx" where
  "requeue_event_purchase_refund group_id purchase_id st =
     (let hit = (\<lambda>r. rr_event_purchase_id r = purchase_id \<and>
                      purchase_in_group group_id purchase_id st \<and> exhausted r) in
      if \<exists>r\<in>set (rs_refunds st). hit r
      then Inr ((), st\<lparr>rs_refunds := map (\<lambda>r. if hit r then retried_row (rs_now st) r else r)
                         (rs_refunds st)\<rparr>)
      else Inl ''retryable event purchase refund not found'')"

section \<open>Reading\<close>

definition get_event_purchase_refund :: "uuid \<Rightarrow> EventPurchaseRefund tx" where
  "get_event_purchase_refund purchase_id st =
     (case find (\<lambda>r. rr_event_purchase_id r = purchase_id) (rs_refunds st) of
        None \<Rightarrow> Inl ''event purchase refund not found''
      | Some r \<Rightarrow> Inr (refund_json r None, st))"

definition get_event_purchase_refund_recovery_context ::
    "uuid \<Rightarrow> uuid \<Rightarrow> EventPurchaseRefundRecoveryContext tx" where
  "get_event_purchase_refund_recovery_context group_id purchase_id st =
     (case (find (\<lambda>r. rr_event_purchase_id r = purchase_id) (rs_refunds st),
            find_purchase_row purchase_id st) of
        (Some r, Some p) \<Rightarrow>
          (case find_event_row (pr_event_id p) st of
             Some e \<Rightarrow>
               if ev_group_id e = group_id
               then Inr (\<lparr>erc_community_id = ev_community_id e, erc_event_id = ev_id e,
                          erc_event_purchase_refund_id = rr_id r,
                          erc_notification_required = (rr_finalized_at r = None)\<rparr>, st)
               else Inl ''event purchase refund not found''
           | None \<Rightarrow> Inl ''event purchase refund not found'')
      | _ \<Rightarrow> Inl ''event purchase refund not found'')"

section \<open>Recovery of a terminally failed refund\<close>

text \<open>The local lifecycle that the external recovery may complete.\<close>

definition recoverable_lifecycle :: "refund_row \<Rightarrow> purchase_row \<Rightarrow> event_row \<Rightarrow> refund_store \<Rightarrow> bool" where
  "recoverable_lifecycle r p e st =
     (if rr_finalized_at r = None
      then (case rr_kind r of
              AutomaticUnfulfillableCheckout \<Rightarrow> pr_status p = RefundPending
            | EventCancellation \<Rightarrow> pr_status p = RefundPending
            | AttendanceCancellation \<Rightarrow>
                pr_status p = RefundRequested \<or> pr_status p = RefundPending \<and> ev_canceled e
            | RefundRequestApproval \<Rightarrow>
                pr_status p = RefundRequested \<or> pr_status p = RefundPending \<and> ev_canceled e) \<and>
           (case rr_event_refund_request_id r of
              None \<Rightarrow> True
            | Some i \<Rightarrow> \<exists>q\<in>set (rs_requests st). rq_id q = i \<and> rq_event_purchase_id q = pr_id p \<and>
                          rq_status q = Approving)
      else pr_status p \<in> {RefundRecoveryPending, PurchaseRefunded})"

definition recovered_row :: "uuid \<Rightarrow> string \<Rightarrow> string \<Rightarrow> instant \<Rightarrow> refund_row \<Rightarrow> refund_row" where
  "recovered_row actor note reference now r =
     r\<lparr>rr_finalized_at := Some (coalesce (rr_finalized_at r) now),
       rr_recovery_completed_at := Some now, rr_recovery_completed_by := Some actor,
       rr_recovery_note := Some (btrim note), rr_recovery_reference := Some (btrim reference)\<rparr>"

text \<open>The local finalization that did not happen before the terminal failure.\<close>

definition recovery_finalization :: "uuid \<Rightarrow> string \<Rightarrow> refund_row \<Rightarrow> purchase_row \<Rightarrow> refund_store \<Rightarrow> refund_store" where
  "recovery_finalization actor note r p st =
     (if rr_finalized_at r \<noteq> None then st
      else
        let st1 = (if rr_kind r \<in> {AttendanceCancellation, RefundRequestApproval}
                   then cancel_attendance p
                     (Some (if rr_kind r = AttendanceCancellation
                            then coalesce (rr_initiated_by_user_id r) actor else actor)) st
                   else st);
            st2 = release_discount
              (rr_kind r \<in> {AttendanceCancellation, EventCancellation, RefundRequestApproval}) p st1 in
        approve_request (rr_event_refund_request_id r)
          (\<lambda>old. if rr_kind r = RefundRequestApproval then Some (btrim note) else old)
          (Some actor) st2)"

text \<open>
  \<open>permitted\<close> is \<^verbatim>\<open>user_has_group_permission\<close> for \<^verbatim>\<open>group.events.write\<close>, of another component. The
  result is the member \<^verbatim>\<open>recovered_now\<close> of the returned object.
\<close>

definition complete_event_purchase_refund_recovery ::
    "(uuid \<Rightarrow> uuid \<Rightarrow> uuid \<Rightarrow> bool) \<Rightarrow> CompleteEventPurchaseRefundRecoveryInput \<Rightarrow> bool tx" where
  "complete_event_purchase_refund_recovery permitted inp st =
     (let actor = crr_actor_user_id inp; i = crr_event_purchase_refund_id inp;
          note = crr_recovery_note inp; reference = crr_recovery_reference inp in
      if nullif_blank reference = None then Inl ''recovery reference is required''
      else if nullif_blank note = None then Inl ''recovery note is required''
      else case find_refund_row i st of
        None \<Rightarrow> Inl ''event purchase refund not found''
      | Some r \<Rightarrow>
      (case find_purchase_row (rr_event_purchase_id r) st of
        None \<Rightarrow> Inl ''event purchase refund not found''
      | Some p \<Rightarrow>
      (case find_event_row (pr_event_id p) st of
        None \<Rightarrow> Inl ''event purchase refund not found''
      | Some e \<Rightarrow>
          if ev_group_id e \<noteq> crr_group_id inp then Inl ''event purchase refund not found''
          else if \<not> permitted (ev_community_id e) (ev_group_id e) actor
          then Inl ''events write access is required''
          else
            let reconcile = add_call (ReconcileEventEnrollment (pr_event_id p)
                              (pr_event_ticket_type_id p) (crr_payment_provider inp));
                st1 = reconcile st in
            if rr_recovery_completed_at r \<noteq> None
            then if sql_differs (rr_recovery_completed_by r) actor \<or>
                    sql_differs (rr_recovery_note r) (btrim note) \<or>
                    sql_differs (rr_recovery_reference r) (btrim reference)
                 then Inl ''refund recovery already completed with different evidence''
                 else Inr (False, st1)
            else if \<not> terminally_failed r \<or> rr_provider_refund_id r = None \<or>
                    \<not> recoverable_lifecycle r p e st
            then Inl ''recoverable event purchase refund not found''
            else if rr_finalized_at r = None \<and> crr_notification_template_data inp = None
            then Inl ''refund notification template data is required''
            else
              let st2 = recovery_finalization actor note r p st1;
                  st3 = update_refund i (recovered_row actor note reference (rs_now st)) st2;
                  st4 = update_purchase (pr_id p)
                    (\<lambda>q. q\<lparr>pr_refunded_at := Some (coalesce (pr_refunded_at q) (rs_now st)),
                           pr_status := PurchaseRefunded\<rparr>) st3;
                  st5 = reconcile st4;
                  st6 = add_call (InsertAuditLog ''event_refund_recovery_completed''
                    (Some actor) (pr_event_id p)) st5 in
              Inr (True,
                (case crr_notification_template_data inp of
                   Some data \<Rightarrow>
                     if rr_finalized_at r = None
                     then add_call (EnqueueNotification ''event-refund-approved'' data
                                      (pr_user_id p)) st6
                     else st6
                 | None \<Rightarrow> st6)))))"

end
