(* ===== verification/Refund_Lifecycle.thy ===== *)
theory Refund_Lifecycle
  imports Refund_Store
begin

text \<open>
  The refund lifecycle as a transition system over the durable store: every database function of
  \<open>Refund_Store\<close> is a step, in any order and with any arguments, together with the clock, the row
  locks of other transactions and the creation of new refunds. The invariants cover the check
  constraints of the schema, the agreement of refund and purchase, and the outbox of notifications.
\<close>

section \<open>Invariant of a row\<close>

definition no_claim :: "refund_row \<Rightarrow> bool" where
  "no_claim r \<longleftrightarrow> rr_claim_id r = None \<and> rr_claimed_at r = None"

definition no_recovery :: "refund_row \<Rightarrow> bool" where
  "no_recovery r \<longleftrightarrow> rr_recovery_completed_at r = None \<and> rr_recovery_completed_by r = None \<and>
     rr_recovery_note r = None \<and> rr_recovery_reference r = None"

definition full_recovery :: "refund_row \<Rightarrow> bool" where
  "full_recovery r \<longleftrightarrow> rr_recovery_completed_at r \<noteq> None \<and> rr_recovery_completed_by r \<noteq> None \<and>
     rr_recovery_note r \<noteq> None \<and> rr_recovery_reference r \<noteq> None"

text \<open>The check constraints of the table (migrations 0062, 0063, 0065).\<close>

definition row_checks :: "refund_row \<Rightarrow> bool" where
  "row_checks r \<longleftrightarrow>
     (if rr_status r = Processing then rr_claim_id r \<noteq> None \<and> rr_claimed_at r \<noteq> None
      else no_claim r) \<and>
     (rr_status r = Finalized \<and> rr_finalized_at r \<noteq> None \<or> rr_status r = ProviderFailed \<or>
      rr_status r \<in> {Processing, ProviderPending, ProviderSucceeded} \<and> rr_finalized_at r = None) \<and>
     (rr_status r \<notin> {Finalized, ProviderSucceeded} \<or> rr_provider_refund_id r \<noteq> None) \<and>
     (\<not> rr_terminal_failure r \<or>
      rr_status r = ProviderFailed \<and> rr_provider_refund_id r \<noteq> None) \<and>
     (no_recovery r \<or>
      full_recovery r \<and> rr_status r = ProviderFailed \<and> rr_finalized_at r \<noteq> None) \<and>
     0 \<le> rr_attempt_count r"

text \<open>
  What the functions maintain, by status. It implies the constraints and adds that a refund that
  counts as succeeded has the time at which the provider confirmed it, that a failed refund with
  a finalized purchase is a terminal failure, and that the claims are bounded.
\<close>

definition row_inv :: "refund_row \<Rightarrow> bool" where
  "row_inv r \<longleftrightarrow>
     0 \<le> rr_attempt_count r \<and> rr_attempt_count r \<le> 10 \<and>
     (rr_provider_refunded_at r = None \<or> rr_provider_refund_id r \<noteq> None) \<and>
     (case rr_status r of
        Processing \<Rightarrow> rr_claim_id r \<noteq> None \<and> rr_claimed_at r \<noteq> None \<and> rr_finalized_at r = None \<and>
          \<not> rr_terminal_failure r \<and> no_recovery r
      | ProviderPending \<Rightarrow> no_claim r \<and> rr_finalized_at r = None \<and> \<not> rr_terminal_failure r \<and>
          no_recovery r
      | ProviderSucceeded \<Rightarrow> no_claim r \<and> rr_finalized_at r = None \<and> \<not> rr_terminal_failure r \<and>
          no_recovery r \<and> rr_provider_refunded_at r \<noteq> None
      | Finalized \<Rightarrow> no_claim r \<and> rr_finalized_at r \<noteq> None \<and> \<not> rr_terminal_failure r \<and>
          no_recovery r \<and> rr_provider_refunded_at r \<noteq> None
      | ProviderFailed \<Rightarrow> no_claim r \<and>
          (if rr_terminal_failure r
           then rr_provider_refund_id r \<noteq> None \<and> rr_provider_refunded_at r = None \<and>
                (no_recovery r \<or> full_recovery r \<and> rr_finalized_at r \<noteq> None)
           else rr_finalized_at r = None \<and> no_recovery r))"

lemma row_inv_checks: "row_inv r \<Longrightarrow> row_checks r"
  unfolding row_inv_def row_checks_def
  by (cases "rr_status r") (auto split: if_splits)

text \<open>
  How a row may change: its identity and amounts never, a provider refund is pinned once, local
  finalization and recovery evidence are permanent, and a terminal failure is never left.
\<close>

definition same_refund :: "refund_row \<Rightarrow> refund_row \<Rightarrow> bool" where
  "same_refund r r' \<longleftrightarrow>
     rr_id r' = rr_id r \<and> rr_amount_minor r' = rr_amount_minor r \<and>
     rr_currency_code r' = rr_currency_code r \<and>
     rr_event_purchase_id r' = rr_event_purchase_id r \<and>
     rr_idempotency_key r' = rr_idempotency_key r \<and> rr_kind r' = rr_kind r \<and>
     rr_payment_provider r' = rr_payment_provider r"

definition same_recovery :: "refund_row \<Rightarrow> refund_row \<Rightarrow> bool" where
  "same_recovery r r' \<longleftrightarrow>
     rr_recovery_completed_at r' = rr_recovery_completed_at r \<and>
     rr_recovery_completed_by r' = rr_recovery_completed_by r \<and>
     rr_recovery_note r' = rr_recovery_note r \<and>
     rr_recovery_reference r' = rr_recovery_reference r"

definition row_evolves :: "refund_row \<Rightarrow> refund_row \<Rightarrow> bool" where
  "row_evolves r r' \<longleftrightarrow> same_refund r r' \<and>
     (rr_provider_refund_id r = None \<or> rr_provider_refund_id r' = rr_provider_refund_id r) \<and>
     (rr_finalized_at r = None \<or> rr_finalized_at r' = rr_finalized_at r) \<and>
     (terminally_failed r \<longrightarrow> terminally_failed r') \<and>
     (rr_recovery_completed_at r = None \<or> same_recovery r r')"

lemma row_evolves_refl [simp]: "row_evolves r r"
  by (simp add: row_evolves_def same_refund_def same_recovery_def)

lemma same_refund_trans: "same_refund a b \<Longrightarrow> same_refund b c \<Longrightarrow> same_refund a c"
  by (simp add: same_refund_def)

lemma same_recovery_trans: "same_recovery a b \<Longrightarrow> same_recovery b c \<Longrightarrow> same_recovery a c"
  by (simp add: same_recovery_def)

lemma row_evolves_trans:
  assumes "row_evolves a b" and "row_evolves b c"
  shows "row_evolves a c"
proof -
  have "same_recovery a b \<Longrightarrow> rr_recovery_completed_at b = rr_recovery_completed_at a"
    by (simp add: same_recovery_def)
  with assms show ?thesis
    unfolding row_evolves_def
    using same_refund_trans [of a b c] same_recovery_trans [of a b c] by metis
qed

lemmas row_defs = row_inv_def row_evolves_def same_refund_def terminally_failed_def no_claim_def
  no_recovery_def

subsection \<open>Each operation on its row\<close>

text \<open>
  A change of a row is regular when it keeps the invariant, is an allowed evolution and does not
  touch local finalization; a refund that is not yet finalized stays so.
\<close>

definition regular :: "refund_row \<Rightarrow> refund_row \<Rightarrow> bool" where
  "regular r r' \<longleftrightarrow> row_inv r' \<and> row_evolves r r' \<and> rr_finalized_at r = None \<and>
     rr_finalized_at r' = None"

lemma claim_row_regular:
  "row_inv r \<Longrightarrow> refund_due st provider r \<Longrightarrow> regular r (claim_row c now r)"
  unfolding regular_def refund_due_def claim_row_def row_defs
  by (cases "rr_status r") simp_all

lemma pending_row_regular:
  "row_inv r \<Longrightarrow> \<not> sql_differs (rr_provider_refund_id r) pid \<Longrightarrow>
   rr_status r \<notin> {Finalized, ProviderSucceeded} \<Longrightarrow> \<not> terminally_failed r \<Longrightarrow>
   regular r (pending_row pid now r)"
  unfolding regular_def pending_row_def row_defs sql_differs_def
  by (cases "rr_status r"; cases "rr_provider_refund_id r") simp_all

lemma retryable_failure_row_regular:
  "row_inv r \<Longrightarrow> rr_status r = Processing \<Longrightarrow> regular r (retryable_failure_row m now r)"
  unfolding regular_def retryable_failure_row_def row_defs by simp

lemma succeeded_row_regular:
  "row_inv r \<Longrightarrow> \<not> sql_differs (rr_provider_refund_id r) pid \<Longrightarrow> \<not> terminally_failed r \<Longrightarrow>
   rr_status r \<noteq> Finalized \<Longrightarrow> regular r (succeeded_row pid now r)"
  unfolding regular_def succeeded_row_def row_defs sql_differs_def
  by (cases "rr_status r"; cases "rr_provider_refund_id r") simp_all

lemma requeued_row_regular:
  "row_inv r \<Longrightarrow> stale_claim st r \<Longrightarrow> regular r (requeued_row now r)"
  unfolding regular_def requeued_row_def stale_claim_def row_defs by simp

lemma retried_row_regular: "row_inv r \<Longrightarrow> exhausted r \<Longrightarrow> regular r (retried_row now r)"
  unfolding regular_def retried_row_def exhausted_def row_defs
  by (cases "rr_status r") simp_all

lemma terminal_failed_row_inv:
  "row_inv r \<Longrightarrow> \<not> sql_differs (rr_provider_refund_id r) pid \<Longrightarrow>
   \<not> (terminally_failed r \<and> rr_provider_refund_id r = Some pid) \<Longrightarrow>
   row_inv (terminal_failed_row pid m r) \<and> row_evolves r (terminal_failed_row pid m r) \<and>
   rr_recovery_completed_at r = None"
  unfolding terminal_failed_row_def row_defs sql_differs_def
  by (cases "rr_status r"; cases "rr_provider_refund_id r") (simp_all split: if_splits)

lemma finalized_row_inv:
  "row_inv r \<Longrightarrow> rr_claim_id r \<noteq> None \<Longrightarrow> rr_provider_refunded_at r \<noteq> None \<Longrightarrow>
   row_inv (finalized_row now r) \<and> row_evolves r (finalized_row now r) \<and>
   rr_finalized_at r = None \<and> rr_finalized_at (finalized_row now r) \<noteq> None \<and>
   \<not> terminally_failed (finalized_row now r)"
  unfolding finalized_row_def row_defs by (cases "rr_status r") auto

lemma recovered_row_inv:
  "row_inv r \<Longrightarrow> terminally_failed r \<Longrightarrow> rr_recovery_completed_at r = None \<Longrightarrow>
   row_inv (recovered_row actor note reference now r) \<and>
   row_evolves r (recovered_row actor note reference now r) \<and>
   rr_finalized_at (recovered_row actor note reference now r) \<noteq> None \<and>
   rr_recovery_completed_at (recovered_row actor note reference now r) \<noteq> None"
  unfolding recovered_row_def row_defs full_recovery_def
  by (cases "rr_finalized_at r") (auto simp: coalesce_def)

section \<open>Invariant of the store\<close>

definition is_refund_notice :: "db_call \<Rightarrow> bool" where
  "is_refund_notice c =
     (case c of EnqueueNotification kind _ _ \<Rightarrow> kind = ''event-refund-approved'' | _ \<Rightarrow> False)"

definition notice_count :: "refund_store \<Rightarrow> nat" where
  "notice_count st = length (filter is_refund_notice (rs_calls st))"

definition finalized_count :: "refund_store \<Rightarrow> nat" where
  "finalized_count st = length (filter (\<lambda>r. rr_finalized_at r \<noteq> None) (rs_refunds st))"

text \<open>
  The purchase of a locally finalized refund is refunded, unless a later terminal failure has not
  been recovered yet.
\<close>

definition purchase_agrees :: "refund_store \<Rightarrow> refund_row \<Rightarrow> bool" where
  "purchase_agrees st r \<longleftrightarrow> rr_finalized_at r = None \<or>
     map_option pr_status (find_purchase_row (rr_event_purchase_id r) st) =
       Some (if terminally_failed r \<and> rr_recovery_completed_at r = None
             then RefundRecoveryPending else PurchaseRefunded)"

definition refunds_unique :: "refund_store \<Rightarrow> bool" where
  "refunds_unique st \<longleftrightarrow> distinct (map rr_id (rs_refunds st)) \<and>
     distinct (map rr_event_purchase_id (rs_refunds st))"

definition work_unique :: "refund_store \<Rightarrow> bool" where
  "work_unique st \<longleftrightarrow>
     distinct (map (\<lambda>a. (fa_event_purchase_id a, fa_kind a)) (rs_fee_adjustments st)) \<and>
     distinct (map cn_event_purchase_refund_id (rs_credit_notes st))"

definition store_inv :: "refund_store \<Rightarrow> bool" where
  "store_inv st \<longleftrightarrow> refunds_unique st \<and> work_unique st \<and>
     (\<forall>r\<in>set (rs_refunds st). row_inv r \<and> purchase_agrees st r) \<and>
     notice_count st = finalized_count st"

definition store_evolves :: "refund_store \<Rightarrow> refund_store \<Rightarrow> bool" where
  "store_evolves st st' \<longleftrightarrow>
     (\<forall>r\<in>set (rs_refunds st). \<exists>r'\<in>set (rs_refunds st'). row_evolves r r')"

lemma store_evolves_refl [simp]: "store_evolves st st"
  by (auto simp: store_evolves_def intro: row_evolves_refl)

lemma store_evolves_trans:
  "store_evolves a b \<Longrightarrow> store_evolves b c \<Longrightarrow> store_evolves a c"
  unfolding store_evolves_def by (meson row_evolves_trans)

subsection \<open>Changing rows\<close>

lemma find_refund_rowD: "find_refund_row i st = Some r \<Longrightarrow> r \<in> set (rs_refunds st) \<and> rr_id r = i"
  by (auto simp: find_refund_row_def find_Some_iff)

lemma find_purchase_rowD: "find_purchase_row i st = Some p \<Longrightarrow> pr_id p = i"
  by (auto simp: find_purchase_row_def find_Some_iff)

lemma find_refund_row_unique:
  assumes "refunds_unique st" and "r \<in> set (rs_refunds st)"
  shows "find_refund_row (rr_id r) st = Some r"
proof -
  obtain x where x: "find_refund_row (rr_id r) st = Some x"
    using assms(2) find_Some_ex [of "\<lambda>x. rr_id x = rr_id r" "rs_refunds st"]
    by (auto simp: find_refund_row_def)
  have "x = r"
    using find_refund_rowD [OF x] assms by (auto simp: refunds_unique_def distinct_map inj_on_def)
  with x show ?thesis by simp
qed

lemma finalized_count_map:
  assumes "rs_refunds st' = map g (rs_refunds st)"
    and "\<And>r. r \<in> set (rs_refunds st) \<Longrightarrow>
      (rr_finalized_at (g r) = None) = (rr_finalized_at r = None)"
  shows "finalized_count st' = finalized_count st"
  using assms(2)
  by (simp add: finalized_count_def assms(1) filter_map o_def del: not_None_eq cong: filter_cong)

lemma store_evolves_map:
  assumes "rs_refunds st' = map g (rs_refunds st)"
    and "\<And>r. r \<in> set (rs_refunds st) \<Longrightarrow> row_evolves r (g r)"
  shows "store_evolves st st'"
  unfolding store_evolves_def
proof
  fix r assume r: "r \<in> set (rs_refunds st)"
  then have "g r \<in> set (rs_refunds st')" by (simp add: assms(1))
  with assms(2) [OF r] show "\<exists>r'\<in>set (rs_refunds st'). row_evolves r r'" by blast
qed

text \<open>Rows that change within \<^const>\<open>regular\<close>, everything else staying as it is.\<close>

lemma store_inv_regular:
  assumes inv: "store_inv st"
    and rows: "rs_refunds st' = map g (rs_refunds st)"
    and g: "\<And>r. r \<in> set (rs_refunds st) \<Longrightarrow> g r = r \<or> regular r (g r)"
    and same: "rs_purchases st' = rs_purchases st" "notice_count st' = notice_count st"
      "work_unique st'"
  shows "store_inv st' \<and> store_evolves st st'"
proof -
  have keys: "rr_id (g r) = rr_id r" "rr_event_purchase_id (g r) = rr_event_purchase_id r"
    if "r \<in> set (rs_refunds st)" for r
    using g [OF that] by (auto simp: regular_def row_evolves_def same_refund_def)
  have fin: "(rr_finalized_at (g r) = None) = (rr_finalized_at r = None)"
    if "r \<in> set (rs_refunds st)" for r
    using g [OF that] by (auto simp: regular_def)
  have "map rr_id (rs_refunds st') = map rr_id (rs_refunds st)"
    "map rr_event_purchase_id (rs_refunds st') = map rr_event_purchase_id (rs_refunds st)"
    by (simp_all add: rows keys)
  then have "refunds_unique st'" using inv by (simp add: store_inv_def refunds_unique_def)
  moreover have "finalized_count st' = finalized_count st"
    by (rule finalized_count_map [OF rows fin])
  moreover have "row_inv (g r) \<and> purchase_agrees st' (g r)" if r: "r \<in> set (rs_refunds st)" for r
  proof -
    have "row_inv r" "purchase_agrees st r" using inv r by (auto simp: store_inv_def)
    then show ?thesis
      using g [OF r] by (auto simp: regular_def purchase_agrees_def find_purchase_row_def same)
  qed
  moreover have "store_evolves st st'"
    by (rule store_evolves_map [OF rows]) (use g in \<open>metis regular_def row_evolves_refl\<close>)
  ultimately show ?thesis using inv same by (auto simp: store_inv_def rows)
qed

lemma filter_update_one:
  assumes "distinct (map k xs)" and "x \<in> set xs" and "\<not> P x" and "P (f x)"
  shows "length (filter P (map (\<lambda>y. if k y = k x then f y else y) xs)) = Suc (length (filter P xs))"
  using assms
proof (induction xs)
  case (Cons y ys)
  have same: "map (\<lambda>z. if k z = k x then f z else z) ys = ys" if "k x \<notin> k ` set ys"
    using that by (induction ys) auto
  show ?case
  proof (cases "y = x")
    case True
    with Cons.prems same show ?thesis by auto
  next
    case False
    with Cons.prems have "k y \<noteq> k x" "x \<in> set ys" by (auto simp: image_iff)
    with Cons show ?thesis by simp
  qed
qed simp

text \<open>One row changes, and possibly the status of its purchase.\<close>

lemma store_inv_update_one:
  assumes inv: "store_inv st" and r: "find_refund_row i st = Some r"
    and rows: "rs_refunds st' = map (\<lambda>x. if rr_id x = i then f x else x) (rs_refunds st)"
    and f: "row_inv (f r)" "row_evolves r (f r)" "purchase_agrees st' (f r)"
    and others: "\<And>j. j \<noteq> rr_event_purchase_id r \<Longrightarrow>
      map_option pr_status (find_purchase_row j st') = map_option pr_status (find_purchase_row j st)"
    and notices: "notice_count st' = notice_count st +
      (if rr_finalized_at r = None \<and> rr_finalized_at (f r) \<noteq> None then 1 else 0)"
    and work: "work_unique st'"
  shows "store_inv st' \<and> store_evolves st st'"
proof -
  define g where "g x = (if rr_id x = i then f x else x)" for x
  have rin: "r \<in> set (rs_refunds st)" and rid: "rr_id r = i"
    using find_refund_rowD [OF r] by auto
  have uniq: "refunds_unique st" using inv by (simp add: store_inv_def)
  have only: "x = r" if "x \<in> set (rs_refunds st)" "rr_id x = i" for x
    using find_refund_row_unique [OF uniq that(1)] that(2) r by simp
  have g: "g r = f r" "\<And>x. x \<in> set (rs_refunds st) \<Longrightarrow> x \<noteq> r \<Longrightarrow> g x = x"
    using only rid by (auto simp: g_def)
  have keys: "rr_id (g x) = rr_id x" "rr_event_purchase_id (g x) = rr_event_purchase_id x"
    if "x \<in> set (rs_refunds st)" for x
    using that g f(2) by (cases "x = r"; simp add: row_evolves_def same_refund_def)+
  have rows': "rs_refunds st' = map g (rs_refunds st)"
    using rows by (simp add: g_def)
  have "map rr_id (rs_refunds st') = map rr_id (rs_refunds st)"
    "map rr_event_purchase_id (rs_refunds st') = map rr_event_purchase_id (rs_refunds st)"
    by (simp_all add: rows' keys)
  then have "refunds_unique st'" using uniq by (simp add: refunds_unique_def)
  moreover have "row_inv (g x) \<and> purchase_agrees st' (g x)" if x: "x \<in> set (rs_refunds st)" for x
  proof (cases "x = r")
    case False
    then have "rr_event_purchase_id x \<noteq> rr_event_purchase_id r"
      using uniq x rin by (auto simp: refunds_unique_def distinct_map inj_on_def)
    with False show ?thesis
      using inv x g(2) others by (auto simp: store_inv_def purchase_agrees_def)
  qed (simp add: g f)
  moreover have "finalized_count st' = finalized_count st +
      (if rr_finalized_at r = None \<and> rr_finalized_at (f r) \<noteq> None then 1 else 0)"
  proof (cases "rr_finalized_at r = None \<and> rr_finalized_at (f r) \<noteq> None")
    case True
    then show ?thesis
      using filter_update_one [of rr_id "rs_refunds st" r "\<lambda>r. rr_finalized_at r \<noteq> None" f]
        uniq rin rid by (simp add: finalized_count_def rows refunds_unique_def)
  next
    case False
    then have "(rr_finalized_at (g x) = None) = (rr_finalized_at x = None)"
      if "x \<in> set (rs_refunds st)" for x
      using that g f(2) by (cases "x = r") (auto simp: row_evolves_def)
    with False finalized_count_map [OF rows'] show ?thesis by auto
  qed
  moreover have "store_evolves st st'"
    by (rule store_evolves_map [OF rows']) (use g f(2) in \<open>metis row_evolves_refl\<close>)
  ultimately show ?thesis using inv notices work by (auto simp: store_inv_def rows')
qed

lemma update_refund_fields [simp]:
  "rs_refunds (update_refund i f st) = map (\<lambda>r. if rr_id r = i then f r else r) (rs_refunds st)"
  "rs_purchases (update_refund i f st) = rs_purchases st"
  "notice_count (update_refund i f st) = notice_count st"
  "work_unique (update_refund i f st) = work_unique st"
  by (simp_all add: update_refund_def notice_count_def work_unique_def)

lemma store_inv_update_refund:
  assumes "store_inv st" and "find_refund_row i st = Some r" and "regular r (f r)"
  shows "store_inv (update_refund i f st) \<and> store_evolves st (update_refund i f st)"
proof (rule store_inv_regular [OF assms(1) update_refund_fields(1)])
  have uniq: "refunds_unique st" using assms(1) by (simp add: store_inv_def)
  show "(if rr_id x = i then f x else x) = x \<or> regular x (if rr_id x = i then f x else x)"
    if "x \<in> set (rs_refunds st)" for x
    using find_refund_row_unique [OF uniq that] assms(2,3) by auto
  show "work_unique (update_refund i f st)" using assms(1) by (simp add: store_inv_def)
qed simp_all

lemma find_refund_row_inv: "store_inv st \<Longrightarrow> find_refund_row i st = Some r \<Longrightarrow> row_inv r"
  using find_refund_rowD by (auto simp: store_inv_def)

lemma map_option_status_update_purchase:
  assumes "\<And>q. pr_id (f q) = pr_id q"
  shows "map_option pr_status (find_purchase_row j (update_purchase i f st)) =
     (if j = i then map_option (\<lambda>q. pr_status (f q)) (find_purchase_row j st)
      else map_option pr_status (find_purchase_row j st))"
proof -
  have "map_option pr_status (find (\<lambda>p. pr_id p = j) (map (\<lambda>p. if pr_id p = i then f p else p) ps)) =
     (if j = i then map_option (\<lambda>q. pr_status (f q)) (find (\<lambda>p. pr_id p = j) ps)
      else map_option pr_status (find (\<lambda>p. pr_id p = j) ps))" for ps
    by (induction ps) (auto simp: assms)
  then show ?thesis by (simp add: find_purchase_row_def update_purchase_def)
qed

subsection \<open>Each operation on the store\<close>

lemma claim_inv:
  assumes inv: "store_inv st" and op: "claim_event_purchase_refund c provider st = Inr (x, st')"
  shows "store_inv st' \<and> store_evolves st st'"
proof (cases "claimable st provider")
  case Nil
  with op inv show ?thesis by (simp add: claim_event_purchase_refund_def)
next
  case (Cons r rs)
  have "r \<in> set (claimable st provider)" by (simp add: Cons)
  then have r: "r \<in> set (rs_refunds st)" "refund_due st provider r"
    by (auto simp: claimable_def)
  have st': "st' = update_refund (rr_id r) (claim_row c (rs_now st)) st"
    using op by (auto simp: claim_event_purchase_refund_def Cons Let_def
        split: option.splits if_splits)
  have "find_refund_row (rr_id r) st = Some r"
    using inv r(1) by (auto simp: store_inv_def intro: find_refund_row_unique)
  moreover have "regular r (claim_row c (rs_now st) r)"
    using inv r by (auto simp: store_inv_def intro: claim_row_regular)
  ultimately show ?thesis unfolding st' by (intro store_inv_update_refund inv)
qed

lemma pending_inv:
  assumes inv: "store_inv st"
    and op: "record_event_purchase_refund_pending i key pid claim st = Inr (x, st')"
  shows "store_inv st' \<and> store_evolves st st'"
proof -
  consider "st' = st"
    | r where "find_refund_row i st = Some r" "\<not> sql_differs (rr_provider_refund_id r) pid"
        "rr_status r \<notin> {Finalized, ProviderSucceeded}" "\<not> terminally_failed r"
        "st' = update_refund i (pending_row pid (rs_now st)) st"
    using op unfolding record_event_purchase_refund_pending_def
    by (auto split: if_splits option.splits)
  then show ?thesis
  proof cases
    case (2 r)
    then have "regular r (pending_row pid (rs_now st) r)"
      by (intro pending_row_regular find_refund_row_inv [OF inv])
    then show ?thesis unfolding 2(5) by (intro store_inv_update_refund [OF inv 2(1)])
  qed (simp add: inv)
qed

lemma retryable_failure_inv:
  assumes inv: "store_inv st"
    and op: "record_event_purchase_refund_retryable_failure i claim m st = Inr (x, st')"
  shows "store_inv st' \<and> store_evolves st st'"
proof -
  obtain r where r: "find_refund_row i st = Some r" "rr_status r = Processing"
    and st': "st' = update_refund i (retryable_failure_row m (rs_now st)) st"
    using op unfolding record_event_purchase_refund_retryable_failure_def
    by (auto split: if_splits option.splits)
  have "regular r (retryable_failure_row m (rs_now st) r)"
    by (rule retryable_failure_row_regular [OF find_refund_row_inv [OF inv r(1)] r(2)])
  then show ?thesis unfolding st' by (rule store_inv_update_refund [OF inv r(1)])
qed

lemma requeue_stale_inv:
  assumes inv: "store_inv st"
    and op: "requeue_stale_event_purchase_refund_claims st = Inr (n, st')"
  shows "store_inv st' \<and> store_evolves st st'"
proof -
  have st': "st' = st\<lparr>rs_refunds :=
      map (\<lambda>r. if stale_claim st r then requeued_row (rs_now st) r else r) (rs_refunds st)\<rparr>"
    using op by (simp add: requeue_stale_event_purchase_refund_claims_def)
  show ?thesis
  proof (rule store_inv_regular [OF inv])
    show "rs_refunds st' =
        map (\<lambda>r. if stale_claim st r then requeued_row (rs_now st) r else r) (rs_refunds st)"
      by (simp add: st')
  qed (use inv in \<open>auto simp: st' store_inv_def notice_count_def work_unique_def
        intro: requeued_row_regular\<close>)
qed

lemma requeue_inv:
  assumes inv: "store_inv st" and op: "requeue_event_purchase_refund g p st = Inr (x, st')"
  shows "store_inv st' \<and> store_evolves st st'"
proof -
  define hit where "hit r \<longleftrightarrow> rr_event_purchase_id r = p \<and> purchase_in_group g p st \<and> exhausted r"
    for r
  have st': "st' = st\<lparr>rs_refunds := map (\<lambda>r. if hit r then retried_row (rs_now st) r else r)
      (rs_refunds st)\<rparr>"
    using op by (simp add: requeue_event_purchase_refund_def Let_def hit_def split: if_splits)
  show ?thesis
  proof (rule store_inv_regular [OF inv])
    show "rs_refunds st' = map (\<lambda>r. if hit r then retried_row (rs_now st) r else r) (rs_refunds st)"
      by (simp add: st')
  qed (use inv in \<open>auto simp: st' store_inv_def notice_count_def work_unique_def hit_def
        intro: retried_row_regular\<close>)
qed

lemma add_call_fields [simp]:
  "rs_refunds (add_call c st) = rs_refunds st" "rs_purchases (add_call c st) = rs_purchases st"
  "work_unique (add_call c st) = work_unique st"
  "notice_count (add_call c st) = notice_count st + (if is_refund_notice c then 1 else 0)"
  by (simp_all add: add_call_def work_unique_def notice_count_def)

lemma is_refund_notice_simps [simp]:
  "\<not> is_refund_notice (ReconcileEventEnrollment e t c)"
  "\<not> is_refund_notice (ReleaseEventDiscountCodeAvailability d)"
  "\<not> is_refund_notice (InsertAuditLog a actor e)"
  "is_refund_notice (EnqueueNotification k data u) \<longleftrightarrow> k = ''event-refund-approved''"
  by (simp_all add: is_refund_notice_def)

lemma side_effect_fields [simp]:
  "rs_refunds (cancel_attendance p u st) = rs_refunds st"
  "rs_purchases (cancel_attendance p u st) = rs_purchases st"
  "work_unique (cancel_attendance p u st) = work_unique st"
  "notice_count (cancel_attendance p u st) = notice_count st"
  "rs_refunds (release_discount b p st) = rs_refunds st"
  "rs_purchases (release_discount b p st) = rs_purchases st"
  "work_unique (release_discount b p st) = work_unique st"
  "notice_count (release_discount b p st) = notice_count st"
  "rs_refunds (approve_request q n u st) = rs_refunds st"
  "rs_purchases (approve_request q n u st) = rs_purchases st"
  "work_unique (approve_request q n u st) = work_unique st"
  "notice_count (approve_request q n u st) = notice_count st"
  by (simp_all add: cancel_attendance_def release_discount_def approve_request_def add_call_def
      work_unique_def notice_count_def split: option.split)

lemma update_purchase_fields [simp]:
  "rs_refunds (update_purchase i f st) = rs_refunds st"
  "rs_purchases (update_purchase i f st) =
     map (\<lambda>p. if pr_id p = i then f p else p) (rs_purchases st)"
  "work_unique (update_purchase i f st) = work_unique st"
  "notice_count (update_purchase i f st) = notice_count st"
  by (simp_all add: update_purchase_def work_unique_def notice_count_def)

lemma recovery_finalization_fields [simp]:
  "rs_refunds (recovery_finalization u n r p st) = rs_refunds st"
  "rs_purchases (recovery_finalization u n r p st) = rs_purchases st"
  "work_unique (recovery_finalization u n r p st) = work_unique st"
  "notice_count (recovery_finalization u n r p st) = notice_count st"
  by (simp_all add: recovery_finalization_def Let_def)

lemma find_purchase_row_cong:
  "rs_purchases st' = rs_purchases st \<Longrightarrow> find_purchase_row j st' = find_purchase_row j st"
  by (simp add: find_purchase_row_def)

lemma update_purchase_status_cong:
  assumes "rs_purchases st' = rs_purchases (update_purchase i f st)" and "\<And>q. pr_id (f q) = pr_id q"
  shows "map_option pr_status (find_purchase_row j st') =
     (if j = i then map_option (\<lambda>q. pr_status (f q)) (find_purchase_row j st)
      else map_option pr_status (find_purchase_row j st))"
  using find_purchase_row_cong [OF assms(1)] map_option_status_update_purchase [OF assms(2)]
  by simp

lemma find_purchase_row_update_refund [simp]:
  "find_purchase_row j (update_refund i f st) = find_purchase_row j st"
  by (rule find_purchase_row_cong) simp

lemma work_unique_queue: "work_unique st \<Longrightarrow> work_unique (queue_financial_work i p st)"
  by (auto simp: work_unique_def queue_financial_work_def fee_adjustment_for_def
      credit_note_for_def split: option.split)

lemma queue_financial_work_inv:
  assumes "store_inv st"
  shows "store_inv (queue_financial_work i p st) \<and> store_evolves st (queue_financial_work i p st)"
proof (rule store_inv_regular [OF assms, of _ id])
  show "work_unique (queue_financial_work i p st)"
    using assms by (simp add: store_inv_def work_unique_queue)
qed (simp_all add: queue_financial_work_def notice_count_def)

lemma succeeded_inv:
  assumes inv: "store_inv st"
    and op: "record_event_purchase_refund_succeeded i key pid claim st = Inr (x, st')"
  shows "store_inv st' \<and> store_evolves st st'"
proof -
  consider "st' = st"
    | r p s where "find_refund_row i st = Some r" "\<not> sql_differs (rr_provider_refund_id r) pid"
        "rr_status r \<noteq> Finalized" "\<not> terminally_failed r"
        "restore_refunded_purchase (succeeded_row pid (rs_now st) r)
           (update_refund i (succeeded_row pid (rs_now st)) st) = Inr s"
        "st' = queue_financial_work i p s"
    | r p s where "find_refund_row i st = Some r" "rr_status r = Finalized"
        "restore_refunded_purchase r st = Inr s" "st' = queue_financial_work i p s"
    using op unfolding record_event_purchase_refund_succeeded_def Let_def
    by (auto split: if_splits option.splits sum.splits)
  then show ?thesis
  proof cases
    case (2 r p s)
    have reg: "regular r (succeeded_row pid (rs_now st) r)"
      using 2 by (intro succeeded_row_regular find_refund_row_inv [OF inv])
    then have "s = update_refund i (succeeded_row pid (rs_now st)) st"
      using 2(5) by (simp add: restore_refunded_purchase_def regular_def)
    with store_inv_update_refund [OF inv 2(1), of "succeeded_row pid (rs_now st)", OF reg]
      queue_financial_work_inv show ?thesis
      unfolding 2(6) by (meson store_evolves_trans)
  next
    case (3 r p s)
    have "row_inv r" "purchase_agrees st r"
      using inv find_refund_rowD [OF 3(1)] by (auto simp: store_inv_def)
    with 3 have "s = st"
      by (auto simp: restore_refunded_purchase_def purchase_agrees_def row_inv_def
          terminally_failed_def split: option.splits if_splits)
    with inv queue_financial_work_inv show ?thesis unfolding 3(4) by blast
  qed (simp add: inv)
qed

lemma terminal_failed_shape:
  assumes op: "record_event_purchase_refund_terminal_failed i key pid m claim st = Inr (x, st')"
    and changed: "st' \<noteq> st"
  obtains r p where "find_refund_row i st = Some r"
    "find_purchase_row (rr_event_purchase_id r) st = Some p"
    "\<not> sql_differs (rr_provider_refund_id r) pid"
    "\<not> (terminally_failed r \<and> rr_provider_refund_id r = Some pid)"
    "st' = (if rr_finalized_at r = None then update_refund i (terminal_failed_row pid m) st
            else update_purchase (pr_id p) (\<lambda>q. q\<lparr>pr_status := RefundRecoveryPending\<rparr>)
                   (update_refund i (terminal_failed_row pid m) st))"
proof -
  obtain r where r: "find_refund_row i st = Some r"
    using op unfolding record_event_purchase_refund_terminal_failed_def
    by (auto split: if_splits option.splits)
  obtain p where p: "find_purchase_row (rr_event_purchase_id r) st = Some p"
    using op r unfolding record_event_purchase_refund_terminal_failed_def
    by (auto split: if_splits option.splits)
  have guards: "\<not> sql_differs (rr_provider_refund_id r) pid"
    "\<not> (terminally_failed r \<and> rr_provider_refund_id r = Some pid)"
    using op changed r p unfolding record_event_purchase_refund_terminal_failed_def
    by (simp_all split: if_splits)
  have "st' = (if rr_finalized_at r = None then update_refund i (terminal_failed_row pid m) st
            else update_purchase (pr_id p) (\<lambda>q. q\<lparr>pr_status := RefundRecoveryPending\<rparr>)
                   (update_refund i (terminal_failed_row pid m) st))"
    using op changed r p guards unfolding record_event_purchase_refund_terminal_failed_def Let_def
    by (simp split: if_splits)
  with r p guards show ?thesis by (rule that)
qed

lemma terminal_failed_inv:
  assumes inv: "store_inv st"
    and op: "record_event_purchase_refund_terminal_failed i key pid m claim st = Inr (x, st')"
  shows "store_inv st' \<and> store_evolves st st'"
proof (cases "st' = st")
  case False
  define f where "f = terminal_failed_row pid m"
  from op False obtain r p where r: "find_refund_row i st = Some r"
    and p: "find_purchase_row (rr_event_purchase_id r) st = Some p"
    and guards: "\<not> sql_differs (rr_provider_refund_id r) pid"
      "\<not> (terminally_failed r \<and> rr_provider_refund_id r = Some pid)"
    and st': "st' = (if rr_finalized_at r = None then update_refund i f st
            else update_purchase (pr_id p) (\<lambda>q. q\<lparr>pr_status := RefundRecoveryPending\<rparr>)
                   (update_refund i f st))"
    unfolding f_def by (rule terminal_failed_shape)
  have f: "row_inv (f r)" "row_evolves r (f r)" "rr_recovery_completed_at r = None"
    using terminal_failed_row_inv [OF find_refund_row_inv [OF inv r] guards, of m]
    by (simp_all add: f_def)
  have shape: "terminally_failed (f r)" "rr_finalized_at (f r) = rr_finalized_at r"
    "rr_recovery_completed_at (f r) = None"
    "rr_event_purchase_id (f r) = rr_event_purchase_id r"
    using f(3) by (simp_all add: f_def terminal_failed_row_def terminally_failed_def)
  have pid: "pr_id p = rr_event_purchase_id r" by (rule find_purchase_rowD [OF p])
  have status: "map_option pr_status (find_purchase_row j st') =
      (if j = rr_event_purchase_id r \<and> rr_finalized_at r \<noteq> None then Some RefundRecoveryPending
       else map_option pr_status (find_purchase_row j st))" for j
    by (simp add: p st' pid map_option_status_update_purchase del: map_option_eq_Some not_None_eq)
  show ?thesis
  proof (rule store_inv_update_one [OF inv r, of st' f])
    show "purchase_agrees st' (f r)"
      by (simp add: purchase_agrees_def shape status del: not_None_eq)
    show "work_unique st'" using inv by (simp add: st' store_inv_def)
  qed (simp_all add: f shape status, simp_all add: st')
qed (simp add: inv)

lemma finalize_shape:
  assumes op: "finalize_event_purchase_refund i claim data provider st = Inr (x, st')"
  obtains (replay) c where "st' = add_call c st" "\<not> is_refund_notice c"
    "map_option rr_status (find_refund_row i st) = Some Finalized"
  | (finalized) r p where "find_refund_row i st = Some r"
    "find_purchase_row (rr_event_purchase_id r) st = Some p"
    "rr_claim_id r \<noteq> None" "rr_provider_refunded_at r \<noteq> None"
    "rs_refunds st' = map (\<lambda>x. if rr_id x = i then finalized_row (rs_now st) x else x)
       (rs_refunds st)"
    "rs_purchases st' = rs_purchases (update_purchase (pr_id p)
       (\<lambda>q. q\<lparr>pr_refunded_at := Some (rs_now st), pr_status := PurchaseRefunded\<rparr>) st)"
    "notice_count st' = notice_count st + 1" "work_unique st' = work_unique st"
proof -
  obtain d where d: "data = Some d"
    using op unfolding finalize_event_purchase_refund_def by (auto split: option.splits)
  obtain r where r: "find_refund_row i st = Some r"
    using op d unfolding finalize_event_purchase_refund_def by (auto split: option.splits)
  obtain p where p: "find_purchase_row (rr_event_purchase_id r) st = Some p"
    using op d r unfolding finalize_event_purchase_refund_def by (auto split: option.splits)
  obtain e where e: "find_event_row (pr_event_id p) st = Some e"
    using op d r p unfolding finalize_event_purchase_refund_def Let_def
    by (auto split: option.splits)
  show ?thesis
  proof (cases "rr_status r = Finalized")
    case True
    then have "st' = add_call (ReconcileEventEnrollment (pr_event_id p)
        (pr_event_ticket_type_id p) provider) st"
      using op d r p e unfolding finalize_event_purchase_refund_def Let_def by simp
    then show ?thesis by (rule replay) (simp_all add: r True)
  next
    case False
    note op' = op [unfolded finalize_event_purchase_refund_def Let_def]
    have claim: "rr_claim_id r = Some claim" "rr_provider_refunded_at r \<noteq> None"
      using op' d r p e False by (simp_all split: if_splits)
    show ?thesis
      by (rule finalized [OF r p])
        (use op' d r p e False claim in auto)
  qed
qed

lemma finalize_inv:
  assumes inv: "store_inv st"
    and op: "finalize_event_purchase_refund i claim data provider st = Inr (x, st')"
  shows "store_inv st' \<and> store_evolves st st'"
  using op
proof (cases rule: finalize_shape)
  case (replay c)
  show ?thesis
    by (rule store_inv_regular [OF inv, of _ id]) (use inv in \<open>simp_all add: replay store_inv_def\<close>)
next
  case (finalized r p)
  let ?f = "finalized_row (rs_now st)"
  have f: "row_inv (?f r)" "row_evolves r (?f r)" "rr_finalized_at r = None"
    "rr_finalized_at (?f r) \<noteq> None" "\<not> terminally_failed (?f r)"
    using finalized_row_inv [OF find_refund_row_inv [OF inv finalized(1)] finalized(3,4)] by auto
  have pid: "pr_id p = rr_event_purchase_id r" by (rule find_purchase_rowD [OF finalized(2)])
  have status: "map_option pr_status (find_purchase_row j st') =
      (if j = rr_event_purchase_id r then Some PurchaseRefunded
       else map_option pr_status (find_purchase_row j st))" for j
    using update_purchase_status_cong [OF finalized(6)] finalized(2)
    by (simp add: pid del: map_option_eq_Some)
  have "rr_event_purchase_id (?f r) = rr_event_purchase_id r" by (simp add: finalized_row_def)
  then have agrees: "purchase_agrees st' (?f r)"
    by (simp add: purchase_agrees_def f(5) status del: map_option_eq_Some)
  show ?thesis
    by (rule store_inv_update_one [OF inv finalized(1,5) f(1,2) agrees])
      (use f inv in \<open>simp_all add: status finalized store_inv_def\<close>)
qed

lemma recovery_shape:
  assumes op: "complete_event_purchase_refund_recovery permitted inp st = Inr (x, st')"
  obtains (replay) c where "st' = add_call c st" "\<not> is_refund_notice c"
  | (recovered) r p where "find_refund_row (crr_event_purchase_refund_id inp) st = Some r"
    "find_purchase_row (rr_event_purchase_id r) st = Some p"
    "terminally_failed r" "rr_recovery_completed_at r = None"
    "rs_refunds st' = map (\<lambda>x. if rr_id x = crr_event_purchase_refund_id inp
       then recovered_row (crr_actor_user_id inp) (crr_recovery_note inp)
              (crr_recovery_reference inp) (rs_now st) x else x) (rs_refunds st)"
    "rs_purchases st' = rs_purchases (update_purchase (pr_id p)
       (\<lambda>q. q\<lparr>pr_refunded_at := Some (coalesce (pr_refunded_at q) (rs_now st)),
              pr_status := PurchaseRefunded\<rparr>) st)"
    "notice_count st' = notice_count st + (if rr_finalized_at r = None then 1 else 0)"
    "work_unique st' = work_unique st"
proof -
  note op' = op [unfolded complete_event_purchase_refund_recovery_def Let_def]
  obtain r where r: "find_refund_row (crr_event_purchase_refund_id inp) st = Some r"
    using op' by (auto split: option.splits if_splits)
  obtain p where p: "find_purchase_row (rr_event_purchase_id r) st = Some p"
    using op' r by (auto split: option.splits if_splits)
  obtain e where e: "find_event_row (pr_event_id p) st = Some e"
    using op' r p by (auto split: option.splits if_splits)
  have grp: "ev_group_id e = crr_group_id inp" "permitted (ev_community_id e) (crr_group_id inp)
      (crr_actor_user_id inp)"
    using op' r p e by (auto split: if_splits)
  have req: "nullif_blank (crr_recovery_reference inp) \<noteq> None"
    "nullif_blank (crr_recovery_note inp) \<noteq> None"
    using op' by (auto split: if_splits)
  note op'' = op' [simplified r p e grp req if_False if_True option.case not_True_eq_False simp_thms]
  show ?thesis
  proof (cases "rr_recovery_completed_at r = None")
    case False
    then have "st' = add_call (ReconcileEventEnrollment (pr_event_id p)
        (pr_event_ticket_type_id p) (crr_payment_provider inp)) st"
      using op'' by (simp split: if_splits)
    then show ?thesis by (rule replay) simp
  next
    case True
    have guards: "terminally_failed r"
      "rr_finalized_at r = None \<Longrightarrow> crr_notification_template_data inp \<noteq> None"
      using op'' True by (auto split: if_splits)
    show ?thesis
      by (rule recovered [OF r p guards(1) True])
        (use op'' True guards in \<open>auto split: if_splits option.splits\<close>)
  qed
qed

lemma recovery_inv:
  assumes inv: "store_inv st"
    and op: "complete_event_purchase_refund_recovery permitted inp st = Inr (x, st')"
  shows "store_inv st' \<and> store_evolves st st'"
  using op
proof (cases rule: recovery_shape)
  case (replay c)
  show ?thesis
    by (rule store_inv_regular [OF inv, of _ id]) (use inv in \<open>simp_all add: replay store_inv_def\<close>)
next
  case (recovered r p)
  let ?f = "recovered_row (crr_actor_user_id inp) (crr_recovery_note inp)
              (crr_recovery_reference inp) (rs_now st)"
  have f: "row_inv (?f r)" "row_evolves r (?f r)" "rr_finalized_at (?f r) \<noteq> None"
    "rr_recovery_completed_at (?f r) \<noteq> None"
    using recovered_row_inv [OF find_refund_row_inv [OF inv recovered(1)] recovered(3,4)] by auto
  have pid: "pr_id p = rr_event_purchase_id r" by (rule find_purchase_rowD [OF recovered(2)])
  have status: "map_option pr_status (find_purchase_row j st') =
      (if j = rr_event_purchase_id r then Some PurchaseRefunded
       else map_option pr_status (find_purchase_row j st))" for j
    using update_purchase_status_cong [OF recovered(6)] recovered(2)
    by (simp add: pid del: map_option_eq_Some)
  have "rr_event_purchase_id (?f r) = rr_event_purchase_id r" by (simp add: recovered_row_def)
  then have agrees: "purchase_agrees st' (?f r)"
    by (simp add: purchase_agrees_def f(4) status del: map_option_eq_Some)
  show ?thesis
    by (rule store_inv_update_one [OF inv recovered(1,5) f(1,2) agrees])
      (use f inv in \<open>simp_all add: status recovered store_inv_def\<close>)
qed

section \<open>The lifecycle as a transition system\<close>

text \<open>
  A refund as the callers insert it (\<^verbatim>\<open>queue_event_refund_request_approval\<close>, \<^verbatim>\<open>cancel_event\<close>,
  \<^verbatim>\<open>cancel_event_attendee_attendance\<close>, \<^verbatim>\<open>reconcile_event_purchase_for_checkout_session\<close>): pending, with
  the defaults of the table, one per purchase.
\<close>

definition new_refund :: "refund_row \<Rightarrow> refund_store \<Rightarrow> bool" where
  "new_refund r st \<longleftrightarrow>
     rr_status r = ProviderPending \<and> rr_attempt_count r = 0 \<and> no_claim r \<and> no_recovery r \<and>
     rr_finalized_at r = None \<and> rr_provider_refund_id r = None \<and>
     rr_provider_refunded_at r = None \<and> \<not> rr_terminal_failure r \<and>
     rr_id r \<notin> rr_id ` set (rs_refunds st) \<and>
     rr_event_purchase_id r \<notin> rr_event_purchase_id ` set (rs_refunds st)"

text \<open>
  Other components may add purchases, events and requests and change the status of a purchase whose
  refund is not finalized; they never touch a refund row.
\<close>

inductive refund_step :: "(uuid \<Rightarrow> uuid \<Rightarrow> uuid \<Rightarrow> bool) \<Rightarrow> refund_store \<Rightarrow> refund_store \<Rightarrow> bool"
  for permitted where
  claim: "claim_event_purchase_refund c provider st = Inr (x, st') \<Longrightarrow>
    refund_step permitted st st'"
| pending: "record_event_purchase_refund_pending i key pid claim st = Inr (y, st') \<Longrightarrow>
    refund_step permitted st st'"
| retryable: "record_event_purchase_refund_retryable_failure i c m st = Inr (u, st') \<Longrightarrow>
    refund_step permitted st st'"
| succeeded: "record_event_purchase_refund_succeeded i key pid claim st = Inr (y, st') \<Longrightarrow>
    refund_step permitted st st'"
| terminal: "record_event_purchase_refund_terminal_failed i key pid m claim st = Inr (u, st') \<Longrightarrow>
    refund_step permitted st st'"
| finalize: "finalize_event_purchase_refund i c data provider_option st = Inr (u, st') \<Longrightarrow>
    refund_step permitted st st'"
| requeue_stale: "requeue_stale_event_purchase_refund_claims st = Inr (n, st') \<Longrightarrow>
    refund_step permitted st st'"
| requeue: "requeue_event_purchase_refund g p st = Inr (u, st') \<Longrightarrow> refund_step permitted st st'"
| recover: "complete_event_purchase_refund_recovery permitted inp st = Inr (b, st') \<Longrightarrow>
    refund_step permitted st st'"
| enqueue: "new_refund r st \<Longrightarrow>
    refund_step permitted st (st\<lparr>rs_refunds := rs_refunds st @ [r]\<rparr>)"
| clock: "rs_now st \<le> t \<Longrightarrow> refund_step permitted st (st\<lparr>rs_now := t\<rparr>)"
| locks: "refund_step permitted st (st\<lparr>rs_locked := ls\<rparr>)"
| uuids: "refund_step permitted st (st\<lparr>rs_uuid_count := n\<rparr>)"
| other_purchase: "(\<And>r. r \<in> set (rs_refunds st) \<Longrightarrow> rr_event_purchase_id r = i \<Longrightarrow>
      rr_finalized_at r = None) \<Longrightarrow> (\<And>q. pr_id (f q) = pr_id q) \<Longrightarrow>
    refund_step permitted st (update_purchase i f st)"
| other_tables: "refund_step permitted st
    (st\<lparr>rs_purchases := rs_purchases st @ ps, rs_events := es, rs_attendees := ats,
        rs_requests := rqs\<rparr>)"

definition initial_store :: "refund_store \<Rightarrow> bool" where
  "initial_store st \<longleftrightarrow> rs_refunds st = [] \<and> rs_fee_adjustments st = [] \<and>
     rs_credit_notes st = [] \<and> rs_calls st = []"

definition reachable_store :: "(uuid \<Rightarrow> uuid \<Rightarrow> uuid \<Rightarrow> bool) \<Rightarrow> refund_store \<Rightarrow> bool" where
  "reachable_store permitted st \<longleftrightarrow>
     (\<exists>st0. initial_store st0 \<and> (refund_step permitted)\<^sup>*\<^sup>* st0 st)"

lemma enqueue_inv:
  assumes inv: "store_inv st" and new: "new_refund r st"
  shows "store_inv (st\<lparr>rs_refunds := rs_refunds st @ [r]\<rparr>)"
proof -
  let ?st = "st\<lparr>rs_refunds := rs_refunds st @ [r]\<rparr>"
  have "row_inv r" "rr_finalized_at r = None"
    using new by (simp_all add: new_refund_def row_inv_def)
  moreover have "purchase_agrees ?st x = purchase_agrees st x" for x
    by (simp add: purchase_agrees_def find_purchase_row_def)
  ultimately show ?thesis
    using inv new
    by (auto simp: store_inv_def new_refund_def refunds_unique_def work_unique_def
        notice_count_def finalized_count_def purchase_agrees_def)
qed

lemma other_purchase_inv:
  assumes inv: "store_inv st"
    and free: "\<And>r. r \<in> set (rs_refunds st) \<Longrightarrow> rr_event_purchase_id r = i \<Longrightarrow> rr_finalized_at r = None"
    and f: "\<And>q. pr_id (f q) = pr_id q"
  shows "store_inv (update_purchase i f st)"
proof -
  have "purchase_agrees (update_purchase i f st) r" if r: "r \<in> set (rs_refunds st)" for r
  proof (cases "rr_event_purchase_id r = i")
    case True
    with free [OF r] show ?thesis by (simp add: purchase_agrees_def)
  next
    case False
    then show ?thesis
      using inv r map_option_status_update_purchase [OF f, where j = "rr_event_purchase_id r"]
      by (simp add: store_inv_def purchase_agrees_def del: map_option_eq_Some)
  qed
  with inv show ?thesis
    by (simp add: store_inv_def refunds_unique_def finalized_count_def)
qed

lemma other_tables_inv:
  assumes "store_inv st"
  shows "store_inv (st\<lparr>rs_purchases := rs_purchases st @ ps, rs_events := es, rs_attendees := ats,
    rs_requests := rqs\<rparr>)" (is "store_inv ?st")
proof -
  have "find_purchase_row j ?st = Some p" if "find_purchase_row j st = Some p" for j p
  proof -
    have "find P xs = Some y \<Longrightarrow> find P (xs @ ys) = Some y" for P and xs ys :: "'b list" and y
      by (induction xs) (auto split: if_splits)
    with that show ?thesis by (simp add: find_purchase_row_def)
  qed
  then have "purchase_agrees st r \<Longrightarrow> purchase_agrees ?st r" for r
    by (auto simp: purchase_agrees_def)
  with assms show ?thesis
    by (auto simp: store_inv_def refunds_unique_def work_unique_def notice_count_def
        finalized_count_def)
qed

lemma clock_inv: "store_inv st \<Longrightarrow> store_inv (st\<lparr>rs_now := t\<rparr>)"
  and locks_inv: "store_inv st \<Longrightarrow> store_inv (st\<lparr>rs_locked := ls\<rparr>)"
  and uuids_inv: "store_inv st \<Longrightarrow> store_inv (st\<lparr>rs_uuid_count := n\<rparr>)"
  by (simp_all add: store_inv_def refunds_unique_def work_unique_def notice_count_def
      finalized_count_def purchase_agrees_def find_purchase_row_def)

lemma store_evolves_same: "set (rs_refunds st) \<subseteq> set (rs_refunds st') \<Longrightarrow> store_evolves st st'"
  unfolding store_evolves_def using row_evolves_refl by blast

lemma refund_step_inv:
  assumes "refund_step permitted st st'" and "store_inv st"
  shows "store_inv st' \<and> store_evolves st st'"
  using assms
proof (induction rule: refund_step.induct)
  case (claim c provider st x st') show ?case by (rule claim_inv [OF claim(2,1)])
next
  case (pending i key pid claim st y st') show ?case by (rule pending_inv [OF pending(2,1)])
next
  case (retryable i c m st u st') show ?case by (rule retryable_failure_inv [OF retryable(2,1)])
next
  case (succeeded i key pid claim st y st') show ?case by (rule succeeded_inv [OF succeeded(2,1)])
next
  case (terminal i key pid m claim st u st')
  show ?case by (rule terminal_failed_inv [OF terminal(2,1)])
next
  case (finalize i c data provider_option st u st')
  show ?case by (rule finalize_inv [OF finalize(2,1)])
next
  case (requeue_stale st n st') show ?case by (rule requeue_stale_inv [OF requeue_stale(2,1)])
next
  case (requeue g p st u st') show ?case by (rule requeue_inv [OF requeue(2,1)])
next
  case (recover inp st b st') show ?case by (rule recovery_inv [OF recover(2,1)])
next
  case (enqueue r st) then show ?case by (simp add: enqueue_inv store_evolves_same subset_insertI)
next
  case (clock st t) then show ?case by (simp add: clock_inv store_evolves_same)
next
  case (locks st ls) then show ?case by (simp add: locks_inv store_evolves_same)
next
  case (uuids st n) then show ?case by (simp add: uuids_inv store_evolves_same)
next
  case (other_purchase st i f)
  then show ?case by (simp add: other_purchase_inv store_evolves_same)
next
  case (other_tables st ps es ats rqs)
  then show ?case by (simp add: other_tables_inv store_evolves_same)
qed

lemma refund_steps_inv:
  assumes "(refund_step permitted)\<^sup>*\<^sup>* st st'" and "store_inv st"
  shows "store_inv st' \<and> store_evolves st st'"
  using assms
proof (induction rule: rtranclp_induct)
  case (step a b)
  then show ?case using refund_step_inv [OF step(2)] store_evolves_trans by blast
qed simp

lemma reachable_store_inv: "reachable_store permitted st \<Longrightarrow> store_inv st"
proof -
  assume "reachable_store permitted st"
  then obtain st0 where st0: "initial_store st0" "(refund_step permitted)\<^sup>*\<^sup>* st0 st"
    by (auto simp: reachable_store_def)
  have "store_inv st0"
    using st0(1) by (simp add: initial_store_def store_inv_def refunds_unique_def work_unique_def
        notice_count_def finalized_count_def)
  with refund_steps_inv [OF st0(2)] show ?thesis by simp
qed

section \<open>A run of the lifecycle\<close>

definition sample_refund :: refund_row where
  "sample_refund =
     \<lparr>rr_id = 20, rr_amount_minor = 2500, rr_created_at = 0, rr_currency_code = ''EUR'',
      rr_event_purchase_id = 10, rr_idempotency_key = ''event-purchase-refund-10'',
      rr_kind = RefundRequestApproval, rr_payment_provider = Stripe, rr_status = ProviderPending,
      rr_event_refund_request_id = Some 30, rr_failure_message = None, rr_finalized_at = None,
      rr_provider_refund_id = None, rr_provider_refunded_at = None,
      rr_recovery_completed_at = None, rr_recovery_completed_by = None, rr_recovery_note = None,
      rr_recovery_reference = None, rr_attempt_count = 0, rr_next_attempt_at = 0,
      rr_terminal_failure = False, rr_claim_id = None, rr_claimed_at = None,
      rr_initiated_by_user_id = Some 12, rr_review_note = None\<rparr>"

definition sample_purchase :: purchase_row where
  "sample_purchase =
     \<lparr>pr_id = 10, pr_event_id = 1, pr_event_ticket_type_id = 5, pr_user_id = 11,
      pr_status = RefundRequested, pr_refunded_at = None, pr_event_discount_code_id = Some 40,
      pr_connected_seller_id = Some ''acct_1'', pr_provider_payment_reference = Some ''pi_1'',
      pr_provider_invoice_id = Some ''in_1'', pr_provider_object_account_id = Some ''acct_1'',
      pr_final_platform_fee_amount_minor = Some 100, pr_provider_total_minor = Some 2500,
      pr_tax_amount_minor = Some 0, pr_currency_code = Some ''EUR''\<rparr>"

definition sample_store :: refund_store where
  "sample_store =
     \<lparr>rs_now = 1000, rs_uuid_count = 0, rs_locked = [], rs_refunds = [],
      rs_purchases = [sample_purchase],
      rs_events = [\<lparr>ev_id = 1, ev_canceled = False, ev_group_id = 2, ev_community_id = 3\<rparr>],
      rs_attendees = [], rs_requests = [], rs_fee_adjustments = [], rs_credit_notes = [],
      rs_calls = []\<rparr>"

definition sample_queued :: refund_store where
  "sample_queued = sample_store\<lparr>rs_refunds := [sample_refund]\<rparr>"

definition sample_claimed :: refund_store where
  "sample_claimed = snd (projr (claim_event_purchase_refund 77 Stripe sample_queued))"

definition sample_confirmed :: refund_store where
  "sample_confirmed = snd (projr (record_event_purchase_refund_succeeded 20
     ''event-purchase-refund-10'' ''re_1'' (Some 77) sample_claimed))"

definition sample_finalized :: refund_store where
  "sample_finalized = snd (projr (finalize_event_purchase_refund 20 77 (Some JNull) (Some Stripe)
     sample_confirmed))"

lemma committed: "\<not> isl r \<Longrightarrow> r = Inr (fst (projr r), snd (projr r))"
  by (cases r) auto

lemma sample_claims:
  "claim_event_purchase_refund 77 Stripe sample_queued =
     Inr (fst (projr (claim_event_purchase_refund 77 Stripe sample_queued)), sample_claimed)"
proof -
  have "\<not> isl (claim_event_purchase_refund 77 Stripe sample_queued)" by code_simp
  then show ?thesis unfolding sample_claimed_def by (rule committed)
qed

lemma sample_confirms:
  "record_event_purchase_refund_succeeded 20 ''event-purchase-refund-10'' ''re_1'' (Some 77)
     sample_claimed =
     Inr (fst (projr (record_event_purchase_refund_succeeded 20 ''event-purchase-refund-10''
       ''re_1'' (Some 77) sample_claimed)), sample_confirmed)"
proof -
  have "\<not> isl (record_event_purchase_refund_succeeded 20 ''event-purchase-refund-10'' ''re_1''
      (Some 77) sample_claimed)" by code_simp
  then show ?thesis unfolding sample_confirmed_def by (rule committed)
qed

lemma sample_finalizes:
  "finalize_event_purchase_refund 20 77 (Some JNull) (Some Stripe) sample_confirmed =
     Inr ((), sample_finalized)"
proof -
  have "\<not> isl (finalize_event_purchase_refund 20 77 (Some JNull) (Some Stripe) sample_confirmed)"
    by code_simp
  from committed [OF this] show ?thesis unfolding sample_finalized_def by simp
qed

lemma sample_queued_reachable: "reachable_store permitted sample_queued"
proof -
  have "new_refund sample_refund sample_store"
    by (simp add: new_refund_def sample_refund_def sample_store_def no_claim_def no_recovery_def)
  from refund_step.enqueue [OF this]
  have "refund_step permitted sample_store sample_queued"
    by (simp add: sample_queued_def sample_store_def)
  moreover have "initial_store sample_store" by (simp add: initial_store_def sample_store_def)
  ultimately show ?thesis unfolding reachable_store_def by blast
qed

lemma reachable_store_step:
  "reachable_store permitted st \<Longrightarrow> refund_step permitted st st' \<Longrightarrow> reachable_store permitted st'"
  unfolding reachable_store_def by (meson rtranclp.rtrancl_into_rtrancl)

lemma sample_claimed_reachable: "reachable_store permitted sample_claimed"
  by (rule reachable_store_step [OF sample_queued_reachable refund_step.claim [OF sample_claims]])

lemma sample_finalizing_steps: "(refund_step permitted)\<^sup>*\<^sup>* sample_claimed sample_finalized"
proof -
  have "refund_step permitted sample_claimed sample_confirmed"
    by (rule refund_step.succeeded [OF sample_confirms])
  moreover have "refund_step permitted sample_confirmed sample_finalized"
    by (rule refund_step.finalize [OF sample_finalizes])
  ultimately show ?thesis by auto
qed

lemma sample_finalized_reachable: "reachable_store permitted sample_finalized"
  using sample_claimed_reachable sample_finalizing_steps
  unfolding reachable_store_def by (meson rtranclp_trans)

lemma sample_claim_some:
  "fst (projr (claim_event_purchase_refund 77 Stripe sample_queued)) \<noteq> None"
proof -
  have "\<not> Option.is_none (fst (projr (claim_event_purchase_refund 77 Stripe sample_queued)))"
    by code_simp
  then show ?thesis by (auto simp: Option.is_none_def)
qed

lemma sample_claimed_row:
  "find_refund_row 20 sample_claimed \<noteq> None \<and>
   map_option rr_claim_id (find_refund_row 20 sample_claimed) = Some (Some 77)"
  by code_simp

lemma sample_has_finalized:
  "\<exists>r\<in>set (rs_refunds sample_finalized). rr_finalized_at r \<noteq> None \<and> \<not> terminally_failed r"
  by code_simp

section \<open>Properties\<close>







text \<open>
  The purchase of a locally finalized refund is in state refunded, except while a provider
  failure reported after finalization waits for its recovery, when it is in state
  refund-recovery-pending.
\<close>

theorem refund_purchase_agreement:
  assumes "reachable_store permitted st" and "r \<in> set (rs_refunds st)"
    and "rr_finalized_at r \<noteq> None"
  shows "\<exists>p. find_purchase_row (rr_event_purchase_id r) st = Some p \<and>
    pr_status p = (if terminally_failed r \<and> rr_recovery_completed_at r = None
                   then RefundRecoveryPending else PurchaseRefunded)"
  using reachable_store_inv [OF assms(1)] assms(2,3)
  by (auto simp: store_inv_def purchase_agrees_def)

theorem refund_purchase_agreement_witness:
  "\<exists>r\<in>set (rs_refunds sample_finalized). \<exists>p.
     find_purchase_row (rr_event_purchase_id r) sample_finalized = Some p \<and>
     pr_status p = PurchaseRefunded"
proof -
  obtain r where "r \<in> set (rs_refunds sample_finalized)" "rr_finalized_at r \<noteq> None"
    "\<not> terminally_failed r"
    using sample_has_finalized by blast
  then show ?thesis
    using refund_purchase_agreement [OF sample_finalized_reachable [of "\<lambda>_ _ _. True"]] by metis
qed

lemma claim_chooses:
  assumes uniq: "refunds_unique st"
    and op: "claim_event_purchase_refund c provider st = Inr (Some job, st')"
  obtains r where "r \<in> set (rs_refunds st)" "refund_due st provider r"
    "rr_id r \<notin> set (rs_locked st)"
    "\<And>q. q \<in> set (rs_refunds st) \<Longrightarrow> refund_due st provider q \<Longrightarrow> rr_id q \<notin> set (rs_locked st) \<Longrightarrow>
       claim_order r \<le> claim_order q"
    "st' = update_refund (rr_id r) (claim_row c (rs_now st)) st"
    "\<exists>reference. cr_refund job = refund_json (claim_row c (rs_now st) r) reference"
proof -
  obtain r rs where Cons: "claimable st provider = r # rs"
    using op by (cases "claimable st provider") (simp_all add: claim_event_purchase_refund_def)
  have r: "r \<in> set (claimable st provider)" by (simp add: Cons)
  have sorted: "sorted (map claim_order (r # rs))"
    unfolding Cons [symmetric] claimable_def by simp
  have least: "claim_order r \<le> claim_order q" if "q \<in> set (claimable st provider)" for q
    using that sorted by (auto simp: Cons)
  have "st' = update_refund (rr_id r) (claim_row c (rs_now st)) st \<and>
      (\<exists>reference. cr_refund job = refund_json (claim_row c (rs_now st) r) reference)"
    using op by (auto simp: claim_event_purchase_refund_def Cons Let_def
        split: option.splits if_splits)
  with r least show ?thesis by (intro that [of r]) (auto simp: claimable_def)
qed

lemma find_refund_row_update:
  assumes "\<And>x. rr_id (f x) = rr_id x"
  shows "find_refund_row j (update_refund i f st) =
    (if j = i then map_option f (find_refund_row j st) else find_refund_row j st)"
proof -
  have "find (\<lambda>r. rr_id r = j) (map (\<lambda>r. if rr_id r = i then f r else r) rs) =
    (if j = i then map_option f (find (\<lambda>r. rr_id r = j) rs) else find (\<lambda>r. rr_id r = j) rs)" for rs
    by (induction rs) (auto simp: assms)
  then show ?thesis by (simp add: find_refund_row_def)
qed

text \<open>
  A claim takes a due, unlocked refund that comes first in the queue order (confirmed refunds
  before the others, then by due time, creation time and identifier), marks exactly that row as
  processing under the new claim, and no other worker can claim it while it is held.
\<close>

theorem claim_exclusive:
  assumes "reachable_store permitted st"
    and "claim_event_purchase_refund c provider st = Inr (Some job, st')"
  shows "\<exists>r\<in>set (rs_refunds st). refund_due st provider r \<and> rr_id r \<notin> set (rs_locked st) \<and>
    (\<forall>q\<in>set (rs_refunds st). refund_due st provider q \<and> rr_id q \<notin> set (rs_locked st) \<longrightarrow>
       claim_order r \<le> claim_order q) \<and>
    rf_event_purchase_refund_id (cr_refund job) = rr_id r \<and> rf_claim_id (cr_refund job) = Some c \<and>
    find_refund_row (rr_id r) st' = Some (claim_row c (rs_now st) r) \<and>
    (\<forall>i. i \<noteq> rr_id r \<longrightarrow> find_refund_row i st' = find_refund_row i st) \<and>
    (\<forall>any. rr_id r \<notin> rr_id ` set (claimable st' any))"
proof -
  have uniq: "refunds_unique st" using reachable_store_inv [OF assms(1)] by (simp add: store_inv_def)
  from claim_chooses [OF uniq assms(2)] obtain r where r: "r \<in> set (rs_refunds st)"
    "refund_due st provider r" "rr_id r \<notin> set (rs_locked st)"
    and least: "\<And>q. q \<in> set (rs_refunds st) \<Longrightarrow> refund_due st provider q \<Longrightarrow>
       rr_id q \<notin> set (rs_locked st) \<Longrightarrow> claim_order r \<le> claim_order q"
    and st': "st' = update_refund (rr_id r) (claim_row c (rs_now st)) st"
    and json: "\<exists>reference. cr_refund job = refund_json (claim_row c (rs_now st) r) reference"
    by metis
  have job: "rf_event_purchase_refund_id (cr_refund job) = rr_id r" "rf_claim_id (cr_refund job) = Some c"
    using json by (auto simp: refund_json_def claim_row_def)
  have id: "rr_id (claim_row c (rs_now st) x) = rr_id x" for x by (simp add: claim_row_def)
  have found: "find_refund_row i st' = (if i = rr_id r then Some (claim_row c (rs_now st) r)
      else find_refund_row i st)" for i
    using find_refund_row_unique [OF uniq r(1)]
    by (simp add: st' find_refund_row_update [OF id])
  have "rr_status (claim_row c (rs_now st) r) = Processing" by (simp add: claim_row_def)
  moreover have "q = claim_row c (rs_now st) r" if "q \<in> set (rs_refunds st')" "rr_id q = rr_id r" for q
    using that uniq r(1) by (auto simp: st' id refunds_unique_def distinct_map inj_on_def)
  ultimately have "rr_id r \<notin> rr_id ` set (claimable st' any)" for any
    by (auto simp: claimable_def refund_due_def)
  with r least job found show ?thesis by auto
qed

theorem claim_exclusive_witness:
  "\<exists>r\<in>set (rs_refunds sample_queued). rr_id r \<notin> rr_id ` set (claimable sample_claimed Stripe)"
proof -
  obtain job where "claim_event_purchase_refund 77 Stripe sample_queued = Inr (Some job, sample_claimed)"
    using sample_claims sample_claim_some by (metis not_None_eq)
  from claim_exclusive [OF sample_queued_reachable [of "\<lambda>_ _ _. True"] this] show ?thesis by blast
qed

text \<open>
  C5: a worker that lost its claim, because the sweep released it or another worker holds the row,
  cannot change the refund any more: recording progress, success, a terminal failure or a retryable
  failure under the old claim raises, and so does finalizing a refund that is not finalized yet.
\<close>

theorem stale_claim_fenced:
  assumes "find_refund_row i st = Some r" and "rr_claim_id r \<noteq> Some c"
  shows "isl (record_event_purchase_refund_pending i key pid (Some c) st) \<and>
    isl (record_event_purchase_refund_succeeded i key pid (Some c) st) \<and>
    isl (record_event_purchase_refund_terminal_failed i key pid m (Some c) st) \<and>
    isl (record_event_purchase_refund_retryable_failure i c m st) \<and>
    (rr_status r = Finalized \<or> isl (finalize_event_purchase_refund i c data provider st))"
proof (intro conjI)
  show "isl (record_event_purchase_refund_pending i key pid (Some c) st)"
    using assms by (simp add: record_event_purchase_refund_pending_def)
  show "isl (record_event_purchase_refund_succeeded i key pid (Some c) st)"
    using assms by (simp add: record_event_purchase_refund_succeeded_def split: option.split)
  show "isl (record_event_purchase_refund_terminal_failed i key pid m (Some c) st)"
    using assms by (simp add: record_event_purchase_refund_terminal_failed_def split: option.split)
  show "isl (record_event_purchase_refund_retryable_failure i c m st)"
    using assms by (simp add: record_event_purchase_refund_retryable_failure_def)
  show "rr_status r = Finalized \<or> isl (finalize_event_purchase_refund i c data provider st)"
    using assms by (simp add: finalize_event_purchase_refund_def Let_def split: option.split)
qed

theorem stale_claim_fenced_witness:
  "isl (record_event_purchase_refund_succeeded 20 ''event-purchase-refund-10'' ''re_2'' (Some 76)
     sample_claimed)"
proof -
  have "\<exists>r. find_refund_row 20 sample_claimed = Some r \<and> rr_claim_id r \<noteq> Some 76"
    using sample_claimed_row by auto
  then show ?thesis using stale_claim_fenced by blast
qed

section \<open>Refinement of the outcome specification\<close>

text \<open>
  What the rest of the platform may assume of a refund: it is open, paid out, bounced (the provider
  reported a terminal failure, before or after it was paid out) or recovered by hand.
\<close>

datatype refund_outcome = RefundOpen | RefundPaid | RefundBounced | RefundRecovered

inductive outcome_step :: "refund_outcome \<Rightarrow> refund_outcome \<Rightarrow> bool" where
  pay: "outcome_step RefundOpen RefundPaid"
| fail: "outcome_step RefundOpen RefundBounced"
| bounce: "outcome_step RefundPaid RefundBounced"
| recovery: "outcome_step RefundBounced RefundRecovered"

inductive_simps outcome_step_from:
  "outcome_step RefundOpen b" "outcome_step RefundPaid b" "outcome_step RefundBounced b"
  "outcome_step RefundRecovered b"

definition row_outcome :: "refund_row \<Rightarrow> refund_outcome" where
  "row_outcome r =
     (if rr_recovery_completed_at r \<noteq> None then RefundRecovered
      else if terminally_failed r then RefundBounced
      else if rr_finalized_at r \<noteq> None then RefundPaid
      else RefundOpen)"

definition store_outcome :: "refund_store \<Rightarrow> uuid \<Rightarrow> refund_outcome option" where
  "store_outcome st i = map_option row_outcome (find_refund_row i st)"

lemma outcome_steps_bounced: "outcome_step\<^sup>*\<^sup>* a RefundBounced" if "a \<noteq> RefundRecovered"
  using that by (cases a) (auto intro: outcome_step.intros)

lemma outcome_steps_recovered: "outcome_step\<^sup>*\<^sup>* a RefundRecovered"
  using outcome_steps_bounced [of a] recovery
  by (cases "a = RefundRecovered") (auto intro: rtranclp.rtrancl_into_rtrancl)

lemma row_evolves_outcome:
  assumes "row_evolves r r'"
  shows "outcome_step\<^sup>*\<^sup>* (row_outcome r) (row_outcome r')"
proof (cases "row_outcome r'")
  case RefundOpen
  then have "row_outcome r = RefundOpen"
    using assms by (auto simp: row_outcome_def row_evolves_def same_recovery_def split: if_splits)
  then show ?thesis
    using RefundOpen by simp
next
  case RefundPaid
  then have "row_outcome r \<in> {RefundOpen, RefundPaid}"
    using assms by (auto simp: row_outcome_def row_evolves_def same_recovery_def split: if_splits)
  then show ?thesis
    using RefundPaid pay by auto
next
  case RefundBounced
  then have "row_outcome r \<noteq> RefundRecovered"
    using assms by (auto simp: row_outcome_def row_evolves_def same_recovery_def split: if_splits)
  then show ?thesis
    using RefundBounced outcome_steps_bounced by simp
next
  case RefundRecovered
  then show ?thesis
    using outcome_steps_recovered by simp
qed



end
