(* ===== verification/Payments_Notifications.thy ===== *)
theory Payments_Notifications
  imports Payments_Interfaces
begin

text \<open>
  The notification composer of the payments service
  (\<^verbatim>\<open>ocg-server/src/services/payments/notification_composer.rs\<close>).

  The event summary, the site settings and the notifications are JSON documents here. Loading them,
  rendering them (\<^verbatim>\<open>services/notifications/payloads.rs\<close> and the templates, with the server
  configuration applied) and enqueueing are methods of the environment the composer holds.
\<close>

record 's notification_env =
  ne_get_site_settings :: "('s, json) io"
  ne_get_event_summary_by_id :: "uuid \<Rightarrow> uuid \<Rightarrow> ('s, json) io"
  ne_refund_approved_template_data :: "json \<Rightarrow> json \<Rightarrow> anyhow + json"
  ne_refund_requested_value :: "json \<Rightarrow> string \<Rightarrow> json \<Rightarrow> anyhow + json"
  ne_event_welcome_notification :: "json \<Rightarrow> uuid \<Rightarrow> json \<Rightarrow> bool \<Rightarrow> anyhow + json"
  ne_refund_rejected_notification :: "json \<Rightarrow> uuid \<Rightarrow> string \<Rightarrow> json \<Rightarrow> anyhow + json"
  ne_enqueue :: "json \<Rightarrow> ('s, unit) io"
  ne_base_url :: string

definition base_url_without_trailing_slash :: "string \<Rightarrow> string" where
  "base_url_without_trailing_slash u = rev (dropWhile (\<lambda>c. c = CHR ''/'') (rev u))"

text \<open>
  The two loads run concurrently in the code and are independent reads; the model performs them in
  the order in which they are listed.
\<close>

definition load_event_notification_context ::
    "'s notification_env \<Rightarrow> uuid \<Rightarrow> uuid \<Rightarrow> ('s, json \<times> json) io" where
  "load_event_notification_context env community_id event_id =
     act_bind (ne_get_site_settings env) (\<lambda>site_settings.
     act_bind (ne_get_event_summary_by_id env community_id event_id) (\<lambda>event.
     act_ok (event, site_settings)))"

definition build_refund_approval_template_data ::
    "'s notification_env \<Rightarrow> uuid \<Rightarrow> uuid \<Rightarrow> ('s, json) io" where
  "build_refund_approval_template_data env community_id event_id =
     act_bind (load_event_notification_context env community_id event_id) (\<lambda>(event, site_settings).
     act_lift (ne_refund_approved_template_data env event site_settings))"

definition build_refund_request_template_data ::
    "'s notification_env \<Rightarrow> uuid \<Rightarrow> uuid \<Rightarrow> ('s, json) io" where
  "build_refund_request_template_data env community_id event_id =
     act_bind (load_event_notification_context env community_id event_id) (\<lambda>(event, site_settings).
     let base_url = base_url_without_trailing_slash (ne_base_url env);
         link = base_url @ ''/dashboard/group?tab=refunds'' in
     act_lift (ne_refund_requested_value env event link site_settings))"

text \<open>Failures to load, build or enqueue a notification are logged and swallowed.\<close>

definition composer_enqueue_notification :: "'s notification_env \<Rightarrow> json \<Rightarrow> ('s, unit) io" where
  "composer_enqueue_notification env notification =
     act_try (ne_enqueue env notification) (\<lambda>_. act_ok ())"

definition composer_load_context ::
    "'s notification_env \<Rightarrow> uuid \<Rightarrow> uuid \<Rightarrow> ('s, (json \<times> json) option) io" where
  "composer_load_context env community_id event_id =
     act_try (load_event_notification_context env community_id event_id)
       (\<lambda>r. act_ok (case r of Inr context \<Rightarrow> Some context | Inl _ \<Rightarrow> None))"

datatype EventWelcomeSelfService = DashboardCancellation | EventPageRefund

definition enqueue_event_welcome_notification_with_self_service ::
    "'s notification_env \<Rightarrow> uuid \<Rightarrow> uuid \<Rightarrow> uuid \<Rightarrow> EventWelcomeSelfService \<Rightarrow> ('s, unit) io" where
  "enqueue_event_welcome_notification_with_self_service env community_id event_id user_id self_service =
     act_bind (composer_load_context env community_id event_id) (\<lambda>context.
     case context of
       None \<Rightarrow> act_ok ()
     | Some (event, site_settings) \<Rightarrow>
         let include_dashboard_link = (self_service = DashboardCancellation) in
         (case ne_event_welcome_notification env event user_id site_settings include_dashboard_link of
            Inr notification \<Rightarrow> composer_enqueue_notification env notification
          | Inl _ \<Rightarrow> act_ok ()))"

definition enqueue_checkout_completed_notification ::
    "'s notification_env \<Rightarrow> CompletedEventPurchase \<Rightarrow> ('s, unit) io" where
  "enqueue_checkout_completed_notification env completed =
     enqueue_event_welcome_notification_with_self_service env (cep_community_id completed)
       (cep_event_id completed) (cep_user_id completed) EventPageRefund"

definition enqueue_event_welcome_notification ::
    "'s notification_env \<Rightarrow> uuid \<Rightarrow> uuid \<Rightarrow> uuid \<Rightarrow> ('s, unit) io" where
  "enqueue_event_welcome_notification env community_id event_id user_id =
     enqueue_event_welcome_notification_with_self_service env community_id event_id user_id
       DashboardCancellation"

definition enqueue_refund_rejection_notification ::
    "'s notification_env \<Rightarrow> uuid \<Rightarrow> uuid \<Rightarrow> uuid \<Rightarrow> string \<Rightarrow> ('s, unit) io" where
  "enqueue_refund_rejection_notification env community_id event_id user_id rejection_reason =
     act_bind (composer_load_context env community_id event_id) (\<lambda>context.
     case context of
       None \<Rightarrow> act_ok ()
     | Some (event, site_settings) \<Rightarrow>
         (case ne_refund_rejected_notification env event user_id rejection_reason site_settings of
            Inr notification \<Rightarrow> composer_enqueue_notification env notification
          | Inl _ \<Rightarrow> act_ok ()))"

section \<open>What a payments flow may rely on\<close>

text \<open>The enqueueing operations never fail, so they never turn a committed change into an error.\<close>

lemma composer_load_context_ok: "\<exists>c s'. composer_load_context env a b s = (Inr c, s')"
  by (simp add: composer_load_context_def act_try_def split: prod.split)

lemma composer_enqueue_ok: "\<exists>s'. composer_enqueue_notification env n s = (Inr (), s')"
  by (simp add: composer_enqueue_notification_def act_try_def split: prod.split)

lemma welcome_ok:
  "\<exists>s'. enqueue_event_welcome_notification_with_self_service env a b u k s = (Inr (), s')"
proof -
  obtain c s1 where "composer_load_context env a b s = (Inr c, s1)"
    using composer_load_context_ok [of env a b s] by (elim exE)
  then show ?thesis
    using composer_enqueue_ok
    by (auto simp: enqueue_event_welcome_notification_with_self_service_def act_bind_def Let_def
        split: option.split sum.split)
qed

lemma rejection_ok:
  "\<exists>s'. enqueue_refund_rejection_notification env a b u reason s = (Inr (), s')"
proof -
  obtain c s1 where "composer_load_context env a b s = (Inr c, s1)"
    using composer_load_context_ok [of env a b s] by (elim exE)
  then show ?thesis
    using composer_enqueue_ok
    by (auto simp: enqueue_refund_rejection_notification_def act_bind_def
        split: option.split sum.split)
qed

text \<open>
  The part of the world that only the database functions change is untouched by the composer, when
  the environment's own operations leave it alone.
\<close>

definition frames :: "('s \<Rightarrow> 'd) \<Rightarrow> ('s, 'e, 'a) act \<Rightarrow> bool" where
  "frames part m \<longleftrightarrow> (\<forall>s. part (snd (m s)) = part s)"

lemma frames_apply: "frames part m \<Longrightarrow> m s = (r, s') \<Longrightarrow> part s' = part s"
  unfolding frames_def by (metis snd_conv)

lemma frames_bind: "frames part m \<Longrightarrow> (\<And>x. frames part (f x)) \<Longrightarrow> frames part (act_bind m f)"
  by (simp add: frames_def act_bind_def split: prod.split sum.split) (metis snd_conv)

lemma frames_try: "frames part m \<Longrightarrow> (\<And>x. frames part (f x)) \<Longrightarrow> frames part (act_try m f)"
  by (simp add: frames_def act_try_def split: prod.split) (metis snd_conv)

lemma frames_map_err: "frames part m \<Longrightarrow> frames part (act_map_err g m)"
  by (simp add: frames_def act_map_err_def split: prod.split sum.split) (metis snd_conv)

lemma frames_const [simp]:
  "frames part (act_ok x)" "frames part (act_err e)" "frames part (act_lift r)"
  by (simp_all add: frames_def)

lemmas frames_rules = frames_bind frames_try frames_map_err frames_const

lemma frames_build_refund_approval:
  assumes "frames part (ne_get_site_settings env)"
    and "\<And>a b. frames part (ne_get_event_summary_by_id env a b)"
  shows "frames part (build_refund_approval_template_data env a b)"
  unfolding build_refund_approval_template_data_def load_event_notification_context_def
  by (intro frames_rules assms) (simp split: prod.split)

end
