(* ===== verification/Refund_Worker.thy ===== *)
theory Refund_Worker
  imports Refund_Lifecycle Payments_Notifications
begin

text \<open>
  The code that moves a refund forward: the recorder shared by worker and webhook
  (\<^verbatim>\<open>services/payments/refund_recorder.rs\<close>), the refund worker (\<^verbatim>\<open>workers/refund.rs\<close>) and the sweep of
  abandoned claims (\<^verbatim>\<open>workers/recovery.rs\<close>).

  What the worker needs of the database is the locale \<open>refund_queue\<close>; it is interpreted on the
  database functions of \<open>Refund_Store\<close>.
\<close>

section \<open>Recording a provider result\<close>

datatype RecordedProviderRefund = RecordedFailed | RecordedPending | RecordedSucceeded

definition persist_provider_refund_result ::
    "'s DBPayments \<Rightarrow> EventPurchaseRefund \<Rightarrow> RefundPaymentResult \<Rightarrow> ('s, RecordedProviderRefund) io" where
  "persist_provider_refund_result db refund provider_refund =
     (let provider_refund_id = rpr_provider_refund_id provider_refund in
      case rpr_status provider_refund of
        RefundFailed \<Rightarrow>
          if rf_terminal_failure refund \<and> rf_provider_refund_id refund = Some provider_refund_id
          then act_ok RecordedFailed
          else
            act_bind (act_context ''failed to record terminal provider refund failure''
              (db_record_event_purchase_refund_terminal_failed db (rf_event_purchase_refund_id refund)
                 (rf_idempotency_key refund) provider_refund_id ''provider refund failed''
                 (rf_claim_id refund)))
              (\<lambda>_. act_ok RecordedFailed)
      | RefundIsPending \<Rightarrow>
          act_bind (act_context ''failed to record pending provider refund''
            (db_record_event_purchase_refund_pending db (rf_event_purchase_refund_id refund)
               (rf_idempotency_key refund) provider_refund_id (rf_claim_id refund)))
            (\<lambda>_. act_ok RecordedPending)
      | RefundSucceeded \<Rightarrow>
          act_bind (act_context ''failed to record successful provider refund''
            (db_record_event_purchase_refund_succeeded db (rf_event_purchase_refund_id refund)
               (rf_idempotency_key refund) provider_refund_id (rf_claim_id refund)))
            (\<lambda>_. act_ok RecordedSucceeded))"

section \<open>The refund worker\<close>

definition finalize_refund ::
    "'s DBPayments \<Rightarrow> 's notification_env \<Rightarrow> ClaimedEventPurchaseRefund \<Rightarrow> ('s, unit) io" where
  "finalize_refund db env refund =
     act_bind (act_lift (ok_or (Msg ''event purchase refund claim id is missing'')
       (rf_claim_id (cr_refund refund)))) (\<lambda>claim_id.
     act_bind (act_context ''failed to build refund approval notification''
       (build_refund_approval_template_data env (cr_community_id refund) (cr_event_id refund)))
       (\<lambda>template_data.
     act_bind (db_finalize_event_purchase_refund db
         (rf_event_purchase_refund_id (cr_refund refund)) claim_id template_data
         (Some (rf_payment_provider (cr_refund refund)))) (\<lambda>_.
     act_ok ())))"

definition find_refund_input :: "ClaimedEventPurchaseRefund \<Rightarrow> string \<Rightarrow> FindRefundInput" where
  "find_refund_input refund reference =
     \<lparr>fri_amount_minor = rf_amount_minor (cr_refund refund),
      fri_connected_seller_id = cr_connected_seller_id refund,
      fri_provider_payment_reference = reference,
      fri_purchase_id = rf_event_purchase_id (cr_refund refund),
      fri_provider_refund_id = rf_provider_refund_id (cr_refund refund)\<rparr>"

definition refund_payment_input :: "ClaimedEventPurchaseRefund \<Rightarrow> string \<Rightarrow> RefundPaymentInput" where
  "refund_payment_input refund reference =
     \<lparr>rpi_amount_minor = rf_amount_minor (cr_refund refund),
      rpi_connected_seller_id = cr_connected_seller_id refund,
      rpi_idempotency_key = rf_idempotency_key (cr_refund refund),
      rpi_provider_payment_reference = reference,
      rpi_purchase_id = rf_event_purchase_id (cr_refund refund)\<rparr>"

definition reconcile_provider_refund ::
    "'s DBPayments \<Rightarrow> 's notification_env \<Rightarrow> 's PaymentsProvider \<Rightarrow> ClaimedEventPurchaseRefund \<Rightarrow>
     ('s, unit) io" where
  "reconcile_provider_refund db env pp refund =
     act_bind (act_lift (ok_or (Msg ''provider payment reference is missing'')
       (rf_provider_payment_reference (cr_refund refund)))) (\<lambda>reference.
     act_bind (pp_find_refund pp (find_refund_input refund reference)) (\<lambda>found.
     act_bind
       (case found of
          Some provider_refund \<Rightarrow> act_ok provider_refund
        | None \<Rightarrow>
            if rf_provider_refund_id (cr_refund refund) \<noteq> None
            then act_err (Msg ''provider refund not found'')
            else pp_refund_payment pp (refund_payment_input refund reference)) (\<lambda>provider_refund.
     act_bind (persist_provider_refund_result db (cr_refund refund) provider_refund) (\<lambda>recorded.
     case recorded of
       RecordedFailed \<Rightarrow> act_ok ()
     | RecordedPending \<Rightarrow> act_ok ()
     | RecordedSucceeded \<Rightarrow> finalize_refund db env refund))))"

definition release_retryable_failure ::
    "'s DBPayments \<Rightarrow> ClaimedEventPurchaseRefund \<Rightarrow> anyhow \<Rightarrow> ('s, unit) io" where
  "release_retryable_failure db refund err =
     (case rf_claim_id (cr_refund refund) of
        None \<Rightarrow> act_ok ()
      | Some claim_id \<Rightarrow>
          act_try (db_record_event_purchase_refund_retryable_failure db
            (rf_event_purchase_refund_id (cr_refund refund)) claim_id (err_to_string err))
            (\<lambda>_. act_ok ()))"

definition process_next_refund ::
    "'s DBPayments \<Rightarrow> 's notification_env \<Rightarrow> 's PaymentsProvider option \<Rightarrow> ('s, bool) io" where
  "process_next_refund db env payments_provider =
     (case payments_provider of
        None \<Rightarrow> act_ok False
      | Some pp \<Rightarrow>
          act_bind (db_claim_event_purchase_refund db (pp_provider pp)) (\<lambda>claimed.
          case claimed of
            None \<Rightarrow> act_ok False
          | Some refund \<Rightarrow>
              act_try
                (if rf_provider_refunded_at (cr_refund refund) \<noteq> None
                 then finalize_refund db env refund
                 else reconcile_provider_refund db env pp refund) (\<lambda>result.
              case result of
                Inl err \<Rightarrow> act_bind (release_retryable_failure db refund err) (\<lambda>_. act_err err)
              | Inr _ \<Rightarrow> act_ok True)))"

section \<open>The sweep of abandoned claims\<close>

text \<open>Each queue is swept on its own; a failure is reported and does not stop the others.\<close>

definition sweep_stale_claims :: "'s DBPayments \<Rightarrow> ('s, unit) io" where
  "sweep_stale_claims db =
     act_try (db_requeue_stale_event_purchase_application_fee_adjustment_claims db) (\<lambda>_.
     act_try (db_requeue_stale_event_purchase_credit_note_claims db) (\<lambda>_.
     act_try (db_requeue_stale_event_purchase_refund_claims db) (\<lambda>_.
     act_ok ())))"

section \<open>What the worker needs of the database\<close>

text \<open>
  A refund is held by a job when its row is processing under the job's claim and idempotency key;
  it is released when it is no longer processing.
\<close>

definition holds :: "(uuid \<Rightarrow> EventPurchaseRefund option) \<Rightarrow> EventPurchaseRefund \<Rightarrow> bool" where
  "holds view job \<longleftrightarrow> rf_claim_id job \<noteq> None \<and>
     (\<exists>v. view (rf_event_purchase_refund_id job) = Some v \<and> rf_status v = Processing \<and>
        rf_claim_id v = rf_claim_id job \<and> rf_idempotency_key v = rf_idempotency_key job)"

definition released :: "(uuid \<Rightarrow> EventPurchaseRefund option) \<Rightarrow> EventPurchaseRefund \<Rightarrow> bool" where
  "released view job \<longleftrightarrow>
     (\<exists>v. view (rf_event_purchase_refund_id job) = Some v \<and> rf_status v \<noteq> Processing)"

locale refund_queue =
  fixes db :: "'s DBPayments"
    and db_part :: "'s \<Rightarrow> 'd"
    and view :: "'d \<Rightarrow> uuid \<Rightarrow> EventPurchaseRefund option"
    and inv :: "'d \<Rightarrow> bool"
  assumes claim: "db_claim_event_purchase_refund db provider s = (Inr (Some claimed), s') \<Longrightarrow>
      inv (db_part s) \<Longrightarrow>
      holds (view (db_part s')) (cr_refund claimed) \<and> \<not> rf_terminal_failure (cr_refund claimed)"
    and pending: "holds (view (db_part s)) job \<Longrightarrow>
      db_record_event_purchase_refund_pending db (rf_event_purchase_refund_id job)
        (rf_idempotency_key job) pid (rf_claim_id job) s = (Inr x, s') \<Longrightarrow>
      released (view (db_part s')) job"
    and succeeded: "holds (view (db_part s)) job \<Longrightarrow>
      db_record_event_purchase_refund_succeeded db (rf_event_purchase_refund_id job)
        (rf_idempotency_key job) pid (rf_claim_id job) s = (Inr x, s') \<Longrightarrow>
      holds (view (db_part s')) job"
    and terminal: "holds (view (db_part s)) job \<Longrightarrow>
      db_record_event_purchase_refund_terminal_failed db (rf_event_purchase_refund_id job)
        (rf_idempotency_key job) pid m (rf_claim_id job) s = (Inr u, s') \<Longrightarrow>
      released (view (db_part s')) job"
    and finalize: "holds (view (db_part s)) job \<Longrightarrow> rf_claim_id job = Some c \<Longrightarrow>
      db_finalize_event_purchase_refund db (rf_event_purchase_refund_id job) c data provider_option s
        = (Inr u, s') \<Longrightarrow>
      released (view (db_part s')) job"
    and retryable: "holds (view (db_part s)) job \<Longrightarrow> rf_claim_id job = Some c \<Longrightarrow>
      db_record_event_purchase_refund_retryable_failure db (rf_event_purchase_refund_id job) c m s
        = (r, s') \<Longrightarrow>
      released (view (db_part s')) job"
    and rollback:
      "db_record_event_purchase_refund_pending db i key pid claim s = (Inl e, s') \<Longrightarrow> s' = s"
      "db_record_event_purchase_refund_succeeded db i key pid claim s = (Inl e, s') \<Longrightarrow> s' = s"
      "db_record_event_purchase_refund_terminal_failed db i key pid m claim s = (Inl e, s') \<Longrightarrow> s' = s"
      "db_finalize_event_purchase_refund db i c data provider_option s = (Inl e, s') \<Longrightarrow> s' = s"
    and keeps_inv:
      "keeps (inv \<circ> db_part) (db_claim_event_purchase_refund db provider)"
      "keeps (inv \<circ> db_part) (db_record_event_purchase_refund_pending db i key pid claim)"
      "keeps (inv \<circ> db_part) (db_record_event_purchase_refund_succeeded db i key pid claim)"
      "keeps (inv \<circ> db_part) (db_record_event_purchase_refund_terminal_failed db i key pid m claim)"
      "keeps (inv \<circ> db_part) (db_finalize_event_purchase_refund db i c data provider_option)"
      "keeps (inv \<circ> db_part) (db_record_event_purchase_refund_retryable_failure db i c m)"

text \<open>
  The same together with a provider and a notification environment that leave the database alone:
  the provider is reached over HTTP, and the context of a notification is only read.
\<close>

locale refund_worker = refund_queue db db_part view inv
  for db :: "'s DBPayments" and db_part :: "'s \<Rightarrow> 'd" and view inv +
  fixes pp :: "'s PaymentsProvider" and env :: "'s notification_env"
  assumes frame_find: "frames db_part (pp_find_refund pp find_input)"
    and frame_refund: "frames db_part (pp_refund_payment pp refund_input)"
    and frame_site: "frames db_part (ne_get_site_settings env)"
    and frame_event: "frames db_part (ne_get_event_summary_by_id env a b)"

context refund_queue
begin

text \<open>Recording leaves the refund held after an error or a success, and releases it otherwise.\<close>

lemma persist_cases:
  assumes h: "holds (view (db_part s)) job" and t: "\<not> rf_terminal_failure job"
    and run: "persist_provider_refund_result db job result s = (r, s')"
  shows "(case r of Inl _ \<Rightarrow> holds (view (db_part s')) job
    | Inr RecordedSucceeded \<Rightarrow> holds (view (db_part s')) job
    | Inr _ \<Rightarrow> released (view (db_part s')) job)"
proof (cases "rpr_status result")
  case RefundFailed
  then show ?thesis
    using run t terminal [OF h] h
    by (auto dest: rollback(3) simp: persist_provider_refund_result_def Let_def act_bind_def act_map_err_def
        split: prod.splits sum.splits)
next
  case RefundIsPending
  then show ?thesis
    using run pending [OF h] h
    by (auto dest: rollback(1) simp: persist_provider_refund_result_def Let_def act_bind_def act_map_err_def
        split: prod.splits sum.splits)
next
  case RefundSucceeded
  then show ?thesis
    using run succeeded [OF h] h
    by (auto dest: rollback(2) simp: persist_provider_refund_result_def Let_def act_bind_def act_map_err_def
        split: prod.splits sum.splits)
qed

lemma persist_keeps_inv: "keeps (inv \<circ> db_part) (persist_provider_refund_result db job result)"
  unfolding persist_provider_refund_result_def Let_def
  by (auto intro!: keeps_bind keeps_map_err keeps_inv split: RefundPaymentStatus.split)

end

context refund_worker
begin

lemma frame_template: "frames db_part (build_refund_approval_template_data env a b)"
  by (rule frames_build_refund_approval [OF frame_site frame_event])

lemma finalize_refund_cases:
  assumes h: "holds (view (db_part s)) (cr_refund job)"
    and run: "finalize_refund db env job s = (r, s')"
  shows "if isl r then holds (view (db_part s')) (cr_refund job)
    else released (view (db_part s')) (cr_refund job)"
proof -
  obtain c where c: "rf_claim_id (cr_refund job) = Some c" using h by (auto simp: holds_def)
  obtain r1 s1 where s1: "build_refund_approval_template_data env (cr_community_id job)
      (cr_event_id job) s = (r1, s1)" by fastforce
  have same: "db_part s1 = db_part s" by (rule frames_apply [OF frame_template s1])
  with h have h1: "holds (view (db_part s1)) (cr_refund job)" by simp
  show ?thesis
    using run c s1 h1 finalize [OF h1 c]
    by (auto dest: rollback(4) simp: finalize_refund_def act_bind_def act_map_err_def
        split: prod.splits sum.splits)
qed

lemma reconcile_cases:
  assumes h: "holds (view (db_part s)) (cr_refund job)"
    and t: "\<not> rf_terminal_failure (cr_refund job)"
    and run: "reconcile_provider_refund db env pp job s = (r, s')"
  shows "if isl r then holds (view (db_part s')) (cr_refund job)
    else released (view (db_part s')) (cr_refund job)"
proof (cases "rf_provider_payment_reference (cr_refund job)")
  case None
  with run h show ?thesis by (auto simp: reconcile_provider_refund_def act_bind_def)
next
  case (Some reference)
  define provider_part where "provider_part = act_bind (pp_find_refund pp (find_refund_input job reference))
    (\<lambda>found. case found of Some x \<Rightarrow> act_ok x
      | None \<Rightarrow> if rf_provider_refund_id (cr_refund job) \<noteq> None
          then act_err (Msg ''provider refund not found'')
          else pp_refund_payment pp (refund_payment_input job reference))"
  have frame: "frames db_part provider_part"
    unfolding provider_part_def
    by (intro frames_bind frame_find) (simp add: frame_refund split: option.split)
  have run': "act_bind provider_part (\<lambda>x. act_bind (persist_provider_refund_result db (cr_refund job) x)
      (\<lambda>recorded. case recorded of RecordedFailed \<Rightarrow> act_ok () | RecordedPending \<Rightarrow> act_ok ()
        | RecordedSucceeded \<Rightarrow> finalize_refund db env job)) s = (r, s')"
    using run Some by (simp add: reconcile_provider_refund_def provider_part_def act_bind_assoc)
  obtain r1 s1 where s1: "provider_part s = (r1, s1)" by fastforce
  from frames_apply [OF frame s1] h have h1: "holds (view (db_part s1)) (cr_refund job)" by simp
  show ?thesis
  proof (cases r1)
    case (Inl e)
    with run' s1 h1 show ?thesis by (auto simp: act_bind_def)
  next
    case (Inr x)
    obtain r2 s2 where s2: "persist_provider_refund_result db (cr_refund job) x s1 = (r2, s2)"
      by fastforce
    from persist_cases [OF h1 t s2] run' s1 s2 Inr finalize_refund_cases show ?thesis
      by (auto simp: act_bind_def split: sum.splits RecordedProviderRefund.splits prod.splits)
  qed
qed

text \<open>
  Whatever the provider and the notification service do, a job that was claimed is not left
  processing: it is finalized, pending, terminally failed or scheduled for a retry.
\<close>

lemma process_releases:
  assumes inv: "inv (db_part s)"
    and claimed: "db_claim_event_purchase_refund db (pp_provider pp) s = (Inr (Some job), s1)"
    and run: "process_next_refund db env (Some pp) s = (r, s')"
  shows "released (view (db_part s')) (cr_refund job)"
proof -
  have h: "holds (view (db_part s1)) (cr_refund job)" and t: "\<not> rf_terminal_failure (cr_refund job)"
    using claim [OF claimed inv] by auto
  then obtain c where c: "rf_claim_id (cr_refund job) = Some c" by (auto simp: holds_def)
  define work where "work = (if rf_provider_refunded_at (cr_refund job) \<noteq> None
    then finalize_refund db env job else reconcile_provider_refund db env pp job)"
  obtain r2 s2 where s2: "work s1 = (r2, s2)" by fastforce
  have after: "if isl r2 then holds (view (db_part s2)) (cr_refund job)
      else released (view (db_part s2)) (cr_refund job)"
    using s2 finalize_refund_cases [OF h] reconcile_cases [OF h t]
    by (auto simp: work_def split: if_splits)
  have run': "(case r2 of Inl err \<Rightarrow> act_bind (release_retryable_failure db job err) (\<lambda>_. act_err err) s2
      | Inr _ \<Rightarrow> act_ok True s2) = (r, s')"
    using run claimed s2
    by (auto simp: process_next_refund_def act_bind_def act_try_def work_def
        split: sum.splits prod.splits if_splits)
  show ?thesis
  proof (cases r2)
    case (Inl e)
    with after run' c show ?thesis
      using retryable [of s2 "cr_refund job" c]
      by (auto simp: release_retryable_failure_def act_bind_def act_try_def
          split: sum.splits prod.splits)
  qed (use after run' in auto)
qed

lemma process_keeps_inv: "keeps (inv \<circ> db_part) (process_next_refund db env (Some pp))"
proof -
  have frame: "keeps (inv \<circ> db_part) m" if "frames db_part m" for m :: "('s, 'e, 'a) act"
    using that by (simp add: keeps_def frames_def)
  have fin: "keeps (inv \<circ> db_part) (finalize_refund db env job)" for job
    unfolding finalize_refund_def
    by (intro keeps_bind keeps_map_err keeps_lift keeps_ok keeps_inv frame frame_template)
  have rel: "keeps (inv \<circ> db_part) (release_retryable_failure db job e)" for job e
    unfolding release_retryable_failure_def
    by (auto intro!: keeps_try keeps_inv split: option.split)
  have find: "keeps (inv \<circ> db_part) (pp_find_refund pp i)" for i by (rule frame [OF frame_find])
  have refund: "keeps (inv \<circ> db_part) (pp_refund_payment pp i)" for i by (rule frame [OF frame_refund])
  have rec: "keeps (inv \<circ> db_part) (reconcile_provider_refund db env pp job)" for job
    unfolding reconcile_provider_refund_def
    by (auto intro!: keeps_bind persist_keeps_inv fin find refund
        split: option.split RecordedProviderRefund.split)
  show ?thesis
    unfolding process_next_refund_def
    by (auto intro!: keeps_bind keeps_try keeps_inv fin rec rel split: option.split sum.split)
qed

end

section \<open>The PostgreSQL queue\<close>

text \<open>
  The methods of the trait on the durable store: each runs one database function. The world is the
  store together with whatever the provider and the other services keep. The connection itself does
  not fail in the model: an exception of the function is the only error. \<open>gen\<close> yields the random
  identifiers; the other methods are those of \<open>rest\<close>.
\<close>

definition claim_with_fresh_id ::
    "(nat \<Rightarrow> uuid) \<Rightarrow> PaymentProvider \<Rightarrow> ClaimedEventPurchaseRefund option tx" where
  "claim_with_fresh_id gen provider st =
     claim_event_purchase_refund (gen (rs_uuid_count st)) provider
       (st\<lparr>rs_uuid_count := Suc (rs_uuid_count st)\<rparr>)"

definition pg_claim_event_purchase_refund ::
    "(nat \<Rightarrow> uuid) \<Rightarrow> PaymentProvider \<Rightarrow> (refund_store \<times> 'p, ClaimedEventPurchaseRefund option) io" where
  "pg_claim_event_purchase_refund gen provider = run_tx (claim_with_fresh_id gen provider)"

definition pg_finalize_event_purchase_refund ::
    "uuid \<Rightarrow> uuid \<Rightarrow> json \<Rightarrow> PaymentProvider option \<Rightarrow> (refund_store \<times> 'p, unit) io" where
  "pg_finalize_event_purchase_refund i claim data provider =
     run_tx (finalize_event_purchase_refund i claim (Some data) provider)"

definition pg_get_event_purchase_refund :: "uuid \<Rightarrow> (refund_store \<times> 'p, EventPurchaseRefund) io" where
  "pg_get_event_purchase_refund i = run_tx (get_event_purchase_refund i)"

definition pg_record_event_purchase_refund_pending ::
    "uuid \<Rightarrow> string \<Rightarrow> string \<Rightarrow> uuid option \<Rightarrow> (refund_store \<times> 'p, EventPurchaseRefund) io" where
  "pg_record_event_purchase_refund_pending i key pid claim =
     run_tx (record_event_purchase_refund_pending i key pid claim)"

definition pg_record_event_purchase_refund_retryable_failure ::
    "uuid \<Rightarrow> uuid \<Rightarrow> string \<Rightarrow> (refund_store \<times> 'p, unit) io" where
  "pg_record_event_purchase_refund_retryable_failure i claim m =
     run_tx (record_event_purchase_refund_retryable_failure i claim m)"

definition pg_record_event_purchase_refund_succeeded ::
    "uuid \<Rightarrow> string \<Rightarrow> string \<Rightarrow> uuid option \<Rightarrow> (refund_store \<times> 'p, EventPurchaseRefund) io" where
  "pg_record_event_purchase_refund_succeeded i key pid claim =
     run_tx (record_event_purchase_refund_succeeded i key pid claim)"

definition pg_record_event_purchase_refund_terminal_failed ::
    "uuid \<Rightarrow> string \<Rightarrow> string \<Rightarrow> string \<Rightarrow> uuid option \<Rightarrow> (refund_store \<times> 'p, unit) io" where
  "pg_record_event_purchase_refund_terminal_failed i key pid m claim =
     run_tx (record_event_purchase_refund_terminal_failed i key pid m claim)"

definition pg_requeue_stale_event_purchase_refund_claims :: "(refund_store \<times> 'p, int) io" where
  "pg_requeue_stale_event_purchase_refund_claims = run_tx requeue_stale_event_purchase_refund_claims"

definition pg_payments ::
    "(nat \<Rightarrow> uuid) \<Rightarrow> (refund_store \<times> 'p) DBPayments \<Rightarrow> (refund_store \<times> 'p) DBPayments" where
  "pg_payments gen rest = rest\<lparr>
     db_claim_event_purchase_refund := pg_claim_event_purchase_refund gen,
     db_finalize_event_purchase_refund := pg_finalize_event_purchase_refund,
     db_get_event_purchase_refund := pg_get_event_purchase_refund,
     db_record_event_purchase_refund_pending := pg_record_event_purchase_refund_pending,
     db_record_event_purchase_refund_retryable_failure :=
       pg_record_event_purchase_refund_retryable_failure,
     db_record_event_purchase_refund_succeeded := pg_record_event_purchase_refund_succeeded,
     db_record_event_purchase_refund_terminal_failed :=
       pg_record_event_purchase_refund_terminal_failed,
     db_requeue_stale_event_purchase_refund_claims :=
       pg_requeue_stale_event_purchase_refund_claims\<rparr>"

definition refund_view :: "refund_store \<Rightarrow> uuid \<Rightarrow> EventPurchaseRefund option" where
  "refund_view st i = map_option (\<lambda>r. refund_json r None) (find_refund_row i st)"

lemma run_tx_eq_Inr:
  "run_tx op s = (Inr x, s') \<longleftrightarrow> (\<exists>st'. op (fst s) = Inr (x, st') \<and> s' = (st', snd s))"
  by (cases s) (auto simp: run_tx_def split: sum.split)

lemma run_tx_eq_Inl:
  "run_tx op s = (Inl e, s') \<longleftrightarrow> (\<exists>m. op (fst s) = Inl m \<and> e = Msg m \<and> s' = s)"
  by (cases s) (auto simp: run_tx_def split: sum.split)

lemma keeps_run_tx:
  assumes "\<And>st x st'. op st = Inr (x, st') \<Longrightarrow> P st \<Longrightarrow> P st'"
  shows "keeps (P \<circ> fst) (run_tx op)"
  using assms by (auto simp: keeps_def run_tx_def split: sum.split)

lemma claim_fresh_inv:
  "claim_with_fresh_id gen provider st = Inr (x, st') \<Longrightarrow> store_inv st \<Longrightarrow> store_inv st'"
  unfolding claim_with_fresh_id_def using claim_inv uuids_inv by blast

subsection \<open>The laws of the queue\<close>

lemma row_ids [simp]:
  "rr_id (claim_row c now r) = rr_id r" "rr_id (pending_row pid now r) = rr_id r"
  "rr_id (succeeded_row pid now r) = rr_id r" "rr_id (terminal_failed_row pid m r) = rr_id r"
  "rr_id (retryable_failure_row m now r) = rr_id r" "rr_id (finalized_row now r) = rr_id r"
  by (simp_all add: claim_row_def pending_row_def succeeded_row_def terminal_failed_row_def
      retryable_failure_row_def finalized_row_def)

lemma row_statuses [simp]:
  "rr_status (claim_row c now r) = Processing" "rr_status (pending_row pid now r) = ProviderPending"
  "rr_status (terminal_failed_row pid m r) = ProviderFailed"
  "rr_status (retryable_failure_row m now r) = ProviderFailed"
  "rr_status (finalized_row now r) = Finalized"
  by (simp_all add: claim_row_def pending_row_def terminal_failed_row_def
      retryable_failure_row_def finalized_row_def)

lemma find_refund_row_cong:
  "rs_refunds st' = rs_refunds st \<Longrightarrow> find_refund_row i st' = find_refund_row i st"
  by (simp add: find_refund_row_def)

lemma holdsE:
  assumes "holds (refund_view st) job"
  obtains r c where "find_refund_row (rf_event_purchase_refund_id job) st = Some r"
    "rr_status r = Processing" "rr_claim_id r = Some c" "rf_claim_id job = Some c"
    "rr_idempotency_key r = rf_idempotency_key job"
  using assms by (auto simp: holds_def refund_view_def refund_json_def)

lemma holdsI:
  "find_refund_row (rf_event_purchase_refund_id job) st = Some r \<Longrightarrow> rr_status r = Processing \<Longrightarrow>
   rr_claim_id r = rf_claim_id job \<Longrightarrow> rf_claim_id job \<noteq> None \<Longrightarrow>
   rr_idempotency_key r = rf_idempotency_key job \<Longrightarrow> holds (refund_view st) job"
  by (simp add: holds_def refund_view_def refund_json_def)

lemma releasedI:
  "find_refund_row (rf_event_purchase_refund_id job) st = Some r \<Longrightarrow> rr_status r \<noteq> Processing \<Longrightarrow>
   released (refund_view st) job"
  by (simp add: released_def refund_view_def refund_json_def)

lemma claim_holds:
  assumes inv: "store_inv st" and op: "claim_event_purchase_refund c provider st = Inr (Some job, st')"
  shows "holds (refund_view st') (cr_refund job) \<and> \<not> rf_terminal_failure (cr_refund job)"
proof -
  have uniq: "refunds_unique st" using inv by (simp add: store_inv_def)
  from claim_chooses [OF uniq op] obtain r reference where r: "r \<in> set (rs_refunds st)"
    "refund_due st provider r"
    and st': "st' = update_refund (rr_id r) (claim_row c (rs_now st)) st"
    and job: "cr_refund job = refund_json (claim_row c (rs_now st) r) reference"
    by metis
  have "find_refund_row (rr_id r) st' = Some (claim_row c (rs_now st) r)"
    using find_refund_row_unique [OF uniq r(1)] by (simp add: st' find_refund_row_update)
  moreover have "\<not> rr_terminal_failure r"
    using inv r by (cases "rr_status r") (auto simp: store_inv_def row_inv_def refund_due_def)
  ultimately show ?thesis
    by (auto simp: job refund_json_def claim_row_def intro!: holdsI)
qed

lemma pending_releases:
  assumes h: "holds (refund_view st) job"
    and op: "record_event_purchase_refund_pending (rf_event_purchase_refund_id job)
      (rf_idempotency_key job) pid (rf_claim_id job) st = Inr (x, st')"
  shows "released (refund_view st') job"
proof -
  from h obtain r c where r: "find_refund_row (rf_event_purchase_refund_id job) st = Some r"
    "rr_status r = Processing" "rr_claim_id r = Some c" "rf_claim_id job = Some c"
    "rr_idempotency_key r = rf_idempotency_key job" by (rule holdsE)
  then have "st' = update_refund (rf_event_purchase_refund_id job) (pending_row pid (rs_now st)) st"
    using op by (auto simp: record_event_purchase_refund_pending_def terminally_failed_def
        split: if_splits)
  with r(1) show ?thesis by (intro releasedI) (auto simp: find_refund_row_update)
qed

lemma succeeded_holds:
  assumes h: "holds (refund_view st) job"
    and op: "record_event_purchase_refund_succeeded (rf_event_purchase_refund_id job)
      (rf_idempotency_key job) pid (rf_claim_id job) st = Inr (x, st')"
  shows "holds (refund_view st') job"
proof -
  from h obtain r c where r: "find_refund_row (rf_event_purchase_refund_id job) st = Some r"
    "rr_status r = Processing" "rr_claim_id r = Some c" "rf_claim_id job = Some c"
    "rr_idempotency_key r = rf_idempotency_key job" by (rule holdsE)
  have refunds: "rs_refunds st' = rs_refunds (update_refund (rf_event_purchase_refund_id job)
      (succeeded_row pid (rs_now st)) st)"
    using op r
    by (auto simp: record_event_purchase_refund_succeeded_def terminally_failed_def Let_def
        queue_financial_work_def restore_refunded_purchase_def
        split: if_splits option.splits sum.splits)
  have "find_refund_row (rf_event_purchase_refund_id job) st' = Some (succeeded_row pid (rs_now st) r)"
    using find_refund_row_cong [OF refunds] r(1) by (simp add: find_refund_row_update)
  then show ?thesis by (rule holdsI) (use r in \<open>simp_all add: succeeded_row_def\<close>)
qed

lemma terminal_releases:
  assumes h: "holds (refund_view st) job"
    and op: "record_event_purchase_refund_terminal_failed (rf_event_purchase_refund_id job)
      (rf_idempotency_key job) pid m (rf_claim_id job) st = Inr (u, st')"
  shows "released (refund_view st') job"
proof -
  from h obtain r c where r: "find_refund_row (rf_event_purchase_refund_id job) st = Some r"
    "rr_status r = Processing" "rr_claim_id r = Some c" "rf_claim_id job = Some c"
    "rr_idempotency_key r = rf_idempotency_key job" by (rule holdsE)
  have refunds: "rs_refunds st' = rs_refunds (update_refund (rf_event_purchase_refund_id job)
      (terminal_failed_row pid m) st)"
    using op r
    by (auto simp: record_event_purchase_refund_terminal_failed_def terminally_failed_def Let_def
        split: if_splits option.splits)
  show ?thesis
    by (rule releasedI, simp add: find_refund_row_cong [OF refunds] find_refund_row_update r) simp
qed

lemma finalize_releases:
  assumes h: "holds (refund_view st) job"
    and op: "finalize_event_purchase_refund (rf_event_purchase_refund_id job) c data provider st =
      Inr (u, st')"
  shows "released (refund_view st') job"
  using op
proof (cases rule: finalize_shape)
  case (replay call)
  from h obtain r where r: "find_refund_row (rf_event_purchase_refund_id job) st = Some r"
    "rr_status r = Processing" by (rule holdsE)
  with replay show ?thesis by simp
next
  case (finalized r p)
  have refunds: "rs_refunds st' = rs_refunds (update_refund (rf_event_purchase_refund_id job)
      (finalized_row (rs_now st)) st)" by (simp add: finalized(5))
  show ?thesis
    by (rule releasedI, simp add: find_refund_row_cong [OF refunds] find_refund_row_update finalized(1))
      simp
qed

lemma retryable_releases:
  assumes h: "holds (refund_view st) job" and c: "rf_claim_id job = Some c"
  shows "\<exists>st'. record_event_purchase_refund_retryable_failure (rf_event_purchase_refund_id job) c m st =
    Inr ((), st') \<and> released (refund_view st') job"
proof -
  from h obtain r where r: "find_refund_row (rf_event_purchase_refund_id job) st = Some r"
    "rr_status r = Processing" "rr_claim_id r = Some c" using c by (auto elim: holdsE)
  then have "find_refund_row (rf_event_purchase_refund_id job)
      (update_refund (rf_event_purchase_refund_id job) (retryable_failure_row m (rs_now st)) st) =
      Some (retryable_failure_row m (rs_now st) r)"
    by (simp add: find_refund_row_update)
  then have "released (refund_view (update_refund (rf_event_purchase_refund_id job)
      (retryable_failure_row m (rs_now st)) st)) job"
    by (rule releasedI) simp
  with r show ?thesis by (simp add: record_event_purchase_refund_retryable_failure_def)
qed

interpretation pgq: refund_queue "pg_payments gen rest" fst refund_view store_inv
  for gen :: "nat \<Rightarrow> uuid" and rest :: "(refund_store \<times> 'p) DBPayments"
proof (unfold_locales, goal_cases)
  case (1 provider s claimed s')
  then show ?case
    using claim_holds uuids_inv
    by (fastforce simp: pg_payments_def pg_claim_event_purchase_refund_def run_tx_eq_Inr
        claim_with_fresh_id_def)
next
  case (2 s job pid x s')
  then show ?case
    using pending_releases
    by (fastforce simp: pg_payments_def pg_record_event_purchase_refund_pending_def run_tx_eq_Inr)
next
  case (3 s job pid x s')
  then show ?case
    using succeeded_holds
    by (fastforce simp: pg_payments_def pg_record_event_purchase_refund_succeeded_def run_tx_eq_Inr)
next
  case (4 s job pid m u s')
  then show ?case
    using terminal_releases
    by (fastforce simp: pg_payments_def pg_record_event_purchase_refund_terminal_failed_def
        run_tx_eq_Inr)
next
  case (5 s job c data provider_option u s')
  then show ?case
    using finalize_releases
    by (fastforce simp: pg_payments_def pg_finalize_event_purchase_refund_def run_tx_eq_Inr)
next
  case (6 s job c m r s')
  with retryable_releases [of "fst s" job c m] show ?case
    by (cases s) (auto simp: pg_payments_def pg_record_event_purchase_refund_retryable_failure_def
        run_tx_def)
next
  case (7 i key pid claim s e s')
  then show ?case
    by (auto simp: pg_payments_def pg_record_event_purchase_refund_pending_def run_tx_eq_Inl)
next
  case (8 i key pid claim s e s')
  then show ?case
    by (auto simp: pg_payments_def pg_record_event_purchase_refund_succeeded_def run_tx_eq_Inl)
next
  case (9 i key pid m claim s e s')
  then show ?case
    by (auto simp: pg_payments_def pg_record_event_purchase_refund_terminal_failed_def run_tx_eq_Inl)
next
  case (10 i c data provider_option s e s')
  then show ?case
    by (auto simp: pg_payments_def pg_finalize_event_purchase_refund_def run_tx_eq_Inl)
next
  case (11 provider)
  show ?case
    by (simp add: pg_payments_def pg_claim_event_purchase_refund_def)
      (rule keeps_run_tx, rule claim_fresh_inv)
next
  case (12 i key pid claim)
  show ?case
    by (simp add: pg_payments_def pg_record_event_purchase_refund_pending_def)
      (rule keeps_run_tx, blast dest: pending_inv)
next
  case (13 i key pid claim)
  show ?case
    by (simp add: pg_payments_def pg_record_event_purchase_refund_succeeded_def)
      (rule keeps_run_tx, blast dest: succeeded_inv)
next
  case (14 i key pid m claim)
  show ?case
    by (simp add: pg_payments_def pg_record_event_purchase_refund_terminal_failed_def)
      (rule keeps_run_tx, blast dest: terminal_failed_inv)
next
  case (15 i c data provider_option)
  show ?case
    by (simp add: pg_payments_def pg_finalize_event_purchase_refund_def)
      (rule keeps_run_tx, blast dest: finalize_inv)
next
  case (16 i c m)
  show ?case
    by (simp add: pg_payments_def pg_record_event_purchase_refund_retryable_failure_def)
      (rule keeps_run_tx, blast dest: retryable_failure_inv)
qed

subsection \<open>Services outside the database\<close>

text \<open>A provider and a notification environment that work on the rest of the world.\<close>

definition external_provider :: "'p PaymentsProvider \<Rightarrow> (refund_store \<times> 'p) PaymentsProvider" where
  "external_provider pp =
     \<lparr>pp_create_checkout_session = \<lambda>i. outside (pp_create_checkout_session pp i),
      pp_ensure_performance_location = \<lambda>i. outside (pp_ensure_performance_location pp i),
      pp_find_refund = \<lambda>i. outside (pp_find_refund pp i),
      pp_get_checkout_financial_context = \<lambda>i. outside (pp_get_checkout_financial_context pp i),
      pp_get_financial_document = \<lambda>i. outside (pp_get_financial_document pp i),
      pp_list_tax_rates = \<lambda>i. outside (pp_list_tax_rates pp i),
      pp_provider = pp_provider pp,
      pp_reconcile_application_fee_adjustment =
        \<lambda>i. outside (pp_reconcile_application_fee_adjustment pp i),
      pp_reconcile_credit_note = \<lambda>i. outside (pp_reconcile_credit_note pp i),
      pp_refund_payment = \<lambda>i. outside (pp_refund_payment pp i),
      pp_validate_fiscal_sponsor = \<lambda>i. outside (pp_validate_fiscal_sponsor pp i),
      pp_validate_tax_rates = \<lambda>i. outside (pp_validate_tax_rates pp i),
      pp_verify_and_parse_webhook = \<lambda>e h b. outside (pp_verify_and_parse_webhook pp e h b)\<rparr>"

definition external_notifications ::
    "'p notification_env \<Rightarrow> (refund_store \<times> 'p) notification_env" where
  "external_notifications env =
     \<lparr>ne_get_site_settings = outside (ne_get_site_settings env),
      ne_get_event_summary_by_id = \<lambda>a b. outside (ne_get_event_summary_by_id env a b),
      ne_refund_approved_template_data = ne_refund_approved_template_data env,
      ne_refund_requested_value = ne_refund_requested_value env,
      ne_event_welcome_notification = ne_event_welcome_notification env,
      ne_refund_rejected_notification = ne_refund_rejected_notification env,
      ne_enqueue = \<lambda>n. outside (ne_enqueue env n),
      ne_base_url = ne_base_url env\<rparr>"

lemma frames_outside [simp]: "frames fst (outside m)"
  by (simp add: frames_def outside_def split: prod.split)

lemma outside_apply: "m p = (r, p') \<Longrightarrow> outside m (st, p) = (r, (st, p'))"
  by (simp add: outside_def)

interpretation pgw: refund_worker "pg_payments gen rest" fst refund_view store_inv
    "external_provider pp" "external_notifications env"
  for gen :: "nat \<Rightarrow> uuid" and rest :: "(refund_store \<times> 'p) DBPayments"
    and pp :: "'p PaymentsProvider" and env :: "'p notification_env"
  by unfold_locales (simp_all add: external_provider_def external_notifications_def)

section \<open>Properties\<close>


text \<open>A provider that finds every refund, and a notification environment that answers.\<close>

definition confirming_provider :: "unit PaymentsProvider" where
  "confirming_provider =
     \<lparr>pp_create_checkout_session = \<lambda>_. act_err (Msg ''unused''),
      pp_ensure_performance_location = \<lambda>_. act_err InvalidAddress,
      pp_find_refund = \<lambda>_. act_ok (Some \<lparr>rpr_provider_refund_id = ''re_1'',
                                        rpr_status = RefundSucceeded\<rparr>),
      pp_get_checkout_financial_context = \<lambda>_. act_err (Msg ''unused''),
      pp_get_financial_document = \<lambda>_. act_err (Msg ''unused''),
      pp_list_tax_rates = \<lambda>_. act_ok [], pp_provider = Stripe,
      pp_reconcile_application_fee_adjustment = \<lambda>_. act_err (Msg ''unused''),
      pp_reconcile_credit_note = \<lambda>_. act_err (Msg ''unused''),
      pp_refund_payment = \<lambda>_. act_err (Msg ''unused''),
      pp_validate_fiscal_sponsor = \<lambda>_. act_ok (), pp_validate_tax_rates = \<lambda>_. act_ok (),
      pp_verify_and_parse_webhook = \<lambda>_ _ _. act_ok WebhookNoop\<rparr>"

definition answering_notifications :: "unit notification_env" where
  "answering_notifications =
     \<lparr>ne_get_site_settings = act_ok JNull, ne_get_event_summary_by_id = \<lambda>_ _. act_ok JNull,
      ne_refund_approved_template_data = \<lambda>_ _. Inr JNull,
      ne_refund_requested_value = \<lambda>_ _ _. Inr JNull,
      ne_event_welcome_notification = \<lambda>_ _ _ _. Inr JNull,
      ne_refund_rejected_notification = \<lambda>_ _ _ _. Inr JNull, ne_enqueue = \<lambda>_. act_ok (),
      ne_base_url = ''https://example.org''\<rparr>"


text \<open>
  The worker creates a refund at the provider only when the refund is not pinned to one already
  and the provider reports none for the purchase; otherwise the creation call has no influence on
  what it does.
\<close>

theorem refund_created_only_if_absent:
  assumes "rf_provider_refund_id (cr_refund job) \<noteq> None \<or>
    (\<exists>reference found s1. rf_provider_payment_reference (cr_refund job) = Some reference \<and>
       pp_find_refund pp (find_refund_input job reference) s = (Inr (Some found), s1))"
  shows "reconcile_provider_refund db env (pp\<lparr>pp_refund_payment := other\<rparr>) job s =
    reconcile_provider_refund db env pp job s"
proof (cases "rf_provider_payment_reference (cr_refund job)")
  case (Some reference)
  obtain r1 s1 where "pp_find_refund pp (find_refund_input job reference) s = (r1, s1)" by fastforce
  with assms Some show ?thesis
    by (auto simp: reconcile_provider_refund_def act_bind_def split: sum.split option.split)
qed (simp add: reconcile_provider_refund_def)

theorem refund_created_only_if_absent_witness:
  "\<forall>db env other. reconcile_provider_refund db env (confirming_provider\<lparr>pp_refund_payment := other\<rparr>)
     \<lparr>cr_connected_seller_id = ''acct_1'', cr_community_id = 3, cr_event_id = 1,
      cr_refund = refund_json (sample_refund\<lparr>rr_provider_refund_id := Some ''re_1''\<rparr>) (Some ''pi_1'')\<rparr> () =
   reconcile_provider_refund db env confirming_provider
     \<lparr>cr_connected_seller_id = ''acct_1'', cr_community_id = 3, cr_event_id = 1,
      cr_refund = refund_json (sample_refund\<lparr>rr_provider_refund_id := Some ''re_1''\<rparr>) (Some ''pi_1'')\<rparr> ()"
  by (intro allI refund_created_only_if_absent) (simp add: refund_json_def)

end
