(* ===== verification/Webhook_Reconciler.thy ===== *)
theory Webhook_Reconciler
  imports Refund_Worker
begin

text \<open>
  Reconciliation of verified webhook events with the local purchase state
  (\<^verbatim>\<open>ocg-server/src/services/payments/webhook_reconciler.rs\<close>). The reconciler's fields are the
  arguments \<open>db\<close>, \<open>env\<close> (the notification composer) and \<open>pp\<close> (the provider).
\<close>

record RefundUpdatedInput =
  rui_amount_minor :: int
  rui_connected_account_id :: string
  rui_currency_code :: string
  rui_provider_payment_reference :: string
  rui_provider_refund_id :: string
  rui_purchase_id :: uuid
  rui_status :: RefundPaymentStatus

section \<open>Validation\<close>

definition validate_provider_account :: "EventPurchaseSummary \<Rightarrow> string \<Rightarrow> anyhow + unit" where
  "validate_provider_account purchase connected_account_id =
     (if eps_provider_object_account_id purchase \<noteq> Some connected_account_id
      then Inl (Msg ''webhook connected account does not match purchase'') else Inr ())"

definition validate_refund_purchase_event ::
    "EventPurchaseSummary \<Rightarrow> int \<Rightarrow> string \<Rightarrow> string \<Rightarrow> anyhow + unit" where
  "validate_refund_purchase_event purchase amount_minor currency_code provider_payment_reference =
     (if (case eps_provider_total_minor purchase of Some t \<Rightarrow> t | None \<Rightarrow> eps_amount_minor purchase)
         \<noteq> amount_minor
      then Inl (Msg ''refund webhook amount does not match purchase'')
      else if (case eps_currency_code purchase of
                 None \<Rightarrow> True | Some c \<Rightarrow> \<not> eq_ignore_ascii_case c currency_code)
      then Inl (Msg ''refund webhook currency does not match purchase'')
      else if eps_provider_payment_reference purchase \<noteq> Some provider_payment_reference
      then Inl (Msg ''refund webhook payment reference does not match purchase'')
      else Inr ())"

definition validate_refund_event ::
    "EventPurchaseSummary \<Rightarrow> EventPurchaseRefund \<Rightarrow> PaymentProvider \<Rightarrow> int \<Rightarrow> string \<Rightarrow> string \<Rightarrow>
     string \<Rightarrow> anyhow + bool" where
  "validate_refund_event purchase refund provider amount_minor currency_code
     provider_payment_reference provider_refund_id =
     (case validate_refund_purchase_event purchase amount_minor currency_code
             provider_payment_reference of
        Inl e \<Rightarrow> Inl e
      | Inr _ \<Rightarrow>
          if rf_payment_provider refund \<noteq> provider
          then Inl (Msg ''refund webhook provider does not match purchase'')
          else if rf_amount_minor refund \<noteq> amount_minor
          then Inl (Msg ''refund webhook amount does not match purchase'')
          else Inr (case rf_provider_refund_id refund of
                      None \<Rightarrow> True | Some current_id \<Rightarrow> current_id = provider_refund_id))"

section \<open>Refund events\<close>

definition load_refund_for_purchase ::
    "'s DBPayments \<Rightarrow> EventPurchaseSummary \<Rightarrow> ('s, EventPurchaseRefund) io" where
  "load_refund_for_purchase db purchase =
     (if eps_status purchase \<in> {RefundPending, RefundRequested, PurchaseRefunded, RefundRecoveryPending}
      then db_get_event_purchase_refund db (eps_event_purchase_id purchase)
      else act_err (Msg ''event purchase is not awaiting a refund''))"

definition load_validated_refund_for_event ::
    "'s DBPayments \<Rightarrow> EventPurchaseSummary \<Rightarrow> int \<Rightarrow> string \<Rightarrow> string \<Rightarrow> ('s, EventPurchaseRefund) io" where
  "load_validated_refund_for_event db purchase amount_minor currency_code provider_payment_reference =
     act_bind (act_lift (validate_refund_purchase_event purchase amount_minor currency_code
       provider_payment_reference)) (\<lambda>_.
     load_refund_for_purchase db purchase)"

definition reconcile_refund_status ::
    "'s DBPayments \<Rightarrow> EventPurchaseRefund \<Rightarrow> string \<Rightarrow> RefundPaymentStatus \<Rightarrow> ('s, unit) io" where
  "reconcile_refund_status db refund provider_refund_id status =
     act_bind (persist_provider_refund_result db refund
       \<lparr>rpr_provider_refund_id = provider_refund_id, rpr_status = status\<rparr>) (\<lambda>_. act_ok ())"

definition refresh_unpinned_success_status ::
    "'s PaymentsProvider \<Rightarrow> EventPurchaseSummary \<Rightarrow> EventPurchaseRefund \<Rightarrow> string \<Rightarrow> string \<Rightarrow>
     RefundPaymentStatus \<Rightarrow> ('s, RefundPaymentStatus) io" where
  "refresh_unpinned_success_status pp purchase refund provider_payment_reference
     provider_refund_id status =
     (if status \<noteq> RefundSucceeded \<or> rf_provider_refund_id refund \<noteq> None then act_ok status
      else
        act_bind (act_lift (ok_or (Msg ''purchase is missing connected seller account'')
          (eps_provider_object_account_id purchase))) (\<lambda>account.
        act_bind (pp_find_refund pp
          \<lparr>fri_amount_minor = rf_amount_minor refund, fri_connected_seller_id = account,
           fri_provider_payment_reference = provider_payment_reference,
           fri_purchase_id = rf_event_purchase_id refund,
           fri_provider_refund_id = Some provider_refund_id\<rparr>) (\<lambda>found.
        act_bind (act_lift (ok_or (Msg ''provider refund not found'') found)) (\<lambda>provider_refund.
        if rpr_provider_refund_id provider_refund \<noteq> provider_refund_id
        then act_err (Msg ''provider refund id does not match webhook'')
        else act_ok (rpr_status provider_refund)))))"

definition handle_refund_updated ::
    "'s DBPayments \<Rightarrow> 's PaymentsProvider \<Rightarrow> RefundUpdatedInput \<Rightarrow> ('s, unit) io" where
  "handle_refund_updated db pp inp =
     act_bind (db_get_event_purchase_summary db (rui_purchase_id inp)) (\<lambda>purchase.
     act_bind (act_lift (validate_provider_account purchase (rui_connected_account_id inp))) (\<lambda>_.
     act_bind (load_validated_refund_for_event db purchase (rui_amount_minor inp)
       (rui_currency_code inp) (rui_provider_payment_reference inp)) (\<lambda>refund.
     act_bind (act_lift (validate_refund_event purchase refund (pp_provider pp)
       (rui_amount_minor inp) (rui_currency_code inp) (rui_provider_payment_reference inp)
       (rui_provider_refund_id inp))) (\<lambda>is_current_attempt.
     if \<not> is_current_attempt then act_ok ()
     else if rui_status inp \<noteq> RefundFailed \<and> rf_status refund = ProviderFailed \<and>
             rf_terminal_failure refund then act_ok ()
     else if rui_status inp \<noteq> RefundFailed \<and> rf_status refund \<in> {Finalized, ProviderSucceeded}
     then act_ok ()
     else
       act_bind (refresh_unpinned_success_status pp purchase refund
         (rui_provider_payment_reference inp) (rui_provider_refund_id inp) (rui_status inp))
         (\<lambda>status.
       reconcile_refund_status db refund (rui_provider_refund_id inp) status)))))"

section \<open>Checkout, invoice and fee events\<close>

definition attach_application_fee ::
    "'s DBPayments \<Rightarrow> 's PaymentsProvider \<Rightarrow> int \<Rightarrow> string \<Rightarrow> string \<Rightarrow> string \<Rightarrow> ('s, unit) io" where
  "attach_application_fee db pp amount_minor connected_account_id provider_application_fee_id
     provider_charge_id =
     db_attach_application_fee_to_event_purchase db (pp_provider pp) connected_account_id
       provider_charge_id provider_application_fee_id amount_minor"

definition attach_invoice ::
    "'s DBPayments \<Rightarrow> string \<Rightarrow> string \<Rightarrow> string option \<Rightarrow> string \<Rightarrow> uuid \<Rightarrow> ('s, unit) io" where
  "attach_invoice db connected_account_id hosted_url pdf_url provider_invoice_id purchase_id =
     db_attach_invoice_to_event_purchase db purchase_id connected_account_id provider_invoice_id
       hosted_url pdf_url"

definition expire_checkout_session ::
    "'s DBPayments \<Rightarrow> 's PaymentsProvider \<Rightarrow> string \<Rightarrow> string \<Rightarrow> ('s, unit) io" where
  "expire_checkout_session db pp provider_object_account_id provider_session_id =
     db_expire_event_purchase_for_checkout_session db (pp_provider pp) provider_object_account_id
       provider_session_id"

definition handle_completed_checkout ::
    "'s DBPayments \<Rightarrow> 's notification_env \<Rightarrow> 's PaymentsProvider \<Rightarrow> string \<Rightarrow> string \<Rightarrow> ('s, unit) io" where
  "handle_completed_checkout db env pp provider_object_account_id provider_session_id =
     act_bind (pp_get_checkout_financial_context pp
       \<lparr>gci_connected_seller_id = provider_object_account_id,
        gci_provider_session_id = provider_session_id\<rparr>) (\<lambda>context.
     act_bind (db_reconcile_event_purchase_for_checkout_session db
       \<lparr>rci_payment_provider = pp_provider pp,
        rci_provider_charge_id = cfc_provider_charge_id context,
        rci_provider_object_account_id = provider_object_account_id,
        rci_provider_payment_reference = cfc_provider_payment_reference context,
        rci_provider_session_id = provider_session_id,
        rci_provider_total_minor = cfc_provider_total_minor context,
        rci_tax_amount_minor = cfc_tax_amount_minor context,
        rci_provider_application_fee_id = cfc_provider_application_fee_id context\<rparr>) (\<lambda>result.
     case result of
       PurchaseReconciled completed \<Rightarrow> enqueue_checkout_completed_notification env completed
     | ReconcileNoop \<Rightarrow> act_ok ()
     | RefundQueued \<Rightarrow> act_ok ()))"

definition handle_webhook_event ::
    "'s DBPayments \<Rightarrow> 's notification_env \<Rightarrow> 's PaymentsProvider \<Rightarrow> PaymentsWebhookEvent \<Rightarrow>
     ('s, unit) io" where
  "handle_webhook_event db env pp event = (case event of
     ApplicationFeeCreated amount_minor connected_account_id _ provider_application_fee_id
       provider_charge_id \<Rightarrow>
       attach_application_fee db pp amount_minor connected_account_id provider_application_fee_id
         provider_charge_id
   | CheckoutCompleted connected_account_id _ provider_session_id \<Rightarrow>
       handle_completed_checkout db env pp connected_account_id provider_session_id
   | CheckoutExpired connected_account_id _ provider_session_id \<Rightarrow>
       expire_checkout_session db pp connected_account_id provider_session_id
   | InvoicePaid connected_account_id hosted_url _ provider_invoice_id purchase_id pdf_url \<Rightarrow>
       attach_invoice db connected_account_id hosted_url pdf_url provider_invoice_id purchase_id
   | WebhookNoop \<Rightarrow> act_ok ()
   | RefundUpdated amount_minor connected_account_id currency_code _ provider_payment_reference
       provider_refund_id purchase_id status \<Rightarrow>
       handle_refund_updated db pp
         \<lparr>rui_amount_minor = amount_minor, rui_connected_account_id = connected_account_id,
          rui_currency_code = currency_code,
          rui_provider_payment_reference = provider_payment_reference,
          rui_provider_refund_id = provider_refund_id, rui_purchase_id = purchase_id,
          rui_status = status\<rparr>)"

section \<open>Properties\<close>

text \<open>What a refund event has to agree with before it may change anything.\<close>

definition refund_event_matches :: "EventPurchaseSummary \<Rightarrow> RefundUpdatedInput \<Rightarrow> bool" where
  "refund_event_matches purchase inp \<longleftrightarrow>
     eps_provider_object_account_id purchase = Some (rui_connected_account_id inp) \<and>
     (case eps_provider_total_minor purchase of Some t \<Rightarrow> t | None \<Rightarrow> eps_amount_minor purchase)
       = rui_amount_minor inp \<and>
     (case eps_currency_code purchase of
        Some c \<Rightarrow> eq_ignore_ascii_case c (rui_currency_code inp) | None \<Rightarrow> False) \<and>
     eps_provider_payment_reference purchase = Some (rui_provider_payment_reference inp) \<and>
     eps_status purchase \<in> {RefundPending, RefundRequested, PurchaseRefunded, RefundRecoveryPending}"

lemma validate_event_matches:
  "refund_event_matches purchase inp \<longleftrightarrow>
     validate_provider_account purchase (rui_connected_account_id inp) = Inr () \<and>
     validate_refund_purchase_event purchase (rui_amount_minor inp) (rui_currency_code inp)
       (rui_provider_payment_reference inp) = Inr () \<and>
     eps_status purchase \<in> {RefundPending, RefundRequested, PurchaseRefunded, RefundRecoveryPending}"
  unfolding refund_event_matches_def validate_provider_account_def validate_refund_purchase_event_def
  by (auto split: option.splits)

lemma handle_refund_updated_matched:
  assumes summary: "db_get_event_purchase_summary db (rui_purchase_id inp) s = (Inr purchase, s1)"
    and refund: "db_get_event_purchase_refund db (eps_event_purchase_id purchase) s1 = (Inr refund, s2)"
    and matches: "refund_event_matches purchase inp" "rf_payment_provider refund = pp_provider pp"
      "rf_amount_minor refund = rui_amount_minor inp"
  shows "handle_refund_updated db pp inp s =
    (if rf_provider_refund_id refund \<notin> {None, Some (rui_provider_refund_id inp)} \<or>
        rui_status inp \<noteq> RefundFailed \<and>
          (rf_status refund = ProviderFailed \<and> rf_terminal_failure refund \<or>
           rf_status refund \<in> {Finalized, ProviderSucceeded})
     then (Inr (), s2)
     else act_bind (refresh_unpinned_success_status pp purchase refund
            (rui_provider_payment_reference inp) (rui_provider_refund_id inp) (rui_status inp))
            (reconcile_refund_status db refund (rui_provider_refund_id inp)) s2)"
proof -
  note v = matches(1) [unfolded validate_event_matches]
  have load: "load_validated_refund_for_event db purchase (rui_amount_minor inp)
      (rui_currency_code inp) (rui_provider_payment_reference inp) s1 = (Inr refund, s2)"
    using v refund by (simp add: load_validated_refund_for_event_def load_refund_for_purchase_def)
  have valid: "validate_refund_event purchase refund (pp_provider pp) (rui_amount_minor inp)
      (rui_currency_code inp) (rui_provider_payment_reference inp) (rui_provider_refund_id inp) =
      Inr (rf_provider_refund_id refund \<in> {None, Some (rui_provider_refund_id inp)})"
    using v matches(2,3) by (auto simp: validate_refund_event_def split: option.split)
  show ?thesis
    unfolding handle_refund_updated_def
    by (auto simp: act_bind_def [of "db_get_event_purchase_summary db (rui_purchase_id inp)"] summary v
        act_bind_def [of "load_validated_refund_for_event db purchase (rui_amount_minor inp)
          (rui_currency_code inp) (rui_provider_payment_reference inp)"] load valid)
qed

text \<open>A database whose every method fails, to be completed by the methods a run needs.\<close>

definition failing_db :: "'s DBPayments" where
  "failing_db =
     \<lparr>db_attach_application_fee_to_event_purchase = \<lambda>_ _ _ _ _. act_err (Msg ''unused''),
      db_attach_checkout_session_to_event_purchase = \<lambda>_ _ _. act_err (Msg ''unused''),
      db_attach_invoice_to_event_purchase = \<lambda>_ _ _ _ _. act_err (Msg ''unused''),
      db_claim_event_purchase_application_fee_adjustment = \<lambda>_. act_err (Msg ''unused''),
      db_claim_event_purchase_credit_note = \<lambda>_. act_err (Msg ''unused''),
      db_claim_event_purchase_refund = \<lambda>_. act_err (Msg ''unused''),
      db_complete_event_purchase_refund_recovery = \<lambda>_. act_err (Msg ''unused''),
      db_complete_free_event_purchase = \<lambda>_. act_err (Msg ''unused''),
      db_expire_event_purchase_for_checkout_session = \<lambda>_ _ _. act_err (Msg ''unused''),
      db_finalize_event_purchase_refund = \<lambda>_ _ _ _. act_err (Msg ''unused''),
      db_get_event_purchase_refund = \<lambda>_. act_err (Msg ''unused''),
      db_get_event_purchase_refund_recovery_context = \<lambda>_ _. act_err (Msg ''unused''),
      db_get_event_purchase_summary = \<lambda>_. act_err (Msg ''unused''),
      db_get_payment_provider_tax_location = \<lambda>_ _ _. act_err (Msg ''unused''),
      db_get_user_purchase_document_context = \<lambda>_ _ _. act_err (Msg ''unused''),
      db_queue_event_refund_request_approval = \<lambda>_ _ _ _. act_err (Msg ''unused''),
      db_reconcile_event_purchase_for_checkout_session = \<lambda>_. act_err (Msg ''unused''),
      db_record_event_purchase_application_fee_adjustment_failure = \<lambda>_ _ _. act_err (Msg ''unused''),
      db_record_event_purchase_application_fee_adjustment_succeeded = \<lambda>_ _ _. act_err (Msg ''unused''),
      db_record_event_purchase_credit_note_failure = \<lambda>_ _ _. act_err (Msg ''unused''),
      db_record_event_purchase_credit_note_succeeded = \<lambda>_ _ _ _ _. act_err (Msg ''unused''),
      db_record_event_purchase_refund_pending = \<lambda>_ _ _ _. act_err (Msg ''unused''),
      db_record_event_purchase_refund_retryable_failure = \<lambda>_ _ _. act_err (Msg ''unused''),
      db_record_event_purchase_refund_succeeded = \<lambda>_ _ _ _. act_err (Msg ''unused''),
      db_record_event_purchase_refund_terminal_failed = \<lambda>_ _ _ _ _. act_err (Msg ''unused''),
      db_reject_event_refund_request = \<lambda>_ _ _ _. act_err (Msg ''unused''),
      db_request_event_refund = \<lambda>_ _ _ _ _. act_err (Msg ''unused''),
      db_requeue_stale_event_purchase_application_fee_adjustment_claims = act_err (Msg ''unused''),
      db_requeue_stale_event_purchase_credit_note_claims = act_err (Msg ''unused''),
      db_requeue_stale_event_purchase_refund_claims = act_err (Msg ''unused''),
      db_upsert_payment_provider_tax_location = \<lambda>_ _ _ _ _. act_err (Msg ''unused'')\<rparr>"

definition sample_summary :: EventPurchaseSummary where
  "sample_summary =
     \<lparr>eps_amount_minor = 2500, eps_discount_amount_minor = 0, eps_event_purchase_id = 10,
      eps_event_ticket_type_id = 5, eps_provisional_platform_fee_amount_minor = 100,
      eps_status = RefundRequested, eps_ticket_title = ''General'', eps_completed_at = None,
      eps_currency_code = Some ''EUR'', eps_discount_code = None, eps_hold_expires_at = None,
      eps_provider_checkout_url = None, eps_provider_object_account_id = Some ''acct_1'',
      eps_provider_payment_reference = Some ''pi_1'', eps_provider_session_id = None,
      eps_provider_total_minor = Some 2500, eps_refunded_at = None\<rparr>"

definition sample_event :: "string \<Rightarrow> RefundPaymentStatus \<Rightarrow> RefundUpdatedInput" where
  "sample_event account status =
     \<lparr>rui_amount_minor = 2500, rui_connected_account_id = account, rui_currency_code = ''eur'',
      rui_provider_payment_reference = ''pi_1'', rui_provider_refund_id = ''re_1'',
      rui_purchase_id = 10, rui_status = status\<rparr>"

definition sample_webhook_db :: "refund_row \<Rightarrow> unit DBPayments" where
  "sample_webhook_db row = failing_db\<lparr>
     db_get_event_purchase_summary := \<lambda>_. act_ok sample_summary,
     db_get_event_purchase_refund := \<lambda>_. act_ok (refund_json row None)\<rparr>"

text \<open>
  A refund event whose connected account, amount, currency or payment reference differs from
  the purchase, or whose purchase is in no refund state, is rejected before anything but the
  purchase summary was read.
\<close>

theorem refund_webhook_mismatch_rejected:
  assumes "db_get_event_purchase_summary db (rui_purchase_id inp) s = (Inr purchase, s1)"
    and "\<not> refund_event_matches purchase inp"
  shows "\<exists>e. handle_refund_updated db pp inp s = (Inl e, s1)"
proof (cases "validate_provider_account purchase (rui_connected_account_id inp)")
  case (Inl e)
  with assms(1) show ?thesis by (simp add: handle_refund_updated_def act_bind_def)
next
  case (Inr u)
  have "\<exists>e. load_validated_refund_for_event db purchase (rui_amount_minor inp) (rui_currency_code inp)
      (rui_provider_payment_reference inp) s1 = (Inl e, s1)"
    using assms(2) Inr
    by (cases "validate_refund_purchase_event purchase (rui_amount_minor inp) (rui_currency_code inp)
        (rui_provider_payment_reference inp)")
      (auto simp: validate_event_matches load_validated_refund_for_event_def
        load_refund_for_purchase_def)
  with assms(1) Inr show ?thesis by (auto simp: handle_refund_updated_def act_bind_def)
qed

theorem refund_webhook_mismatch_rejected_witness:
  "\<exists>e. handle_refund_updated (sample_webhook_db sample_refund) confirming_provider
     (sample_event ''acct_2'' RefundSucceeded) () = (Inl e, ())"
  by (rule refund_webhook_mismatch_rejected [where purchase = sample_summary])
    (simp_all add: sample_webhook_db_def refund_event_matches_def sample_summary_def sample_event_def)

text \<open>
  progress or success reported late, after the refund is confirmed, finalized or terminally
  failed, and any event about another provider refund than the pinned one, is acknowledged and
  changes nothing.
\<close>

theorem refund_webhook_late_event_ignored:
  assumes "db_get_event_purchase_summary db (rui_purchase_id inp) s = (Inr purchase, s1)"
    and "db_get_event_purchase_refund db (eps_event_purchase_id purchase) s1 = (Inr refund, s2)"
    and "refund_event_matches purchase inp" and "rf_payment_provider refund = pp_provider pp"
    and "rf_amount_minor refund = rui_amount_minor inp"
    and "rf_provider_refund_id refund \<notin> {None, Some (rui_provider_refund_id inp)} \<or>
      rui_status inp \<noteq> RefundFailed \<and>
        (rf_status refund = ProviderFailed \<and> rf_terminal_failure refund \<or>
         rf_status refund \<in> {Finalized, ProviderSucceeded})"
  shows "handle_refund_updated db pp inp s = (Inr (), s2)"
  using handle_refund_updated_matched [OF assms(1-5)] assms(6) by simp

theorem refund_webhook_late_event_ignored_witness:
  "handle_refund_updated
     (sample_webhook_db (sample_refund\<lparr>rr_status := Finalized, rr_provider_refund_id := Some ''re_1''\<rparr>))
     confirming_provider (sample_event ''acct_1'' RefundIsPending) () = (Inr (), ())"
proof (rule refund_webhook_late_event_ignored [where purchase = sample_summary and refund =
      "refund_json (sample_refund\<lparr>rr_status := Finalized, rr_provider_refund_id := Some ''re_1''\<rparr>) None"])
  show "refund_event_matches sample_summary (sample_event ''acct_1'' RefundIsPending)"
    by code_simp
qed (simp_all add: sample_webhook_db_def sample_summary_def sample_event_def confirming_provider_def
    refund_json_def sample_refund_def)

text \<open>
  A success event for a refund that is not pinned yet is never trusted by itself: what is
  recorded is the status the provider reports for exactly that refund at the moment of processing,
  and if the provider does not know the refund nothing is recorded.
\<close>

theorem refund_webhook_success_confirmed:
  assumes "db_get_event_purchase_summary db (rui_purchase_id inp) s = (Inr purchase, s1)"
    and "db_get_event_purchase_refund db (eps_event_purchase_id purchase) s1 = (Inr refund, s2)"
    and "refund_event_matches purchase inp" and "rf_payment_provider refund = pp_provider pp"
    and "rf_amount_minor refund = rui_amount_minor inp"
    and "rf_provider_refund_id refund = None" and "rui_status inp = RefundSucceeded"
    and "rf_status refund \<notin> {Finalized, ProviderSucceeded}" and "\<not> rf_terminal_failure refund"
    and "pp_find_refund pp \<lparr>fri_amount_minor = rf_amount_minor refund,
      fri_connected_seller_id = rui_connected_account_id inp,
      fri_provider_payment_reference = rui_provider_payment_reference inp,
      fri_purchase_id = rf_event_purchase_id refund,
      fri_provider_refund_id = Some (rui_provider_refund_id inp)\<rparr> s2 = (answer, s3)"
  shows "case answer of
      Inr (Some found) \<Rightarrow>
        if rpr_provider_refund_id found = rui_provider_refund_id inp
        then handle_refund_updated db pp inp s =
          reconcile_refund_status db refund (rui_provider_refund_id inp) (rpr_status found) s3
        else (\<exists>e. handle_refund_updated db pp inp s = (Inl e, s3))
    | _ \<Rightarrow> (\<exists>e. handle_refund_updated db pp inp s = (Inl e, s3))"
proof -
  have account: "eps_provider_object_account_id purchase = Some (rui_connected_account_id inp)"
    using assms(3) by (simp add: refund_event_matches_def)
  have "handle_refund_updated db pp inp s =
      act_bind (refresh_unpinned_success_status pp purchase refund
        (rui_provider_payment_reference inp) (rui_provider_refund_id inp) (rui_status inp))
        (reconcile_refund_status db refund (rui_provider_refund_id inp)) s2"
    using handle_refund_updated_matched [OF assms(1-5)] assms(6-9) by simp
  then show ?thesis
    using assms(6,7,10) account
    by (auto simp: refresh_unpinned_success_status_def act_bind_def split: sum.split option.split)
qed

theorem refund_webhook_success_confirmed_witness:
  "handle_refund_updated (sample_webhook_db sample_refund) confirming_provider
     (sample_event ''acct_1'' RefundSucceeded) () =
   reconcile_refund_status (sample_webhook_db sample_refund) (refund_json sample_refund None)
     ''re_1'' RefundSucceeded ()"
proof -
  have "refund_event_matches sample_summary (sample_event ''acct_1'' RefundSucceeded)"
    by code_simp
  from refund_webhook_success_confirmed [where purchase = sample_summary and
      refund = "refund_json sample_refund None" and db = "sample_webhook_db sample_refund" and
      pp = confirming_provider and s = "()" and ?s1.0 = "()" and ?s2.0 = "()" and ?s3.0 = "()" and
      answer = "Inr (Some \<lparr>rpr_provider_refund_id = ''re_1'', rpr_status = RefundSucceeded\<rparr>)",
      OF _ _ this]
  show ?thesis
    by (simp add: sample_webhook_db_def sample_event_def confirming_provider_def refund_json_def
        sample_refund_def)
qed

end
