(* ===== verification/Payments_Manager.thy ===== *)
theory Payments_Manager
  imports Webhook_Reconciler
begin

text \<open>
  The payments manager used by the request handlers
  (\<^verbatim>\<open>ocg-server/src/services/payments/manager.rs\<close>) and the webhook endpoints on top of it
  (\<^verbatim>\<open>ocg-server/src/handlers/payments.rs\<close>).
\<close>

record 's PgPaymentsManager =
  pm_db :: "'s DBPayments"
  pm_notification_composer :: "'s notification_env"
  pm_payments_provider :: "'s PaymentsProvider option"
  pm_base_url :: string

record ApproveRefundRequestInput =
  ari_actor_user_id :: uuid
  ari_event_purchase_id :: uuid
  ari_group_id :: uuid
  ari_review_note :: "string option"

record CompleteRefundRecoveryInput =
  cri_actor_user_id :: uuid
  cri_event_purchase_id :: uuid
  cri_group_id :: uuid
  cri_recovery_note :: string
  cri_recovery_reference :: string

datatype HandleWebhookError = InvalidPayload | PaymentsNotConfigured | WebhookUnexpected anyhow

record RequestRefundInput =
  rri_community_id :: uuid
  rri_event_id :: uuid
  rri_user_id :: uuid
  rri_requested_reason :: "string option"

record RejectRefundRequestInput =
  jri_actor_user_id :: uuid
  jri_event_purchase_id :: uuid
  jri_group_id :: uuid
  jri_review_note :: string

section \<open>Provider and webhooks\<close>

definition configured_payments_provider :: "'s PgPaymentsManager \<Rightarrow> anyhow + 's PaymentsProvider" where
  "configured_payments_provider pm =
     ok_or (Msg ''payments are not configured'') (pm_payments_provider pm)"

definition configured_provider :: "'s PgPaymentsManager \<Rightarrow> PaymentProvider option" where
  "configured_provider pm = map_option pp_provider (pm_payments_provider pm)"

definition handle_scoped_webhook ::
    "'s PgPaymentsManager \<Rightarrow> PaymentsWebhookEndpoint \<Rightarrow> header_map \<Rightarrow> string \<Rightarrow>
     ('s, HandleWebhookError, unit) act" where
  "handle_scoped_webhook pm endpoint headers body =
     act_bind (act_lift (ok_or PaymentsNotConfigured (pm_payments_provider pm))) (\<lambda>pp.
     act_bind (act_map_err (\<lambda>_. InvalidPayload)
       (pp_verify_and_parse_webhook pp endpoint headers body)) (\<lambda>webhook_event.
     act_map_err WebhookUnexpected
       (handle_webhook_event (pm_db pm) (pm_notification_composer pm) pp webhook_event)))"

definition manager_handle_connected_webhook ::
    "'s PgPaymentsManager \<Rightarrow> header_map \<Rightarrow> string \<Rightarrow> ('s, HandleWebhookError, unit) act" where
  "manager_handle_connected_webhook pm headers body =
     handle_scoped_webhook pm ConnectedAccount headers body"

definition manager_handle_webhook ::
    "'s PgPaymentsManager \<Rightarrow> header_map \<Rightarrow> string \<Rightarrow> ('s, HandleWebhookError, unit) act" where
  "manager_handle_webhook pm headers body = handle_scoped_webhook pm PlatformAccount headers body"

section \<open>Refund requests\<close>

definition approve_refund_request ::
    "'s PgPaymentsManager \<Rightarrow> ApproveRefundRequestInput \<Rightarrow> ('s, unit) io" where
  "approve_refund_request pm inp =
     db_queue_event_refund_request_approval (pm_db pm) (ari_actor_user_id inp) (ari_group_id inp)
       (ari_event_purchase_id inp) (ari_review_note inp)"

definition complete_free_checkout ::
    "'s PgPaymentsManager \<Rightarrow> uuid \<Rightarrow> uuid \<Rightarrow> uuid \<Rightarrow> uuid \<Rightarrow> ('s, unit) io" where
  "complete_free_checkout pm community_id event_id event_purchase_id user_id =
     act_bind (db_complete_free_event_purchase (pm_db pm) event_purchase_id) (\<lambda>_.
     act_bind (enqueue_event_welcome_notification (pm_notification_composer pm) community_id event_id
       user_id) (\<lambda>_.
     act_ok ()))"

definition complete_refund_recovery ::
    "'s PgPaymentsManager \<Rightarrow> CompleteRefundRecoveryInput \<Rightarrow> ('s, unit) io" where
  "complete_refund_recovery pm inp =
     act_bind (db_get_event_purchase_refund_recovery_context (pm_db pm) (cri_group_id inp)
       (cri_event_purchase_id inp)) (\<lambda>context.
     act_bind
       (if erc_notification_required context
        then act_bind (build_refund_approval_template_data (pm_notification_composer pm)
               (erc_community_id context) (erc_event_id context)) (\<lambda>data. act_ok (Some data))
        else act_ok None) (\<lambda>notification_template_data.
     db_complete_event_purchase_refund_recovery (pm_db pm)
       \<lparr>crr_actor_user_id = cri_actor_user_id inp,
        crr_event_purchase_refund_id = erc_event_purchase_refund_id context,
        crr_group_id = cri_group_id inp,
        crr_recovery_note = cri_recovery_note inp,
        crr_recovery_reference = cri_recovery_reference inp,
        crr_notification_template_data = notification_template_data,
        crr_payment_provider = map_option pp_provider (pm_payments_provider pm)\<rparr>))"

definition reject_refund_request ::
    "'s PgPaymentsManager \<Rightarrow> RejectRefundRequestInput \<Rightarrow> ('s, unit) io" where
  "reject_refund_request pm inp =
     (let rejection_reason = trim (jri_review_note inp) in
      act_bind (db_reject_event_refund_request (pm_db pm) (jri_actor_user_id inp) (jri_group_id inp)
        (jri_event_purchase_id inp) rejection_reason) (\<lambda>purchase.
      act_bind (enqueue_refund_rejection_notification (pm_notification_composer pm)
        (cep_community_id purchase) (cep_event_id purchase) (cep_user_id purchase)
        rejection_reason) (\<lambda>_.
      act_ok ())))"

definition request_refund :: "'s PgPaymentsManager \<Rightarrow> RequestRefundInput \<Rightarrow> ('s, unit) io" where
  "request_refund pm inp =
     act_bind (build_refund_request_template_data (pm_notification_composer pm)
       (rri_community_id inp) (rri_event_id inp)) (\<lambda>template_data.
     db_request_event_refund (pm_db pm) (rri_community_id inp) (rri_event_id inp) (rri_user_id inp)
       (rri_requested_reason inp) template_data)"

section \<open>Tax readiness\<close>

definition venue_field_name :: "TicketVenueField \<Rightarrow> string" where
  "venue_field_name field = (case field of
     FieldAddress \<Rightarrow> ''venue_address'' | FieldCity \<Rightarrow> ''venue_city''
   | FieldCountryCode \<Rightarrow> ''venue_country_code'' | FieldName \<Rightarrow> ''venue_name''
   | FieldZipCode \<Rightarrow> ''venue_zip_code'')"

definition sponsor_to_readiness_error :: "FiscalSponsorReadinessError \<Rightarrow> AutomaticTaxReadinessError" where
  "sponsor_to_readiness_error e = (case e of
     NotReady message \<Rightarrow> FiscalSponsorNotReady message
   | SponsorUnexpected err \<Rightarrow> ReadinessUnexpected err)"

text \<open>The checks made before the provider is called.\<close>

definition check_local_venue :: "TicketVenue \<Rightarrow> AutomaticTaxReadinessError + unit" where
  "check_local_venue venue =
     (let missing = map venue_field_name (missing_required_fields venue) in
      if missing \<noteq> [] then Inl (IncompleteVenue missing)
      else if \<not> has_valid_country_code venue then Inl (CountryInvalid (tv_country_code venue))
      else Inr ())"

definition ensure_automatic_tax_readiness ::
    "(string \<Rightarrow> string) \<Rightarrow> 's PgPaymentsManager \<Rightarrow> GroupPaymentRecipient \<Rightarrow> TicketVenue \<Rightarrow>
     ('s, AutomaticTaxReadinessError, AutomaticTaxReadiness) act" where
  "ensure_automatic_tax_readiness hex_sha256 pm recipient raw_venue =
     act_bind (act_map_err ReadinessUnexpected (act_lift (configured_payments_provider pm))) (\<lambda>pp.
     if gr_provider recipient \<noteq> pp_provider pp
     then act_err (FiscalSponsorNotReady
       ''fiscal sponsor seller is not configured for this provider'')
     else
       let venue = venue_normalized raw_venue in
       act_bind (act_lift (check_local_venue venue)) (\<lambda>_.
       act_bind (act_map_err sponsor_to_readiness_error (pp_validate_fiscal_sponsor pp
         \<lparr>fsi_connected_seller_id = gr_recipient_id recipient, fsi_provider = gr_provider recipient,
          fsi_require_automatic_tax = True\<rparr>)) (\<lambda>_.
       let fingerprint = performance_location_fingerprint hex_sha256 venue in
       act_bind (act_map_err ReadinessUnexpected (db_get_payment_provider_tax_location (pm_db pm)
         (gr_provider recipient) (gr_recipient_id recipient) fingerprint)) (\<lambda>cached_location.
       act_bind (pp_ensure_performance_location pp
         \<lparr>pli_connected_seller_id = gr_recipient_id recipient, pli_venue = venue,
          pli_cached_fingerprint = map_option (\<lambda>_. fingerprint) cached_location,
          pli_cached_provider_tax_location_id = cached_location\<rparr>) (\<lambda>readiness.
       act_bind
         (if atr_cached readiness then act_ok ()
          else act_map_err ReadinessUnexpected (db_upsert_payment_provider_tax_location (pm_db pm)
            (gr_provider recipient) (gr_recipient_id recipient) (atr_fingerprint readiness)
            (atr_provider_tax_location_id readiness) venue)) (\<lambda>_.
       act_ok readiness))))))"

definition manager_list_tax_rates ::
    "'s PgPaymentsManager \<Rightarrow> GroupPaymentRecipient \<Rightarrow> TicketTaxBehavior \<Rightarrow> ('s, TicketTaxRate list) io" where
  "manager_list_tax_rates pm recipient tax_behavior =
     act_bind (act_lift (configured_payments_provider pm)) (\<lambda>pp.
     if gr_provider recipient \<noteq> pp_provider pp
     then act_err (Msg ''fiscal sponsor seller is not configured for this provider'')
     else pp_list_tax_rates pp \<lparr>lti_connected_seller_id = gr_recipient_id recipient,
            lti_tax_behavior = tax_behavior\<rparr>)"

definition manager_validate_fiscal_sponsor ::
    "'s PgPaymentsManager \<Rightarrow> GroupPaymentRecipient \<Rightarrow> bool \<Rightarrow>
     ('s, FiscalSponsorReadinessError, unit) act" where
  "manager_validate_fiscal_sponsor pm recipient require_automatic_tax =
     act_bind (act_map_err SponsorUnexpected (act_lift (configured_payments_provider pm))) (\<lambda>pp.
     pp_validate_fiscal_sponsor pp
       \<lparr>fsi_connected_seller_id = gr_recipient_id recipient, fsi_provider = gr_provider recipient,
        fsi_require_automatic_tax = require_automatic_tax\<rparr>)"

definition manager_validate_tax_rates ::
    "'s PgPaymentsManager \<Rightarrow> GroupPaymentRecipient \<Rightarrow> string list \<Rightarrow> TicketTaxBehavior \<Rightarrow>
     ('s, FiscalSponsorReadinessError, unit) act" where
  "manager_validate_tax_rates pm recipient manual_tax_rate_ids tax_behavior =
     act_bind (act_map_err SponsorUnexpected (act_lift (configured_payments_provider pm))) (\<lambda>pp.
     if gr_provider recipient \<noteq> pp_provider pp
     then act_err (NotReady ''fiscal sponsor seller is not configured for this provider'')
     else pp_validate_tax_rates pp
       \<lparr>vti_connected_seller_id = gr_recipient_id recipient,
        vti_manual_tax_rate_ids = manual_tax_rate_ids, vti_tax_behavior = tax_behavior\<rparr>)"

section \<open>Checkout\<close>

text \<open>The prepared fields that a paid checkout cannot do without, in the order they are checked.\<close>

record checkout_requirements =
  cq_currency_code :: string
  cq_seller :: FiscalSponsorSeller
  cq_tax_behavior :: TicketTaxBehavior
  cq_tax_calculation_mode :: TicketTaxCalculationMode
  cq_tax_code :: "string option"
  cq_venue :: TicketVenue

definition require_checkout_fields :: "PreparedEventCheckout \<Rightarrow> anyhow + checkout_requirements" where
  "require_checkout_fields prepared =
     (case eps_currency_code (pc_purchase prepared) of
        None \<Rightarrow> Inl (Msg ''paid checkout is missing currency_code'')
      | Some currency_code \<Rightarrow>
     (case pc_seller prepared of
        None \<Rightarrow> Inl (Msg ''paid checkout is missing a fiscal sponsor seller'')
      | Some seller \<Rightarrow>
     (case pc_tax_behavior prepared of
        None \<Rightarrow> Inl (Msg ''paid checkout is missing tax behavior'')
      | Some tax_behavior \<Rightarrow>
     (case pc_tax_calculation_mode prepared of
        None \<Rightarrow> Inl (Msg ''paid checkout is missing tax calculation mode'')
      | Some mode \<Rightarrow>
     (case (if mode = TaxAutomatic
            then (case pc_tax_code prepared of
                    None \<Rightarrow> Inl (Msg ''paid checkout is missing ticket tax code'')
                  | Some code \<Rightarrow> Inr (Some code))
            else Inr None) of
        Inl e \<Rightarrow> Inl e
      | Inr tax_code \<Rightarrow>
     (case pc_venue prepared of
        None \<Rightarrow> Inl (Msg ''paid checkout is missing venue snapshot'')
      | Some venue \<Rightarrow>
          Inr \<lparr>cq_currency_code = currency_code, cq_seller = seller, cq_tax_behavior = tax_behavior,
               cq_tax_calculation_mode = mode, cq_tax_code = tax_code, cq_venue = venue\<rparr>))))))"

definition checkout_session_input ::
    "string \<Rightarrow> PreparedEventCheckout \<Rightarrow> uuid \<Rightarrow> checkout_requirements \<Rightarrow> CreateCheckoutSessionInput" where
  "checkout_session_input base_url prepared user_id q =
     \<lparr>ci_amount_minor = eps_amount_minor (pc_purchase prepared), ci_base_url = base_url,
      ci_community_display_name = pc_community_display_name prepared,
      ci_community_name = pc_community_name prepared, ci_currency_code = cq_currency_code q,
      ci_event_id = pc_event_id prepared, ci_event_name = pc_event_name prepared,
      ci_event_slug = pc_event_slug prepared, ci_event_timezone = pc_event_timezone prepared,
      ci_group_name = pc_group_name prepared, ci_group_slug = pc_group_slug prepared,
      ci_provisional_platform_fee_amount_minor =
        eps_provisional_platform_fee_amount_minor (pc_purchase prepared),
      ci_purchase_id = eps_event_purchase_id (pc_purchase prepared), ci_seller = cq_seller q,
      ci_tax_behavior = cq_tax_behavior q, ci_tax_calculation_mode = cq_tax_calculation_mode q,
      ci_ticket_title = eps_ticket_title (pc_purchase prepared), ci_user_id = user_id,
      ci_venue = cq_venue q,
      ci_cached_performance_location_fingerprint = pc_cached_performance_location_fingerprint prepared,
      ci_cached_product_fingerprint = pc_cached_product_fingerprint prepared,
      ci_cached_provider_tax_location_id = pc_cached_provider_tax_location_id prepared,
      ci_cached_provider_tax_product_id = pc_cached_provider_tax_product_id prepared,
      ci_discount_code = eps_discount_code (pc_purchase prepared),
      ci_group_slug_pretty = pc_group_slug_pretty prepared,
      ci_manual_tax_rate_ids = pc_manual_tax_rate_ids prepared, ci_tax_code = cq_tax_code q\<rparr>"

definition get_or_create_checkout_redirect_url ::
    "'s PgPaymentsManager \<Rightarrow> PreparedEventCheckout \<Rightarrow> uuid \<Rightarrow> ('s, string) io" where
  "get_or_create_checkout_redirect_url pm prepared user_id =
     (case eps_provider_checkout_url (pc_purchase prepared) of
        Some url \<Rightarrow> act_ok url
      | None \<Rightarrow>
          act_bind (act_lift (configured_payments_provider pm)) (\<lambda>pp.
          act_bind (act_lift (require_checkout_fields prepared)) (\<lambda>q.
          if fs_provider (cq_seller q) \<noteq> pp_provider pp
          then act_err (Msg ''fiscal sponsor seller is not configured for this provider'')
          else
            act_bind (pp_create_checkout_session pp
              (checkout_session_input (pm_base_url pm) prepared user_id q)) (\<lambda>checkout_session.
            act_bind (db_attach_checkout_session_to_event_purchase (pm_db pm)
              (eps_event_purchase_id (pc_purchase prepared)) (pp_provider pp) checkout_session) (\<lambda>_.
            act_bind (db_get_event_purchase_summary (pm_db pm)
              (eps_event_purchase_id (pc_purchase prepared))) (\<lambda>purchase.
            act_lift (ok_or (Msg ''provider checkout URL is missing after checkout creation'')
              (eps_provider_checkout_url purchase))))))))"

definition get_purchase_document_url ::
    "'s PgPaymentsManager \<Rightarrow> uuid \<Rightarrow> uuid \<Rightarrow> uuid option \<Rightarrow> ('s, string option) io" where
  "get_purchase_document_url pm user_id event_purchase_id credit_note_id =
     act_bind (db_get_user_purchase_document_context (pm_db pm) user_id event_purchase_id
       credit_note_id) (\<lambda>context_option.
     case context_option of
       None \<Rightarrow> act_ok None
     | Some context \<Rightarrow>
         act_bind (act_lift (configured_payments_provider pm)) (\<lambda>pp.
         if udc_payment_provider context \<noteq> pp_provider pp
         then act_err (Msg ''purchase document is not owned by the configured provider'')
         else
           act_bind (pp_get_financial_document pp
             \<lparr>gdi_connected_seller_id = udc_connected_seller_id context,
              gdi_kind = (if credit_note_id \<noteq> None then CreditNoteDocument else InvoiceDocument),
              gdi_provider_document_id = udc_provider_document_id context\<rparr>) (\<lambda>document.
           act_bind (act_lift (ok_or (Msg ''provider financial document has no current URL'')
             (financial_document_url document))) (\<lambda>url.
           act_ok (Some url)))))"

section \<open>The webhook endpoints\<close>

definition webhook_status :: "HandleWebhookError + unit \<Rightarrow> nat" where
  "webhook_status result = (case result of
     Inr _ \<Rightarrow> 200
   | Inl InvalidPayload \<Rightarrow> 401
   | Inl PaymentsNotConfigured \<Rightarrow> 404
   | Inl (WebhookUnexpected _) \<Rightarrow> 500)"

definition endpoint_handle_webhook ::
    "'s PgPaymentsManager \<Rightarrow> bool \<Rightarrow> header_map \<Rightarrow> string \<Rightarrow> 's \<Rightarrow> nat \<times> 's" where
  "endpoint_handle_webhook pm connected_account headers body s =
     (case (if connected_account then manager_handle_connected_webhook pm headers body
            else manager_handle_webhook pm headers body) s of
        (result, s') \<Rightarrow> (webhook_status result, s'))"

definition connected_webhook :: "'s PgPaymentsManager \<Rightarrow> header_map \<Rightarrow> string \<Rightarrow> 's \<Rightarrow> nat \<times> 's" where
  "connected_webhook pm headers body = endpoint_handle_webhook pm True headers body"

definition platform_webhook :: "'s PgPaymentsManager \<Rightarrow> header_map \<Rightarrow> string \<Rightarrow> 's \<Rightarrow> nat \<times> 's" where
  "platform_webhook pm headers body = endpoint_handle_webhook pm False headers body"

section \<open>Properties\<close>

text \<open>A manager without local state whose provider and notifications answer.\<close>

definition sample_manager :: "unit PgPaymentsManager" where
  "sample_manager =
     \<lparr>pm_db = failing_db, pm_notification_composer = answering_notifications,
      pm_payments_provider = Some confirming_provider, pm_base_url = ''https://example.org''\<rparr>"

text \<open>The account scope of an endpoint.\<close>

definition webhook_scope :: "bool \<Rightarrow> PaymentsWebhookEndpoint" where
  "webhook_scope connected = (if connected then ConnectedAccount else PlatformAccount)"

text \<open>
  an endpoint answers 200 exactly when the payload was verified with the secret of that
  endpoint's account scope and the event was reconciled, so the provider keeps redelivering
  everything else; a payload that does not verify is answered 401 without touching the database.
\<close>

theorem webhook_endpoint_contract:
  "(endpoint_handle_webhook pm connected headers body s = (200, s') \<longleftrightarrow>
      (\<exists>pp event s1. pm_payments_provider pm = Some pp \<and>
         pp_verify_and_parse_webhook pp (webhook_scope connected) headers body s = (Inr event, s1) \<and>
         handle_webhook_event (pm_db pm) (pm_notification_composer pm) pp event s1 = (Inr (), s'))) \<and>
   (endpoint_handle_webhook pm connected headers body s = (401, s') \<longleftrightarrow>
      (\<exists>pp e. pm_payments_provider pm = Some pp \<and>
         pp_verify_and_parse_webhook pp (webhook_scope connected) headers body s = (Inl e, s')))"
proof -
  have "endpoint_handle_webhook pm connected headers body s =
      (case handle_scoped_webhook pm (webhook_scope connected) headers body s of
         (result, s') \<Rightarrow> (webhook_status result, s'))"
    by (simp add: endpoint_handle_webhook_def manager_handle_connected_webhook_def
        manager_handle_webhook_def webhook_scope_def)
  then show ?thesis
    by (cases "pm_payments_provider pm")
      (auto simp: handle_scoped_webhook_def act_bind_def act_map_err_def webhook_status_def
        split: prod.split sum.split)
qed

text \<open>
  A venue with a blank required field or a country code that is not two letters is rejected
  before the provider or the database is called, with an error the organizer can correct and the
  names of the form fields to correct.
\<close>

theorem tax_readiness_checks_venue_first:
  assumes "pm_payments_provider pm = Some pp" and "gr_provider recipient = pp_provider pp"
    and "missing_required_fields venue \<noteq> [] \<or> \<not> has_valid_country_code (venue_normalized venue)"
  shows "\<exists>e. ensure_automatic_tax_readiness sha pm recipient venue s = (Inl e, s) \<and>
    is_correctable e \<and> readiness_error_fields e \<noteq> []"
proof -
  have "\<exists>e. check_local_venue (venue_normalized venue) = Inl e \<and> is_correctable e \<and>
      readiness_error_fields e \<noteq> []"
    using assms(3) missing_required_fields_normalized [of venue]
    by (auto simp: check_local_venue_def Let_def is_correctable_def readiness_error_fields_def)
  then show ?thesis
    using assms(1,2)
    by (auto simp: ensure_automatic_tax_readiness_def configured_payments_provider_def Let_def
        act_bind_def act_map_err_def)
qed

theorem tax_readiness_checks_venue_first_witness:
  "\<forall>sha. \<exists>e. ensure_automatic_tax_readiness sha sample_manager
     \<lparr>gr_provider = Stripe, gr_recipient_id = ''acct_1'', gr_seller_display_name = ''Sponsor''\<rparr>
     (sample_venue ''  '' ''Berlin'') () = (Inl e, ()) \<and> is_correctable e"
proof -
  have "missing_required_fields (sample_venue ''  '' ''Berlin'') \<noteq> []"
    by code_simp
  with tax_readiness_checks_venue_first [where pm = sample_manager and pp = confirming_provider and
      recipient = "\<lparr>gr_provider = Stripe, gr_recipient_id = ''acct_1'',
        gr_seller_display_name = ''Sponsor''\<rparr>" and venue = "sample_venue ''  '' ''Berlin''"]
  show ?thesis by (auto simp: sample_manager_def confirming_provider_def)
qed

text \<open>
  A purchase that has a checkout URL keeps it and nothing is called; otherwise the URL handed
  out is the one stored on the purchase after the new session was attached, so concurrent requests
  agree on it, the session belongs to the configured provider's seller, and a tax code is passed
  exactly when the tax is calculated automatically.
\<close>

theorem checkout_url_is_canonical:
  "get_or_create_checkout_redirect_url pm prepared user_id s = (Inr url, s') \<longleftrightarrow>
     (case eps_provider_checkout_url (pc_purchase prepared) of
        Some existing \<Rightarrow> url = existing \<and> s' = s
      | None \<Rightarrow> \<exists>pp q session s1 s2 purchase.
          pm_payments_provider pm = Some pp \<and> require_checkout_fields prepared = Inr q \<and>
          fs_provider (cq_seller q) = pp_provider pp \<and>
          (\<exists>code. cq_tax_code q = Some code) = (cq_tax_calculation_mode q = TaxAutomatic) \<and>
          pp_create_checkout_session pp
            (checkout_session_input (pm_base_url pm) prepared user_id q) s = (Inr session, s1) \<and>
          db_attach_checkout_session_to_event_purchase (pm_db pm)
            (eps_event_purchase_id (pc_purchase prepared)) (pp_provider pp) session s1 = (Inr (), s2) \<and>
          db_get_event_purchase_summary (pm_db pm)
            (eps_event_purchase_id (pc_purchase prepared)) s2 = (Inr purchase, s') \<and>
          eps_provider_checkout_url purchase = Some url)"
proof (cases "eps_provider_checkout_url (pc_purchase prepared)")
  case None
  have tax: "require_checkout_fields prepared = Inr q \<Longrightarrow>
      (\<exists>code. cq_tax_code q = Some code) = (cq_tax_calculation_mode q = TaxAutomatic)" for q
    by (auto simp: require_checkout_fields_def split: option.splits if_splits)
  show ?thesis
  proof (cases "pm_payments_provider pm"; cases "require_checkout_fields prepared")
    fix pp q assume "pm_payments_provider pm = Some pp" "require_checkout_fields prepared = Inr q"
    with None tax [of q] show ?thesis
      by (auto simp: get_or_create_checkout_redirect_url_def configured_payments_provider_def
          act_bind_eq_Inr ok_or_eq_Inr)
  qed (use None in \<open>auto simp: get_or_create_checkout_redirect_url_def
      configured_payments_provider_def\<close>)
qed (auto simp: get_or_create_checkout_redirect_url_def)

end
