(* ===== verification/Worker_Loops.thy ===== *)
theory Worker_Loops
  imports Prelude
begin

text \<open>
  What the background workers of the services share: a future raced against the shutdown token
  (\<^verbatim>\<open>services/workers.rs\<close>), sleeping, and the \<^verbatim>\<open>loop\<close> that runs turns until one of them breaks.
\<close>

section \<open>Racing with shutdown\<close>

text \<open>
  \<^verbatim>\<open>select!\<close> drops the future when shutdown wins. Before it was polled nothing happened; afterwards
  its effect on the world may have happened although nobody sees the result.
\<close>

datatype race = CancelledBefore | CancelledDuring | Finished

definition run_until_cancelled :: "('s \<Rightarrow> race) \<Rightarrow> ('s, 'e, 'a) act \<Rightarrow> 's \<Rightarrow> ('e + 'a) option \<times> 's" where
  "run_until_cancelled race future s =
     (case race s of
        CancelledBefore \<Rightarrow> (None, s)
      | CancelledDuring \<Rightarrow> (None, snd (future s))
      | Finished \<Rightarrow> (case future s of (result, s') \<Rightarrow> (Some result, s')))"

lemma run_until_cancelled_cases:
  assumes "run_until_cancelled race future s = (r, s')"
  obtains "r = None" "s' = s" | "r = None" "s' = snd (future s)" | "r = Some (fst (future s))" "s' = snd (future s)"
  using assms by (cases "race s"; cases "future s") (simp_all add: run_until_cancelled_def)

lemma run_until_cancelled_state:
  "run_until_cancelled race future s = (r, s') \<Longrightarrow> future s = (x, t) \<Longrightarrow> s' = s \<or> s' = t"
  by (auto elim: run_until_cancelled_cases)

text \<open>
  The shutdown token as a worker sees it: whether it is cancelled, how it races with a future, and
  a sleep of some seconds that returns false when shutdown ended it.
\<close>

record 's shutdown =
  sd_is_cancelled :: "'s \<Rightarrow> bool"
  sd_race :: "'s \<Rightarrow> race"
  sd_sleep :: "nat \<Rightarrow> 's \<Rightarrow> bool \<times> 's"

section \<open>Loops\<close>

text \<open>A turn leaves the loop in a state (\<^term>\<open>Inl s\<close>) or goes on (\<^term>\<open>Inr s\<close>).\<close>

partial_function (option) run_loop :: "('s \<Rightarrow> 's + 's) \<Rightarrow> 's \<Rightarrow> 's option" where
  "run_loop turn s = (case turn s of Inl s' \<Rightarrow> Some s' | Inr s' \<Rightarrow> run_loop turn s')"

text \<open>
  A loop whose turns keep a property of the state and use up a bound on the remaining turns
  returns, with the property.
\<close>

locale bounded_turns =
  fixes turn :: "'s \<Rightarrow> 's + 's" and turns :: "'s \<Rightarrow> nat" and ok :: "'s \<Rightarrow> bool"
  assumes leave: "turn s = Inl s' \<Longrightarrow> ok s \<Longrightarrow> ok s'"
    and go_on: "turn s = Inr s' \<Longrightarrow> ok s \<Longrightarrow> ok s' \<and> turns s' < turns s"
begin

lemma loop_returns: "ok s \<Longrightarrow> \<exists>s'. run_loop turn s = Some s' \<and> ok s'"
proof (induction "turns s" arbitrary: s rule: less_induct)
  case less
  show ?case
  proof (cases "turn s")
    case (Inl s')
    then show ?thesis using leave [OF Inl less.prems] by (simp add: run_loop.simps)
  next
    case (Inr s')
    then show ?thesis
      using less.hyps [of s'] go_on [OF Inr less.prems] by (simp add: run_loop.simps [of _ s])
  qed
qed

end

text \<open>\<^verbatim>\<open>select! { sleep => {}, cancelled => break }\<close> at the end of a turn.\<close>

definition sleep_or_break :: "'s shutdown \<Rightarrow> nat \<Rightarrow> 's \<Rightarrow> 's + 's" where
  "sleep_or_break sd pause s = (case sd_sleep sd pause s of (True, s') \<Rightarrow> Inr s' | (False, s') \<Rightarrow> Inl s')"

text \<open>The same, followed by a test of the token.\<close>

definition sleep_then_check :: "'s shutdown \<Rightarrow> nat option \<Rightarrow> 's \<Rightarrow> 's + 's" where
  "sleep_then_check sd pause s =
     (case (case pause of None \<Rightarrow> Inr s | Some n \<Rightarrow> sleep_or_break sd n s) of
        Inl s' \<Rightarrow> Inl s'
      | Inr s' \<Rightarrow> if sd_is_cancelled sd s' then Inl s' else Inr s')"

text \<open>A shutdown that arrives after a number of turns, which the world carries.\<close>

definition deadline :: "('w \<times> nat \<Rightarrow> race) \<Rightarrow> ('w \<times> nat) shutdown" where
  "deadline race = \<lparr>sd_is_cancelled = \<lambda>(w, n). n = 0, sd_race = race,
     sd_sleep = \<lambda>_ (w, n). (n \<noteq> 0, (w, n - 1))\<rparr>"

definition on_world :: "('w, 'e, 'a) act \<Rightarrow> ('w \<times> nat, 'e, 'a) act" where
  "on_world m = (\<lambda>(w, n). case m w of (r, w') \<Rightarrow> (r, (w', n - 1)))"

lemma on_world_eq: "on_world m s = (r, s') \<longleftrightarrow> m (fst s) = (r, fst s') \<and> snd s' = snd s - 1"
  by (cases s; cases s'; cases "m (fst s)") (auto simp: on_world_def)

lemma snd_on_world [simp]: "snd (snd (on_world m s)) = snd s - 1"
  by (cases s; cases "m (fst s)") (simp add: on_world_def)

end
