(* ===== verification/Payment_Workers.thy ===== *)
theory Payment_Workers
  imports Refund_Worker Worker_Loops
begin

text \<open>
  The claim loop that drives the payment workers (\<^verbatim>\<open>services/payments/workers/claim_loop.rs\<close>), the loop
  of the recovery worker (\<^verbatim>\<open>recovery.rs\<close>) and the two workers that finish the financial documents of
  a purchase (\<^verbatim>\<open>credit_note.rs\<close>, \<^verbatim>\<open>application_fee_adjustment.rs\<close>).

  What the runtime does is a record of operations on the world: whether shutdown was requested,
  running a future until it is done or shutdown is requested, sleeping, and logging.
\<close>

section \<open>Loops\<close>

record 's runtime =
  rt_is_cancelled :: "'s \<Rightarrow> bool"
  rt_run_until_cancelled :: "('s, bool) io \<Rightarrow> 's \<Rightarrow> (anyhow + bool) option \<times> 's"
  rt_sweep_until_cancelled :: "('s, unit) io \<Rightarrow> 's \<Rightarrow> unit option \<times> 's"
  rt_sleep_or_cancelled :: "nat \<Rightarrow> 's \<Rightarrow> bool \<times> 's"
  rt_report_error :: "anyhow \<Rightarrow> 's \<Rightarrow> 's"

text \<open>Pauses in seconds. \<^verbatim>\<open>rt_sleep_or_cancelled\<close> returns false when shutdown ended the sleep.\<close>

definition PAUSE_ON_ERROR :: nat where "PAUSE_ON_ERROR = 10"
definition PAUSE_ON_NONE :: nat where "PAUSE_ON_NONE = 15"
definition PAUSE_ON_RECOVERY :: nat where "PAUSE_ON_RECOVERY = 60"

definition pause_after :: "anyhow + bool \<Rightarrow> nat option" where
  "pause_after result = (case result of
     Inr True \<Rightarrow> None | Inr False \<Rightarrow> Some PAUSE_ON_NONE | Inl _ \<Rightarrow> Some PAUSE_ON_ERROR)"

text \<open>One turn of the loop: \<^term>\<open>Inl s\<close> leaves it in state \<open>s\<close>, \<^term>\<open>Inr s\<close> goes on.\<close>

definition loop_turn :: "'s runtime \<Rightarrow> ('s, bool) io \<Rightarrow> 's \<Rightarrow> 's + 's" where
  "loop_turn rt process_next s =
     (if rt_is_cancelled rt s then Inl s
      else case rt_run_until_cancelled rt process_next s of
        (None, s1) \<Rightarrow> Inl s1
      | (Some result, s1) \<Rightarrow>
          let s2 = (case result of Inl err \<Rightarrow> rt_report_error rt err s1 | Inr _ \<Rightarrow> s1) in
          (case pause_after result of
             None \<Rightarrow> if rt_is_cancelled rt s2 then Inl s2 else Inr s2
           | Some pause \<Rightarrow>
               (case rt_sleep_or_cancelled rt pause s2 of
                  (False, s3) \<Rightarrow> Inl s3
                | (True, s3) \<Rightarrow> if rt_is_cancelled rt s3 then Inl s3 else Inr s3)))"

definition run_claim_loop :: "'s runtime \<Rightarrow> ('s, bool) io \<Rightarrow> 's \<Rightarrow> 's option" where
  "run_claim_loop rt process_next = run_loop (loop_turn rt process_next)"

definition recovery_turn :: "'s runtime \<Rightarrow> ('s, unit) io \<Rightarrow> 's \<Rightarrow> 's + 's" where
  "recovery_turn rt sweep s =
     (if rt_is_cancelled rt s then Inl s
      else case rt_sweep_until_cancelled rt sweep s of
        (None, s1) \<Rightarrow> Inl s1
      | (Some _, s1) \<Rightarrow>
          (case rt_sleep_or_cancelled rt PAUSE_ON_RECOVERY s1 of
             (False, s2) \<Rightarrow> Inl s2
           | (True, s2) \<Rightarrow> Inr s2))"

definition run_recovery_loop :: "'s runtime \<Rightarrow> ('s, unit) io \<Rightarrow> 's \<Rightarrow> 's option" where
  "run_recovery_loop rt sweep = run_loop (recovery_turn rt sweep)"

section \<open>Credit notes\<close>

definition credit_note_input :: "ClaimedEventPurchaseCreditNote \<Rightarrow> CreditNoteInput" where
  "credit_note_input credit_note =
     \<lparr>cni_amount_minor = ccn_amount_minor credit_note,
      cni_connected_seller_id = ccn_connected_seller_id credit_note,
      cni_event_purchase_id = ccn_event_purchase_id credit_note,
      cni_event_purchase_refund_id = ccn_event_purchase_refund_id credit_note,
      cni_idempotency_key = ccn_idempotency_key credit_note,
      cni_provider_invoice_id = ccn_provider_invoice_id credit_note,
      cni_provider_refund_id = ccn_provider_refund_id credit_note,
      cni_tax_amount_minor = ccn_tax_amount_minor credit_note\<rparr>"

definition process_credit_note ::
    "'s DBPayments \<Rightarrow> 's PaymentsProvider \<Rightarrow> ClaimedEventPurchaseCreditNote \<Rightarrow> ('s, unit) io" where
  "process_credit_note db pp credit_note =
     act_try (pp_reconcile_credit_note pp (credit_note_input credit_note)) (\<lambda>result.
     case result of
       Inr issued \<Rightarrow>
         db_record_event_purchase_credit_note_succeeded db
           (ccn_event_purchase_credit_note_id credit_note) (ccn_claim_id credit_note)
           (cnr_provider_credit_note_id issued) (cnr_provider_hosted_url issued)
           (cnr_provider_pdf_url issued)
     | Inl err \<Rightarrow>
         act_try (db_record_event_purchase_credit_note_failure db
           (ccn_event_purchase_credit_note_id credit_note) (ccn_claim_id credit_note)
           (err_to_string err)) (\<lambda>_. act_err err))"

definition process_next_credit_note ::
    "'s DBPayments \<Rightarrow> 's PaymentsProvider option \<Rightarrow> ('s, bool) io" where
  "process_next_credit_note db payments_provider =
     (case payments_provider of
        None \<Rightarrow> act_ok False
      | Some pp \<Rightarrow>
          act_bind (db_claim_event_purchase_credit_note db (pp_provider pp)) (\<lambda>claimed.
          case claimed of
            None \<Rightarrow> act_ok False
          | Some credit_note \<Rightarrow>
              act_bind (process_credit_note db pp credit_note) (\<lambda>_. act_ok True)))"

section \<open>Application-fee adjustments\<close>

definition fee_adjustment_input ::
    "ClaimedEventPurchaseApplicationFeeAdjustment \<Rightarrow> ApplicationFeeAdjustmentInput" where
  "fee_adjustment_input adjustment =
     \<lparr>fai_amount_minor = cfa_amount_minor adjustment,
      fai_connected_seller_id = cfa_connected_seller_id adjustment,
      fai_event_purchase_id = cfa_event_purchase_id adjustment,
      fai_idempotency_key = cfa_idempotency_key adjustment,
      fai_kind = cfa_kind adjustment,
      fai_provider_application_fee_id = cfa_provider_application_fee_id adjustment\<rparr>"

definition process_application_fee_adjustment ::
    "'s DBPayments \<Rightarrow> 's PaymentsProvider \<Rightarrow> ClaimedEventPurchaseApplicationFeeAdjustment \<Rightarrow>
     ('s, unit) io" where
  "process_application_fee_adjustment db pp adjustment =
     act_try (pp_reconcile_application_fee_adjustment pp (fee_adjustment_input adjustment))
       (\<lambda>result.
     case result of
       Inr refunded \<Rightarrow>
         db_record_event_purchase_application_fee_adjustment_succeeded db
           (cfa_event_purchase_application_fee_adjustment_id adjustment) (cfa_claim_id adjustment)
           (far_provider_application_fee_refund_id refunded)
     | Inl err \<Rightarrow>
         act_try (db_record_event_purchase_application_fee_adjustment_failure db
           (cfa_event_purchase_application_fee_adjustment_id adjustment) (cfa_claim_id adjustment)
           (err_to_string err)) (\<lambda>_. act_err err))"

definition process_next_application_fee_adjustment ::
    "'s DBPayments \<Rightarrow> 's PaymentsProvider option \<Rightarrow> ('s, bool) io" where
  "process_next_application_fee_adjustment db payments_provider =
     (case payments_provider of
        None \<Rightarrow> act_ok False
      | Some pp \<Rightarrow>
          act_bind (db_claim_event_purchase_application_fee_adjustment db (pp_provider pp))
            (\<lambda>claimed.
          case claimed of
            None \<Rightarrow> act_ok False
          | Some adjustment \<Rightarrow>
              act_bind (process_application_fee_adjustment db pp adjustment) (\<lambda>_. act_ok True)))"

section \<open>Shutdown\<close>

text \<open>
  A runtime in which shutdown is requested eventually: a bound on the remaining turns that no
  operation raises and that running a unit of work or a sweep lowers. A property of the world that
  every operation keeps still holds when a loop ends.
\<close>

locale stopping_runtime =
  fixes rt :: "'s runtime" and turns :: "'s \<Rightarrow> nat" and ok :: "'s \<Rightarrow> bool"
    and work :: "('s, bool) io" and sweep :: "('s, unit) io"
  assumes stop: "turns s = 0 \<Longrightarrow> rt_is_cancelled rt s"
    and run: "rt_run_until_cancelled rt work s = (r, s') \<Longrightarrow> \<not> rt_is_cancelled rt s \<Longrightarrow>
      turns s' < turns s"
    and run_ok: "rt_run_until_cancelled rt work s = (r, s') \<Longrightarrow> ok s \<Longrightarrow> ok s'"
    and sweeping: "rt_sweep_until_cancelled rt sweep s = (q, s') \<Longrightarrow> \<not> rt_is_cancelled rt s \<Longrightarrow>
      turns s' < turns s"
    and sweeping_ok: "rt_sweep_until_cancelled rt sweep s = (q, s') \<Longrightarrow> ok s \<Longrightarrow> ok s'"
    and sleep: "rt_sleep_or_cancelled rt n s = (b, s') \<Longrightarrow> turns s' \<le> turns s \<and> (ok s \<longrightarrow> ok s')"
    and report: "turns (rt_report_error rt e s) \<le> turns s" "ok s \<Longrightarrow> ok (rt_report_error rt e s)"
begin

lemma loop_turn_next:
  assumes "loop_turn rt work s = Inr s'"
  shows "turns s' < turns s"
proof -
  obtain r s1 where r: "rt_run_until_cancelled rt work s = (Some r, s1)" "\<not> rt_is_cancelled rt s"
    using assms by (auto simp: loop_turn_def split: if_splits prod.splits option.splits)
  have "turns s1 < turns s" by (rule run [OF r])
  moreover have "turns s' \<le> turns (case r of Inl e \<Rightarrow> rt_report_error rt e s1 | Inr _ \<Rightarrow> s1)"
    using assms r
    by (auto simp: loop_turn_def Let_def dest: sleep split: if_splits prod.splits option.splits bool.splits)
  moreover have "turns (case r of Inl e \<Rightarrow> rt_report_error rt e s1 | Inr _ \<Rightarrow> s1) \<le> turns s1"
    by (auto simp: report split: sum.split)
  ultimately show ?thesis by linarith
qed

lemma loop_turn_ok:
  assumes "ok s" and "loop_turn rt work s \<in> {Inl s', Inr s'}"
  shows "ok s'"
proof (cases "rt_is_cancelled rt s")
  case True
  with assms show ?thesis by (simp add: loop_turn_def)
next
  case False
  obtain r s1 where r: "rt_run_until_cancelled rt work s = (r, s1)" by fastforce
  have ok1: "ok s1" by (rule run_ok [OF r assms(1)])
  show ?thesis
  proof (cases r)
    case None
    with assms r ok1 False show ?thesis by (auto simp: loop_turn_def)
  next
    case (Some result)
    define s2 where "s2 = (case result of Inl e \<Rightarrow> rt_report_error rt e s1 | Inr _ \<Rightarrow> s1)"
    have "ok s2" using ok1 report(2) by (simp add: s2_def split: sum.split)
    with assms(2) r Some False show ?thesis
      by (auto simp: loop_turn_def s2_def [symmetric] Let_def dest: sleep
          split: if_splits prod.splits option.splits bool.splits)
  qed
qed

lemma recovery_turn_ok:
  assumes "ok s"
  shows "(\<exists>s1. recovery_turn rt sweep s = Inl s1 \<and> ok s1) \<or>
      (\<exists>s1. recovery_turn rt sweep s = Inr s1 \<and> ok s1 \<and> turns s1 < turns s)"
proof (cases "rt_is_cancelled rt s")
  case True
  with assms show ?thesis by (simp add: recovery_turn_def)
next
  case False
  obtain q s1 where q: "rt_sweep_until_cancelled rt sweep s = (q, s1)" by fastforce
  obtain b s2 where b: "rt_sleep_or_cancelled rt PAUSE_ON_RECOVERY s1 = (b, s2)" by fastforce
  from sweeping [OF q False] sweeping_ok [OF q assms] sleep [OF b] q b False show ?thesis
    by (cases q; cases b) (auto simp: recovery_turn_def)
qed

end

sublocale stopping_runtime \<subseteq> claiming: bounded_turns "loop_turn rt work" turns ok
  by unfold_locales (use loop_turn_ok loop_turn_next in auto)

sublocale stopping_runtime \<subseteq> recovering: bounded_turns "recovery_turn rt sweep" turns ok
  by unfold_locales (use recovery_turn_ok in fastforce)+

section \<open>The loops on the durable store\<close>

text \<open>
  A runtime that lets a fixed number of units of work finish before shutdown. The world carries the
  number that is left.
\<close>

definition deadline_runtime :: "('w \<times> nat) runtime" where
  "deadline_runtime =
     \<lparr>rt_is_cancelled = \<lambda>(w, n). n = 0,
      rt_run_until_cancelled = \<lambda>m (w, n). (case m (w, n) of (r, (w', _)) \<Rightarrow> (Some r, (w', n - 1))),
      rt_sweep_until_cancelled = \<lambda>m (w, n). (case m (w, n) of (r, (w', _)) \<Rightarrow> (Some (), (w', n - 1))),
      rt_sleep_or_cancelled = \<lambda>_ s. (True, s), rt_report_error = \<lambda>_ s. s\<rparr>"

definition with_deadline :: "('w, 'e, 'a) act \<Rightarrow> ('w \<times> nat, 'e, 'a) act" where
  "with_deadline m = (\<lambda>(w, n). case m w of (r, w') \<Rightarrow> (r, (w', n)))"

lemma sweep_keeps_inv:
  "keeps (store_inv \<circ> fst) (sweep_stale_claims ((pg_payments gen rest)\<lparr>
     db_requeue_stale_event_purchase_application_fee_adjustment_claims := outside a,
     db_requeue_stale_event_purchase_credit_note_claims := outside b\<rparr>))"
proof -
  have "keeps (store_inv \<circ> fst) (outside m)" for m :: "('a, 'b, 'c) act"
    by (simp add: keeps_def outside_def split: prod.split)
  moreover have "keeps (store_inv \<circ> fst) (pg_requeue_stale_event_purchase_refund_claims ::
      (refund_store \<times> 'a, int) io)"
    unfolding pg_requeue_stale_event_purchase_refund_claims_def
    by (rule keeps_run_tx) (blast dest: requeue_stale_inv)
  ultimately show ?thesis
    by (auto simp: sweep_stale_claims_def pg_payments_def intro!: keeps_try)
qed

lemma deadline_fst:
  "rt_run_until_cancelled deadline_runtime (with_deadline m) s = (r, s') \<Longrightarrow> fst s' = snd (m (fst s))"
  "rt_sweep_until_cancelled deadline_runtime (with_deadline m') s = (q, s') \<Longrightarrow>
     fst s' = snd (m' (fst s))"
  by (cases s, force simp: deadline_runtime_def with_deadline_def split: prod.splits)+

interpretation pgloop: stopping_runtime deadline_runtime snd "\<lambda>s. store_inv (fst (fst s))"
    "with_deadline (process_next_refund (pg_payments gen rest) (external_notifications env)
       (Some (external_provider pp)))"
    "with_deadline (sweep_stale_claims ((pg_payments gen rest)\<lparr>
       db_requeue_stale_event_purchase_application_fee_adjustment_claims := outside a,
       db_requeue_stale_event_purchase_credit_note_claims := outside b\<rparr>))"
  for gen :: "nat \<Rightarrow> uuid" and rest :: "(refund_store \<times> 'p) DBPayments"
    and env :: "'p notification_env" and pp :: "'p PaymentsProvider" and a b
proof (unfold_locales, goal_cases)
  case (3 s r s')
  then show ?case using keepsD [OF pgw.process_keeps_inv] deadline_fst(1) by (metis comp_apply)
next
  case (5 s q s')
  then show ?case using keepsD [OF sweep_keeps_inv] deadline_fst(2) by (metis comp_apply)
qed (auto simp: deadline_runtime_def with_deadline_def split: prod.splits)

section \<open>Properties\<close>



text \<open>
  When the provider cannot issue a credit note or adjust a fee, the worker releases the claim
  with the provider's message and reports the provider's error, even if releasing fails as well.
\<close>

theorem financial_failure_preserved:
  "(\<forall>s1. pp_reconcile_credit_note pp (credit_note_input note) s = (Inl err, s1) \<longrightarrow>
      process_credit_note db pp note s =
        (Inl err, snd (db_record_event_purchase_credit_note_failure db
           (ccn_event_purchase_credit_note_id note) (ccn_claim_id note) (err_to_string err) s1))) \<and>
   (\<forall>s1. pp_reconcile_application_fee_adjustment pp (fee_adjustment_input fee) s = (Inl err, s1) \<longrightarrow>
      process_application_fee_adjustment db pp fee s =
        (Inl err, snd (db_record_event_purchase_application_fee_adjustment_failure db
           (cfa_event_purchase_application_fee_adjustment_id fee) (cfa_claim_id fee)
           (err_to_string err) s1)))"
  by (simp add: process_credit_note_def process_application_fee_adjustment_def act_try_def
      split: prod.split)

theorem financial_failure_preserved_witness:
  "\<forall>db note. fst (process_credit_note db confirming_provider note ()) = Inl (Msg ''unused'')"
  using financial_failure_preserved [where pp = confirming_provider and s = "()" and
      err = "Msg ''unused''"]
  by (simp add: confirming_provider_def)

end
