(* ===== verification/Stripe_Webhook.thy ===== *)
theory Stripe_Webhook
  imports Payments_Interfaces
begin

text \<open>
  The webhook half of the Stripe provider (\<^verbatim>\<open>services/payments/provider/stripe.rs\<close>): the
  signature header, the freshness of its timestamp, the verification of a delivery and the
  translation of Stripe's event envelope into the provider-neutral \<^typ>\<open>PaymentsWebhookEvent\<close>.

  What lies outside the repository is an argument: the HMAC digest, the JSON decoder that serde
  derives, the parser of the uuid crate and the header decoder of the http crate are the fields of
  \<open>webhook_env\<close>. The clock is an argument too. An \<^verbatim>\<open>i64\<close> that takes part in arithmetic is a
  64-bit word; subtraction and \<^verbatim>\<open>abs\<close> wrap, as in a release build.
\<close>

section \<open>Data\<close>

record PaymentsStripeConfig =
  sc_connected_webhook_secret :: string
  sc_mode :: PaymentMode
  sc_secret_key :: string
  sc_ticket_tax_api_version :: string
  sc_webhook_secret :: string
  sc_platform_fee_bps :: "16 word"

record StripeWebhookObject =
  wo_id :: string
  wo_account :: "string option"
  wo_amount :: "int option"
  wo_charge :: "string option"
  wo_currency :: "string option"
  wo_hosted_invoice_url :: "string option"
  wo_invoice_pdf :: "string option"
  wo_metadata :: "string \<rightharpoonup> string"
  wo_payment_intent :: "string option"
  wo_status :: "string option"

record StripeWebhookData =
  wd_object :: "StripeWebhookObject option"

record StripeWebhookEvent =
  we_data :: StripeWebhookData
  we_event_type :: string
  we_livemode :: bool
  we_account :: "string option"

record webhook_env =
  wh_hmac_sha256_hex :: "string \<Rightarrow> string \<Rightarrow> string"
  wh_header_to_str :: "string \<Rightarrow> string option"
  wh_decode_event :: "string \<Rightarrow> anyhow + StripeWebhookEvent"
  wh_parse_uuid :: "string \<Rightarrow> anyhow + uuid"

definition STRIPE_WEBHOOK_TOLERANCE_SECS :: i64 where
  "STRIPE_WEBHOOK_TOLERANCE_SECS = 300"

section \<open>Integers\<close>

text \<open>\<^verbatim>\<open>i64::abs\<close>, which maps the least value to itself when it wraps.\<close>

definition i64_abs :: "i64 \<Rightarrow> i64" where
  "i64_abs w = (if sint w < 0 then - w else w)"

section \<open>Refund statuses\<close>

definition is_terminal_failure_status :: "string \<Rightarrow> bool" where
  "is_terminal_failure_status status \<longleftrightarrow> status = ''canceled'' \<or> status = ''failed''"

definition refund_result :: "string \<Rightarrow> string \<Rightarrow> anyhow + RefundPaymentResult" where
  "refund_result i status =
     and_then
       (if status = ''succeeded'' then Inr RefundSucceeded
        else if status = ''pending'' \<or> status = ''requires_action'' then Inr RefundIsPending
        else if status = ''canceled'' \<or> status = ''failed'' then Inr RefundFailed
        else Inl (Msg (''unsupported Stripe refund status: '' @ status))) (\<lambda>st.
     Inr \<lparr>rpr_provider_refund_id = i, rpr_status = st\<rparr>)"

definition refund_status_rank :: "string \<Rightarrow> nat" where
  "refund_status_rank status =
     (if status = ''succeeded'' then 0
      else if status = ''pending'' \<or> status = ''requires_action'' then 1
      else if status = ''canceled'' \<or> status = ''failed'' then 2
      else 3)"

section \<open>Event translation\<close>

definition event_object :: "StripeWebhookEvent \<Rightarrow> anyhow + StripeWebhookObject" where
  "event_object event =
     ok_or (Msg ''Stripe webhook payload is missing object data'') (wd_object (we_data event))"

definition parse_application_fee_event :: "StripeWebhookEvent \<Rightarrow> anyhow + PaymentsWebhookEvent" where
  "parse_application_fee_event event =
     and_then (event_object event) (\<lambda>object.
     and_then (ok_or (Msg ''Stripe application-fee webhook is missing amount'') (wo_amount object))
       (\<lambda>amount_minor.
     and_then (ok_or (Msg ''Stripe application-fee webhook is missing connected account'')
       (wo_account object)) (\<lambda>connected_account_id.
     and_then (ok_or (Msg ''Stripe application-fee webhook is missing charge'') (wo_charge object))
       (\<lambda>provider_charge_id.
     Inr (ApplicationFeeCreated amount_minor connected_account_id (we_livemode event)
       (wo_id object) provider_charge_id)))))"

definition parse_checkout_completed_event ::
    "StripeWebhookEvent \<Rightarrow> anyhow + PaymentsWebhookEvent" where
  "parse_checkout_completed_event event =
     and_then (ok_or (Msg ''Stripe checkout webhook is missing connected account'')
       (we_account event)) (\<lambda>connected_account_id.
     and_then (event_object event) (\<lambda>object.
     Inr (CheckoutCompleted connected_account_id (we_livemode event) (wo_id object))))"

definition parse_checkout_expired_event ::
    "StripeWebhookEvent \<Rightarrow> anyhow + PaymentsWebhookEvent" where
  "parse_checkout_expired_event event =
     and_then (ok_or (Msg ''Stripe checkout webhook is missing connected account'')
       (we_account event)) (\<lambda>connected_account_id.
     and_then (event_object event) (\<lambda>object.
     Inr (CheckoutExpired connected_account_id (we_livemode event) (wo_id object))))"

definition parse_invoice_event ::
    "webhook_env \<Rightarrow> StripeWebhookEvent \<Rightarrow> anyhow + PaymentsWebhookEvent" where
  "parse_invoice_event env event =
     and_then (ok_or (Msg ''Stripe invoice webhook is missing connected account'')
       (we_account event)) (\<lambda>connected_account_id.
     and_then (event_object event) (\<lambda>object.
     case wo_metadata object ''event_purchase_id'' of
       None \<Rightarrow> Inr WebhookNoop
     | Some purchase_text \<Rightarrow>
         and_then (with_context ''Stripe invoice webhook has invalid event purchase metadata''
           (wh_parse_uuid env purchase_text)) (\<lambda>purchase_id.
         and_then (ok_or (Msg ''Stripe invoice webhook is missing hosted URL'')
           (wo_hosted_invoice_url object)) (\<lambda>hosted_url.
         Inr (InvoicePaid connected_account_id hosted_url (we_livemode event) (wo_id object)
           purchase_id (wo_invoice_pdf object))))))"

definition parse_refund_event ::
    "webhook_env \<Rightarrow> StripeWebhookEvent \<Rightarrow> anyhow + PaymentsWebhookEvent" where
  "parse_refund_event env event =
     and_then (ok_or (Msg ''Stripe refund webhook is missing connected account'')
       (we_account event)) (\<lambda>connected_account_id.
     and_then (event_object event) (\<lambda>object.
     case wo_metadata object ''event_purchase_id'' of
       None \<Rightarrow> Inr WebhookNoop
     | Some purchase_text \<Rightarrow>
         and_then (with_context ''Stripe refund webhook has invalid event purchase metadata''
           (wh_parse_uuid env purchase_text)) (\<lambda>purchase_id.
         and_then (ok_or (Msg ''Stripe refund webhook is missing amount'') (wo_amount object))
           (\<lambda>amount_minor.
         and_then (ok_or (Msg ''Stripe refund webhook is missing currency'') (wo_currency object))
           (\<lambda>currency_code.
         and_then (ok_or (Msg ''Stripe refund webhook is missing payment intent'')
           (wo_payment_intent object)) (\<lambda>provider_payment_reference.
         and_then (ok_or (Msg ''Stripe refund webhook is missing status'') (wo_status object))
           (\<lambda>status.
         and_then (refund_result (wo_id object) status) (\<lambda>refund.
         Inr (RefundUpdated amount_minor connected_account_id currency_code (we_livemode event)
           provider_payment_reference (rpr_provider_refund_id refund) purchase_id
           (rpr_status refund))))))))))"

definition parse_webhook_event ::
    "webhook_env \<Rightarrow> StripeWebhookEvent \<Rightarrow> PaymentsWebhookEndpoint \<Rightarrow> anyhow + PaymentsWebhookEvent"
  where
  "parse_webhook_event env event endpoint =
     (let event_type = we_event_type event in
      if event_type = ''application_fee.created'' \<and> endpoint = PlatformAccount
      then parse_application_fee_event event
      else if event_type = ''checkout.session.completed'' then parse_checkout_completed_event event
      else if event_type = ''checkout.session.expired'' then parse_checkout_expired_event event
      else if event_type = ''invoice.paid'' then parse_invoice_event env event
      else if event_type \<in> {''refund.created'', ''refund.failed'', ''refund.updated''}
      then parse_refund_event env event
      else if endpoint = PlatformAccount then Inr WebhookNoop
      else Inl (Msg (''unsupported Stripe webhook event: '' @ event_type)))"

section \<open>Signature verification\<close>

text \<open>One turn of the loop over the parts of the header: the timestamp and the signatures so far.\<close>

definition signature_part ::
    "string option \<times> string list \<Rightarrow> string \<Rightarrow> string option \<times> string list" where
  "signature_part state part =
     (case split_once (CHR ''='') part of
        (key, None) \<Rightarrow> state
      | (key, Some val) \<Rightarrow>
          if trim key = ''t'' then (Some (trim val), snd state)
          else if trim key = ''v1'' then (fst state, snd state @ [trim val])
          else state)"

definition parse_signature_header :: "string \<Rightarrow> anyhow + (string \<times> string list)" where
  "parse_signature_header signature_header =
     (case foldl signature_part (None, []) (split_char (CHR '','') signature_header) of
        (None, _) \<Rightarrow> Inl (Msg ''missing Stripe webhook timestamp'')
      | (Some timestamp, signatures) \<Rightarrow>
          if signatures = [] then Inl (Msg ''missing Stripe webhook signature'')
          else Inr (timestamp, signatures))"

definition validate_webhook_timestamp :: "i64 \<Rightarrow> string \<Rightarrow> anyhow + unit" where
  "validate_webhook_timestamp now timestamp_text =
     and_then (with_context ''invalid Stripe webhook timestamp'' (parse_i64 timestamp_text))
       (\<lambda>timestamp.
     let age_secs = now - word_of_int timestamp in
     if sint STRIPE_WEBHOOK_TOLERANCE_SECS < sint (i64_abs age_secs)
     then Inl (Msg ''stale Stripe webhook timestamp'')
     else Inr ())"

definition webhook_secret :: "PaymentsStripeConfig \<Rightarrow> PaymentsWebhookEndpoint \<Rightarrow> string" where
  "webhook_secret cfg endpoint =
     (case endpoint of ConnectedAccount \<Rightarrow> sc_connected_webhook_secret cfg
      | PlatformAccount \<Rightarrow> sc_webhook_secret cfg)"

definition verify_and_parse_webhook ::
    "webhook_env \<Rightarrow> PaymentsStripeConfig \<Rightarrow> i64 \<Rightarrow> PaymentsWebhookEndpoint \<Rightarrow> header_map \<Rightarrow> string \<Rightarrow>
     anyhow + PaymentsWebhookEvent" where
  "verify_and_parse_webhook env cfg now endpoint headers body =
     and_then (ok_or (Msg ''missing Stripe webhook signature header'')
       (Option.bind (map_of headers ''stripe-signature'') (wh_header_to_str env))) (\<lambda>signature_header.
     and_then (parse_signature_header signature_header) (\<lambda>(timestamp, provided_signatures).
     and_then (validate_webhook_timestamp now timestamp) (\<lambda>_.
     let signed_payload = timestamp @ ''.'' @ body;
         expected_signature = wh_hmac_sha256_hex env (webhook_secret cfg endpoint) signed_payload in
     if \<not> list_ex (\<lambda>provided. provided = expected_signature) provided_signatures
     then Inl (Msg ''invalid Stripe webhook signature'')
     else
     and_then (with_context ''error parsing Stripe webhook payload'' (wh_decode_event env body))
       (\<lambda>event.
     and_then
       (case (endpoint, we_account event) of
          (ConnectedAccount, None) \<Rightarrow>
            Inl (Msg ''Stripe Connect webhook is missing connected account'')
        | (PlatformAccount, Some _) \<Rightarrow>
            Inl (Msg ''Stripe platform webhook contains a connected account'')
        | _ \<Rightarrow> Inr ()) (\<lambda>_.
     if we_livemode event \<noteq> (sc_mode cfg = Live)
     then Inl (Msg ''Stripe webhook mode does not match payments configuration'')
     else parse_webhook_event env event endpoint)))))"

section \<open>Properties\<close>

subsection \<open>The signature header\<close>

lemma split_char_nonempty [simp]: "split_char c s \<noteq> []"
  by (cases s) (auto split: list.splits)

lemma split_char_single: "c \<notin> set s \<Longrightarrow> split_char c s = [s]"
  by (induction s) auto

lemma split_char_append: "c \<notin> set s \<Longrightarrow> split_char c (s @ c # t) = s # split_char c t"
  by (induction s) auto

lemma split_once_append: "c \<notin> set k \<Longrightarrow> split_once c (k @ c # v) = (k, Some v)"
  by (induction k) (auto simp: split_once_def)

lemma trim_t [simp]: "trim ''t'' = ''t''" and trim_v1 [simp]: "trim ''v1'' = ''v1''"
  by code_simp+

lemma signature_part_t: "signature_part (ts, sigs) (''t='' @ v) = (Some (trim v), sigs)"
  using split_once_append [of "CHR ''=''" "''t''" v] by (simp add: signature_part_def)

lemma signature_part_v1: "signature_part (ts, sigs) (''v1='' @ v) = (ts, sigs @ [trim v])"
  using split_once_append [of "CHR ''=''" "''v1''" v] by (simp add: signature_part_def)

text \<open>The header as Stripe sends it: the timestamp, then the signatures.\<close>

definition render_signature_header :: "string \<Rightarrow> string list \<Rightarrow> string" where
  "render_signature_header timestamp signatures =
     ''t='' @ timestamp @ concat (map (\<lambda>s. '',v1='' @ s) signatures)"

text \<open>A value the header can carry: it has no separator and no surrounding whitespace.\<close>

definition header_value :: "string \<Rightarrow> bool" where
  "header_value v \<longleftrightarrow> CHR '','' \<notin> set v \<and> trim v = v"

lemma split_rendered_signatures:
  "CHR '','' \<notin> set p \<Longrightarrow> list_all header_value sigs \<Longrightarrow>
     split_char (CHR '','') (p @ concat (map (\<lambda>s. '',v1='' @ s) sigs)) =
       p # map (\<lambda>s. ''v1='' @ s) sigs"
proof (induction sigs arbitrary: p)
  case Nil
  then show ?case by (simp add: split_char_single)
next
  case (Cons s sigs)
  then show ?case
    using split_char_append [of "CHR '',''" p "''v1='' @ s @ concat (map (\<lambda>s. '',v1='' @ s) sigs)"]
      Cons.IH [of "''v1='' @ s"]
    by (simp add: header_value_def)
qed

lemma foldl_signature_v1:
  "list_all header_value sigs \<Longrightarrow>
     foldl signature_part (ts, acc) (map (\<lambda>s. ''v1='' @ s) sigs) = (ts, acc @ sigs)"
  by (induction sigs arbitrary: acc)
    (use signature_part_v1 in \<open>simp_all add: header_value_def\<close>)

text \<open>
  The signature header round-trips. The timestamp and every signature that Stripe puts into the
  header are recovered, in order, as long as there is at least one signature and no value contains
  the separator or surrounding whitespace.
\<close>

theorem signature_header_round_trip:
  assumes "header_value timestamp" and "list_all header_value signatures" and "signatures \<noteq> []"
  shows "parse_signature_header (render_signature_header timestamp signatures) =
    Inr (timestamp, signatures)"
proof -
  have "split_char (CHR '','') (render_signature_header timestamp signatures) =
      (''t='' @ timestamp) # map (\<lambda>s. ''v1='' @ s) signatures"
    using split_rendered_signatures [of "''t='' @ timestamp" signatures] assms
    by (simp add: render_signature_header_def header_value_def)
  then show ?thesis
    using signature_part_t [of None "[]" timestamp] foldl_signature_v1 [OF assms(2)] assms
    by (simp add: parse_signature_header_def header_value_def)
qed

theorem signature_header_round_trip_witness:
  "parse_signature_header (render_signature_header ''1700'' [''ab='', ''cd'']) =
     Inr (''1700'', [''ab='', ''cd''])"
proof (rule signature_header_round_trip)
  show "header_value ''1700''" and "list_all header_value [''ab='', ''cd'']" by code_simp+
qed simp

subsection \<open>Freshness\<close>

lemma mod_wrap_once: "m \<le> x \<Longrightarrow> x < m + m \<Longrightarrow> x mod m = x - m" for x m :: int
  using mod_pos_pos_trivial [of "x - m" m] by simp

lemma sint_i64_diff:
  assumes "0 \<le> sint (now :: i64)" and "sint now < 2 ^ 62" and "- (2 ^ 63) \<le> t" and "t < 2 ^ 63"
  shows "sint (now - word_of_int t) =
    (if sint now - t < 2 ^ 63 then sint now - t else sint now - t - 2 ^ 64)"
proof -
  have "sint (now - word_of_int t) = signed_take_bit 63 (sint now - t)"
    using assms by (simp add: sint_word_ariths sint_sbintrunc' signed_take_bit_int_eq_self)
  also have "\<dots> = (sint now - t + 2 ^ 63) mod 2 ^ 64 - 2 ^ 63"
    by (simp add: signed_take_bit_eq_take_bit_shift take_bit_eq_mod)
  also have "\<dots> = (if sint now - t < 2 ^ 63 then sint now - t else sint now - t - 2 ^ 64)"
    using assms by (simp add: mod_pos_pos_trivial mod_wrap_once)
  finally show ?thesis .
qed

lemma sint_i64_abs:
  "sint (i64_abs w) = (if sint w = - (2 ^ 63) then - (2 ^ 63) else \<bar>sint w\<bar>)"
proof (cases "sint w < 0")
  case True
  have "sint (- w) = signed_take_bit 63 (- sint w)"
    by (simp add: sint_word_ariths)
  also have "\<dots> = (if sint w = - (2 ^ 63) then - (2 ^ 63) else - sint w)"
    using True sint_ge [of w] by (simp add: signed_take_bit_int_eq_self)
  finally show ?thesis using True by (simp add: i64_abs_def)
qed (simp add: i64_abs_def)

text \<open>
  C19: freshness of a delivery. For every clock value up to \<open>2^62\<close> seconds, a timestamp is accepted
  exactly when it is an \<^verbatim>\<open>i64\<close> at most 300 seconds away from the clock, in either direction, or the
  single value \<open>2^63\<close> seconds before the clock, for which the wrapped difference is its own absolute
  value. Far-future and all other old timestamps, those that overflow the subtraction included, are
  rejected.
\<close>

theorem webhook_timestamp_window:
  assumes "0 \<le> sint now" and "sint now < 2 ^ 62"
  shows "validate_webhook_timestamp now timestamp = Inr () \<longleftrightarrow>
    (\<exists>t. parse_i64 timestamp = Inr t \<and> (\<bar>sint now - t\<bar> \<le> 300 \<or> t = sint now - 2 ^ 63))"
proof (cases "parse_i64 timestamp")
  case (Inr t)
  let ?age = "now - word_of_int t :: i64"
  have range: "- (2 ^ 63) \<le> t" "t < 2 ^ 63" using parse_i64_range [OF Inr] by simp_all
  have age: "sint ?age = (if sint now - t < 2 ^ 63 then sint now - t else sint now - t - 2 ^ 64)"
    by (rule sint_i64_diff [OF assms range])
  have abs_age: "sint (i64_abs ?age) =
      (if sint ?age = - (2 ^ 63) then - (2 ^ 63) else \<bar>sint ?age\<bar>)"
    by (rule sint_i64_abs)
  show ?thesis
    using Inr assms range age abs_age
    by (auto simp: validate_webhook_timestamp_def with_context_def STRIPE_WEBHOOK_TOLERANCE_SECS_def
        Let_def split: if_splits)
qed (simp add: validate_webhook_timestamp_def with_context_def)

theorem webhook_timestamp_window_witness:
  "validate_webhook_timestamp 1000 ''1290'' = Inr () \<and>
   validate_webhook_timestamp 1000 ''690'' \<noteq> Inr () \<and>
   validate_webhook_timestamp 1000 ''-9223372036854774808'' = Inr ()"
proof -
  have parsed: "parse_i64 ''1290'' = Inr 1290" "parse_i64 ''690'' = Inr 690"
    "parse_i64 ''-9223372036854774808'' = Inr (- 9223372036854774808)"
    by code_simp+
  show ?thesis
    using webhook_timestamp_window [of 1000] by (simp add: parsed del: parse_i64.simps)
qed

subsection \<open>Authenticity and scope\<close>

text \<open>What a verified delivery is: the checks in the order of the code.\<close>

lemma verify_and_parse_webhook_InrD:
  assumes "verify_and_parse_webhook env cfg now endpoint headers body = Inr ev"
  shows "\<exists>field header timestamp signatures event.
     map_of headers ''stripe-signature'' = Some field \<and> wh_header_to_str env field = Some header \<and>
     parse_signature_header header = Inr (timestamp, signatures) \<and>
     validate_webhook_timestamp now timestamp = Inr () \<and>
     wh_hmac_sha256_hex env (webhook_secret cfg endpoint) (timestamp @ ''.'' @ body)
       \<in> set signatures \<and>
     wh_decode_event env body = Inr event \<and>
     (endpoint = ConnectedAccount \<longleftrightarrow> we_account event \<noteq> None) \<and>
     (we_livemode event \<longleftrightarrow> sc_mode cfg = Live) \<and>
     parse_webhook_event env event endpoint = Inr ev"
  using assms unfolding verify_and_parse_webhook_def
  by (cases endpoint)
    (auto simp: and_then_eq_Inr ok_or_eq_Inr bind_eq_Some_conv Let_def list_ex_iff
      split: option.splits if_splits)

lemmas event_parsers =
  parse_application_fee_event_def parse_checkout_completed_event_def
  parse_checkout_expired_event_def parse_invoice_event_def parse_refund_event_def

text \<open>The account and the mode an event reports.\<close>

fun event_account :: "PaymentsWebhookEvent \<Rightarrow> string option" where
  "event_account (ApplicationFeeCreated _ account _ _ _) = Some account"
| "event_account (CheckoutCompleted account _ _) = Some account"
| "event_account (CheckoutExpired account _ _) = Some account"
| "event_account (InvoicePaid account _ _ _ _ _) = Some account"
| "event_account WebhookNoop = None"
| "event_account (RefundUpdated _ account _ _ _ _ _ _) = Some account"

fun event_is_live :: "PaymentsWebhookEvent \<Rightarrow> bool option" where
  "event_is_live (ApplicationFeeCreated _ _ live _ _) = Some live"
| "event_is_live (CheckoutCompleted _ live _) = Some live"
| "event_is_live (CheckoutExpired _ live _) = Some live"
| "event_is_live (InvoicePaid _ _ live _ _ _) = Some live"
| "event_is_live WebhookNoop = None"
| "event_is_live (RefundUpdated _ _ _ live _ _ _ _) = Some live"

lemma parse_connected_event:
  assumes "parse_webhook_event env event ConnectedAccount = Inr ev"
  shows "ev = WebhookNoop \<or> \<not> is_ApplicationFeeCreated ev \<and>
    event_account ev = we_account event \<and> event_is_live ev = Some (we_livemode event)"
  using assms
  by (auto simp: parse_webhook_event_def event_parsers Let_def and_then_eq_Inr ok_or_eq_Inr
      split: if_splits option.splits)

lemma parse_platform_event:
  assumes "parse_webhook_event env event PlatformAccount = Inr ev" and "we_account event = None"
  shows "ev = WebhookNoop \<or> is_ApplicationFeeCreated ev \<and>
    event_is_live ev = Some (we_livemode event)"
  using assms
  by (auto simp: parse_webhook_event_def event_parsers Let_def and_then_eq_Inr ok_or_eq_Inr
      split: if_splits option.splits)

text \<open>
  C10: authenticity. A delivery that is accepted carries a signature header with a fresh timestamp
  and at least one signature that is the digest of that timestamp and exactly this body under the
  secret of the endpoint it arrived at, so one that is signed for the other endpoint, or whose body
  or timestamp was changed, is accepted only if the digests collide.
\<close>

theorem webhook_accepted_authentic:
  assumes "verify_and_parse_webhook env cfg now endpoint headers body = Inr ev"
  shows "\<exists>field header timestamp signatures.
    map_of headers ''stripe-signature'' = Some field \<and> wh_header_to_str env field = Some header \<and>
    parse_signature_header header = Inr (timestamp, signatures) \<and>
    validate_webhook_timestamp now timestamp = Inr () \<and>
    wh_hmac_sha256_hex env
      (case endpoint of ConnectedAccount \<Rightarrow> sc_connected_webhook_secret cfg
       | PlatformAccount \<Rightarrow> sc_webhook_secret cfg) (timestamp @ ''.'' @ body) \<in> set signatures"
  using verify_and_parse_webhook_InrD [OF assms] unfolding webhook_secret_def by blast

text \<open>
  Account scope. The platform endpoint yields only application-fee events and events to be
  ignored, never one that moves a purchase of a connected account; the connected endpoint never
  yields an application-fee event, and the account it reports is the one of the signed envelope.
  On either endpoint the reported mode is the configured one, so a test event is never taken for a
  live one.
\<close>

theorem webhook_scope_isolated:
  assumes "verify_and_parse_webhook env cfg now endpoint headers body = Inr ev"
    and "ev \<noteq> WebhookNoop"
  shows "event_is_live ev = Some (sc_mode cfg = Live) \<and>
    (case endpoint of
       PlatformAccount \<Rightarrow> is_ApplicationFeeCreated ev
     | ConnectedAccount \<Rightarrow> \<not> is_ApplicationFeeCreated ev \<and>
         (\<exists>event account. wh_decode_event env body = Inr event \<and> we_account event = Some account \<and>
            event_account ev = Some account))"
proof -
  obtain event where event: "wh_decode_event env body = Inr event"
    "endpoint = ConnectedAccount \<longleftrightarrow> we_account event \<noteq> None"
    "we_livemode event \<longleftrightarrow> sc_mode cfg = Live" "parse_webhook_event env event endpoint = Inr ev"
    using verify_and_parse_webhook_InrD [OF assms(1)] by blast
  show ?thesis
  proof (cases endpoint)
    case ConnectedAccount
    with event assms(2) parse_connected_event [of env event ev] show ?thesis by auto
  next
    case PlatformAccount
    with event assms(2) parse_platform_event [of env event ev] show ?thesis by auto
  qed
qed

text \<open>A configuration, an environment and a delivery that verifies.\<close>

definition sample_stripe_config :: PaymentsStripeConfig where
  "sample_stripe_config =
     \<lparr>sc_connected_webhook_secret = ''whsec_c'', sc_mode = Test, sc_secret_key = ''sk'',
      sc_ticket_tax_api_version = ''preview'', sc_webhook_secret = ''whsec_p'',
      sc_platform_fee_bps = 0\<rparr>"

definition sample_webhook_env :: webhook_env where
  "sample_webhook_env =
     \<lparr>wh_hmac_sha256_hex = \<lambda>key payload. key @ ''-'' @ payload, wh_header_to_str = Some,
      wh_decode_event = \<lambda>body. Inr
        \<lparr>we_data = \<lparr>wd_object = Some
           \<lparr>wo_id = body, wo_account = None, wo_amount = None, wo_charge = None, wo_currency = None,
            wo_hosted_invoice_url = None, wo_invoice_pdf = None, wo_metadata = Map.empty,
            wo_payment_intent = None, wo_status = None\<rparr>\<rparr>,
         we_event_type = ''checkout.session.completed'', we_livemode = False,
         we_account = Some ''acct_1''\<rparr>,
      wh_parse_uuid = \<lambda>_. Inr 1\<rparr>"

lemma sample_delivery_accepted:
  "verify_and_parse_webhook sample_webhook_env sample_stripe_config 1000 ConnectedAccount
     [(''stripe-signature'', ''t=990,v1=x,v1=whsec_c-990.cs_1'')] ''cs_1'' =
   Inr (CheckoutCompleted ''acct_1'' False ''cs_1'')"
  by code_simp

theorem webhook_accepted_authentic_witness:
  "\<exists>timestamp signatures.
     parse_signature_header ''t=990,v1=x,v1=whsec_c-990.cs_1'' = Inr (timestamp, signatures) \<and>
     ''whsec_c-'' @ timestamp @ ''.cs_1'' \<in> set signatures"
  using webhook_accepted_authentic [OF sample_delivery_accepted]
  by (auto simp: sample_webhook_env_def sample_stripe_config_def)

theorem webhook_scope_isolated_witness:
  "event_is_live (CheckoutCompleted ''acct_1'' False ''cs_1'') =
     Some (sc_mode sample_stripe_config = Live)"
  using webhook_scope_isolated [OF sample_delivery_accepted] by simp

end
