(* ===== verification/Stripe_Api.thy ===== *)
theory Stripe_Api
  imports Stripe_Webhook Payments_Notifications
begin

text \<open>
  The Stripe provider and its API (\<^verbatim>\<open>services/payments/provider/stripe.rs\<close>): the responses it
  decodes, the form bodies it sends, the provisioning of tax resources and the validation of a
  connected seller. The methods that list, refund, credit and check out are in \<open>Stripe_Provider\<close>.

  An API call is a value of \<open>http_request\<close> handed to the client. The client, the form encoder of
  serde_urlencoded, the decoders that serde derives for the response types, the SHA-256 digest, the
  text of a status code and the clock are the fields of \<open>stripe_env\<close>; a client may do anything to
  the world and answer anything. Minor-unit amounts are \<^verbatim>\<open>i64\<close> values that are only compared and
  printed, so they are integers here; the one sum that is taken of them wraps.
\<close>

section \<open>Responses\<close>

record StripeAccountDashboard =
  sad_dashboard_type :: string

record StripeAccountFees =
  saf_payer :: string

record StripeAccountLosses =
  sal_payments :: string

record StripeAccountController =
  sac_controller_type :: string
  sac_fees :: "StripeAccountFees option"
  sac_losses :: "StripeAccountLosses option"
  sac_requirement_collection :: "string option"
  sac_stripe_dashboard :: "StripeAccountDashboard option"

record StripeAccountResponse =
  sar_charges_enabled :: bool
  sar_details_submitted :: bool
  sar_id :: string
  sar_controller :: "StripeAccountController option"

record StripeApplicationFeeRefund =
  sfr_amount :: int
  sfr_id :: string
  sfr_metadata :: "string \<rightharpoonup> string"

record StripeApplicationFeeRefundList =
  sfl_data :: "StripeApplicationFeeRefund list"

record StripeCheckoutSessionResponse =
  scs_id :: string
  scs_url :: string

record StripeCheckoutTotalDetails =
  std_amount_tax :: int

record StripeCreditNoteTaxAmount =
  sct_amount :: int

record StripeCreditNoteResponse =
  scn_amount :: int
  scn_id :: string
  scn_metadata :: "string \<rightharpoonup> string"
  scn_pdf :: "string option"
  scn_total_taxes :: "StripeCreditNoteTaxAmount list"

record StripeCreditNoteList =
  scl_data :: "StripeCreditNoteResponse list"

record StripeExpandedCharge =
  sec_id :: string
  sec_application_fee :: "string option"

record StripeErrorResponse =
  ser_message :: string
  ser_param :: "string option"

record StripeErrorEnvelope =
  see_error :: StripeErrorResponse

record StripeExpandedPaymentIntent =
  sei_id :: string
  sei_latest_charge :: "StripeExpandedCharge option"

record StripeExpandedCheckoutSessionResponse =
  ses_amount_total :: int
  ses_payment_intent :: StripeExpandedPaymentIntent
  ses_total_details :: StripeCheckoutTotalDetails

record StripeIdResponse =
  sir_id :: string

record StripeInvoiceDocumentResponse =
  sid_hosted_invoice_url :: "string option"
  sid_invoice_pdf :: "string option"

record StripeInvoiceLineResponse =
  sil_id :: string

record StripeInvoiceLineList =
  sll_data :: "StripeInvoiceLineResponse list"

record StripeListedRefund =
  slr_amount :: int
  slr_id :: string
  slr_status :: string
  slr_metadata :: "string \<rightharpoonup> string"

record StripeRefundListResponse =
  srl_data :: "StripeListedRefund list"

record StripeRefundResponse =
  srr_id :: string
  srr_status :: string

record StripeTaxProductTaxDetailsResponse =
  spd_performance_location :: "string option"
  spd_tax_code :: "string option"

record StripeTaxProductResponse =
  spr_active :: bool
  spr_name :: string
  spr_tax_details :: "StripeTaxProductTaxDetailsResponse option"

text \<open>The percentage is a JSON number, kept as the text it prints as.\<close>

record StripeTaxRateResponse =
  str_active :: bool
  str_display_name :: string
  str_id :: string
  str_inclusive :: bool
  str_percentage :: string
  str_jurisdiction :: "string option"

record StripeTaxRateListResponse =
  stl_data :: "StripeTaxRateResponse list"
  stl_has_more :: bool

record StripeTaxSettingsResponse =
  sts_status :: string

section \<open>The outside\<close>

datatype http_method = GET | POST

record http_request =
  hr_method :: http_method
  hr_url :: string
  hr_basic_auth :: string
  hr_headers :: "(string \<times> string) list"
  hr_body :: "string option"

text \<open>A response: its status and the result of reading its body.\<close>

record http_response =
  hs_status :: int
  hs_text :: "anyhow + string"

record stripe_decoders =
  sd_account :: "string \<Rightarrow> anyhow + StripeAccountResponse"
  sd_application_fee_refunds :: "string \<Rightarrow> anyhow + StripeApplicationFeeRefundList"
  sd_checkout_session :: "string \<Rightarrow> anyhow + StripeCheckoutSessionResponse"
  sd_credit_notes :: "string \<Rightarrow> anyhow + StripeCreditNoteList"
  sd_credit_note :: "string \<Rightarrow> anyhow + StripeCreditNoteResponse"
  sd_error :: "string \<Rightarrow> anyhow + StripeErrorEnvelope"
  sd_expanded_checkout :: "string \<Rightarrow> anyhow + StripeExpandedCheckoutSessionResponse"
  sd_id :: "string \<Rightarrow> anyhow + StripeIdResponse"
  sd_invoice_document :: "string \<Rightarrow> anyhow + StripeInvoiceDocumentResponse"
  sd_invoice_lines :: "string \<Rightarrow> anyhow + StripeInvoiceLineList"
  sd_refunds :: "string \<Rightarrow> anyhow + StripeRefundListResponse"
  sd_refund :: "string \<Rightarrow> anyhow + StripeRefundResponse"
  sd_tax_product :: "string \<Rightarrow> anyhow + StripeTaxProductResponse"
  sd_tax_rates :: "string \<Rightarrow> anyhow + StripeTaxRateListResponse"
  sd_tax_settings :: "string \<Rightarrow> anyhow + StripeTaxSettingsResponse"

record 's stripe_env =
  se_send :: "http_request \<Rightarrow> ('s, http_response) io"
  se_now :: "'s \<Rightarrow> i64"
  se_urlencode :: "(string \<times> string) list \<Rightarrow> anyhow + string"
  se_hex_sha256 :: "string \<Rightarrow> string"
  se_status_text :: "int \<Rightarrow> string"
  se_webhook :: webhook_env
  se_decode :: stripe_decoders

record StripeProvider =
  sp_api_base_url :: string
  sp_cfg :: PaymentsStripeConfig

definition new_stripe_provider :: "PaymentsStripeConfig \<Rightarrow> StripeProvider" where
  "new_stripe_provider cfg = \<lparr>sp_api_base_url = ''https://api.stripe.com/v1'', sp_cfg = cfg\<rparr>"

definition STRIPE_API_VERSION :: string where
  "STRIPE_API_VERSION = ''2024-10-28.acacia''"

definition STRIPE_CHECKOUT_PAYMENT_METHOD_TYPES :: "string list" where
  "STRIPE_CHECKOUT_PAYMENT_METHOD_TYPES = [''card'']"

definition STRIPE_PRODUCT_NAME_MAX_LEN :: nat where
  "STRIPE_PRODUCT_NAME_MAX_LEN = 250"

definition STRIPE_ACCOUNT_CONTROLLER_READINESS_ERROR :: string where
  "STRIPE_ACCOUNT_CONTROLLER_READINESS_ERROR = ''fiscal sponsor Stripe account must use application control, full Dashboard access, sponsor-paid fees, Stripe-collected requirements, and Stripe liability for payment-related negative balances''"

definition STRIPE_TAX_INVALID_ADDRESS_ERROR :: string where
  "STRIPE_TAX_INVALID_ADDRESS_ERROR = ''The address is not supported by Stripe Tax for a tax location. Please use a valid address.''"

definition STRIPE_TAX_UNSUPPORTED_COUNTRY_ERROR :: string where
  "STRIPE_TAX_UNSUPPORTED_COUNTRY_ERROR = ''The address is not supported by Stripe Tax for a tax location. Please use a location that is supported by Stripe Tax.''"

text \<open>The two shapes of request the provider builds: a read, and a write of a form body.\<close>

definition stripe_get :: "StripeProvider \<Rightarrow> string \<Rightarrow> (string \<times> string) list \<Rightarrow> http_request" where
  "stripe_get sp path headers =
     \<lparr>hr_method = GET, hr_url = sp_api_base_url sp @ path,
      hr_basic_auth = sc_secret_key (sp_cfg sp), hr_headers = headers, hr_body = None\<rparr>"

definition stripe_post ::
    "StripeProvider \<Rightarrow> string \<Rightarrow> (string \<times> string) list \<Rightarrow> string \<Rightarrow> http_request" where
  "stripe_post sp path headers body =
     \<lparr>hr_method = POST, hr_url = sp_api_base_url sp @ path,
      hr_basic_auth = sc_secret_key (sp_cfg sp),
      hr_headers = (''content-type'', ''application/x-www-form-urlencoded'') # headers,
      hr_body = Some body\<rparr>"

section \<open>Text helpers\<close>

text \<open>\<^verbatim>\<open>s.chars().take(n)\<close> on the UTF-8 bytes of \<^verbatim>\<open>s\<close>.\<close>

fun stripe_truncate :: "string \<Rightarrow> nat \<Rightarrow> string" where
  "stripe_truncate [] n = []"
| "stripe_truncate (b # bs) n =
     (if is_continuation_byte b then b # stripe_truncate bs n
      else case n of 0 \<Rightarrow> [] | Suc m \<Rightarrow> b # stripe_truncate bs m)"

definition stripe_normalized_currency_code :: "string \<Rightarrow> string" where
  "stripe_normalized_currency_code currency_code = to_ascii_lowercase (trim currency_code)"

definition provider_fingerprint :: "'s stripe_env \<Rightarrow> string list \<Rightarrow> string" where
  "provider_fingerprint env parts =
     se_hex_sha256 env (concat (map (\<lambda>part. part @ [CHR 0x00]) parts))"

definition event_return_url :: "CreateCheckoutSessionInput \<Rightarrow> string \<Rightarrow> string" where
  "event_return_url inp outcome =
     base_url_without_trailing_slash (ci_base_url inp) @ ''/'' @ ci_community_name inp @ ''/group/'' @
     public_group_slug inp @ ''/event/'' @ ci_event_slug inp @ ''?payment='' @ outcome"

definition em_dash :: string where
  "em_dash = '' '' @ [CHR 0xE2, CHR 0x80, CHR 0x94] @ '' ''"

definition invoice_description :: "CreateCheckoutSessionInput \<Rightarrow> string" where
  "invoice_description inp =
     stripe_truncate
       (ci_ticket_title inp @ em_dash @ ci_community_display_name inp @ '' / '' @ ci_group_name inp @
        em_dash @ ci_event_name inp @ '' ('' @ ci_event_timezone inp @ '')'' @ em_dash @
        tv_name (ci_venue inp)) 500"

definition checkout_idempotency_key :: "uuid \<Rightarrow> string" where
  "checkout_idempotency_key purchase_id = ''event-purchase-checkout-'' @ show_uuid purchase_id"

section \<open>Form bodies\<close>

definition build_refund_form_fields :: "RefundPaymentInput \<Rightarrow> (string \<times> string) list" where
  "build_refund_form_fields inp =
     [(''amount'', show_int (rpi_amount_minor inp)),
      (''metadata[event_purchase_id]'', show_uuid (rpi_purchase_id inp)),
      (''payment_intent'', rpi_provider_payment_reference inp)]"

definition checkout_base_form_fields :: "CreateCheckoutSessionInput \<Rightarrow> (string \<times> string) list" where
  "checkout_base_form_fields inp =
     [(''cancel_url'', event_return_url inp ''canceled''),
      (''client_reference_id'', show_uuid (ci_purchase_id inp)),
      (''line_items[0][price_data][currency]'',
       stripe_normalized_currency_code (ci_currency_code inp)),
      (''line_items[0][price_data][tax_behavior]'',
       (case ci_tax_behavior inp of Exclusive \<Rightarrow> ''exclusive'' | Inclusive \<Rightarrow> ''inclusive'')),
      (''line_items[0][price_data][unit_amount]'', show_int (ci_amount_minor inp)),
      (''line_items[0][quantity]'', ''1''),
      (''mode'', ''payment''),
      (''success_url'', event_return_url inp ''success'')]"

definition checkout_customer_invoice_form_fields ::
    "CreateCheckoutSessionInput \<Rightarrow> (string \<times> string) list" where
  "checkout_customer_invoice_form_fields inp =
     [(''billing_address_collection'', ''required''),
      (''customer_creation'', ''always''),
      (''invoice_creation[enabled]'', ''true''),
      (''invoice_creation[invoice_data][description]'', invoice_description inp),
      (''invoice_creation[invoice_data][metadata][event_purchase_id]'',
       show_uuid (ci_purchase_id inp)),
      (''payment_intent_data[metadata][event_id]'', show_uuid (ci_event_id inp)),
      (''payment_intent_data[metadata][event_purchase_id]'', show_uuid (ci_purchase_id inp)),
      (''payment_intent_data[metadata][user_id]'', show_uuid (ci_user_id inp)),
      (''tax_id_collection[enabled]'', ''true'')]"

definition checkout_optional_form_fields ::
    "StripeProvider \<Rightarrow> CreateCheckoutSessionInput \<Rightarrow> (string \<times> string) list" where
  "checkout_optional_form_fields sp inp =
     map (\<lambda>(i, method). (''payment_method_types['' @ show_nat i @ '']'', method))
       (enumerate 0 STRIPE_CHECKOUT_PAYMENT_METHOD_TYPES) @
     (case ci_discount_code inp of
        None \<Rightarrow> []
      | Some discount_code \<Rightarrow> [(''payment_intent_data[metadata][discount_code]'', discount_code)]) @
     (if 0 < ci_provisional_platform_fee_amount_minor inp
      then [(''payment_intent_data[application_fee_amount]'',
             show_int (ci_provisional_platform_fee_amount_minor inp))]
      else []) @
     (if sc_mode (sp_cfg sp) = Test then [(''metadata[environment]'', ''test'')] else [])"

definition checkout_tax_form_fields ::
    "CreateCheckoutSessionInput \<Rightarrow> string option \<Rightarrow> (string \<times> string) list" where
  "checkout_tax_form_fields inp product_id_option =
     (case product_id_option of
        Some provider_tax_product_id \<Rightarrow>
          [(''automatic_tax[enabled]'', ''true''),
           (''line_items[0][price_data][product]'', provider_tax_product_id)]
      | None \<Rightarrow>
          (''line_items[0][price_data][product_data][name]'',
           stripe_truncate (ci_ticket_title inp) STRIPE_PRODUCT_NAME_MAX_LEN) #
          map (\<lambda>(i, tax_rate_id). (''line_items[0][tax_rates]['' @ show_nat i @ '']'', tax_rate_id))
            (enumerate 0 (case ci_manual_tax_rate_ids inp of None \<Rightarrow> [] | Some ids \<Rightarrow> ids)))"

definition build_checkout_session_form_fields ::
    "StripeProvider \<Rightarrow> CreateCheckoutSessionInput \<Rightarrow> string option \<Rightarrow> (string \<times> string) list" where
  "build_checkout_session_form_fields sp inp product_id_option =
     checkout_base_form_fields inp @ checkout_customer_invoice_form_fields inp @
     checkout_optional_form_fields sp inp @ checkout_tax_form_fields inp product_id_option"

section \<open>Reading responses\<close>

definition status_is_success :: "int \<Rightarrow> bool" where
  "status_is_success status \<longleftrightarrow> 200 \<le> status \<and> status < 300"

text \<open>The error that keeps the status and the body of a failed call.\<close>

definition failed_response :: "'s stripe_env \<Rightarrow> string \<Rightarrow> http_response \<Rightarrow> anyhow" where
  "failed_response env operation response =
     Msg (''Stripe '' @ operation @ '' failed ('' @ se_status_text env (hs_status response) @ ''): '' @
       (case hs_text response of Inl _ \<Rightarrow> ''unable to read Stripe error response'' | Inr body \<Rightarrow> body))"

definition parse_provider_response ::
    "'s stripe_env \<Rightarrow> (string \<Rightarrow> anyhow + 'a) \<Rightarrow> http_response \<Rightarrow> string \<Rightarrow> anyhow + 'a" where
  "parse_provider_response env decode response operation =
     (if \<not> status_is_success (hs_status response) then Inl (failed_response env operation response)
      else with_context (''error parsing Stripe '' @ operation @ '' response'')
        (and_then (hs_text response) decode))"

definition map_error :: "('e \<Rightarrow> 'f) \<Rightarrow> 'e + 'a \<Rightarrow> 'f + 'a" where
  "map_error g r = (case r of Inl e \<Rightarrow> Inl (g e) | Inr x \<Rightarrow> Inr x)"

definition parse_fiscal_sponsor_response ::
    "'s stripe_env \<Rightarrow> (string \<Rightarrow> anyhow + 'a) \<Rightarrow> http_response \<Rightarrow> string \<Rightarrow> string \<Rightarrow>
     FiscalSponsorReadinessError + 'a" where
  "parse_fiscal_sponsor_response env decode response operation not_ready_message =
     (if hs_status response = 400 \<or> hs_status response = 404 then Inl (NotReady not_ready_message)
      else map_error SponsorUnexpected (parse_provider_response env decode response operation))"

definition parse_performance_location_response ::
    "'s stripe_env \<Rightarrow> http_response \<Rightarrow> PerformanceLocationInput \<Rightarrow>
     AutomaticTaxReadinessError + StripeIdResponse" where
  "parse_performance_location_response env response inp =
     (if status_is_success (hs_status response)
      then map_error ReadinessUnexpected
        (with_context ''error parsing Stripe performance location creation response''
          (and_then (hs_text response) (sd_id (se_decode env))))
      else
        and_then (map_error ReadinessUnexpected
          (with_context ''error parsing Stripe performance location error response''
            (and_then (hs_text response) (sd_error (se_decode env))))) (\<lambda>envelope.
        let parameter = ser_param (see_error envelope); venue = pli_venue inp in
        if parameter = Some ''address[state]'' then
          Inl (case tv_state_code venue of
                 Some state_code \<Rightarrow> StateCodeInvalid (tv_country_code venue) state_code
               | None \<Rightarrow> StateCodeRequired (tv_country_code venue))
        else if ser_message (see_error envelope) = STRIPE_TAX_UNSUPPORTED_COUNTRY_ERROR
        then Inl UnsupportedCountry
        else if parameter = Some ''address[country]'' then Inl (CountryInvalid (tv_country_code venue))
        else if ser_message (see_error envelope) = STRIPE_TAX_INVALID_ADDRESS_ERROR \<or>
             (\<exists>p \<in> set_option parameter. prefix ''address['' p)
        then Inl InvalidAddress
        else Inl (ReadinessUnexpected (Msg ''Stripe performance location creation failed''))))"

section \<open>Tax resources\<close>

definition create_performance_location ::
    "'s stripe_env \<Rightarrow> StripeProvider \<Rightarrow> PerformanceLocationInput \<Rightarrow> string \<Rightarrow>
     ('s, AutomaticTaxReadinessError, AutomaticTaxReadiness) act" where
  "create_performance_location env sp inp api_version =
     (let venue = pli_venue inp;
          fingerprint = performance_location_fingerprint (se_hex_sha256 env) venue;
          form_fields =
            [(''address[city]'', tv_city venue), (''address[country]'', tv_country_code venue),
             (''address[line1]'', tv_address venue), (''address[postal_code]'', tv_zip_code venue),
             (''description'', tv_name venue), (''type'', ''performance'')] @
            (case tv_state_code venue of None \<Rightarrow> [] | Some c \<Rightarrow> [(''address[state]'', c)]);
          create =
            act_bind (act_lift (map_error ReadinessUnexpected
              (with_context ''error encoding Stripe performance location request''
                (se_urlencode env form_fields)))) (\<lambda>body.
            act_bind (act_map_err ReadinessUnexpected
              (act_context ''error creating Stripe performance location''
                (se_send env (stripe_post sp ''/tax/locations''
                  [(''idempotency-key'', ''ocg-tax-location-'' @ fingerprint),
                   (''stripe-account'', pli_connected_seller_id inp),
                   (''stripe-version'', api_version)] body)))) (\<lambda>response.
            act_bind (act_lift (parse_performance_location_response env response inp)) (\<lambda>created.
            act_ok \<lparr>atr_cached = False, atr_fingerprint = fingerprint,
                    atr_provider_tax_location_id = sir_id created,
                    atr_state_code = tv_state_code venue\<rparr>))) in
      if pli_cached_fingerprint inp = Some fingerprint then
        (case pli_cached_provider_tax_location_id inp of
           Some provider_tax_location_id \<Rightarrow>
             act_ok \<lparr>atr_cached = True, atr_fingerprint = fingerprint,
                     atr_provider_tax_location_id = provider_tax_location_id,
                     atr_state_code = tv_state_code venue\<rparr>
         | None \<Rightarrow> create)
      else create)"

definition ensure_performance_location ::
    "'s stripe_env \<Rightarrow> StripeProvider \<Rightarrow> PerformanceLocationInput \<Rightarrow>
     ('s, AutomaticTaxReadinessError, AutomaticTaxReadiness) act" where
  "ensure_performance_location env sp inp =
     create_performance_location env sp inp (sc_ticket_tax_api_version (sp_cfg sp))"

definition retrieve_tax_product ::
    "'s stripe_env \<Rightarrow> StripeProvider \<Rightarrow> string \<Rightarrow> string \<Rightarrow> string \<Rightarrow>
     ('s, StripeTaxProductResponse option) io" where
  "retrieve_tax_product env sp connected_seller_id provider_tax_product_id api_version =
     act_bind (act_context ''error retrieving cached Stripe ticket Product''
       (se_send env (stripe_get sp (''/products/'' @ provider_tax_product_id)
         [(''stripe-account'', connected_seller_id), (''stripe-version'', api_version)])))
       (\<lambda>response.
     if hs_status response = 404 then act_ok None
     else
       act_bind (act_lift (parse_provider_response env (sd_tax_product (se_decode env)) response
         ''Product retrieval'')) (\<lambda>product. act_ok (Some product)))"

definition tax_product_matches ::
    "StripeTaxProductResponse \<Rightarrow> string \<Rightarrow> string \<Rightarrow> string \<Rightarrow> bool" where
  "tax_product_matches product title provider_tax_location_id tax_code \<longleftrightarrow>
     spr_active product \<and> spr_name product = title \<and>
     (case spr_tax_details product of
        None \<Rightarrow> False
      | Some details \<Rightarrow> spd_performance_location details = Some provider_tax_location_id \<and>
          spd_tax_code details = Some tax_code)"

text \<open>The request that creates a ticket product, with the product it replaces, if any.\<close>

definition post_tax_product ::
    "'s stripe_env \<Rightarrow> StripeProvider \<Rightarrow> CreateCheckoutSessionInput \<Rightarrow> string \<Rightarrow> string \<Rightarrow> string \<Rightarrow> string \<Rightarrow>
     string \<Rightarrow> string option \<Rightarrow> ('s, string \<times> string) io" where
  "post_tax_product env sp inp api_version title provider_tax_location_id tax_code fingerprint
       replaced_provider_tax_product_id =
     (let idempotency_fingerprint =
            (case replaced_provider_tax_product_id of
               None \<Rightarrow> fingerprint
             | Some replaced \<Rightarrow> provider_fingerprint env [fingerprint, replaced]) in
      act_bind (act_lift (se_urlencode env
        [(''name'', title), (''tax_details[performance_location]'', provider_tax_location_id),
         (''tax_details[tax_code]'', tax_code)])) (\<lambda>body.
      act_bind (act_context ''error creating Stripe ticket Product''
        (se_send env (stripe_post sp ''/products''
          [(''idempotency-key'', ''ocg-tax-product-'' @ idempotency_fingerprint),
           (''stripe-account'', fs_connected_account_id (ci_seller inp)),
           (''stripe-version'', api_version)] body))) (\<lambda>response.
      act_bind (act_lift (parse_provider_response env (sd_id (se_decode env)) response
        ''Product creation'')) (\<lambda>created.
      act_ok (sir_id created, fingerprint)))))"

definition create_tax_product ::
    "'s stripe_env \<Rightarrow> StripeProvider \<Rightarrow> CreateCheckoutSessionInput \<Rightarrow> string \<Rightarrow> string \<Rightarrow>
     ('s, string \<times> string) io" where
  "create_tax_product env sp inp api_version provider_tax_location_id =
     act_bind (act_lift (ok_or
       (Msg ''automatic Stripe Tax checkout is missing a ticket tax code'') (ci_tax_code inp)))
       (\<lambda>tax_code.
     let title = stripe_truncate (ci_ticket_title inp) STRIPE_PRODUCT_NAME_MAX_LEN;
         fingerprint = provider_fingerprint env [title, provider_tax_location_id, tax_code];
         post = post_tax_product env sp inp api_version title provider_tax_location_id tax_code
           fingerprint in
     if ci_cached_product_fingerprint inp = Some fingerprint then
       (case ci_cached_provider_tax_product_id inp of
          None \<Rightarrow> post None
        | Some provider_tax_product_id \<Rightarrow>
            act_bind (retrieve_tax_product env sp (fs_connected_account_id (ci_seller inp))
              provider_tax_product_id api_version) (\<lambda>product.
            if (case product of None \<Rightarrow> False
                | Some p \<Rightarrow> tax_product_matches p title provider_tax_location_id tax_code)
            then act_ok (provider_tax_product_id, fingerprint)
            else post (Some provider_tax_product_id)))
     else post None)"

section \<open>Seller readiness\<close>

definition validate_connected_tax_settings ::
    "'s stripe_env \<Rightarrow> StripeProvider \<Rightarrow> string \<Rightarrow> ('s, FiscalSponsorReadinessError, unit) act" where
  "validate_connected_tax_settings env sp connected_seller_id =
     act_bind (act_map_err SponsorUnexpected
       (act_context ''error retrieving fiscal sponsor Stripe Tax settings''
         (se_send env (stripe_get sp ''/tax/settings''
           [(''stripe-account'', connected_seller_id), (''stripe-version'', STRIPE_API_VERSION)]))))
       (\<lambda>response.
     act_bind (act_lift (parse_fiscal_sponsor_response env (sd_tax_settings (se_decode env)) response
       ''Tax settings retrieval'' ''fiscal sponsor Stripe Tax settings could not be validated''))
       (\<lambda>settings.
     if sts_status settings \<noteq> ''active''
     then act_err (NotReady ''fiscal sponsor Stripe Tax settings are not active'')
     else act_ok ()))"

definition none_or :: "('a \<Rightarrow> bool) \<Rightarrow> 'a option \<Rightarrow> bool" where
  "none_or P v = (case v of None \<Rightarrow> True | Some x \<Rightarrow> P x)"

text \<open>The checks on the account that Stripe returned, before the tax settings are looked at.\<close>

definition check_connected_account ::
    "FiscalSponsorReadinessInput \<Rightarrow> StripeAccountResponse \<Rightarrow> FiscalSponsorReadinessError + unit" where
  "check_connected_account inp account =
     (if sar_id account \<noteq> fsi_connected_seller_id inp
      then Inl (NotReady ''Stripe connected account response does not match the fiscal sponsor'')
      else if \<not> sar_charges_enabled account \<or> \<not> sar_details_submitted account
      then Inl (NotReady ''fiscal sponsor Stripe account is not ready to accept charges'')
      else case sar_controller account of
        None \<Rightarrow> Inl (NotReady STRIPE_ACCOUNT_CONTROLLER_READINESS_ERROR)
      | Some controller \<Rightarrow>
          if sac_controller_type controller \<noteq> ''application''
          then Inl (NotReady STRIPE_ACCOUNT_CONTROLLER_READINESS_ERROR)
          else if none_or (\<lambda>fees. saf_payer fees \<noteq> ''account'') (sac_fees controller) \<or>
                  none_or (\<lambda>losses. sal_payments losses \<noteq> ''stripe'') (sac_losses controller) \<or>
                  sac_requirement_collection controller \<noteq> Some ''stripe'' \<or>
                  none_or (\<lambda>dashboard. sad_dashboard_type dashboard \<noteq> ''full'')
                    (sac_stripe_dashboard controller)
          then Inl (NotReady STRIPE_ACCOUNT_CONTROLLER_READINESS_ERROR)
          else Inr ())"

definition validate_connected_seller ::
    "'s stripe_env \<Rightarrow> StripeProvider \<Rightarrow> FiscalSponsorReadinessInput \<Rightarrow>
     ('s, FiscalSponsorReadinessError, unit) act" where
  "validate_connected_seller env sp inp =
     act_bind (act_map_err SponsorUnexpected
       (act_context ''error retrieving Stripe connected account''
         (se_send env (stripe_get sp (''/accounts/'' @ fsi_connected_seller_id inp)
           [(''stripe-version'', STRIPE_API_VERSION)])))) (\<lambda>response.
     act_bind (act_lift (parse_fiscal_sponsor_response env (sd_account (se_decode env)) response
       ''connected account retrieval'' ''fiscal sponsor Stripe account could not be validated''))
       (\<lambda>account.
     act_bind (act_lift (check_connected_account inp account)) (\<lambda>_.
     if fsi_require_automatic_tax inp
     then validate_connected_tax_settings env sp (fsi_connected_seller_id inp)
     else act_ok ())))"

definition validate_fiscal_sponsor ::
    "'s stripe_env \<Rightarrow> StripeProvider \<Rightarrow> FiscalSponsorReadinessInput \<Rightarrow>
     ('s, FiscalSponsorReadinessError, unit) act" where
  "validate_fiscal_sponsor env sp inp =
     (if fsi_provider inp \<noteq> Stripe
      then act_err (NotReady ''fiscal sponsor is not configured for Stripe'')
      else validate_connected_seller env sp inp)"

end
