(* ===== verification/Stripe_Provider.thy ===== *)
theory Stripe_Provider
  imports Stripe_Api Refund_Worker
begin

text \<open>
  The methods of the Stripe provider (\<^verbatim>\<open>services/payments/provider/stripe.rs\<close>) that look up and
  create refunds, reconcile application-fee adjustments and credit notes, read financial documents,
  list and validate tax rates, and create Checkout sessions; the trait object they form; and what
  they guarantee to the refund worker and the webhook endpoints.

  The listing of tax rates follows Stripe's pagination for as long as Stripe reports more, so it is
  a partial function: \<^term>\<open>None\<close> stands for a listing that never ends, and the methods built on it
  return an option as well.
\<close>

section \<open>Refunds\<close>

definition matching_refund :: "FindRefundInput \<Rightarrow> StripeListedRefund \<Rightarrow> bool" where
  "matching_refund inp refund \<longleftrightarrow>
     slr_amount refund = fri_amount_minor inp \<and>
     slr_metadata refund ''event_purchase_id'' = Some (show_uuid (fri_purchase_id inp)) \<and>
     none_or (\<lambda>i. slr_id refund = i) (fri_provider_refund_id inp) \<and>
     (fri_provider_refund_id inp \<noteq> None \<or> \<not> is_terminal_failure_status (slr_status refund))"

definition find_matching_refund_result ::
    "FindRefundInput \<Rightarrow> StripeListedRefund list \<Rightarrow> anyhow + RefundPaymentResult option" where
  "find_matching_refund_result inp refunds =
     (case sort_key (\<lambda>refund. refund_status_rank (slr_status refund))
             (filter (matching_refund inp) refunds) of
        [] \<Rightarrow> Inr None
      | refund # _ \<Rightarrow>
          and_then (refund_result (slr_id refund) (slr_status refund)) (\<lambda>r. Inr (Some r)))"

definition find_refund ::
    "'s stripe_env \<Rightarrow> StripeProvider \<Rightarrow> FindRefundInput \<Rightarrow> ('s, RefundPaymentResult option) io" where
  "find_refund env sp inp =
     act_bind (act_lift (se_urlencode env
       [(''payment_intent'', fri_provider_payment_reference inp), (''limit'', ''100'')])) (\<lambda>query.
     act_bind (act_context ''error listing Stripe refunds''
       (se_send env (stripe_get sp (''/refunds?'' @ query)
         [(''stripe-version'', STRIPE_API_VERSION),
          (''stripe-account'', fri_connected_seller_id inp)]))) (\<lambda>response.
     if \<not> status_is_success (hs_status response)
     then act_err (failed_response env ''refund lookup'' response)
     else
       act_bind (act_lift (with_context ''error parsing Stripe refund list response''
         (and_then (hs_text response) (sd_refunds (se_decode env))))) (\<lambda>listed.
       act_lift (find_matching_refund_result inp (srl_data listed)))))"

definition refund_payment ::
    "'s stripe_env \<Rightarrow> StripeProvider \<Rightarrow> RefundPaymentInput \<Rightarrow> ('s, RefundPaymentResult) io" where
  "refund_payment env sp inp =
     (if rpi_amount_minor inp \<le> 0
      then act_err (Msg ''cannot refund a non-positive purchase amount'')
      else
        act_bind (act_lift (se_urlencode env (build_refund_form_fields inp))) (\<lambda>body.
        act_bind (act_context ''error creating Stripe refund''
          (se_send env (stripe_post sp ''/refunds''
            [(''idempotency-key'', rpi_idempotency_key inp), (''stripe-version'', STRIPE_API_VERSION),
             (''stripe-account'', rpi_connected_seller_id inp)] body))) (\<lambda>response.
        if \<not> status_is_success (hs_status response)
        then act_err (failed_response env ''refund'' response)
        else
          act_bind (act_lift (with_context ''error parsing Stripe refund response''
            (and_then (hs_text response) (sd_refund (se_decode env))))) (\<lambda>refund.
          act_lift (refund_result (srr_id refund) (srr_status refund))))))"

section \<open>Financial context and documents\<close>

definition get_checkout_financial_context ::
    "'s stripe_env \<Rightarrow> StripeProvider \<Rightarrow> GetCheckoutFinancialContextInput \<Rightarrow>
     ('s, CheckoutFinancialContext) io" where
  "get_checkout_financial_context env sp inp =
     act_bind (act_lift (se_urlencode env [(''expand[]'', ''payment_intent.latest_charge'')])) (\<lambda>query.
     act_bind (act_context ''error retrieving Stripe Checkout financial context''
       (se_send env (stripe_get sp
         (''/checkout/sessions/'' @ gci_provider_session_id inp @ ''?'' @ query)
         [(''stripe-account'', gci_connected_seller_id inp),
          (''stripe-version'', sc_ticket_tax_api_version (sp_cfg sp))]))) (\<lambda>response.
     act_bind (act_lift (parse_provider_response env (sd_expanded_checkout (se_decode env)) response
       ''Checkout Session retrieval'')) (\<lambda>checkout.
     act_bind (act_lift (ok_or (Msg ''Stripe Checkout PaymentIntent is missing its Charge'')
       (sei_latest_charge (ses_payment_intent checkout)))) (\<lambda>charge.
     act_ok \<lparr>cfc_provider_charge_id = sec_id charge,
             cfc_provider_payment_reference = sei_id (ses_payment_intent checkout),
             cfc_provider_total_minor = ses_amount_total checkout,
             cfc_tax_amount_minor = std_amount_tax (ses_total_details checkout),
             cfc_provider_application_fee_id = sec_application_fee charge\<rparr>))))"

definition document_resource :: "FinancialDocumentKind \<Rightarrow> string" where
  "document_resource kind =
     (case kind of InvoiceDocument \<Rightarrow> ''invoices'' | CreditNoteDocument \<Rightarrow> ''credit_notes'')"

definition get_financial_document ::
    "'s stripe_env \<Rightarrow> StripeProvider \<Rightarrow> GetFinancialDocumentInput \<Rightarrow> ('s, FinancialDocument) io" where
  "get_financial_document env sp inp =
     (let resource = document_resource (gdi_kind inp) in
      act_bind (act_context (''error retrieving Stripe '' @ resource)
        (se_send env (stripe_get sp (''/'' @ resource @ ''/'' @ gdi_provider_document_id inp)
          [(''stripe-account'', gdi_connected_seller_id inp),
           (''stripe-version'', STRIPE_API_VERSION)]))) (\<lambda>response.
      case gdi_kind inp of
        InvoiceDocument \<Rightarrow>
          act_bind (act_lift (parse_provider_response env (sd_invoice_document (se_decode env))
            response ''invoice retrieval'')) (\<lambda>invoice.
          act_ok \<lparr>fd_hosted_url = sid_hosted_invoice_url invoice,
                  fd_pdf_url = sid_invoice_pdf invoice\<rparr>)
      | CreditNoteDocument \<Rightarrow>
          act_bind (act_lift (parse_provider_response env (sd_credit_note (se_decode env)) response
            ''credit-note retrieval'')) (\<lambda>credit_note.
          act_ok \<lparr>fd_hosted_url = None, fd_pdf_url = scn_pdf credit_note\<rparr>)))"

section \<open>Application-fee adjustments\<close>

definition list_fee_refunds ::
    "'s stripe_env \<Rightarrow> StripeProvider \<Rightarrow> ApplicationFeeAdjustmentInput \<Rightarrow>
     ('s, StripeApplicationFeeRefundList) io" where
  "list_fee_refunds env sp inp =
     act_bind (act_context ''error listing Stripe application-fee refunds''
       (se_send env (stripe_get sp
         (''/application_fees/'' @ fai_provider_application_fee_id inp @ ''/refunds?limit=100'')
         [(''stripe-version'', STRIPE_API_VERSION)]))) (\<lambda>response.
     act_lift (parse_provider_response env (sd_application_fee_refunds (se_decode env)) response
       ''application-fee refund listing''))"

definition create_fee_refund ::
    "'s stripe_env \<Rightarrow> StripeProvider \<Rightarrow> ApplicationFeeAdjustmentInput \<Rightarrow>
     ('s, ApplicationFeeAdjustmentResult) io" where
  "create_fee_refund env sp inp =
     act_bind (act_lift (se_urlencode env
       [(''amount'', show_int (fai_amount_minor inp)),
        (''metadata[connected_seller_id]'', fai_connected_seller_id inp),
        (''metadata[event_purchase_id]'', show_uuid (fai_event_purchase_id inp)),
        (''metadata[kind]'', fai_kind inp)])) (\<lambda>body.
     act_bind (act_context ''error refunding Stripe application fee''
       (se_send env (stripe_post sp
         (''/application_fees/'' @ fai_provider_application_fee_id inp @ ''/refunds'')
         [(''idempotency-key'', fai_idempotency_key inp), (''stripe-version'', STRIPE_API_VERSION)]
         body))) (\<lambda>response.
     act_bind (act_lift (parse_provider_response env (sd_id (se_decode env)) response
       ''application-fee refund creation'')) (\<lambda>refund.
     act_ok \<lparr>far_provider_application_fee_refund_id = sir_id refund\<rparr>)))"

definition matching_fee_refund ::
    "ApplicationFeeAdjustmentInput \<Rightarrow> StripeApplicationFeeRefund \<Rightarrow> bool" where
  "matching_fee_refund inp refund \<longleftrightarrow>
     sfr_metadata refund ''event_purchase_id'' = Some (show_uuid (fai_event_purchase_id inp)) \<and>
     sfr_metadata refund ''kind'' = Some (fai_kind inp)"

definition reconcile_application_fee_adjustment ::
    "'s stripe_env \<Rightarrow> StripeProvider \<Rightarrow> ApplicationFeeAdjustmentInput \<Rightarrow>
     ('s, ApplicationFeeAdjustmentResult) io" where
  "reconcile_application_fee_adjustment env sp inp =
     (if fai_amount_minor inp \<le> 0
      then act_err (Msg ''application-fee adjustment amount must be positive'')
      else if blank (fai_connected_seller_id inp)
      then act_err (Msg ''application-fee adjustment is missing connected seller account'')
      else
        act_bind (list_fee_refunds env sp inp) (\<lambda>refunds.
        case find (matching_fee_refund inp) (sfl_data refunds) of
          Some refund \<Rightarrow>
            if sfr_amount refund \<noteq> fai_amount_minor inp
            then act_err (Msg ''existing Stripe application-fee refund has the wrong amount'')
            else act_ok \<lparr>far_provider_application_fee_refund_id = sfr_id refund\<rparr>
        | None \<Rightarrow> create_fee_refund env sp inp))"

section \<open>Credit notes\<close>

text \<open>\<^verbatim>\<open>sum::<i64>()\<close>\<close>

definition i64_sum :: "int list \<Rightarrow> int" where
  "i64_sum xs = sint (word_of_int (sum_list xs) :: i64)"

definition into_result :: "StripeCreditNoteResponse \<Rightarrow> CreditNoteResult" where
  "into_result note =
     \<lparr>cnr_provider_credit_note_id = scn_id note, cnr_provider_hosted_url = None,
      cnr_provider_pdf_url = scn_pdf note\<rparr>"

definition validate_expected_amounts ::
    "StripeCreditNoteResponse \<Rightarrow> CreditNoteInput \<Rightarrow> anyhow + unit" where
  "validate_expected_amounts note inp =
     (let tax_amount_minor = i64_sum (map sct_amount (scn_total_taxes note)) in
      if scn_amount note \<noteq> cni_amount_minor inp \<or> tax_amount_minor \<noteq> cni_tax_amount_minor inp
      then Inl (Msg ''Stripe credit-note preview does not match the full purchase refund'')
      else Inr ())"

definition credit_note_headers :: "StripeProvider \<Rightarrow> CreditNoteInput \<Rightarrow> (string \<times> string) list" where
  "credit_note_headers sp inp =
     [(''stripe-account'', cni_connected_seller_id inp),
      (''stripe-version'', sc_ticket_tax_api_version (sp_cfg sp))]"

definition list_credit_notes ::
    "'s stripe_env \<Rightarrow> StripeProvider \<Rightarrow> CreditNoteInput \<Rightarrow> ('s, StripeCreditNoteList) io" where
  "list_credit_notes env sp inp =
     act_bind (act_lift (se_urlencode env
       [(''invoice'', cni_provider_invoice_id inp), (''limit'', ''100'')])) (\<lambda>query.
     act_bind (act_context ''error listing Stripe credit notes''
       (se_send env (stripe_get sp (''/credit_notes?'' @ query) (credit_note_headers sp inp))))
       (\<lambda>response.
     act_lift (parse_provider_response env (sd_credit_notes (se_decode env)) response
       ''credit-note listing'')))"

definition list_invoice_lines ::
    "'s stripe_env \<Rightarrow> StripeProvider \<Rightarrow> CreditNoteInput \<Rightarrow> ('s, StripeInvoiceLineList) io" where
  "list_invoice_lines env sp inp =
     act_bind (act_context ''error retrieving Stripe invoice lines''
       (se_send env (stripe_get sp (''/invoices/'' @ cni_provider_invoice_id inp @ ''/lines?limit=2'')
         (credit_note_headers sp inp)))) (\<lambda>response.
     act_lift (parse_provider_response env (sd_invoice_lines (se_decode env)) response
       ''invoice-line listing''))"

definition credit_note_form_fields :: "CreditNoteInput \<Rightarrow> string \<Rightarrow> (string \<times> string) list" where
  "credit_note_form_fields inp invoice_line_id =
     [(''invoice'', cni_provider_invoice_id inp),
      (''lines[0][invoice_line_item]'', invoice_line_id),
      (''lines[0][quantity]'', ''1''),
      (''lines[0][type]'', ''invoice_line_item''),
      (''metadata[event_purchase_id]'', show_uuid (cni_event_purchase_id inp)),
      (''metadata[event_purchase_refund_id]'', show_uuid (cni_event_purchase_refund_id inp)),
      (''reason'', ''order_change''),
      (''refunds[0][amount_refunded]'', show_int (cni_amount_minor inp)),
      (''refunds[0][refund]'', cni_provider_refund_id inp)]"

definition preview_credit_note ::
    "'s stripe_env \<Rightarrow> StripeProvider \<Rightarrow> CreditNoteInput \<Rightarrow> string \<Rightarrow> ('s, StripeCreditNoteResponse) io" where
  "preview_credit_note env sp inp preview_query =
     act_bind (act_context ''error previewing Stripe credit note''
       (se_send env (stripe_get sp (''/credit_notes/preview?'' @ preview_query)
         (credit_note_headers sp inp)))) (\<lambda>response.
     act_lift (parse_provider_response env (sd_credit_note (se_decode env)) response
       ''credit-note preview''))"

definition issue_credit_note ::
    "'s stripe_env \<Rightarrow> StripeProvider \<Rightarrow> CreditNoteInput \<Rightarrow> string \<Rightarrow> ('s, StripeCreditNoteResponse) io" where
  "issue_credit_note env sp inp body =
     act_bind (act_context ''error issuing Stripe credit note''
       (se_send env (stripe_post sp ''/credit_notes''
         ((''idempotency-key'', cni_idempotency_key inp) # credit_note_headers sp inp) body)))
       (\<lambda>response.
     act_lift (parse_provider_response env (sd_credit_note (se_decode env)) response
       ''credit-note creation''))"

definition matching_credit_note :: "CreditNoteInput \<Rightarrow> StripeCreditNoteResponse \<Rightarrow> bool" where
  "matching_credit_note inp note \<longleftrightarrow>
     scn_metadata note ''event_purchase_refund_id'' =
       Some (show_uuid (cni_event_purchase_refund_id inp))"

definition reconcile_credit_note ::
    "'s stripe_env \<Rightarrow> StripeProvider \<Rightarrow> CreditNoteInput \<Rightarrow> ('s, CreditNoteResult) io" where
  "reconcile_credit_note env sp inp =
     (if cni_amount_minor inp \<le> 0 \<or> cni_tax_amount_minor inp < 0
      then act_err (Msg ''credit-note amounts are invalid'')
      else
        act_bind (list_credit_notes env sp inp) (\<lambda>credit_notes.
        case find (matching_credit_note inp) (scl_data credit_notes) of
          Some credit_note \<Rightarrow>
            act_bind (act_lift (validate_expected_amounts credit_note inp)) (\<lambda>_.
            act_ok (into_result credit_note))
        | None \<Rightarrow>
            act_bind (list_invoice_lines env sp inp) (\<lambda>invoice_lines.
            case sll_data invoice_lines of
              [invoice_line] \<Rightarrow>
                act_bind (act_lift (se_urlencode env
                  (credit_note_form_fields inp (sil_id invoice_line)))) (\<lambda>preview_query.
                act_bind (preview_credit_note env sp inp preview_query) (\<lambda>preview.
                act_bind (act_lift (validate_expected_amounts preview inp)) (\<lambda>_.
                act_bind (act_lift (se_urlencode env
                  (credit_note_form_fields inp (sil_id invoice_line)))) (\<lambda>body.
                act_bind (issue_credit_note env sp inp body) (\<lambda>credit_note.
                act_bind (act_lift (validate_expected_amounts credit_note inp)) (\<lambda>_.
                act_ok (into_result credit_note)))))))
            | _ \<Rightarrow> act_err (Msg ''Stripe ticket invoice must contain exactly one line item''))))"

section \<open>Tax rates\<close>

text \<open>An action that may not end.\<close>

type_synonym ('s, 'e, 'a) dact = "'s \<Rightarrow> (('e + 'a) \<times> 's) option"

definition dact_bind :: "('s, 'e, 'a) dact \<Rightarrow> ('a \<Rightarrow> ('s, 'e, 'b) dact) \<Rightarrow> ('s, 'e, 'b) dact" where
  "dact_bind m f = (\<lambda>s. case m s of
     None \<Rightarrow> None
   | Some (Inl e, s') \<Rightarrow> Some (Inl e, s')
   | Some (Inr x, s') \<Rightarrow> f x s')"

definition dact_map_err :: "('e \<Rightarrow> 'f) \<Rightarrow> ('s, 'e, 'a) dact \<Rightarrow> ('s, 'f, 'a) dact" where
  "dact_map_err g m = (\<lambda>s. map_option (\<lambda>(r, s'). (map_error g r, s')) (m s))"

definition ends :: "('s, 'e, 'a) act \<Rightarrow> ('s, 'e, 'a) dact" where
  "ends m = (\<lambda>s. Some (m s))"

definition wanted_rate :: "ListTaxRatesInput \<Rightarrow> StripeTaxRateResponse \<Rightarrow> bool" where
  "wanted_rate inp rate \<longleftrightarrow>
     str_active rate \<and> str_inclusive rate = (lti_tax_behavior inp = Inclusive)"

definition ticket_tax_rate :: "StripeTaxRateResponse \<Rightarrow> TicketTaxRate" where
  "ticket_tax_rate rate =
     \<lparr>tr_display_name = str_display_name rate, tr_id = str_id rate, tr_inclusive = str_inclusive rate,
      tr_percentage = str_percentage rate, tr_jurisdiction = str_jurisdiction rate\<rparr>"

definition tax_rate_page ::
    "'s stripe_env \<Rightarrow> StripeProvider \<Rightarrow> ListTaxRatesInput \<Rightarrow> string option \<Rightarrow>
     ('s, StripeTaxRateListResponse) io" where
  "tax_rate_page env sp inp starting_after =
     act_bind (act_lift (se_urlencode env
       ([(''active'', ''true''),
         (''inclusive'', if lti_tax_behavior inp = Inclusive then ''true'' else ''false''),
         (''limit'', ''100'')] @
        (case starting_after of None \<Rightarrow> [] | Some i \<Rightarrow> [(''starting_after'', i)])))) (\<lambda>query.
     act_bind (act_context ''error listing fiscal sponsor Stripe Tax Rates''
       (se_send env (stripe_get sp (''/tax_rates?'' @ query)
         [(''stripe-account'', lti_connected_seller_id inp),
          (''stripe-version'', STRIPE_API_VERSION)]))) (\<lambda>response.
     act_lift (parse_provider_response env (sd_tax_rates (se_decode env)) response
       ''Tax Rate listing'')))"

partial_function (option) list_tax_rates_loop ::
    "'s stripe_env \<Rightarrow> StripeProvider \<Rightarrow> ListTaxRatesInput \<Rightarrow> TicketTaxRate list \<Rightarrow> string option \<Rightarrow>
     's \<Rightarrow> ((anyhow + TicketTaxRate list) \<times> 's) option" where
  "list_tax_rates_loop env sp inp rates starting_after s =
     (case tax_rate_page env sp inp starting_after s of
        (Inl e, s') \<Rightarrow> Some (Inl e, s')
      | (Inr page, s') \<Rightarrow>
          if \<not> stl_has_more page
          then Some (Inr (rates @ map ticket_tax_rate (filter (wanted_rate inp) (stl_data page))), s')
          else if stl_data page = []
          then Some (Inl (Msg ''Stripe Tax Rate page is empty while has_more is true''), s')
          else list_tax_rates_loop env sp inp
                 (rates @ map ticket_tax_rate (filter (wanted_rate inp) (stl_data page)))
                 (Some (str_id (last (stl_data page)))) s')"

definition list_tax_rates ::
    "'s stripe_env \<Rightarrow> StripeProvider \<Rightarrow> ListTaxRatesInput \<Rightarrow> ('s, anyhow, TicketTaxRate list) dact" where
  "list_tax_rates env sp inp = list_tax_rates_loop env sp inp [] None"

definition validate_tax_rates ::
    "'s stripe_env \<Rightarrow> StripeProvider \<Rightarrow> ValidateTaxRatesInput \<Rightarrow>
     ('s, FiscalSponsorReadinessError, unit) dact" where
  "validate_tax_rates env sp inp =
     (let selected_ids = set (vti_manual_tax_rate_ids inp) in
      if selected_ids = {} \<or> card selected_ids \<noteq> length (vti_manual_tax_rate_ids inp) \<or>
         (\<exists>i\<in>selected_ids. i = [] \<or> i \<noteq> trim i)
      then ends (act_err (NotReady
        ''manual ticket tax requires at least one unique Stripe Tax Rate''))
      else
        dact_bind (dact_map_err SponsorUnexpected (list_tax_rates env sp
          \<lparr>lti_connected_seller_id = vti_connected_seller_id inp,
           lti_tax_behavior = vti_tax_behavior inp\<rparr>)) (\<lambda>rates.
        let available_ids = set (map tr_id rates) in
        if \<not> (\<forall>i\<in>selected_ids. i \<in> available_ids)
        then ends (act_err (NotReady
          ''manual Stripe Tax Rates must be active in the fiscal sponsor account and match the ticket tax display''))
        else ends (act_ok ())))"

definition sponsor_error :: "FiscalSponsorReadinessError \<Rightarrow> anyhow" where
  "sponsor_error e = (case e of NotReady m \<Rightarrow> Msg m | SponsorUnexpected e' \<Rightarrow> e')"

definition validate_manual_tax_rates ::
    "'s stripe_env \<Rightarrow> StripeProvider \<Rightarrow> CreateCheckoutSessionInput \<Rightarrow> ('s, anyhow, unit) dact" where
  "validate_manual_tax_rates env sp inp =
     (case ci_manual_tax_rate_ids inp of
        None \<Rightarrow> ends (act_err (Msg ''manual tax requires at least one Tax Rate''))
      | Some manual_tax_rate_ids \<Rightarrow>
          dact_map_err sponsor_error (validate_tax_rates env sp
            \<lparr>vti_connected_seller_id = fs_connected_account_id (ci_seller inp),
             vti_manual_tax_rate_ids = manual_tax_rate_ids,
             vti_tax_behavior = ci_tax_behavior inp\<rparr>))"

section \<open>Checkout\<close>

text \<open>The \<^verbatim>\<open>Display\<close> text of a readiness error, and the error it becomes for a caller.\<close>

definition readiness_error :: "AutomaticTaxReadinessError \<Rightarrow> anyhow" where
  "readiness_error e = (case e of
     CountryInvalid country_code \<Rightarrow> Msg (''the venue country code '' @ country_code @ '' is invalid'')
   | FiscalSponsorNotReady m \<Rightarrow> Msg m
   | IncompleteVenue _ \<Rightarrow> Msg ''the venue address is incomplete''
   | InvalidAddress \<Rightarrow> Msg ''the venue address is invalid''
   | StateCodeInvalid country_code state_code \<Rightarrow>
       Msg (''the state code '' @ state_code @ '' is invalid for '' @ country_code)
   | StateCodeRequired country_code \<Rightarrow> Msg (''a state code is required for '' @ country_code)
   | UnsupportedCountry \<Rightarrow> Msg ''Stripe automatic tax is not supported for this venue country. Select Manual Stripe Tax Rates instead.''
   | ReadinessUnexpected e' \<Rightarrow> e')"

text \<open>The tax resources of a purchase and the API version its Checkout session uses.\<close>

record tax_resources =
  tx_provider_tax_location_id :: "string option"
  tx_performance_location_fingerprint :: "string option"
  tx_provider_tax_product_id :: "string option"
  tx_product_fingerprint :: "string option"
  tx_api_version :: string

definition no_tax_resources :: tax_resources where
  "no_tax_resources =
     \<lparr>tx_provider_tax_location_id = None, tx_performance_location_fingerprint = None,
      tx_provider_tax_product_id = None, tx_product_fingerprint = None,
      tx_api_version = STRIPE_API_VERSION\<rparr>"

definition provision_tax_resources ::
    "'s stripe_env \<Rightarrow> StripeProvider \<Rightarrow> CreateCheckoutSessionInput \<Rightarrow> ('s, anyhow, tax_resources) dact" where
  "provision_tax_resources env sp inp =
     (case ci_tax_calculation_mode inp of
        TaxAutomatic \<Rightarrow>
          ends (act_bind (act_map_err readiness_error (ensure_performance_location env sp
            \<lparr>pli_connected_seller_id = fs_connected_account_id (ci_seller inp),
             pli_venue = ci_venue inp,
             pli_cached_fingerprint = ci_cached_performance_location_fingerprint inp,
             pli_cached_provider_tax_location_id = ci_cached_provider_tax_location_id inp\<rparr>))
            (\<lambda>readiness.
          act_bind (create_tax_product env sp inp (sc_ticket_tax_api_version (sp_cfg sp))
            (atr_provider_tax_location_id readiness)) (\<lambda>(product_id, product_fingerprint).
          act_ok \<lparr>tx_provider_tax_location_id = Some (atr_provider_tax_location_id readiness),
                  tx_performance_location_fingerprint = Some (atr_fingerprint readiness),
                  tx_provider_tax_product_id = Some product_id,
                  tx_product_fingerprint = Some product_fingerprint,
                  tx_api_version = sc_ticket_tax_api_version (sp_cfg sp)\<rparr>)))
      | TaxManual \<Rightarrow>
          dact_bind (validate_manual_tax_rates env sp inp) (\<lambda>_. ends (act_ok no_tax_resources))
      | TaxNone \<Rightarrow>
          (if (case ci_manual_tax_rate_ids inp of None \<Rightarrow> False | Some ids \<Rightarrow> ids \<noteq> [])
           then ends (act_err (Msg ''no-tax checkout cannot include Stripe Tax Rates''))
           else ends (act_ok no_tax_resources)))"

definition post_checkout_session ::
    "'s stripe_env \<Rightarrow> StripeProvider \<Rightarrow> CreateCheckoutSessionInput \<Rightarrow> tax_resources \<Rightarrow>
     ('s, CheckoutSession) io" where
  "post_checkout_session env sp inp tax =
     act_bind (act_lift (se_urlencode env
       (build_checkout_session_form_fields sp inp (tx_provider_tax_product_id tax)))) (\<lambda>body.
     act_bind (act_context ''error creating Stripe checkout session''
       (se_send env (stripe_post sp ''/checkout/sessions''
         [(''idempotency-key'', checkout_idempotency_key (ci_purchase_id inp)),
          (''stripe-account'', fs_connected_account_id (ci_seller inp)),
          (''stripe-version'', tx_api_version tax)] body))) (\<lambda>response.
     if \<not> status_is_success (hs_status response)
     then act_err (failed_response env ''checkout session creation'' response)
     else
       act_bind (act_lift (with_context ''error parsing Stripe checkout session response''
         (and_then (hs_text response) (sd_checkout_session (se_decode env))))) (\<lambda>session.
       act_ok \<lparr>cs_provider_object_account_id = fs_connected_account_id (ci_seller inp),
               cs_provider_session_id = scs_id session, cs_redirect_url = scs_url session,
               cs_performance_location_fingerprint = tx_performance_location_fingerprint tax,
               cs_product_fingerprint = tx_product_fingerprint tax,
               cs_provider_tax_location_id = tx_provider_tax_location_id tax,
               cs_provider_tax_product_id = tx_provider_tax_product_id tax\<rparr>)))"

definition create_checkout_session ::
    "'s stripe_env \<Rightarrow> StripeProvider \<Rightarrow> CreateCheckoutSessionInput \<Rightarrow> ('s, anyhow, CheckoutSession) dact" where
  "create_checkout_session env sp inp =
     (if ci_amount_minor inp \<le> 0
      then ends (act_err (Msg ''Stripe checkout requires a positive amount''))
      else if ci_amount_minor inp \<le> ci_provisional_platform_fee_amount_minor inp
      then ends (act_err (Msg ''Stripe application fee must be less than the ticket amount''))
      else
        dact_bind (ends (act_map_err sponsor_error (validate_fiscal_sponsor env sp
          \<lparr>fsi_connected_seller_id = fs_connected_account_id (ci_seller inp),
           fsi_provider = fs_provider (ci_seller inp),
           fsi_require_automatic_tax = (ci_tax_calculation_mode inp = TaxAutomatic)\<rparr>))) (\<lambda>_.
        dact_bind (provision_tax_resources env sp inp) (\<lambda>tax.
        ends (post_checkout_session env sp inp tax))))"

section \<open>The trait object\<close>

text \<open>
  The methods that always end, put over those of another provider, which stands for the three
  methods that may follow Stripe's pagination forever.
\<close>

definition stripe_provider ::
    "'s stripe_env \<Rightarrow> StripeProvider \<Rightarrow> 's PaymentsProvider \<Rightarrow> 's PaymentsProvider" where
  "stripe_provider env sp base =
     base\<lparr>pp_ensure_performance_location := ensure_performance_location env sp,
          pp_find_refund := find_refund env sp,
          pp_get_checkout_financial_context := get_checkout_financial_context env sp,
          pp_get_financial_document := get_financial_document env sp,
          pp_provider := Stripe,
          pp_reconcile_application_fee_adjustment := reconcile_application_fee_adjustment env sp,
          pp_reconcile_credit_note := reconcile_credit_note env sp,
          pp_refund_payment := refund_payment env sp,
          pp_validate_fiscal_sponsor := validate_fiscal_sponsor env sp,
          pp_verify_and_parse_webhook := \<lambda>endpoint headers body s.
            (verify_and_parse_webhook (se_webhook env) (sp_cfg sp) (se_now env s) endpoint headers
               body, s)\<rparr>"

section \<open>Properties\<close>

subsection \<open>Choosing a refund\<close>

lemma sort_key_Cons_first:
  assumes "sort_key f xs = y # ys"
  shows "y \<in> set xs \<and> (\<forall>x\<in>set xs. f y \<le> f x) \<and>
    (\<exists>pre post. xs = pre @ y # post \<and> (\<forall>x\<in>set pre. f y < f x))"
proof -
  have "set xs = set (y # ys)" and "sorted (map f (y # ys))"
    using assms set_sort [of f xs] sorted_sort_key [of f xs] by simp_all
  then have y: "y \<in> set xs" "\<forall>x\<in>set xs. f y \<le> f x" by auto
  have "filter (\<lambda>x. f x = f y) xs = y # filter (\<lambda>x. f x = f y) ys"
    using sort_key_stable [of f "f y" xs] assms by simp
  then obtain pre post where xs: "xs = pre @ y # post" "\<forall>x\<in>set pre. f x \<noteq> f y"
    by (auto simp: filter_eq_Cons_iff)
  have "f y < f x" if "x \<in> set pre" for x
    using that y(2) xs by (simp add: less_le) metis
  with y xs(1) show ?thesis by blast
qed

lemma refund_result_rank:
  "refund_result i st = Inr r \<longleftrightarrow>
     rpr_provider_refund_id r = i \<and> refund_status_rank st < 3 \<and>
     rpr_status r = (if refund_status_rank st = 0 then RefundSucceeded
       else if refund_status_rank st = 1 then RefundIsPending else RefundFailed)"
  by (cases r; cases "st = ''succeeded''"; cases "st = ''pending'' \<or> st = ''requires_action''";
      cases "st = ''canceled'' \<or> st = ''failed''")
    (simp_all add: refund_result_def refund_status_rank_def eq_commute)

lemma rank_le_3: "refund_status_rank st \<le> 3"
  by (simp add: refund_status_rank_def)

lemma terminal_iff_rank: "is_terminal_failure_status st \<longleftrightarrow> refund_status_rank st = 2"
  by (simp add: refund_status_rank_def is_terminal_failure_status_def)

text \<open>
  The refund lookup is complete and picks the best candidate. It reports none exactly when no
  listed refund has the amount, the purchase and, when one is pinned, the identifier that is looked
  for (a failed or canceled one counts only when it is pinned). What it reports is such a refund,
  no other candidate ranks before it, so a succeeded one is never passed over, and without a pinned
  identifier it is never a failed one. It fails only when all candidates have statuses that are not
  known.
\<close>

theorem find_matching_refund_best:
  "case find_matching_refund_result inp refunds of
     Inr None \<Rightarrow> \<forall>x\<in>set refunds. \<not> matching_refund inp x
   | Inr (Some r) \<Rightarrow>
       (\<exists>x\<in>set refunds. matching_refund inp x \<and> slr_id x = rpr_provider_refund_id r \<and>
          (\<forall>y\<in>set refunds. matching_refund inp y \<longrightarrow>
             refund_status_rank (slr_status x) \<le> refund_status_rank (slr_status y))) \<and>
       ((\<exists>y\<in>set refunds. matching_refund inp y \<and> slr_status y = ''succeeded'') \<longrightarrow>
          rpr_status r = RefundSucceeded) \<and>
       (fri_provider_refund_id inp = None \<longrightarrow> rpr_status r \<noteq> RefundFailed)
   | Inl e \<Rightarrow>
       (\<exists>x\<in>set refunds. matching_refund inp x) \<and>
       (\<forall>x\<in>set refunds. matching_refund inp x \<longrightarrow> refund_status_rank (slr_status x) = 3)"
proof (cases "sort_key (\<lambda>x. refund_status_rank (slr_status x)) (filter (matching_refund inp) refunds)")
  case Nil
  then have "filter (matching_refund inp) refunds = []"
    by (metis length_0_conv length_sort)
  then show ?thesis
    by (simp add: find_matching_refund_result_def Nil filter_empty_conv)
next
  case (Cons x xs)
  note best = sort_key_Cons_first [OF Cons]
  have x: "x \<in> set refunds" "matching_refund inp x" using best by auto
  have least: "refund_status_rank (slr_status x) \<le> refund_status_rank (slr_status y)"
    if "y \<in> set refunds" "matching_refund inp y" for y
    using best that by simp
  show ?thesis
  proof (cases "refund_result (slr_id x) (slr_status x)")
    case (Inl e)
    then have "\<not> refund_status_rank (slr_status x) < 3"
      using refund_result_rank [of "slr_id x" "slr_status x"
          "\<lparr>rpr_provider_refund_id = slr_id x, rpr_status = (if refund_status_rank (slr_status x) = 0
             then RefundSucceeded else if refund_status_rank (slr_status x) = 1 then RefundIsPending
             else RefundFailed)\<rparr>"]
      by simp
    then have "refund_status_rank (slr_status y) = 3" if "y \<in> set refunds" "matching_refund inp y" for y
      using least [OF that] rank_le_3 [of "slr_status y"] by linarith
    with Inl x show ?thesis by (auto simp: find_matching_refund_result_def Cons)
  next
    case (Inr r)
    have unpinned: "rpr_status r \<noteq> RefundFailed" if "fri_provider_refund_id inp = None"
      using Inr x(2) that refund_result_rank [of "slr_id x" "slr_status x" r]
        terminal_iff_rank [of "slr_status x"]
      by (auto simp: matching_refund_def split: if_splits)
    have "rpr_status r = RefundSucceeded"
      if "y \<in> set refunds" "matching_refund inp y" "slr_status y = ''succeeded''" for y
      using least [OF that(1,2)] that(3) Inr refund_result_rank [of "slr_id x" "slr_status x" r]
      by (simp add: refund_status_rank_def [of "''succeeded''"])
    with unpinned Inr x least refund_result_rank [of "slr_id x" "slr_status x" r]
    show ?thesis by (auto simp: find_matching_refund_result_def Cons)
  qed
qed

text \<open>Listed refunds for purchase 7 of 500 minor units.\<close>

definition sample_listed :: "string \<Rightarrow> string \<Rightarrow> StripeListedRefund" where
  "sample_listed i status =
     \<lparr>slr_amount = 500, slr_id = i, slr_status = status,
      slr_metadata = [''event_purchase_id'' \<mapsto> show_uuid 7]\<rparr>"

definition sample_find_input :: FindRefundInput where
  "sample_find_input =
     \<lparr>fri_amount_minor = 500, fri_connected_seller_id = ''acct_1'',
      fri_provider_payment_reference = ''pi_1'', fri_purchase_id = 7, fri_provider_refund_id = None\<rparr>"

theorem find_matching_refund_best_witness:
  "\<exists>r. find_matching_refund_result sample_find_input
     [sample_listed ''re_1'' ''failed'', sample_listed ''re_2'' ''pending'',
      sample_listed ''re_3'' ''succeeded''] = Inr (Some r) \<and> rpr_status r = RefundSucceeded"
proof -
  let ?refunds = "[sample_listed ''re_1'' ''failed'', sample_listed ''re_2'' ''pending'',
      sample_listed ''re_3'' ''succeeded'']"
  have m: "matching_refund sample_find_input (sample_listed ''re_3'' ''succeeded'')"
    and st: "slr_status (sample_listed ''re_3'' ''succeeded'') = ''succeeded''"
    and rank: "refund_status_rank ''succeeded'' \<noteq> 3"
    by (simp_all add: matching_refund_def sample_find_input_def sample_listed_def none_or_def
        is_terminal_failure_status_def refund_status_rank_def)
  show ?thesis
    using find_matching_refund_best [where inp = sample_find_input and refunds = ?refunds] m st rank
    by (auto split: sum.splits option.splits)
qed

subsection \<open>Display text\<close>

lemma prefix_stripe_truncate: "prefix (stripe_truncate s n) s"
  by (induction s n rule: stripe_truncate.induct) (auto split: nat.split)

definition char_count :: "string \<Rightarrow> nat" where
  "char_count s = length (filter (\<lambda>b. \<not> is_continuation_byte b) s)"

lemma char_count_truncate: "char_count (stripe_truncate s n) = min n (char_count s)"
  by (induction s n rule: stripe_truncate.induct) (auto simp: char_count_def split: nat.split)

lemma truncate_boundary:
  "stripe_truncate s n @ b # rest = s \<Longrightarrow> \<not> is_continuation_byte b"
  by (induction s n rule: stripe_truncate.induct) (auto split: if_splits nat.splits)

text \<open>
  The text sent to Stripe respects its length limits without cutting a character in two: the
  truncated text is a prefix of the original, has exactly as many characters as fit, and what is cut
  off starts a new character; in particular text within the limit is unchanged.
\<close>

theorem truncate_fits:
  "prefix (stripe_truncate s n) s \<and> char_count (stripe_truncate s n) = min n (char_count s) \<and>
   (case drop (length (stripe_truncate s n)) s of [] \<Rightarrow> True | b # _ \<Rightarrow> \<not> is_continuation_byte b)"
  using prefix_stripe_truncate [of s n] char_count_truncate [of s n] truncate_boundary [of s n]
  by (auto simp: prefix_def split: list.split) (metis append_eq_conv_conj)

subsection \<open>At most one refund per purchase\<close>

text \<open>
  What is used of Stripe's refund API. Reads do not create refunds; the listing of a payment intent
  returns its refunds, newest first and at most a hundred of them; a creation request, whether it is
  answered or not, adds at most the one refund its form describes, to its payment intent.
\<close>

definition stripe_refund_api ::
    "'s stripe_env \<Rightarrow> StripeProvider \<Rightarrow> ('s \<Rightarrow> string \<Rightarrow> StripeListedRefund list) \<Rightarrow> bool" where
  "stripe_refund_api env sp listed \<longleftrightarrow>
     (\<forall>req s. hr_method req = GET \<longrightarrow> listed (snd (se_send env req s)) = listed s) \<and>
     (\<forall>reference query headers s response s' text page.
        se_urlencode env [(''payment_intent'', reference), (''limit'', ''100'')] = Inr query \<longrightarrow>
        se_send env (stripe_get sp (''/refunds?'' @ query) headers) s = (Inr response, s') \<longrightarrow>
        hs_text response = Inr text \<longrightarrow> sd_refunds (se_decode env) text = Inr page \<longrightarrow>
        srl_data page = take 100 (listed s reference)) \<and>
     (\<forall>inp body headers s s' r. se_urlencode env (build_refund_form_fields inp) = Inr body \<longrightarrow>
        se_send env (stripe_post sp ''/refunds'' headers body) s = (r, s') \<longrightarrow>
        listed s' = listed s \<or>
        (\<exists>i status. listed s' = (listed s)(rpi_provider_payment_reference inp :=
           \<lparr>slr_amount = rpi_amount_minor inp, slr_id = i, slr_status = status,
            slr_metadata = [''event_purchase_id'' \<mapsto> show_uuid (rpi_purchase_id inp)]\<rparr> #
           listed s (rpi_provider_payment_reference inp))))"

definition live_refunds :: "uuid \<Rightarrow> int \<Rightarrow> StripeListedRefund list \<Rightarrow> StripeListedRefund list" where
  "live_refunds purchase_id amount =
     filter (\<lambda>x. slr_amount x = amount \<and>
       slr_metadata x ''event_purchase_id'' = Some (show_uuid purchase_id) \<and>
       \<not> is_terminal_failure_status (slr_status x))"

definition one_live_refund :: "('s \<Rightarrow> string \<Rightarrow> StripeListedRefund list) \<Rightarrow> 's \<Rightarrow> bool" where
  "one_live_refund listed s \<longleftrightarrow>
     (\<forall>reference purchase_id amount. length (listed s reference) \<le> 100 \<longrightarrow>
        length (live_refunds purchase_id amount (listed s reference)) \<le> 1)"

lemma find_matching_None:
  assumes "find_matching_refund_result inp refunds = Inr None" and "fri_provider_refund_id inp = None"
  shows "live_refunds (fri_purchase_id inp) (fri_amount_minor inp) refunds = []"
proof -
  have "filter (matching_refund inp) refunds = []"
    using assms(1) by (auto simp: find_matching_refund_result_def and_then_eq_Inr split: list.splits)
      (metis length_0_conv length_sort)
  moreover have "matching_refund inp = (\<lambda>x. slr_amount x = fri_amount_minor inp \<and>
       slr_metadata x ''event_purchase_id'' = Some (show_uuid (fri_purchase_id inp)) \<and>
       \<not> is_terminal_failure_status (slr_status x))"
    using assms(2) by (auto simp: matching_refund_def none_or_def fun_eq_iff)
  ultimately show ?thesis by (simp add: live_refunds_def)
qed

lemma frames_stripe_get:
  "stripe_refund_api env sp listed \<Longrightarrow> frames listed (se_send env (stripe_get sp path headers))"
  by (simp add: stripe_refund_api_def frames_def stripe_get_def)

lemma frames_if:
  "frames part m \<Longrightarrow> frames part m' \<Longrightarrow> frames part (if b then m else m')"
  by simp

lemma find_refund_api:
  assumes api: "stripe_refund_api env sp listed" and run: "find_refund env sp inp s = (r, s')"
  shows "listed s' = listed s" and
    "r = Inr None \<Longrightarrow> fri_provider_refund_id inp = None \<Longrightarrow>
       length (listed s (fri_provider_payment_reference inp)) \<le> 100 \<Longrightarrow>
       live_refunds (fri_purchase_id inp) (fri_amount_minor inp)
         (listed s (fri_provider_payment_reference inp)) = []"
proof -
  let ?req = "\<lambda>query. stripe_get sp (''/refunds?'' @ query)
    [(''stripe-version'', STRIPE_API_VERSION), (''stripe-account'', fri_connected_seller_id inp)]"
  have "frames listed (find_refund env sp inp)"
    unfolding find_refund_def by (rule frames_rules frames_stripe_get [OF api] frames_if)+
  from frames_apply [OF this run] show "listed s' = listed s" .
  assume none: "r = Inr None" "fri_provider_refund_id inp = None"
    and small: "length (listed s (fri_provider_payment_reference inp)) \<le> 100"
  from run none(1) obtain query response raw page where listing:
    "se_urlencode env [(''payment_intent'', fri_provider_payment_reference inp), (''limit'', ''100'')] =
       Inr query" "se_send env (?req query) s = (Inr response, s')" "hs_text response = Inr raw"
    "sd_refunds (se_decode env) raw = Inr page"
    and found: "find_matching_refund_result inp (srl_data page) = Inr None"
    by (auto simp: find_refund_def act_bind_eq_Inr act_map_err_eq_Inr and_then_eq_Inr
        split: if_splits)
  from listing have "srl_data page = take 100 (listed s (fri_provider_payment_reference inp))"
    using api unfolding stripe_refund_api_def by blast
  with found small have "find_matching_refund_result inp
      (listed s (fri_provider_payment_reference inp)) = Inr None" by simp
  then show "live_refunds (fri_purchase_id inp) (fri_amount_minor inp)
      (listed s (fri_provider_payment_reference inp)) = []"
    using none(2) by (rule find_matching_None)
qed

lemma refund_payment_api:
  assumes api: "stripe_refund_api env sp listed" and run: "refund_payment env sp inp s = (r, s')"
  shows "listed s' = listed s \<or>
    (\<exists>i status. listed s' = (listed s)(rpi_provider_payment_reference inp :=
       \<lparr>slr_amount = rpi_amount_minor inp, slr_id = i, slr_status = status,
        slr_metadata = [''event_purchase_id'' \<mapsto> show_uuid (rpi_purchase_id inp)]\<rparr> #
       listed s (rpi_provider_payment_reference inp)))"
proof -
  let ?headers = "[(''idempotency-key'', rpi_idempotency_key inp),
    (''stripe-version'', STRIPE_API_VERSION), (''stripe-account'', rpi_connected_seller_id inp)]"
  have "s' = s \<or> (\<exists>body r1. se_urlencode env (build_refund_form_fields inp) = Inr body \<and>
      se_send env (stripe_post sp ''/refunds'' ?headers body) s = (r1, s'))"
    using run by (auto simp: refund_payment_def act_bind_def act_map_err_def
        split: sum.splits prod.splits if_splits)
  then show ?thesis using api unfolding stripe_refund_api_def by blast
qed

text \<open>The worker's lookup followed by a creation when nothing was found.\<close>

definition lookup_or_create ::
    "'s PaymentsProvider \<Rightarrow> ClaimedEventPurchaseRefund \<Rightarrow> string \<Rightarrow> ('s, RefundPaymentResult) io" where
  "lookup_or_create pp refund reference =
     act_bind (pp_find_refund pp (find_refund_input refund reference)) (\<lambda>found.
       case found of
          Some provider_refund \<Rightarrow> act_ok provider_refund
        | None \<Rightarrow>
            if rf_provider_refund_id (cr_refund refund) \<noteq> None
            then act_err (Msg ''provider refund not found'')
            else pp_refund_payment pp (refund_payment_input refund reference))"

lemma live_refunds_update:
  assumes "one_live_refund listed s"
    and "length (listed s reference) \<le> 100 \<Longrightarrow> live_refunds p a (listed s reference) = []"
    and "listed s' = (listed s)(reference := x # listed s reference)"
    and "slr_amount x = a" and "slr_metadata x ''event_purchase_id'' = Some (show_uuid p)"
  shows "one_live_refund listed s'"
  unfolding one_live_refund_def
proof (intro allI impI)
  fix ref q b
  assume small: "length (listed s' ref) \<le> 100"
  show "length (live_refunds q b (listed s' ref)) \<le> 1"
  proof (cases "ref = reference")
    case True
    then have "length (listed s reference) \<le> 100" using small assms(3) by simp
    then have old: "live_refunds p a (listed s reference) = []"
      "length (live_refunds q b (listed s reference)) \<le> 1"
      using assms(1,2) by (simp_all add: one_live_refund_def)
    show ?thesis
    proof (cases "b = a \<and> show_uuid q = show_uuid p")
      case True
      then have "live_refunds q b = live_refunds p a" by (simp add: live_refunds_def)
      with old(1) \<open>ref = reference\<close> assms(3) show ?thesis by (simp add: live_refunds_def)
    next
      case False
      then have "live_refunds q b (x # listed s reference) = live_refunds q b (listed s reference)"
        using assms(4,5) by (auto simp: live_refunds_def)
      with old(2) \<open>ref = reference\<close> assms(3) show ?thesis by simp
    qed
  qed (use assms(1,3) small in \<open>simp add: one_live_refund_def\<close>)
qed

lemma lookup_or_create_keeps:
  assumes api: "stripe_refund_api env sp listed"
  shows "keeps (one_live_refund listed) (lookup_or_create (stripe_provider env sp base) refund reference)"
proof (rule keepsI)
  fix s
  assume inv: "one_live_refund listed s"
  let ?find = "find_refund_input refund reference"
  obtain r1 s1 where find: "find_refund env sp ?find s = (r1, s1)" by fastforce
  note found = find_refund_api [OF api find]
  have inv1: "one_live_refund listed s1"
    using inv found(1) by (simp add: one_live_refund_def)
  let ?run = "lookup_or_create (stripe_provider env sp base) refund reference s"
  show "one_live_refund listed (snd ?run)"
  proof (cases "r1 = Inr None \<and> rf_provider_refund_id (cr_refund refund) = None")
    case True
    obtain r2 s2 where create: "refund_payment env sp (refund_payment_input refund reference) s1 =
        (r2, s2)" by fastforce
    have run: "snd ?run = s2"
      using True find create
      by (simp add: lookup_or_create_def stripe_provider_def act_bind_def split: sum.split)
    have none: "live_refunds (rf_event_purchase_id (cr_refund refund))
        (rf_amount_minor (cr_refund refund)) (listed s1 reference) = []"
      if "length (listed s1 reference) \<le> 100"
      using found that True by (simp add: find_refund_input_def)
    from refund_payment_api [OF api create]
    have "one_live_refund listed s2"
    proof (elim disjE exE)
      assume "listed s2 = listed s1"
      with inv1 show ?thesis by (simp add: one_live_refund_def)
    next
      fix i status
      assume "listed s2 = (listed s1)(rpi_provider_payment_reference (refund_payment_input refund
          reference) := \<lparr>slr_amount = rpi_amount_minor (refund_payment_input refund reference),
          slr_id = i, slr_status = status, slr_metadata = [''event_purchase_id'' \<mapsto>
            show_uuid (rpi_purchase_id (refund_payment_input refund reference))]\<rparr> #
          listed s1 (rpi_provider_payment_reference (refund_payment_input refund reference)))"
      then have "listed s2 = (listed s1)(reference :=
          \<lparr>slr_amount = rf_amount_minor (cr_refund refund), slr_id = i, slr_status = status,
           slr_metadata = [''event_purchase_id'' \<mapsto>
             show_uuid (rf_event_purchase_id (cr_refund refund))]\<rparr> # listed s1 reference)"
        by (simp add: refund_payment_input_def)
      from live_refunds_update [OF inv1 none this] show ?thesis by simp
    qed
    then show ?thesis by (simp add: run)
  next
    case False
    have "snd ?run = s1"
    proof (cases r1)
      case (Inr found_option)
      with False find show ?thesis
        by (cases found_option)
          (simp_all add: lookup_or_create_def stripe_provider_def act_bind_def)
    qed (use find in \<open>simp add: lookup_or_create_def stripe_provider_def act_bind_def\<close>)
    with inv1 show ?thesis by simp
  qed
qed

lemma keeps_outside: "keeps P m \<Longrightarrow> keeps (P \<circ> snd) (outside m)"
  by (simp add: keeps_def outside_def split: prod.split) (metis snd_conv)

lemma keeps_run_tx_snd: "keeps (P \<circ> snd) (run_tx op)"
  by (simp add: keeps_def run_tx_def split: sum.split)

lemma keeps_frames: "frames part m \<Longrightarrow> keeps (\<lambda>s. P (part s)) m"
  by (simp add: keeps_def frames_def)

lemma lookup_or_create_external:
  "lookup_or_create (external_provider pp) refund reference =
     outside (lookup_or_create pp refund reference)"
  by (rule ext)
    (auto simp: lookup_or_create_def external_provider_def outside_def act_bind_def
      split: prod.split sum.split option.split)

lemma reconcile_lookup:
  "reconcile_provider_refund db env pp refund =
     act_bind (act_lift (ok_or (Msg ''provider payment reference is missing'')
       (rf_provider_payment_reference (cr_refund refund)))) (\<lambda>reference.
     act_bind (lookup_or_create pp refund reference) (\<lambda>provider_refund.
     act_bind (persist_provider_refund_result db (cr_refund refund) provider_refund) (\<lambda>recorded.
     case recorded of
       RecordedFailed \<Rightarrow> act_ok ()
     | RecordedPending \<Rightarrow> act_ok ()
     | RecordedSucceeded \<Rightarrow> finalize_refund db env refund)))"
  by (simp add: reconcile_provider_refund_def lookup_or_create_def act_bind_assoc)

lemmas pg_methods =
  pg_payments_def pg_claim_event_purchase_refund_def pg_finalize_event_purchase_refund_def
  pg_record_event_purchase_refund_pending_def pg_record_event_purchase_refund_retryable_failure_def
  pg_record_event_purchase_refund_succeeded_def pg_record_event_purchase_refund_terminal_failed_def

lemma persist_keeps_outside:
  "keeps (P \<circ> snd) (persist_provider_refund_result (pg_payments gen rest) refund result)"
  by (cases "rpr_status result")
    (auto simp: persist_provider_refund_result_def Let_def pg_methods
      intro!: keeps_bind keeps_map_err keeps_run_tx_snd)

lemma finalize_keeps_outside:
  assumes "keeps P (ne_get_site_settings nenv)" and "\<And>a b. keeps P (ne_get_event_summary_by_id nenv a b)"
  shows "keeps (P \<circ> snd) (finalize_refund (pg_payments gen rest) (external_notifications nenv) refund)"
  using assms
  by (auto simp: finalize_refund_def build_refund_approval_template_data_def
      load_event_notification_context_def external_notifications_def pg_methods
      intro!: keeps_bind keeps_map_err keeps_run_tx_snd keeps_outside split: prod.split)

lemma process_keeps_outside:
  assumes api: "stripe_refund_api env sp listed"
    and ne: "keeps (one_live_refund listed) (ne_get_site_settings nenv)"
      "\<And>a b. keeps (one_live_refund listed) (ne_get_event_summary_by_id nenv a b)"
  shows "keeps (one_live_refund listed \<circ> snd) (process_next_refund (pg_payments gen rest)
    (external_notifications nenv) (Some (external_provider (stripe_provider env sp base))))"
proof -
  note finalize = finalize_keeps_outside [OF ne]
  have "keeps (one_live_refund listed \<circ> snd) (reconcile_provider_refund (pg_payments gen rest)
      (external_notifications nenv) (external_provider (stripe_provider env sp base)) refund)" for refund
    unfolding reconcile_lookup lookup_or_create_external
    by (auto intro!: keeps_bind keeps_outside lookup_or_create_keeps [OF api] persist_keeps_outside
        finalize split: RecordedProviderRefund.split)
  moreover have "keeps (one_live_refund listed \<circ> snd)
      (release_retryable_failure (pg_payments gen rest) refund e)" for refund e
    by (auto simp: release_retryable_failure_def pg_methods
        intro!: keeps_try keeps_run_tx_snd split: option.split)
  moreover have "keeps (one_live_refund listed \<circ> snd)
      (db_claim_event_purchase_refund (pg_payments gen rest) provider)" for provider
    by (simp add: pg_methods keeps_run_tx_snd)
  ultimately show ?thesis
    by (auto simp: process_next_refund_def intro!: keeps_bind keeps_try finalize
        split: option.split sum.split)
qed

text \<open>
  C1: the refund worker never pays a purchase back twice. However many rounds it runs against
  Stripe, and whatever errors, lost answers and retries happen in them, a payment intent whose refunds fit one
  listing page never has two refunds of the same purchase and amount that have not failed.
\<close>

theorem worker_refunds_at_most_once:
  assumes "stripe_refund_api env sp listed"
    and "\<And>s. listed (snd (ne_get_site_settings nenv s)) = listed s"
    and "\<And>a b s. listed (snd (ne_get_event_summary_by_id nenv a b s)) = listed s"
    and "one_live_refund listed (snd s)"
  shows "one_live_refund listed (snd (((\<lambda>s. snd (process_next_refund (pg_payments gen rest)
    (external_notifications nenv) (Some (external_provider (stripe_provider env sp base))) s)) ^^ n) s))"
proof (induction n)
  case (Suc n)
  have "keeps (one_live_refund listed \<circ> snd) (process_next_refund (pg_payments gen rest)
    (external_notifications nenv) (Some (external_provider (stripe_provider env sp base))))"
    by (rule process_keeps_outside [OF assms(1)])
      (simp_all add: keeps_def one_live_refund_def assms(2,3))
  from keepsD [OF this] Suc show ?case by simp
qed (use assms(4) in simp)

text \<open>
  A small Stripe that satisfies the contract: it knows the one payment intent of the sample purchase,
  remembers whether its refund was created, and creates it at most once.
\<close>

definition sample_stripe_refund :: StripeListedRefund where
  "sample_stripe_refund =
     \<lparr>slr_amount = 2500, slr_id = ''re_1'', slr_status = ''succeeded'',
      slr_metadata = [''event_purchase_id'' \<mapsto> show_uuid 10]\<rparr>"

definition sample_listing :: "bool \<Rightarrow> string \<Rightarrow> StripeListedRefund list" where
  "sample_listing created reference =
     (if reference = ''pi_1'' \<and> created then [sample_stripe_refund] else [])"

definition sample_refund_form :: "(string \<times> string) list" where
  "sample_refund_form = build_refund_form_fields
     \<lparr>rpi_amount_minor = 2500, rpi_connected_seller_id = [], rpi_idempotency_key = [],
      rpi_provider_payment_reference = ''pi_1'', rpi_purchase_id = 10\<rparr>"

definition failing_decoders :: stripe_decoders where
  "failing_decoders =
     \<lparr>sd_account = \<lambda>_. Inl (Msg []), sd_application_fee_refunds = \<lambda>_. Inl (Msg []),
      sd_checkout_session = \<lambda>_. Inl (Msg []), sd_credit_notes = \<lambda>_. Inl (Msg []),
      sd_credit_note = \<lambda>_. Inl (Msg []), sd_error = \<lambda>_. Inl (Msg []),
      sd_expanded_checkout = \<lambda>_. Inl (Msg []), sd_id = \<lambda>_. Inl (Msg []),
      sd_invoice_document = \<lambda>_. Inl (Msg []), sd_invoice_lines = \<lambda>_. Inl (Msg []),
      sd_refunds = \<lambda>_. Inl (Msg []), sd_refund = \<lambda>_. Inl (Msg []),
      sd_tax_product = \<lambda>_. Inl (Msg []), sd_tax_rates = \<lambda>_. Inl (Msg []),
      sd_tax_settings = \<lambda>_. Inl (Msg [])\<rparr>"

definition sample_stripe :: "bool stripe_env" where
  "sample_stripe =
     \<lparr>se_send = \<lambda>req created. case hr_method req of
        GET \<Rightarrow> (Inr \<lparr>hs_status = 200, hs_text = Inr (if created then ''one'' else ''none'')\<rparr>, created)
      | POST \<Rightarrow> (Inr \<lparr>hs_status = 200, hs_text = Inr ''created''\<rparr>, True),
      se_now = \<lambda>_. 1000,
      se_urlencode = \<lambda>fields.
        if fields = [(''payment_intent'', ''pi_1''), (''limit'', ''100'')] \<or>
           fields = sample_refund_form
        then Inr ''form'' else Inl (Msg ''unknown form''),
      se_hex_sha256 = id, se_status_text = show_int, se_webhook = sample_webhook_env,
      se_decode = failing_decoders\<lparr>
        sd_refunds := \<lambda>body. Inr \<lparr>srl_data = if body = ''one'' then [sample_stripe_refund] else []\<rparr>,
        sd_refund := \<lambda>_. Inr \<lparr>srr_id = ''re_1'', srr_status = ''succeeded''\<rparr>\<rparr>\<rparr>"

definition quiet_notifications :: "bool notification_env" where
  "quiet_notifications =
     \<lparr>ne_get_site_settings = act_ok JNull, ne_get_event_summary_by_id = \<lambda>_ _. act_ok JNull,
      ne_refund_approved_template_data = \<lambda>_ _. Inr JNull,
      ne_refund_requested_value = \<lambda>_ _ _. Inr JNull,
      ne_event_welcome_notification = \<lambda>_ _ _ _. Inr JNull,
      ne_refund_rejected_notification = \<lambda>_ _ _ _. Inr JNull, ne_enqueue = \<lambda>_. act_ok (),
      ne_base_url = ''https://example.org''\<rparr>"

lemma sample_stripe_api: "stripe_refund_api sample_stripe sp sample_listing"
  unfolding stripe_refund_api_def
proof (intro conjI allI impI)
  fix req :: http_request and s
  assume "hr_method req = GET"
  then show "sample_listing (snd (se_send sample_stripe req s)) = sample_listing s"
    by (simp add: sample_stripe_def)
next
  fix reference query headers s and response :: http_response and s' raw page
  assume "se_urlencode sample_stripe [(''payment_intent'', reference), (''limit'', ''100'')] = Inr query"
    and "se_send sample_stripe (stripe_get sp (''/refunds?'' @ query) headers) s = (Inr response, s')"
    and "hs_text response = Inr raw" and "sd_refunds (se_decode sample_stripe) raw = Inr page"
  then show "srl_data page = take 100 (sample_listing s reference)"
    by (auto simp: sample_stripe_def stripe_get_def sample_listing_def sample_refund_form_def
        build_refund_form_fields_def split: if_splits)
next
  fix inp body headers s s' r
  assume form: "se_urlencode sample_stripe (build_refund_form_fields inp) = Inr body"
    and post: "se_send sample_stripe (stripe_post sp ''/refunds'' headers body) s = (r, s')"
  have "build_refund_form_fields inp = sample_refund_form"
    using form by (auto simp: sample_stripe_def build_refund_form_fields_def split: if_splits)
  then have inp: "rpi_amount_minor inp = 2500" "rpi_provider_payment_reference inp = ''pi_1''"
    "show_uuid (rpi_purchase_id inp) = show_uuid 10"
    by (simp_all add: sample_refund_form_def build_refund_form_fields_def show_int_inj)
  have "s' = True" using post by (simp add: sample_stripe_def stripe_post_def)
  then have "sample_listing s' = sample_listing s \<or>
      sample_listing s' = (sample_listing s)(''pi_1'' := sample_stripe_refund # sample_listing s ''pi_1'')"
    by (cases s) (auto simp: sample_listing_def fun_eq_iff)
  then show "sample_listing s' = sample_listing s \<or>
      (\<exists>i status. sample_listing s' = (sample_listing s)(rpi_provider_payment_reference inp :=
         \<lparr>slr_amount = rpi_amount_minor inp, slr_id = i, slr_status = status,
          slr_metadata = [''event_purchase_id'' \<mapsto> show_uuid (rpi_purchase_id inp)]\<rparr> #
         sample_listing s (rpi_provider_payment_reference inp)))"
    unfolding inp sample_stripe_refund_def by blast
qed

theorem worker_refunds_at_most_once_witness:
  "\<forall>n rest base. one_live_refund sample_listing (snd (((\<lambda>s. snd (process_next_refund
     (pg_payments (\<lambda>n. of_nat n + 77) rest) (external_notifications quiet_notifications)
     (Some (external_provider (stripe_provider sample_stripe
        (new_stripe_provider sample_stripe_config) base))) s)) ^^ n) (sample_queued, False)))"
  by (intro allI worker_refunds_at_most_once sample_stripe_api)
    (simp_all add: quiet_notifications_def one_live_refund_def sample_listing_def live_refunds_def)

subsection \<open>Financial adjustments\<close>

text \<open>
  a credit note is issued at most once per refund and only for the full refund. A note that Stripe
  already lists for the refund is reported, if its gross amount and taxes are those of the refund, and
  nothing else is sent after the listing; when it has other amounts, or the listing fails, the
  reconciliation fails and nothing else is sent either.
\<close>

theorem credit_note_reused:
  assumes "0 < cni_amount_minor inp" and "0 \<le> cni_tax_amount_minor inp"
    and "list_credit_notes env sp inp s = (r, s')"
    and "case r of Inl _ \<Rightarrow> True
      | Inr credit_notes \<Rightarrow> \<exists>note \<in> set (scl_data credit_notes). matching_credit_note inp note"
  shows "case reconcile_credit_note env sp inp s of
      (Inl e, t) \<Rightarrow> t = s'
    | (Inr result, t) \<Rightarrow> t = s' \<and> (\<exists>credit_notes note. r = Inr credit_notes \<and> note \<in> set (scl_data credit_notes) \<and>
        matching_credit_note inp note \<and> scn_id note = cnr_provider_credit_note_id result \<and>
        scn_amount note = cni_amount_minor inp \<and>
        i64_sum (map sct_amount (scn_total_taxes note)) = cni_tax_amount_minor inp)"
proof (cases r)
  case (Inr credit_notes)
  with assms(4) obtain found where find: "find (matching_credit_note inp) (scl_data credit_notes) = Some found"
    using find_Some_ex [of "matching_credit_note inp" "scl_data credit_notes"] by auto
  then have "found \<in> set (scl_data credit_notes)" "matching_credit_note inp found"
    by (auto simp: find_Some_iff)
  then show ?thesis
    using assms(1-3) Inr find
    by (auto simp: reconcile_credit_note_def act_bind_def validate_expected_amounts_def into_result_def
        Let_def split: if_splits)
qed (use assms(1-3) in \<open>simp add: reconcile_credit_note_def act_bind_def\<close>)

lemma validate_expected_amounts_eq_Inr:
  "validate_expected_amounts note inp = Inr u \<longleftrightarrow>
     scn_amount note = cni_amount_minor inp \<and>
     i64_sum (map sct_amount (scn_total_taxes note)) = cni_tax_amount_minor inp"
  by (simp add: validate_expected_amounts_def Let_def)

text \<open>
  A new credit note is issued only after Stripe's preview confirmed the complete gross and tax
  reversal of the single invoice line, and an issued note is reported only when it has these amounts
  itself. Whenever the preview differs, the reconciliation ends with an error and the issuing request
  is not sent.
\<close>

theorem credit_note_preview_guards:
  assumes "0 < cni_amount_minor inp" and "0 \<le> cni_tax_amount_minor inp"
    and "list_credit_notes env sp inp s = (Inr credit_notes, s1)"
    and "\<forall>note\<in>set (scl_data credit_notes). \<not> matching_credit_note inp note"
    and "list_invoice_lines env sp inp s1 = (Inr lines, s2)" and "sll_data lines = [line]"
    and "se_urlencode env (credit_note_form_fields inp (sil_id line)) = Inr form"
    and "preview_credit_note env sp inp form s2 = (Inr preview, s3)"
  shows "(\<exists>e. (scn_amount preview \<noteq> cni_amount_minor inp \<or>
        i64_sum (map sct_amount (scn_total_taxes preview)) \<noteq> cni_tax_amount_minor inp) \<and>
      reconcile_credit_note env sp inp s = (Inl e, s3)) \<or>
    (scn_amount preview = cni_amount_minor inp \<and>
     i64_sum (map sct_amount (scn_total_taxes preview)) = cni_tax_amount_minor inp \<and>
     (case issue_credit_note env sp inp form s3 of
        (Inl e, s4) \<Rightarrow> reconcile_credit_note env sp inp s = (Inl e, s4)
      | (Inr issued, s4) \<Rightarrow>
          if scn_amount issued = cni_amount_minor inp \<and>
             i64_sum (map sct_amount (scn_total_taxes issued)) = cni_tax_amount_minor inp
          then reconcile_credit_note env sp inp s = (Inr (into_result issued), s4)
          else \<exists>e. reconcile_credit_note env sp inp s = (Inl e, s4)))"
proof -
  have none: "find (matching_credit_note inp) (scl_data credit_notes) = None"
    using assms(4) by (simp add: find_None_iff)
  have run: "reconcile_credit_note env sp inp s =
      act_bind (act_lift (validate_expected_amounts preview inp)) (\<lambda>_.
      act_bind (issue_credit_note env sp inp form) (\<lambda>credit_note.
      act_bind (act_lift (validate_expected_amounts credit_note inp)) (\<lambda>_.
      act_ok (into_result credit_note)))) s3"
    using assms none by (simp add: reconcile_credit_note_def act_bind_Inr)
  show ?thesis
  proof (cases "validate_expected_amounts preview inp")
    case (Inl e)
    then show ?thesis
      using run validate_expected_amounts_eq_Inr [of preview inp] by auto
  next
    case (Inr u)
    then have ok: "scn_amount preview = cni_amount_minor inp"
      "i64_sum (map sct_amount (scn_total_taxes preview)) = cni_tax_amount_minor inp"
      by (simp_all add: validate_expected_amounts_eq_Inr)
    with Inr run show ?thesis
      by (auto simp: act_bind_def validate_expected_amounts_def [of _ inp] Let_def
          split: prod.split sum.split)
  qed
qed

text \<open>
  An application fee is given back at most once per purchase and kind. When Stripe lists a fee
  refund with the purchase and the kind of the adjustment, it is reported if it has the adjustment's
  amount, the reconciliation fails if it has another, and in neither case is anything sent after the
  listing. Adjustments without a positive amount or a connected seller send nothing at all.
\<close>

theorem fee_refund_reused:
  assumes "list_fee_refunds env sp inp s = (Inr refunds, s')"
    and "\<exists>refund\<in>set (sfl_data refunds). matching_fee_refund inp refund"
  shows "if fai_amount_minor inp \<le> 0 \<or> blank (fai_connected_seller_id inp)
    then \<exists>e. reconcile_application_fee_adjustment env sp inp s = (Inl e, s)
    else \<exists>refund\<in>set (sfl_data refunds). matching_fee_refund inp refund \<and>
      (if sfr_amount refund = fai_amount_minor inp
       then reconcile_application_fee_adjustment env sp inp s =
         (Inr \<lparr>far_provider_application_fee_refund_id = sfr_id refund\<rparr>, s')
       else \<exists>e. reconcile_application_fee_adjustment env sp inp s = (Inl e, s'))"
proof -
  obtain refund where find: "find (matching_fee_refund inp) (sfl_data refunds) = Some refund"
    using assms(2) find_Some_ex [of "matching_fee_refund inp" "sfl_data refunds"] by auto
  then have "refund \<in> set (sfl_data refunds)" "matching_fee_refund inp refund"
    by (auto simp: find_Some_iff)
  with find assms(1) show ?thesis
    by (auto simp: reconcile_application_fee_adjustment_def act_bind_Inr)
qed

text \<open>A Stripe without state that answers every request, and a credit note it lists or issues.\<close>

definition answering_stripe :: "stripe_decoders \<Rightarrow> unit stripe_env" where
  "answering_stripe decoders =
     \<lparr>se_send = \<lambda>_. act_ok \<lparr>hs_status = 200, hs_text = Inr []\<rparr>, se_now = \<lambda>_. 1000,
      se_urlencode = \<lambda>_. Inr ''form'', se_hex_sha256 = id, se_status_text = show_int,
      se_webhook = sample_webhook_env, se_decode = decoders\<rparr>"

definition sample_note :: "int \<Rightarrow> StripeCreditNoteResponse" where
  "sample_note amount =
     \<lparr>scn_amount = amount, scn_id = ''cn_1'',
      scn_metadata = [''event_purchase_refund_id'' \<mapsto> show_uuid 20], scn_pdf = None,
      scn_total_taxes = [\<lparr>sct_amount = 300\<rparr>, \<lparr>sct_amount = 99\<rparr>]\<rparr>"

definition sample_note_input :: CreditNoteInput where
  "sample_note_input =
     \<lparr>cni_amount_minor = 2500, cni_connected_seller_id = ''acct_1'', cni_event_purchase_id = 10,
      cni_event_purchase_refund_id = 20, cni_idempotency_key = ''key'',
      cni_provider_invoice_id = ''in_1'', cni_provider_refund_id = ''re_1'',
      cni_tax_amount_minor = 399\<rparr>"

definition note_decoders :: "StripeCreditNoteResponse list \<Rightarrow> int \<Rightarrow> stripe_decoders" where
  "note_decoders credit_notes amount = failing_decoders\<lparr>
     sd_credit_notes := \<lambda>_. Inr \<lparr>scl_data = credit_notes\<rparr>,
     sd_invoice_lines := \<lambda>_. Inr \<lparr>sll_data = [\<lparr>sil_id = ''il_1''\<rparr>]\<rparr>,
     sd_credit_note := \<lambda>_. Inr (sample_note amount)\<rparr>"

lemmas note_calls =
  list_credit_notes_def list_invoice_lines_def preview_credit_note_def issue_credit_note_def
  answering_stripe_def note_decoders_def parse_provider_response_def status_is_success_def
  with_context_def act_bind_def act_map_err_def

theorem credit_note_reused_witness:
  "\<forall>sp. case reconcile_credit_note (answering_stripe (note_decoders [sample_note 2500] 0)) sp
     sample_note_input () of
       (Inl e, t) \<Rightarrow> True | (Inr result, t) \<Rightarrow> cnr_provider_credit_note_id result = ''cn_1''"
proof
  fix sp
  let ?env = "answering_stripe (note_decoders [sample_note 2500] 0)"
  have list: "list_credit_notes ?env sp sample_note_input () =
      (Inr \<lparr>scl_data = [sample_note 2500]\<rparr>, ())"
    by (simp add: note_calls)
  have "matching_credit_note sample_note_input (sample_note 2500)"
    by (simp add: matching_credit_note_def sample_note_input_def sample_note_def)
  with credit_note_reused [OF _ _ list] show "case reconcile_credit_note ?env sp sample_note_input () of
       (Inl e, t) \<Rightarrow> True | (Inr result, t) \<Rightarrow> cnr_provider_credit_note_id result = ''cn_1''"
    by (auto simp: sample_note_input_def sample_note_def split: prod.splits sum.splits)
qed

theorem credit_note_preview_guards_witness:
  "\<forall>sp. \<exists>e. reconcile_credit_note (answering_stripe (note_decoders [] 2499)) sp sample_note_input () =
     (Inl e, ())"
proof
  fix sp
  let ?env = "answering_stripe (note_decoders [] 2499)"
  have "list_credit_notes ?env sp sample_note_input () = (Inr \<lparr>scl_data = []\<rparr>, ())"
    and "list_invoice_lines ?env sp sample_note_input () =
      (Inr \<lparr>sll_data = [\<lparr>sil_id = ''il_1''\<rparr>]\<rparr>, ())"
    and "preview_credit_note ?env sp sample_note_input ''form'' () = (Inr (sample_note 2499), ())"
    by (simp_all add: note_calls)
  moreover have "se_urlencode ?env fields = Inr ''form''" for fields
    by (simp add: answering_stripe_def)
  ultimately show "\<exists>e. reconcile_credit_note ?env sp sample_note_input () = (Inl e, ())"
    using credit_note_preview_guards [of sample_note_input ?env sp "()" "\<lparr>scl_data = []\<rparr>" "()"
        "\<lparr>sll_data = [\<lparr>sil_id = ''il_1''\<rparr>]\<rparr>" "()" "\<lparr>sil_id = ''il_1''\<rparr>" "''form''"
        "sample_note 2499" "()"]
    by (simp add: sample_note_input_def sample_note_def)
qed

definition sample_fee_refund :: StripeApplicationFeeRefund where
  "sample_fee_refund =
     \<lparr>sfr_amount = 100, sfr_id = ''fr_1'',
      sfr_metadata = [''event_purchase_id'' \<mapsto> show_uuid 10, ''kind'' \<mapsto> ''refund'']\<rparr>"

definition sample_fee_input :: ApplicationFeeAdjustmentInput where
  "sample_fee_input =
     \<lparr>fai_amount_minor = 100, fai_connected_seller_id = ''acct_1'', fai_event_purchase_id = 10,
      fai_idempotency_key = ''key'', fai_kind = ''refund'',
      fai_provider_application_fee_id = ''fee_1''\<rparr>"

theorem fee_refund_reused_witness:
  "\<forall>sp. reconcile_application_fee_adjustment (answering_stripe (failing_decoders\<lparr>
     sd_application_fee_refunds := \<lambda>_. Inr \<lparr>sfl_data = [sample_fee_refund]\<rparr>\<rparr>)) sp
     sample_fee_input () = (Inr \<lparr>far_provider_application_fee_refund_id = ''fr_1''\<rparr>, ())"
proof
  fix sp
  let ?env = "answering_stripe (failing_decoders\<lparr>
     sd_application_fee_refunds := \<lambda>_. Inr \<lparr>sfl_data = [sample_fee_refund]\<rparr>\<rparr>)"
  have list: "list_fee_refunds ?env sp sample_fee_input () =
      (Inr \<lparr>sfl_data = [sample_fee_refund]\<rparr>, ())"
    by (simp add: list_fee_refunds_def note_calls)
  have seller: "\<not> blank ''acct_1''" by code_simp
  from fee_refund_reused [OF list] seller
  show "reconcile_application_fee_adjustment ?env sp sample_fee_input () =
      (Inr \<lparr>far_provider_application_fee_refund_id = ''fr_1''\<rparr>, ())"
    by (simp add: sample_fee_input_def sample_fee_refund_def matching_fee_refund_def)
qed

subsection \<open>Tax rates\<close>

text \<open>The page that Stripe's cursor pagination serves from an account's rates.\<close>

definition page_after :: "StripeTaxRateResponse list \<Rightarrow> string option \<Rightarrow> StripeTaxRateListResponse" where
  "page_after rates starting_after =
     (let rest = (case starting_after of None \<Rightarrow> rates
                  | Some i \<Rightarrow> tl (dropWhile (\<lambda>rate. str_id rate \<noteq> i) rates)) in
      \<lparr>stl_data = take 100 rest, stl_has_more = (100 < length rest)\<rparr>)"

definition serves_rates ::
    "'s stripe_env \<Rightarrow> StripeProvider \<Rightarrow> ListTaxRatesInput \<Rightarrow> StripeTaxRateResponse list \<Rightarrow> bool" where
  "serves_rates env sp inp rates \<longleftrightarrow>
     (\<forall>starting_after s.
        tax_rate_page env sp inp starting_after s = (Inr (page_after rates starting_after), s))"

lemma rest_after_cursor:
  "distinct (map f (pre @ rest)) \<Longrightarrow> pre \<noteq> [] \<Longrightarrow>
     tl (dropWhile (\<lambda>x. f x \<noteq> f (last pre)) (pre @ rest)) = rest"
proof (induction pre)
  case (Cons x pre)
  then show ?case by (cases pre) (auto simp: image_iff)
qed simp

lemma list_tax_rates_loop_served:
  assumes "serves_rates env sp inp (pre @ rest)" and "distinct (map str_id (pre @ rest))"
    and "cursor = (if pre = [] then None else Some (str_id (last pre)))"
  shows "list_tax_rates_loop env sp inp acc cursor s =
    Some (Inr (acc @ map ticket_tax_rate (filter (wanted_rate inp) rest)), s)"
  using assms
proof (induction "length rest" arbitrary: pre rest acc cursor rule: less_induct)
  case less
  have "(case cursor of None \<Rightarrow> pre @ rest
      | Some i \<Rightarrow> tl (dropWhile (\<lambda>rate. str_id rate \<noteq> i) (pre @ rest))) = rest"
    using rest_after_cursor [OF less.prems(2)] less.prems(3) by simp
  then have page: "tax_rate_page env sp inp cursor s =
      (Inr \<lparr>stl_data = take 100 rest, stl_has_more = (100 < length rest)\<rparr>, s)"
    using less.prems(1) by (simp add: serves_rates_def page_after_def)
  show ?case
  proof (cases "100 < length rest")
    case True
    let ?pre = "pre @ take 100 rest"
    have nonempty: "take 100 rest \<noteq> []" using True by auto
    then have last: "last ?pre = last (take 100 rest)" by (rule last_appendR)
    have "list_tax_rates_loop env sp inp
        (acc @ map ticket_tax_rate (filter (wanted_rate inp) (take 100 rest)))
        (Some (str_id (last (take 100 rest)))) s =
      Some (Inr ((acc @ map ticket_tax_rate (filter (wanted_rate inp) (take 100 rest))) @
        map ticket_tax_rate (filter (wanted_rate inp) (drop 100 rest))), s)"
      using True less.prems(1,2) nonempty last by (intro less.hyps [of _ ?pre]) simp_all
    moreover have "filter (wanted_rate inp) rest =
        filter (wanted_rate inp) (take 100 rest) @ filter (wanted_rate inp) (drop 100 rest)"
      by (metis append_take_drop_id filter_append)
    ultimately show ?thesis
      using True nonempty by (subst list_tax_rates_loop.simps) (simp add: page)
  next
    case False
    then show ?thesis by (subst list_tax_rates_loop.simps) (simp add: page)
  qed
qed

lemma list_tax_rates_served:
  assumes "serves_rates env sp inp rates" and "distinct (map str_id rates)"
  shows "list_tax_rates env sp inp s =
    Some (Inr (map ticket_tax_rate (filter (wanted_rate inp) rates)), s)"
  using list_tax_rates_loop_served [of env sp inp "[]" rates None "[]"] assms
  by (simp add: list_tax_rates_def)

text \<open>
  The paginated listing ends and is complete. Against an account whose rates Stripe serves by
  cursor, a hundred at a time, it returns for any number of rates, and what it returns is exactly the
  active rates of the requested display behavior, each once and in order.
\<close>

theorem tax_rates_listed_completely:
  assumes "serves_rates env sp inp rates" and "distinct (map str_id rates)"
  shows "list_tax_rates env sp inp s =
    Some (Inr (map ticket_tax_rate (filter (wanted_rate inp) rates)), s)"
  by (rule list_tax_rates_served [OF assms])

text \<open>
  A manual tax selection is accepted exactly when it names at least one rate, names none twice,
  and every name is a trimmed, non-empty identifier of an active rate of the account with the
  requested display behavior, on whichever page of the listing it is.
\<close>

theorem tax_rates_validated:
  assumes "serves_rates env sp
      \<lparr>lti_connected_seller_id = vti_connected_seller_id inp,
       lti_tax_behavior = vti_tax_behavior inp\<rparr> rates"
    and "distinct (map str_id rates)"
  shows "validate_tax_rates env sp inp s = Some (Inr (), s) \<longleftrightarrow>
    vti_manual_tax_rate_ids inp \<noteq> [] \<and> distinct (vti_manual_tax_rate_ids inp) \<and>
    (\<forall>i\<in>set (vti_manual_tax_rate_ids inp). i \<noteq> [] \<and> trim i = i \<and>
       (\<exists>rate\<in>set rates. str_id rate = i \<and> str_active rate \<and>
          (str_inclusive rate \<longleftrightarrow> vti_tax_behavior inp = Inclusive)))"
proof -
  let ?ids = "vti_manual_tax_rate_ids inp"
  let ?list = "\<lparr>lti_connected_seller_id = vti_connected_seller_id inp,
       lti_tax_behavior = vti_tax_behavior inp\<rparr>"
  have listed: "list_tax_rates env sp ?list s =
      Some (Inr (map ticket_tax_rate (filter (wanted_rate ?list) rates)), s)"
    by (rule list_tax_rates_served [OF assms])
  define available where "available i \<longleftrightarrow> (\<exists>rate\<in>set rates. str_id rate = i \<and> str_active rate \<and>
      (str_inclusive rate \<longleftrightarrow> vti_tax_behavior inp = Inclusive))" for i
  have member: "i \<in> set (map tr_id (map ticket_tax_rate (filter (wanted_rate ?list) rates))) \<longleftrightarrow>
      available i" for i
    by (auto simp: available_def wanted_rate_def ticket_tax_rate_def)
  have proceeds: "dact_bind (dact_map_err SponsorUnexpected (list_tax_rates env sp ?list)) f s =
      f (map ticket_tax_rate (filter (wanted_rate ?list) rates)) s" for f
    by (simp add: dact_bind_def dact_map_err_def listed map_error_def)
  have distinct: "card (set ?ids) = length ?ids \<longleftrightarrow> distinct ?ids"
    by (metis card_distinct distinct_card)
  have "validate_tax_rates env sp inp s = Some (Inr (), s) \<longleftrightarrow>
      ?ids \<noteq> [] \<and> distinct ?ids \<and> (\<forall>i\<in>set ?ids. i \<noteq> [] \<and> trim i = i \<and> available i)"
  proof (cases "?ids \<noteq> [] \<and> distinct ?ids \<and> (\<forall>i\<in>set ?ids. i \<noteq> [] \<and> trim i = i)")
    case True
    then have "\<not> (set ?ids = {} \<or> card (set ?ids) \<noteq> length ?ids \<or>
        (\<exists>i\<in>set ?ids. i = [] \<or> i \<noteq> trim i))"
      using distinct by (metis empty_set set_empty)
    then have "validate_tax_rates env sp inp s =
        (if \<not> (\<forall>i\<in>set ?ids. available i) then ends (act_err (NotReady
          ''manual Stripe Tax Rates must be active in the fiscal sponsor account and match the ticket tax display''))
         else ends (act_ok ())) s"
      unfolding validate_tax_rates_def Let_def by (simp only: if_False proceeds member)
    with True show ?thesis by (simp add: ends_def)
  next
    case False
    then have "set ?ids = {} \<or> card (set ?ids) \<noteq> length ?ids \<or>
        (\<exists>i\<in>set ?ids. i = [] \<or> i \<noteq> trim i)"
      using distinct by (metis set_empty)
    then have "validate_tax_rates env sp inp s = ends (act_err (NotReady
        ''manual ticket tax requires at least one unique Stripe Tax Rate'')) s"
      unfolding validate_tax_rates_def Let_def by presburger
    with False show ?thesis by (auto simp: ends_def)
  qed
  then show ?thesis by (simp add: available_def)
qed

text \<open>A Stripe that serves the rates of one account by cursor.\<close>

definition paging_stripe :: "StripeProvider \<Rightarrow> StripeTaxRateResponse list \<Rightarrow> unit stripe_env" where
  "paging_stripe sp rates = answering_stripe (failing_decoders\<lparr>
     sd_tax_rates := \<lambda>url. Inr (page_after rates
       (case drop (length (sp_api_base_url sp @ ''/tax_rates?'')) url of
          [] \<Rightarrow> None | _ # cursor \<Rightarrow> Some cursor))\<rparr>)
     \<lparr>se_send := \<lambda>req. act_ok \<lparr>hs_status = 200, hs_text = Inr (hr_url req)\<rparr>,
      se_urlencode := \<lambda>fields. Inr (case map_of fields ''starting_after'' of
        None \<Rightarrow> [] | Some cursor \<Rightarrow> CHR ''='' # cursor)\<rparr>"

lemma paging_stripe_serves: "serves_rates (paging_stripe sp rates) sp inp rates"
  by (auto simp: serves_rates_def tax_rate_page_def paging_stripe_def answering_stripe_def
      stripe_get_def parse_provider_response_def status_is_success_def with_context_def act_bind_def
      act_map_err_def split: option.split)

definition sample_rate :: "string \<Rightarrow> bool \<Rightarrow> StripeTaxRateResponse" where
  "sample_rate i inclusive =
     \<lparr>str_active = True, str_display_name = ''VAT'', str_id = i, str_inclusive = inclusive,
      str_percentage = ''19'', str_jurisdiction = None\<rparr>"

theorem tax_rates_listed_completely_witness:
  "\<forall>sp. list_tax_rates (paging_stripe sp [sample_rate ''a'' True, sample_rate ''b'' False]) sp
     \<lparr>lti_connected_seller_id = ''acct_1'', lti_tax_behavior = Inclusive\<rparr> () =
   Some (Inr [ticket_tax_rate (sample_rate ''a'' True)], ())"
  using tax_rates_listed_completely [OF paging_stripe_serves]
  by (simp add: sample_rate_def wanted_rate_def)

theorem tax_rates_validated_witness:
  "\<forall>sp. validate_tax_rates (paging_stripe sp [sample_rate ''a'' True, sample_rate ''b'' False]) sp
      \<lparr>vti_connected_seller_id = ''acct_1'', vti_manual_tax_rate_ids = [''b''],
       vti_tax_behavior = Exclusive\<rparr> () = Some (Inr (), ()) \<and>
    validate_tax_rates (paging_stripe sp [sample_rate ''a'' True, sample_rate ''b'' False]) sp
      \<lparr>vti_connected_seller_id = ''acct_1'', vti_manual_tax_rate_ids = [''a''],
       vti_tax_behavior = Exclusive\<rparr> () \<noteq> Some (Inr (), ())"
proof -
  have trimmed: "trim ''a'' = ''a''" "trim ''b'' = ''b''" by code_simp+
  show ?thesis
    using tax_rates_validated [OF paging_stripe_serves] by (simp add: trimmed sample_rate_def)
qed

subsection \<open>Checkout\<close>

lemma dact_bind_eq_Inr:
  "dact_bind m f s = Some (Inr y, t) \<longleftrightarrow> (\<exists>x u. m s = Some (Inr x, u) \<and> f x u = Some (Inr y, t))"
  by (auto simp: dact_bind_def split: option.splits prod.splits sum.splits)

lemma ends_eq: "ends m s = Some p \<longleftrightarrow> m s = p"
  by (simp add: ends_def)

lemma map_error_eq_Inr: "map_error g r = Inr x \<longleftrightarrow> r = Inr x"
  by (cases r) (simp_all add: map_error_def)

lemma dact_map_err_eq_Inr: "dact_map_err g m s = Some (Inr x, t) \<longleftrightarrow> m s = Some (Inr x, t)"
  by (auto simp: dact_map_err_def map_error_eq_Inr)

lemmas checkout_inversion =
  dact_bind_eq_Inr ends_eq dact_map_err_eq_Inr act_bind_eq_Inr act_map_err_eq_Inr map_error_eq_Inr
  and_then_eq_Inr ok_or_eq_Inr

lemma sponsor_validated:
  assumes "validate_fiscal_sponsor env sp inp s = (Inr (), s')"
  shows "\<exists>response s1 body account.
    se_send env (stripe_get sp (''/accounts/'' @ fsi_connected_seller_id inp)
      [(''stripe-version'', STRIPE_API_VERSION)]) s = (Inr response, s1) \<and>
    hs_text response = Inr body \<and> sd_account (se_decode env) body = Inr account \<and>
    check_connected_account inp account = Inr ()"
  using assms
  by (auto simp: validate_fiscal_sponsor_def validate_connected_seller_def checkout_inversion
      parse_fiscal_sponsor_response_def parse_provider_response_def split: if_splits)

lemma tax_resources_provisioned:
  assumes "provision_tax_resources env sp inp s = Some (Inr tax, s')"
  shows "case ci_tax_calculation_mode inp of
      TaxAutomatic \<Rightarrow> ci_tax_code inp \<noteq> None \<and> tx_provider_tax_location_id tax \<noteq> None \<and>
        tx_provider_tax_product_id tax \<noteq> None
    | TaxManual \<Rightarrow> (\<exists>ids. ci_manual_tax_rate_ids inp = Some ids \<and> ids \<noteq> [] \<and> distinct ids) \<and>
        tx_provider_tax_product_id tax = None
    | TaxNone \<Rightarrow> (\<forall>ids. ci_manual_tax_rate_ids inp = Some ids \<longrightarrow> ids = []) \<and>
        tx_provider_tax_product_id tax = None"
proof (cases "ci_tax_calculation_mode inp")
  case TaxAutomatic
  then show ?thesis
    using assms
    by (auto simp: provision_tax_resources_def checkout_inversion create_tax_product_def
        split: prod.splits)
next
  case TaxManual
  then show ?thesis
    using assms card_distinct
    by (auto simp: provision_tax_resources_def checkout_inversion validate_manual_tax_rates_def
        validate_tax_rates_def Let_def no_tax_resources_def split: option.splits if_splits)
next
  case TaxNone
  then show ?thesis
    using assms
    by (auto simp: provision_tax_resources_def checkout_inversion no_tax_resources_def
        split: option.splits if_splits)
qed

text \<open>
  A Checkout session exists only for a purchase that may be sold. When one is created, the amount
  is positive and exceeds the platform fee, the account that Stripe returned for the seller is the
  seller's, can charge, has submitted its details and is controlled by the application with Stripe
  carrying losses and collecting requirements; the session belongs to that account; automatic tax has
  a tax code, a location and a product; manual tax has distinct rates; and a purchase without tax has
  none.
\<close>

theorem checkout_session_guarded:
  assumes "create_checkout_session env sp inp s = Some (Inr session, s')"
  shows "0 < ci_amount_minor inp \<and>
    ci_provisional_platform_fee_amount_minor inp < ci_amount_minor inp \<and>
    cs_provider_object_account_id session = fs_connected_account_id (ci_seller inp) \<and>
    (\<exists>response s1 body account controller.
       se_send env (stripe_get sp (''/accounts/'' @ fs_connected_account_id (ci_seller inp))
         [(''stripe-version'', STRIPE_API_VERSION)]) s = (Inr response, s1) \<and>
       hs_text response = Inr body \<and> sd_account (se_decode env) body = Inr account \<and>
       sar_id account = fs_connected_account_id (ci_seller inp) \<and>
       sar_charges_enabled account \<and> sar_details_submitted account \<and>
       sar_controller account = Some controller \<and> sac_controller_type controller = ''application'' \<and>
       map_option saf_payer (sac_fees controller) = Some ''account'' \<and>
       map_option sal_payments (sac_losses controller) = Some ''stripe'' \<and>
       sac_requirement_collection controller = Some ''stripe'' \<and>
       map_option sad_dashboard_type (sac_stripe_dashboard controller) = Some ''full'') \<and>
    (case ci_tax_calculation_mode inp of
       TaxAutomatic \<Rightarrow> ci_tax_code inp \<noteq> None \<and> cs_provider_tax_location_id session \<noteq> None \<and>
         cs_provider_tax_product_id session \<noteq> None
     | TaxManual \<Rightarrow> \<exists>ids. ci_manual_tax_rate_ids inp = Some ids \<and> ids \<noteq> [] \<and> distinct ids
     | TaxNone \<Rightarrow> \<forall>ids. ci_manual_tax_rate_ids inp = Some ids \<longrightarrow> ids = [])"
proof -
  let ?sponsor = "\<lparr>fsi_connected_seller_id = fs_connected_account_id (ci_seller inp),
    fsi_provider = fs_provider (ci_seller inp),
    fsi_require_automatic_tax = (ci_tax_calculation_mode inp = TaxAutomatic)\<rparr>"
  from assms obtain s1 s2 tax where amounts: "0 < ci_amount_minor inp"
      "ci_provisional_platform_fee_amount_minor inp < ci_amount_minor inp"
    and sponsor: "validate_fiscal_sponsor env sp ?sponsor s = (Inr (), s1)"
    and tax: "provision_tax_resources env sp inp s1 = Some (Inr tax, s2)"
    and post: "post_checkout_session env sp inp tax s2 = (Inr session, s')"
    by (auto simp: create_checkout_session_def checkout_inversion split: if_splits)
  have session: "cs_provider_object_account_id session = fs_connected_account_id (ci_seller inp)"
    "cs_provider_tax_location_id session = tx_provider_tax_location_id tax"
    "cs_provider_tax_product_id session = tx_provider_tax_product_id tax"
    using post by (auto simp: post_checkout_session_def checkout_inversion split: if_splits)
  from sponsor_validated [OF sponsor] obtain response t body account where account:
    "se_send env (stripe_get sp (''/accounts/'' @ fs_connected_account_id (ci_seller inp))
      [(''stripe-version'', STRIPE_API_VERSION)]) s = (Inr response, t)"
    "hs_text response = Inr body" "sd_account (se_decode env) body = Inr account"
    "check_connected_account ?sponsor account = Inr ()" by auto
  from account(4) have "sar_id account = fs_connected_account_id (ci_seller inp)"
    "sar_charges_enabled account" "sar_details_submitted account"
    "\<exists>controller. sar_controller account = Some controller \<and>
       sac_controller_type controller = ''application'' \<and>
       map_option saf_payer (sac_fees controller) = Some ''account'' \<and>
       map_option sal_payments (sac_losses controller) = Some ''stripe'' \<and>
       sac_requirement_collection controller = Some ''stripe'' \<and>
       map_option sad_dashboard_type (sac_stripe_dashboard controller) = Some ''full''"
    by (auto simp: check_connected_account_def none_or_def split: if_splits option.splits)
  moreover have "case ci_tax_calculation_mode inp of
       TaxAutomatic \<Rightarrow> ci_tax_code inp \<noteq> None \<and> cs_provider_tax_location_id session \<noteq> None \<and>
         cs_provider_tax_product_id session \<noteq> None
     | TaxManual \<Rightarrow> \<exists>ids. ci_manual_tax_rate_ids inp = Some ids \<and> ids \<noteq> [] \<and> distinct ids
     | TaxNone \<Rightarrow> \<forall>ids. ci_manual_tax_rate_ids inp = Some ids \<longrightarrow> ids = []"
    using tax_resources_provisioned [OF tax] session
    by (simp split: TicketTaxCalculationMode.splits)
  ultimately show ?thesis using amounts session(1) account(1-3) by blast
qed

definition sample_account :: StripeAccountResponse where
  "sample_account =
     \<lparr>sar_charges_enabled = True, sar_details_submitted = True, sar_id = ''acct_1'',
      sar_controller = Some
        \<lparr>sac_controller_type = ''application'', sac_fees = Some \<lparr>saf_payer = ''account''\<rparr>,
         sac_losses = Some \<lparr>sal_payments = ''stripe''\<rparr>,
         sac_requirement_collection = Some ''stripe'',
         sac_stripe_dashboard = Some \<lparr>sad_dashboard_type = ''full''\<rparr>\<rparr>\<rparr>"

definition sample_checkout_input :: CreateCheckoutSessionInput where
  "sample_checkout_input =
     \<lparr>ci_amount_minor = 2500, ci_base_url = ''https://example.org/'',
      ci_community_display_name = ''Community'', ci_community_name = ''community'',
      ci_currency_code = ''EUR'', ci_event_id = 1, ci_event_name = ''Event'', ci_event_slug = ''event'',
      ci_event_timezone = ''UTC'', ci_group_name = ''Group'', ci_group_slug = ''group'',
      ci_provisional_platform_fee_amount_minor = 100, ci_purchase_id = 10,
      ci_seller = \<lparr>fs_connected_account_id = ''acct_1'', fs_display_name = ''Sponsor'',
        fs_provider = Stripe\<rparr>,
      ci_tax_behavior = Inclusive, ci_tax_calculation_mode = TaxNone, ci_ticket_title = ''Ticket'',
      ci_user_id = 11, ci_venue = sample_venue ''Street 1'' ''Berlin'',
      ci_cached_performance_location_fingerprint = None, ci_cached_product_fingerprint = None,
      ci_cached_provider_tax_location_id = None, ci_cached_provider_tax_product_id = None,
      ci_discount_code = None, ci_group_slug_pretty = None, ci_manual_tax_rate_ids = None,
      ci_tax_code = None\<rparr>"

definition selling_stripe :: "unit stripe_env" where
  "selling_stripe = answering_stripe (failing_decoders\<lparr>
     sd_account := \<lambda>_. Inr sample_account,
     sd_checkout_session := \<lambda>_. Inr \<lparr>scs_id = ''cs_1'', scs_url = ''https://checkout''\<rparr>\<rparr>)"

theorem checkout_session_guarded_witness:
  "\<forall>sp. \<exists>session s'.
     create_checkout_session selling_stripe sp sample_checkout_input () = Some (Inr session, s') \<and>
     cs_provider_object_account_id session = ''acct_1''"
proof
  fix sp
  have "\<exists>session s'.
      create_checkout_session selling_stripe sp sample_checkout_input () = Some (Inr session, s')"
    by (simp add: create_checkout_session_def selling_stripe_def answering_stripe_def
        sample_checkout_input_def validate_fiscal_sponsor_def validate_connected_seller_def
        parse_fiscal_sponsor_response_def parse_provider_response_def status_is_success_def
        with_context_def map_error_def check_connected_account_def sample_account_def none_or_def
        provision_tax_resources_def post_checkout_session_def dact_bind_def ends_def act_bind_def
        act_map_err_def)
  then show "\<exists>session s'.
      create_checkout_session selling_stripe sp sample_checkout_input () = Some (Inr session, s') \<and>
      cs_provider_object_account_id session = ''acct_1''"
    using checkout_session_guarded [where inp = sample_checkout_input]
    by (fastforce simp: sample_checkout_input_def)
qed

end
