(* ===== verification/Badge_Png.thy ===== *)
theory Badge_Png
  imports Prelude
begin

text \<open>
  Open Badges PNG baking and extraction (\<^verbatim>\<open>ocg-server/src/services/badges/png.rs\<close>) and the error
  type of the badges manager. A byte is an \<^typ>\<open>8 word\<close>, a \<^verbatim>\<open>u32\<close> a \<^typ>\<open>32 word\<close>; a \<^verbatim>\<open>usize\<close> is
  a natural number and \<^verbatim>\<open>checked_add\<close> fails from \<open>2 ^ 64\<close> on. The image codec and the CRC-32 of
  the \<^verbatim>\<open>image\<close> and \<^verbatim>\<open>crc32fast\<close> crates are the fields of \<open>png_env\<close>. The loops over the chunk
  stream are recursive functions whose termination rests on \<^verbatim>\<open>read_chunk\<close> moving forward.
\<close>

section \<open>Data\<close>

datatype BadgesManagerError =
    Busy | InvalidContext | InvalidCredential | InvalidImage | InvalidKey | InvalidPng
  | InvalidProof | InvalidStatusList | InvalidUrl | PngLimitExceeded | SigningFailed
  | UnknownVerificationMethod

type_synonym bytes = "8 word list"
type_synonym 'a badge_result = "BadgesManagerError + 'a"

record 'img png_env =
  pe_crc32 :: "bytes \<Rightarrow> 32 word"
  pe_decode :: "bytes \<Rightarrow> 'img option"
  pe_decode_png :: "bytes \<Rightarrow> 'img option"
  pe_dimensions :: "'img \<Rightarrow> nat \<times> nat"
  pe_write_png :: "'img \<Rightarrow> bytes option"

definition byte_string :: "string \<Rightarrow> bytes" where
  "byte_string s = map of_char s"

definition CREDENTIAL_KEYWORD :: bytes where
  "CREDENTIAL_KEYWORD = byte_string ''openbadgecredential''"

definition IEND :: bytes where
  "IEND = byte_string ''IEND''"

definition ITXT :: bytes where
  "ITXT = byte_string ''iTXt''"

definition MAX_CREDENTIAL_SIZE :: int where
  "MAX_CREDENTIAL_SIZE = 256 * 1024"

definition MAX_PNG_CHUNKS :: int where
  "MAX_PNG_CHUNKS = 4096"

definition MAX_PNG_SIZE :: int where
  "MAX_PNG_SIZE = 12 * 1024 * 1024"

definition PNG_SIGNATURE :: bytes where
  "PNG_SIGNATURE = [0x89, 0x50, 0x4E, 0x47, 0x0D, 0x0A, 0x1A, 0x0A]"

section \<open>Slices and big-endian words\<close>

text \<open>\<^verbatim>\<open>xs.get(i..j)\<close> and \<^verbatim>\<open>usize::checked_add\<close>\<close>

definition slice :: "'a list \<Rightarrow> nat \<Rightarrow> nat \<Rightarrow> 'a list option" where
  "slice xs i j = (if i \<le> j \<and> j \<le> length xs then Some (take (j - i) (drop i xs)) else None)"

definition checked_add :: "nat \<Rightarrow> nat \<Rightarrow> nat option" where
  "checked_add a b = (if int a + int b < 2 ^ 64 then Some (a + b) else None)"

definition to_be_bytes :: "32 word \<Rightarrow> bytes" where
  "to_be_bytes w = [ucast (drop_bit 24 w), ucast (drop_bit 16 w), ucast (drop_bit 8 w), ucast w]"

unbundle bit_operations_syntax

fun from_be_bytes :: "bytes \<Rightarrow> 32 word" where
  "from_be_bytes [a, b, c, d] =
     push_bit 24 (ucast a) OR push_bit 16 (ucast b) OR push_bit 8 (ucast c) OR ucast d"
| "from_be_bytes _ = 0"

lemma from_to_be_bytes [simp]: "from_be_bytes (to_be_bytes w) = w"
proof (rule bit_word_eqI)
  fix n
  assume "n < LENGTH(32)"
  then consider "n < 8" | "8 \<le> n" "n < 16" | "16 \<le> n" "n < 24" | "24 \<le> n" "n < 32"
    by fastforce
  then show "bit (from_be_bytes (to_be_bytes w)) n \<longleftrightarrow> bit w n"
    by cases (auto simp: to_be_bytes_def bit_simps)
qed

lemma to_from_be_bytes: "length bs = 4 \<Longrightarrow> to_be_bytes (from_be_bytes bs) = bs"
proof -
  assume "length bs = 4"
  then obtain a b c d where bs: "bs = [a, b, c, d]"
    by (auto simp: numeral_eq_Suc length_Suc_conv)
  show ?thesis
    unfolding bs to_be_bytes_def from_be_bytes.simps list.inject
    by (intro conjI refl bit_word_eqI) (auto simp: bit_simps dest: bit_imp_le_length)
qed

lemma length_to_be_bytes [simp]: "length (to_be_bytes w) = 4"
  by (simp add: to_be_bytes_def)

section \<open>Chunks\<close>

definition encode_chunk :: "'img png_env \<Rightarrow> bytes \<Rightarrow> bytes \<Rightarrow> bytes badge_result" where
  "encode_chunk env kind dat =
     (if int (length dat) < 2 ^ 32 then
        Inr (to_be_bytes (of_nat (length dat)) @ kind @ dat @ to_be_bytes (pe_crc32 env (kind @ dat)))
      else Inl PngLimitExceeded)"

definition read_chunk ::
    "'img png_env \<Rightarrow> bytes \<Rightarrow> nat \<Rightarrow> (bytes \<times> bytes \<times> nat) badge_result" where
  "read_chunk env png offset =
     and_then (ok_or InvalidPng (slice png offset (offset + 8))) (\<lambda>header.
     let len = unat (from_be_bytes (take 4 header)) in
     if int len > MAX_PNG_SIZE then Inl PngLimitExceeded
     else and_then (ok_or InvalidPng
            (case checked_add offset 12 of None \<Rightarrow> None | Some v \<Rightarrow> checked_add v len)) (\<lambda>end_offset.
       and_then (ok_or InvalidPng (slice png offset end_offset)) (\<lambda>chunk.
       let kind = take 4 (drop 4 chunk);
           dat = take len (drop 8 chunk);
           expected_crc = from_be_bytes (take 4 (drop (8 + len) chunk)) in
       if pe_crc32 env (kind @ dat) \<noteq> expected_crc then Inl InvalidPng
       else Inr (kind, dat, end_offset))))"

definition parse_credential_itxt :: "bytes \<Rightarrow> bytes badge_result" where
  "parse_credential_itxt dat =
     (let prefix_length = length CREDENTIAL_KEYWORD + 5 in
      if int (length dat) > int prefix_length + MAX_CREDENTIAL_SIZE
         \<or> slice dat 0 (length CREDENTIAL_KEYWORD) \<noteq> Some CREDENTIAL_KEYWORD
         \<or> slice dat (length CREDENTIAL_KEYWORD) prefix_length \<noteq> Some [0, 0, 0, 0, 0]
      then Inl InvalidPng
      else Inr (drop prefix_length dat))"

lemma read_chunk_forward: "read_chunk env png offset = Inr (kind, dat, next) \<Longrightarrow> offset < next"
  by (auto simp: read_chunk_def and_then_eq_Inr ok_or_eq_Inr Let_def checked_add_def
      split: if_splits option.splits)

section \<open>Baking\<close>

text \<open>The search for the terminator in \<^verbatim>\<open>insert_credential_chunk\<close>.\<close>

function find_iend :: "'img png_env \<Rightarrow> bytes \<Rightarrow> nat \<Rightarrow> nat option badge_result" where
  "find_iend env png cursor =
     (if cursor < length png then
        case read_chunk env png cursor of
          Inl e \<Rightarrow> Inl e
        | Inr (kind, _, next) \<Rightarrow>
            if kind = IEND then Inr (Some cursor) else find_iend env png next
      else Inr None)"
  by auto
termination
  by (relation "measure (\<lambda>(_, png, cursor). length png - cursor)") (auto dest!: read_chunk_forward)

definition insert_credential_chunk :: "'img png_env \<Rightarrow> bytes \<Rightarrow> bytes \<Rightarrow> bytes badge_result" where
  "insert_credential_chunk env png credential =
     and_then (find_iend env png (length PNG_SIGNATURE)) (\<lambda>found.
     and_then (ok_or InvalidPng found) (\<lambda>iend_offset.
     and_then (encode_chunk env ITXT (CREDENTIAL_KEYWORD @ [0, 0, 0, 0, 0] @ credential)) (\<lambda>chunk.
     Inr (take iend_offset png @ chunk @ drop iend_offset png))))"

definition bake :: "'img png_env \<Rightarrow> bytes \<Rightarrow> bytes \<Rightarrow> bytes badge_result" where
  "bake env source credential =
     (if int (length source) > MAX_PNG_SIZE \<or> int (length credential) > MAX_CREDENTIAL_SIZE
      then Inl PngLimitExceeded
      else and_then (ok_or InvalidImage (pe_decode env source)) (\<lambda>image.
        if pe_dimensions env image \<noteq> (512, 512) then Inl InvalidImage
        else and_then (ok_or InvalidImage (pe_write_png env image)) (\<lambda>png.
          insert_credential_chunk env png credential)))"

section \<open>Extraction\<close>

definition validate_png_image :: "'img png_env \<Rightarrow> bytes \<Rightarrow> unit badge_result" where
  "validate_png_image env png =
     and_then (ok_or InvalidPng (pe_decode_png env png)) (\<lambda>image.
     if pe_dimensions env image \<noteq> (512, 512) then Inl InvalidPng else Inr ())"

text \<open>One turn of the scan's credential test, and the scan.\<close>

definition note_credential ::
    "bytes \<Rightarrow> bytes \<Rightarrow> bytes option \<Rightarrow> bytes option badge_result" where
  "note_credential kind dat credential =
     (if kind = ITXT \<and> prefix CREDENTIAL_KEYWORD dat then
        and_then (parse_credential_itxt dat) (\<lambda>content.
        if credential \<noteq> None then Inl InvalidPng else Inr (Some content))
      else Inr credential)"

function scan_chunks ::
    "'img png_env \<Rightarrow> bytes \<Rightarrow> nat \<Rightarrow> int \<Rightarrow> bytes option \<Rightarrow> (bytes option \<times> bool) badge_result" where
  "scan_chunks env png cursor chunks credential =
     (if cursor < length png then
        if chunks + 1 > MAX_PNG_CHUNKS then Inl PngLimitExceeded
        else case read_chunk env png cursor of
          Inl e \<Rightarrow> Inl e
        | Inr (kind, dat, next) \<Rightarrow>
            (case note_credential kind dat credential of
               Inl e \<Rightarrow> Inl e
             | Inr credential' \<Rightarrow>
                 if kind = IEND then
                   if next \<noteq> length png then Inl InvalidPng else Inr (credential', True)
                 else scan_chunks env png next (chunks + 1) credential')
      else Inr (credential, False))"
  by auto
termination
  by (relation "measure (\<lambda>(_, png, cursor, _). length png - cursor)") (auto dest!: read_chunk_forward)

definition png_extract :: "'img png_env \<Rightarrow> bytes \<Rightarrow> bytes badge_result" where
  "png_extract env png =
     (if int (length png) > MAX_PNG_SIZE \<or> \<not> prefix PNG_SIGNATURE png then Inl InvalidPng
      else and_then (validate_png_image env png) (\<lambda>_.
        and_then (scan_chunks env png (length PNG_SIGNATURE) 0 None) (\<lambda>(credential, found_iend).
        if \<not> found_iend then Inl InvalidPng else ok_or InvalidPng credential)))"

declare find_iend.simps [simp del] scan_chunks.simps [simp del]

section \<open>Chunk streams\<close>

text \<open>
  The specification side: a PNG stream is the signature followed by the encodings of its chunks, the
  last of which is its only terminator.
\<close>

type_synonym chunk = "bytes \<times> bytes"

definition chunk_bytes :: "'img png_env \<Rightarrow> chunk \<Rightarrow> bytes" where
  "chunk_bytes env c =
     to_be_bytes (of_nat (length (snd c))) @ fst c @ snd c @ to_be_bytes (pe_crc32 env (fst c @ snd c))"

definition legal_chunk :: "chunk \<Rightarrow> bool" where
  "legal_chunk c \<longleftrightarrow> length (fst c) = 4 \<and> int (length (snd c)) \<le> MAX_PNG_SIZE"

definition credential_chunk :: "chunk \<Rightarrow> bool" where
  "credential_chunk c \<longleftrightarrow> fst c = ITXT \<and> prefix CREDENTIAL_KEYWORD (snd c)"

definition chunk_stream :: "'img png_env \<Rightarrow> chunk list \<Rightarrow> bytes" where
  "chunk_stream env cs = concat (map (chunk_bytes env) cs)"

definition png_stream :: "'img png_env \<Rightarrow> chunk list \<Rightarrow> bytes \<Rightarrow> bytes" where
  "png_stream env cs trailer = PNG_SIGNATURE @ chunk_stream env (cs @ [(IEND, trailer)])"

definition inner_chunk :: "chunk \<Rightarrow> bool" where
  "inner_chunk c \<longleftrightarrow> legal_chunk c \<and> fst c \<noteq> IEND"

definition credential_data :: "bytes \<Rightarrow> bytes" where
  "credential_data credential = CREDENTIAL_KEYWORD @ [0, 0, 0, 0, 0] @ credential"

lemma length_constants [simp]:
  "length CREDENTIAL_KEYWORD = 19" "length IEND = 4" "length ITXT = 4" "length PNG_SIGNATURE = 8"
  by (simp_all add: CREDENTIAL_KEYWORD_def IEND_def ITXT_def PNG_SIGNATURE_def byte_string_def)

lemma ITXT_IEND [simp]: "ITXT \<noteq> IEND" "IEND \<noteq> ITXT"
  by (simp_all add: ITXT_def IEND_def byte_string_def of_char_def)

lemma chunk_stream_simps [simp]:
  "chunk_stream env [] = []"
  "chunk_stream env (c # cs) = chunk_bytes env c @ chunk_stream env cs"
  "chunk_stream env (cs @ ds) = chunk_stream env cs @ chunk_stream env ds"
  by (simp_all add: chunk_stream_def)

lemma length_chunk_bytes: "length (chunk_bytes env c) = 8 + length (fst c) + length (snd c)"
  by (simp add: chunk_bytes_def)

lemma chunk_bytes_nonempty [simp]: "chunk_bytes env c \<noteq> []"
  using length_chunk_bytes [of env c] by auto

lemma encode_chunk_legal:
  "int (length dat) < 2 ^ 32 \<Longrightarrow> encode_chunk env kind dat = Inr (chunk_bytes env (kind, dat))"
  by (simp add: encode_chunk_def chunk_bytes_def)

lemma unat_small: "int n \<le> MAX_PNG_SIZE \<Longrightarrow> unat (of_nat n :: 32 word) = n"
  by (simp add: MAX_PNG_SIZE_def unat_of_nat)

lemma uint_small: "int n \<le> MAX_PNG_SIZE \<Longrightarrow> uint (of_nat n :: 32 word) = int n"
  using unat_small [of n] by (metis of_nat_unat)

text \<open>Reading is the inverse of encoding, at any position of a stream.\<close>

lemma read_chunk_encoded:
  assumes "legal_chunk (kind, dat)" and "int (length (pre @ chunk_bytes env (kind, dat))) < 2 ^ 64"
  shows "read_chunk env (pre @ chunk_bytes env (kind, dat) @ post) (length pre) =
    Inr (kind, dat, length pre + 12 + length dat)"
proof -
  have len: "length kind = 4" "int (length dat) \<le> MAX_PNG_SIZE"
    using assms(1) by (simp_all add: legal_chunk_def)
  have bound: "int (length pre) + 12 + int (length dat) < 2 ^ 64"
    using assms(2) len by (simp add: length_chunk_bytes)
  show ?thesis
    using len bound
    by (simp add: read_chunk_def slice_def chunk_bytes_def checked_add_def unat_small uint_small Let_def)
qed

lemma read_chunk_sound:
  assumes "read_chunk env png offset = Inr (kind, dat, nxt)"
  shows "legal_chunk (kind, dat)" and "nxt = offset + 12 + length dat"
    and "\<exists>pre post. png = pre @ chunk_bytes env (kind, dat) @ post \<and> length pre = offset"
proof -
  define w where "w = from_be_bytes (take 4 (drop offset png))"
  define chunk where "chunk = take (12 + unat w) (drop offset png)"
  have read: "int (unat w) \<le> MAX_PNG_SIZE" "nxt = offset + 12 + unat w" "nxt \<le> length png"
    "kind = take 4 (drop 4 chunk)" "dat = take (unat w) (drop 8 chunk)"
    "from_be_bytes (take 4 (drop (8 + unat w) chunk)) = pe_crc32 env (kind @ dat)"
    using assms
    by (auto simp: read_chunk_def and_then_eq_Inr ok_or_eq_Inr slice_def checked_add_def Let_def
        w_def chunk_def split: if_splits option.splits)
  have len: "length chunk = 12 + unat w"
    using read(2,3) by (simp add: chunk_def)
  have dat: "length dat = unat w" "length kind = 4"
    using len by (simp_all add: read(4,5))
  show "legal_chunk (kind, dat)" "nxt = offset + 12 + length dat"
    using read(1,2) dat by (simp_all add: legal_chunk_def)
  have "take 4 chunk = to_be_bytes (of_nat (length dat))"
    using to_from_be_bytes [of "take 4 (drop offset png)"] read(2,3) dat
    by (simp add: chunk_def w_def [symmetric] min_def)
  moreover have "take 4 (drop (8 + unat w) chunk) = to_be_bytes (pe_crc32 env (kind @ dat))"
    using to_from_be_bytes [of "take 4 (drop (8 + unat w) chunk)"] len read(6) by simp
  moreover have "chunk = take 4 chunk @ take 4 (drop 4 chunk) @ take (unat w) (drop 8 chunk) @
      take 4 (drop (8 + unat w) chunk)"
    using len take_add [of 4 4 chunk] take_add [of 8 "unat w" chunk] take_add [of "8 + unat w" 4 chunk]
    by (simp add: add.commute)
  ultimately have "chunk = chunk_bytes env (kind, dat)"
    by (simp add: chunk_bytes_def read(4,5) [symmetric])
  then have "png = take offset png @ chunk_bytes env (kind, dat) @ drop nxt png"
    by (metis append_take_drop_id chunk_def drop_drop read(2) add.assoc add.commute)
  then show "\<exists>pre post. png = pre @ chunk_bytes env (kind, dat) @ post \<and> length pre = offset"
    using read(2,3) by (intro exI [of _ "take offset png"] exI [of _ "drop nxt png"]) simp
qed

lemma parse_credential_itxt_iff:
  "parse_credential_itxt dat = Inr content \<longleftrightarrow>
     dat = credential_data content \<and> int (length content) \<le> MAX_CREDENTIAL_SIZE"
proof
  assume parsed: "parse_credential_itxt dat = Inr content"
  then have dat: "take 19 dat = CREDENTIAL_KEYWORD" "take 5 (drop 19 dat) = [0, 0, 0, 0, 0]"
      "content = drop 24 dat" "24 \<le> length dat" "int (length dat) \<le> 24 + MAX_CREDENTIAL_SIZE"
    by (auto simp: parse_credential_itxt_def slice_def Let_def split: if_splits)
  have "dat = take 19 dat @ take 5 (drop 19 dat) @ drop 24 dat"
    using append_take_drop_id [of 5 "drop 19 dat"] by simp
  then show "dat = credential_data content \<and> int (length content) \<le> MAX_CREDENTIAL_SIZE"
    using dat by (simp add: credential_data_def of_nat_diff)
next
  assume "dat = credential_data content \<and> int (length content) \<le> MAX_CREDENTIAL_SIZE"
  then show "parse_credential_itxt dat = Inr content"
    by (simp add: parse_credential_itxt_def slice_def credential_data_def Let_def)
qed

text \<open>What the scan has noted after a list of chunks.\<close>

fun collect :: "chunk list \<Rightarrow> bytes option \<Rightarrow> bytes option badge_result" where
  "collect [] credential = Inr credential"
| "collect (c # cs) credential =
     and_then (note_credential (fst c) (snd c) credential) (collect cs)"

lemma note_credential_iff:
  "note_credential kind dat credential = Inr credential' \<longleftrightarrow>
     (if credential_chunk (kind, dat) then
        credential = None \<and> (\<exists>x. credential' = Some x \<and> dat = credential_data x \<and>
          int (length x) \<le> MAX_CREDENTIAL_SIZE)
      else credential' = credential)"
  by (auto simp: note_credential_def credential_chunk_def and_then_eq_Inr parse_credential_itxt_iff)

lemma collect_Some:
  "collect cs (Some x) = Inr r \<longleftrightarrow> r = Some x \<and> filter credential_chunk cs = []"
  by (induction cs) (auto simp: and_then_eq_Inr note_credential_iff)

lemma credential_chunk_data [simp]: "credential_chunk (kind, credential_data x) \<longleftrightarrow> kind = ITXT"
  by (simp add: credential_chunk_def credential_data_def)

lemma credential_data_inj [simp]: "credential_data x = credential_data y \<longleftrightarrow> x = y"
  by (simp add: credential_data_def)

lemma credential_chunk_kind: "credential_chunk (kind, dat) \<Longrightarrow> kind = ITXT"
  by (simp add: credential_chunk_def)

lemma collect_None:
  "collect cs None = Inr (Some x) \<longleftrightarrow>
     filter credential_chunk cs = [(ITXT, credential_data x)] \<and> int (length x) \<le> MAX_CREDENTIAL_SIZE"
proof (induction cs)
  case (Cons c cs)
  then show ?case
    by (cases c)
      (auto simp: and_then_eq_Inr note_credential_iff collect_Some dest: credential_chunk_kind)
qed simp

lemma note_credential_IEND [simp]: "note_credential IEND dat credential = Inr credential"
  by (simp add: note_credential_def)

lemma scan_chunks_stream:
  assumes "list_all inner_chunk cs" and "legal_chunk (IEND, trailer)"
    and "int (length (pre @ chunk_stream env (cs @ [(IEND, trailer)]))) < 2 ^ 64"
    and "n + int (length cs) + 1 \<le> MAX_PNG_CHUNKS"
  shows "scan_chunks env (pre @ chunk_stream env (cs @ [(IEND, trailer)])) (length pre) n credential =
    and_then (collect cs credential) (\<lambda>c. Inr (c, True))"
  using assms
proof (induction cs arbitrary: pre n credential)
  case Nil
  then show ?case
    using read_chunk_encoded [of IEND trailer pre env "[]"]
    by (subst scan_chunks.simps) (simp add: length_chunk_bytes)
next
  case (Cons c cs)
  obtain kind dat where c: "c = (kind, dat)"
    by (cases c)
  let ?rest = "chunk_stream env (cs @ [(IEND, trailer)])"
  have inner: "legal_chunk (kind, dat)" "kind \<noteq> IEND"
    using Cons.prems(1) by (simp_all add: c inner_chunk_def)
  have nxt: "length pre + 12 + length dat = length (pre @ chunk_bytes env c)"
    using inner(1) by (simp add: c length_chunk_bytes legal_chunk_def)
  have "read_chunk env (pre @ chunk_bytes env c @ ?rest) (length pre) =
      Inr (kind, dat, length (pre @ chunk_bytes env c))"
    using read_chunk_encoded [OF inner(1), of pre env ?rest] Cons.prems(3) nxt by (simp add: c)
  moreover have "scan_chunks env ((pre @ chunk_bytes env c) @ ?rest)
      (length (pre @ chunk_bytes env c)) (n + 1) cr =
      and_then (collect cs cr) (\<lambda>c. Inr (c, True))" for cr
    using Cons.prems by (intro Cons.IH) (simp_all add: algebra_simps)
  ultimately show ?case
    using Cons.prems(4) inner(2)
    by (subst scan_chunks.simps) (auto simp: c and_then_def split: sum.split)
qed

lemma scan_chunks_found:
  assumes "scan_chunks env png cursor n credential = Inr (credential', True)"
  shows "\<exists>cs trailer. drop cursor png = chunk_stream env (cs @ [(IEND, trailer)]) \<and>
    list_all inner_chunk cs \<and> legal_chunk (IEND, trailer) \<and>
    n + int (length cs) + 1 \<le> MAX_PNG_CHUNKS \<and> collect cs credential = Inr credential'"
  using assms
proof (induction env png cursor n credential rule: scan_chunks.induct)
  case (1 env png cursor n credential)
  from "1.prems" obtain kind dat nxt cr where
    here: "cursor < length png" "n + 1 \<le> MAX_PNG_CHUNKS"
      "read_chunk env png cursor = Inr (kind, dat, nxt)"
      "note_credential kind dat credential = Inr cr"
      and last: "kind = IEND \<Longrightarrow> nxt = length png \<and> credential' = cr"
      and more: "kind \<noteq> IEND \<Longrightarrow> scan_chunks env png nxt (n + 1) cr = Inr (credential', True)"
    by (subst (asm) scan_chunks.simps) (auto split: if_splits sum.splits)
  note sound = read_chunk_sound [OF here(3)]
  obtain pre post where png: "png = pre @ chunk_bytes env (kind, dat) @ post" "length pre = cursor"
    using sound(3) by blast
  have nxt: "nxt = length (pre @ chunk_bytes env (kind, dat))"
    using sound(1,2) png(2) by (simp add: length_chunk_bytes legal_chunk_def)
  show ?case
  proof (cases "kind = IEND")
    case True
    then have "post = []"
      using last nxt by (simp add: png(1))
    then show ?thesis
      using True last here(2,4) sound(1) png
      by (intro exI [of _ "[]"] exI [of _ dat]) simp
  next
    case False
    then obtain cs trailer where rest: "drop nxt png = chunk_stream env (cs @ [(IEND, trailer)])"
        "list_all inner_chunk cs" "legal_chunk (IEND, trailer)"
        "n + 1 + int (length cs) + 1 \<le> MAX_PNG_CHUNKS" "collect cs cr = Inr credential'"
      using "1.IH" [OF here(1) _ here(3) refl refl here(4)] more here(2) by auto
    then show ?thesis
      using False here(4) sound(1) png nxt inner_chunk_def [of "(kind, dat)"]
      by (intro exI [of _ "(kind, dat) # cs"] exI [of _ trailer]) simp
  qed
qed

lemma find_iend_stream:
  assumes "list_all inner_chunk cs" and "legal_chunk (IEND, trailer)"
    and "int (length (pre @ chunk_stream env (cs @ [(IEND, trailer)]))) < 2 ^ 64"
  shows "find_iend env (pre @ chunk_stream env (cs @ [(IEND, trailer)])) (length pre) =
    Inr (Some (length (pre @ chunk_stream env cs)))"
  using assms
proof (induction cs arbitrary: pre)
  case Nil
  then show ?case
    using read_chunk_encoded [of IEND trailer pre env "[]"]
    by (subst find_iend.simps) (simp add: length_chunk_bytes)
next
  case (Cons c cs)
  obtain kind dat where c: "c = (kind, dat)"
    by (cases c)
  let ?rest = "chunk_stream env (cs @ [(IEND, trailer)])"
  have inner: "legal_chunk (kind, dat)" "kind \<noteq> IEND"
    using Cons.prems(1) by (simp_all add: c inner_chunk_def)
  have "read_chunk env (pre @ chunk_bytes env c @ ?rest) (length pre) =
      Inr (kind, dat, length (pre @ chunk_bytes env c))"
    using read_chunk_encoded [OF inner(1), of pre env ?rest] Cons.prems(3) inner(1)
    by (simp add: c length_chunk_bytes legal_chunk_def)
  moreover have "find_iend env ((pre @ chunk_bytes env c) @ ?rest) (length (pre @ chunk_bytes env c)) =
      Inr (Some (length ((pre @ chunk_bytes env c) @ chunk_stream env cs)))"
    using Cons.prems by (intro Cons.IH) simp_all
  ultimately show ?case
    using inner(2) by (subst find_iend.simps) simp
qed

lemma insert_credential_stream:
  assumes "list_all inner_chunk cs" and "legal_chunk (IEND, trailer)"
    and "int (length (png_stream env cs trailer)) < 2 ^ 64"
    and "int (length credential) \<le> MAX_CREDENTIAL_SIZE"
  shows "insert_credential_chunk env (png_stream env cs trailer) credential =
    Inr (png_stream env (cs @ [(ITXT, credential_data credential)]) trailer)"
proof -
  have "encode_chunk env ITXT (CREDENTIAL_KEYWORD @ [0, 0, 0, 0, 0] @ credential) =
      Inr (chunk_bytes env (ITXT, credential_data credential))"
    using assms(4) encode_chunk_legal [of "credential_data credential" env ITXT]
    by (simp add: credential_data_def MAX_CREDENTIAL_SIZE_def)
  then show ?thesis
    using find_iend_stream [OF assms(1,2), of PNG_SIGNATURE env] assms(3)
    by (simp add: insert_credential_chunk_def png_stream_def)
qed

lemma png_extract_iff:
  "png_extract env png = Inr credential \<longleftrightarrow>
     int (length png) \<le> MAX_PNG_SIZE \<and>
     (\<exists>image. pe_decode_png env png = Some image \<and> pe_dimensions env image = (512, 512)) \<and>
     (\<exists>cs trailer. png = png_stream env cs trailer \<and> list_all inner_chunk cs \<and>
        legal_chunk (IEND, trailer) \<and> int (length cs) + 1 \<le> MAX_PNG_CHUNKS \<and>
        filter credential_chunk cs = [(ITXT, credential_data credential)] \<and>
        int (length credential) \<le> MAX_CREDENTIAL_SIZE)"
  (is "?extracted \<longleftrightarrow> ?fits \<and> ?image \<and> ?stream")
proof
  assume ?extracted
  then have scan: "?fits" "prefix PNG_SIGNATURE png" "?image"
      "scan_chunks env png 8 0 None = Inr (Some credential, True)"
    by (auto simp: png_extract_def validate_png_image_def and_then_eq_Inr ok_or_eq_Inr
        split: if_splits)
  then obtain cs trailer where "drop 8 png = chunk_stream env (cs @ [(IEND, trailer)])"
      "list_all inner_chunk cs" "legal_chunk (IEND, trailer)"
      "int (length cs) + 1 \<le> MAX_PNG_CHUNKS" "collect cs None = Inr (Some credential)"
    using scan_chunks_found [of env png 8 0 None "Some credential"] by auto
  moreover have "png = PNG_SIGNATURE @ drop 8 png"
    using scan(2) by (auto simp: prefix_def)
  ultimately have ?stream
    unfolding png_stream_def collect_None by metis
  then show "?fits \<and> ?image \<and> ?stream"
    using scan by blast
next
  assume "?fits \<and> ?image \<and> ?stream"
  then obtain image cs trailer where png: "png = png_stream env cs trailer"
      "list_all inner_chunk cs" "legal_chunk (IEND, trailer)" "int (length cs) + 1 \<le> MAX_PNG_CHUNKS"
      "collect cs None = Inr (Some credential)" and ?fits
      and "pe_decode_png env png = Some image" "pe_dimensions env image = (512, 512)"
    unfolding collect_None by blast
  moreover have "scan_chunks env png 8 0 None = Inr (Some credential, True)"
    using scan_chunks_stream [OF png(2,3), of PNG_SIGNATURE env 0 None] \<open>?fits\<close> png
    by (simp add: png_stream_def MAX_PNG_SIZE_def)
  ultimately show ?extracted
    by (simp add: png_extract_def validate_png_image_def png_stream_def)
qed

section \<open>Properties\<close>

text \<open>
  What extraction accepts, exactly. A file yields a credential if and only if it fits the size limit,
  decodes to a 512 by 512 image within the reader's limits, and is the PNG signature followed by at
  most 4096 chunks with correct lengths and checksums, of which the last and no other is IEND and
  exactly one is a credential chunk, uncompressed and within its own limit; the credential
  is the content of that chunk.
\<close>

theorem extract_accepts_exactly:
  "png_extract env png = Inr credential \<longleftrightarrow>
     int (length png) \<le> MAX_PNG_SIZE \<and>
     (\<exists>image. pe_decode_png env png = Some image \<and> pe_dimensions env image = (512, 512)) \<and>
     (\<exists>cs trailer. png = png_stream env cs trailer \<and> list_all inner_chunk cs \<and>
        legal_chunk (IEND, trailer) \<and> int (length cs) + 1 \<le> MAX_PNG_CHUNKS \<and>
        filter credential_chunk cs = [(ITXT, credential_data credential)] \<and>
        int (length credential) \<le> MAX_CREDENTIAL_SIZE)"
  by (rule png_extract_iff)

text \<open>
  The documented behaviour of the image codec that baking relies on: the encoder writes a
  well-formed stream of a few chunks with no text in it, and the bounded decoder accepts the
  encoder's image at its dimensions whether or not a text chunk stands before the terminator.
\<close>

definition encodes_plainly :: "'img png_env \<Rightarrow> 'img \<Rightarrow> chunk list \<Rightarrow> bytes \<Rightarrow> bool" where
  "encodes_plainly env img cs trailer \<longleftrightarrow>
     pe_write_png env img = Some (png_stream env cs trailer) \<and> list_all inner_chunk cs \<and>
     legal_chunk (IEND, trailer) \<and> filter credential_chunk cs = [] \<and>
     int (length cs) + 2 \<le> MAX_PNG_CHUNKS"

definition ignores_text :: "'img png_env \<Rightarrow> 'img \<Rightarrow> chunk list \<Rightarrow> bytes \<Rightarrow> bool" where
  "ignores_text env img cs trailer \<longleftrightarrow>
     (\<forall>content. \<exists>img'. pe_decode_png env (png_stream env (cs @ [(ITXT, content)]) trailer) = Some img' \<and>
        pe_dimensions env img' = pe_dimensions env img)"

lemma baked_credential_extracted:
  assumes "pe_decode env source = Some img" and "pe_dimensions env img = (512, 512)"
    and "encodes_plainly env img cs trailer" and "ignores_text env img cs trailer"
    and "int (length source) \<le> MAX_PNG_SIZE" and "int (length credential) \<le> MAX_CREDENTIAL_SIZE"
    and "int (length (png_stream env (cs @ [(ITXT, credential_data credential)]) trailer)) \<le> MAX_PNG_SIZE"
  shows "\<exists>png. bake env source credential = Inr png \<and>
    png = png_stream env (cs @ [(ITXT, credential_data credential)]) trailer \<and>
    png_extract env png = Inr credential"
proof -
  let ?png = "png_stream env (cs @ [(ITXT, credential_data credential)]) trailer"
  have cs: "list_all inner_chunk cs" "legal_chunk (IEND, trailer)" "filter credential_chunk cs = []"
      "int (length cs) + 2 \<le> MAX_PNG_CHUNKS" "pe_write_png env img = Some (png_stream env cs trailer)"
    using assms(3) by (simp_all add: encodes_plainly_def)
  have short: "int (length (png_stream env cs trailer)) < 2 ^ 64"
    using assms(7) by (simp add: png_stream_def MAX_PNG_SIZE_def)
  have "inner_chunk (ITXT, credential_data credential)"
    using assms(6)
    by (simp add: inner_chunk_def legal_chunk_def credential_data_def MAX_CREDENTIAL_SIZE_def MAX_PNG_SIZE_def)
  then have "?png = png_stream env (cs @ [(ITXT, credential_data credential)]) trailer \<and>
      list_all inner_chunk (cs @ [(ITXT, credential_data credential)]) \<and> legal_chunk (IEND, trailer) \<and>
      int (length (cs @ [(ITXT, credential_data credential)])) + 1 \<le> MAX_PNG_CHUNKS \<and>
      filter credential_chunk (cs @ [(ITXT, credential_data credential)]) =
        [(ITXT, credential_data credential)]"
    using cs by simp
  moreover have "\<exists>img'. pe_decode_png env ?png = Some img' \<and> pe_dimensions env img' = (512, 512)"
    using assms(2,4) by (simp add: ignores_text_def)
  ultimately have "png_extract env ?png = Inr credential"
    using assms(6,7) unfolding png_extract_iff by blast
  then show ?thesis
    using assms(1,2,5,6) cs insert_credential_stream [OF cs(1,2) short assms(6)]
    by (simp add: bake_def)
qed

text \<open>
  What is baked comes back. For artwork of the right dimensions and a credential within its limit
  baking succeeds, its result is the encoder's stream with one chunk inserted before the
  terminator, and, as long as that result fits the size limit of uploads, extraction
  returns the very credential.
\<close>

theorem bake_extract_round_trip:
  assumes "pe_decode env source = Some img" and "pe_dimensions env img = (512, 512)"
    and "encodes_plainly env img cs trailer" and "ignores_text env img cs trailer"
    and "int (length source) \<le> MAX_PNG_SIZE" and "int (length credential) \<le> MAX_CREDENTIAL_SIZE"
    and "int (length (png_stream env (cs @ [(ITXT, credential_data credential)]) trailer)) \<le> MAX_PNG_SIZE"
  shows "\<exists>png. bake env source credential = Inr png \<and>
    png = png_stream env (cs @ [(ITXT, credential_data credential)]) trailer \<and>
    png_extract env png = Inr credential"
  using assms by (rule baked_credential_extracted)

text \<open>A codec whose images are all of the badge dimensions, and its empty drawing.\<close>

definition sample_png_env :: "unit png_env" where
  "sample_png_env = \<lparr>pe_crc32 = (\<lambda>bs. of_nat (length bs)), pe_decode = (\<lambda>_. Some ()),
     pe_decode_png = (\<lambda>_. Some ()), pe_dimensions = (\<lambda>_. (512, 512)),
     pe_write_png = (\<lambda>_. Some (PNG_SIGNATURE @
       [0, 0, 0, 1, 0x49, 0x48, 0x44, 0x52, 7, 0, 0, 0, 5] @ [0, 0, 0, 0, 0x49, 0x45, 0x4E, 0x44, 0, 0, 0, 4]))\<rparr>"

abbreviation sample_header :: "chunk list" where
  "sample_header \<equiv> [([0x49, 0x48, 0x44, 0x52], [7])]"

lemma sample_codec:
  "encodes_plainly sample_png_env () sample_header []" "ignores_text sample_png_env () sample_header []"
  "int (length (png_stream sample_png_env (sample_header @ [(ITXT, credential_data [1, 2, 3])]) [])) \<le> MAX_PNG_SIZE"
  by (code_simp, simp add: ignores_text_def sample_png_env_def, code_simp)

theorem bake_extract_round_trip_witness:
  "\<exists>png. bake sample_png_env [] [1, 2, 3] = Inr png \<and>
     png = png_stream sample_png_env (sample_header @ [(ITXT, credential_data [1, 2, 3])]) [] \<and>
     png_extract sample_png_env png = Inr [1, 2, 3]"
  by (rule bake_extract_round_trip [OF _ _ sample_codec(1,2) _ _ sample_codec(3)])
    (simp_all add: sample_png_env_def MAX_PNG_SIZE_def MAX_CREDENTIAL_SIZE_def)

end
