(* ===== verification/Badge_Status.thy ===== *)
theory Badge_Status
  imports Badge_Png
begin

text \<open>
  The revocation status lists of badge credentials (\<^verbatim>\<open>ocg-server/src/services/badges/status.rs\<close>):
  the bit string that a list publishes and the cache of signed lists. An \<^verbatim>\<open>i32\<close> is an integer in its
  range; the indexes come from the database as such. The gzip and base64 encoders are arguments, and
  so are the operations of the LRU cache, which lives in the world.
\<close>

section \<open>The bit string\<close>

definition STATUS_LIST_ENTRIES :: nat where
  "STATUS_LIST_ENTRIES = 131072"

definition STATUS_LIST_SIZE :: nat where
  "STATUS_LIST_SIZE = STATUS_LIST_ENTRIES div 8"

definition STATUS_LIST_TTL_MS :: int where
  "STATUS_LIST_TTL_MS = 600000"

text \<open>One turn of the loop over the revoked indexes, and the loop.\<close>

definition set_status_bit :: "int \<Rightarrow> bytes \<Rightarrow> bytes badge_result" where
  "set_status_bit index bs =
     (if index < 0 then Inl InvalidStatusList
      else if index \<ge> int STATUS_LIST_ENTRIES then Inl InvalidStatusList
      else let i = nat index in
        Inr (bs[i div 8 := (bs ! (i div 8)) OR push_bit (7 - i mod 8) 1]))"

fun set_status_bits :: "int list \<Rightarrow> bytes \<Rightarrow> bytes badge_result" where
  "set_status_bits [] bs = Inr bs"
| "set_status_bits (index # rest) bs = and_then (set_status_bit index bs) (set_status_bits rest)"

record status_codec =
  sc_gzip :: "bytes \<Rightarrow> bytes option"
  sc_base64url :: "bytes \<Rightarrow> string"

definition encode_status_list :: "status_codec \<Rightarrow> int list \<Rightarrow> string badge_result" where
  "encode_status_list codec revoked_indexes =
     and_then (set_status_bits revoked_indexes (replicate STATUS_LIST_SIZE 0)) (\<lambda>bs.
     and_then (ok_or InvalidStatusList (sc_gzip codec bs)) (\<lambda>compressed.
     Inr (''u'' @ sc_base64url codec compressed)))"

text \<open>How a verifier reads the list: entry \<open>i\<close> counts from the most significant bit of the first byte.\<close>

definition status_entry :: "bytes \<Rightarrow> nat \<Rightarrow> bool" where
  "status_entry bs i \<longleftrightarrow> bit (bs ! (i div 8)) (7 - i mod 8)"

lemma byte_bit_set:
  "i < 8 \<Longrightarrow> j < 8 \<Longrightarrow> bit (b OR push_bit (7 - i) 1 :: 8 word) (7 - j) \<longleftrightarrow> bit b (7 - j) \<or> i = j"
  by (auto simp: bit_simps)

lemma status_entry_set:
  assumes "length bs = STATUS_LIST_SIZE" and "i < STATUS_LIST_ENTRIES" and "j < STATUS_LIST_ENTRIES"
  shows "status_entry (bs[i div 8 := (bs ! (i div 8)) OR push_bit (7 - i mod 8) 1]) j \<longleftrightarrow>
    status_entry bs j \<or> i = j"
proof (cases "i div 8 = j div 8")
  case True
  have "j div 8 < length bs"
    using assms by (simp add: STATUS_LIST_SIZE_def STATUS_LIST_ENTRIES_def)
  moreover have "i = j \<longleftrightarrow> i mod 8 = j mod 8"
    using True by (metis div_mult_mod_eq)
  ultimately show ?thesis
    using True byte_bit_set [of "i mod 8" "j mod 8"] by (simp add: status_entry_def)
next
  case False
  then show ?thesis
    by (auto simp: status_entry_def)
qed

lemma set_status_bits_result:
  assumes "length bs = STATUS_LIST_SIZE"
  shows "set_status_bits indexes bs = Inr bs' \<Longrightarrow>
    list_all (\<lambda>i. 0 \<le> i \<and> i < int STATUS_LIST_ENTRIES) indexes \<and> length bs' = STATUS_LIST_SIZE \<and>
    (\<forall>j<STATUS_LIST_ENTRIES. status_entry bs' j \<longleftrightarrow> status_entry bs j \<or> int j \<in> set indexes)"
  using assms
proof (induction indexes arbitrary: bs)
  case (Cons i indexes)
  then obtain bs1 where first: "set_status_bit i bs = Inr bs1" and rest: "set_status_bits indexes bs1 = Inr bs'"
    by (auto simp: and_then_eq_Inr)
  have i: "0 \<le> i" "i < int STATUS_LIST_ENTRIES"
    "bs1 = bs[nat i div 8 := (bs ! (nat i div 8)) OR push_bit (7 - nat i mod 8) 1]"
    using first by (auto simp: set_status_bit_def Let_def split: if_splits)
  then show ?case
    using Cons.IH [OF rest] Cons.prems(2) status_entry_set [OF Cons.prems(2), of "nat i"]
    by (auto simp: nat_less_iff)
qed simp

lemma set_status_bits_total:
  "list_all (\<lambda>i. 0 \<le> i \<and> i < int STATUS_LIST_ENTRIES) indexes \<Longrightarrow> \<exists>bs'. set_status_bits indexes bs = Inr bs'"
  by (induction indexes arbitrary: bs) (auto simp: set_status_bit_def Let_def)

lemma set_status_bits_error: "set_status_bits indexes bs = Inl e \<Longrightarrow> e = InvalidStatusList"
  by (induction indexes arbitrary: bs)
    (auto simp: set_status_bit_def and_then_def Let_def split: if_splits sum.splits)

text \<open>The reference: byte \<open>k\<close> of the list, bit by bit, from the set of revoked indexes alone.\<close>

definition reference_byte :: "int list \<Rightarrow> nat \<Rightarrow> 8 word" where
  "reference_byte revoked k = horner_sum of_bool 2 (map (\<lambda>n. int (8 * k + (7 - n)) \<in> set revoked) [0..<8])"

definition reference_status_list :: "int list \<Rightarrow> bytes option" where
  "reference_status_list revoked =
     (if list_all (\<lambda>i. 0 \<le> i \<and> i < 131072) revoked
      then Some (map (reference_byte revoked) [0..<16384]) else None)"

lemma bit_reference_byte:
  "n < 8 \<Longrightarrow> bit (reference_byte revoked k) n \<longleftrightarrow> int (8 * k + (7 - n)) \<in> set revoked"
  by (simp add: reference_byte_def bit_horner_sum_bit_word_iff algebra_simps)

lemma bytes_of_entries:
  assumes "length bs = STATUS_LIST_SIZE" and "\<forall>j<STATUS_LIST_ENTRIES. status_entry bs j \<longleftrightarrow> int j \<in> set revoked"
  shows "bs = map (reference_byte revoked) [0..<16384]"
proof (rule nth_equalityI)
  show "length bs = length (map (reference_byte revoked) [0..<16384])"
    using assms(1) by (simp add: STATUS_LIST_SIZE_def STATUS_LIST_ENTRIES_def)
next
  fix k
  assume "k < length bs"
  then have k: "k < 16384"
    using assms(1) by (simp add: STATUS_LIST_SIZE_def STATUS_LIST_ENTRIES_def)
  have "bs ! k = reference_byte revoked k"
  proof (rule bit_word_eqI)
    fix n
    assume "n < LENGTH(8)"
    then have n: "n < 8"
      by simp
    let ?j = "8 * k + (7 - n)"
    have "7 - n < 8" "7 - (7 - n) = n"
      using n by simp_all
    then have j: "?j < STATUS_LIST_ENTRIES" "?j div 8 = k" "7 - ?j mod 8 = n"
      using k unfolding STATUS_LIST_ENTRIES_def
      by (simp_all only: div_mult_self4 mod_mult_self4 div_less mod_less)
    have "status_entry bs ?j \<longleftrightarrow> bit (bs ! k) n"
      unfolding status_entry_def j(2,3) ..
    then show "bit (bs ! k) n \<longleftrightarrow> bit (reference_byte revoked k) n"
      using assms(2) j(1) bit_reference_byte [OF n] by blast
  qed
  then show "bs ! k = map (reference_byte revoked) [0..<16384] ! k"
    using k by simp
qed

lemma set_status_bits_reference:
  "set_status_bits revoked (replicate STATUS_LIST_SIZE 0) =
     ok_or InvalidStatusList (reference_status_list revoked)"
proof (cases "set_status_bits revoked (replicate STATUS_LIST_SIZE 0)")
  case (Inl e)
  then have "\<not> list_all (\<lambda>i. 0 \<le> i \<and> i < int STATUS_LIST_ENTRIES) revoked"
    using set_status_bits_total [of revoked "replicate STATUS_LIST_SIZE 0"] by auto
  then show ?thesis
    using Inl set_status_bits_error [OF Inl] by (simp add: reference_status_list_def STATUS_LIST_ENTRIES_def)
next
  case (Inr bs)
  have "status_entry (replicate STATUS_LIST_SIZE 0) j \<longleftrightarrow> False" if "j < STATUS_LIST_ENTRIES" for j
    using that by (simp add: status_entry_def STATUS_LIST_SIZE_def STATUS_LIST_ENTRIES_def)
  then have "list_all (\<lambda>i. 0 \<le> i \<and> i < int STATUS_LIST_ENTRIES) revoked"
      "bs = map (reference_byte revoked) [0..<16384]"
    using set_status_bits_result [OF _ Inr] bytes_of_entries [of bs revoked] by simp_all
  then show ?thesis
    using Inr by (simp add: reference_status_list_def STATUS_LIST_ENTRIES_def)
qed

section \<open>The cache\<close>

record CachedStatusList =
  csl_credential :: json
  csl_group_id :: uuid
  csl_revoked_indexes :: "int list"

text \<open>
  \<^verbatim>\<open>LruCache::cache_get\<close> and \<^verbatim>\<open>cache_set\<close> on the shared entries, and the wait for the signing lock,
  during which other requests may use the cache.
\<close>

record 's StatusListCache =
  slc_cache_get :: "uuid \<Rightarrow> ('s, BadgesManagerError, CachedStatusList option) act"
  slc_cache_set :: "uuid \<Rightarrow> CachedStatusList \<Rightarrow> ('s, BadgesManagerError, unit) act"
  slc_signing_guard :: "('s, BadgesManagerError, unit) act"

definition status_cache_get ::
    "'s StatusListCache \<Rightarrow> uuid \<Rightarrow> uuid \<Rightarrow> int list \<Rightarrow> ('s, BadgesManagerError, json option) act" where
  "status_cache_get cache badge_status_list_id group_id revoked_indexes =
     act_bind (slc_cache_get cache badge_status_list_id) (\<lambda>found.
     act_ok (case found of
         None \<Rightarrow> None
       | Some entry \<Rightarrow>
           if csl_group_id entry = group_id \<and> csl_revoked_indexes entry = revoked_indexes
           then Some (csl_credential entry) else None))"

definition status_cache_insert ::
    "'s StatusListCache \<Rightarrow> uuid \<Rightarrow> json \<Rightarrow> uuid \<Rightarrow> int list \<Rightarrow> ('s, BadgesManagerError, unit) act" where
  "status_cache_insert cache badge_status_list_id credential group_id revoked_indexes =
     slc_cache_set cache badge_status_list_id
       \<lparr>csl_credential = credential, csl_group_id = group_id, csl_revoked_indexes = revoked_indexes\<rparr>"

section \<open>Properties\<close>

text \<open>
  C22: the published bit string is the revocation state, bit for bit. The loop over the indexes
  computes the reference list: 16384 bytes in which the bit for entry \<open>i\<close>, counted from the most
  significant bit, is set if and only if \<open>i\<close> is a revoked index; an index out of range is refused
  as a whole, and duplicates and order of the indexes make no difference.
\<close>

theorem status_list_encoding:
  "encode_status_list codec revoked =
     (case reference_status_list revoked of
        None \<Rightarrow> Inl InvalidStatusList
      | Some bs \<Rightarrow>
          (case sc_gzip codec bs of
             None \<Rightarrow> Inl InvalidStatusList
           | Some compressed \<Rightarrow> Inr (''u'' @ sc_base64url codec compressed)))"
  by (simp add: encode_status_list_def set_status_bits_reference split: option.split)

end
