(* ===== verification/Badge_Credentials.thy ===== *)
theory Badge_Credentials
  imports Badge_Status "HOL-Library.AList" "HOL-Library.List_Lexorder" "HOL-Library.Char_ord"
begin

text \<open>
  The badges manager (\<^verbatim>\<open>ocg-server/src/services/badges.rs\<close> with \<^verbatim>\<open>keys.rs\<close>, \<^verbatim>\<open>credential.rs\<close> and
  \<^verbatim>\<open>verification.rs\<close>): construction and signing of credentials and status lists, the allowlist of
  verification keys, the caches of signed documents, and the verification of a submitted credential
  against the closed local profile.

  The SSI, JOSE and chrono crates are the fields of \<open>badge_env\<close>: key material is a value of
  \<^typ>\<open>'jwk\<close>, a parsed signed document one of \<^typ>\<open>'signed\<close>. An asynchronous call into them has no
  effect on the manager's state and is a function here. A \<^verbatim>\<open>HashMap\<close> of keys is an association list.
\<close>

section \<open>Data\<close>

record BadgeSnapshotIssuer =
  bsi_community_id :: uuid
  bsi_community_name :: string
  bsi_group_id :: uuid
  bsi_group_name :: string

record BadgeSnapshot =
  bs_criteria :: string
  bs_description :: string
  bs_image_file_name :: string
  bs_issuer :: BadgeSnapshotIssuer
  bs_name :: string

record UserBadge =
  ub_awarded_at :: instant
  ub_badge_status_list_id :: uuid
  ub_display_order :: int
  ub_group_id :: uuid
  ub_is_listed :: bool
  ub_snapshot :: BadgeSnapshot
  ub_status_list_index :: int
  ub_user_badge_id :: uuid
  ub_badge_id :: "uuid option"
  ub_event_id :: "uuid option"
  ub_event_name :: "string option"
  ub_identity_bound_at :: "instant option"
  ub_identity_hash :: "string option"
  ub_identity_salt :: "string option"
  ub_recipient_name :: "string option"
  ub_recipient_username :: "string option"
  ub_revocation_reason :: "string option"
  ub_revoked_at :: "instant option"
  ub_revoked_by_user_id :: "uuid option"
  ub_user_id :: "uuid option"

record UserBadgeIdentity =
  ubi_identity_bound_at :: instant
  ubi_identity_hash :: string
  ubi_identity_salt :: string

record EmailIdentity =
  ei_hash :: string
  ei_salt :: string

record CredentialInput =
  ci_award :: UserBadge
  ci_created_at :: instant
  ci_email_identity :: "EmailIdentity option"

record VerifiedEmailIdentity =
  vei_identity_hash :: string
  vei_salt :: string

record VerifiedCredential =
  vc_description :: string
  vc_group_id :: uuid
  vc_issuer :: string
  vc_name :: string
  vc_status_list_id :: uuid
  vc_status_list_index :: int
  vc_user_badge_id :: uuid
  vc_valid_from :: instant
  vc_email_identity :: "VerifiedEmailIdentity option"

record Multikey =
  mk_id :: string
  mk_controller :: string
  mk_public_key :: string

text \<open>What the badge configuration holds, and the key set built from it.\<close>

record 'jwk BadgeSigningKeyConfig =
  bsk_key_id :: string
  bsk_private_jwk :: 'jwk

record 'jwk BadgeVerificationKeyConfig =
  bvk_key_id :: string
  bvk_public_jwk :: 'jwk

record 'jwk BadgesConfig =
  bcfg_signing_key :: "'jwk BadgeSigningKeyConfig"
  bcfg_verification_keys :: "'jwk BadgeVerificationKeyConfig list"

record 'jwk SigningKey =
  sk_key_id :: string
  sk_private_jwk :: 'jwk

record 'jwk KeySet =
  ks_signing_key :: "'jwk SigningKey"
  ks_verification_keys :: "(string \<times> 'jwk) list"

record ('jwk, 'signed) badge_env =
  be_to_public :: "'jwk \<Rightarrow> 'jwk"
  be_okp_public_key :: "'jwk \<Rightarrow> bytes option"
  be_verifying_key :: "bytes \<Rightarrow> bool"
  be_multibase :: "bytes \<Rightarrow> string"
  be_valid_uri :: "string \<Rightarrow> bool"
  be_valid_iri :: "string \<Rightarrow> bool"
  be_valid_proof_options :: "json \<Rightarrow> bool"
  be_valid_document :: "json \<Rightarrow> bool"
  be_contexts_load :: bool
  be_sign :: "json \<Rightarrow> Multikey \<Rightarrow> 'jwk \<Rightarrow> json \<Rightarrow> 'signed option"
  be_to_value :: "'signed \<Rightarrow> json option"
  be_from_value :: "json \<Rightarrow> 'signed option"
  be_proof_count :: "'signed \<Rightarrow> nat"
  be_verify :: "'signed \<Rightarrow> (string \<times> Multikey) list \<Rightarrow> bool"
  be_rfc3339 :: "instant \<Rightarrow> string"
  be_parse_rfc3339 :: "string \<Rightarrow> instant option"
  be_parse_uuid :: "string \<Rightarrow> uuid option"
  be_codec :: status_codec

type_synonym credential_key = "uuid \<times> string option"

text \<open>The cache of signed credentials; \<^verbatim>\<open>signing_guard\<close> may give up with \<^verbatim>\<open>Busy\<close>.\<close>

record 's CredentialCache =
  cc_cache_get :: "credential_key \<Rightarrow> ('s, BadgesManagerError, json option) act"
  cc_cache_set :: "credential_key \<Rightarrow> json \<Rightarrow> ('s, BadgesManagerError, unit) act"
  cc_signing_guard :: "('s, BadgesManagerError, unit) act"

record ('s, 'jwk) BadgesManager =
  bm_base_url :: string
  bm_credential_cache :: "'s CredentialCache"
  bm_keys :: "'jwk KeySet"
  bm_status_list_cache :: "'s StatusListCache"

definition VC_CONTEXT_URL :: string where
  "VC_CONTEXT_URL = ''https://www.w3.org/ns/credentials/v2''"

definition OPEN_BADGES_CONTEXT_URL :: string where
  "OPEN_BADGES_CONTEXT_URL = ''https://purl.imsglobal.org/spec/ob/v3p0/context-3.0.3.json''"

definition required_string :: "json \<Rightarrow> string \<Rightarrow> string badge_result" where
  "required_string v pointer =
     ok_or InvalidCredential (case json_pointer pointer v of None \<Rightarrow> None | Some w \<Rightarrow> json_as_str w)"

section \<open>Keys\<close>

definition key_set_new :: "('jwk, 'signed) badge_env \<Rightarrow> 'jwk BadgesConfig \<Rightarrow> 'jwk KeySet" where
  "key_set_new env config =
     (let signing_key = \<lparr>sk_key_id = bsk_key_id (bcfg_signing_key config),
            sk_private_jwk = bsk_private_jwk (bcfg_signing_key config)\<rparr>;
          retained = fold (\<lambda>key. AList.update (bvk_key_id key) (bvk_public_jwk key))
            (bcfg_verification_keys config) [] in
      \<lparr>ks_signing_key = signing_key,
       ks_verification_keys =
         AList.update (sk_key_id signing_key) (be_to_public env (sk_private_jwk signing_key)) retained\<rparr>)"

definition public_jwk :: "'jwk KeySet \<Rightarrow> string \<Rightarrow> 'jwk option" where
  "public_jwk keys key_id = map_of (ks_verification_keys keys) key_id"

definition multikey ::
    "('jwk, 'signed) badge_env \<Rightarrow> 'jwk KeySet \<Rightarrow> string \<Rightarrow> string \<Rightarrow> Multikey badge_result" where
  "multikey env keys issuer_url key_id =
     and_then (ok_or UnknownVerificationMethod (public_jwk keys key_id)) (\<lambda>jwk.
     and_then (ok_or InvalidKey (be_okp_public_key env jwk)) (\<lambda>public_key.
     if length public_key \<noteq> 32 then Inl InvalidKey
     else if \<not> be_verifying_key env public_key then Inl InvalidKey
     else if \<not> be_valid_uri env issuer_url then Inl InvalidUrl
     else if \<not> be_valid_iri env issuer_url then Inl InvalidUrl
     else let encoded = be_multibase env public_key;
              method_id = issuer_url @ ''/keys/'' @ encoded in
       if \<not> be_valid_iri env method_id then Inl InvalidUrl
       else Inr \<lparr>mk_id = method_id, mk_controller = issuer_url, mk_public_key = encoded\<rparr>))"

text \<open>\<^verbatim>\<open>iter.map(f).collect::<Result<Vec<_>>>()\<close>: the results in order, or the first error.\<close>

fun collect_results :: "('a \<Rightarrow> 'e + 'b) \<Rightarrow> 'a list \<Rightarrow> 'e + 'b list" where
  "collect_results f [] = Inr []"
| "collect_results f (x # xs) = and_then (f x) (\<lambda>y. and_then (collect_results f xs) (\<lambda>ys. Inr (y # ys)))"

definition multikeys ::
    "('jwk, 'signed) badge_env \<Rightarrow> 'jwk KeySet \<Rightarrow> string \<Rightarrow> Multikey list badge_result" where
  "multikeys env keys issuer_url =
     collect_results (multikey env keys issuer_url) (sort (map fst (ks_verification_keys keys)))"

definition multikey_by_multibase ::
    "('jwk, 'signed) badge_env \<Rightarrow> 'jwk KeySet \<Rightarrow> string \<Rightarrow> string \<Rightarrow> Multikey badge_result" where
  "multikey_by_multibase env keys issuer_url key_multibase =
     and_then (multikeys env keys issuer_url) (\<lambda>methods.
     ok_or UnknownVerificationMethod (find (\<lambda>method. mk_public_key method = key_multibase) methods))"

definition resolver ::
    "('jwk, 'signed) badge_env \<Rightarrow> 'jwk KeySet \<Rightarrow> string \<Rightarrow> (string \<times> Multikey) list badge_result" where
  "resolver env keys issuer_url =
     and_then (multikeys env keys issuer_url) (\<lambda>methods.
     Inr (map (\<lambda>method. (mk_id method, method)) methods))"

section \<open>Identifier claims and proofs of a submitted credential\<close>

definition single_proof :: "json \<Rightarrow> json badge_result" where
  "single_proof v =
     and_then (ok_or InvalidCredential
       (case json_get ''proof'' v of None \<Rightarrow> None | Some p \<Rightarrow> json_as_array p)) (\<lambda>proofs.
     if length proofs \<noteq> 1 \<or> json_as_object (proofs ! 0) = None then Inl InvalidCredential
     else Inr (proofs ! 0))"

fun contains_identifier :: "json \<Rightarrow> bool" where
  "contains_identifier (JArray vs) = list_ex contains_identifier vs"
| "contains_identifier (JObject kvs) =
     (''identifier'' \<in> set (map fst kvs) \<or> list_ex contains_identifier (map snd kvs))"
| "contains_identifier _ = False"

definition is_ascii_hexdigit :: "char \<Rightarrow> bool" where
  "is_ascii_hexdigit c \<longleftrightarrow> c \<in> set ''0123456789abcdefABCDEF''"

definition is_valid_identity_hash :: "string \<Rightarrow> bool" where
  "is_valid_identity_hash hash \<longleftrightarrow> prefix ''sha256$'' hash \<and>
     (let digest = drop 7 hash in length digest = 64 \<and> list_all is_ascii_hexdigit digest)"

definition is_supported_email_identity :: "json \<Rightarrow> bool" where
  "is_supported_email_identity identifier =
     (case json_as_array identifier of
        Some [entry] \<Rightarrow>
          (case json_as_object entry of
             None \<Rightarrow> False
           | Some members \<Rightarrow>
               obj_len members = 5
               \<and> map_of members ''type'' = Some (JString ''IdentityObject'')
               \<and> map_of members ''hashed'' = Some (JBool True)
               \<and> map_of members ''identityType'' = Some (JString ''emailAddress'')
               \<and> (case map_of members ''identityHash'' of
                    Some (JString hash) \<Rightarrow> is_valid_identity_hash hash | _ \<Rightarrow> False)
               \<and> (case map_of members ''salt'' of Some (JString salt) \<Rightarrow> salt \<noteq> [] | _ \<Rightarrow> False))
      | _ \<Rightarrow> False)"

definition contains_unsupported_identifier :: "json \<Rightarrow> bool" where
  "contains_unsupported_identifier credential =
     (case json_as_object credential of
        Some members \<Rightarrow>
          (case map_of members ''credentialSubject'' of
             Some (JObject subject) \<Rightarrow>
               (case map_of subject ''identifier'' of
                  Some identifier \<Rightarrow>
                    if \<not> is_supported_email_identity identifier then True
                    else contains_identifier (JObject (obj_insert ''credentialSubject''
                           (JObject (obj_remove ''identifier'' subject)) members))
                | None \<Rightarrow> contains_identifier credential)
           | _ \<Rightarrow> contains_identifier credential)
      | None \<Rightarrow> contains_identifier credential)"

section \<open>Identifiers and URLs\<close>

definition trim_end_slashes :: "string \<Rightarrow> string" where
  "trim_end_slashes s = rev (dropWhile (\<lambda>c. c = CHR ''/'') (rev s))"

definition badges_manager_new ::
    "('jwk, 'signed) badge_env \<Rightarrow> string \<Rightarrow> 'jwk BadgesConfig \<Rightarrow> 's CredentialCache \<Rightarrow> 's StatusListCache \<Rightarrow>
     ('s, 'jwk) BadgesManager" where
  "badges_manager_new env base_url config credential_cache status_list_cache =
     \<lparr>bm_base_url = trim_end_slashes base_url, bm_credential_cache = credential_cache,
      bm_keys = key_set_new env config, bm_status_list_cache = status_list_cache\<rparr>"

definition credential_url :: "('s, 'jwk) BadgesManager \<Rightarrow> uuid \<Rightarrow> string" where
  "credential_url m user_badge_id = bm_base_url m @ ''/badges/credentials/'' @ show_uuid user_badge_id"

definition issuer_name :: "uuid \<Rightarrow> string" where
  "issuer_name group_id = ''Open Community Groups issuer '' @ show_uuid group_id"

definition issuer_url :: "('s, 'jwk) BadgesManager \<Rightarrow> uuid \<Rightarrow> string" where
  "issuer_url m group_id = bm_base_url m @ ''/badges/issuers/'' @ show_uuid group_id"

definition status_list_url :: "('s, 'jwk) BadgesManager \<Rightarrow> uuid \<Rightarrow> string" where
  "status_list_url m badge_status_list_id =
     bm_base_url m @ ''/badges/status-lists/'' @ show_uuid badge_status_list_id"

definition parse_local_uuid_url ::
    "('jwk, 'signed) badge_env \<Rightarrow> ('s, 'jwk) BadgesManager \<Rightarrow> string \<Rightarrow> string \<Rightarrow> uuid badge_result" where
  "parse_local_uuid_url env m v path =
     (let prefix_text = bm_base_url m @ path in
      if prefix prefix_text v \<and> CHR ''/'' \<notin> set (drop (length prefix_text) v)
      then ok_or InvalidUrl (be_parse_uuid env (drop (length prefix_text) v))
      else Inl InvalidUrl)"

definition parse_credential_url ::
    "('jwk, 'signed) badge_env \<Rightarrow> ('s, 'jwk) BadgesManager \<Rightarrow> string \<Rightarrow> uuid badge_result" where
  "parse_credential_url env m v = parse_local_uuid_url env m v ''/badges/credentials/''"

definition parse_issuer_url ::
    "('jwk, 'signed) badge_env \<Rightarrow> ('s, 'jwk) BadgesManager \<Rightarrow> string \<Rightarrow> uuid badge_result" where
  "parse_issuer_url env m v = parse_local_uuid_url env m v ''/badges/issuers/''"

definition parse_status_list_url ::
    "('jwk, 'signed) badge_env \<Rightarrow> ('s, 'jwk) BadgesManager \<Rightarrow> string \<Rightarrow> uuid badge_result" where
  "parse_status_list_url env m v = parse_local_uuid_url env m v ''/badges/status-lists/''"

definition verification_method ::
    "('jwk, 'signed) badge_env \<Rightarrow> ('s, 'jwk) BadgesManager \<Rightarrow> uuid \<Rightarrow> string \<Rightarrow> Multikey badge_result" where
  "verification_method env m group_id key_multibase =
     multikey_by_multibase env (bm_keys m) (issuer_url m group_id) key_multibase"

definition verification_methods ::
    "('jwk, 'signed) badge_env \<Rightarrow> ('s, 'jwk) BadgesManager \<Rightarrow> uuid \<Rightarrow> Multikey list badge_result" where
  "verification_methods env m group_id = multikeys env (bm_keys m) (issuer_url m group_id)"

section \<open>Signing\<close>

definition sign_document ::
    "('jwk, 'signed) badge_env \<Rightarrow> ('s, 'jwk) BadgesManager \<Rightarrow> json \<Rightarrow> string \<Rightarrow> instant \<Rightarrow> json badge_result" where
  "sign_document env m document issuer created_at =
     and_then (required_string document ''/issuer/id'') (\<lambda>document_issuer.
     if document_issuer \<noteq> issuer then Inl InvalidCredential
     else let signing_key = ks_signing_key (bm_keys m) in
     and_then (multikey env (bm_keys m) issuer (sk_key_id signing_key)) (\<lambda>method.
     let proof_options = JObject [(''created'', JString (be_rfc3339 env created_at)),
           (''verificationMethod'', JString (mk_id method)), (''proofPurpose'', JString ''assertionMethod'')] in
     if \<not> be_valid_proof_options env proof_options then Inl SigningFailed
     else if \<not> be_valid_document env document then Inl InvalidCredential
     else if \<not> be_contexts_load env then Inl InvalidContext
     else and_then (ok_or SigningFailed
            (be_sign env document method (sk_private_jwk signing_key) proof_options)) (\<lambda>signed.
       and_then (ok_or InvalidCredential (be_to_value env signed)) (\<lambda>signed_document.
       case signed_document of
         JObject members \<Rightarrow>
           (case map_of members ''proof'' of
              Some (JObject p) \<Rightarrow> Inr (JObject (obj_insert ''proof'' (JArray [JObject p]) members))
            | _ \<Rightarrow> Inl SigningFailed)
       | _ \<Rightarrow> Inl SigningFailed))))"

definition identifier_entry :: "EmailIdentity \<Rightarrow> json" where
  "identifier_entry identity = JObject [(''type'', JString ''IdentityObject''), (''hashed'', JBool True),
     (''identityHash'', JString (''sha256$'' @ ei_hash identity)),
     (''identityType'', JString ''emailAddress''), (''salt'', JString (ei_salt identity))]"

text \<open>The subject of a credential; the identifier claim is added for exports only.\<close>

definition credential_subject :: "('s, 'jwk) BadgesManager \<Rightarrow> CredentialInput \<Rightarrow> (string \<times> json) list" where
  "credential_subject m input =
     (let award = ci_award input; snapshot = ub_snapshot award;
          subject = [(''id'', JString (''urn:uuid:'' @ show_uuid (ub_user_badge_id award))),
            (''type'', JArray [JString ''AchievementSubject'']),
            (''achievement'', JObject
              [(''id'', JString (credential_url m (ub_user_badge_id award) @ ''#achievement'')),
               (''type'', JArray [JString ''Achievement'']),
               (''criteria'', JObject [(''narrative'', JString (bs_criteria snapshot))]),
               (''description'', JString (bs_description snapshot)),
               (''image'', JObject
                 [(''id'', JString (bm_base_url m @ ''/images/badges/'' @ bs_image_file_name snapshot)),
                  (''type'', JString ''Image'')]),
               (''name'', JString (bs_name snapshot))])] in
      case ci_email_identity input of
        None \<Rightarrow> subject
      | Some identity \<Rightarrow> obj_insert ''identifier'' (JArray [identifier_entry identity]) subject)"

definition credential_document ::
    "('jwk, 'signed) badge_env \<Rightarrow> ('s, 'jwk) BadgesManager \<Rightarrow> CredentialInput \<Rightarrow> (string \<times> json) list" where
  "credential_document env m input =
     (let award = ci_award input; snapshot = ub_snapshot award;
          url = credential_url m (ub_user_badge_id award) in
      [(''@context'', JArray [JString VC_CONTEXT_URL, JString OPEN_BADGES_CONTEXT_URL]),
       (''id'', JString url),
       (''type'', JArray [JString ''VerifiableCredential'', JString ''OpenBadgeCredential'']),
       (''issuer'', JObject [(''id'', JString (issuer_url m (ub_group_id award))),
         (''type'', JArray [JString ''Profile'']),
         (''name'', JString (bsi_group_name (bs_issuer snapshot)))]),
       (''validFrom'', JString (be_rfc3339 env (ub_awarded_at award))),
       (''name'', JString (bs_name snapshot)),
       (''credentialSubject'', JObject (credential_subject m input)),
       (''credentialStatus'', JObject [(''id'', JString (url @ ''#status'')),
         (''type'', JString ''BitstringStatusListEntry''),
         (''statusPurpose'', JString ''revocation''),
         (''statusListIndex'', JString (show_int (ub_status_list_index award))),
         (''statusListCredential'', JString (status_list_url m (ub_badge_status_list_id award)))])])"

definition issue_credential ::
    "('jwk, 'signed) badge_env \<Rightarrow> ('s, 'jwk) BadgesManager \<Rightarrow> CredentialInput \<Rightarrow> json badge_result" where
  "issue_credential env m input =
     sign_document env m (JObject (credential_document env m input))
       (issuer_url m (ub_group_id (ci_award input))) (ci_created_at input)"

definition issue_status_list ::
    "('jwk, 'signed) badge_env \<Rightarrow> ('s, 'jwk) BadgesManager \<Rightarrow> uuid \<Rightarrow> uuid \<Rightarrow> int list \<Rightarrow> instant \<Rightarrow>
     json badge_result" where
  "issue_status_list env m badge_status_list_id group_id revoked_indexes created_at =
     and_then (encode_status_list (be_codec env) revoked_indexes) (\<lambda>encoded_list.
     let list_url = status_list_url m badge_status_list_id;
         issuer = issuer_url m group_id in
     sign_document env m (JObject
       [(''@context'', JArray [JString VC_CONTEXT_URL]),
        (''id'', JString list_url),
        (''type'', JArray [JString ''VerifiableCredential'', JString ''BitstringStatusListCredential'']),
        (''issuer'', JObject [(''id'', JString issuer), (''name'', JString (issuer_name group_id))]),
        (''validFrom'', JString (be_rfc3339 env created_at)),
        (''credentialSubject'', JObject [(''id'', JString (list_url @ ''#list'')),
          (''type'', JString ''BitstringStatusList''), (''statusPurpose'', JString ''revocation''),
          (''encodedList'', JString encoded_list), (''ttl'', JInt STATUS_LIST_TTL_MS)])])
       issuer created_at)"

section \<open>Cached documents\<close>

definition cached_status_list ::
    "('jwk, 'signed) badge_env \<Rightarrow> ('s, 'jwk) BadgesManager \<Rightarrow> uuid \<Rightarrow> uuid \<Rightarrow> int list \<Rightarrow> instant \<Rightarrow>
     ('s, BadgesManagerError, json) act" where
  "cached_status_list env m badge_status_list_id group_id revoked_indexes created_at =
     (let cache = bm_status_list_cache m in
      act_bind (status_cache_get cache badge_status_list_id group_id revoked_indexes) (\<lambda>hit.
      case hit of
        Some credential \<Rightarrow> act_ok credential
      | None \<Rightarrow>
          act_bind (slc_signing_guard cache) (\<lambda>_.
          act_bind (status_cache_get cache badge_status_list_id group_id revoked_indexes) (\<lambda>recheck.
          case recheck of
            Some credential \<Rightarrow> act_ok credential
          | None \<Rightarrow>
              act_bind (act_lift (issue_status_list env m badge_status_list_id group_id revoked_indexes
                created_at)) (\<lambda>credential.
              act_bind (status_cache_insert cache badge_status_list_id credential group_id revoked_indexes)
                (\<lambda>_. act_ok credential))))))"

definition cached_signed_credential ::
    "('jwk, 'signed) badge_env \<Rightarrow> ('s, 'jwk) BadgesManager \<Rightarrow> credential_key \<Rightarrow> CredentialInput \<Rightarrow>
     ('s, BadgesManagerError, json) act" where
  "cached_signed_credential env m key input =
     (let cache = bm_credential_cache m in
      act_bind (cc_cache_get cache key) (\<lambda>hit.
      case hit of
        Some credential \<Rightarrow> act_ok credential
      | None \<Rightarrow>
          act_bind (cc_signing_guard cache) (\<lambda>_.
          act_bind (cc_cache_get cache key) (\<lambda>recheck.
          case recheck of
            Some credential \<Rightarrow> act_ok credential
          | None \<Rightarrow>
              act_bind (act_lift (issue_credential env m input)) (\<lambda>credential.
              act_bind (cc_cache_set cache key credential) (\<lambda>_. act_ok credential))))))"

definition cached_credential ::
    "('jwk, 'signed) badge_env \<Rightarrow> ('s, 'jwk) BadgesManager \<Rightarrow> UserBadge \<Rightarrow>
     ('s, BadgesManagerError, json) act" where
  "cached_credential env m award =
     cached_signed_credential env m (ub_user_badge_id award, None)
       \<lparr>ci_award = award, ci_created_at = ub_awarded_at award, ci_email_identity = None\<rparr>"

definition cached_export_credential ::
    "('jwk, 'signed) badge_env \<Rightarrow> ('s, 'jwk) BadgesManager \<Rightarrow> UserBadge \<Rightarrow> UserBadgeIdentity \<Rightarrow>
     ('s, BadgesManagerError, json) act" where
  "cached_export_credential env m award identity =
     cached_signed_credential env m (ub_user_badge_id award, Some (ubi_identity_salt identity))
       \<lparr>ci_award = award, ci_created_at = ubi_identity_bound_at identity,
        ci_email_identity = Some \<lparr>ei_hash = ubi_identity_hash identity, ei_salt = ubi_identity_salt identity\<rparr>\<rparr>"

section \<open>Verification\<close>

text \<open>\<^verbatim>\<open>required_string(v, pointer)? != expected\<close> as a guard with the error of its branch.\<close>

definition require_equal ::
    "BadgesManagerError \<Rightarrow> json \<Rightarrow> string \<Rightarrow> string \<Rightarrow> unit badge_result" where
  "require_equal e v pointer expected =
     and_then (required_string v pointer) (\<lambda>s. if s \<noteq> expected then Inl e else Inr ())"

definition verify_document ::
    "('jwk, 'signed) badge_env \<Rightarrow> ('s, 'jwk) BadgesManager \<Rightarrow> json \<Rightarrow> string \<Rightarrow> unit badge_result" where
  "verify_document env m document issuer =
     and_then (single_proof document) (\<lambda>proof_value.
     and_then (require_equal InvalidProof document ''/issuer/id'' issuer) (\<lambda>_.
     and_then (require_equal InvalidProof proof_value ''/type'' ''DataIntegrityProof'') (\<lambda>_.
     and_then (require_equal InvalidProof proof_value ''/cryptosuite'' ''eddsa-rdfc-2022'') (\<lambda>_.
     and_then (require_equal InvalidProof proof_value ''/proofPurpose'' ''assertionMethod'') (\<lambda>_.
     and_then (required_string proof_value ''/verificationMethod'') (\<lambda>method_url.
     and_then (resolver env (bm_keys m) issuer) (\<lambda>methods.
     if method_url \<notin> set (map fst methods) then Inl UnknownVerificationMethod
     else and_then (ok_or InvalidCredential (be_from_value env document)) (\<lambda>signed.
       if be_proof_count env signed \<noteq> 1 then Inl InvalidProof
       else if \<not> be_contexts_load env then Inl InvalidContext
       else if be_verify env signed methods then Inr () else Inl InvalidProof))))))))"

text \<open>The status reference of a credential: \<^verbatim>\<open>parse::<i32>\<close> of a canonical decimal index in range.\<close>

definition parse_status_index :: "string \<Rightarrow> int badge_result" where
  "parse_status_index digits =
     (case read_nat_acc 0 digits of
        None \<Rightarrow> Inl InvalidStatusList
      | Some n \<Rightarrow> if int n < 2 ^ 31 then Inr (int n) else Inl InvalidStatusList)"

definition verify_status_reference ::
    "('jwk, 'signed) badge_env \<Rightarrow> ('s, 'jwk) BadgesManager \<Rightarrow> json \<Rightarrow> string \<Rightarrow> (uuid \<times> int) badge_result" where
  "verify_status_reference env m credential credential_id =
     and_then (required_string credential ''/credentialStatus/statusListCredential'') (\<lambda>status_url.
     and_then (parse_status_list_url env m status_url) (\<lambda>status_list_id.
     and_then (required_string credential ''/credentialStatus/statusListIndex'') (\<lambda>index_text.
     if index_text = [] \<or> \<not> list_all is_ascii_digit index_text
        \<or> (length index_text > 1 \<and> hd index_text = CHR ''0'') then Inl InvalidStatusList
     else and_then (require_equal InvalidStatusList credential ''/credentialStatus/type'' ''BitstringStatusListEntry'') (\<lambda>_.
     and_then (require_equal InvalidStatusList credential ''/credentialStatus/id'' (credential_id @ ''#status'')) (\<lambda>_.
     and_then (require_equal InvalidStatusList credential ''/credentialStatus/statusPurpose'' ''revocation'') (\<lambda>_.
     and_then (parse_status_index index_text) (\<lambda>index.
     if \<not> (0 \<le> index \<and> index < int STATUS_LIST_ENTRIES) then Inl InvalidStatusList
     else Inr (status_list_id, index))))))))"

definition verified_email_identity :: "json \<Rightarrow> VerifiedEmailIdentity option badge_result" where
  "verified_email_identity credential =
     (case json_pointer ''/credentialSubject/identifier/0'' credential of
        None \<Rightarrow> Inr None
      | Some entry \<Rightarrow>
          and_then (required_string entry ''/identityHash'') (\<lambda>hash.
          and_then (ok_or InvalidCredential (if prefix ''sha256$'' hash then Some (drop 7 hash) else None))
            (\<lambda>identity_hash.
          and_then (required_string entry ''/salt'') (\<lambda>salt.
          Inr (Some \<lparr>vei_identity_hash = identity_hash, vei_salt = salt\<rparr>)))))"

definition verify_credential ::
    "('jwk, 'signed) badge_env \<Rightarrow> ('s, 'jwk) BadgesManager \<Rightarrow> json \<Rightarrow> VerifiedCredential badge_result" where
  "verify_credential env m credential =
     (if json_get ''@context'' credential \<noteq>
           Some (JArray [JString VC_CONTEXT_URL, JString OPEN_BADGES_CONTEXT_URL])
         \<or> json_get ''type'' credential \<noteq>
           Some (JArray [JString ''VerifiableCredential'', JString ''OpenBadgeCredential''])
         \<or> contains_unsupported_identifier credential
      then Inl InvalidCredential
      else
        and_then (required_string credential ''/id'') (\<lambda>credential_id.
        and_then (parse_credential_url env m credential_id) (\<lambda>user_badge_id.
        and_then (require_equal InvalidCredential credential ''/credentialSubject/id''
          (''urn:uuid:'' @ show_uuid user_badge_id)) (\<lambda>_.
        and_then (ok_or InvalidCredential
          (case json_get ''issuer'' credential of None \<Rightarrow> None | Some v \<Rightarrow> json_as_object v)) (\<lambda>issuer_profile.
        if obj_len issuer_profile \<noteq> 3 \<or> map_of issuer_profile ''type'' \<noteq> Some (JArray [JString ''Profile''])
        then Inl InvalidCredential
        else and_then (required_string credential ''/issuer/name'') (\<lambda>issuer_title.
        if issuer_title = [] then Inl InvalidCredential
        else and_then (required_string credential ''/issuer/id'') (\<lambda>issuer.
        and_then (parse_issuer_url env m issuer) (\<lambda>group_id.
        and_then (verify_document env m credential issuer) (\<lambda>_.
        and_then (required_string credential ''/validFrom'') (\<lambda>valid_text.
        and_then (ok_or InvalidCredential (be_parse_rfc3339 env valid_text)) (\<lambda>valid_from.
        and_then (verify_status_reference env m credential credential_id) (\<lambda>(status_list_id, status_list_index).
        and_then (verified_email_identity credential) (\<lambda>email_identity.
        and_then (required_string credential ''/credentialSubject/achievement/description'') (\<lambda>description.
        and_then (required_string credential ''/credentialSubject/achievement/name'') (\<lambda>name.
        Inr \<lparr>vc_description = description, vc_group_id = group_id, vc_issuer = issuer, vc_name = name,
          vc_status_list_id = status_list_id, vc_status_list_index = status_list_index,
          vc_user_badge_id = user_badge_id, vc_valid_from = valid_from,
          vc_email_identity = email_identity\<rparr>)))))))))))))))"

section \<open>Facts about identifiers and documents\<close>

lemma hex_digit_in: "n < 16 \<Longrightarrow> hex_digit n \<in> set ''0123456789abcdef''"
proof -
  have "list_all (\<lambda>n. hex_digit n \<in> set ''0123456789abcdef'') [0..<16]"
    by code_simp
  then show "n < 16 \<Longrightarrow> ?thesis"
    by (simp add: list_all_iff)
qed

lemma set_hex_digits: "set (hex_digits u i j) \<subseteq> set ''0123456789abcdef''"
proof -
  have "nat (uint u div 16 ^ (31 - k) mod 16) < 16" for k
    by (simp add: nat_less_iff)
  then show ?thesis
    unfolding hex_digits_def using hex_digit_in by auto
qed

lemma show_uuid_no_slash [simp]: "CHR ''/'' \<notin> set (show_uuid u)"
proof -
  have "CHR ''/'' \<notin> set (hex_digits u i j)" for i j
    using set_hex_digits [of u i j] by auto
  then show ?thesis
    by (simp add: show_uuid_def)
qed

text \<open>The uuid crate reads back its own text, for the identifiers at hand.\<close>

definition parses_uuids :: "('jwk, 'signed) badge_env \<Rightarrow> uuid list \<Rightarrow> bool" where
  "parses_uuids env us \<longleftrightarrow> list_all (\<lambda>u. be_parse_uuid env (show_uuid u) = Some u) us"

lemma parse_local_url:
  "be_parse_uuid env (show_uuid u) = Some u \<Longrightarrow>
     parse_local_uuid_url env m (bm_base_url m @ path @ show_uuid u) path = Inr u"
  by (simp add: parse_local_uuid_url_def)

lemma parse_url_inverse:
  assumes "be_parse_uuid env (show_uuid u) = Some u"
  shows "parse_credential_url env m (credential_url m u) = Inr u"
    and "parse_issuer_url env m (issuer_url m u) = Inr u"
    and "parse_status_list_url env m (status_list_url m u) = Inr u"
  unfolding parse_credential_url_def credential_url_def parse_issuer_url_def issuer_url_def
    parse_status_list_url_def status_list_url_def
  by (rule parse_local_url [OF assms])+

definition award_ids :: "UserBadge \<Rightarrow> uuid list" where
  "award_ids award = [ub_user_badge_id award, ub_group_id award, ub_badge_status_list_id award]"

text \<open>The pointers of the verifier, as paths.\<close>

lemma json_pointers:
  "json_pointer ''/id'' = json_path [''id'']"
  "json_pointer ''/credentialSubject/id'' = json_path [''credentialSubject'', ''id'']"
  "json_pointer ''/issuer/name'' = json_path [''issuer'', ''name'']"
  "json_pointer ''/issuer/id'' = json_path [''issuer'', ''id'']"
  "json_pointer ''/validFrom'' = json_path [''validFrom'']"
  "json_pointer ''/credentialStatus/statusListCredential'' = json_path [''credentialStatus'', ''statusListCredential'']"
  "json_pointer ''/credentialStatus/statusListIndex'' = json_path [''credentialStatus'', ''statusListIndex'']"
  "json_pointer ''/credentialStatus/type'' = json_path [''credentialStatus'', ''type'']"
  "json_pointer ''/credentialStatus/id'' = json_path [''credentialStatus'', ''id'']"
  "json_pointer ''/credentialStatus/statusPurpose'' = json_path [''credentialStatus'', ''statusPurpose'']"
  "json_pointer ''/credentialSubject/identifier/0'' = json_path [''credentialSubject'', ''identifier'', ''0'']"
  "json_pointer ''/credentialSubject/achievement/description'' =
     json_path [''credentialSubject'', ''achievement'', ''description'']"
  "json_pointer ''/credentialSubject/achievement/name'' =
     json_path [''credentialSubject'', ''achievement'', ''name'']"
  "json_pointer ''/type'' = json_path [''type'']"
  "json_pointer ''/cryptosuite'' = json_path [''cryptosuite'']"
  "json_pointer ''/proofPurpose'' = json_path [''proofPurpose'']"
  "json_pointer ''/verificationMethod'' = json_path [''verificationMethod'']"
  "json_pointer ''/identityHash'' = json_path [''identityHash'']"
  "json_pointer ''/salt'' = json_path [''salt'']"
  by (simp_all add: json_pointer_def fun_eq_iff)

lemma json_index_0 [simp]: "json_index ''0'' = Some 0"
  by (simp add: json_index_def is_ascii_digit_def)

text \<open>A decimal index is canonical: no leading zero unless it is the one digit.\<close>

lemma show_nat_head: "0 < n \<Longrightarrow> hd (show_nat n) \<noteq> CHR ''0''"
proof (induction n rule: show_nat.induct)
  case (1 n)
  show ?case
  proof (cases "n < 10")
    case True
    have "digit_char 0 = CHR ''0''"
      by code_simp
    moreover have "digit_char n \<noteq> digit_char 0"
      using of_char_digit_char [of n] of_char_digit_char [of 0] True "1.prems" by auto
    ultimately show ?thesis
      using True by (subst show_nat.simps) simp
  next
    case False
    then show ?thesis
      using "1.IH" by (subst show_nat.simps) (simp add: hd_append)
  qed
qed

lemma status_index_text:
  assumes "0 \<le> i" and "i < int STATUS_LIST_ENTRIES"
  shows "show_int i \<noteq> []" and "list_all is_ascii_digit (show_int i)"
    and "\<not> (1 < length (show_int i) \<and> hd (show_int i) = CHR ''0'')"
    and "parse_status_index (show_int i) = Inr i"
proof -
  have shown: "show_int i = show_nat (nat i)"
    using assms(1) by (simp add: show_int_def)
  have "\<not> (1 < length (show_nat 0) \<and> hd (show_nat 0) = CHR ''0'')"
    by (subst show_nat.simps) simp
  then show "\<not> (1 < length (show_int i) \<and> hd (show_int i) = CHR ''0'')"
    using show_nat_head [of "nat i"] shown by (cases "nat i = 0") auto
  show "show_int i \<noteq> []" "list_all is_ascii_digit (show_int i)"
    by (simp_all add: shown show_nat_digits)
  show "parse_status_index (show_int i) = Inr i"
    using assms by (simp add: parse_status_index_def shown read_show_nat STATUS_LIST_ENTRIES_def)
qed

lemma collect_results_set:
  "collect_results f xs = Inr ys \<Longrightarrow> x \<in> set xs \<Longrightarrow> f x = Inr y \<Longrightarrow> y \<in> set ys"
  by (induction xs arbitrary: ys) (auto simp: and_then_eq_Inr)

lemma collect_results_source:
  "collect_results f xs = Inr ys \<Longrightarrow> y \<in> set ys \<Longrightarrow> \<exists>x\<in>set xs. f x = Inr y"
  by (induction xs arbitrary: ys) (auto simp: and_then_eq_Inr)

section \<open>Documented behaviour of the signature suite\<close>

text \<open>
  The proof that the suite adds names its suite, its purpose and the key it was made with, and
  carries no identifier claim. A signed document verifies against every resolver that holds the
  method of the signing key, with the proof alone or as the one element of a proof set.
\<close>

definition proof_of_method :: "(string \<times> json) list \<Rightarrow> Multikey \<Rightarrow> bool" where
  "proof_of_method p meth \<longleftrightarrow>
     map_of p ''type'' = Some (JString ''DataIntegrityProof'') \<and>
     map_of p ''cryptosuite'' = Some (JString ''eddsa-rdfc-2022'') \<and>
     map_of p ''proofPurpose'' = Some (JString ''assertionMethod'') \<and>
     map_of p ''verificationMethod'' = Some (JString (mk_id meth)) \<and>
     \<not> contains_identifier (JObject p)"

definition verifies :: "('jwk, 'signed) badge_env \<Rightarrow> json \<Rightarrow> (string \<times> Multikey) list \<Rightarrow> bool" where
  "verifies env document methods \<longleftrightarrow>
     (\<exists>signed. be_from_value env document = Some signed \<and> be_proof_count env signed = 1 \<and>
        be_verify env signed methods)"

definition method_of_key :: "('jwk, 'signed) badge_env \<Rightarrow> Multikey \<Rightarrow> 'jwk \<Rightarrow> bool" where
  "method_of_key env meth jwk \<longleftrightarrow>
     (\<exists>public_key. be_okp_public_key env (be_to_public env jwk) = Some public_key \<and>
        mk_public_key meth = be_multibase env public_key)"

definition signature_suite :: "('jwk, 'signed) badge_env \<Rightarrow> bool" where
  "signature_suite env \<longleftrightarrow>
     (\<forall>members meth jwk options signed.
        ''proof'' \<notin> fst ` set members \<and> be_sign env (JObject members) meth jwk options = Some signed \<longrightarrow>
        (\<exists>p. be_to_value env signed = Some (JObject (members @ [(''proof'', JObject p)])) \<and>
           proof_of_method p meth \<and>
           (\<forall>methods. method_of_key env meth jwk \<and> (mk_id meth, meth) \<in> set methods \<longrightarrow>
              verifies env (JObject (members @ [(''proof'', JArray [JObject p])])) methods)))"

lemma obj_insert_last: "k \<notin> fst ` set kvs \<Longrightarrow> obj_insert k v (kvs @ [(k, w)]) = kvs @ [(k, v)]"
  by (auto simp: obj_insert_def rev_image_eqI intro!: map_idI)

lemma map_of_append_fresh: "k \<notin> fst ` set xs \<Longrightarrow> map_of (xs @ [(k, v)]) k = Some v"
  by (simp add: map_add_def map_of_eq_None_iff [symmetric] del: map_of_eq_None_iff)

lemma multikey_fields:
  "multikey env keys issuer key_id = Inr meth \<Longrightarrow>
     mk_controller meth = issuer \<and> mk_id meth = issuer @ ''/keys/'' @ mk_public_key meth \<and>
     (\<exists>jwk public_key. public_jwk keys key_id = Some jwk \<and> be_okp_public_key env jwk = Some public_key \<and>
        length public_key = 32 \<and> be_verifying_key env public_key \<and>
        mk_public_key meth = be_multibase env public_key)"
  by (auto simp: multikey_def and_then_eq_Inr ok_or_eq_Inr Let_def split: if_splits)

lemma sign_document_result:
  assumes suite: "signature_suite env" and fresh: "''proof'' \<notin> fst ` set members"
    and signed: "sign_document env m (JObject members) issuer created_at = Inr credential"
  obtains meth p where
    "multikey env (bm_keys m) issuer (sk_key_id (ks_signing_key (bm_keys m))) = Inr meth"
    "credential = JObject (members @ [(''proof'', JArray [JObject p])])" "proof_of_method p meth"
    "\<And>methods. method_of_key env meth (sk_private_jwk (ks_signing_key (bm_keys m))) \<Longrightarrow>
       (mk_id meth, meth) \<in> set methods \<Longrightarrow> verifies env credential methods"
proof -
  from signed obtain meth options sd v where
    meth: "multikey env (bm_keys m) issuer (sk_key_id (ks_signing_key (bm_keys m))) = Inr meth"
    and sign: "be_sign env (JObject members) meth (sk_private_jwk (ks_signing_key (bm_keys m))) options = Some sd"
    and v: "be_to_value env sd = Some v"
    and cred: "(case v of
         JObject members \<Rightarrow>
           (case map_of members ''proof'' of
              Some (JObject p) \<Rightarrow> Inr (JObject (obj_insert ''proof'' (JArray [JObject p]) members))
            | _ \<Rightarrow> Inl SigningFailed)
       | _ \<Rightarrow> Inl SigningFailed) = Inr credential"
    by (auto simp: sign_document_def and_then_eq_Inr ok_or_eq_Inr Let_def split: if_splits)
  from suite sign v fresh obtain p where
    p: "v = JObject (members @ [(''proof'', JObject p)])" "proof_of_method p meth"
    "\<And>methods. method_of_key env meth (sk_private_jwk (ks_signing_key (bm_keys m))) \<Longrightarrow>
       (mk_id meth, meth) \<in> set methods \<Longrightarrow>
       verifies env (JObject (members @ [(''proof'', JArray [JObject p])])) methods"
    unfolding signature_suite_def by fastforce
  have "credential = JObject (members @ [(''proof'', JArray [JObject p])])"
    using cred by (simp add: p(1) map_of_append_fresh [OF fresh] obj_insert_last [OF fresh] del: map_of_append)
  then show thesis
    using that meth p(2,3) by blast
qed

section \<open>The verifier on an issued credential\<close>

definition identity_well_formed :: "EmailIdentity option \<Rightarrow> bool" where
  "identity_well_formed identity =
     (case identity of None \<Rightarrow> True
      | Some e \<Rightarrow> length (ei_hash e) = 64 \<and> list_all is_ascii_hexdigit (ei_hash e) \<and> ei_salt e \<noteq> [])"

definition award_well_formed :: "UserBadge \<Rightarrow> bool" where
  "award_well_formed award \<longleftrightarrow>
     bsi_group_name (bs_issuer (ub_snapshot award)) \<noteq> [] \<and>
     0 \<le> ub_status_list_index award \<and> ub_status_list_index award < int STATUS_LIST_ENTRIES"

definition carried_identity :: "EmailIdentity option \<Rightarrow> VerifiedEmailIdentity option" where
  "carried_identity identity =
     map_option (\<lambda>e. \<lparr>vei_identity_hash = ei_hash e, vei_salt = ei_salt e\<rparr>) identity"

lemma required_string_simps:
  "required_string v pointer = Inr t \<longleftrightarrow> json_pointer pointer v = Some (JString t)"
  by (auto simp: required_string_def ok_or_eq_Inr split: option.split elim!: json_as_str.elims)

lemma credential_document_fresh: "''proof'' \<notin> fst ` set (credential_document env m input)"
  by (simp add: credential_document_def Let_def)

lemma json_path_member:
  "json_path (k # ks) (JObject kvs) = (case map_of kvs k of None \<Rightarrow> None | Some w \<Rightarrow> json_path ks w)"
  by simp

lemma require_equal_Inr:
  "json_pointer pointer v = Some (JString t) \<Longrightarrow> require_equal e v pointer t = Inr ()"
  using required_string_simps [of v pointer t] by (simp add: require_equal_def)

lemma subject_members:
  "map_of (credential_subject m input) ''id'' =
     Some (JString (''urn:uuid:'' @ show_uuid (ub_user_badge_id (ci_award input))))"
  "map_of (credential_subject m input) ''identifier'' =
     map_option (\<lambda>e. JArray [identifier_entry e]) (ci_email_identity input)"
  "\<exists>achievement. map_of (credential_subject m input) ''achievement'' = Some (JObject achievement) \<and>
     map_of achievement ''description'' = Some (JString (bs_description (ub_snapshot (ci_award input)))) \<and>
     map_of achievement ''name'' = Some (JString (bs_name (ub_snapshot (ci_award input))))"
  by (simp_all add: credential_subject_def Let_def map_of_obj_insert split: option.split)

lemma subject_clean: "\<not> contains_identifier (JObject (obj_remove ''identifier'' (credential_subject m input)))"
  by (cases "ci_email_identity input")
    (simp_all add: credential_subject_def obj_remove_def obj_insert_def Let_def del: set_filter)

text \<open>The members of an issued credential, with its proof.\<close>

definition issued_members ::
    "('jwk, 'signed) badge_env \<Rightarrow> ('s, 'jwk) BadgesManager \<Rightarrow> CredentialInput \<Rightarrow> (string \<times> json) list \<Rightarrow>
     (string \<times> json) list" where
  "issued_members env m input p = credential_document env m input @ [(''proof'', JArray [JObject p])]"

lemma issued_top:
  "map_of (issued_members env m input p) ''@context'' =
     Some (JArray [JString VC_CONTEXT_URL, JString OPEN_BADGES_CONTEXT_URL])"
  "map_of (issued_members env m input p) ''type'' =
     Some (JArray [JString ''VerifiableCredential'', JString ''OpenBadgeCredential''])"
  "map_of (issued_members env m input p) ''id'' =
     Some (JString (credential_url m (ub_user_badge_id (ci_award input))))"
  "map_of (issued_members env m input p) ''validFrom'' =
     Some (JString (be_rfc3339 env (ub_awarded_at (ci_award input))))"
  "map_of (issued_members env m input p) ''proof'' = Some (JArray [JObject p])"
  "map_of (issued_members env m input p) ''credentialSubject'' = Some (JObject (credential_subject m input))"
  "map_of (issued_members env m input p) ''issuer'' =
     Some (JObject [(''id'', JString (issuer_url m (ub_group_id (ci_award input)))),
       (''type'', JArray [JString ''Profile'']),
       (''name'', JString (bsi_group_name (bs_issuer (ub_snapshot (ci_award input)))))])"
  "map_of (issued_members env m input p) ''credentialStatus'' =
     Some (JObject [(''id'', JString (credential_url m (ub_user_badge_id (ci_award input)) @ ''#status'')),
         (''type'', JString ''BitstringStatusListEntry''),
         (''statusPurpose'', JString ''revocation''),
         (''statusListIndex'', JString (show_int (ub_status_list_index (ci_award input)))),
         (''statusListCredential'', JString (status_list_url m (ub_badge_status_list_id (ci_award input))))])"
  by (simp_all add: issued_members_def credential_document_def Let_def)

lemma issued_clean:
  assumes "\<not> contains_identifier (JObject p)"
  shows "\<not> contains_identifier (JObject (obj_insert ''credentialSubject''
      (JObject (obj_remove ''identifier'' (credential_subject m input))) (issued_members env m input p)))"
  using assms subject_clean [of m input]
  by (simp add: issued_members_def credential_document_def obj_insert_def Let_def)

lemma supported_entry:
  assumes "identity_well_formed (Some e)"
  shows "is_supported_email_identity (JArray [identifier_entry e])"
  using assms
  by (simp add: identity_well_formed_def is_supported_email_identity_def identifier_entry_def
      obj_len_def is_valid_identity_hash_def)

lemma issued_identifier_supported:
  assumes "identity_well_formed (ci_email_identity input)" and "\<not> contains_identifier (JObject p)"
  shows "\<not> contains_unsupported_identifier (JObject (issued_members env m input p))"
proof (cases "ci_email_identity input")
  case None
  then have "obj_remove ''identifier'' (credential_subject m input) = credential_subject m input"
    by (simp add: credential_subject_def obj_remove_def Let_def)
  then have "\<not> contains_identifier (JObject (issued_members env m input p))"
    using subject_clean [of m input] assms(2) by (simp add: issued_members_def credential_document_def Let_def)
  then show ?thesis
    using None by (simp add: contains_unsupported_identifier_def issued_top subject_members)
next
  case (Some e)
  then show ?thesis
    using supported_entry [of e] issued_clean [OF assms(2)] assms(1)
    by (simp add: contains_unsupported_identifier_def issued_top subject_members)
qed

lemma issued_status_reference:
  assumes "parses_uuids env (award_ids (ci_award input))" and "award_well_formed (ci_award input)"
  shows "verify_status_reference env m (JObject (issued_members env m input p))
      (credential_url m (ub_user_badge_id (ci_award input))) =
    Inr (ub_badge_status_list_id (ci_award input), ub_status_list_index (ci_award input))"
proof -
  let ?i = "ub_status_list_index (ci_award input)"
  have i: "0 \<le> ?i" "?i < int STATUS_LIST_ENTRIES"
    using assms(2) by (simp_all add: award_well_formed_def)
  note index = status_index_text [OF i]
  have list_id: "be_parse_uuid env (show_uuid (ub_badge_status_list_id (ci_award input))) =
      Some (ub_badge_status_list_id (ci_award input))"
    using assms(1) by (simp add: parses_uuids_def award_ids_def)
  show ?thesis
    using index i
    by (simp add: verify_status_reference_def required_string_def json_pointers issued_top
        require_equal_def parse_url_inverse(3) [OF list_id])
qed

lemma issued_email_identity:
  "verified_email_identity (JObject (issued_members env m input p)) =
     Inr (carried_identity (ci_email_identity input))"
  by (simp add: verified_email_identity_def json_pointers issued_top subject_members carried_identity_def
      identifier_entry_def required_string_def split: option.split)

lemma signing_method_resolved:
  assumes "bm_keys m = key_set_new env config"
    and "multikey env (bm_keys m) issuer (sk_key_id (ks_signing_key (bm_keys m))) = Inr meth"
    and "multikeys env (bm_keys m) issuer = Inr methods"
  shows "meth \<in> set methods" and "method_of_key env meth (sk_private_jwk (ks_signing_key (bm_keys m)))"
proof -
  let ?sk = "ks_signing_key (bm_keys m)"
  have key: "public_jwk (bm_keys m) (sk_key_id ?sk) = Some (be_to_public env (sk_private_jwk ?sk))"
    by (simp add: assms(1) key_set_new_def Let_def public_jwk_def update_conv')
  then have "sk_key_id ?sk \<in> set (sort (map fst (ks_verification_keys (bm_keys m))))"
    by (force simp: public_jwk_def dest: map_of_SomeD)
  then show "meth \<in> set methods"
    using collect_results_set assms(2,3) unfolding multikeys_def by metis
  show "method_of_key env meth (sk_private_jwk ?sk)"
    using multikey_fields [OF assms(2)] key by (auto simp: method_of_key_def)
qed

lemma verify_document_Inr:
  assumes "json_get ''proof'' document = Some (JArray [JObject p])" and "proof_of_method p meth"
    and "json_pointer ''/issuer/id'' document = Some (JString issuer)"
    and "multikeys env (bm_keys m) issuer = Inr methods" and "meth \<in> set methods"
    and "be_contexts_load env" and "verifies env document (map (\<lambda>k. (mk_id k, k)) methods)"
  shows "verify_document env m document issuer = Inr ()"
proof -
  have "mk_id meth \<in> mk_id ` set methods"
    using assms(5) by simp
  then show ?thesis
    using assms
    by (auto simp: verify_document_def single_proof_def resolver_def required_string_def require_equal_def
        json_pointers proof_of_method_def verifies_def image_image)
qed

lemma sign_document_contexts:
  "sign_document env m document issuer created_at = Inr credential \<Longrightarrow> be_contexts_load env"
  by (auto simp: sign_document_def and_then_eq_Inr Let_def split: if_splits)

lemma issued_credential_accepted:
  assumes suite: "signature_suite env" and uuids: "parses_uuids env (award_ids (ci_award input))"
    and keys: "bm_keys m = key_set_new env config"
    and methods: "verification_methods env m (ub_group_id (ci_award input)) = Inr methods"
    and issued: "issue_credential env m input = Inr credential"
    and award: "award_well_formed (ci_award input)" and identity: "identity_well_formed (ci_email_identity input)"
    and time: "be_parse_rfc3339 env (be_rfc3339 env (ub_awarded_at (ci_award input))) = Some valid_from"
  shows "verify_credential env m credential =
    Inr \<lparr>vc_description = bs_description (ub_snapshot (ci_award input)),
      vc_group_id = ub_group_id (ci_award input),
      vc_issuer = issuer_url m (ub_group_id (ci_award input)),
      vc_name = bs_name (ub_snapshot (ci_award input)),
      vc_status_list_id = ub_badge_status_list_id (ci_award input),
      vc_status_list_index = ub_status_list_index (ci_award input),
      vc_user_badge_id = ub_user_badge_id (ci_award input), vc_valid_from = valid_from,
      vc_email_identity = carried_identity (ci_email_identity input)\<rparr>"
proof -
  let ?award = "ci_award input" and ?issuer = "issuer_url m (ub_group_id (ci_award input))"
  obtain meth p where signed:
    "multikey env (bm_keys m) ?issuer (sk_key_id (ks_signing_key (bm_keys m))) = Inr meth"
    "credential = JObject (issued_members env m input p)" "proof_of_method p meth"
    "\<And>resolved. method_of_key env meth (sk_private_jwk (ks_signing_key (bm_keys m))) \<Longrightarrow>
       (mk_id meth, meth) \<in> set resolved \<Longrightarrow> verifies env credential resolved"
    using sign_document_result [OF suite credential_document_fresh issued [unfolded issue_credential_def]]
    unfolding issued_members_def by metis
  have resolved: "multikeys env (bm_keys m) ?issuer = Inr methods"
    using methods by (simp add: verification_methods_def)
  note meth = signing_method_resolved [OF keys signed(1) resolved]
  have "verifies env credential (map (\<lambda>k. (mk_id k, k)) methods)"
    using signed(4) [OF meth(2)] meth(1) by simp
  then have document: "verify_document env m credential ?issuer = Inr ()"
    using signed(3) resolved meth(1) sign_document_contexts [OF issued [unfolded issue_credential_def]]
    by (intro verify_document_Inr [of _ p meth]) (simp_all add: signed(2) issued_top json_pointers)
  have clean: "\<not> contains_identifier (JObject p)"
    using signed(3) by (simp add: proof_of_method_def)
  obtain achievement where subject: "map_of (credential_subject m input) ''achievement'' = Some (JObject achievement)"
      "map_of achievement ''description'' = Some (JString (bs_description (ub_snapshot ?award)))"
      "map_of achievement ''name'' = Some (JString (bs_name (ub_snapshot ?award)))"
    using subject_members(3) by blast
  have ids: "be_parse_uuid env (show_uuid (ub_user_badge_id ?award)) = Some (ub_user_badge_id ?award)"
      "be_parse_uuid env (show_uuid (ub_group_id ?award)) = Some (ub_group_id ?award)"
    using uuids by (simp_all add: parses_uuids_def award_ids_def)
  have "obj_len [(''id'', a), (''type'', b), (''name'', c)] = 3" for a b c
    by (simp add: obj_len_def)
  then show ?thesis
    using issued_identifier_supported [OF identity clean, of env m] document award time
      issued_status_reference [OF uuids award, of m p] issued_email_identity [of env m input p]
    unfolding verify_credential_def signed(2)
    by (simp add: issued_top required_string_def require_equal_def json_pointers parse_url_inverse [OF ids(1)]
        parse_url_inverse [OF ids(2)]
        subject subject_members award_well_formed_def)
qed

section \<open>What an accepted credential guarantees\<close>

lemma require_equal_iff: "require_equal e v pointer t = Inr u \<longleftrightarrow> json_pointer pointer v = Some (JString t)"
  by (auto simp: require_equal_def and_then_eq_Inr required_string_simps split: if_splits)

lemma verify_document_D:
  assumes "verify_document env m document issuer = Inr u"
  obtains methods signed p url where
    "multikeys env (bm_keys m) issuer = Inr methods" "be_from_value env document = Some signed"
    "be_proof_count env signed = 1" "be_verify env signed (map (\<lambda>k. (mk_id k, k)) methods)"
    "json_get ''proof'' document = Some (JArray [p])" "json_pointer ''/verificationMethod'' p = Some (JString url)"
    "url \<in> mk_id ` set methods" "json_pointer ''/cryptosuite'' p = Some (JString ''eddsa-rdfc-2022'')"
proof -
  have one: "\<exists>p. vs = [p]" if "length vs = 1" for vs :: "json list"
    using that by (cases vs) auto
  from assms obtain vs methods signed url where
    found: "json_get ''proof'' document = Some (JArray vs)" "length vs = 1"
      "multikeys env (bm_keys m) issuer = Inr methods" "be_from_value env document = Some signed"
      "be_proof_count env signed = 1" "be_verify env signed (map (\<lambda>k. (mk_id k, k)) methods)"
      "json_pointer ''/verificationMethod'' (vs ! 0) = Some (JString url)" "url \<in> mk_id ` set methods"
      "json_pointer ''/cryptosuite'' (vs ! 0) = Some (JString ''eddsa-rdfc-2022'')"
    by (auto simp: verify_document_def single_proof_def resolver_def and_then_eq_Inr ok_or_eq_Inr
        require_equal_iff required_string_simps image_image split: if_splits option.splits
        elim!: json_as_array.elims)
  then obtain p where "vs = [p]"
    using one by blast
  then show thesis
    using that found by simp
qed

lemma verify_credential_D:
  assumes "verify_credential env m credential = Inr v"
  shows "\<not> contains_unsupported_identifier credential"
    and "verify_document env m credential (vc_issuer v) = Inr ()"
    and "parse_issuer_url env m (vc_issuer v) = Inr (vc_group_id v)"
    and "json_pointer ''/issuer/id'' credential = Some (JString (vc_issuer v))"
    and "json_pointer ''/credentialSubject/id'' credential =
      Some (JString (''urn:uuid:'' @ show_uuid (vc_user_badge_id v)))"
    and "\<exists>credential_id. json_pointer ''/id'' credential = Some (JString credential_id) \<and>
      parse_credential_url env m credential_id = Inr (vc_user_badge_id v) \<and>
      verify_status_reference env m credential credential_id = Inr (vc_status_list_id v, vc_status_list_index v)"
  using assms
  by (auto simp: verify_credential_def and_then_eq_Inr ok_or_eq_Inr require_equal_iff required_string_simps
      split: if_splits)

lemma verify_status_reference_range:
  "verify_status_reference env m credential credential_id = Inr (list_id, index) \<Longrightarrow>
     0 \<le> index \<and> index < int STATUS_LIST_ENTRIES"
  by (auto simp: verify_status_reference_def and_then_eq_Inr split: if_splits)

section \<open>Double-checked caches\<close>

text \<open>
  The caches of credentials and status lists share one discipline: look up, wait for the signing
  lock, look up again, sign, store. What it needs of the operations is that each keeps the set of
  entries good, and that a hit is good.
\<close>

lemma double_checked:
  assumes run: "act_bind get (\<lambda>hit. case hit of Some c \<Rightarrow> act_ok c
      | None \<Rightarrow> act_bind guard (\<lambda>_. act_bind get (\<lambda>recheck. case recheck of Some c \<Rightarrow> act_ok c
        | None \<Rightarrow> act_bind (act_lift issue) (\<lambda>c. act_bind (store c) (\<lambda>_. act_ok c))))) s = (Inr x, s')"
    and get: "\<And>s c s'. P s \<Longrightarrow> get s = (Inr c, s') \<Longrightarrow> P s' \<and> (\<forall>x. c = Some x \<longrightarrow> Q x)"
    and guard: "\<And>s u s'. P s \<Longrightarrow> guard s = (Inr u, s') \<Longrightarrow> P s'"
    and issue: "\<And>c. issue = Inr c \<Longrightarrow> Q c"
    and store: "\<And>s c u s'. P s \<Longrightarrow> Q c \<Longrightarrow> store c s = (Inr u, s') \<Longrightarrow> P s'"
    and start: "P s"
  shows "P s' \<and> Q x"
proof -
  obtain hit s1 where hit: "get s = (Inr hit, s1)"
    using run by (auto simp: act_bind_eq_Inr)
  have s1: "P s1" "\<And>x. hit = Some x \<Longrightarrow> Q x"
    using get [OF start hit] by auto
  show ?thesis
  proof (cases hit)
    case (Some c)
    then show ?thesis
      using run hit s1 by (simp add: act_bind_def)
  next
    case None
    then obtain u s2 recheck s3 where steps: "guard s1 = (Inr u, s2)" "get s2 = (Inr recheck, s3)"
      using run hit by (auto simp: act_bind_eq_Inr)
    then have s3: "P s3" "\<And>x. recheck = Some x \<Longrightarrow> Q x"
      using guard [OF s1(1)] get by blast+
    show ?thesis
      using run hit None steps s3 issue store
      by (cases recheck; cases issue) (auto simp: act_bind_eq_Inr)
  qed
qed

lemma status_cache_get_hit:
  "status_cache_get cache list_id group_id revoked s = (Inr (Some c), s') \<longleftrightarrow>
     (\<exists>entry. slc_cache_get cache list_id s = (Inr (Some entry), s') \<and> csl_group_id entry = group_id \<and>
        csl_revoked_indexes entry = revoked \<and> c = csl_credential entry)"
  by (auto simp: status_cache_get_def act_bind_eq_Inr split: option.splits if_splits)

text \<open>
  What the LRU cache promises: a lookup returns the entry of the key, if it is still held, and
  changes no entry; a store adds at most the one entry.
\<close>

definition status_cache_contract ::
    "'s StatusListCache \<Rightarrow> ('s \<Rightarrow> uuid \<Rightarrow> CachedStatusList option) \<Rightarrow> bool" where
  "status_cache_contract cache entries \<longleftrightarrow>
     (\<forall>k s. \<exists>s'. slc_cache_get cache k s = (Inr (entries s k), s') \<and> entries s' = entries s) \<and>
     (\<forall>k e s u s'. slc_cache_set cache k e s = (Inr u, s') \<longrightarrow>
        (\<forall>j x. entries s' j = Some x \<longrightarrow> entries s j = Some x \<or> j = k \<and> x = e))"

text \<open>An entry is good when its credential was issued for the list, group and indexes it is filed under.\<close>

definition good_entries ::
    "('jwk, 'signed) badge_env \<Rightarrow> ('s, 'jwk) BadgesManager \<Rightarrow> (uuid \<Rightarrow> CachedStatusList option) \<Rightarrow> bool" where
  "good_entries env m entries \<longleftrightarrow>
     (\<forall>k e. entries k = Some e \<longrightarrow>
        (\<exists>t. issue_status_list env m k (csl_group_id e) (csl_revoked_indexes e) t = Inr (csl_credential e)))"

section \<open>Properties\<close>

text \<open>
  What the manager issues, it accepts. The verification of a credential that the manager issued for an
  award, with or without an exported email identity, succeeds and returns the award's own
  identifiers, name, description, status-list reference and identity, as long as every retained key
  is usable, the group has a name and the index lies within its status list.
\<close>

theorem issued_credential_verifies:
  assumes "signature_suite env" and "parses_uuids env (award_ids (ci_award input))"
    and "m = badges_manager_new env base_url config credential_cache status_list_cache"
    and "verification_methods env m (ub_group_id (ci_award input)) = Inr methods"
    and "issue_credential env m input = Inr credential"
    and "award_well_formed (ci_award input)" and "identity_well_formed (ci_email_identity input)"
    and "be_parse_rfc3339 env (be_rfc3339 env (ub_awarded_at (ci_award input))) = Some valid_from"
  shows "verify_credential env m credential =
    Inr \<lparr>vc_description = bs_description (ub_snapshot (ci_award input)),
      vc_group_id = ub_group_id (ci_award input),
      vc_issuer = issuer_url m (ub_group_id (ci_award input)),
      vc_name = bs_name (ub_snapshot (ci_award input)),
      vc_status_list_id = ub_badge_status_list_id (ci_award input),
      vc_status_list_index = ub_status_list_index (ci_award input),
      vc_user_badge_id = ub_user_badge_id (ci_award input), vc_valid_from = valid_from,
      vc_email_identity = carried_identity (ci_email_identity input)\<rparr>"
  using assms by (intro issued_credential_accepted [where config = config])
    (simp_all add: badges_manager_new_def)


text \<open>
  A cached status list is never stale. Whatever the cache held and whatever other requests stored while
  this one waited for the signing lock, a status list that is returned was issued for exactly the list,
  the group and the revoked indexes asked for, and every entry left in the cache is still one that
  was issued for what it is filed under.
\<close>

theorem status_list_cache_current:
  assumes "status_cache_contract (bm_status_list_cache m) entries"
    and "\<And>s u s'. good_entries env m (entries s) \<Longrightarrow>
      slc_signing_guard (bm_status_list_cache m) s = (Inr u, s') \<Longrightarrow> good_entries env m (entries s')"
    and "good_entries env m (entries s)"
    and "cached_status_list env m list_id group_id revoked created_at s = (Inr credential, s')"
  shows "good_entries env m (entries s') \<and>
    (\<exists>t. issue_status_list env m list_id group_id revoked t = Inr credential)"
proof (rule double_checked [where P = "\<lambda>s. good_entries env m (entries s)"
      and Q = "\<lambda>c. \<exists>t. issue_status_list env m list_id group_id revoked t = Inr c"])
  show "act_bind (status_cache_get (bm_status_list_cache m) list_id group_id revoked) (\<lambda>hit.
      case hit of Some c \<Rightarrow> act_ok c
      | None \<Rightarrow> act_bind (slc_signing_guard (bm_status_list_cache m)) (\<lambda>_.
        act_bind (status_cache_get (bm_status_list_cache m) list_id group_id revoked) (\<lambda>recheck.
        case recheck of Some c \<Rightarrow> act_ok c
        | None \<Rightarrow> act_bind (act_lift (issue_status_list env m list_id group_id revoked created_at)) (\<lambda>c.
          act_bind (status_cache_insert (bm_status_list_cache m) list_id c group_id revoked) (\<lambda>_. act_ok c)))))
      s = (Inr credential, s')"
    using assms(4) unfolding cached_status_list_def Let_def
    by (auto cong: option.case_cong)
next
  fix s c s'
  assume good: "good_entries env m (entries s)"
    and get: "status_cache_get (bm_status_list_cache m) list_id group_id revoked s = (Inr c, s')"
  obtain s1 where s1: "slc_cache_get (bm_status_list_cache m) list_id s = (Inr (entries s list_id), s1)"
      "entries s1 = entries s"
    using assms(1) unfolding status_cache_contract_def by blast
  then have "s' = s1"
    using get by (auto simp: status_cache_get_def act_bind_eq_Inr)
  moreover have "\<exists>t. issue_status_list env m list_id group_id revoked t = Inr x" if "c = Some x" for x
    using get good s1(1) unfolding that status_cache_get_hit good_entries_def by fastforce
  ultimately show "good_entries env m (entries s') \<and>
      (\<forall>x. c = Some x \<longrightarrow> (\<exists>t. issue_status_list env m list_id group_id revoked t = Inr x))"
    using s1(2) good by simp
next
  fix s c u s'
  assume "good_entries env m (entries s)" and "\<exists>t. issue_status_list env m list_id group_id revoked t = Inr c"
    and set: "status_cache_insert (bm_status_list_cache m) list_id c group_id revoked s = (Inr u, s')"
  then show "good_entries env m (entries s')"
    using assms(1) unfolding status_cache_contract_def status_cache_insert_def good_entries_def
    by fastforce
qed (use assms in blast)+

section \<open>A concrete site\<close>

text \<open>
  Key material is text, a signed document is its JSON value, and a proof verifies when its method is
  one of the resolver's. The status-list cache is a map.
\<close>

definition sample_proof :: "Multikey \<Rightarrow> (string \<times> json) list" where
  "sample_proof meth = [(''type'', JString ''DataIntegrityProof''),
     (''cryptosuite'', JString ''eddsa-rdfc-2022''), (''proofPurpose'', JString ''assertionMethod''),
     (''verificationMethod'', JString (mk_id meth)), (''proofValue'', JString (''z'' @ mk_public_key meth))]"

fun sample_sign :: "json \<Rightarrow> Multikey \<Rightarrow> json option" where
  "sample_sign (JObject members) meth = Some (JObject (members @ [(''proof'', JObject (sample_proof meth))]))"
| "sample_sign _ meth = None"

definition sample_verify :: "json \<Rightarrow> (string \<times> Multikey) list \<Rightarrow> bool" where
  "sample_verify document methods =
     (case json_pointer ''/proof/0/verificationMethod'' document of
        Some (JString url) \<Rightarrow> map_of methods url \<noteq> None | _ \<Rightarrow> False)"

definition sample_badge_env :: "(string, json) badge_env" where
  "sample_badge_env = \<lparr>be_to_public = id, be_okp_public_key = (\<lambda>k. Some (replicate 32 (of_nat (length k)))),
     be_verifying_key = (\<lambda>_. True), be_multibase = (\<lambda>bs. ''z'' @ show_nat (unat (hd bs))),
     be_valid_uri = (\<lambda>_. True), be_valid_iri = (\<lambda>_. True), be_valid_proof_options = (\<lambda>_. True),
     be_valid_document = (\<lambda>_. True), be_contexts_load = True,
     be_sign = (\<lambda>document meth _ _. sample_sign document meth),
     be_to_value = Some, be_from_value = Some, be_proof_count = (\<lambda>_. 1), be_verify = sample_verify,
     be_rfc3339 = (\<lambda>t. show_int t), be_parse_rfc3339 = (\<lambda>t. if t = ''7'' then Some 7 else None),
     be_parse_uuid = (\<lambda>t. find (\<lambda>u. show_uuid u = t) [1, 2, 3]),
     be_codec = \<lparr>sc_gzip = (\<lambda>_. Some []), sc_base64url = (\<lambda>_. ''H4sI'')\<rparr>\<rparr>"

definition sample_award :: UserBadge where
  "sample_award = \<lparr>ub_awarded_at = 7, ub_badge_status_list_id = 3, ub_display_order = 0, ub_group_id = 2,
     ub_is_listed = True,
     ub_snapshot = \<lparr>bs_criteria = ''Attend'', bs_description = ''Attended'', bs_image_file_name = ''a.png'',
       bs_issuer = \<lparr>bsi_community_id = 9, bsi_community_name = ''C'', bsi_group_id = 2, bsi_group_name = ''G''\<rparr>,
       bs_name = ''Badge''\<rparr>,
     ub_status_list_index = 5, ub_user_badge_id = 1, ub_badge_id = None, ub_event_id = None,
     ub_event_name = None, ub_identity_bound_at = None, ub_identity_hash = None, ub_identity_salt = None,
     ub_recipient_name = None, ub_recipient_username = Some ''ada'', ub_revocation_reason = None,
     ub_revoked_at = None, ub_revoked_by_user_id = None, ub_user_id = None\<rparr>"

definition sample_credential_input :: CredentialInput where
  "sample_credential_input = \<lparr>ci_award = sample_award, ci_created_at = 8,
     ci_email_identity = Some \<lparr>ei_hash = replicate 64 (CHR ''a''), ei_salt = ''ff''\<rparr>\<rparr>"

definition sample_badges_config :: "string BadgesConfig" where
  "sample_badges_config = \<lparr>bcfg_signing_key = \<lparr>bsk_key_id = ''k2'', bsk_private_jwk = ''key''\<rparr>,
     bcfg_verification_keys = [\<lparr>bvk_key_id = ''k1'', bvk_public_jwk = ''older''\<rparr>]\<rparr>"

type_synonym sample_cache = "uuid \<Rightarrow> CachedStatusList option"

definition sample_status_cache :: "sample_cache StatusListCache" where
  "sample_status_cache = \<lparr>slc_cache_get = (\<lambda>k s. (Inr (s k), s)), slc_cache_set = (\<lambda>k e s. (Inr (), s(k \<mapsto> e))),
     slc_signing_guard = act_ok ()\<rparr>"

definition sample_credential_cache :: "sample_cache CredentialCache" where
  "sample_credential_cache = \<lparr>cc_cache_get = (\<lambda>_. act_ok None), cc_cache_set = (\<lambda>_ _. act_ok ()),
     cc_signing_guard = act_ok ()\<rparr>"

definition sample_badges_manager :: "(sample_cache, string) BadgesManager" where
  "sample_badges_manager = badges_manager_new sample_badge_env ''https://ocg.test/'' sample_badges_config
     sample_credential_cache sample_status_cache"

lemma sample_verify_signed:
  assumes "''proof'' \<notin> fst ` set members" and "(mk_id meth, meth) \<in> set methods"
  shows "sample_verify (JObject (members @ [(''proof'', JArray [JObject (sample_proof meth)])])) methods"
proof -
  have "json_pointer ''/proof/0/verificationMethod'' =
      json_path [''proof'', ''0'', ''verificationMethod'']"
    by (simp add: json_pointer_def fun_eq_iff)
  then show ?thesis
    using weak_map_of_SomeI [OF assms(2)] map_of_append_fresh [OF assms(1)]
    by (auto simp: sample_verify_def sample_proof_def simp del: map_of_append)
qed

lemma sample_suite: "signature_suite sample_badge_env"
  unfolding signature_suite_def
  by (auto simp: sample_badge_env_def proof_of_method_def verifies_def sample_proof_def [symmetric]
      sample_verify_signed) (simp_all add: sample_proof_def)

lemma not_isl_obtain: "\<not> isl r \<Longrightarrow> \<exists>x. r = Inr x"
  by (cases r) auto

lemma sample_runs:
  "\<exists>methods. verification_methods sample_badge_env sample_badges_manager (ub_group_id (ci_award sample_credential_input)) =
     Inr methods"
  "\<exists>credential. issue_credential sample_badge_env sample_badges_manager sample_credential_input = Inr credential"
  by (rule not_isl_obtain, code_simp)+

lemma sample_facts:
  "parses_uuids sample_badge_env (award_ids (ci_award sample_credential_input))"
  "award_well_formed (ci_award sample_credential_input)"
  "identity_well_formed (ci_email_identity sample_credential_input)"
  "be_parse_rfc3339 sample_badge_env (be_rfc3339 sample_badge_env (ub_awarded_at (ci_award sample_credential_input))) =
     Some 7"
  by (code_simp, simp add: award_well_formed_def sample_credential_input_def sample_award_def
      STATUS_LIST_ENTRIES_def, code_simp, code_simp)

theorem issued_credential_verifies_witness:
  "\<exists>credential. issue_credential sample_badge_env sample_badges_manager sample_credential_input = Inr credential \<and>
     map_option vc_user_badge_id (case verify_credential sample_badge_env sample_badges_manager credential of
       Inr v \<Rightarrow> Some v | Inl _ \<Rightarrow> None) = Some 1"
proof -
  obtain methods credential where runs:
    "verification_methods sample_badge_env sample_badges_manager (ub_group_id (ci_award sample_credential_input)) = Inr methods"
    "issue_credential sample_badge_env sample_badges_manager sample_credential_input = Inr credential"
    using sample_runs by blast
  show ?thesis
    using issued_credential_verifies [OF sample_suite sample_facts(1) sample_badges_manager_def runs
        sample_facts(2,3,4)] runs(2)
    by (simp add: sample_credential_input_def sample_award_def)
qed


lemma sample_status_list:
  "\<exists>credential. issue_status_list sample_badge_env sample_badges_manager 3 2 [5] 9 = Inr credential"
proof -
  have encoded: "encode_status_list (be_codec sample_badge_env) [5] = Inr ''uH4sI''"
    by (simp add: encode_status_list_def set_status_bits_reference reference_status_list_def sample_badge_env_def)
  show ?thesis
    unfolding issue_status_list_def encoded and_then_simps Let_def by (rule not_isl_obtain) code_simp
qed

theorem status_list_cache_current_witness:
  "\<exists>credential s'. cached_status_list sample_badge_env sample_badges_manager 3 2 [5] 9 (\<lambda>_. None) =
       (Inr credential, s') \<and> good_entries sample_badge_env sample_badges_manager s' \<and>
     (\<exists>t. issue_status_list sample_badge_env sample_badges_manager 3 2 [5] t = Inr credential)"
proof -
  obtain credential where issued: "issue_status_list sample_badge_env sample_badges_manager 3 2 [5] 9 = Inr credential"
    using sample_status_list by blast
  have cache: "bm_status_list_cache sample_badges_manager = sample_status_cache"
    by (simp add: sample_badges_manager_def badges_manager_new_def)
  obtain s' where run: "cached_status_list sample_badge_env sample_badges_manager 3 2 [5] 9 (\<lambda>_. None) = (Inr credential, s')"
    unfolding cached_status_list_def cache Let_def
    by (simp add: act_bind_def status_cache_get_def status_cache_insert_def sample_status_cache_def issued)
  have contract: "status_cache_contract (bm_status_list_cache sample_badges_manager) (\<lambda>s. s)"
    unfolding cache status_cache_contract_def sample_status_cache_def by auto
  have guard: "good_entries sample_badge_env sample_badges_manager t'"
    if "good_entries sample_badge_env sample_badges_manager t"
      "slc_signing_guard (bm_status_list_cache sample_badges_manager) t = (Inr u, t')" for t u t'
    using that by (simp add: cache sample_status_cache_def)
  have start: "good_entries sample_badge_env sample_badges_manager (\<lambda>_. None)"
    by (simp add: good_entries_def)
  have "good_entries sample_badge_env sample_badges_manager s' \<and>
      (\<exists>t. issue_status_list sample_badge_env sample_badges_manager 3 2 [5] t = Inr credential)"
    by (rule status_list_cache_current [OF contract _ start run]) (rule guard)
  then show ?thesis
    using run by blast
qed

end
