(* ===== verification/Badge_Handlers.thy ===== *)
theory Badge_Handlers
  imports Badge_Credentials
begin

text \<open>
  The public badge endpoints (\<^verbatim>\<open>ocg-server/src/handlers/badges.rs\<close>), the export of an owned badge
  (\<^verbatim>\<open>handlers/dashboard/user/badges.rs\<close>) and the handlers' error type (\<^verbatim>\<open>handlers/error.rs\<close>).
  The database and the image storage are actions on the world, as the traits of the code; the JSON
  text codec of serde is an argument. A response is its status, the headers the handler sets and its body;
  rendering of pages is an argument.
\<close>

section \<open>Handler errors\<close>

datatype HandlerError =
    Auth string | Database string | Deserialization string | Forbidden | NotFound | Other anyhow
  | Serde string | Session string | Template string | Validation string

definition handler_status :: "HandlerError \<Rightarrow> nat" where
  "handler_status e =
     (case e of
        Auth _ \<Rightarrow> 401
      | Database _ \<Rightarrow> 422
      | Deserialization _ \<Rightarrow> 422
      | Forbidden \<Rightarrow> 403
      | NotFound \<Rightarrow> 404
      | Validation _ \<Rightarrow> 422
      | _ \<Rightarrow> 500)"

text \<open>
  \<^verbatim>\<open>From<anyhow::Error>\<close>: a message the database raised on purpose is shown, a handler error carried
  inside is taken out, anything else stays internal. What an error carries is an argument.
\<close>

record error_classes =
  ec_extract_db_error_message :: "anyhow \<Rightarrow> string option"
  ec_downcast :: "anyhow \<Rightarrow> HandlerError option"

definition handler_error_from :: "error_classes \<Rightarrow> anyhow \<Rightarrow> HandlerError" where
  "handler_error_from classes e =
     (case ec_extract_db_error_message classes e of
        Some message \<Rightarrow> Database message
      | None \<Rightarrow> (case ec_downcast classes e of Some handler_err \<Rightarrow> handler_err | None \<Rightarrow> Other e))"

primrec badge_error_message :: "BadgesManagerError \<Rightarrow> string" where
  "badge_error_message Busy = ''badge credential signer is busy''"
| "badge_error_message InvalidContext = ''invalid badge context configuration''"
| "badge_error_message InvalidCredential = ''invalid badge credential''"
| "badge_error_message InvalidImage = ''invalid badge image''"
| "badge_error_message InvalidKey = ''invalid badge key configuration''"
| "badge_error_message InvalidPng = ''invalid Open Badges PNG''"
| "badge_error_message InvalidProof = ''badge credential proof verification failed''"
| "badge_error_message InvalidStatusList = ''invalid badge status list''"
| "badge_error_message InvalidUrl = ''invalid badge URL''"
| "badge_error_message PngLimitExceeded = ''Open Badges PNG exceeds the supported size limit''"
| "badge_error_message SigningFailed = ''badge credential signing failed''"
| "badge_error_message UnknownVerificationMethod = ''unknown badge verification method''"

definition badge_anyhow :: "BadgesManagerError \<Rightarrow> anyhow" where
  "badge_anyhow e = Msg (badge_error_message e)"

section \<open>The surroundings of a handler\<close>

record BadgeStatusList =
  bsl_badge_status_list_id :: uuid
  bsl_group_id :: uuid
  bsl_revoked_indexes :: "int list"

record VerifiedBadgeView =
  vbv_description :: string
  vbv_image_url :: string
  vbv_issuer :: string
  vbv_name :: string
  vbv_revoked :: bool
  vbv_superseded :: bool
  vbv_valid_from :: instant
  vbv_recipient_name :: "string option"

datatype VerificationError = Invalid | Internal anyhow

text \<open>
  The parts of the application state the handlers use: the badge methods of the database, the
  image storage, the clock, the JSON text codec, the page templates and the manager.
\<close>

record ('s, 'jwk, 'signed, 'img) badge_app =
  ba_get_public_user_badge :: "uuid \<Rightarrow> ('s, UserBadge option) io"
  ba_get_user_badge :: "uuid \<Rightarrow> uuid \<Rightarrow> ('s, UserBadge option) io"
  ba_refresh_user_badge_identity :: "uuid \<Rightarrow> uuid \<Rightarrow> ('s, UserBadgeIdentity) io"
  ba_get_badge_status_list :: "uuid \<Rightarrow> ('s, BadgeStatusList option) io"
  ba_list_user_public_badges :: "nat \<Rightarrow> nat \<Rightarrow> string \<Rightarrow> ('s, json) io"
  ba_image_get :: "string \<Rightarrow> ('s, bytes option) io"
  ba_now :: "'s \<Rightarrow> instant"
  ba_to_vec :: "json \<Rightarrow> bytes option"
  ba_from_slice :: "bytes \<Rightarrow> json option"
  ba_errors :: error_classes
  ba_parse_f32_positive :: "string \<Rightarrow> bool option"
  ba_render_credential_page :: "UserBadge \<Rightarrow> string \<Rightarrow> string \<Rightarrow> bool \<Rightarrow> ('s, HandlerError, string) act"
  ba_render_verify_page :: "string \<Rightarrow> VerifiedBadgeView option \<Rightarrow> string option \<Rightarrow> ('s, HandlerError, string) act"
  ba_env :: "('jwk, 'signed) badge_env"
  ba_png :: "'img png_env"
  ba_manager :: "('s, 'jwk) BadgesManager"

datatype body = JsonBody json | PngBody bytes | HtmlBody string | EmptyBody

record response =
  rs_status :: nat
  rs_headers :: "(string \<times> string) list"
  rs_body :: body

type_synonym 's handler = "('s, HandlerError, response) act"

definition CACHE_CONTROL_NO_STORE :: string where
  "CACHE_CONTROL_NO_STORE = ''no-store''"

definition STATUS_LIST_CACHE_CONTROL :: string where
  "STATUS_LIST_CACHE_CONTROL = ''public, max-age=600''"

definition ISSUER_KEY_CACHE_CONTROL :: string where
  "ISSUER_KEY_CACHE_CONTROL = ''public, max-age=31536000, immutable''"

definition CREDENTIAL_CACHE_VARY :: string where
  "CREDENTIAL_CACHE_VARY = ''x-ocg-commit-sha, hx-request, x-ocg-fetch, accept''"

definition INVALID_VERIFICATION_MESSAGE :: string where
  "INVALID_VERIFICATION_MESSAGE = ''This badge could not be verified as an OCG-issued credential.''"

definition USER_PROFILE_BADGES_LIMIT :: nat where
  "USER_PROFILE_BADGES_LIMIT = 50"

definition CID_CONTEXT_URL :: string where
  "CID_CONTEXT_URL = ''https://www.w3.org/ns/cid/v1''"

definition MULTIKEY_CONTEXT_URL :: string where
  "MULTIKEY_CONTEXT_URL = ''https://w3id.org/security/multikey/v1''"

definition db_result :: "('s, 'jwk, 'signed, 'img) badge_app \<Rightarrow> ('s, 'a) io \<Rightarrow> ('s, HandlerError, 'a) act" where
  "db_result app = act_map_err (handler_error_from (ba_errors app))"

text \<open>The answer to a request that found the signer busy.\<close>

definition busy_response :: response where
  "busy_response = \<lparr>rs_status = 503,
     rs_headers = [(''cache-control'', CACHE_CONTROL_NO_STORE), (''retry-after'', ''1'')], rs_body = EmptyBody\<rparr>"

definition signed_or_busy ::
    "('s, BadgesManagerError, json) act \<Rightarrow> (json \<Rightarrow> 's handler) \<Rightarrow> 's handler" where
  "signed_or_busy signing continue =
     act_try signing (\<lambda>result. case result of
         Inr credential \<Rightarrow> continue credential
       | Inl e \<Rightarrow> if e = Busy then act_ok busy_response else act_err (Other (badge_anyhow e)))"

section \<open>Helpers\<close>

text \<open>\<^verbatim>\<open>accepts_credential\<close> on the values of the Accept headers that are text.\<close>

definition accepts_item :: "(string \<Rightarrow> bool option) \<Rightarrow> string \<Rightarrow> bool" where
  "accepts_item parse_positive item =
     (let parts = map trim (split_char (CHR '';'') item);
          supported = eq_ignore_ascii_case (hd parts) ''application/vc+ld+json'';
          parameters = List.map_filter (\<lambda>parameter.
            case split_once (CHR ''='') parameter of (name, Some v) \<Rightarrow> Some (name, v) | (_, None) \<Rightarrow> None) (tl parts);
          quality_positive =
            (case find (\<lambda>(name, _). eq_ignore_ascii_case (trim name) ''q'') parameters of
               None \<Rightarrow> True
             | Some (_, v) \<Rightarrow> (case parse_positive (trim v) of Some b \<Rightarrow> b | None \<Rightarrow> False)) in
      supported \<and> quality_positive)"

definition accepts_credential :: "(string \<Rightarrow> bool option) \<Rightarrow> string list \<Rightarrow> bool" where
  "accepts_credential parse_positive accept_values =
     list_ex (accepts_item parse_positive) (concat (map (split_char (CHR '','')) accept_values))"

definition badge_image_url :: "string \<Rightarrow> string" where
  "badge_image_url image_file_name = ''/images/badges/'' @ image_file_name"

definition map_verification_validation_error :: "BadgesManagerError \<Rightarrow> VerificationError" where
  "map_verification_validation_error e =
     (if e = InvalidContext \<or> e = InvalidKey then Internal (badge_anyhow e) else Invalid)"

definition recipient_display_name :: "string option \<Rightarrow> string option \<Rightarrow> string option" where
  "recipient_display_name name username = (case name of Some n \<Rightarrow> Some n | None \<Rightarrow> username)"

section \<open>Verification of a submission\<close>

definition load_public_award ::
    "('s, 'jwk, 'signed, 'img) badge_app \<Rightarrow> uuid \<Rightarrow> ('s, VerificationError, UserBadge) act" where
  "load_public_award app user_badge_id =
     act_bind (act_map_err Internal (ba_get_public_user_badge app user_badge_id)) (\<lambda>found.
     act_lift (ok_or Invalid found))"

definition verify_png ::
    "('s, 'jwk, 'signed, 'img) badge_app \<Rightarrow> bytes \<Rightarrow> ('s, VerificationError, VerifiedBadgeView) act" where
  "verify_png app png =
     act_bind (act_lift (case png_extract (ba_png app) png of Inl _ \<Rightarrow> Inl Invalid | Inr bs \<Rightarrow> Inr bs)) (\<lambda>content.
     act_bind (act_lift (ok_or Invalid (ba_from_slice app content))) (\<lambda>credential.
     act_bind (act_map_err map_verification_validation_error
       (act_lift (verify_credential (ba_env app) (ba_manager app) credential))) (\<lambda>verified.
     act_bind (load_public_award app (vc_user_badge_id verified)) (\<lambda>award.
     if ub_badge_status_list_id award \<noteq> vc_status_list_id verified \<or> ub_group_id award \<noteq> vc_group_id verified
        \<or> ub_status_list_index award \<noteq> vc_status_list_index verified
     then act_err Invalid
     else act_ok \<lparr>vbv_description = vc_description verified,
       vbv_image_url = badge_image_url (bs_image_file_name (ub_snapshot award)),
       vbv_issuer = vc_issuer verified, vbv_name = vc_name verified,
       vbv_revoked = (ub_revoked_at award \<noteq> None),
       vbv_superseded = (case vc_email_identity verified of
           None \<Rightarrow> False
         | Some identity \<Rightarrow> ub_identity_hash award \<noteq> Some (vei_identity_hash identity)
             \<or> ub_identity_salt award \<noteq> Some (vei_salt identity)),
       vbv_valid_from = vc_valid_from verified,
       vbv_recipient_name = recipient_display_name (ub_recipient_name award) (ub_recipient_username award)\<rparr>))))"

definition verify_reference ::
    "('s, 'jwk, 'signed, 'img) badge_app \<Rightarrow> string option \<Rightarrow> ('s, VerificationError, VerifiedBadgeView) act" where
  "verify_reference app credential_reference =
     act_bind (act_lift (ok_or Invalid
       (case credential_reference of None \<Rightarrow> None | Some r \<Rightarrow> if trim r = [] then None else Some (trim r)))) (\<lambda>reference.
     act_bind (act_lift
       (case be_parse_uuid (ba_env app) reference of
          Some u \<Rightarrow> Inr u
        | None \<Rightarrow> (case parse_credential_url (ba_env app) (ba_manager app) reference of
            Inl _ \<Rightarrow> Inl Invalid | Inr u \<Rightarrow> Inr u))) (\<lambda>user_badge_id.
     act_bind (load_public_award app user_badge_id) (\<lambda>award.
     act_ok \<lparr>vbv_description = bs_description (ub_snapshot award),
       vbv_image_url = badge_image_url (bs_image_file_name (ub_snapshot award)),
       vbv_issuer = issuer_url (ba_manager app) (ub_group_id award), vbv_name = bs_name (ub_snapshot award),
       vbv_revoked = (ub_revoked_at award \<noteq> None), vbv_superseded = False,
       vbv_valid_from = ub_awarded_at award,
       vbv_recipient_name = recipient_display_name (ub_recipient_name award) (ub_recipient_username award)\<rparr>)))"

definition verify_submission ::
    "('s, 'jwk, 'signed, 'img) badge_app \<Rightarrow> string option \<Rightarrow> bytes option \<Rightarrow>
     ('s, VerificationError, VerifiedBadgeView) act" where
  "verify_submission app credential_reference png_bytes =
     (case png_bytes of
        Some png \<Rightarrow> verify_png app png
      | None \<Rightarrow> verify_reference app credential_reference)"

definition render_verify_page ::
    "('s, 'jwk, 'signed, 'img) badge_app \<Rightarrow> string \<Rightarrow> VerifiedBadgeView option \<Rightarrow> string option \<Rightarrow> 's handler" where
  "render_verify_page app path verified message =
     act_bind (ba_render_verify_page app path verified message) (\<lambda>html.
     act_ok \<lparr>rs_status = 200, rs_headers = [(''cache-control'', CACHE_CONTROL_NO_STORE)], rs_body = HtmlBody html\<rparr>)"

text \<open>\<^verbatim>\<open>verify\<close>, after the fields of the form were collected.\<close>

definition verify_handler ::
    "('s, 'jwk, 'signed, 'img) badge_app \<Rightarrow> string \<Rightarrow> string option \<Rightarrow> bytes option \<Rightarrow> 's handler" where
  "verify_handler app path credential_reference png_bytes =
     act_try (verify_submission app credential_reference png_bytes) (\<lambda>result. case result of
         Inr view \<Rightarrow> render_verify_page app path (Some view) None
       | Inl Invalid \<Rightarrow> render_verify_page app path None (Some INVALID_VERIFICATION_MESSAGE)
       | Inl (Internal e) \<Rightarrow> act_err (Other e))"

section \<open>Public documents\<close>

text \<open>
  The shared cache headers come first and an extra header replaces one of the same name. The value of
  the shared cache policy depends on the build and is an argument.
\<close>

definition PUBLIC_SHARED_CACHE_VARY :: string where
  "PUBLIC_SHARED_CACHE_VARY = ''x-ocg-commit-sha, hx-request, x-ocg-fetch''"

definition public_shared_cache_headers :: "string \<Rightarrow> (string \<times> string) list" where
  "public_shared_cache_headers policy = [(''cache-control'', policy), (''vary'', PUBLIC_SHARED_CACHE_VARY)]"

definition extend_public_shared_cache_headers ::
    "string \<Rightarrow> (string \<times> string) list \<Rightarrow> (string \<times> string) list" where
  "extend_public_shared_cache_headers policy extra_headers =
     fold (\<lambda>(key, v). AList.update key v) extra_headers (public_shared_cache_headers policy)"

definition credential_handler ::
    "('s, 'jwk, 'signed, 'img) badge_app \<Rightarrow> string \<Rightarrow> uuid \<Rightarrow> string list \<Rightarrow> string \<Rightarrow> 's handler" where
  "credential_handler app policy user_badge_id accept_values path =
     act_bind (db_result app (ba_get_public_user_badge app user_badge_id)) (\<lambda>found.
     act_bind (act_lift (ok_or NotFound found)) (\<lambda>award.
     if accepts_credential (ba_parse_f32_positive app) accept_values then
       signed_or_busy (cached_credential (ba_env app) (ba_manager app) award) (\<lambda>credential.
         act_ok \<lparr>rs_status = 200,
           rs_headers = extend_public_shared_cache_headers policy
             [(''content-type'', ''application/vc+ld+json''), (''vary'', CREDENTIAL_CACHE_VARY)],
           rs_body = JsonBody credential\<rparr>)
     else
       act_bind (ba_render_credential_page app award (badge_image_url (bs_image_file_name (ub_snapshot award)))
         path (ub_revoked_at award \<noteq> None)) (\<lambda>html.
       act_ok \<lparr>rs_status = 200,
         rs_headers = extend_public_shared_cache_headers policy [(''vary'', CREDENTIAL_CACHE_VARY)],
         rs_body = HtmlBody html\<rparr>)))"

definition multikey_json :: "Multikey \<Rightarrow> json" where
  "multikey_json method = JObject [(''id'', JString (mk_id method)), (''type'', JString ''Multikey''),
     (''controller'', JString (mk_controller method)), (''publicKeyMultibase'', JString (mk_public_key method))]"

definition issuer_handler :: "('s, 'jwk, 'signed, 'img) badge_app \<Rightarrow> string \<Rightarrow> uuid \<Rightarrow> 's handler" where
  "issuer_handler app policy group_id =
     act_bind (act_map_err (\<lambda>e. Other (badge_anyhow e))
       (act_lift (verification_methods (ba_env app) (ba_manager app) group_id))) (\<lambda>methods.
     act_ok \<lparr>rs_status = 200, rs_headers = public_shared_cache_headers policy,
       rs_body = JsonBody (JObject
         [(''@context'', JArray [JString CID_CONTEXT_URL, JString OPEN_BADGES_CONTEXT_URL]),
          (''id'', JString (issuer_url (ba_manager app) group_id)),
          (''type'', JArray [JString ''Profile'']),
          (''name'', JString (issuer_name group_id)),
          (''assertionMethod'', JArray (map (\<lambda>k. JString (mk_id k)) methods)),
          (''verificationMethod'', JArray (map multikey_json methods))])\<rparr>)"

definition issuer_key_handler :: "('s, 'jwk, 'signed, 'img) badge_app \<Rightarrow> uuid \<Rightarrow> string \<Rightarrow> 's handler" where
  "issuer_key_handler app group_id key_multibase =
     act_bind (act_map_err (\<lambda>e. if e = UnknownVerificationMethod then NotFound else Other (badge_anyhow e))
       (act_lift (verification_method (ba_env app) (ba_manager app) group_id key_multibase))) (\<lambda>method.
     act_ok \<lparr>rs_status = 200, rs_headers = [(''cache-control'', ISSUER_KEY_CACHE_CONTROL)],
       rs_body = JsonBody (JObject [(''@context'', JString MULTIKEY_CONTEXT_URL),
         (''id'', JString (mk_id method)), (''type'', JString ''Multikey''),
         (''controller'', JString (mk_controller method)),
         (''publicKeyMultibase'', JString (mk_public_key method))])\<rparr>)"

definition status_list_handler :: "('s, 'jwk, 'signed, 'img) badge_app \<Rightarrow> uuid \<Rightarrow> 's handler" where
  "status_list_handler app badge_status_list_id =
     act_bind (db_result app (ba_get_badge_status_list app badge_status_list_id)) (\<lambda>found.
     act_bind (act_lift (ok_or NotFound found)) (\<lambda>status.
     act_bind (\<lambda>s. act_map_err (\<lambda>e. Other (badge_anyhow e))
       (cached_status_list (ba_env app) (ba_manager app) (bsl_badge_status_list_id status)
         (bsl_group_id status) (bsl_revoked_indexes status) (ba_now app s)) s) (\<lambda>credential.
     act_ok \<lparr>rs_status = 200,
       rs_headers = [(''content-type'', ''application/vc+ld+json''), (''cache-control'', STATUS_LIST_CACHE_CONTROL)],
       rs_body = JsonBody credential\<rparr>)))"

definition user_profile_badges ::
    "('s, 'jwk, 'signed, 'img) badge_app \<Rightarrow> string \<Rightarrow> string \<Rightarrow> nat option \<Rightarrow> nat option \<Rightarrow> 's handler" where
  "user_profile_badges app policy username limit_arg offset_arg =
     (let limit = (case limit_arg of Some n \<Rightarrow> n | None \<Rightarrow> USER_PROFILE_BADGES_LIMIT);
          offset = (case offset_arg of Some n \<Rightarrow> n | None \<Rightarrow> 0) in
      if limit = 0 \<or> limit > USER_PROFILE_BADGES_LIMIT \<or> int offset \<ge> 2 ^ 31
      then act_err (Deserialization ''badge pagination is outside the supported range'')
      else act_bind (db_result app (ba_list_user_public_badges app limit offset username)) (\<lambda>badges.
        act_ok \<lparr>rs_status = 200, rs_headers = public_shared_cache_headers policy, rs_body = JsonBody badges\<rparr>))"

section \<open>Export\<close>

definition export_handler ::
    "('s, 'jwk, 'signed, 'img) badge_app \<Rightarrow> uuid \<Rightarrow> uuid \<Rightarrow> 's handler" where
  "export_handler app user_id user_badge_id =
     act_bind (db_result app (ba_get_user_badge app user_id user_badge_id)) (\<lambda>found.
     act_bind (act_lift (ok_or NotFound
       (case found of None \<Rightarrow> None | Some a \<Rightarrow> if ub_revoked_at a = None then Some a else None))) (\<lambda>award.
     act_bind (db_result app (ba_image_get app (bs_image_file_name (ub_snapshot award)))) (\<lambda>image_found.
     act_bind (act_lift (ok_or NotFound image_found)) (\<lambda>source.
     act_bind (db_result app (ba_refresh_user_badge_identity app user_id user_badge_id)) (\<lambda>identity.
     signed_or_busy (cached_export_credential (ba_env app) (ba_manager app) award identity) (\<lambda>credential.
     act_bind (act_lift (ok_or (Serde ''serde json error'') (ba_to_vec app credential))) (\<lambda>content.
     act_bind (act_map_err (\<lambda>e. Other (badge_anyhow e)) (act_lift (bake (ba_png app) source content))) (\<lambda>png.
     act_ok \<lparr>rs_status = 200,
       rs_headers = [(''content-type'', ''image/png''),
         (''content-disposition'', ''attachment; filename=\"badge-'' @ show_uuid user_badge_id @ ''.png\"'')],
       rs_body = PngBody png\<rparr>))))))))"

section \<open>Properties\<close>

text \<open>
  C20: an exported badge verifies. Let the credential issued for an award with its bound email identity be baked
  into artwork. Whoever uploads that PNG is shown the award's name, description and issuer,
  with the revocation flag and the recipient of the award as the database has them now, and it is marked superseded
  exactly when the award is no longer bound to the exported identity.
\<close>

theorem exported_badge_verifies:
  assumes "signature_suite (ba_env app)" and "parses_uuids (ba_env app) (award_ids award)"
    and "ba_manager app = badges_manager_new (ba_env app) base_url config credential_cache status_list_cache"
    and "verification_methods (ba_env app) (ba_manager app) (ub_group_id award) = Inr methods"
    and "issue_credential (ba_env app) (ba_manager app)
      \<lparr>ci_award = award, ci_created_at = bound_at, ci_email_identity = Some identity\<rparr> = Inr credential"
    and "award_well_formed award" and "identity_well_formed (Some identity)"
    and "be_parse_rfc3339 (ba_env app) (be_rfc3339 (ba_env app) (ub_awarded_at award)) = Some valid_from"
    and "ba_to_vec app credential = Some content" and "ba_from_slice app content = Some credential"
    and "pe_decode (ba_png app) source = Some img" and "pe_dimensions (ba_png app) img = (512, 512)"
    and "encodes_plainly (ba_png app) img cs trailer" and "ignores_text (ba_png app) img cs trailer"
    and "int (length source) \<le> MAX_PNG_SIZE" and "int (length content) \<le> MAX_CREDENTIAL_SIZE"
    and "int (length (png_stream (ba_png app) (cs @ [(ITXT, credential_data content)]) trailer)) \<le> MAX_PNG_SIZE"
    and "ba_get_public_user_badge app (ub_user_badge_id award) s = (Inr (Some current), s')"
    and "award_ids current = award_ids award" and "ub_status_list_index current = ub_status_list_index award"
  shows "\<exists>png. bake (ba_png app) source content = Inr png \<and>
    verify_submission app reference (Some png) s =
      (Inr \<lparr>vbv_description = bs_description (ub_snapshot award),
        vbv_image_url = badge_image_url (bs_image_file_name (ub_snapshot current)),
        vbv_issuer = issuer_url (ba_manager app) (ub_group_id award), vbv_name = bs_name (ub_snapshot award),
        vbv_revoked = (ub_revoked_at current \<noteq> None),
        vbv_superseded = (ub_identity_hash current \<noteq> Some (ei_hash identity) \<or>
          ub_identity_salt current \<noteq> Some (ei_salt identity)),
        vbv_valid_from = valid_from,
        vbv_recipient_name = recipient_display_name (ub_recipient_name current) (ub_recipient_username current)\<rparr>, s')"
proof -
  let ?input = "\<lparr>ci_award = award, ci_created_at = bound_at, ci_email_identity = Some identity\<rparr>"
  have keys: "bm_keys (ba_manager app) = key_set_new (ba_env app) config"
    by (simp add: assms(3) badges_manager_new_def)
  obtain png where png: "bake (ba_png app) source content = Inr png" "png_extract (ba_png app) png = Inr content"
    using baked_credential_extracted [OF assms(11-17)] by blast
  have "verify_credential (ba_env app) (ba_manager app) credential = Inr
      \<lparr>vc_description = bs_description (ub_snapshot award), vc_group_id = ub_group_id award,
        vc_issuer = issuer_url (ba_manager app) (ub_group_id award), vc_name = bs_name (ub_snapshot award),
        vc_status_list_id = ub_badge_status_list_id award, vc_status_list_index = ub_status_list_index award,
        vc_user_badge_id = ub_user_badge_id award, vc_valid_from = valid_from,
        vc_email_identity = carried_identity (Some identity)\<rparr>"
    using issued_credential_accepted [OF assms(1) _ keys _ assms(5) _ _ _] assms(2,4,6,7,8) by simp
  then show ?thesis
    using png assms(10,18-20)
    by (simp add: verify_submission_def verify_png_def act_bind_def act_map_err_def load_public_award_def
        carried_identity_def award_ids_def)
qed

text \<open>The concrete site again, with a database that holds the one award and a codec for the one credential.\<close>

definition sample_badge_app :: "json \<Rightarrow> (sample_cache, string, json, unit) badge_app" where
  "sample_badge_app credential = \<lparr>ba_get_public_user_badge = (\<lambda>_. act_ok (Some sample_award)),
     ba_get_user_badge = (\<lambda>_ _. act_ok (Some sample_award)),
     ba_refresh_user_badge_identity = (\<lambda>_ _. act_err (Msg ''unused'')),
     ba_get_badge_status_list = (\<lambda>_. act_ok None), ba_list_user_public_badges = (\<lambda>_ _ _. act_ok JNull),
     ba_image_get = (\<lambda>_. act_ok (Some [])), ba_now = (\<lambda>_. 0),
     ba_to_vec = (\<lambda>_. Some [1, 2, 3]), ba_from_slice = (\<lambda>_. Some credential),
     ba_errors = \<lparr>ec_extract_db_error_message = (\<lambda>_. None), ec_downcast = (\<lambda>_. None)\<rparr>,
     ba_parse_f32_positive = (\<lambda>_. None), ba_render_credential_page = (\<lambda>_ _ _ _. act_ok ''page''),
     ba_render_verify_page = (\<lambda>_ _ _. act_ok ''page''), ba_env = sample_badge_env, ba_png = sample_png_env,
     ba_manager = sample_badges_manager\<rparr>"

lemma sample_app_fields [simp]:
  "ba_env (sample_badge_app credential) = sample_badge_env"
  "ba_png (sample_badge_app credential) = sample_png_env"
  "ba_manager (sample_badge_app credential) = sample_badges_manager"
  by (simp_all add: sample_badge_app_def)

theorem exported_badge_verifies_witness:
  "\<exists>credential png view. bake sample_png_env [] [1, 2, 3] = Inr png \<and>
     verify_submission (sample_badge_app credential) None (Some png) (\<lambda>_. None) = (Inr view, \<lambda>_. None) \<and>
     vbv_name view = ''Badge'' \<and> vbv_superseded view"
proof -
  let ?identity = "\<lparr>ei_hash = replicate 64 (CHR ''a''), ei_salt = ''ff''\<rparr>"
  have input: "sample_credential_input =
      \<lparr>ci_award = sample_award, ci_created_at = 8, ci_email_identity = Some ?identity\<rparr>"
    by (simp add: sample_credential_input_def)
  obtain methods credential where runs:
    "verification_methods sample_badge_env sample_badges_manager (ub_group_id sample_award) = Inr methods"
    "issue_credential sample_badge_env sample_badges_manager
      \<lparr>ci_award = sample_award, ci_created_at = 8, ci_email_identity = Some ?identity\<rparr> = Inr credential"
    using sample_runs by (auto simp: input)
  note facts = sample_facts [unfolded input, simplified]
  let ?app = "sample_badge_app credential"
  have "\<exists>png. bake (ba_png ?app) [] [1, 2, 3] = Inr png \<and>
    verify_submission ?app None (Some png) (\<lambda>_. None) =
      (Inr \<lparr>vbv_description = bs_description (ub_snapshot sample_award),
        vbv_image_url = badge_image_url (bs_image_file_name (ub_snapshot sample_award)),
        vbv_issuer = issuer_url (ba_manager ?app) (ub_group_id sample_award), vbv_name = bs_name (ub_snapshot sample_award),
        vbv_revoked = (ub_revoked_at sample_award \<noteq> None),
        vbv_superseded = (ub_identity_hash sample_award \<noteq> Some (ei_hash ?identity) \<or>
          ub_identity_salt sample_award \<noteq> Some (ei_salt ?identity)),
        vbv_valid_from = 7,
        vbv_recipient_name = recipient_display_name (ub_recipient_name sample_award) (ub_recipient_username sample_award)\<rparr>,
       \<lambda>_. None)"
    by (rule exported_badge_verifies [where methods = methods and credential = credential and bound_at = 8
          and img = "()" and cs = sample_header and trailer = "[]" and base_url = "''https://ocg.test/''"
          and config = sample_badges_config and credential_cache = sample_credential_cache
          and status_list_cache = sample_status_cache])
      (simp_all add: runs [simplified] facts sample_suite sample_codec sample_codec(3) [simplified] sample_badges_manager_def [symmetric],
       simp_all add: sample_badge_app_def sample_png_env_def MAX_PNG_SIZE_def MAX_CREDENTIAL_SIZE_def)
  then show ?thesis
    by (auto simp: sample_award_def intro!: exI [of _ credential])
qed

end
