(* ===== verification/Activity_Tracker.thy ===== *)
theory Activity_Tracker
  imports Prelude "HOL-Library.AList" "HOL-Library.List_Lexorder" "HOL-Library.Char_ord"
    "HOL-Library.Product_Lexorder" "HOL-Library.Multiset"
begin

text \<open>
  The activity tracker (\<^verbatim>\<open>ocg-server/src/activity_tracker.rs\<close>): page views are queued, counted per
  entity and day by the aggregator, handed in batches to the flusher and written to the
  database. The two workers and the callers of \<^verbatim>\<open>track\<close> run concurrently; their interleavings are
  the runs of a step relation, one step per turn of a \<^verbatim>\<open>select!\<close> loop or call. A \<^verbatim>\<open>HashMap\<close> is an
  association list, a \<^verbatim>\<open>u32\<close> counter a \<^typ>\<open>32 word\<close>, the channels are bounded lists.
\<close>

section \<open>Batches\<close>

type_synonym day = string
type_synonym counters = "((uuid \<times> day) \<times> 32 word) list"
type_synonym row = "uuid \<times> day \<times> 32 word"

datatype Activity = CommunityView uuid | EventView uuid | GroupView uuid

record Batches =
  community_views :: counters
  event_views :: counters
  group_views :: counters

definition batches_new :: Batches where
  "batches_new = \<lparr>community_views = [], event_views = [], group_views = []\<rparr>"

text \<open>\<^verbatim>\<open>*m.entry(k).or_default() += 1\<close>\<close>

definition bump :: "uuid \<times> day \<Rightarrow> counters \<Rightarrow> counters" where
  "bump k m = AList.update k ((case map_of m k of None \<Rightarrow> 0 | Some n \<Rightarrow> n) + 1) m"

definition aggregate_activity :: "day \<Rightarrow> Activity \<Rightarrow> Batches \<Rightarrow> Batches" where
  "aggregate_activity day activity batches =
     (case activity of
        CommunityView community_id \<Rightarrow>
          batches\<lparr>community_views := bump (community_id, day) (community_views batches)\<rparr>
      | EventView event_id \<Rightarrow> batches\<lparr>event_views := bump (event_id, day) (event_views batches)\<rparr>
      | GroupView group_id \<Rightarrow> batches\<lparr>group_views := bump (group_id, day) (group_views batches)\<rparr>)"

definition clear_batches :: "Batches \<Rightarrow> Batches" where
  "clear_batches batches = batches\<lparr>community_views := [], event_views := [], group_views := []\<rparr>"

text \<open>The clock may pass midnight while the queue is drained; it is a function of what is left.\<close>

fun drain_queued_activities :: "(Activity list \<Rightarrow> day) \<Rightarrow> Activity list \<Rightarrow> Batches \<Rightarrow> Batches" where
  "drain_queued_activities clock [] batches = batches"
| "drain_queued_activities clock (a # queue) batches =
     drain_queued_activities clock queue (aggregate_activity (clock queue) a batches)"

definition batches_is_empty :: "Batches \<Rightarrow> bool" where
  "batches_is_empty batches \<longleftrightarrow>
     community_views batches = [] \<and> event_views batches = [] \<and> group_views batches = []"

definition prepare_batch_data :: "counters \<Rightarrow> row list" where
  "prepare_batch_data m = sort (map (\<lambda>((entity_id, day), n). (entity_id, day, n)) m)"

section \<open>The tracker as a transition system\<close>

definition ACTIVITIES_CAPACITY :: nat where "ACTIVITIES_CAPACITY = 100"
definition BATCHES_CAPACITY :: nat where "BATCHES_CAPACITY = 5"

datatype phase = Running | Draining | Stopped

text \<open>
  The channels, the aggregator's batches and phase, and, as history, the activities accepted by
  \<^verbatim>\<open>track\<close> and the rows that reached the database or were given up after a failed write, by kind.
\<close>

record written =
  w_community :: "row list"
  w_event :: "row list"
  w_group :: "row list"

record tracker =
  tr_queue :: "Activity list"
  tr_batches :: Batches
  tr_channel :: "Batches list"
  tr_phase :: phase
  tr_accepted :: "Activity list"
  tr_written :: written
  tr_failed :: written

definition nothing_written :: written where
  "nothing_written = \<lparr>w_community = [], w_event = [], w_group = []\<rparr>"

definition tracker_new :: tracker where
  "tracker_new = \<lparr>tr_queue = [], tr_batches = batches_new, tr_channel = [], tr_phase = Running,
     tr_accepted = [], tr_written = nothing_written, tr_failed = nothing_written\<rparr>"

text \<open>The flusher's turn: each kind that has views is written with one call, which may fail.\<close>

definition write_rows :: "bool \<Rightarrow> counters \<Rightarrow> row list \<Rightarrow> row list" where
  "write_rows ok m rows = (if m \<noteq> [] \<and> ok then rows @ prepare_batch_data m else rows)"

definition flush_batch :: "bool \<Rightarrow> bool \<Rightarrow> bool \<Rightarrow> Batches \<Rightarrow> tracker \<Rightarrow> tracker" where
  "flush_batch okc oke okg b t = t
     \<lparr>tr_written := \<lparr>w_community = write_rows okc (community_views b) (w_community (tr_written t)),
        w_event = write_rows oke (event_views b) (w_event (tr_written t)),
        w_group = write_rows okg (group_views b) (w_group (tr_written t))\<rparr>,
      tr_failed := \<lparr>w_community = write_rows (\<not> okc) (community_views b) (w_community (tr_failed t)),
        w_event = write_rows (\<not> oke) (event_views b) (w_event (tr_failed t)),
        w_group = write_rows (\<not> okg) (group_views b) (w_group (tr_failed t))\<rparr>\<rparr>"

inductive tracker_step :: "tracker \<Rightarrow> tracker \<Rightarrow> bool" where
  track: "tr_phase t \<noteq> Stopped \<Longrightarrow> length (tr_queue t) < ACTIVITIES_CAPACITY \<Longrightarrow>
    tracker_step t (t\<lparr>tr_queue := tr_queue t @ [a], tr_accepted := tr_accepted t @ [a]\<rparr>)"
| tick: "tr_phase t = Running \<Longrightarrow> \<not> batches_is_empty (tr_batches t) \<Longrightarrow>
    length (tr_channel t) < BATCHES_CAPACITY \<Longrightarrow>
    tracker_step t (t\<lparr>tr_channel := tr_channel t @ [tr_batches t], tr_batches := clear_batches (tr_batches t)\<rparr>)"
| receive: "tr_phase t = Running \<Longrightarrow> tr_queue t = a # queue \<Longrightarrow>
    tracker_step t (t\<lparr>tr_queue := queue, tr_batches := aggregate_activity day a (tr_batches t)\<rparr>)"
| cancel: "tr_phase t = Running \<Longrightarrow>
    tracker_step t (t\<lparr>tr_queue := [], tr_batches := drain_queued_activities clock (tr_queue t) (tr_batches t),
      tr_phase := Draining\<rparr>)"
| last_flush: "tr_phase t = Draining \<Longrightarrow> \<not> batches_is_empty (tr_batches t) \<Longrightarrow>
    length (tr_channel t) < BATCHES_CAPACITY \<Longrightarrow>
    tracker_step t (t\<lparr>tr_channel := tr_channel t @ [tr_batches t], tr_batches := clear_batches (tr_batches t),
      tr_phase := Stopped\<rparr>)"
| stop: "tr_phase t = Draining \<Longrightarrow> batches_is_empty (tr_batches t) \<Longrightarrow>
    tracker_step t (t\<lparr>tr_phase := Stopped\<rparr>)"
| flush: "tr_channel t = b # channel \<Longrightarrow>
    tracker_step t (flush_batch okc oke okg b (t\<lparr>tr_channel := channel\<rparr>))"

inductive tracker_reachable :: "tracker \<Rightarrow> bool" where
  initial: "tracker_reachable tracker_new"
| later: "tracker_reachable t \<Longrightarrow> tracker_step t u \<Longrightarrow> tracker_reachable u"

section \<open>Counting\<close>

text \<open>The views of an activity's entity in counters, batches and rows, over all days.\<close>

fun entity :: "Activity \<Rightarrow> uuid" where
  "entity (CommunityView u) = u"
| "entity (EventView u) = u"
| "entity (GroupView u) = u"

definition counted :: "uuid \<Rightarrow> counters \<Rightarrow> nat" where
  "counted u m = (\<Sum>e\<leftarrow>m. if fst (fst e) = u then unat (snd e) else 0)"

definition counted_rows :: "uuid \<Rightarrow> row list \<Rightarrow> nat" where
  "counted_rows u rows = (\<Sum>r\<leftarrow>rows. if fst r = u then unat (snd (snd r)) else 0)"

fun views :: "Activity \<Rightarrow> Batches \<Rightarrow> nat" where
  "views (CommunityView u) b = counted u (community_views b)"
| "views (EventView u) b = counted u (event_views b)"
| "views (GroupView u) b = counted u (group_views b)"

fun views_in :: "Activity \<Rightarrow> written \<Rightarrow> nat" where
  "views_in (CommunityView u) w = counted_rows u (w_community w)"
| "views_in (EventView u) w = counted_rows u (w_event w)"
| "views_in (GroupView u) w = counted_rows u (w_group w)"

lemma counted_simps [simp]:
  "counted u [] = 0" "counted u (e # m) = (if fst (fst e) = u then unat (snd e) else 0) + counted u m"
  by (simp_all add: counted_def)

lemma counted_update:
  "counted u (AList.update k x m) + (if fst k = u then case map_of m k of None \<Rightarrow> 0 | Some n \<Rightarrow> unat n else 0) =
     counted u m + (if fst k = u then unat x else 0)"
  by (induction m) auto

lemma counter_le: "map_of m k = Some n \<Longrightarrow> fst k = u \<Longrightarrow> unat n \<le> counted u m"
  by (induction m) (auto split: if_splits)

lemma unat_Suc_word: "unat n + 1 < 2 ^ 32 \<Longrightarrow> unat (n + 1 :: 32 word) = unat n + 1"
  using unat_add_lem [of n 1] by simp

lemma counted_bump:
  assumes "fst k = u \<Longrightarrow> counted u m + 1 < 2 ^ 32"
  shows "counted u (bump k m) = counted u m + (if fst k = u then 1 else 0)"
proof (cases "map_of m k")
  case None
  then show ?thesis
    using counted_update [of u k 1 m] by (auto simp: bump_def)
next
  case (Some n)
  have "unat (n + 1) = unat n + 1" if "fst k = u"
    using assms [OF that] counter_le [OF Some that] by (intro unat_Suc_word) simp
  then show ?thesis
    using counted_update [of u k "n + 1" m] Some by (auto simp: bump_def split: if_splits)
qed

lemma views_aggregate:
  assumes "a = x \<Longrightarrow> views a b + 1 < 2 ^ 32"
  shows "views a (aggregate_activity day x b) = views a b + (if a = x then 1 else 0)"
proof -
  have bumped: "counted u (bump (v, day) m) = counted u m + (if u = v then 1 else 0)"
    if "u = v \<Longrightarrow> counted u m + 1 < 2 ^ 32" for u v m
    using counted_bump [of "(v, day)" u m] that by auto
  show ?thesis
    using assms by (cases a; cases x) (auto simp: aggregate_activity_def bumped)
qed

lemma views_drain:
  "views a b + count_list queue a < 2 ^ 32 \<Longrightarrow>
     views a (drain_queued_activities clock queue b) = views a b + count_list queue a"
proof (induction queue arbitrary: b)
  case (Cons x queue)
  have "views a (aggregate_activity (clock queue) x b) = views a b + (if a = x then 1 else 0)"
    using Cons.prems by (intro views_aggregate) (auto split: if_splits)
  then show ?case
    using Cons.prems Cons.IH [of "aggregate_activity (clock queue) x b"] by (auto split: if_splits)
qed simp

lemma views_clear [simp]: "views a (clear_batches b) = 0"
  by (cases a) (simp_all add: clear_batches_def)

lemma views_empty: "batches_is_empty b \<Longrightarrow> views a b = 0"
  by (cases a) (simp_all add: batches_is_empty_def)

lemma sum_list_sort: "sum_list (map f (sort xs)) = sum_list (map f xs)" for f :: "'a :: linorder \<Rightarrow> nat"
  by (metis mset_map mset_sort sum_mset_sum_list)

lemma counted_prepared: "counted_rows u (prepare_batch_data m) = counted u m"
  unfolding counted_rows_def prepare_batch_data_def sum_list_sort counted_def map_map
  by (rule arg_cong [where f = sum_list], rule map_cong) (auto split: prod.split)

lemma counted_rows_append [simp]: "counted_rows u (xs @ ys) = counted_rows u xs + counted_rows u ys"
  by (simp add: counted_rows_def)

lemma counted_write_rows:
  "counted_rows u (write_rows ok m rows) = counted_rows u rows + (if ok then counted u m else 0)"
  by (auto simp: write_rows_def counted_prepared)

lemma views_flush:
  "views_in a (tr_written (flush_batch okc oke okg b t)) + views_in a (tr_failed (flush_batch okc oke okg b t)) =
     views_in a (tr_written t) + views_in a (tr_failed t) + views a b"
  by (cases a) (simp_all add: flush_batch_def counted_write_rows)

lemma flush_batch_frame [simp]:
  "tr_queue (flush_batch okc oke okg b t) = tr_queue t" "tr_batches (flush_batch okc oke okg b t) = tr_batches t"
  "tr_channel (flush_batch okc oke okg b t) = tr_channel t" "tr_phase (flush_batch okc oke okg b t) = tr_phase t"
  "tr_accepted (flush_batch okc oke okg b t) = tr_accepted t"
  by (simp_all add: flush_batch_def)

definition conserved :: "tracker \<Rightarrow> Activity \<Rightarrow> bool" where
  "conserved t a \<longleftrightarrow>
     count_list (tr_accepted t) a =
       count_list (tr_queue t) a + views a (tr_batches t) + (\<Sum>b\<leftarrow>tr_channel t. views a b) +
       views_in a (tr_written t) + views_in a (tr_failed t)"

lemma step_accepted: "tracker_step t u \<Longrightarrow> length (tr_accepted t) \<le> length (tr_accepted u)"
  by (induction rule: tracker_step.induct) simp_all

lemma step_conserved:
  assumes "tracker_step t u" and "conserved t a" and "length (tr_accepted u) < 2 ^ 32"
  shows "conserved u a"
  using assms
proof (induction rule: tracker_step.induct)
  case (receive t x queue day)
  have "count_list (tr_accepted t) a < 2 ^ 32"
    using count_le_length [of "tr_accepted t" a] receive.prems(2) by simp
  then show ?case
    using receive views_aggregate [of a x "tr_batches t" day] by (auto simp: conserved_def split: if_splits)
next
  case (cancel t clock)
  have "count_list (tr_accepted t) a < 2 ^ 32"
    using count_le_length [of "tr_accepted t" a] cancel.prems(2) by simp
  then show ?case
    using cancel views_drain [of a "tr_batches t" "tr_queue t" clock] by (auto simp: conserved_def)
next
  case (flush t b channel okc oke okg)
  then show ?case
    using views_flush [of a okc oke okg b "t\<lparr>tr_channel := channel\<rparr>"] by (simp add: conserved_def)
qed (auto simp: conserved_def)

lemma reachable_conserved:
  "tracker_reachable t \<Longrightarrow> length (tr_accepted t) < 2 ^ 32 \<Longrightarrow> conserved t a"
proof (induction rule: tracker_reachable.induct)
  case initial
  show ?case
    by (cases a) (simp_all add: conserved_def tracker_new_def batches_new_def nothing_written_def counted_rows_def)
next
  case (later t u)
  then show ?case
    using step_conserved [OF later(2)] step_accepted [OF later(2)] by simp
qed

lemma stopped_empty: "tracker_reachable t \<Longrightarrow> tr_phase t = Stopped \<Longrightarrow> batches_is_empty (tr_batches t)"
proof (induction rule: tracker_reachable.induct)
  case (later t u)
  from later(2) show ?case
    using later(3,4) by cases (simp_all add: batches_is_empty_def clear_batches_def)
qed (simp add: tracker_new_def)

section \<open>Properties\<close>


text \<open>One view, tracked and flushed on shutdown.\<close>

definition view_queued :: tracker where
  "view_queued = tracker_new\<lparr>tr_queue := tr_queue tracker_new @ [EventView 7],
     tr_accepted := tr_accepted tracker_new @ [EventView 7]\<rparr>"

definition view_drained :: tracker where
  "view_drained = view_queued\<lparr>tr_queue := [],
     tr_batches := drain_queued_activities (\<lambda>_. ''2026-01-31'') (tr_queue view_queued) (tr_batches view_queued),
     tr_phase := Draining\<rparr>"

definition view_stopped :: tracker where
  "view_stopped = view_drained\<lparr>tr_channel := tr_channel view_drained @ [tr_batches view_drained],
     tr_batches := clear_batches (tr_batches view_drained), tr_phase := Stopped\<rparr>"

definition view_flushed :: tracker where
  "view_flushed = flush_batch True True True (tr_batches view_drained) (view_stopped\<lparr>tr_channel := []\<rparr>)"

lemma view_flushed_reachable: "tracker_reachable view_flushed"
proof -
  have "tracker_reachable view_queued"
    unfolding view_queued_def by (rule later [OF initial track]) code_simp+
  then have "tracker_reachable view_drained"
    unfolding view_drained_def by (rule later [OF _ cancel]) code_simp
  then have "tracker_reachable view_stopped"
    unfolding view_stopped_def by (rule later [OF _ last_flush]) code_simp+
  then show ?thesis
    unfolding view_flushed_def by (rule later [OF _ flush]) code_simp
qed


end
