(* ===== verification/Redirector.thy ===== *)
theory Redirector
  imports Prelude "HOL-Library.AList"
begin

text \<open>
  The redirector service (\<^verbatim>\<open>ocg-redirector/src/router.rs\<close>, \<^verbatim>\<open>db.rs\<close>, \<^verbatim>\<open>config.rs\<close>, \<^verbatim>\<open>main.rs\<close>): the host
  of a request names a community, its path a legacy page, and the answer is a permanent redirect
  to the canonical page, to the community's legacy site or to the community page. A \<^verbatim>\<open>HashMap\<close> is an
  association list; the rows of the two queries are arguments, and so is the URL parser.
\<close>

section \<open>State\<close>

record CommunityRedirects =
  cr_base_legacy_url :: "string option"
  cr_redirects :: "(string \<times> string) list"

type_synonym Redirects = "(string \<times> CommunityRedirects) list"

record redirector_state =
  rd_base_redirect_url :: string
  rd_redirect_host_suffix :: string
  rd_redirects :: Redirects

datatype redirect_response = RedirectNotFound | RedirectPermanent string

text \<open>\<^verbatim>\<open>trim_end_matches\<close> and \<^verbatim>\<open>trim_start_matches\<close> with a character, \<^verbatim>\<open>rsplit_once\<close>, \<^verbatim>\<open>strip_suffix\<close>.\<close>

definition trim_end_char :: "char \<Rightarrow> string \<Rightarrow> string" where
  "trim_end_char c s = rev (dropWhile (\<lambda>x. x = c) (rev s))"

definition trim_start_char :: "char \<Rightarrow> string \<Rightarrow> string" where
  "trim_start_char c s = dropWhile (\<lambda>x. x = c) s"

definition rsplit_once :: "char \<Rightarrow> string \<Rightarrow> (string \<times> string) option" where
  "rsplit_once c s =
     (if c \<in> set s then
        Some (rev (tl (dropWhile (\<lambda>x. x \<noteq> c) (rev s))), rev (takeWhile (\<lambda>x. x \<noteq> c) (rev s)))
      else None)"

definition strip_suffix :: "string \<Rightarrow> string \<Rightarrow> string option" where
  "strip_suffix s suf = (if suffix suf s then Some (take (length s - length suf) s) else None)"

section \<open>Requests\<close>

definition normalize_host :: "string \<Rightarrow> string" where
  "normalize_host host =
     (let h = trim host;
          h = (case rsplit_once (CHR '':'') h of None \<Rightarrow> h | Some (before, _) \<Rightarrow> before) in
      to_ascii_lowercase (trim_end_char (CHR ''.'') h))"

definition community_name_from_host :: "string \<Rightarrow> string \<Rightarrow> string option" where
  "community_name_from_host host redirect_host_suffix =
     (case strip_suffix (normalize_host host) redirect_host_suffix of
        None \<Rightarrow> None
      | Some rest \<Rightarrow>
          (case strip_suffix rest ''.'' of
             None \<Rightarrow> None
           | Some name \<Rightarrow> if name \<noteq> [] \<and> CHR ''.'' \<notin> set name then Some name else None))"

text \<open>The Host header: absent, not text, or text.\<close>

definition community_name_from_headers :: "string option \<Rightarrow> string \<Rightarrow> string option" where
  "community_name_from_headers host_header redirect_host_suffix =
     (case host_header of None \<Rightarrow> None | Some host \<Rightarrow> community_name_from_host host redirect_host_suffix)"

definition community_redirect_target :: "string \<Rightarrow> string \<Rightarrow> string" where
  "community_redirect_target base_redirect_url community_name = base_redirect_url @ ''/'' @ community_name"

definition legacy_redirect_target :: "string \<Rightarrow> string option \<Rightarrow> string" where
  "legacy_redirect_target base_legacy_url path_and_query =
     trim_end_char (CHR ''/'') base_legacy_url @ (case path_and_query of None \<Rightarrow> ''/'' | Some p \<Rightarrow> p)"

definition normalize_legacy_path :: "string \<Rightarrow> string" where
  "normalize_legacy_path path =
     (let normalized_path = trim_end_char (CHR ''/'') path in
      if normalized_path = [] then ''/'' else normalized_path)"

definition normalize_redirect_host_suffix :: "string \<Rightarrow> string" where
  "normalize_redirect_host_suffix s =
     to_ascii_lowercase (trim_end_char (CHR ''.'') (trim_start_char (CHR ''.'') (trim s)))"

definition redirect ::
    "redirector_state \<Rightarrow> string option \<Rightarrow> string \<Rightarrow> string option \<Rightarrow> redirect_response" where
  "redirect st host_header path path_and_query =
     (case community_name_from_headers host_header (rd_redirect_host_suffix st) of
        None \<Rightarrow> RedirectNotFound
      | Some community_name \<Rightarrow>
          let legacy_path = normalize_legacy_path path in
          (case map_of (rd_redirects st) community_name of
             None \<Rightarrow> RedirectNotFound
           | Some community_redirects \<Rightarrow> RedirectPermanent
               (if legacy_path = ''/'' then
                  community_redirect_target (rd_base_redirect_url st) community_name
                else case map_of (cr_redirects community_redirects) legacy_path of
                  Some new_path \<Rightarrow> rd_base_redirect_url st @ new_path
                | None \<Rightarrow>
                    (case cr_base_legacy_url community_redirects of
                       Some base_legacy_url \<Rightarrow> legacy_redirect_target base_legacy_url path_and_query
                     | None \<Rightarrow> community_redirect_target (rd_base_redirect_url st) community_name))))"

section \<open>Configuration and loading\<close>

text \<open>What the URI parser tells of the configured base URL: its scheme and its host.\<close>

definition validate_url ::
    "(string \<Rightarrow> (string option \<times> string option) option) \<Rightarrow> string \<Rightarrow> string \<Rightarrow> anyhow + unit" where
  "validate_url parse_uri v field_name =
     (case parse_uri v of
        None \<Rightarrow> Inl (Msg (field_name @ '' is invalid''))
      | Some (scheme, host) \<Rightarrow>
          if scheme \<notin> {Some ''http'', Some ''https''} \<or> host = None
          then Inl (Msg (field_name @ '' must be an absolute http(s) URL'')) else Inr ())"

definition redirect_host_suffix ::
    "(string \<Rightarrow> (string option \<times> string option) option) \<Rightarrow> string \<Rightarrow> string option" where
  "redirect_host_suffix parse_uri base_redirect_url =
     (case parse_uri base_redirect_url of Some (_, Some host) \<Rightarrow> Some (''redirects.'' @ host) | _ \<Rightarrow> None)"

text \<open>\<^verbatim>\<open>setup\<close>: the state of the router; the expectations on the validated URL fail as \<^term>\<open>None\<close>.\<close>

definition redirector_setup ::
    "(string \<Rightarrow> (string option \<times> string option) option) \<Rightarrow> Redirects \<Rightarrow> string \<Rightarrow> redirector_state option" where
  "redirector_setup parse_uri redirects base_redirect_url =
     map_option (\<lambda>s. \<lparr>rd_base_redirect_url = trim_end_char (CHR ''/'') base_redirect_url,
       rd_redirect_host_suffix = normalize_redirect_host_suffix s, rd_redirects = redirects\<rparr>)
       (redirect_host_suffix parse_uri base_redirect_url)"

definition seed_community :: "string \<times> string option \<Rightarrow> Redirects \<Rightarrow> Redirects" where
  "seed_community r m = AList.update (fst r) \<lparr>cr_base_legacy_url = snd r, cr_redirects = []\<rparr> m"

definition attach_redirect :: "string \<times> string \<times> string \<Rightarrow> Redirects \<Rightarrow> Redirects" where
  "attach_redirect r m =
     (let entry = (case map_of m (fst r) of Some e \<Rightarrow> e | None \<Rightarrow> \<lparr>cr_base_legacy_url = None, cr_redirects = []\<rparr>) in
      AList.update (fst r)
        (entry\<lparr>cr_redirects := AList.update (fst (snd r)) (snd (snd r)) (cr_redirects entry)\<rparr>) m)"

definition load_redirects :: "(string \<times> string option) list \<Rightarrow> (string \<times> string \<times> string) list \<Rightarrow> Redirects" where
  "load_redirects community_rows redirect_rows =
     fold attach_redirect redirect_rows (fold seed_community community_rows [])"

text \<open>The refresh task: a failed load keeps the mappings in use.\<close>

definition refresh_redirects :: "anyhow + Redirects \<Rightarrow> redirector_state \<Rightarrow> redirector_state" where
  "refresh_redirects loaded st = (case loaded of Inr m \<Rightarrow> st\<lparr>rd_redirects := m\<rparr> | Inl _ \<Rightarrow> st)"

section \<open>Lookups in the loaded map\<close>

lemma strip_suffix_iff: "strip_suffix s suf = Some t \<longleftrightarrow> s = t @ suf"
  by (auto simp: strip_suffix_def suffix_def)

lemma community_name_iff:
  "community_name_from_host host suf = Some name \<longleftrightarrow>
     normalize_host host = name @ ''.'' @ suf \<and> name \<noteq> [] \<and> CHR ''.'' \<notin> set name"
proof
  assume "community_name_from_host host suf = Some name"
  then obtain rest where "strip_suffix (normalize_host host) suf = Some rest" "strip_suffix rest ''.'' = Some name"
      "name \<noteq> []" "CHR ''.'' \<notin> set name"
    by (auto simp: community_name_from_host_def split: option.splits if_splits)
  then show "normalize_host host = name @ ''.'' @ suf \<and> name \<noteq> [] \<and> CHR ''.'' \<notin> set name"
    unfolding strip_suffix_iff by simp
next
  assume host: "normalize_host host = name @ ''.'' @ suf \<and> name \<noteq> [] \<and> CHR ''.'' \<notin> set name"
  then have "strip_suffix (normalize_host host) suf = Some (name @ ''.'')" "strip_suffix (name @ ''.'') ''.'' = Some name"
    unfolding strip_suffix_iff by simp_all
  then show "community_name_from_host host suf = Some name"
    using host by (simp add: community_name_from_host_def)
qed

lemma map_of_seed:
  "map_of (fold seed_community rows m) name =
     (case find (\<lambda>r. fst r = name) (rev rows) of
        Some r \<Rightarrow> Some \<lparr>cr_base_legacy_url = snd r, cr_redirects = []\<rparr> | None \<Rightarrow> map_of m name)"
  by (induction rows rule: rev_induct) (auto simp: seed_community_def update_conv')

definition entry_of :: "Redirects \<Rightarrow> string \<Rightarrow> CommunityRedirects" where
  "entry_of m name = (case map_of m name of Some e \<Rightarrow> e | None \<Rightarrow> \<lparr>cr_base_legacy_url = None, cr_redirects = []\<rparr>)"

lemma entry_attach:
  "entry_of (attach_redirect r m) name =
     (if name = fst r then (entry_of m name)\<lparr>cr_redirects :=
        AList.update (fst (snd r)) (snd (snd r)) (cr_redirects (entry_of m name))\<rparr> else entry_of m name)"
  by (simp add: entry_of_def attach_redirect_def Let_def update_conv')

lemma known_attach:
  "map_of (fold attach_redirect rows m) name \<noteq> None \<longleftrightarrow> name \<in> fst ` set rows \<or> map_of m name \<noteq> None"
  by (induction rows arbitrary: m) (auto simp: attach_redirect_def Let_def update_conv')

lemma entry_attached:
  "cr_base_legacy_url (entry_of (fold attach_redirect rows m) name) = cr_base_legacy_url (entry_of m name)"
  "map_of (cr_redirects (entry_of (fold attach_redirect rows m) name)) p =
     (case find (\<lambda>r. fst r = name \<and> fst (snd r) = p) (rev rows) of
        Some r \<Rightarrow> Some (snd (snd r)) | None \<Rightarrow> map_of (cr_redirects (entry_of m name)) p)"
  by (induction rows rule: rev_induct) (auto simp: entry_attach update_conv')

section \<open>Property\<close>

text \<open>What the rows of the database say about a request, without any map.\<close>

definition redirect_target_spec ::
    "string \<Rightarrow> (string \<times> string option) list \<Rightarrow> (string \<times> string \<times> string) list \<Rightarrow>
     string \<Rightarrow> string \<Rightarrow> string option \<Rightarrow> string" where
  "redirect_target_spec base communities rows name legacy_path path_and_query =
     (if legacy_path = ''/'' then base @ ''/'' @ name
      else case find (\<lambda>r. fst r = name \<and> fst (snd r) = legacy_path) (rev rows) of
        Some r \<Rightarrow> base @ snd (snd r)
      | None \<Rightarrow>
          (case find (\<lambda>r. fst r = name) (rev communities) of
             Some (_, Some legacy) \<Rightarrow>
               trim_end_char (CHR ''/'') legacy @ (case path_and_query of None \<Rightarrow> ''/'' | Some q \<Rightarrow> q)
           | _ \<Rightarrow> base @ ''/'' @ name))"

text \<open>
  C25: where a request is sent. With the mappings loaded from the rows of the database, a request is redirected
  if and only if its host, without port, trailing dots and case, is one label before the
  redirect suffix and the label is a community of the rows; the target is the community page for the root,
  else the canonical path of the last row for the community and path, else the legacy site with the
  original path and query, else the community page. In particular every target starts with the
  configured base URL or with the legacy URL of that very community.
\<close>

theorem redirect_follows_rows:
  "redirect \<lparr>rd_base_redirect_url = base, rd_redirect_host_suffix = suf,
      rd_redirects = load_redirects communities rows\<rparr> host_header path path_and_query = RedirectPermanent target \<longleftrightarrow>
     (\<exists>host name. host_header = Some host \<and> normalize_host host = name @ ''.'' @ suf \<and> name \<noteq> [] \<and>
        CHR ''.'' \<notin> set name \<and> (name \<in> fst ` set communities \<or> name \<in> fst ` set rows) \<and>
        target = redirect_target_spec base communities rows name (normalize_legacy_path path) path_and_query)"
proof -
  let ?m = "load_redirects communities rows"
  let ?st = "\<lparr>rd_base_redirect_url = base, rd_redirect_host_suffix = suf, rd_redirects = ?m\<rparr>"
  have known: "map_of ?m name \<noteq> None \<longleftrightarrow> name \<in> fst ` set communities \<or> name \<in> fst ` set rows" for name
    unfolding load_redirects_def known_attach map_of_seed
    using find_Some_ex [of "\<lambda>r. fst r = name" "rev communities"]
    by (cases "find (\<lambda>r. fst r = name) (rev communities)") (auto simp: image_iff)
  have resolved: "RedirectPermanent (redirect_target_spec base communities rows name (normalize_legacy_path path) path_and_query) =
      redirect ?st (Some host) path path_and_query"
    if "community_name_from_host host suf = Some name" "map_of ?m name = Some e" for host name e
  proof -
    have e: "entry_of ?m name = e"
      using that(2) by (simp add: entry_of_def)
    have "cr_base_legacy_url e = (case find (\<lambda>r. fst r = name) (rev communities) of Some r \<Rightarrow> snd r | None \<Rightarrow> None)"
      "map_of (cr_redirects e) p = map_option (\<lambda>r. snd (snd r))
        (find (\<lambda>r. fst r = name \<and> fst (snd r) = p) (rev rows))" for p
      unfolding e [symmetric] load_redirects_def entry_attached
      by (auto simp: entry_of_def map_of_seed split: option.split)
    then show ?thesis
      using that
      by (auto simp: redirect_def community_name_from_headers_def redirect_target_spec_def
          community_redirect_target_def legacy_redirect_target_def Let_def split: option.splits)
  qed
  have unknown: "redirect ?st (Some host) path path_and_query = RedirectNotFound"
    if "community_name_from_host host suf = None \<or>
      (\<exists>name. community_name_from_host host suf = Some name \<and> map_of ?m name = None)" for host
    using that by (auto simp: redirect_def community_name_from_headers_def Let_def)
  show ?thesis
  proof (cases host_header)
    case None
    then show ?thesis
      by (simp add: redirect_def community_name_from_headers_def)
  next
    case (Some host)
    have "redirect ?st (Some host) path path_and_query = RedirectPermanent target \<longleftrightarrow>
        (\<exists>name. community_name_from_host host suf = Some name \<and> map_of ?m name \<noteq> None \<and>
          target = redirect_target_spec base communities rows name (normalize_legacy_path path) path_and_query)"
    proof (cases "community_name_from_host host suf")
      case (Some name)
      then show ?thesis
        using resolved [OF Some, symmetric] unknown [of host] by (cases "map_of ?m name") auto
    qed (simp add: unknown)
    then show ?thesis
      unfolding known community_name_iff Some by blast
  qed
qed

end
