(* ===== verification/Questionnaire.thy ===== *)
theory Questionnaire
  imports Prelude
begin

text \<open>
  Registration questionnaires (\<^verbatim>\<open>ocg-server/src/types/questionnaire.rs\<close>): the answers an attendee
  submits, their validation against the configured questions and their display. The parser of the
  uuid crate is an argument, and so is the JSON parser of the form field. A \<^verbatim>\<open>HashSet\<close> that only
  detects repetitions is a list of what was seen.
\<close>

section \<open>Data\<close>

datatype QuestionnaireAnswerValue = Many "uuid list" | One string

record QuestionnaireAnswer =
  qa_question_id :: uuid
  qa_value :: QuestionnaireAnswerValue

type_synonym QuestionnaireAnswers = "QuestionnaireAnswer list"

datatype QuestionnaireQuestionKind = FreeText | MultiSelect | SingleSelect

record QuestionnaireOption =
  qo_id :: uuid
  qo_label :: string

record QuestionnaireQuestion =
  qq_id :: uuid
  qq_kind :: QuestionnaireQuestionKind
  qq_prompt :: string
  qq_required :: bool
  qq_options :: "QuestionnaireOption list"

section \<open>Operations\<close>

definition answers_get :: "QuestionnaireAnswers \<Rightarrow> uuid \<Rightarrow> QuestionnaireAnswerValue option" where
  "answers_get answers question_id =
     map_option qa_value (find (\<lambda>answer. qa_question_id answer = question_id) answers)"

fun options_unique :: "uuid list \<Rightarrow> uuid list \<Rightarrow> bool" where
  "options_unique seen [] = True"
| "options_unique seen (option_id # rest) =
     (if option_id \<in> set seen then False else options_unique (option_id # seen) rest)"

fun validate_payload_from :: "uuid list \<Rightarrow> QuestionnaireAnswers \<Rightarrow> string + unit" where
  "validate_payload_from seen [] = Inr ()"
| "validate_payload_from seen (answer # rest) =
     (if qa_question_id answer \<in> set seen then
        Inl ''questionnaire answers must include each question at most once''
      else case qa_value answer of
        Many option_ids \<Rightarrow>
          if options_unique [] option_ids then validate_payload_from (qa_question_id answer # seen) rest
          else Inl ''multi-select questionnaire answers cannot repeat options''
      | One _ \<Rightarrow> validate_payload_from (qa_question_id answer # seen) rest)"

definition validate_payload :: "QuestionnaireAnswers \<Rightarrow> string + unit" where
  "validate_payload answers = validate_payload_from [] answers"

definition option_label :: "QuestionnaireQuestion \<Rightarrow> uuid \<Rightarrow> string option" where
  "option_label question option_id =
     map_option qo_label (find (\<lambda>opt. qo_id opt = option_id) (qq_options question))"

definition has_option :: "QuestionnaireQuestion \<Rightarrow> uuid \<Rightarrow> bool" where
  "has_option question option_id \<longleftrightarrow> list_ex (\<lambda>opt. qo_id opt = option_id) (qq_options question)"

definition validate_answer ::
    "(string \<Rightarrow> uuid option) \<Rightarrow> QuestionnaireQuestion \<Rightarrow> QuestionnaireAnswers \<Rightarrow> string + unit" where
  "validate_answer parse_uuid question answers =
     (case answers_get answers (qq_id question) of
        None \<Rightarrow> if qq_required question then Inl ''required questionnaire answer is missing'' else Inr ()
      | Some v \<Rightarrow>
          (case (qq_kind question, v) of
             (FreeText, One t) \<Rightarrow>
               if qq_required question \<and> trim t = [] then Inl ''required questionnaire answer is empty'' else Inr ()
           | (SingleSelect, One t) \<Rightarrow>
               (case parse_uuid t of
                  None \<Rightarrow> Inl ''single-select questionnaire answer must be an option id''
                | Some selected \<Rightarrow>
                    if \<not> has_option question selected then Inl ''questionnaire answer references an unknown option''
                    else Inr ())
           | (MultiSelect, Many vs) \<Rightarrow>
               if qq_required question \<and> vs = [] then Inl ''required questionnaire answer is empty''
               else if list_ex (\<lambda>u. \<not> has_option question u) vs
               then Inl ''questionnaire answer references an unknown option'' else Inr ()
           | (FreeText, _) \<Rightarrow> Inl ''free-text questionnaire answer must be a string''
           | (SingleSelect, _) \<Rightarrow> Inl ''single-select questionnaire answer must be an option id''
           | (MultiSelect, _) \<Rightarrow> Inl ''multi-select questionnaire answer must be an option id array''))"

fun validate_answers_loop ::
    "(string \<Rightarrow> uuid option) \<Rightarrow> QuestionnaireQuestion list \<Rightarrow> QuestionnaireAnswers \<Rightarrow> string + unit" where
  "validate_answers_loop parse_uuid [] answers = Inr ()"
| "validate_answers_loop parse_uuid (question # rest) answers =
     and_then (validate_answer parse_uuid question answers) (\<lambda>_. validate_answers_loop parse_uuid rest answers)"

definition validate_against_questions ::
    "(string \<Rightarrow> uuid option) \<Rightarrow> QuestionnaireAnswers \<Rightarrow> QuestionnaireQuestion list \<Rightarrow> string + unit" where
  "validate_against_questions parse_uuid answers questions =
     and_then (validate_payload answers) (\<lambda>_.
     if questions = [] then
       if answers = [] then Inr ()
       else Inl ''questionnaire answers cannot be submitted when questions are not configured''
     else if list_ex (\<lambda>answer. \<not> list_ex (\<lambda>question. qq_id question = qa_question_id answer) questions) answers
     then Inl ''questionnaire answer references an unknown question''
     else validate_answers_loop parse_uuid questions answers)"

definition answer_for :: "QuestionnaireQuestion \<Rightarrow> QuestionnaireAnswers option \<Rightarrow> QuestionnaireAnswerValue option" where
  "answer_for question answers = (case answers of None \<Rightarrow> None | Some a \<Rightarrow> answers_get a (qq_id question))"

fun join :: "string \<Rightarrow> string list \<Rightarrow> string" where
  "join sep [] = []"
| "join sep [x] = x"
| "join sep (x # y # rest) = x @ sep @ join sep (y # rest)"

definition format_answer ::
    "(string \<Rightarrow> uuid option) \<Rightarrow> QuestionnaireQuestion \<Rightarrow> QuestionnaireAnswers option \<Rightarrow> string" where
  "format_answer parse_uuid question answers =
     (case answer_for question answers of
        None \<Rightarrow> []
      | Some v \<Rightarrow>
          (case (qq_kind question, v) of
             (FreeText, One t) \<Rightarrow> t
           | (SingleSelect, One t) \<Rightarrow>
               (case parse_uuid t of
                  None \<Rightarrow> []
                | Some option_id \<Rightarrow> (case option_label question option_id of None \<Rightarrow> [] | Some l \<Rightarrow> l))
           | (MultiSelect, Many vs) \<Rightarrow> join '', '' (List.map_filter (option_label question) vs)
           | _ \<Rightarrow> []))"

definition free_text_answer :: "QuestionnaireQuestion \<Rightarrow> QuestionnaireAnswers option \<Rightarrow> string option" where
  "free_text_answer question answers =
     (case (qq_kind question, answer_for question answers) of
        (FreeText, Some (One t)) \<Rightarrow> Some t
      | _ \<Rightarrow> None)"

definition is_option_selected ::
    "(string \<Rightarrow> uuid option) \<Rightarrow> QuestionnaireQuestion \<Rightarrow> QuestionnaireAnswers option \<Rightarrow> uuid \<Rightarrow> bool" where
  "is_option_selected parse_uuid question answers option_id =
     (case answer_for question answers of
        Some (One t) \<Rightarrow> parse_uuid t = Some option_id
      | Some (Many vs) \<Rightarrow> option_id \<in> set vs
      | None \<Rightarrow> False)"

text \<open>The form field: blank text is no answers, or an error where answers are required.\<close>

definition deserialize_optional_questionnaire_answers ::
    "(string \<Rightarrow> string + QuestionnaireAnswers) \<Rightarrow> string option \<Rightarrow> string + QuestionnaireAnswers option" where
  "deserialize_optional_questionnaire_answers parse_answers v =
     (case v of
        None \<Rightarrow> Inr None
      | Some t \<Rightarrow> if trim t = [] then Inr None
          else (case parse_answers t of Inl e \<Rightarrow> Inl e | Inr a \<Rightarrow> Inr (Some a)))"

definition deserialize_required_questionnaire_answers ::
    "(string \<Rightarrow> string + QuestionnaireAnswers) \<Rightarrow> string \<Rightarrow> string + QuestionnaireAnswers" where
  "deserialize_required_questionnaire_answers parse_answers v =
     (if trim v = [] then Inl ''questionnaire answers are required'' else parse_answers v)"

definition validate_optional_questionnaire_answers :: "QuestionnaireAnswers option \<Rightarrow> string + unit" where
  "validate_optional_questionnaire_answers v = (case v of None \<Rightarrow> Inr () | Some a \<Rightarrow> validate_payload a)"

section \<open>What validation accepts\<close>

definition value_without_repetition :: "QuestionnaireAnswerValue \<Rightarrow> bool" where
  "value_without_repetition v = (case v of Many us \<Rightarrow> distinct us | One _ \<Rightarrow> True)"

text \<open>A question is settled by an answer of its kind that names only its options and is not empty if required.\<close>

definition answer_fits ::
    "(string \<Rightarrow> uuid option) \<Rightarrow> QuestionnaireQuestion \<Rightarrow> QuestionnaireAnswerValue option \<Rightarrow> bool" where
  "answer_fits parse_uuid question v =
     (case v of
        None \<Rightarrow> \<not> qq_required question
      | Some (One t) \<Rightarrow>
          (case qq_kind question of
             FreeText \<Rightarrow> \<not> (qq_required question \<and> trim t = [])
           | SingleSelect \<Rightarrow> (\<exists>u. parse_uuid t = Some u \<and> u \<in> qo_id ` set (qq_options question))
           | MultiSelect \<Rightarrow> False)
      | Some (Many us) \<Rightarrow>
          qq_kind question = MultiSelect \<and> \<not> (qq_required question \<and> us = []) \<and>
          set us \<subseteq> qo_id ` set (qq_options question))"

lemma options_unique_iff: "options_unique seen us \<longleftrightarrow> distinct us \<and> set us \<inter> set seen = {}"
  by (induction us arbitrary: seen) auto

lemma validate_payload_from_iff:
  "validate_payload_from seen answers = Inr () \<longleftrightarrow>
     distinct (map qa_question_id answers) \<and> set (map qa_question_id answers) \<inter> set seen = {} \<and>
     list_all (\<lambda>a. value_without_repetition (qa_value a)) answers"
  by (induction answers arbitrary: seen)
    (auto simp: options_unique_iff value_without_repetition_def split: QuestionnaireAnswerValue.splits)

lemma has_option_iff: "has_option question u \<longleftrightarrow> u \<in> qo_id ` set (qq_options question)"
  by (auto simp: has_option_def list_ex_iff)

lemma validate_answer_iff:
  "validate_answer parse_uuid question answers = Inr () \<longleftrightarrow>
     answer_fits parse_uuid question (answers_get answers (qq_id question))"
  by (cases "answers_get answers (qq_id question)"; cases "qq_kind question")
    (auto simp: validate_answer_def answer_fits_def has_option_iff list_ex_iff
      split: QuestionnaireAnswerValue.splits option.splits)

lemma validate_answers_loop_iff:
  "validate_answers_loop parse_uuid questions answers = Inr () \<longleftrightarrow>
     list_all (\<lambda>q. answer_fits parse_uuid q (answers_get answers (qq_id q))) questions"
  by (induction questions) (auto simp: and_then_eq_Inr validate_answer_iff [symmetric])

section \<open>Property\<close>

text \<open>
  Exactly the complete and consistent submissions are accepted. Answers pass if and only if no question
  is answered twice and no option is chosen twice, every answer belongs to a configured question, and
  every question is settled: answered when required, not blank when required, in the form of
  its kind, and with its own options only; with no question configured, only an empty submission passes.
\<close>

theorem questionnaire_accepts_exactly:
  "validate_against_questions parse_uuid answers questions = Inr () \<longleftrightarrow>
     distinct (map qa_question_id answers) \<and>
     list_all (\<lambda>a. value_without_repetition (qa_value a)) answers \<and>
     set (map qa_question_id answers) \<subseteq> set (map qq_id questions) \<and>
     list_all (\<lambda>q. answer_fits parse_uuid q (answers_get answers (qq_id q))) questions"
proof -
  have "list_ex (\<lambda>a. \<not> list_ex (\<lambda>q. qq_id q = qa_question_id a) questions) answers \<longleftrightarrow>
      \<not> set (map qa_question_id answers) \<subseteq> set (map qq_id questions)"
    by (force simp: list_ex_iff)
  then show ?thesis
    by (auto simp: validate_against_questions_def validate_payload_def and_then_eq_Inr
        validate_payload_from_iff validate_answers_loop_iff)
qed

text \<open>
  What is accepted is displayed: for an accepted answer to a select question, the options shown as
  selected are options of the question.
\<close>

lemma accepted_selection_known:
  assumes "validate_against_questions parse_uuid answers questions = Inr ()"
    and "q \<in> set questions" and "qq_kind q \<noteq> FreeText"
    and "is_option_selected parse_uuid q (Some answers) u"
  shows "\<exists>l. option_label q u = Some l"
proof -
  have "questions \<noteq> []"
    using assms(2) by auto
  then have "answer_fits parse_uuid q (answers_get answers (qq_id q))"
    using assms(1,2)
    by (auto simp: validate_against_questions_def and_then_eq_Inr validate_answers_loop_iff list_all_iff
        split: if_splits)
  then have "u \<in> qo_id ` set (qq_options q)"
    using assms(3,4)
    by (auto simp: answer_fits_def is_option_selected_def answer_for_def
        split: option.splits QuestionnaireAnswerValue.splits QuestionnaireQuestionKind.splits)
  then show ?thesis
    using find_Some_ex [of "\<lambda>opt. qo_id opt = u" "qq_options q"] by (auto simp: option_label_def)
qed

end
