(* ===== verification/Pagination.thy ===== *)
theory Pagination
  imports Prelude
begin

text \<open>
  Pagination links (\<^verbatim>\<open>ocg-server/src/types/pagination.rs\<close>). A \<^verbatim>\<open>usize\<close> is a \<^typ>\<open>64 word\<close>: addition and
  subtraction wrap as in a release build, \<^verbatim>\<open>saturating_sub\<close> stops at zero. A remainder by zero
  panics in the code and is \<^term>\<open>None\<close> here. The query serialization of a filter type is an argument.
\<close>

type_synonym usize = "64 word"

section \<open>Offsets\<close>

record NavigationLinksOffsets =
  nlo_first :: "usize option"
  nlo_last :: "usize option"
  nlo_next :: "usize option"
  nlo_prev :: "usize option"

definition saturating_sub :: "usize \<Rightarrow> usize \<Rightarrow> usize" where
  "saturating_sub a b = (if a < b then 0 else a - b)"

text \<open>\<^verbatim>\<open>total.is_multiple_of(limit)\<close>: of zero only zero is a multiple.\<close>

definition is_multiple_of :: "usize \<Rightarrow> usize \<Rightarrow> bool" where
  "is_multiple_of a b = (if b = 0 then a = 0 else a mod b = 0)"

definition navigation_links_offsets :: "usize option \<Rightarrow> usize \<Rightarrow> usize \<Rightarrow> NavigationLinksOffsets option" where
  "navigation_links_offsets offset_arg limit total_results =
     (let offset = (case offset_arg of None \<Rightarrow> 0 | Some n \<Rightarrow> n);
          first = (if offset > 0 then Some 0 else None);
          prev = (if offset > 0 then Some (saturating_sub offset limit) else None) in
      if saturating_sub total_results (offset + limit) > 0 then
        if is_multiple_of total_results limit then
          Some \<lparr>nlo_first = first, nlo_last = Some (total_results - limit), nlo_next = Some (offset + limit), nlo_prev = prev\<rparr>
        else if limit = 0 then None
        else Some \<lparr>nlo_first = first, nlo_last = Some (total_results - total_results mod limit),
          nlo_next = Some (offset + limit), nlo_prev = prev\<rparr>
      else Some \<lparr>nlo_first = first, nlo_last = None, nlo_next = None, nlo_prev = prev\<rparr>)"

section \<open>Links\<close>

record NavigationLink =
  nl_hx_url :: string
  nl_url :: string

record NavigationLinks =
  nls_first :: "NavigationLink option"
  nls_last :: "NavigationLink option"
  nls_next :: "NavigationLink option"
  nls_prev :: "NavigationLink option"

text \<open>A filter type with pagination: its limit, its offset, the offset's update and its query text.\<close>

record 'f pagination =
  pg_limit :: "'f \<Rightarrow> usize option"
  pg_offset :: "'f \<Rightarrow> usize option"
  pg_set_offset :: "usize option \<Rightarrow> 'f \<Rightarrow> 'f"
  pg_to_raw_query :: "'f \<Rightarrow> anyhow + string"

definition get_url_filters_separator :: "string \<Rightarrow> string" where
  "get_url_filters_separator url =
     (if CHR ''?'' \<in> set url then
        if last url = CHR ''?'' \<or> last url = CHR ''&'' then '''' else ''&''
      else ''?'')"

definition build_url :: "'f pagination \<Rightarrow> string \<Rightarrow> 'f \<Rightarrow> anyhow + string" where
  "build_url pg base_url filters =
     and_then (pg_to_raw_query pg filters) (\<lambda>filters_params.
     Inr (if filters_params = [] then base_url
          else base_url @ get_url_filters_separator base_url @ filters_params))"

definition navigation_link_new :: "'f pagination \<Rightarrow> string \<Rightarrow> string \<Rightarrow> 'f \<Rightarrow> anyhow + NavigationLink" where
  "navigation_link_new pg base_url base_hx_url filters =
     and_then (build_url pg base_hx_url filters) (\<lambda>hx_url.
     and_then (build_url pg base_url filters) (\<lambda>url.
     Inr \<lparr>nl_hx_url = hx_url, nl_url = url\<rparr>))"

definition navigation_link_at ::
    "'f pagination \<Rightarrow> string \<Rightarrow> string \<Rightarrow> 'f \<Rightarrow> usize option \<Rightarrow> anyhow + NavigationLink option" where
  "navigation_link_at pg base_url base_hx_url filters offset =
     (case offset of
        None \<Rightarrow> Inr None
      | Some n \<Rightarrow> and_then (navigation_link_new pg base_url base_hx_url (pg_set_offset pg (Some n) filters))
          (\<lambda>link. Inr (Some link)))"

text \<open>\<^verbatim>\<open>from_filters\<close>; the outer option is the panic of a missing limit or a remainder by zero.\<close>

definition navigation_links_from_filters ::
    "'f pagination \<Rightarrow> 'f \<Rightarrow> usize \<Rightarrow> string \<Rightarrow> string \<Rightarrow> (anyhow + NavigationLinks) option" where
  "navigation_links_from_filters pg filters total_results base_url base_hx_url =
     (case pg_limit pg filters of
        None \<Rightarrow> None
      | Some limit \<Rightarrow>
          (case navigation_links_offsets (pg_offset pg filters) limit total_results of
             None \<Rightarrow> None
           | Some offsets \<Rightarrow> Some (
               let link = navigation_link_at pg base_url base_hx_url filters in
               and_then (link (nlo_first offsets)) (\<lambda>first_link.
               and_then (link (nlo_last offsets)) (\<lambda>last_link.
               and_then (link (nlo_next offsets)) (\<lambda>next_link.
               and_then (link (nlo_prev offsets)) (\<lambda>prev_link.
               Inr \<lparr>nls_first = first_link, nls_last = last_link, nls_next = next_link, nls_prev = prev_link\<rparr>)))))))"

section \<open>Property\<close>

lemma unat_saturating_sub: "unat (saturating_sub a b) = unat a - unat b"
  by (auto simp: saturating_sub_def word_less_nat_alt unat_sub word_le_nat_alt)

lemma last_page_start:
  fixes l t :: nat
  assumes "0 < l" and "0 < t"
  shows "(if t mod l = 0 then t - l else t - t mod l) = l * ((t - 1) div l)"
proof (cases "t mod l = 0")
  case True
  then obtain q where q: "t = l * q" "0 < q"
    using assms(2) by (auto simp: mod_eq_0_iff_dvd dvd_def)
  have "t - 1 = (l - 1) + l * (q - 1)"
    using assms(1) q by (cases q) (simp_all add: algebra_simps)
  then have "(t - 1) div l = (q - 1) + (l - 1) div l"
    using assms(1) by (simp only: div_mult_self2)
  then have "(t - 1) div l = q - 1"
    using assms(1) by simp
  then show ?thesis
    using True q by (simp add: diff_mult_distrib2)
next
  case False
  obtain k where k: "t = Suc k"
    using assms(2) by (cases t) auto
  then have "k div l = t div l"
    using False div_Suc [of k l] by simp
  then show ?thesis
    using False k by (simp add: minus_mod_eq_mult_div)
qed

text \<open>
  the links lead to the right pages. For a positive page size and an offset that does not overflow
  with it, there are links back exactly when the offset is not zero, to the start and to one page
  earlier or the start; and links forward exactly when results remain, to the next page and to the
  start of the last page, the greatest multiple of the page size below the number of results.
\<close>

theorem pagination_offsets_correct:
  assumes "0 < limit" and "unat offset + unat limit < 2 ^ 64"
  shows "\<exists>r. navigation_links_offsets (Some offset) limit total_results = Some r \<and>
    map_option unat (nlo_first r) = (if 0 < unat offset then Some 0 else None) \<and>
    map_option unat (nlo_prev r) = (if 0 < unat offset then Some (unat offset - unat limit) else None) \<and>
    map_option unat (nlo_next r) =
      (if unat offset + unat limit < unat total_results then Some (unat offset + unat limit) else None) \<and>
    map_option unat (nlo_last r) =
      (if unat offset + unat limit < unat total_results
       then Some (unat limit * ((unat total_results - 1) div unat limit)) else None)"
proof -
  let ?o = "unat offset" and ?l = "unat limit" and ?t = "unat total_results"
  have l: "0 < ?l" "limit \<noteq> 0"
    using assms(1) by (auto simp: word_less_nat_alt)
  have sum: "unat (offset + limit) = ?o + ?l"
    using assms(2) unat_add_lem [of offset limit] by simp
  have backward: "offset > 0 \<longleftrightarrow> 0 < ?o"
    by (simp add: word_less_nat_alt)
  have forward: "saturating_sub total_results (offset + limit) > 0 \<longleftrightarrow> ?o + ?l < ?t"
    using unat_saturating_sub [of total_results "offset + limit"] sum by (simp add: word_less_nat_alt)
  have multiple: "is_multiple_of total_results limit \<longleftrightarrow> ?t mod ?l = 0"
    using l(2) unat_mod [of total_results limit] unat_eq_0 [of "total_results mod limit"]
    by (simp add: is_multiple_of_def)
  have last: "unat (if is_multiple_of total_results limit then total_results - limit
      else total_results - total_results mod limit) = ?l * ((?t - 1) div ?l)" if "?o + ?l < ?t"
  proof -
    have "unat (total_results - limit) = ?t - ?l"
      using that by (intro unat_sub) (simp add: word_le_nat_alt)
    moreover have "unat (total_results - total_results mod limit) = ?t - ?t mod ?l"
      by (simp add: unat_sub word_le_nat_alt unat_mod)
    ultimately show ?thesis
      using last_page_start [OF l(1), of ?t] that multiple by auto
  qed
  show ?thesis
    using sum backward forward l last
    by (auto simp: navigation_links_offsets_def Let_def unat_saturating_sub)
qed

theorem pagination_offsets_correct_witness:
  "\<exists>r. navigation_links_offsets (Some 15) 10 35 = Some r \<and> map_option unat (nlo_last r) = Some 30 \<and>
     map_option unat (nlo_next r) = Some 25 \<and> map_option unat (nlo_prev r) = Some 5"
  using pagination_offsets_correct [of 10 15 35] by auto

end
