(* ===== verification/Badge_Award_Store.thy ===== *)
theory Badge_Award_Store
  imports Prelude "HOL-Library.Product_Lexorder"
begin

text \<open>
  The durable badge awards: the tables of \<^verbatim>\<open>database/migrations/schema/0066_add_badges.sql\<close> and the
  database functions that queue, claim, process, release, recover and clean award jobs and that
  revoke issued credentials.

  A database function runs in one transaction: it raises, and nothing it wrote is kept, or returns
  a value and the new store. \<open>bs_now\<close> is the \<^verbatim>\<open>current_timestamp\<close> of the transaction, in microseconds;
  a transaction that waited for a lock may carry an earlier one than its predecessor, so nothing is
  assumed about the order. Rows locked by another transaction are in \<open>bs_locked\<close>. Random values
  (\<^verbatim>\<open>gen_random_uuid()\<close>, \<^verbatim>\<open>random()\<close>) are drawn from a \<open>dice\<close> record. Primary keys and the check constraints
  of the status lists are enforced on insertion, as they bind the random values. The unique
  constraints of \<^verbatim>\<open>user_badge\<close> and the count constraints of \<^verbatim>\<open>badge_award_job\<close> are not: the theorems
  show that the functions keep them by themselves.
\<close>

section \<open>Tables\<close>

datatype job_status = JobCompleted | JobFailed | JobPending | JobProcessing

record job_row =
  bj_id :: uuid
  bj_accepted_count :: int
  bj_actor_username :: string
  bj_awarded_count :: int
  bj_badge_snapshot :: json
  bj_community_id :: uuid
  bj_created_at :: instant
  bj_failure_count :: int
  bj_group_id :: uuid
  bj_next_attempt_at :: instant
  bj_next_recipient_offset :: int
  bj_recipient_count :: int
  bj_skipped_count :: int
  bj_status :: job_status
  bj_updated_at :: instant
  bj_actor_user_id :: "uuid option"
  bj_badge_id :: "uuid option"
  bj_claim_id :: "uuid option"
  bj_claimed_at :: "instant option"
  bj_completed_at :: "instant option"
  bj_error :: "string option"
  bj_event_id :: "uuid option"

record recipient_row =
  rc_job_id :: uuid
  rc_position :: int
  rc_user_id :: "uuid option"

record status_list_row =
  sl_id :: uuid
  sl_allocation_offset :: int
  sl_allocation_position :: int
  sl_allocation_stride :: int
  sl_created_at :: instant
  sl_group_id :: uuid

text \<open>The identity columns of a credential, which only an export writes, are left out.\<close>

record user_badge_row =
  ub_id :: uuid
  ub_awarded_at :: instant
  ub_status_list_id :: uuid
  ub_display_order :: int
  ub_group_id :: uuid
  ub_is_listed :: bool
  ub_snapshot :: json
  ub_status_list_index :: int
  ub_badge_id :: "uuid option"
  ub_event_id :: "uuid option"
  ub_revocation_reason :: "string option"
  ub_revoked_at :: "instant option"
  ub_revoked_by_user_id :: "uuid option"
  ub_user_id :: "uuid option"

text \<open>What the functions write to the audit log and the notification queue, in order.\<close>

datatype badge_call =
    BadgeAudit string "uuid option" uuid
  | BadgeNotification string json "uuid option list"

record badge_store =
  bs_now :: instant
  bs_draws :: nat
  bs_locked :: "uuid list"
  bs_users :: "uuid list"
  bs_theme :: "json option"
  bs_jobs :: "job_row list"
  bs_recipients :: "recipient_row list"
  bs_lists :: "status_list_row list"
  bs_badges :: "user_badge_row list"
  bs_calls :: "badge_call list"

record dice =
  dice_uuid :: "nat \<Rightarrow> uuid"
  dice_offset :: "nat \<Rightarrow> int"
  dice_half_stride :: "nat \<Rightarrow> int"

type_synonym 'a badge_tx = "badge_store \<Rightarrow> string + 'a \<times> badge_store"

definition seconds :: "int \<Rightarrow> int" where
  "seconds n = n * 1000000"

abbreviation LIST_SIZE :: int where
  "LIST_SIZE \<equiv> 131072"

definition find_job :: "uuid \<Rightarrow> badge_store \<Rightarrow> job_row option" where
  "find_job i st = find (\<lambda>j. bj_id j = i) (bs_jobs st)"

definition update_job :: "uuid \<Rightarrow> (job_row \<Rightarrow> job_row) \<Rightarrow> badge_store \<Rightarrow> badge_store" where
  "update_job i f st = st\<lparr>bs_jobs := map (\<lambda>j. if bj_id j = i then f j else j) (bs_jobs st)\<rparr>"

definition add_badge_call :: "badge_call \<Rightarrow> badge_store \<Rightarrow> badge_store" where
  "add_badge_call c st = st\<lparr>bs_calls := bs_calls st @ [c]\<rparr>"

definition draw :: "badge_store \<Rightarrow> badge_store" where
  "draw st = st\<lparr>bs_draws := bs_draws st + 1\<rparr>"

text \<open>An active credential of the badge, held by the user. Nulls compare with nothing.\<close>

definition holds_badge :: "uuid option \<Rightarrow> uuid \<Rightarrow> user_badge_row \<Rightarrow> bool" where
  "holds_badge badge user b \<longleftrightarrow>
     badge \<noteq> None \<and> ub_badge_id b = badge \<and> ub_revoked_at b = None \<and> ub_user_id b = Some user"

section \<open>Queueing\<close>

text \<open>
  \<^verbatim>\<open>award_badge\<close>. What the transaction reads before it takes the queue's lock comes in as two answers:
  \<open>checked\<close>, the message raised about the group, the permission, the actor or the badge, or else the
  actor's name and the snapshot of the badge; and \<open>ineligible\<close>, the message raised about the event or
  the eligibility of the recipients, if any.
\<close>

definition normalize_recipients :: "uuid list \<Rightarrow> uuid list" where
  "normalize_recipients user_ids = sort_key uint (remdups user_ids)"

definition already_queued :: "badge_store \<Rightarrow> uuid \<Rightarrow> uuid \<Rightarrow> bool" where
  "already_queued st badge_id user \<longleftrightarrow>
     list_ex (\<lambda>j. bj_badge_id j = Some badge_id \<and> bj_status j \<noteq> JobCompleted \<and>
       list_ex (\<lambda>r. rc_job_id r = bj_id j \<and> rc_user_id r = Some user) (bs_recipients st)) (bs_jobs st)"

definition accepted_recipients :: "badge_store \<Rightarrow> uuid \<Rightarrow> uuid list \<Rightarrow> uuid list" where
  "accepted_recipients st badge_id user_ids =
     filter (\<lambda>u. \<not> list_ex (holds_badge (Some badge_id) u) (bs_badges st) \<and>
                 \<not> already_queued st badge_id u) user_ids"

definition queued_recipients :: "uuid \<Rightarrow> uuid list \<Rightarrow> recipient_row list" where
  "queued_recipients job_id accepted =
     map (\<lambda>n. \<lparr>rc_job_id = job_id, rc_position = int n, rc_user_id = Some (accepted ! n)\<rparr>)
       [0..<length accepted]"

definition award_badge ::
    "dice \<Rightarrow> string + string \<times> json \<Rightarrow> string option \<Rightarrow> uuid \<Rightarrow> uuid \<Rightarrow> uuid \<Rightarrow> uuid \<Rightarrow> uuid list \<Rightarrow>
     uuid option \<Rightarrow> (int \<times> int) badge_tx" where
  "award_badge d checked ineligible actor community_id group_id badge_id user_ids event_id st =
     and_then checked (\<lambda>(actor_username, snapshot).
      if user_ids = [] then Inl ''badge recipients cannot be empty''
      else case ineligible of
        Some message \<Rightarrow> Inl message
      | None \<Rightarrow>
          let recipients = normalize_recipients user_ids;
              accepted = accepted_recipients st badge_id recipients;
              skipped = int (length recipients) - int (length accepted);
              job_id = dice_uuid d (bs_draws st);
              job = \<lparr>bj_id = job_id, bj_accepted_count = int (length accepted),
                bj_actor_username = actor_username, bj_awarded_count = 0,
                bj_badge_snapshot = snapshot, bj_community_id = community_id,
                bj_created_at = bs_now st, bj_failure_count = 0, bj_group_id = group_id,
                bj_next_attempt_at = bs_now st, bj_next_recipient_offset = 0,
                bj_recipient_count = int (length recipients), bj_skipped_count = skipped,
                bj_status = JobPending, bj_updated_at = bs_now st, bj_actor_user_id = Some actor,
                bj_badge_id = Some badge_id, bj_claim_id = None, bj_claimed_at = None,
                bj_completed_at = None, bj_error = None, bj_event_id = event_id\<rparr> in
          if accepted = [] then Inr ((0, skipped), st)
          else if find_job job_id st \<noteq> None then Inl ''duplicate key''
          else Inr ((int (length accepted), skipped), (draw st)
            \<lparr>bs_jobs := bs_jobs st @ [job],
             bs_recipients := bs_recipients st @ queued_recipients job_id accepted\<rparr>))"

section \<open>Claiming\<close>

definition claimable_jobs :: "badge_store \<Rightarrow> job_row list" where
  "claimable_jobs st =
     sort_key (\<lambda>j. (bj_next_attempt_at j, bj_created_at j, uint (bj_id j)))
       (filter (\<lambda>j. bj_status j = JobPending \<and> bj_next_attempt_at j \<le> bs_now st \<and>
                    bj_id j \<notin> set (bs_locked st)) (bs_jobs st))"

definition claim_badge_award_job :: "dice \<Rightarrow> (uuid \<times> uuid) option badge_tx" where
  "claim_badge_award_job d st =
     (let v_claim_id = dice_uuid d (bs_draws st) in
      case claimable_jobs st of
        [] \<Rightarrow> Inr (None, draw st)
      | j # _ \<Rightarrow>
          Inr (Some (bj_id j, v_claim_id),
            update_job (bj_id j) (\<lambda>j. j\<lparr>bj_claim_id := Some v_claim_id,
              bj_claimed_at := Some (bs_now st), bj_status := JobProcessing,
              bj_updated_at := bs_now st\<rparr>) (draw st)))"

definition find_claimed :: "uuid \<Rightarrow> uuid \<Rightarrow> badge_store \<Rightarrow> job_row option" where
  "find_claimed job_id claim_id st =
     (case find_job job_id st of
        Some j \<Rightarrow> if bj_claim_id j = Some claim_id \<and> bj_status j = JobProcessing then Some j else None
      | None \<Rightarrow> None)"

section \<open>Processing a batch\<close>

text \<open>The variables of the loop over the recipients, the tables among them.\<close>

record award_loop =
  al_store :: badge_store
  al_list :: "status_list_row option"
  al_awarded :: int
  al_skipped :: int
  al_notified :: "uuid option list"

definition write_position :: "status_list_row \<Rightarrow> badge_store \<Rightarrow> badge_store" where
  "write_position l st = st\<lparr>bs_lists :=
     map (\<lambda>m. if sl_id m = sl_id l then m\<lparr>sl_allocation_position := sl_allocation_position l\<rparr> else m)
       (bs_lists st)\<rparr>"

definition open_lists :: "uuid \<Rightarrow> badge_store \<Rightarrow> status_list_row list" where
  "open_lists group_id st =
     sort_key (\<lambda>l. (- sl_created_at l, - uint (sl_id l)))
       (filter (\<lambda>l. sl_group_id l = group_id \<and> sl_allocation_position l < LIST_SIZE) (bs_lists st))"

definition insert_status_list :: "dice \<Rightarrow> uuid \<Rightarrow> status_list_row badge_tx" where
  "insert_status_list d group_id st =
     (let n = bs_draws st;
          l = \<lparr>sl_id = dice_uuid d n, sl_allocation_offset = dice_offset d n,
               sl_allocation_position = 0, sl_allocation_stride = dice_half_stride d n * 2 + 1,
               sl_created_at = bs_now st, sl_group_id = group_id\<rparr> in
      if sl_id l \<in> sl_id ` set (bs_lists st) then Inl ''duplicate key''
      else if \<not> (0 \<le> sl_allocation_offset l \<and> sl_allocation_offset l < LIST_SIZE \<and>
                1 \<le> sl_allocation_stride l \<and> sl_allocation_stride l < LIST_SIZE)
      then Inl ''check constraint violated''
      else Inr (l, (draw st)\<lparr>bs_lists := bs_lists st @ [l]\<rparr>))"

text \<open>The status list for the next credential: the current one, or another when it is full.\<close>

definition pick_list :: "dice \<Rightarrow> uuid \<Rightarrow> status_list_row badge_tx" where
  "pick_list d group_id st =
     (case open_lists group_id st of l # _ \<Rightarrow> Inr (l, st) | [] \<Rightarrow> insert_status_list d group_id st)"

definition current_list :: "dice \<Rightarrow> uuid \<Rightarrow> status_list_row option \<Rightarrow> status_list_row badge_tx" where
  "current_list d group_id current st =
     (case current of
        Some l \<Rightarrow>
          if sl_allocation_position l \<ge> LIST_SIZE then pick_list d group_id (write_position l st)
          else Inr (l, st)
      | None \<Rightarrow> pick_list d group_id st)"

definition status_slot :: "status_list_row \<Rightarrow> int \<Rightarrow> int" where
  "status_slot l position =
     (sl_allocation_offset l + position * sl_allocation_stride l) mod LIST_SIZE"

definition next_display_order :: "badge_store \<Rightarrow> uuid \<Rightarrow> int" where
  "next_display_order st user =
     (case map ub_display_order
        (filter (\<lambda>b. ub_revoked_at b = None \<and> ub_user_id b = Some user) (bs_badges st)) of
        [] \<Rightarrow> 0 | os \<Rightarrow> Max (set os) + 1)"

definition skip_recipient :: "job_row \<Rightarrow> badge_store \<Rightarrow> uuid option \<Rightarrow> bool" where
  "skip_recipient job st recipient =
     (case recipient of
        None \<Rightarrow> True
      | Some u \<Rightarrow> u \<notin> set (bs_users st) \<or> list_ex (holds_badge (bj_badge_id job) u) (bs_badges st))"

definition new_badge :: "dice \<Rightarrow> job_row \<Rightarrow> status_list_row \<Rightarrow> uuid \<Rightarrow> badge_store \<Rightarrow> user_badge_row" where
  "new_badge d job l user st =
     \<lparr>ub_id = dice_uuid d (bs_draws st), ub_awarded_at = bs_now st, ub_status_list_id = sl_id l,
      ub_display_order = next_display_order st user, ub_group_id = bj_group_id job,
      ub_is_listed = True, ub_snapshot = bj_badge_snapshot job,
      ub_status_list_index = status_slot l (sl_allocation_position l),
      ub_badge_id = bj_badge_id job, ub_event_id = bj_event_id job, ub_revocation_reason = None,
      ub_revoked_at = None, ub_revoked_by_user_id = None, ub_user_id = Some user\<rparr>"

definition award_recipient :: "dice \<Rightarrow> job_row \<Rightarrow> uuid option \<Rightarrow> award_loop \<Rightarrow> string + award_loop" where
  "award_recipient d job recipient s =
     (if skip_recipient job (al_store s) recipient then Inr (s\<lparr>al_skipped := al_skipped s + 1\<rparr>)
      else and_then (current_list d (bj_group_id job) (al_list s) (al_store s)) (\<lambda>(l, st).
        let b = new_badge d job l (the recipient) st in
        if ub_id b \<in> ub_id ` set (bs_badges st) then Inl ''duplicate key''
        else Inr (s
          \<lparr>al_store := add_badge_call (BadgeAudit ''badge_awarded'' (bj_actor_user_id job) (ub_id b))
             ((draw st)\<lparr>bs_badges := bs_badges st @ [b]\<rparr>),
           al_list := Some (l\<lparr>sl_allocation_position := sl_allocation_position l + 1\<rparr>),
           al_awarded := al_awarded s + 1, al_notified := al_notified s @ [recipient]\<rparr>)))"

fun award_recipients :: "dice \<Rightarrow> job_row \<Rightarrow> uuid option list \<Rightarrow> award_loop \<Rightarrow> string + award_loop" where
  "award_recipients d job [] s = Inr s"
| "award_recipients d job (r # rs) s =
     and_then (award_recipient d job r s) (award_recipients d job rs)"

definition batch_recipients :: "badge_store \<Rightarrow> job_row \<Rightarrow> int \<Rightarrow> uuid option list" where
  "batch_recipients st job allowed =
     map rc_user_id (take (nat allowed) (sort_key rc_position
       (filter (\<lambda>r. rc_job_id r = bj_id job \<and> rc_position r \<ge> bj_next_recipient_offset job)
         (bs_recipients st))))"

definition awarded_last_minute :: "badge_store \<Rightarrow> int" where
  "awarded_last_minute st =
     int (length (filter (\<lambda>b. ub_awarded_at b \<ge> bs_now st - seconds 60) (bs_badges st)))"

record BadgeAwardBatchOutcome =
  bo_completed :: bool
  bo_processed_count :: int
  bo_rate_limited :: bool

definition rate_limited_job :: "instant \<Rightarrow> job_row \<Rightarrow> job_row" where
  "rate_limited_job now j = j\<lparr>bj_claim_id := None, bj_claimed_at := None,
     bj_next_attempt_at := now + seconds 5, bj_status := JobPending, bj_updated_at := now\<rparr>"

definition advanced_job :: "instant \<Rightarrow> int \<Rightarrow> int \<Rightarrow> int \<Rightarrow> bool \<Rightarrow> job_row \<Rightarrow> job_row" where
  "advanced_job now awarded skipped offset complete j = j
     \<lparr>bj_awarded_count := bj_awarded_count j + awarded, bj_claim_id := None, bj_claimed_at := None,
      bj_completed_at := (if complete then Some now else None), bj_error := None,
      bj_next_attempt_at := (if complete then bj_next_attempt_at j else now + seconds 1),
      bj_next_recipient_offset := offset, bj_skipped_count := bj_skipped_count j + skipped,
      bj_status := (if complete then JobCompleted else JobPending), bj_updated_at := now\<rparr>"

definition awarded_notification :: "job_row \<Rightarrow> json option \<Rightarrow> json" where
  "awarded_notification job theme = JObject
     [(''badge'', bj_badge_snapshot job), (''dashboard_url'', JString ''/dashboard/user?tab=badges''),
      (''theme'', case theme of Some t \<Rightarrow> t | None \<Rightarrow> JNull)]"

text \<open>The end of a successful batch: cursor, notifications, recipient rows and the job itself.\<close>

definition finish_batch :: "job_row \<Rightarrow> int \<Rightarrow> award_loop \<Rightarrow> BadgeAwardBatchOutcome \<times> badge_store" where
  "finish_batch job allowed s =
     (let st1 = (case al_list s of Some l \<Rightarrow> write_position l (al_store s) | None \<Rightarrow> al_store s);
          st2 = (if al_awarded s > 0
            then add_badge_call (BadgeNotification ''badge-awarded''
                   (awarded_notification job (bs_theme st1)) (al_notified s)) st1
            else st1);
          offset = bj_next_recipient_offset job + allowed;
          complete = (offset \<ge> bj_accepted_count job);
          st3 = (if complete
            then st2\<lparr>bs_recipients := filter (\<lambda>r. rc_job_id r \<noteq> bj_id job) (bs_recipients st2)\<rparr>
            else st2) in
      (\<lparr>bo_completed = complete, bo_processed_count = allowed, bo_rate_limited = False\<rparr>,
       update_job (bj_id job)
         (advanced_job (bs_now st3) (al_awarded s) (al_skipped s) offset complete) st3))"

definition loop_start :: "badge_store \<Rightarrow> award_loop" where
  "loop_start st = \<lparr>al_store = st, al_list = None, al_awarded = 0, al_skipped = 0, al_notified = []\<rparr>"

definition allowed_count :: "int \<Rightarrow> int \<Rightarrow> job_row \<Rightarrow> badge_store \<Rightarrow> int" where
  "allowed_count batch_size rate_limit job st =
     min batch_size (min (max 0 (rate_limit - awarded_last_minute st))
       (bj_accepted_count job - bj_next_recipient_offset job))"

definition process_badge_award_job_batch ::
    "dice \<Rightarrow> uuid \<Rightarrow> uuid \<Rightarrow> int \<Rightarrow> int \<Rightarrow> BadgeAwardBatchOutcome badge_tx" where
  "process_badge_award_job_batch d job_id claim_id batch_size rate_limit st =
     (if batch_size \<le> 0 then Inl ''badge award batch size must be positive''
      else if rate_limit \<le> 0 then Inl ''badge award rate limit must be positive''
      else case find_claimed job_id claim_id st of
        None \<Rightarrow> Inl ''badge award job claim not found''
      | Some job \<Rightarrow>
          let allowed = allowed_count batch_size rate_limit job st in
          if allowed = 0 \<and> bj_accepted_count job - bj_next_recipient_offset job > 0
          then Inr (\<lparr>bo_completed = False, bo_processed_count = 0, bo_rate_limited = True\<rparr>,
                 update_job job_id (rate_limited_job (bs_now st)) st)
          else
            let recipients = (if allowed > 0 then batch_recipients st job allowed else []) in
            if allowed > 0 \<and> int (length recipients) \<noteq> allowed
            then Inl ''badge award job recipients are incomplete''
            else and_then (award_recipients d job recipients (loop_start st))
              (\<lambda>s. Inr (finish_batch job allowed s)))"

section \<open>Failures, recovery and cleaning\<close>

text \<open>\<^verbatim>\<open>left(text, n)\<close> keeps \<open>n\<close> characters of UTF-8 text.\<close>

fun sql_left :: "string \<Rightarrow> nat \<Rightarrow> string" where
  "sql_left [] n = []"
| "sql_left (b # bs) n =
     (if is_continuation_byte b then b # sql_left bs n
      else case n of 0 \<Rightarrow> [] | Suc m \<Rightarrow> b # sql_left bs m)"

definition failed_job :: "instant \<Rightarrow> string \<Rightarrow> int \<Rightarrow> bool \<Rightarrow> job_row \<Rightarrow> job_row" where
  "failed_job now message failures terminal j = j
     \<lparr>bj_claim_id := None, bj_claimed_at := None,
      bj_completed_at := (if terminal then Some now else None),
      bj_error := Some (sql_left (coalesce (nullif_blank message) ''badge award processing failed'') 1000),
      bj_failure_count := failures,
      bj_next_attempt_at := (if terminal then bj_next_attempt_at j
         else now + seconds (min 1800 (60 * 2 ^ nat (failures - 1)))),
      bj_status := (if terminal then JobFailed else JobPending), bj_updated_at := now\<rparr>"

definition record_badge_award_job_failure :: "uuid \<Rightarrow> uuid \<Rightarrow> string \<Rightarrow> int \<Rightarrow> bool badge_tx" where
  "record_badge_award_job_failure job_id claim_id message max_failures st =
     (if max_failures \<le> 0 then Inl ''badge award job failure limit must be positive''
      else case find_claimed job_id claim_id st of
        None \<Rightarrow> Inl ''badge award job claim not found''
      | Some job \<Rightarrow>
          let failures = bj_failure_count job + 1; terminal = (failures \<ge> max_failures) in
          if \<not> terminal \<and> 60 * 2 ^ nat (failures - 1) > (2147483647 :: int)
          then Inl ''integer out of range''
          else Inr (terminal, update_job job_id (failed_job (bs_now st) message failures terminal) st))"

definition stale_jobs :: "badge_store \<Rightarrow> int \<Rightarrow> job_row list" where
  "stale_jobs st timeout = take 100 (sort_key (\<lambda>j. (the (bj_claimed_at j), uint (bj_id j)))
     (filter (\<lambda>j. bj_status j = JobProcessing \<and>
        (case bj_claimed_at j of Some c \<Rightarrow> c < bs_now st - seconds timeout | None \<Rightarrow> False) \<and>
        bj_id j \<notin> set (bs_locked st)) (bs_jobs st)))"

definition recovered_job :: "instant \<Rightarrow> int \<Rightarrow> job_row \<Rightarrow> job_row" where
  "recovered_job now max_failures j =
     (let terminal = bj_failure_count j + 1 \<ge> max_failures in j
     \<lparr>bj_claim_id := None, bj_claimed_at := None,
      bj_completed_at := (if terminal then Some now else None),
      bj_error := Some ''badge award worker claim expired'',
      bj_failure_count := bj_failure_count j + 1, bj_next_attempt_at := now,
      bj_status := (if terminal then JobFailed else JobPending), bj_updated_at := now\<rparr>)"

text \<open>\<open>sweeping\<close>: another replica holds the advisory lock of the recovery sweep.\<close>

definition recover_stale_badge_award_jobs :: "bool \<Rightarrow> int \<Rightarrow> int \<Rightarrow> int badge_tx" where
  "recover_stale_badge_award_jobs sweeping timeout max_failures st =
     (if max_failures \<le> 0 then Inl ''badge award job failure limit must be positive''
      else if timeout \<le> 0 then Inl ''badge award job processing timeout must be positive''
      else if sweeping then Inr (0, st)
      else let stale = map bj_id (stale_jobs st timeout) in
        Inr (int (length stale), st\<lparr>bs_jobs :=
          map (\<lambda>j. if bj_id j \<in> set stale then recovered_job (bs_now st) max_failures j else j)
            (bs_jobs st)\<rparr>))"

definition requeue_badge_award_job :: "uuid \<Rightarrow> unit badge_tx" where
  "requeue_badge_award_job job_id st =
     (case find_job job_id st of
        Some j \<Rightarrow>
          if bj_status j = JobFailed
          then Inr ((), update_job job_id (\<lambda>j. j\<lparr>bj_completed_at := None, bj_error := None,
                 bj_failure_count := 0, bj_next_attempt_at := bs_now st, bj_status := JobPending,
                 bj_updated_at := bs_now st\<rparr>) st)
          else Inl ''failed badge award job not found''
      | None \<Rightarrow> Inl ''failed badge award job not found'')"

definition expired_jobs :: "badge_store \<Rightarrow> int \<Rightarrow> job_row list" where
  "expired_jobs st retention = take 100 (sort_key (\<lambda>j. (the (bj_completed_at j), uint (bj_id j)))
     (filter (\<lambda>j. bj_status j \<in> {JobCompleted, JobFailed} \<and>
        (case bj_completed_at j of Some c \<Rightarrow> c < bs_now st - seconds retention | None \<Rightarrow> False) \<and>
        bj_id j \<notin> set (bs_locked st)) (bs_jobs st)))"

text \<open>Deleting a job deletes its recipients (\<^verbatim>\<open>on delete cascade\<close>).\<close>

definition cleanup_badge_award_jobs :: "int \<Rightarrow> int badge_tx" where
  "cleanup_badge_award_jobs retention st =
     (if retention \<le> 0 then Inl ''badge award job retention must be positive''
      else let expired = map bj_id (expired_jobs st retention) in
        Inr (int (length expired), st
          \<lparr>bs_jobs := filter (\<lambda>j. bj_id j \<notin> set expired) (bs_jobs st),
           bs_recipients := filter (\<lambda>r. rc_job_id r \<notin> set expired) (bs_recipients st)\<rparr>))"

section \<open>Revocation\<close>

definition find_badge :: "uuid \<Rightarrow> badge_store \<Rightarrow> user_badge_row option" where
  "find_badge i st = find (\<lambda>b. ub_id b = i) (bs_badges st)"

definition revoke_row :: "uuid \<Rightarrow> string \<Rightarrow> uuid \<Rightarrow> badge_store \<Rightarrow> badge_store" where
  "revoke_row i reason actor st = st\<lparr>bs_badges := map (\<lambda>b. if ub_id b = i
     then b\<lparr>ub_is_listed := False, ub_revocation_reason := Some reason,
            ub_revoked_at := Some (bs_now st), ub_revoked_by_user_id := Some actor\<rparr> else b) (bs_badges st)\<rparr>"

definition json_field :: "string \<Rightarrow> json \<Rightarrow> json" where
  "json_field k v = (case json_get k v of Some w \<Rightarrow> w | None \<Rightarrow> JNull)"

definition revoked_notification :: "user_badge_row \<Rightarrow> json option \<Rightarrow> json" where
  "revoked_notification b theme = JObject
     [(''badge_name'', json_field ''name'' (ub_snapshot b)),
      (''dashboard_url'', JString ''/dashboard/user?tab=badges''),
      (''group_name'', json_field ''group_name'' (json_field ''issuer'' (ub_snapshot b))),
      (''theme'', case theme of Some t \<Rightarrow> t | None \<Rightarrow> JNull)]"

text \<open>\<open>permitted\<close> is the answer of \<^verbatim>\<open>user_has_group_permission\<close>.\<close>

definition revoke_group_user_badge :: "bool \<Rightarrow> uuid \<Rightarrow> uuid \<Rightarrow> uuid \<Rightarrow> string \<Rightarrow> unit badge_tx" where
  "revoke_group_user_badge permitted actor group_id user_badge_id reason st =
     (if \<not> permitted then Inl ''badge permission denied''
      else case nullif_blank reason of
        None \<Rightarrow> Inl ''badge revocation reason is required''
      | Some v_reason \<Rightarrow>
          (case find_badge user_badge_id st of
             None \<Rightarrow> Inl ''awarded badge not found''
           | Some b \<Rightarrow>
               if ub_group_id b \<noteq> group_id then Inl ''awarded badge not found''
               else if ub_revoked_at b \<noteq> None then Inr ((), st)
               else Inr ((), add_badge_call (BadgeAudit ''badge_revoked'' (Some actor) user_badge_id)
                 (add_badge_call (BadgeNotification ''badge-revoked''
                    (revoked_notification b (bs_theme st)) [ub_user_id b])
                    (revoke_row user_badge_id v_reason actor st)))))"

definition revoke_user_badge :: "uuid \<Rightarrow> uuid \<Rightarrow> unit badge_tx" where
  "revoke_user_badge actor user_badge_id st =
     (if actor \<notin> set (bs_users st) then Inl ''awarded badge not found''
      else case find_badge user_badge_id st of
        None \<Rightarrow> Inl ''awarded badge not found''
      | Some b \<Rightarrow>
          if ub_user_id b \<noteq> Some actor then Inl ''awarded badge not found''
          else if ub_revoked_at b \<noteq> None then Inr ((), st)
          else Inr ((), add_badge_call
            (BadgeAudit ''badge_revoked_by_recipient'' (Some actor) user_badge_id)
            (revoke_row user_badge_id ''recipient revoked badge'' actor st)))"

section \<open>Deletion of referenced rows\<close>

text \<open>
  The \<^verbatim>\<open>on delete set null\<close> actions: deleting a user is refused while the user holds an active
  credential (\<^verbatim>\<open>user_badge_active_user_chk\<close>).
\<close>

definition unless :: "uuid \<Rightarrow> uuid option \<Rightarrow> uuid option" where
  "unless u v = (if v = Some u then None else v)"

definition delete_user :: "uuid \<Rightarrow> unit badge_tx" where
  "delete_user u st =
     (if list_ex (\<lambda>b. ub_revoked_at b = None \<and> ub_user_id b = Some u) (bs_badges st)
      then Inl ''check constraint violated''
      else Inr ((), st
        \<lparr>bs_users := removeAll u (bs_users st),
         bs_jobs := map (\<lambda>j. j\<lparr>bj_actor_user_id := unless u (bj_actor_user_id j)\<rparr>) (bs_jobs st),
         bs_recipients := map (\<lambda>r. r\<lparr>rc_user_id := unless u (rc_user_id r)\<rparr>) (bs_recipients st),
         bs_badges := map (\<lambda>b. b\<lparr>ub_user_id := unless u (ub_user_id b),
           ub_revoked_by_user_id := unless u (ub_revoked_by_user_id b)\<rparr>) (bs_badges st)\<rparr>))"

definition delete_badge :: "uuid \<Rightarrow> unit badge_tx" where
  "delete_badge badge_id st = Inr ((), st
     \<lparr>bs_jobs := map (\<lambda>j. j\<lparr>bj_badge_id := unless badge_id (bj_badge_id j)\<rparr>) (bs_jobs st),
      bs_badges := map (\<lambda>b. b\<lparr>ub_badge_id := unless badge_id (ub_badge_id b)\<rparr>) (bs_badges st)\<rparr>)"

end
