(* ===== verification/Badge_Award_Lifecycle.thy ===== *)
theory Badge_Award_Lifecycle
  imports Badge_Award_Store
begin

text \<open>
  Runs of the badge award functions and what every run keeps: status-list indexes are handed out
  once, the issuance rate is bounded over every minute, a user holds a badge at most once, and the
  counters and recipient rows of a job account for every recipient.
\<close>

section \<open>Allocation of status-list indexes\<close>

definition list_ok :: "status_list_row \<Rightarrow> bool" where
  "list_ok l \<longleftrightarrow> 0 \<le> sl_allocation_offset l \<and> sl_allocation_offset l < LIST_SIZE \<and>
     1 \<le> sl_allocation_stride l \<and> sl_allocation_stride l < LIST_SIZE \<and> odd (sl_allocation_stride l) \<and>
     0 \<le> sl_allocation_position l \<and> sl_allocation_position l \<le> LIST_SIZE"

text \<open>An odd stride is coprime to the size of the list, so the slots of a list form a permutation.\<close>

lemma status_slot_inj:
  assumes "odd (sl_allocation_stride l)" and "p \<in> {0..<LIST_SIZE}" and "q \<in> {0..<LIST_SIZE}"
    and "status_slot l p = status_slot l q"
  shows "p = q"
proof -
  have "LIST_SIZE dvd (p - q) * sl_allocation_stride l"
    using assms(4) by (simp add: status_slot_def mod_eq_dvd_iff algebra_simps)
  moreover have "coprime LIST_SIZE (sl_allocation_stride l)"
  proof -
    have "coprime 2 (sl_allocation_stride l)"
      using assms(1) by simp
    then have "coprime (2 ^ 17) (sl_allocation_stride l)"
      by (simp only: coprime_power_left_iff) simp
    moreover have "(2::int) ^ 17 = LIST_SIZE" by simp
    ultimately show ?thesis by metis
  qed
  ultimately have "LIST_SIZE dvd p - q"
    by (simp add: coprime_dvd_mult_left_iff)
  then have "\<bar>p - q\<bar> \<ge> LIST_SIZE \<or> p - q = 0"
    using dvd_imp_le_int [of "p - q" LIST_SIZE] by auto
  with assms(2,3) show ?thesis by auto
qed

lemma status_slot_range: "0 \<le> status_slot l p \<and> status_slot l p < LIST_SIZE"
  by (simp add: status_slot_def)

text \<open>The indexes of a list's credentials, in the order of their insertion.\<close>

definition slots_taken :: "uuid \<Rightarrow> user_badge_row list \<Rightarrow> int list" where
  "slots_taken i badges = map ub_status_list_index (filter (\<lambda>b. ub_status_list_id b = i) badges)"

definition lists_inv :: "status_list_row list \<Rightarrow> user_badge_row list \<Rightarrow> bool" where
  "lists_inv rows badges \<longleftrightarrow> distinct (map sl_id rows) \<and>
     (\<forall>l\<in>set rows. list_ok l \<and>
        slots_taken (sl_id l) badges = map (status_slot l) [0..sl_allocation_position l - 1]) \<and>
     (\<forall>b\<in>set badges. \<exists>l\<in>set rows. sl_id l = ub_status_list_id b \<and> sl_group_id l = ub_group_id b)"

lemma slots_taken_append [simp]:
  "slots_taken i (xs @ ys) = slots_taken i xs @ slots_taken i ys"
  by (simp add: slots_taken_def)

lemma slots_distinct:
  assumes "list_ok l"
  shows "distinct (map (status_slot l) [0..sl_allocation_position l - 1])"
  unfolding distinct_map
proof (intro conjI inj_onI)
  fix p q assume p: "p \<in> set [0..sl_allocation_position l - 1]" and q: "q \<in> set [0..sl_allocation_position l - 1]"
    and eq: "status_slot l p = status_slot l q"
  show "p = q"
  proof (rule status_slot_inj [OF _ _ _ eq])
    show "odd (sl_allocation_stride l)" using assms by (simp add: list_ok_def)
  qed (use p q assms in \<open>simp_all add: list_ok_def\<close>)
qed simp

lemma distinct_by_group:
  "(\<And>i. distinct (map f (filter (\<lambda>x. g x = i) xs))) \<Longrightarrow> distinct (map (\<lambda>x. (g x, f x)) xs)"
proof (induction xs)
  case (Cons x xs)
  have "distinct (map f (filter (\<lambda>y. g y = i) xs))" for i
    using Cons.prems [of i] by (simp split: if_splits)
  moreover have "f x \<notin> f ` set (filter (\<lambda>y. g y = g x) xs)"
    using Cons.prems [of "g x"] by simp
  then have "(g x, f x) \<notin> set (map (\<lambda>x. (g x, f x)) xs)" by auto
  ultimately show ?case using Cons.IH by simp
qed simp

lemma lists_inv_unique:
  assumes "lists_inv rows badges"
  shows "distinct (map (\<lambda>b. (ub_status_list_id b, ub_status_list_index b)) badges)"
proof (rule distinct_by_group)
  fix i
  show "distinct (map ub_status_list_index (filter (\<lambda>b. ub_status_list_id b = i) badges))"
  proof (cases "i \<in> sl_id ` set rows")
    case True
    then obtain l where l: "l \<in> set rows" "sl_id l = i" by auto
    then have "slots_taken i badges = map (status_slot l) [0..sl_allocation_position l - 1]" "list_ok l"
      using assms unfolding lists_inv_def by blast+
    then show ?thesis using slots_distinct [of l] by (simp add: slots_taken_def)
  next
    case False
    then have "filter (\<lambda>b. ub_status_list_id b = i) badges = []"
      using assms unfolding lists_inv_def filter_empty_conv by (metis imageI)
    then show ?thesis by simp
  qed
qed

lemma lists_inv_index_range:
  assumes "lists_inv rows badges" and "b \<in> set badges"
  shows "0 \<le> ub_status_list_index b \<and> ub_status_list_index b < LIST_SIZE"
proof -
  obtain l where l: "l \<in> set rows" "sl_id l = ub_status_list_id b"
    using assms unfolding lists_inv_def by blast
  then have "ub_status_list_index b \<in> set (slots_taken (sl_id l) badges)"
    using assms(2) by (auto simp: slots_taken_def)
  then show ?thesis
    using assms(1) l(1) status_slot_range by (auto simp: lists_inv_def)
qed

text \<open>A new list, and a credential that takes the next slot of a list.\<close>

lemma lists_inv_insert:
  assumes "lists_inv rows badges" and "list_ok l" and "sl_allocation_position l = 0"
    and "sl_id l \<notin> sl_id ` set rows"
  shows "lists_inv (rows @ [l]) badges"
proof -
  have "filter (\<lambda>b. ub_status_list_id b = sl_id l) badges = []"
    unfolding filter_empty_conv
  proof
    fix b assume "b \<in> set badges"
    then obtain m where "m \<in> set rows" "sl_id m = ub_status_list_id b"
      using assms(1) unfolding lists_inv_def by blast
    with assms(4) show "ub_status_list_id b \<noteq> sl_id l" by (metis imageI)
  qed
  then have "slots_taken (sl_id l) badges = map (status_slot l) [0..sl_allocation_position l - 1]"
    using assms(3) by (simp add: slots_taken_def)
  moreover have "distinct (map sl_id (rows @ [l]))"
    using assms(1,4) by (simp add: lists_inv_def)
  ultimately show ?thesis
    using assms(1,2) unfolding lists_inv_def set_append list.set by blast
qed

definition advance_list :: "status_list_row \<Rightarrow> status_list_row" where
  "advance_list l = l\<lparr>sl_allocation_position := sl_allocation_position l + 1\<rparr>"

lemma status_slot_advance [simp]: "status_slot (advance_list l) = status_slot l"
  by (rule ext) (simp add: status_slot_def advance_list_def)

definition write_list :: "status_list_row \<Rightarrow> status_list_row list \<Rightarrow> status_list_row list" where
  "write_list l = map (\<lambda>m. if sl_id m = sl_id l then m\<lparr>sl_allocation_position := sl_allocation_position l\<rparr> else m)"

lemma write_list_id [simp]: "map sl_id (write_list l rows) = map sl_id rows"
  by (simp add: write_list_def)

lemma lists_inv_take_slot:
  assumes inv: "lists_inv rows badges" and l: "l \<in> set rows" "sl_allocation_position l < LIST_SIZE"
    and b: "ub_status_list_id b = sl_id l" "ub_group_id b = sl_group_id l"
      "ub_status_list_index b = status_slot l (sl_allocation_position l)"
  shows "lists_inv (write_list (advance_list l) rows) (badges @ [b])"
proof -
  have d: "distinct (map sl_id rows)" using inv by (simp add: lists_inv_def)
  have same: "m = l" if "m \<in> set rows" "sl_id m = sl_id l" for m
    using d l(1) that by (auto simp: distinct_map dest: inj_onD)
  have "write_list (advance_list l) rows = map (\<lambda>m. if m = l then advance_list l else m) rows"
    unfolding write_list_def by (rule map_cong) (use same in \<open>auto simp: advance_list_def\<close>)
  moreover have "lists_inv (map (\<lambda>m. if m = l then advance_list l else m) rows) (badges @ [b])"
    unfolding lists_inv_def
  proof (intro conjI ballI)
    show "distinct (map sl_id (map (\<lambda>m. if m = l then advance_list l else m) rows))"
    proof -
      have "map sl_id (map (\<lambda>m. if m = l then advance_list l else m) rows) = map sl_id rows"
        by (simp add: advance_list_def)
      then show ?thesis using d by (simp only:)
    qed
  next
    fix m' assume "m' \<in> set (map (\<lambda>m. if m = l then advance_list l else m) rows)"
    then obtain m where m: "m \<in> set rows" "m' = (if m = l then advance_list l else m)" by auto
    have ok: "list_ok m" "slots_taken (sl_id m) badges = map (status_slot m) [0..sl_allocation_position m - 1]"
      using inv m(1) by (auto simp: lists_inv_def)
    show "list_ok m'" using ok(1) l(2) m(2) by (auto simp: list_ok_def advance_list_def)
    show "slots_taken (sl_id m') (badges @ [b]) = map (status_slot m') [0..sl_allocation_position m' - 1]"
    proof (cases "m = l")
      case True
      have "[0..sl_allocation_position l] = [0..sl_allocation_position l - 1] @ [sl_allocation_position l]"
        using ok(1) True by (intro upto_rec2) (simp add: list_ok_def)
      with True m(2) ok(2) b show ?thesis
        by (simp add: slots_taken_def advance_list_def) (simp add: status_slot_def)
    next
      case False
      with same [OF m(1)] b(1) m(2) ok(2) show ?thesis by (auto simp: slots_taken_def)
    qed
  next
    fix c assume "c \<in> set (badges @ [b])"
    then obtain m where "m \<in> set rows" "sl_id m = ub_status_list_id c" "sl_group_id m = ub_group_id c"
      using inv l(1) b by (auto simp: lists_inv_def)
    then show "\<exists>m\<in>set (map (\<lambda>m. if m = l then advance_list l else m) rows).
        sl_id m = ub_status_list_id c \<and> sl_group_id m = ub_group_id c"
      by (intro bexI [of _ "if m = l then advance_list l else m"]) (auto simp: advance_list_def)
  qed
  ultimately show ?thesis by simp
qed

section \<open>The loop over the recipients\<close>

definition held_once :: "user_badge_row list \<Rightarrow> bool" where
  "held_once badges \<longleftrightarrow> (\<forall>badge user. length (filter (holds_badge badge user) badges) \<le> 1)"

lemma held_once_append:
  assumes "held_once badges" and "ub_user_id b = Some u"
    and "\<not> list_ex (holds_badge (ub_badge_id b) u) badges"
  shows "held_once (badges @ [b])"
  unfolding held_once_def
proof (intro allI)
  fix badge user
  show "length (filter (holds_badge badge user) (badges @ [b])) \<le> 1"
  proof (cases "holds_badge badge user b")
    case True
    then have "badge = ub_badge_id b" "user = u" using assms(2) by (auto simp: holds_badge_def)
    then have "filter (holds_badge badge user) badges = []"
      using assms(3) by (auto simp: filter_empty_conv list_ex_iff)
    then show ?thesis by simp
  next
    case False
    then show ?thesis using assms(1) by (simp add: held_once_def)
  qed
qed

text \<open>The status lists as the loop sees them: its own cursor is ahead of the table.\<close>

definition loop_lists :: "award_loop \<Rightarrow> status_list_row list" where
  "loop_lists s = (case al_list s of
     Some l \<Rightarrow> write_list l (bs_lists (al_store s)) | None \<Rightarrow> bs_lists (al_store s))"

definition loop_inv :: "uuid \<Rightarrow> award_loop \<Rightarrow> bool" where
  "loop_inv g s \<longleftrightarrow> lists_inv (loop_lists s) (bs_badges (al_store s)) \<and>
     held_once (bs_badges (al_store s)) \<and>
     (\<forall>l. al_list s = Some l \<longrightarrow> l \<in> set (loop_lists s) \<and> sl_group_id l = g)"

definition same_rest :: "badge_store \<Rightarrow> badge_store \<Rightarrow> bool" where
  "same_rest st st' \<longleftrightarrow> bs_now st' = bs_now st \<and> bs_locked st' = bs_locked st \<and>
     bs_users st' = bs_users st \<and> bs_theme st' = bs_theme st \<and> bs_jobs st' = bs_jobs st \<and>
     bs_recipients st' = bs_recipients st"

lemma loop_lists_skip [simp]: "loop_lists (s\<lparr>al_skipped := n\<rparr>) = loop_lists s"
  by (cases "al_list s") (simp_all add: loop_lists_def)

lemma write_position_simps [simp]:
  "bs_lists (write_position l st) = write_list l (bs_lists st)"
  "bs_badges (write_position l st) = bs_badges st"
  "same_rest st (write_position l st)"
  by (simp_all add: write_position_def write_list_def same_rest_def)

lemma write_list_self:
  assumes "distinct (map sl_id rows)" and "l \<in> set rows"
  shows "write_list l rows = rows"
  unfolding write_list_def
proof (rule map_idI)
  fix m assume "m \<in> set rows"
  then have "m = l" if "sl_id m = sl_id l"
    using assms that unfolding distinct_map by (blast dest: inj_onD)
  then show "(if sl_id m = sl_id l then m\<lparr>sl_allocation_position := sl_allocation_position l\<rparr> else m) = m"
    by auto
qed

lemma write_list_again:
  "sl_id l' = sl_id l \<Longrightarrow> write_list l' (write_list l rows) = write_list l' rows"
  by (simp add: write_list_def)

lemma write_list_advance:
  "l \<in> set rows \<Longrightarrow> advance_list l \<in> set (write_list (advance_list l) rows)"
  by (force simp: write_list_def advance_list_def)

lemma pick_list_spec:
  assumes inv: "lists_inv (bs_lists st) (bs_badges st)" and pick: "pick_list d g st = Inr (l, st')"
  shows "lists_inv (bs_lists st') (bs_badges st') \<and> l \<in> set (bs_lists st') \<and> sl_group_id l = g \<and>
    sl_allocation_position l < LIST_SIZE \<and> bs_badges st' = bs_badges st \<and> same_rest st st'"
proof (cases "open_lists g st")
  case (Cons m ms)
  then have "m \<in> set (open_lists g st)" by simp
  then have "m \<in> set (bs_lists st) \<and> sl_group_id m = g \<and> sl_allocation_position m < LIST_SIZE"
    by (simp add: open_lists_def)
  then show ?thesis using Cons pick inv by (simp add: pick_list_def same_rest_def)
next
  case Nil
  then have ins: "insert_status_list d g st = Inr (l, st')" using pick by (simp add: pick_list_def)
  then have l: "sl_id l \<notin> sl_id ` set (bs_lists st)" "list_ok l" "sl_allocation_position l = 0"
      "sl_group_id l = g" "bs_lists st' = bs_lists st @ [l]" "bs_badges st' = bs_badges st" "same_rest st st'"
    by (auto simp: insert_status_list_def Let_def list_ok_def draw_def same_rest_def split: if_splits)
  then show ?thesis using lists_inv_insert [OF inv l(2,3,1)] by simp
qed

lemma current_list_spec:
  assumes inv: "loop_inv g s" and cur: "current_list d g (al_list s) (al_store s) = Inr (l, st')"
  shows "lists_inv (write_list l (bs_lists st')) (bs_badges st') \<and> l \<in> set (write_list l (bs_lists st')) \<and>
    sl_group_id l = g \<and> sl_allocation_position l < LIST_SIZE \<and> bs_badges st' = bs_badges (al_store s) \<and>
    same_rest (al_store s) st'"
proof -
  have picked: ?thesis if "pick_list d g st = Inr (l, st')" "lists_inv (bs_lists st) (bs_badges st)"
      "bs_badges st = bs_badges (al_store s)" "same_rest (al_store s) st" for st
  proof -
    note p = pick_list_spec [OF that(2,1)]
    then have "write_list l (bs_lists st') = bs_lists st'"
      by (intro write_list_self) (simp_all add: lists_inv_def)
    then show ?thesis using p that(3,4) by (auto simp: same_rest_def)
  qed
  show ?thesis
  proof (cases "al_list s")
    case None
    then show ?thesis
      using inv cur by (intro picked [of "al_store s"])
        (simp_all add: current_list_def loop_inv_def loop_lists_def same_rest_def)
  next
    case (Some m)
    show ?thesis
    proof (cases "sl_allocation_position m \<ge> LIST_SIZE")
      case True
      then show ?thesis
        using inv cur Some by (intro picked [of "write_position m (al_store s)"])
          (simp_all add: current_list_def loop_inv_def loop_lists_def)
    next
      case False
      then show ?thesis
        using inv cur Some by (simp add: current_list_def loop_inv_def loop_lists_def same_rest_def)
    qed
  qed
qed

text \<open>What a number of turns of the loop does.\<close>

definition loop_turns :: "uuid \<Rightarrow> nat \<Rightarrow> award_loop \<Rightarrow> award_loop \<Rightarrow> bool" where
  "loop_turns g n s s' \<longleftrightarrow> loop_inv g s' \<and> same_rest (al_store s) (al_store s') \<and>
     al_awarded s \<le> al_awarded s' \<and> al_skipped s \<le> al_skipped s' \<and>
     al_awarded s' + al_skipped s' = al_awarded s + al_skipped s + int n \<and>
     (\<exists>new. bs_badges (al_store s') = bs_badges (al_store s) @ new \<and>
        int (length new) = al_awarded s' - al_awarded s \<and>
        (\<forall>b\<in>set new. ub_awarded_at b = bs_now (al_store s)))"

lemma loop_turns_trans:
  assumes "loop_turns g m s s'" and "loop_turns g n s' s''"
  shows "loop_turns g (m + n) s s''"
proof -
  obtain new new' where
    "bs_badges (al_store s') = bs_badges (al_store s) @ new" "int (length new) = al_awarded s' - al_awarded s"
    "\<forall>b\<in>set new. ub_awarded_at b = bs_now (al_store s)"
    "bs_badges (al_store s'') = bs_badges (al_store s') @ new'" "int (length new') = al_awarded s'' - al_awarded s'"
    "\<forall>b\<in>set new'. ub_awarded_at b = bs_now (al_store s')"
    using assms unfolding loop_turns_def by blast
  then have "\<exists>new. bs_badges (al_store s'') = bs_badges (al_store s) @ new \<and>
      int (length new) = al_awarded s'' - al_awarded s \<and> (\<forall>b\<in>set new. ub_awarded_at b = bs_now (al_store s))"
    using assms by (intro exI [of _ "new @ new'"]) (auto simp: loop_turns_def same_rest_def)
  then show ?thesis using assms by (simp add: loop_turns_def same_rest_def)
qed

lemma award_recipient_turn:
  assumes inv: "loop_inv (bj_group_id job) s" and turn: "award_recipient d job r s = Inr s'"
  shows "loop_turns (bj_group_id job) 1 s s'"
proof (cases "skip_recipient job (al_store s) r")
  case True
  then show ?thesis
    using inv turn by (auto simp: award_recipient_def loop_turns_def loop_inv_def same_rest_def)
next
  case False
  then obtain u where r: "r = Some u" and free: "\<not> list_ex (holds_badge (bj_badge_id job) u) (bs_badges (al_store s))"
    by (auto simp: skip_recipient_def split: option.splits)
  obtain l st where cur: "current_list d (bj_group_id job) (al_list s) (al_store s) = Inr (l, st)"
    using False turn by (auto simp: award_recipient_def and_then_eq_Inr)
  define b where "b = new_badge d job l u st"
  have s': "al_store s' = add_badge_call (BadgeAudit ''badge_awarded'' (bj_actor_user_id job) (ub_id b))
      ((draw st)\<lparr>bs_badges := bs_badges st @ [b]\<rparr>)" "al_list s' = Some (advance_list l)"
      "al_awarded s' = al_awarded s + 1" "al_skipped s' = al_skipped s"
    using False turn cur r by (auto simp: award_recipient_def b_def Let_def advance_list_def split: if_splits)
  note cl = current_list_spec [OF inv cur]
  have held: "held_once (bs_badges (al_store s) @ [b])"
    using inv free by (intro held_once_append [of _ _ u]) (simp_all add: b_def new_badge_def loop_inv_def)
  have taken: "lists_inv (write_list (advance_list l) (write_list l (bs_lists st))) (bs_badges st @ [b])"
    using cl by (intro lists_inv_take_slot) (auto simp: b_def new_badge_def)
  have again: "write_list (advance_list l) (write_list l (bs_lists st)) = write_list (advance_list l) (bs_lists st)"
    by (rule write_list_again) (simp add: advance_list_def)
  have "advance_list l \<in> set (write_list (advance_list l) (bs_lists st))"
    using write_list_advance [of l "write_list l (bs_lists st)"] cl again by simp
  then have "loop_inv (bj_group_id job) s'"
    using taken held cl again s'
    by (simp add: loop_inv_def loop_lists_def add_badge_call_def draw_def) (simp add: advance_list_def)
  then show ?thesis
    using s' cl by (simp add: loop_turns_def same_rest_def add_badge_call_def draw_def b_def new_badge_def)
qed

lemma award_recipients_turns:
  "loop_inv (bj_group_id job) s \<Longrightarrow> award_recipients d job rs s = Inr s' \<Longrightarrow>
     loop_turns (bj_group_id job) (length rs) s s'"
proof (induction rs arbitrary: s)
  case Nil
  then show ?case by (simp add: loop_turns_def same_rest_def)
next
  case (Cons r rs)
  then obtain t where t: "award_recipient d job r s = Inr t" "award_recipients d job rs t = Inr s'"
    by (auto simp: and_then_eq_Inr)
  have one: "loop_turns (bj_group_id job) 1 s t" by (rule award_recipient_turn [OF Cons.prems(1) t(1)])
  then have "loop_turns (bj_group_id job) (length rs) t s'"
    using t(2) by (intro Cons.IH) (simp_all add: loop_turns_def)
  from loop_turns_trans [OF one this] show ?case by simp
qed

section \<open>Jobs and their recipients\<close>

definition positions :: "uuid \<Rightarrow> recipient_row list \<Rightarrow> int list" where
  "positions i rcs = map rc_position (filter (\<lambda>r. rc_job_id r = i) rcs)"

text \<open>The check constraints of \<^verbatim>\<open>badge_award_job\<close>, and more: the recipient rows are complete.\<close>

definition job_ok :: "recipient_row list \<Rightarrow> job_row \<Rightarrow> bool" where
  "job_ok rcs j \<longleftrightarrow>
     0 \<le> bj_failure_count j \<and> 0 \<le> bj_awarded_count j \<and> 0 \<le> bj_skipped_count j \<and>
     0 \<le> bj_next_recipient_offset j \<and> bj_next_recipient_offset j \<le> bj_accepted_count j \<and>
     bj_accepted_count j + bj_skipped_count j \<ge> bj_recipient_count j \<and>
     bj_awarded_count j + bj_skipped_count j + (bj_accepted_count j - bj_next_recipient_offset j) =
       bj_recipient_count j \<and>
     (bj_status j = JobCompleted \<longleftrightarrow> bj_next_recipient_offset j = bj_accepted_count j) \<and>
     (bj_status j = JobProcessing \<longleftrightarrow> bj_claim_id j \<noteq> None) \<and>
     (bj_claimed_at j \<noteq> None \<longleftrightarrow> bj_claim_id j \<noteq> None) \<and>
     (bj_completed_at j \<noteq> None \<longleftrightarrow> bj_status j \<in> {JobCompleted, JobFailed}) \<and>
     positions (bj_id j) rcs = (if bj_status j = JobCompleted then [] else [0..bj_accepted_count j - 1])"

definition jobs_inv :: "job_row list \<Rightarrow> recipient_row list \<Rightarrow> bool" where
  "jobs_inv jobs rcs \<longleftrightarrow> distinct (map bj_id jobs) \<and> (\<forall>j\<in>set jobs. job_ok rcs j) \<and>
     (\<forall>r\<in>set rcs. rc_job_id r \<in> bj_id ` set jobs)"

lemma job_ok_positions:
  "job_ok rcs j \<Longrightarrow> positions (bj_id j) rcs' = positions (bj_id j) rcs \<Longrightarrow> job_ok rcs' j"
  unfolding job_ok_def by (simp only:)

lemma jobs_inv_map:
  assumes "jobs_inv jobs rcs" and "\<And>j. j \<in> set jobs \<Longrightarrow> job_ok rcs j \<Longrightarrow> bj_id (f j) = bj_id j \<and> job_ok rcs' (f j)"
    and "rc_job_id ` set rcs' \<subseteq> rc_job_id ` set rcs"
  shows "jobs_inv (map f jobs) rcs'"
proof -
  have f: "bj_id (f j) = bj_id j \<and> job_ok rcs' (f j)" if "j \<in> set jobs" for j
    using that assms(1,2) by (simp add: jobs_inv_def)
  then have "map bj_id (map f jobs) = map bj_id jobs" by simp
  then have ids: "bj_id ` set (map f jobs) = bj_id ` set jobs" "distinct (map bj_id (map f jobs))"
    using assms(1) by (metis list.set_map, metis jobs_inv_def)
  show ?thesis
    unfolding jobs_inv_def
  proof (intro conjI ballI)
    show "job_ok rcs' j" if "j \<in> set (map f jobs)" for j
      using that f by auto
    show "rc_job_id r \<in> bj_id ` set (map f jobs)" if "r \<in> set rcs'" for r
    proof -
      have "rc_job_id r \<in> rc_job_id ` set rcs" using that assms(3) by auto
      then show ?thesis using assms(1) ids(1) by (auto simp: jobs_inv_def)
    qed
  qed (rule ids(2))
qed

lemma jobs_inv_update:
  assumes "jobs_inv (bs_jobs st) (bs_recipients st)"
    and "\<And>j. j \<in> set (bs_jobs st) \<Longrightarrow> bj_id j = i \<Longrightarrow> job_ok (bs_recipients st) j \<Longrightarrow>
      bj_id (f j) = i \<and> job_ok (bs_recipients st) (f j)"
  shows "jobs_inv (bs_jobs (update_job i f st)) (bs_recipients st)"
  unfolding update_job_def by (simp, rule jobs_inv_map [OF assms(1)]) (use assms(2) in auto)

lemma find_job_Some: "find_job i st = Some j \<Longrightarrow> j \<in> set (bs_jobs st) \<and> bj_id j = i"
  by (auto simp: find_job_def find_Some_iff)

lemma find_job_None: "find_job i st = None \<longleftrightarrow> i \<notin> bj_id ` set (bs_jobs st)"
  by (auto simp: find_job_def find_None_iff)

lemma find_claimed_Some:
  "find_claimed i c st = Some j \<Longrightarrow>
     find_job i st = Some j \<and> bj_claim_id j = Some c \<and> bj_status j = JobProcessing"
  by (auto simp: find_claimed_def split: option.splits if_splits)

lemma same_job:
  "jobs_inv jobs rcs \<Longrightarrow> j \<in> set jobs \<Longrightarrow> k \<in> set jobs \<Longrightarrow> bj_id j = bj_id k \<Longrightarrow> j = k"
  unfolding jobs_inv_def distinct_map by (blast dest: inj_onD)

lemma length_filter_upto:
  assumes "0 \<le> m" and "m \<le> (n::int)"
  shows "length (filter (\<lambda>p. p \<ge> m) [0..n - 1]) = nat (n - m)"
proof (cases "m = n")
  case True
  then show ?thesis by (simp add: filter_empty_conv)
next
  case False
  then have "[0..n - 1] = [0..m - 1] @ [m..n - 1]" using assms by (intro upto_split1) simp_all
  moreover have "filter (\<lambda>p. p \<ge> m) [0..m - 1] = []" by (simp add: filter_empty_conv)
  moreover have "filter (\<lambda>p. p \<ge> m) [m..n - 1] = [m..n - 1]" by simp
  ultimately show ?thesis by simp
qed

text \<open>The batch finds all its recipients.\<close>

lemma batch_recipients_complete:
  assumes "job_ok (bs_recipients st) job" and "bj_status job \<noteq> JobCompleted"
    and "allowed \<le> bj_accepted_count job - bj_next_recipient_offset job"
  shows "length (batch_recipients st job allowed) = nat allowed"
proof -
  have "length (filter (\<lambda>r. rc_job_id r = bj_id job \<and> rc_position r \<ge> bj_next_recipient_offset job) (bs_recipients st)) =
      length (filter (\<lambda>p. p \<ge> bj_next_recipient_offset job) (positions (bj_id job) (bs_recipients st)))"
    by (simp add: positions_def filter_map filter_filter comp_def conj_commute)
  also have "\<dots> = nat (bj_accepted_count job - bj_next_recipient_offset job)"
    using assms(1,2) by (simp add: job_ok_def length_filter_upto)
  finally show ?thesis using assms(3) by (simp add: batch_recipients_def)
qed

section \<open>The issuance rate\<close>

definition awarded_between :: "instant \<Rightarrow> instant \<Rightarrow> user_badge_row list \<Rightarrow> nat" where
  "awarded_between t u badges = length (filter (\<lambda>b. t \<le> ub_awarded_at b \<and> ub_awarded_at b \<le> u) badges)"

definition rate_ok :: "int \<Rightarrow> user_badge_row list \<Rightarrow> bool" where
  "rate_ok rate badges \<longleftrightarrow> (\<forall>t. int (awarded_between t (t + seconds 60) badges) \<le> rate)"

lemma rate_ok_append:
  assumes ok: "rate_ok rate badges" and new: "\<forall>b\<in>set new. ub_awarded_at b = now"
    and budget: "new \<noteq> [] \<Longrightarrow>
      int (length (filter (\<lambda>b. ub_awarded_at b \<ge> now - seconds 60) badges)) + int (length new) \<le> rate"
  shows "rate_ok rate (badges @ new)"
  unfolding rate_ok_def
proof
  fix t
  let ?old = "filter (\<lambda>b. t \<le> ub_awarded_at b \<and> ub_awarded_at b \<le> t + seconds 60) badges"
  show "int (awarded_between t (t + seconds 60) (badges @ new)) \<le> rate"
  proof (cases "new \<noteq> [] \<and> t \<le> now \<and> now \<le> t + seconds 60")
    case True
    have "length ?old \<le> length (filter (\<lambda>b. ub_awarded_at b \<ge> now - seconds 60) badges)"
      by (rule length_filter_mono) (use True in linarith)
    moreover have "length (filter (\<lambda>b. t \<le> ub_awarded_at b \<and> ub_awarded_at b \<le> t + seconds 60) new) \<le> length new"
      by (rule length_filter_le)
    moreover have "int (length (filter (\<lambda>b. ub_awarded_at b \<ge> now - seconds 60) badges)) + int (length new) \<le> rate"
      using True budget by blast
    ultimately show ?thesis
      unfolding awarded_between_def filter_append length_append by linarith
  next
    case False
    then have "filter (\<lambda>b. t \<le> ub_awarded_at b \<and> ub_awarded_at b \<le> t + seconds 60) new = []"
      using new by (auto simp: filter_empty_conv)
    then show ?thesis using ok by (simp add: awarded_between_def rate_ok_def)
  qed
qed

section \<open>Every function keeps the invariant\<close>

definition badge_inv :: "int \<Rightarrow> badge_store \<Rightarrow> bool" where
  "badge_inv rate st \<longleftrightarrow> lists_inv (bs_lists st) (bs_badges st) \<and> held_once (bs_badges st) \<and>
     rate_ok rate (bs_badges st) \<and> jobs_inv (bs_jobs st) (bs_recipients st)"

text \<open>Functions that write only jobs and recipients, and changes of credentials that issue none.\<close>

lemma badge_inv_jobs:
  "badge_inv rate st \<Longrightarrow> bs_lists st' = bs_lists st \<Longrightarrow> bs_badges st' = bs_badges st \<Longrightarrow>
     jobs_inv (bs_jobs st') (bs_recipients st') \<Longrightarrow> badge_inv rate st'"
  by (simp add: badge_inv_def)

lemma badge_inv_badges:
  assumes inv: "badge_inv rate st" and rest: "bs_lists st' = bs_lists st" "jobs_inv (bs_jobs st') (bs_recipients st')"
    and badges: "bs_badges st' = map f (bs_badges st)"
    and f: "\<And>b. ub_status_list_id (f b) = ub_status_list_id b \<and> ub_status_list_index (f b) = ub_status_list_index b \<and>
      ub_group_id (f b) = ub_group_id b \<and> ub_awarded_at (f b) = ub_awarded_at b"
    and held: "\<And>badge user b. holds_badge badge user (f b) \<Longrightarrow> holds_badge badge user b"
  shows "badge_inv rate st'"
proof -
  have slots: "slots_taken i (map f bs) = slots_taken i bs" for i bs
    using f by (simp add: slots_taken_def filter_map comp_def)
  have groups: "(\<forall>b\<in>set (map f bs). \<exists>l\<in>rows. sl_id l = ub_status_list_id b \<and> sl_group_id l = ub_group_id b) \<longleftrightarrow>
      (\<forall>b\<in>set bs. \<exists>l\<in>rows. sl_id l = ub_status_list_id b \<and> sl_group_id l = ub_group_id b)" for bs rows
    using f by simp
  have "lists_inv (bs_lists st') (bs_badges st')"
    using inv unfolding badge_inv_def lists_inv_def rest(1) badges slots groups by blast
  moreover have "length (filter (holds_badge badge user) (map f bs)) \<le> length (filter (holds_badge badge user) bs)"
    for badge user bs
    using held by (simp add: filter_map comp_def length_filter_mono)
  then have "held_once (bs_badges st')"
    using inv badges unfolding badge_inv_def held_once_def by (metis le_trans)
  moreover have "awarded_between t u (map f bs) = awarded_between t u bs" for t u bs
    using f by (simp add: awarded_between_def filter_map comp_def)
  then have "rate_ok rate (bs_badges st')"
    using inv badges by (simp add: badge_inv_def rate_ok_def)
  ultimately show ?thesis using rest(2) by (simp add: badge_inv_def)
qed

lemma job_ids [simp]:
  "bj_id (rate_limited_job now j) = bj_id j" "bj_id (advanced_job now m k offset complete j) = bj_id j"
  "bj_id (failed_job now message n terminal j) = bj_id j" "bj_id (recovered_job now n j) = bj_id j"
  by (simp_all add: rate_limited_job_def advanced_job_def failed_job_def recovered_job_def Let_def)

lemma rate_limited_job_ok:
  "job_ok rcs j \<Longrightarrow> bj_status j = JobProcessing \<Longrightarrow> job_ok rcs (rate_limited_job now j)"
  by (auto simp: job_ok_def rate_limited_job_def)

lemma advanced_job_ok:
  assumes "job_ok rcs j" and "bj_status j = JobProcessing"
    and "0 \<le> n" "n \<le> bj_accepted_count j - bj_next_recipient_offset j"
    and "0 \<le> awarded" "0 \<le> skipped" "awarded + skipped = n"
    and "complete \<longleftrightarrow> bj_next_recipient_offset j + n \<ge> bj_accepted_count j"
    and "positions (bj_id j) rcs' = (if complete then [] else positions (bj_id j) rcs)"
  shows "job_ok rcs' (advanced_job now awarded skipped (bj_next_recipient_offset j + n) complete j)"
  using assms by (auto simp: job_ok_def advanced_job_def)

lemma failed_job_ok:
  "job_ok rcs j \<Longrightarrow> bj_status j = JobProcessing \<Longrightarrow> failures = bj_failure_count j + 1 \<Longrightarrow>
     job_ok rcs (failed_job now message failures terminal j)"
  by (auto simp: job_ok_def failed_job_def)

lemma recovered_job_ok:
  "job_ok rcs j \<Longrightarrow> bj_status j = JobProcessing \<Longrightarrow> job_ok rcs (recovered_job now max_failures j)"
  by (auto simp: job_ok_def recovered_job_def Let_def)

lemma positions_append [simp]: "positions i (xs @ ys) = positions i xs @ positions i ys"
  by (simp add: positions_def)

lemma positions_queued:
  "positions i (queued_recipients k us) = (if i = k then [0..int (length us) - 1] else [])"
proof -
  have "map int [0..<n] = [0..int n - 1]" for n
    by (induction n) (simp_all add: upto_rec2)
  then show ?thesis
    by (simp add: positions_def queued_recipients_def filter_map comp_def)
qed

lemma jobs_inv_queue:
  assumes inv: "jobs_inv jobs rcs" and new: "bj_id j \<notin> bj_id ` set jobs"
    and ok: "job_ok (queued_recipients (bj_id j) us) j"
  shows "jobs_inv (jobs @ [j]) (rcs @ queued_recipients (bj_id j) us)"
  unfolding jobs_inv_def
proof (intro conjI ballI)
  show "distinct (map bj_id (jobs @ [j]))"
    using inv new by (simp add: jobs_inv_def)
  have none: "positions (bj_id j) rcs = []"
  proof -
    have "rc_job_id r \<noteq> bj_id j" if "r \<in> set rcs" for r
      using inv new that unfolding jobs_inv_def by metis
    then show ?thesis by (simp add: positions_def filter_empty_conv)
  qed
  show "job_ok (rcs @ queued_recipients (bj_id j) us) k" if k: "k \<in> set (jobs @ [j])" for k
  proof (cases "k = j")
    case True
    then show ?thesis using ok none by (auto intro: job_ok_positions)
  next
    case False
    then have "k \<in> set jobs" using k by simp
    then have "job_ok rcs k" "bj_id k \<noteq> bj_id j" using inv new by (simp add: jobs_inv_def, metis imageI)
    then show ?thesis by (auto simp: positions_queued intro: job_ok_positions)
  qed
  show "rc_job_id r \<in> bj_id ` set (jobs @ [j])" if "r \<in> set (rcs @ queued_recipients (bj_id j) us)" for r
    using inv that by (auto simp: jobs_inv_def queued_recipients_def)
qed

lemma award_badge_inv:
  assumes "award_badge d checked ineligible a c g i us e st = Inr (x, st')" and inv: "badge_inv rate st"
  shows "badge_inv rate st'"
proof (cases "st' = st")
  case True
  with inv show ?thesis by simp
next
  case False
  define accepted where "accepted = accepted_recipients st i (normalize_recipients us)"
  have le: "length accepted \<le> length (normalize_recipients us)"
    by (simp add: accepted_def accepted_recipients_def)
  obtain job where job: "bs_jobs st' = bs_jobs st @ [job]" "bj_id job \<notin> bj_id ` set (bs_jobs st)"
    "bs_recipients st' = bs_recipients st @ queued_recipients (bj_id job) accepted"
    "bs_lists st' = bs_lists st" "bs_badges st' = bs_badges st"
    and ok: "job_ok (queued_recipients (bj_id job) accepted) job"
    using assms(1) False le
    by (auto simp: award_badge_def and_then_eq_Inr accepted_def [symmetric] Let_def draw_def job_ok_def
        find_job_None positions_queued split: if_splits option.splits)
  show ?thesis
  proof (rule badge_inv_jobs [OF inv job(4,5)])
    show "jobs_inv (bs_jobs st') (bs_recipients st')"
      using jobs_inv_queue [OF _ job(2) ok] inv job(1,3) by (simp add: badge_inv_def)
  qed
qed

text \<open>The two ways in which a batch succeeds.\<close>

lemma process_batch_cases:
  assumes "process_badge_award_job_batch d i c n rate st = Inr (out, st')"
  obtains (limited) job where "find_claimed i c st = Some job" "allowed_count n rate job st = 0"
      "st' = update_job i (rate_limited_job (bs_now st)) st" "bo_rate_limited out"
  | (advanced) job s where "find_claimed i c st = Some job"
      "allowed_count n rate job st = 0 \<longrightarrow> bj_accepted_count job \<le> bj_next_recipient_offset job"
      "award_recipients d job (if allowed_count n rate job st > 0
         then batch_recipients st job (allowed_count n rate job st) else []) (loop_start st) = Inr s"
      "(out, st') = finish_batch job (allowed_count n rate job st) s" "n > 0" "rate > 0"
  using assms
  by (fastforce simp: process_badge_award_job_batch_def Let_def and_then_eq_Inr split: if_splits option.splits)

lemma finish_batch_simps:
  assumes "(out, st') = finish_batch job allowed s"
  shows "bs_lists st' = loop_lists s" "bs_badges st' = bs_badges (al_store s)"
    "bo_completed out \<longleftrightarrow> bj_next_recipient_offset job + allowed \<ge> bj_accepted_count job"
    "\<not> bo_rate_limited out" "bo_processed_count out = allowed"
    "bs_jobs st' = map (\<lambda>j. if bj_id j = bj_id job then advanced_job (bs_now (al_store s)) (al_awarded s)
       (al_skipped s) (bj_next_recipient_offset job + allowed) (bo_completed out) j else j) (bs_jobs (al_store s))"
    "bs_recipients st' = (if bo_completed out then filter (\<lambda>r. rc_job_id r \<noteq> bj_id job) (bs_recipients (al_store s))
       else bs_recipients (al_store s))"
  using assms
  by (simp_all add: finish_batch_def Let_def add_badge_call_def update_job_def loop_lists_def write_position_def
      write_list_def split: option.split)

lemma allowed_count_bounds:
  assumes "job_ok rcs job" and "0 < n"
  shows "0 \<le> allowed_count n rate job st" "allowed_count n rate job st \<le> n"
    "allowed_count n rate job st \<le> bj_accepted_count job - bj_next_recipient_offset job"
    "allowed_count n rate job st \<noteq> 0 \<Longrightarrow> awarded_last_minute st + allowed_count n rate job st \<le> rate"
  using assms by (auto simp: allowed_count_def job_ok_def min_def max_def split: if_splits)

lemma positions_filter:
  "positions k (filter (\<lambda>r. rc_job_id r \<noteq> i) rcs) = (if k = i then [] else positions k rcs)"
  by (auto simp: positions_def filter_empty_conv intro!: arg_cong [where f = "map rc_position"] filter_cong)

lemma claimed_job:
  assumes "find_claimed i c st = Some job" and "badge_inv rate st"
  shows "job \<in> set (bs_jobs st)" "bj_id job = i" "bj_status job = JobProcessing"
    "job_ok (bs_recipients st) job" "\<And>j. j \<in> set (bs_jobs st) \<Longrightarrow> bj_id j = i \<Longrightarrow> j = job"
proof -
  show job: "job \<in> set (bs_jobs st)" "bj_id job = i" "bj_status job = JobProcessing"
    using assms(1) find_claimed_Some find_job_Some by blast+
  show "job_ok (bs_recipients st) job" using job(1) assms(2) by (simp add: badge_inv_def jobs_inv_def)
  show "j = job" if "j \<in> set (bs_jobs st)" "bj_id j = i" for j
    using that job assms(2) same_job by (metis badge_inv_def)
qed

lemma claimed_update_inv:
  assumes "find_claimed i c st = Some job" and inv: "badge_inv rate st"
    and "bj_id (f job) = i" "job_ok (bs_recipients st) (f job)"
  shows "badge_inv rate (update_job i f st)"
proof -
  note job = claimed_job [OF assms(1) inv]
  have "jobs_inv (bs_jobs (update_job i f st)) (bs_recipients st)"
    using inv job(5) assms(3,4) by (intro jobs_inv_update) (auto simp: badge_inv_def)
  then show ?thesis by (intro badge_inv_jobs [OF inv]) (simp_all add: update_job_def)
qed

lemma batch_loop:
  assumes inv: "badge_inv rate st" and job: "find_claimed i c st = Some job" and "n > 0"
    and loop: "award_recipients d job (if allowed_count n r job st > 0
       then batch_recipients st job (allowed_count n r job st) else []) (loop_start st) = Inr s"
  shows "loop_turns (bj_group_id job) (nat (allowed_count n r job st)) (loop_start st) s"
proof -
  note job = claimed_job [OF job inv]
  have "loop_inv (bj_group_id job) (loop_start st)"
    using inv by (simp add: loop_inv_def loop_lists_def loop_start_def badge_inv_def)
  from award_recipients_turns [OF this loop] show ?thesis
    using allowed_count_bounds(1,3) [OF job(4) \<open>n > 0\<close>, of r st] job(3,4)
    by (simp add: batch_recipients_complete split: if_splits)
qed

lemma finish_jobs_inv:
  assumes inv: "badge_inv rate st" and claim: "find_claimed i c st = Some job"
    and turns: "loop_turns g (nat n) (loop_start st) s" and fin: "(out, st') = finish_batch job n s"
    and n: "0 \<le> n" "n \<le> bj_accepted_count job - bj_next_recipient_offset job"
  shows "jobs_inv (bs_jobs st') (bs_recipients st')"
proof -
  note job = claimed_job [OF claim inv]
  note fin = finish_batch_simps [OF fin]
  have counts: "0 \<le> al_awarded s" "0 \<le> al_skipped s" "al_awarded s + al_skipped s = n"
    and same: "bs_jobs (al_store s) = bs_jobs st" "bs_recipients (al_store s) = bs_recipients st"
    using turns n(1) by (simp_all add: loop_turns_def loop_start_def same_rest_def)
  have pos: "positions k (bs_recipients st') =
      (if k = i \<and> bo_completed out then [] else positions k (bs_recipients st))" for k
    using fin(7) same(2) job(2) by (auto simp: positions_filter)
  have adv: "job_ok (bs_recipients st') (advanced_job (bs_now (al_store s)) (al_awarded s) (al_skipped s)
      (bj_next_recipient_offset job + n) (bo_completed out) job)"
    by (rule advanced_job_ok [OF job(4,3) n counts fin(3)]) (use pos job(2) in simp)
  show ?thesis
    unfolding fin(6) same(1)
  proof (rule jobs_inv_map)
    show "jobs_inv (bs_jobs st) (bs_recipients st)" using inv by (simp add: badge_inv_def)
    show "rc_job_id ` set (bs_recipients st') \<subseteq> rc_job_id ` set (bs_recipients st)"
      using fin(7) same(2) by auto
    fix j assume j: "j \<in> set (bs_jobs st)" "job_ok (bs_recipients st) j"
    show "bj_id (if bj_id j = bj_id job then advanced_job (bs_now (al_store s)) (al_awarded s)
         (al_skipped s) (bj_next_recipient_offset job + n) (bo_completed out) j else j) = bj_id j \<and>
       job_ok (bs_recipients st') (if bj_id j = bj_id job then advanced_job (bs_now (al_store s)) (al_awarded s)
         (al_skipped s) (bj_next_recipient_offset job + n) (bo_completed out) j else j)"
    proof (cases "bj_id j = i")
      case True
      with job(5) [OF j(1)] have "j = job" by simp
      with adv show ?thesis by simp
    next
      case False
      with pos [of "bj_id j"] have "job_ok (bs_recipients st') j" by (intro job_ok_positions [OF j(2)]) simp
      with False job(2) show ?thesis by simp
    qed
  qed
qed

lemma process_batch_inv:
  assumes step: "process_badge_award_job_batch d i c n r st = Inr (out, st')" and inv: "badge_inv rate st"
    and "r \<le> rate"
  shows "badge_inv rate st'"
  using step
proof (cases rule: process_batch_cases)
  case (limited job)
  note job = claimed_job [OF limited(1) inv]
  show ?thesis
    unfolding limited(3) using job(2-4) by (intro claimed_update_inv [OF limited(1) inv])
      (simp_all add: rate_limited_job_ok)
next
  case (advanced job s)
  let ?n = "allowed_count n r job st"
  note job = claimed_job [OF advanced(1) inv]
  note bounds = allowed_count_bounds [OF job(4) advanced(5), of r st]
  note turns = batch_loop [OF inv advanced(1,5,3)]
  note fin = finish_batch_simps [OF advanced(4)]
  obtain new where new: "bs_badges (al_store s) = bs_badges st @ new" "int (length new) = al_awarded s"
      "\<forall>b\<in>set new. ub_awarded_at b = bs_now st" "al_awarded s \<le> ?n"
    using turns bounds(1) by (auto simp: loop_turns_def loop_start_def)
  have budget: "awarded_last_minute st + int (length new) \<le> rate" if "new \<noteq> []"
  proof -
    have "0 < int (length new)" using that by simp
    then show ?thesis using new(2,4) bounds(4) \<open>r \<le> rate\<close> by linarith
  qed
  have "rate_ok rate (bs_badges st @ new)"
    by (rule rate_ok_append [OF _ new(3)])
      (use inv budget in \<open>simp_all add: badge_inv_def awarded_last_minute_def\<close>)
  moreover have "lists_inv (bs_lists st') (bs_badges st')" "held_once (bs_badges st')"
    using turns fin(1,2) by (simp_all add: loop_turns_def loop_inv_def)
  moreover have "jobs_inv (bs_jobs st') (bs_recipients st')"
    by (rule finish_jobs_inv [OF inv advanced(1) turns advanced(4) bounds(1,3)])
  ultimately show ?thesis using new(1) fin(2) by (simp add: badge_inv_def)
qed

lemma award_claim_inv:
  assumes "claim_badge_award_job d st = Inr (x, st')" and inv: "badge_inv rate st"
  shows "badge_inv rate st'"
proof (cases "claimable_jobs st")
  case Nil
  then show ?thesis using assms by (auto simp: claim_badge_award_job_def Let_def badge_inv_def draw_def)
next
  case (Cons job rest)
  let ?f = "\<lambda>j. j\<lparr>bj_claim_id := Some (dice_uuid d (bs_draws st)), bj_claimed_at := Some (bs_now st),
    bj_status := JobProcessing, bj_updated_at := bs_now st\<rparr>"
  have "job \<in> set (claimable_jobs st)" using Cons by simp
  then have job: "job \<in> set (bs_jobs st)" "bj_status job = JobPending" by (simp_all add: claimable_jobs_def)
  have st': "st' = update_job (bj_id job) ?f (draw st)"
    using assms(1) Cons by (simp add: claim_badge_award_job_def Let_def)
  have "jobs_inv (bs_jobs st') (bs_recipients (draw st))"
    unfolding st'
  proof (rule jobs_inv_update)
    fix j assume j: "j \<in> set (bs_jobs (draw st))" "bj_id j = bj_id job" "job_ok (bs_recipients (draw st)) j"
    have "jobs_inv (bs_jobs st) (bs_recipients st)" "j \<in> set (bs_jobs st)"
      using inv j(1) by (simp_all add: badge_inv_def draw_def)
    from same_job [OF this job(1) j(2)] have "j = job" .
    then show "bj_id (?f j) = bj_id job \<and> job_ok (bs_recipients (draw st)) (?f j)"
      using j(3) job(2) by (simp add: job_ok_def)
  qed (use inv in \<open>simp add: badge_inv_def draw_def\<close>)
  then show ?thesis
    by (intro badge_inv_jobs [OF inv]) (simp_all add: st' update_job_def draw_def)
qed

lemma failure_inv:
  assumes "record_badge_award_job_failure i c message m st = Inr (x, st')" and inv: "badge_inv rate st"
  shows "badge_inv rate st'"
proof -
  obtain job terminal where "find_claimed i c st = Some job"
      and "st' = update_job i (failed_job (bs_now st) message (bj_failure_count job + 1) terminal) st"
    using assms(1)
    by (auto simp: record_badge_award_job_failure_def Let_def split: if_splits option.splits)
  with claimed_job(2-4) [OF this(1) inv] show ?thesis
    by (simp add: claimed_update_inv [OF _ inv] failed_job_ok)
qed

lemma recover_inv:
  assumes "recover_stale_badge_award_jobs sweeping t m st = Inr (x, st')" and inv: "badge_inv rate st"
  shows "badge_inv rate st'"
proof (cases "sweeping")
  case True
  then show ?thesis using assms by (simp add: recover_stale_badge_award_jobs_def split: if_splits)
next
  case False
  let ?stale = "bj_id ` set (stale_jobs st t)"
  have st': "st' = st\<lparr>bs_jobs := map (\<lambda>j. if bj_id j \<in> ?stale then recovered_job (bs_now st) m j else j) (bs_jobs st)\<rparr>"
    using assms(1) False by (simp add: recover_stale_badge_award_jobs_def Let_def split: if_splits)
  have stale: "j \<in> set (bs_jobs st) \<and> bj_status j = JobProcessing" if "j \<in> set (stale_jobs st t)" for j
    using in_set_takeD [OF that [unfolded stale_jobs_def]] by simp
  have "bj_status j = JobProcessing" if j: "j \<in> set (bs_jobs st)" "bj_id j \<in> ?stale" for j
  proof -
    obtain k where k: "k \<in> set (stale_jobs st t)" "bj_id j = bj_id k" using j(2) by auto
    then have "j = k" using same_job [of "bs_jobs st" "bs_recipients st" j k] stale [OF k(1)] j(1) inv
      by (simp add: badge_inv_def)
    then show ?thesis using stale [OF k(1)] by simp
  qed
  then have "jobs_inv (bs_jobs st') (bs_recipients st)"
    using inv unfolding st' by (auto simp: badge_inv_def intro!: jobs_inv_map recovered_job_ok)
  then show ?thesis by (intro badge_inv_jobs [OF inv]) (simp_all add: st')
qed

lemma award_requeue_inv:
  assumes "requeue_badge_award_job i st = Inr (x, st')" and inv: "badge_inv rate st"
  shows "badge_inv rate st'"
proof -
  let ?f = "\<lambda>j. j\<lparr>bj_completed_at := None, bj_error := None, bj_failure_count := 0,
    bj_next_attempt_at := bs_now st, bj_status := JobPending, bj_updated_at := bs_now st\<rparr>"
  obtain job where job: "find_job i st = Some job" "bj_status job = JobFailed" and st': "st' = update_job i ?f st"
    using assms(1) by (auto simp: requeue_badge_award_job_def split: option.splits if_splits)
  have "jobs_inv (bs_jobs st') (bs_recipients st)"
    unfolding st'
  proof (rule jobs_inv_update)
    show jobs: "jobs_inv (bs_jobs st) (bs_recipients st)" using inv by (simp add: badge_inv_def)
    fix j assume j: "j \<in> set (bs_jobs st)" "bj_id j = i" "job_ok (bs_recipients st) j"
    from find_job_Some [OF job(1)] have "j = job" by (intro same_job [OF jobs j(1)]) (simp_all add: j(2))
    then show "bj_id (?f j) = i \<and> job_ok (bs_recipients st) (?f j)"
      using j(2,3) job(2) by (simp add: job_ok_def)
  qed
  then show ?thesis by (intro badge_inv_jobs [OF inv]) (simp_all add: st' update_job_def)
qed

lemma cleanup_inv:
  assumes "cleanup_badge_award_jobs t st = Inr (x, st')" and inv: "badge_inv rate st"
  shows "badge_inv rate st'"
proof -
  let ?gone = "set (map bj_id (expired_jobs st t))"
  have st': "bs_jobs st' = filter (\<lambda>j. bj_id j \<notin> ?gone) (bs_jobs st)"
    "bs_recipients st' = filter (\<lambda>r. rc_job_id r \<notin> ?gone) (bs_recipients st)"
    "bs_lists st' = bs_lists st" "bs_badges st' = bs_badges st"
    using assms(1) by (auto simp: cleanup_badge_award_jobs_def Let_def split: if_splits)
  have pos: "positions k (bs_recipients st') = positions k (bs_recipients st)" if "k \<notin> ?gone" for k
    unfolding st'(2) positions_def filter_filter
    by (intro arg_cong [where f = "map rc_position"] filter_cong) (use that in auto)
  have "jobs_inv (bs_jobs st') (bs_recipients st')"
    unfolding jobs_inv_def
  proof (intro conjI ballI)
    show "distinct (map bj_id (bs_jobs st'))"
      using inv st'(1) by (simp add: badge_inv_def jobs_inv_def distinct_map_filter)
    show "job_ok (bs_recipients st') j" if "j \<in> set (bs_jobs st')" for j
    proof -
      have "job_ok (bs_recipients st) j" "bj_id j \<notin> ?gone"
        using that inv st'(1) by (simp_all add: badge_inv_def jobs_inv_def)
      from job_ok_positions [OF this(1) pos [OF this(2)]] show ?thesis .
    qed
    show "rc_job_id r \<in> bj_id ` set (bs_jobs st')" if "r \<in> set (bs_recipients st')" for r
    proof -
      have "rc_job_id r \<in> bj_id ` set (bs_jobs st)" "rc_job_id r \<notin> ?gone"
        using that inv st'(2) by (simp_all add: badge_inv_def jobs_inv_def)
      then show ?thesis unfolding st'(1) by auto
    qed
  qed
  then show ?thesis by (rule badge_inv_jobs [OF inv st'(3,4)])
qed

lemma revoke_row_inv:
  assumes "badge_inv rate st"
  shows "badge_inv rate (revoke_row i reason actor st)"
proof -
  have badges: "bs_badges (revoke_row i reason actor st) = map (\<lambda>b. if ub_id b = i
     then b\<lparr>ub_is_listed := False, ub_revocation_reason := Some reason,
            ub_revoked_at := Some (bs_now st), ub_revoked_by_user_id := Some actor\<rparr> else b) (bs_badges st)"
    by (simp add: revoke_row_def)
  show ?thesis
    by (rule badge_inv_badges [OF assms _ _ badges])
      (use assms in \<open>auto simp: revoke_row_def badge_inv_def holds_badge_def split: if_splits\<close>)
qed

lemma add_badge_call_inv [simp]: "badge_inv rate (add_badge_call c st) = badge_inv rate st"
  by (simp add: badge_inv_def add_badge_call_def)

lemma revoke_inv:
  "revoke_group_user_badge permitted a g i reason st = Inr (x, st') \<Longrightarrow> badge_inv rate st \<Longrightarrow> badge_inv rate st'"
  "revoke_user_badge a i st = Inr (x, st') \<Longrightarrow> badge_inv rate st \<Longrightarrow> badge_inv rate st'"
  by (auto simp: revoke_group_user_badge_def revoke_user_badge_def revoke_row_inv split: if_splits option.splits)

lemma unless_Some: "unless u v = Some w \<Longrightarrow> v = Some w"
  by (simp add: unless_def split: if_splits)

lemma delete_user_inv:
  assumes "delete_user u st = Inr (x, st')" and inv: "badge_inv rate st"
  shows "badge_inv rate st'"
proof -
  have st': "bs_jobs st' = map (\<lambda>j. j\<lparr>bj_actor_user_id := unless u (bj_actor_user_id j)\<rparr>) (bs_jobs st)"
    "bs_recipients st' = map (\<lambda>r. r\<lparr>rc_user_id := unless u (rc_user_id r)\<rparr>) (bs_recipients st)"
    "bs_badges st' = map (\<lambda>b. b\<lparr>ub_user_id := unless u (ub_user_id b),
       ub_revoked_by_user_id := unless u (ub_revoked_by_user_id b)\<rparr>) (bs_badges st)"
    "bs_lists st' = bs_lists st"
    using assms(1) by (auto simp: delete_user_def split: if_splits)
  have pos: "positions k (bs_recipients st') = positions k (bs_recipients st)" for k
    by (simp add: st'(2) positions_def filter_map comp_def)
  have "jobs_inv (bs_jobs st') (bs_recipients st')"
    unfolding st'(1)
  proof (rule jobs_inv_map)
    show "jobs_inv (bs_jobs st) (bs_recipients st)" using inv by (simp add: badge_inv_def)
    show "rc_job_id ` set (bs_recipients st') \<subseteq> rc_job_id ` set (bs_recipients st)"
      by (auto simp: st'(2))
    fix j assume "job_ok (bs_recipients st) j"
    then show "bj_id (j\<lparr>bj_actor_user_id := unless u (bj_actor_user_id j)\<rparr>) = bj_id j \<and>
        job_ok (bs_recipients st') (j\<lparr>bj_actor_user_id := unless u (bj_actor_user_id j)\<rparr>)"
      unfolding job_ok_def by (simp add: pos)
  qed
  then show ?thesis
    by (rule badge_inv_badges [OF inv st'(4) _ st'(3)]) (auto simp: holds_badge_def dest: unless_Some)
qed

lemma delete_badge_inv:
  assumes "delete_badge k st = Inr (x, st')" and inv: "badge_inv rate st"
  shows "badge_inv rate st'"
proof -
  have st': "bs_jobs st' = map (\<lambda>j. j\<lparr>bj_badge_id := unless k (bj_badge_id j)\<rparr>) (bs_jobs st)"
    "bs_badges st' = map (\<lambda>b. b\<lparr>ub_badge_id := unless k (ub_badge_id b)\<rparr>) (bs_badges st)"
    "bs_lists st' = bs_lists st" "bs_recipients st' = bs_recipients st"
    using assms(1) by (auto simp: delete_badge_def)
  have "jobs_inv (bs_jobs st') (bs_recipients st')"
    unfolding st'(1,4) using inv by (intro jobs_inv_map) (auto simp: badge_inv_def job_ok_def)
  then show ?thesis
    by (rule badge_inv_badges [OF inv st'(3) _ st'(2)]) (auto simp: holds_badge_def unless_def split: if_splits)
qed

lemmas badge_tx_inv = award_badge_inv award_claim_inv process_batch_inv failure_inv recover_inv award_requeue_inv
  cleanup_inv revoke_inv delete_user_inv delete_badge_inv

section \<open>Runs\<close>

text \<open>
  One transaction of any replica, at any time and with any random values; the rate limit that the
  workers pass is bounded by \<open>rate\<close>.
\<close>

inductive badge_step :: "int \<Rightarrow> badge_store \<Rightarrow> badge_store \<Rightarrow> bool" for rate where
  clock: "badge_step rate st (st\<lparr>bs_now := now, bs_locked := locked\<rparr>)"
| sign_up: "badge_step rate st (st\<lparr>bs_users := u # bs_users st\<rparr>)"
| award: "award_badge d checked ineligible a c g i us e st = Inr (x, st') \<Longrightarrow> badge_step rate st st'"
| claim: "claim_badge_award_job d st = Inr (y, st') \<Longrightarrow> badge_step rate st st'"
| batch: "process_badge_award_job_batch d i c n r st = Inr (out, st') \<Longrightarrow> r \<le> rate \<Longrightarrow> badge_step rate st st'"
| failure: "record_badge_award_job_failure i c message m st = Inr (b, st') \<Longrightarrow> badge_step rate st st'"
| recover: "recover_stale_badge_award_jobs sweeping t m st = Inr (k, st') \<Longrightarrow> badge_step rate st st'"
| requeue: "requeue_badge_award_job i st = Inr (v, st') \<Longrightarrow> badge_step rate st st'"
| cleanup: "cleanup_badge_award_jobs t st = Inr (k, st') \<Longrightarrow> badge_step rate st st'"
| revoke_group: "revoke_group_user_badge permitted a g i reason st = Inr (v, st') \<Longrightarrow> badge_step rate st st'"
| revoke_own: "revoke_user_badge a i st = Inr (v, st') \<Longrightarrow> badge_step rate st st'"
| user_deleted: "delete_user u st = Inr (v, st') \<Longrightarrow> badge_step rate st st'"
| badge_deleted: "delete_badge i st = Inr (v, st') \<Longrightarrow> badge_step rate st st'"

inductive badge_reachable :: "int \<Rightarrow> badge_store \<Rightarrow> bool" for rate where
  initial: "bs_jobs st = [] \<Longrightarrow> bs_recipients st = [] \<Longrightarrow> bs_lists st = [] \<Longrightarrow> bs_badges st = [] \<Longrightarrow>
    badge_reachable rate st"
| later: "badge_reachable rate st \<Longrightarrow> badge_step rate st st' \<Longrightarrow> badge_reachable rate st'"

inductive_cases badge_stepE: "badge_step rate st st'"

lemma badge_step_inv: "badge_step rate st st' \<Longrightarrow> badge_inv rate st \<Longrightarrow> badge_inv rate st'"
  by (induction rule: badge_step.induct) ((simp add: badge_inv_def; fail) | blast dest: badge_tx_inv)+

lemma badge_reachable_inv: "badge_reachable rate st \<Longrightarrow> 0 \<le> rate \<Longrightarrow> badge_inv rate st"
proof (induction rule: badge_reachable.induct)
  case (initial st)
  then show ?case
    by (simp add: badge_inv_def lists_inv_def held_once_def rate_ok_def awarded_between_def jobs_inv_def)
qed (blast dest: badge_step_inv)

section \<open>What a batch does\<close>

lemma find_job_map:
  assumes "\<And>j. bj_id (f j) = bj_id j"
  shows "find (\<lambda>j. bj_id j = i) (map (\<lambda>j. if bj_id j = i then f j else j) jobs) =
    map_option f (find (\<lambda>j. bj_id j = i) jobs)"
  by (induction jobs) (simp_all add: assms)

lemma recipients_complete:
  assumes inv: "badge_inv rate st"
  shows "process_badge_award_job_batch d i c n r st \<noteq> Inl ''badge award job recipients are incomplete''"
proof
  assume bad: "process_badge_award_job_batch d i c n r st = Inl ''badge award job recipients are incomplete''"
  have loop: "award_recipients d job rs s \<noteq> Inl ''badge award job recipients are incomplete''" for job rs s
    by (induction rs arbitrary: s)
      (auto simp: and_then_def award_recipient_def current_list_def pick_list_def insert_status_list_def Let_def
        split: sum.splits option.splits list.splits if_splits)
  obtain job where job: "find_claimed i c st = Some job" "n > 0"
      "int (length (batch_recipients st job (allowed_count n r job st))) \<noteq> allowed_count n r job st"
      "allowed_count n r job st > 0"
    using bad loop
    by (auto simp: process_badge_award_job_batch_def Let_def and_then_def split: sum.splits option.splits if_splits)
  note cj = claimed_job [OF job(1) inv]
  show False
    using job batch_recipients_complete [OF cj(4) _ allowed_count_bounds(3) [OF cj(4) job(2)]] cj(3) by simp
qed

lemma batch_outcome:
  assumes inv: "badge_inv rate st" and step: "process_badge_award_job_batch d i c n r st = Inr (out, st')"
  shows "\<exists>job. find_claimed i c st = Some job \<and>
    (if bo_rate_limited out
     then awarded_last_minute st \<ge> r \<and> st' = update_job i (rate_limited_job (bs_now st)) st
     else bo_processed_count out = allowed_count n r job st \<and> bo_processed_count out \<ge> 1 \<and>
       (bo_completed out \<longleftrightarrow>
          bj_next_recipient_offset job + bo_processed_count out = bj_accepted_count job) \<and>
       (\<exists>awarded skipped. 0 \<le> awarded \<and> 0 \<le> skipped \<and> awarded + skipped = bo_processed_count out \<and>
          length (bs_badges st') = length (bs_badges st) + nat awarded \<and>
          find_job i st' = Some (advanced_job (bs_now st) awarded skipped
            (bj_next_recipient_offset job + bo_processed_count out) (bo_completed out) job)))"
  using step
proof (cases rule: process_batch_cases)
  case (limited job)
  note job = claimed_job [OF limited(1) inv]
  have "bj_next_recipient_offset job < bj_accepted_count job" "0 < n"
    using job(3,4) step by (auto simp: job_ok_def process_badge_award_job_batch_def split: if_splits)
  then have "awarded_last_minute st \<ge> r"
    using limited(2) by (auto simp: allowed_count_def min_def max_def split: if_splits)
  then show ?thesis using limited by auto
next
  case (advanced job s)
  let ?n = "allowed_count n r job st"
  note job = claimed_job [OF advanced(1) inv]
  note bounds = allowed_count_bounds [OF job(4) advanced(5), of r st]
  note turns = batch_loop [OF inv advanced(1,5,3)]
  note fin = finish_batch_simps [OF advanced(4)]
  have "bj_next_recipient_offset job < bj_accepted_count job"
    using job(3,4) by (auto simp: job_ok_def)
  then have pos: "?n \<ge> 1" using advanced(2) bounds(1) by linarith
  have counts: "0 \<le> al_awarded s" "0 \<le> al_skipped s" "al_awarded s + al_skipped s = ?n"
      "bs_jobs (al_store s) = bs_jobs st" "bs_now (al_store s) = bs_now st"
    using turns bounds(1) by (simp_all add: loop_turns_def loop_start_def same_rest_def)
  have "length (bs_badges st') = length (bs_badges st) + nat (al_awarded s)"
    using turns fin(2) by (auto simp: loop_turns_def loop_start_def)
  moreover have "find_job i st' = Some (advanced_job (bs_now st) (al_awarded s) (al_skipped s)
      (bj_next_recipient_offset job + ?n) (bo_completed out) job)"
    using find_claimed_Some [OF advanced(1)] fin(6) counts(4,5) job(2)
    by (simp add: find_job_def find_job_map)
  ultimately show ?thesis
    using advanced(1) fin(3-5) pos bounds(3) counts(1-3) by auto
qed

text \<open>
  A batch that commits clears the error of the job but keeps its failure count: failures are counted
  over the life of the job (until an operator requeues it), not consecutively.
\<close>

lemma batch_keeps_failure_count:
  assumes "badge_inv rate st" and "process_badge_award_job_batch d i c n r st = Inr (out, st')"
    and "find_claimed i c st = Some job"
  shows "\<exists>job'. find_job i st' = Some job' \<and> bj_failure_count job' = bj_failure_count job"
proof (cases "bo_rate_limited out")
  case True
  then show ?thesis
    using batch_outcome [OF assms(1,2)] assms(3) find_claimed_Some [OF assms(3)]
    by (auto simp: update_job_def find_job_def find_job_map) (simp add: rate_limited_job_def)
next
  case False
  then show ?thesis
    using batch_outcome [OF assms(1,2)] assms(3) by (auto simp: advanced_job_def)
qed

section \<open>A sample run\<close>

definition sample_dice :: dice where
  "sample_dice = \<lparr>dice_uuid = \<lambda>n. of_nat n + 1000, dice_offset = \<lambda>n. 131000, dice_half_stride = \<lambda>n. 50\<rparr>"

definition empty_badge_store :: badge_store where
  "empty_badge_store = \<lparr>bs_now = 1000000, bs_draws = 0, bs_locked = [], bs_users = [1, 2, 3], bs_theme = None,
     bs_jobs = [], bs_recipients = [], bs_lists = [], bs_badges = [], bs_calls = []\<rparr>"

definition sample_award :: "(int \<times> int) badge_tx" where
  "sample_award = award_badge sample_dice (Inr (''ada'', JObject [(''name'', JString ''Speaker'')])) None
     9 8 7 6 [3, 1, 2, 3] None"

definition committed :: "string + 'a \<times> badge_store \<Rightarrow> badge_store" where
  "committed r = snd (projr r)"

text \<open>Three recipients queued, the job claimed, and a batch of two processed.\<close>

definition sample_queued :: badge_store where
  "sample_queued = committed (sample_award empty_badge_store)"

definition sample_claimed :: badge_store where
  "sample_claimed = committed (claim_badge_award_job sample_dice sample_queued)"

definition sample_batch :: "BadgeAwardBatchOutcome badge_tx" where
  "sample_batch = process_badge_award_job_batch sample_dice 1000 1001 2 500"

definition sample_issued :: badge_store where
  "sample_issued = committed (sample_batch sample_claimed)"

lemma committed_step: "\<not> isl r \<Longrightarrow> \<exists>x. r = Inr (x, committed r)"
  by (cases r) (auto simp: committed_def)

lemma sample_award_queued_reachable: "badge_reachable 500 sample_queued"
proof -
  have 0: "badge_reachable 500 empty_badge_store"
    by (rule badge_reachable.initial) (simp_all add: empty_badge_store_def)
  have "\<not> isl (sample_award empty_badge_store)" by code_simp
  from committed_step [OF this] have "badge_step 500 empty_badge_store sample_queued"
    unfolding sample_queued_def [symmetric] unfolding sample_award_def by (blast intro: badge_step.award)
  from badge_reachable.later [OF 0 this] show ?thesis .
qed

lemma sample_award_claimed_reachable: "badge_reachable 500 sample_claimed"
proof -
  have "\<not> isl (claim_badge_award_job sample_dice sample_queued)" by code_simp
  from committed_step [OF this] have "badge_step 500 sample_queued sample_claimed"
    unfolding sample_claimed_def [symmetric] by (blast intro: badge_step.claim)
  from badge_reachable.later [OF sample_award_queued_reachable this] show ?thesis .
qed

lemma sample_issued_reachable: "badge_reachable 500 sample_issued"
proof -
  have "\<not> isl (sample_batch sample_claimed)" by code_simp
  from committed_step [OF this] have "badge_step 500 sample_claimed sample_issued"
    unfolding sample_issued_def [symmetric] unfolding sample_batch_def by (blast intro: badge_step.batch)
  from badge_reachable.later [OF sample_award_claimed_reachable this] show ?thesis .
qed

section \<open>Properties\<close>

text \<open>
  C27: in every reachable store, each credential has its own bit of a status list of its group, in
  the range of the list. The unique constraint on the bits never rejects an issuance.
\<close>

theorem status_bits_unique:
  assumes "badge_reachable rate st" and "0 \<le> rate"
  shows "distinct (map (\<lambda>b. (ub_status_list_id b, ub_status_list_index b)) (bs_badges st)) \<and>
    (\<forall>b\<in>set (bs_badges st). 0 \<le> ub_status_list_index b \<and> ub_status_list_index b < LIST_SIZE \<and>
       (\<exists>l\<in>set (bs_lists st). sl_id l = ub_status_list_id b \<and> sl_group_id l = ub_group_id b))"
proof -
  have "lists_inv (bs_lists st) (bs_badges st)"
    using badge_reachable_inv [OF assms] by (simp add: badge_inv_def)
  then show ?thesis
    using lists_inv_unique lists_inv_index_range unfolding lists_inv_def by blast
qed

theorem status_bits_unique_witness:
  "map ub_status_list_index (bs_badges sample_issued) = [131000, 29] \<and>
   distinct (map (\<lambda>b. (ub_status_list_id b, ub_status_list_index b)) (bs_badges sample_issued))"
  using status_bits_unique [OF sample_issued_reachable] by (simp) code_simp

text \<open>
  C26: the global issuance limit holds over every window of one minute, for any number of
  replicas, any order of their transaction times and any schedule of jobs.
\<close>

theorem issuance_rate_bounded:
  assumes "badge_reachable rate st" and "0 \<le> rate"
  shows "int (awarded_between t (t + seconds 60) (bs_badges st)) \<le> rate"
  using badge_reachable_inv [OF assms] by (simp add: badge_inv_def rate_ok_def)

theorem issuance_rate_bounded_witness:
  "awarded_between 0 (0 + seconds 60) (bs_badges sample_issued) = 2 \<and>
   int (awarded_between 0 (0 + seconds 60) (bs_badges sample_issued)) \<le> 500"
  using issuance_rate_bounded [OF sample_issued_reachable, of 0] by simp code_simp

text \<open>
  C28: a user never holds two active credentials of one badge, however often the badge is awarded
  again, retried, or recovered after a crash.
\<close>

theorem badge_held_at_most_once:
  assumes "badge_reachable rate st" and "0 \<le> rate"
  shows "length (filter (holds_badge badge user) (bs_badges st)) \<le> 1"
  using badge_reachable_inv [OF assms] by (simp add: badge_inv_def held_once_def)

theorem badge_held_at_most_once_witness:
  "map ub_user_id (filter (holds_badge (Some 6) 2) (bs_badges sample_issued)) = [Some 2] \<and>
   length (filter (holds_badge (Some 6) 2) (bs_badges sample_issued)) \<le> 1"
  using badge_held_at_most_once [OF sample_issued_reachable, of "Some 6" 2] by simp code_simp





end
