(* ===== verification/Badge_Award_Worker.thy ===== *)
theory Badge_Award_Worker
  imports Badge_Award_Lifecycle Worker_Loops
begin

text \<open>
  The background processing of badge awards: the database trait and its Postgres implementation
  (\<^verbatim>\<open>db/badges.rs\<close>) over the functions of \<open>Badge_Award_Store\<close>, and the two workers
  (\<^verbatim>\<open>services/badges/award_worker.rs\<close>). Durations are in seconds; the log is left out.
\<close>

section \<open>The database trait\<close>

record ClaimedBadgeAwardJob =
  cb_badge_award_job_id :: uuid
  cb_claim_id :: uuid

record 's DBBadges =
  db_claim_badge_award_job :: "('s, ClaimedBadgeAwardJob option) io"
  db_cleanup_badge_award_jobs :: "nat \<Rightarrow> ('s, nat) io"
  db_process_badge_award_job_batch :: "uuid \<Rightarrow> uuid \<Rightarrow> nat \<Rightarrow> nat \<Rightarrow> ('s, BadgeAwardBatchOutcome) io"
  db_record_badge_award_job_failure :: "uuid \<Rightarrow> uuid \<Rightarrow> string \<Rightarrow> nat \<Rightarrow> ('s, bool) io"
  db_recover_stale_badge_award_jobs :: "nat \<Rightarrow> nat \<Rightarrow> ('s, nat) io"

text \<open>\<^verbatim>\<open>i32::try_from\<close>, \<^verbatim>\<open>i64::try_from\<close> and \<^verbatim>\<open>usize::try_from\<close>.\<close>

definition try_i32 :: "nat \<Rightarrow> anyhow + int" where
  "try_i32 n = (if int n \<le> 2147483647 then Inr (int n)
     else Inl (Msg ''out of range integral type conversion attempted''))"

definition duration_seconds_i64 :: "nat \<Rightarrow> string \<Rightarrow> anyhow + int" where
  "duration_seconds_i64 duration overflow_message =
     (if int duration \<le> 9223372036854775807 then Inr (int duration) else Inl (Msg overflow_message))"

definition try_usize :: "string \<Rightarrow> int \<Rightarrow> anyhow + nat" where
  "try_usize message count = (if 0 \<le> count then Inr (nat count) else Inl (Msg message))"

text \<open>A statement sent to the database; the random values of the server are in \<open>d\<close>.\<close>

definition run_badge_tx :: "'a badge_tx \<Rightarrow> (badge_store, 'a) io" where
  "run_badge_tx tx = (\<lambda>st. case tx st of Inl e \<Rightarrow> (Inl (Msg e), st) | Inr (x, st') \<Rightarrow> (Inr x, st'))"

definition pg_claim_badge_award_job :: "dice \<Rightarrow> (badge_store, ClaimedBadgeAwardJob option) io" where
  "pg_claim_badge_award_job d =
     act_bind (run_badge_tx (claim_badge_award_job d)) (\<lambda>job.
     act_ok (map_option (\<lambda>(i, c). \<lparr>cb_badge_award_job_id = i, cb_claim_id = c\<rparr>) job))"

definition pg_cleanup_badge_award_jobs :: "nat \<Rightarrow> (badge_store, nat) io" where
  "pg_cleanup_badge_award_jobs retention =
     act_bind (act_lift (duration_seconds_i64 retention ''badge award retention is too large'')) (\<lambda>retention.
     act_bind (run_badge_tx (cleanup_badge_award_jobs retention)) (\<lambda>count.
     act_lift (try_usize ''invalid badge award cleanup count'' count)))"

definition pg_process_badge_award_job_batch ::
    "dice \<Rightarrow> uuid \<Rightarrow> uuid \<Rightarrow> nat \<Rightarrow> nat \<Rightarrow> (badge_store, BadgeAwardBatchOutcome) io" where
  "pg_process_badge_award_job_batch d job_id claim_id batch_size rate_limit =
     act_bind (act_lift (try_i32 batch_size)) (\<lambda>batch_size.
     act_bind (act_lift (try_i32 rate_limit)) (\<lambda>rate_limit.
     run_badge_tx (process_badge_award_job_batch d job_id claim_id batch_size rate_limit)))"

definition pg_record_badge_award_job_failure :: "uuid \<Rightarrow> uuid \<Rightarrow> string \<Rightarrow> nat \<Rightarrow> (badge_store, bool) io" where
  "pg_record_badge_award_job_failure job_id claim_id error max_failures =
     act_bind (act_lift (try_i32 max_failures)) (\<lambda>max_failures.
     run_badge_tx (record_badge_award_job_failure job_id claim_id error max_failures))"

definition pg_recover_stale_badge_award_jobs :: "bool \<Rightarrow> nat \<Rightarrow> nat \<Rightarrow> (badge_store, nat) io" where
  "pg_recover_stale_badge_award_jobs sweeping max_failures processing_timeout =
     act_bind (act_lift (try_i32 max_failures)) (\<lambda>max_failures.
     act_bind (act_lift (duration_seconds_i64 processing_timeout
       ''badge award processing timeout is too large'')) (\<lambda>timeout.
     act_bind (run_badge_tx (recover_stale_badge_award_jobs sweeping timeout max_failures)) (\<lambda>count.
     act_lift (try_usize ''invalid badge award recovery count'' count))))"

definition pg_badges :: "dice \<Rightarrow> bool \<Rightarrow> badge_store DBBadges" where
  "pg_badges d sweeping =
     \<lparr>db_claim_badge_award_job = pg_claim_badge_award_job d,
      db_cleanup_badge_award_jobs = pg_cleanup_badge_award_jobs,
      db_process_badge_award_job_batch = pg_process_badge_award_job_batch d,
      db_record_badge_award_job_failure = pg_record_badge_award_job_failure,
      db_recover_stale_badge_award_jobs = pg_recover_stale_badge_award_jobs sweeping\<rparr>"

section \<open>The award worker\<close>

definition AWARD_BATCH_SIZE :: nat where "AWARD_BATCH_SIZE = 25"
definition AWARD_RATE_LIMIT_PER_MINUTE :: nat where "AWARD_RATE_LIMIT_PER_MINUTE = 500"
definition COMPLETED_JOB_RETENTION :: nat where "COMPLETED_JOB_RETENTION = 30 * 24 * 3600"
definition MAX_FAILURES :: nat where "MAX_FAILURES = 10"
definition AWARD_PAUSE_ON_ERROR :: nat where "AWARD_PAUSE_ON_ERROR = 10"
definition AWARD_PAUSE_ON_NONE :: nat where "AWARD_PAUSE_ON_NONE = 15"
definition AWARD_PAUSE_ON_RECOVERY :: nat where "AWARD_PAUSE_ON_RECOVERY = 60"
definition PROCESSING_TIMEOUT :: nat where "PROCESSING_TIMEOUT = 15 * 60"

definition release_failure :: "'s DBBadges \<Rightarrow> ClaimedBadgeAwardJob \<Rightarrow> anyhow \<Rightarrow> ('s, unit) io" where
  "release_failure db job err =
     act_try (db_record_badge_award_job_failure db (cb_badge_award_job_id job) (cb_claim_id job)
       (err_to_string err) MAX_FAILURES) (\<lambda>_. act_ok ())"

text \<open>The batch of a claimed job; shutdown is not looked at until it is done.\<close>

definition process_claimed_job :: "'s DBBadges \<Rightarrow> ClaimedBadgeAwardJob \<Rightarrow> ('s, bool option) io" where
  "process_claimed_job db job =
     act_try (db_process_badge_award_job_batch db (cb_badge_award_job_id job) (cb_claim_id job)
       AWARD_BATCH_SIZE AWARD_RATE_LIMIT_PER_MINUTE) (\<lambda>result.
     case result of
       Inr outcome \<Rightarrow> act_ok (Some (\<not> bo_rate_limited outcome))
     | Inl err \<Rightarrow> act_bind (release_failure db job err) (\<lambda>_. act_err err))"

definition process_next_award_job :: "('s \<Rightarrow> race) \<Rightarrow> 's DBBadges \<Rightarrow> ('s, bool option) io" where
  "process_next_award_job race db s =
     (case run_until_cancelled race (db_claim_badge_award_job db) s of
        (None, s1) \<Rightarrow> (Inr None, s1)
      | (Some (Inl err), s1) \<Rightarrow> (Inl err, s1)
      | (Some (Inr None), s1) \<Rightarrow> (Inr (Some False), s1)
      | (Some (Inr (Some job)), s1) \<Rightarrow> process_claimed_job db job s1)"

definition award_pause :: "anyhow + bool \<Rightarrow> nat option" where
  "award_pause result = (case result of
     Inr True \<Rightarrow> None | Inr False \<Rightarrow> Some AWARD_PAUSE_ON_NONE | Inl _ \<Rightarrow> Some AWARD_PAUSE_ON_ERROR)"

definition award_turn :: "'s shutdown \<Rightarrow> 's DBBadges \<Rightarrow> 's \<Rightarrow> 's + 's" where
  "award_turn sd db s =
     (if sd_is_cancelled sd s then Inl s
      else case process_next_award_job (sd_race sd) db s of
        (Inr None, s1) \<Rightarrow> Inl s1
      | (Inr (Some processed), s1) \<Rightarrow> sleep_then_check sd (award_pause (Inr processed)) s1
      | (Inl err, s1) \<Rightarrow> sleep_then_check sd (award_pause (Inl err)) s1)"

definition award_worker_run :: "'s shutdown \<Rightarrow> 's DBBadges \<Rightarrow> 's \<Rightarrow> 's option" where
  "award_worker_run sd db = run_loop (award_turn sd db)"

section \<open>The recovery worker\<close>

text \<open>
  The maintenance pass raced with shutdown: the future can be dropped at each of its two calls. The
  result of a call is only logged.
\<close>

definition maintain_until_cancelled :: "('s \<Rightarrow> race) \<Rightarrow> 's DBBadges \<Rightarrow> 's \<Rightarrow> unit option \<times> 's" where
  "maintain_until_cancelled race db s =
     (case run_until_cancelled race (db_recover_stale_badge_award_jobs db MAX_FAILURES PROCESSING_TIMEOUT) s of
        (None, s1) \<Rightarrow> (None, s1)
      | (Some _, s1) \<Rightarrow>
          (case run_until_cancelled race (db_cleanup_badge_award_jobs db COMPLETED_JOB_RETENTION) s1 of
             (None, s2) \<Rightarrow> (None, s2) | (Some _, s2) \<Rightarrow> (Some (), s2)))"

definition award_recovery_turn :: "'s shutdown \<Rightarrow> 's DBBadges \<Rightarrow> 's \<Rightarrow> 's + 's" where
  "award_recovery_turn sd db s =
     (if sd_is_cancelled sd s then Inl s
      else case maintain_until_cancelled (sd_race sd) db s of
        (None, s1) \<Rightarrow> Inl s1
      | (Some _, s1) \<Rightarrow> sleep_or_break sd AWARD_PAUSE_ON_RECOVERY s1)"

definition award_recovery_run :: "'s shutdown \<Rightarrow> 's DBBadges \<Rightarrow> 's \<Rightarrow> 's option" where
  "award_recovery_run sd db = run_loop (award_recovery_turn sd db)"

section \<open>What the workers rely on\<close>

text \<open>
  The contract of the database: \<open>ok\<close> is an invariant, and \<open>claims\<close> are the jobs owned by someone. A
  batch and a recorded failure end the ownership of the claim they are called with.
\<close>

locale badge_award_db =
  fixes db :: "'s DBBadges" and ok :: "'s \<Rightarrow> bool" and claims :: "'s \<Rightarrow> (uuid \<times> uuid) set"
  assumes claim_ok: "db_claim_badge_award_job db s = (r, s') \<Longrightarrow> ok s \<Longrightarrow> ok s'"
    and claim_none: "db_claim_badge_award_job db s = (r, s') \<Longrightarrow> ok s \<Longrightarrow> r = Inl e \<or> r = Inr None \<Longrightarrow>
      claims s' \<subseteq> claims s"
    and claim_some: "db_claim_badge_award_job db s = (Inr (Some job), s') \<Longrightarrow> ok s \<Longrightarrow>
      claims s' \<subseteq> insert (cb_badge_award_job_id job, cb_claim_id job) (claims s)"
    and process_ok: "db_process_badge_award_job_batch db i c AWARD_BATCH_SIZE AWARD_RATE_LIMIT_PER_MINUTE s =
      (q, s') \<Longrightarrow> ok s \<Longrightarrow> ok s' \<and> claims s' \<subseteq> claims s"
    and process_done: "db_process_badge_award_job_batch db i c AWARD_BATCH_SIZE AWARD_RATE_LIMIT_PER_MINUTE s =
      (Inr out, s') \<Longrightarrow> ok s \<Longrightarrow> (i, c) \<notin> claims s'"
    and failure: "db_record_badge_award_job_failure db i c m MAX_FAILURES s = (b, s') \<Longrightarrow> ok s \<Longrightarrow>
      ok s' \<and> claims s' \<subseteq> claims s - {(i, c)}"
    and recover: "db_recover_stale_badge_award_jobs db MAX_FAILURES PROCESSING_TIMEOUT s = (n, s') \<Longrightarrow> ok s \<Longrightarrow>
      ok s' \<and> claims s' \<subseteq> claims s"
    and cleanup: "db_cleanup_badge_award_jobs db COMPLETED_JOB_RETENTION s = (n, s') \<Longrightarrow> ok s \<Longrightarrow>
      ok s' \<and> claims s' \<subseteq> claims s"
begin

lemma claimed_round:
  assumes "process_claimed_job db job s = (r, s')" and "ok s"
  shows "ok s' \<and> claims s' \<subseteq> claims s - {(cb_badge_award_job_id job, cb_claim_id job)} \<and> r \<noteq> Inr None"
proof -
  obtain q s1 where q: "db_process_badge_award_job_batch db (cb_badge_award_job_id job) (cb_claim_id job)
      AWARD_BATCH_SIZE AWARD_RATE_LIMIT_PER_MINUTE s = (q, s1)" by fastforce
  note p = process_ok [OF q assms(2)]
  show ?thesis
  proof (cases q)
    case (Inr out)
    then show ?thesis
      using assms(1) q p process_done [OF q [unfolded Inr] assms(2)]
      by (auto simp: process_claimed_job_def act_try_def)
  next
    case (Inl err)
    obtain b s2 where b: "db_record_badge_award_job_failure db (cb_badge_award_job_id job) (cb_claim_id job)
        (err_to_string err) MAX_FAILURES s1 = (b, s2)" by fastforce
    have "s' = s2" "r = Inl err"
      using assms(1) q b Inl by (simp_all add: process_claimed_job_def act_try_def act_bind_def release_failure_def)
    then show ?thesis using failure [OF b] p by auto
  qed
qed

lemma round:
  assumes "process_next_award_job race db s = (r, s')" and "ok s"
  shows "ok s' \<and> (r \<noteq> Inr None \<longrightarrow> claims s' \<subseteq> claims s)"
proof -
  obtain q s1 where q: "run_until_cancelled race (db_claim_badge_award_job db) s = (q, s1)" by fastforce
  obtain c sc where c: "db_claim_badge_award_job db s = (c, sc)" by fastforce
  have 1: "ok s1" "q = None \<or> q = Some c \<and> s1 = sc"
    using q c assms(2) claim_ok [OF c] by (auto elim: run_until_cancelled_cases)
  consider (cancelled) "q = None" | (failed) e where "c = Inl e" "q = Some c" "s1 = sc"
    | (idle) "c = Inr None" "q = Some c" "s1 = sc" | (job) job where "c = Inr (Some job)" "q = Some c" "s1 = sc"
    using 1(2) by (cases c; cases "projr c") auto
  then show ?thesis
  proof cases
    case job
    then have "process_claimed_job db job s1 = (r, s')"
      using assms(1) q by (simp add: process_next_award_job_def)
    from claimed_round [OF this 1(1)] claim_some [of s job sc] c job assms(2) show ?thesis by auto
  qed (use assms q 1(1) claim_none [OF c] in \<open>auto simp: process_next_award_job_def\<close>)
qed

lemma maintenance:
  assumes "maintain_until_cancelled race db s = (r, s')" and "ok s"
  shows "ok s' \<and> claims s' \<subseteq> claims s"
proof -
  obtain q s1 where q: "run_until_cancelled race
      (db_recover_stale_badge_award_jobs db MAX_FAILURES PROCESSING_TIMEOUT) s = (q, s1)" by fastforce
  obtain n sn where n: "db_recover_stale_badge_award_jobs db MAX_FAILURES PROCESSING_TIMEOUT s = (n, sn)" by fastforce
  have 1: "ok s1 \<and> claims s1 \<subseteq> claims s"
    using run_until_cancelled_state [OF q n] recover [OF n] assms(2) by auto
  obtain q' s2 where q': "run_until_cancelled race
      (db_cleanup_badge_award_jobs db COMPLETED_JOB_RETENTION) s1 = (q', s2)" by fastforce
  obtain k sk where k: "db_cleanup_badge_award_jobs db COMPLETED_JOB_RETENTION s1 = (k, sk)" by fastforce
  have 2: "ok s2 \<and> claims s2 \<subseteq> claims s1"
    using run_until_cancelled_state [OF q' k] cleanup [OF k] 1 by auto
  from 1 2 assms(1) q q' show ?thesis
    by (cases q; cases q') (auto simp: maintain_until_cancelled_def)
qed

end

section \<open>The Postgres implementation keeps the contract\<close>

definition store_claims :: "badge_store \<Rightarrow> (uuid \<times> uuid) set" where
  "store_claims st = {(i, c). find_claimed i c st \<noteq> None}"

lemma find_job_mapped:
  assumes "bs_jobs st' = map g (bs_jobs st)" and "\<And>j. bj_id (g j) = bj_id j"
  shows "find_job k st' = map_option g (find_job k st)"
proof -
  have "find (\<lambda>j. bj_id j = k) (map g js) = map_option g (find (\<lambda>j. bj_id j = k) js)" for js
    by (induction js) (simp_all add: assms(2))
  then show ?thesis by (simp add: find_job_def assms(1))
qed

text \<open>Changing jobs without giving any of them a claim.\<close>

lemma store_claims_mapped:
  assumes "bs_jobs st' = map g (bs_jobs st)" and "\<And>j. bj_id (g j) = bj_id j"
    and "\<And>j. bj_claim_id (g j) = bj_claim_id j \<and> bj_status (g j) = bj_status j \<or> bj_claim_id (g j) = None"
  shows "store_claims st' \<subseteq> store_claims st"
proof -
  have "find_claimed i c st' \<noteq> None \<Longrightarrow> find_claimed i c st \<noteq> None" for i c
    using assms(3) [of "the (find_job i st)"]
    by (auto simp: find_claimed_def find_job_mapped [OF assms(1,2)] split: option.splits if_splits)
  then show ?thesis by (auto simp: store_claims_def)
qed

lemma store_claims_released:
  assumes "bs_jobs st' = map (\<lambda>j. if bj_id j = i then f j else j) (bs_jobs st)"
    and "\<And>j. bj_id (f j) = bj_id j" "\<And>j. bj_claim_id (f j) = None"
  shows "store_claims st' \<subseteq> store_claims st - {(i, c)}"
proof -
  have "find_job i st' = map_option f (find_job i st)"
    using find_job_map [OF assms(2)] assms(1) by (simp add: find_job_def)
  then have "(i, c) \<notin> store_claims st'"
    using assms(3) by (auto simp: store_claims_def find_claimed_def split: option.splits)
  moreover have "store_claims st' \<subseteq> store_claims st"
    by (rule store_claims_mapped [OF assms(1)]) (use assms(2,3) in auto)
  ultimately show ?thesis by auto
qed

lemma store_claims_update:
  assumes "\<And>j. bj_id (f j) = bj_id j" "\<And>j. bj_claim_id (f j) = None"
  shows "store_claims (update_job i f st) \<subseteq> store_claims st - {(i, c)}"
  by (rule store_claims_released [where f = f]) (simp_all add: update_job_def assms)

lemma run_badge_tx_cases:
  assumes "run_badge_tx tx st = (r, st')"
  obtains e where "r = Inl (Msg e)" "st' = st" | x where "r = Inr x" "tx st = Inr (x, st')"
  using assms by (auto simp: run_badge_tx_def split: sum.splits)

lemma no_claim_jobs [simp]:
  "bj_claim_id (rate_limited_job now j) = None" "bj_claim_id (advanced_job now m k offset complete j) = None"
  "bj_claim_id (failed_job now message n terminal j) = None" "bj_claim_id (recovered_job now n j) = None"
  by (simp_all add: rate_limited_job_def advanced_job_def failed_job_def recovered_job_def Let_def)

lemma batch_releases:
  assumes inv: "badge_inv rate st" and step: "process_badge_award_job_batch d i c n r st = Inr (out, st')"
  shows "store_claims st' \<subseteq> store_claims st - {(i, c)}"
  using step
proof (cases rule: process_batch_cases)
  case (limited job)
  then show ?thesis by (simp add: store_claims_update)
next
  case (advanced job s)
  have same: "bs_jobs (al_store s) = bs_jobs st"
    using batch_loop [OF inv advanced(1,5,3)] by (simp add: loop_turns_def loop_start_def same_rest_def)
  note jobs = finish_batch_simps(6) [OF advanced(4), unfolded same claimed_job(2) [OF advanced(1) inv]]
  show ?thesis by (rule store_claims_released [OF jobs]) simp_all
qed

lemma failure_releases:
  assumes inv: "badge_inv rate st"
    and step: "run_badge_tx (record_badge_award_job_failure i c m 10) st = (r, st')"
  shows "store_claims st' \<subseteq> store_claims st - {(i, c)}"
  using step
proof (cases rule: run_badge_tx_cases)
  case (1 e)
  have "find_claimed i c st = None"
  proof (rule ccontr)
    assume "find_claimed i c st \<noteq> None"
    then obtain job where job: "find_claimed i c st = Some job" by auto
    have "60 * (2::int) ^ nat (bj_failure_count job) \<le> 2147483647" if "bj_failure_count job \<le> 8"
    proof -
      have "(2::int) ^ nat (bj_failure_count job) \<le> 2 ^ 8" by (rule power_increasing) (use that in simp_all)
      then show ?thesis by simp
    qed
    then have "\<not> (bj_failure_count job < 9 \<and> 2147483647 < 60 * (2::int) ^ nat (bj_failure_count job))"
      by (cases "bj_failure_count job \<le> 8") simp_all
    with step job 1 show False
      by (simp add: run_badge_tx_def record_badge_award_job_failure_def Let_def not_le split: if_splits)
  qed
  then show ?thesis using 1(2) by (auto simp: store_claims_def)
next
  case (2 x)
  then obtain n terminal where "st' = update_job i (failed_job (bs_now st) m n terminal) st"
    by (auto simp: record_badge_award_job_failure_def Let_def split: option.splits if_splits)
  then show ?thesis by (simp add: store_claims_update)
qed

lemma claim_adds:
  assumes "claim_badge_award_job d st = Inr (r, st')"
  shows "store_claims st' \<subseteq> (case r of None \<Rightarrow> store_claims st | Some ic \<Rightarrow> insert ic (store_claims st))"
proof (cases "claimable_jobs st")
  case Nil
  then show ?thesis
    using assms by (auto simp: claim_badge_award_job_def Let_def store_claims_def find_claimed_def find_job_def draw_def)
next
  case (Cons job rest)
  let ?f = "\<lambda>j. j\<lparr>bj_claim_id := Some (dice_uuid d (bs_draws st)), bj_claimed_at := Some (bs_now st),
    bj_status := JobProcessing, bj_updated_at := bs_now st\<rparr>"
  have st': "st' = update_job (bj_id job) ?f (draw st)" "r = Some (bj_id job, dice_uuid d (bs_draws st))"
    using assms Cons by (simp_all add: claim_badge_award_job_def Let_def)
  have jobs: "find_job k st' = map_option (\<lambda>j. if bj_id j = bj_id job then ?f j else j) (find_job k st)" for k
    by (rule find_job_mapped) (simp_all add: st'(1) update_job_def draw_def)
  show ?thesis
    using st'(2) by (auto simp: store_claims_def find_claimed_def jobs split: option.splits if_splits dest: find_job_Some)
qed

lemma recover_claims:
  assumes "recover_stale_badge_award_jobs sweeping t m st = Inr (n, st')"
  shows "store_claims st' \<subseteq> store_claims st"
proof (cases "st' = st")
  case False
  have "bs_jobs st' = map (\<lambda>j. if bj_id j \<in> set (map bj_id (stale_jobs st t)) then recovered_job (bs_now st) m j else j)
      (bs_jobs st)"
    using assms False by (auto simp: recover_stale_badge_award_jobs_def Let_def split: if_splits)
  then show ?thesis by (rule store_claims_mapped) simp_all
qed simp

lemma cleanup_claims:
  assumes "cleanup_badge_award_jobs t st = Inr (n, st')"
  shows "store_claims st' \<subseteq> store_claims st"
proof -
  have kept: "find (\<lambda>j. bj_id j = k) (filter (\<lambda>j. bj_id j \<notin> gone) js) =
      (if k \<in> gone then None else find (\<lambda>j. bj_id j = k) js)" for k gone js
    by (induction js) auto
  show ?thesis
    using assms by (auto simp: kept cleanup_badge_award_jobs_def Let_def store_claims_def find_claimed_def find_job_def
        split: if_splits option.splits)
qed

lemma MAX_FAILURES_i32: "try_i32 MAX_FAILURES = Inr 10"
  by (simp add: try_i32_def MAX_FAILURES_def)

interpretation pg: badge_award_db "pg_badges d sweeping" "badge_reachable 500" store_claims
  for d sweeping
proof (unfold_locales, goal_cases)
  case (1 s r s')
  then show ?case
    by (auto simp: pg_badges_def pg_claim_badge_award_job_def act_bind_def run_badge_tx_def
        split: prod.splits sum.splits intro: badge_reachable.later badge_step.claim)
next
  case (2 s r s' e)
  then show ?case
    by (auto simp: pg_badges_def pg_claim_badge_award_job_def act_bind_def run_badge_tx_def
        split: prod.splits sum.splits dest!: claim_adds)
next
  case (3 s job s')
  then show ?case
    by (fastforce simp: pg_badges_def pg_claim_badge_award_job_def act_bind_def run_badge_tx_def
        split: prod.splits sum.splits dest!: claim_adds)
next
  case (4 i c s q s')
  have "try_i32 AWARD_BATCH_SIZE = Inr 25" "try_i32 AWARD_RATE_LIMIT_PER_MINUTE = Inr 500"
    by (simp_all add: try_i32_def AWARD_BATCH_SIZE_def AWARD_RATE_LIMIT_PER_MINUTE_def)
  with 4 have "run_badge_tx (process_badge_award_job_batch d i c 25 500) s = (q, s')"
    by (simp add: pg_badges_def pg_process_badge_award_job_batch_def)
  then show ?case
    using 4(2) badge_reachable_inv [OF 4(2)]
    by (auto elim!: run_badge_tx_cases intro: badge_reachable.later badge_step.batch dest: batch_releases)
next
  case (5 i c s out s')
  have "try_i32 AWARD_BATCH_SIZE = Inr 25" "try_i32 AWARD_RATE_LIMIT_PER_MINUTE = Inr 500"
    by (simp_all add: try_i32_def AWARD_BATCH_SIZE_def AWARD_RATE_LIMIT_PER_MINUTE_def)
  with 5 have "process_badge_award_job_batch d i c 25 500 s = Inr (out, s')"
    by (auto simp: pg_badges_def pg_process_badge_award_job_batch_def run_badge_tx_def split: sum.splits)
  from batch_releases [OF badge_reachable_inv [OF 5(2)] this] show ?case by auto
next
  case (6 i c m s b s')
  then have "run_badge_tx (record_badge_award_job_failure i c m 10) s = (b, s')"
    by (simp add: pg_badges_def pg_record_badge_award_job_failure_def MAX_FAILURES_i32)
  with failure_releases [OF badge_reachable_inv [OF 6(2)] this] 6(2) show ?case
    by (auto elim!: run_badge_tx_cases intro: badge_reachable.later badge_step.failure)
next
  case (7 s n s')
  then show ?case
    by (auto simp: pg_badges_def pg_recover_stale_badge_award_jobs_def MAX_FAILURES_i32 act_bind_def
        act_lift_def run_badge_tx_def duration_seconds_i64_def PROCESSING_TIMEOUT_def
        split: prod.splits sum.splits dest: recover_claims intro: badge_reachable.later badge_step.recover)
next
  case (8 s n s')
  then show ?case
    by (auto simp: pg_badges_def pg_cleanup_badge_award_jobs_def act_bind_def act_lift_def run_badge_tx_def
        duration_seconds_i64_def COMPLETED_JOB_RETENTION_def
        split: prod.splits sum.splits dest: cleanup_claims intro: badge_reachable.later badge_step.cleanup)
qed

section \<open>The loops\<close>

text \<open>The database beside a number of turns that are left before shutdown.\<close>

definition badges_on_world :: "'w DBBadges \<Rightarrow> ('w \<times> nat) DBBadges" where
  "badges_on_world db =
     \<lparr>db_claim_badge_award_job = on_world (db_claim_badge_award_job db),
      db_cleanup_badge_award_jobs = \<lambda>n. on_world (db_cleanup_badge_award_jobs db n),
      db_process_badge_award_job_batch = \<lambda>i c n r. on_world (db_process_badge_award_job_batch db i c n r),
      db_record_badge_award_job_failure = \<lambda>i c m n. on_world (db_record_badge_award_job_failure db i c m n),
      db_recover_stale_badge_award_jobs = \<lambda>m t. on_world (db_recover_stale_badge_award_jobs db m t)\<rparr>"

interpretation pgw: badge_award_db "badges_on_world (pg_badges d sweeping)" "\<lambda>s. badge_reachable 500 (fst s)"
    "\<lambda>s. store_claims (fst s)"
  for d sweeping
proof (unfold_locales, goal_cases)
  case (1 s r s') then show ?case using pg.claim_ok by (simp add: badges_on_world_def on_world_eq) blast
next
  case (2 s r s' e) then show ?case using pg.claim_none by (simp add: badges_on_world_def on_world_eq) blast
next
  case (3 s job s') then show ?case using pg.claim_some by (simp add: badges_on_world_def on_world_eq) blast
next
  case (4 i c s q s') then show ?case using pg.process_ok by (simp add: badges_on_world_def on_world_eq) blast
next
  case (5 i c s out s') then show ?case using pg.process_done by (simp add: badges_on_world_def on_world_eq) blast
next
  case (6 i c m s b s') then show ?case using pg.failure by (simp add: badges_on_world_def on_world_eq) blast
next
  case (7 s n s') then show ?case using pg.recover by (simp add: badges_on_world_def on_world_eq) blast
next
  case (8 s n s') then show ?case using pg.cleanup by (simp add: badges_on_world_def on_world_eq) blast
qed

lemma process_next_turns:
  assumes "process_next_award_job race (badges_on_world db) s = (r, s')" and "r \<noteq> Inr None" and "snd s \<noteq> 0"
  shows "snd s' < snd s"
proof -
  obtain c s1 where c: "run_until_cancelled race (db_claim_badge_award_job (badges_on_world db)) s = (Some c, s1)"
    using assms(1,2) by (auto simp: process_next_award_job_def split: prod.splits option.splits)
  have "snd s1 = snd s - 1"
    using c by (auto simp: badges_on_world_def elim!: run_until_cancelled_cases)
  moreover have "snd s' \<le> snd s1"
    using assms(1) c
    by (auto simp: process_next_award_job_def process_claimed_job_def release_failure_def act_try_def act_bind_def
        badges_on_world_def on_world_eq split: sum.splits option.splits prod.splits)
  ultimately show ?thesis using assms(3) by simp
qed

lemma sleep_then_check_deadline:
  "sleep_then_check (deadline race) pause s = Inr s' \<Longrightarrow> fst s' = fst s \<and> snd s' \<le> snd s"
  "sleep_then_check (deadline race) pause s = Inl s' \<Longrightarrow> fst s' = fst s"
  by (auto simp: sleep_then_check_def sleep_or_break_def deadline_def split: option.splits prod.splits if_splits bool.splits)

interpretation award_loop: bounded_turns "award_turn (deadline race) (badges_on_world (pg_badges d sweeping))" snd
    "\<lambda>s. badge_reachable 500 (fst s)"
  for race d sweeping
proof (unfold_locales, goal_cases)
  case (1 s s')
  obtain r s1 where r: "process_next_award_job race (badges_on_world (pg_badges d sweeping)) s = (r, s1)"
    by (meson surj_pair)
  have "s' = s \<or> s' = s1 \<or> (\<exists>pause. sleep_then_check (deadline race) pause s1 = Inl s')"
    using 1(1) r by (auto simp: award_turn_def deadline_def split: if_splits sum.splits option.splits prod.splits)
  with pgw.round [OF r 1(2)] 1(2) show ?case by (auto dest: sleep_then_check_deadline)
next
  case (2 s s')
  obtain r s1 where r: "process_next_award_job race (badges_on_world (pg_badges d sweeping)) s = (r, s1)"
    by (meson surj_pair)
  have n: "snd s \<noteq> 0" "r \<noteq> Inr None" "\<exists>pause. sleep_then_check (deadline race) pause s1 = Inr s'"
    using 2(1) r by (auto simp: award_turn_def deadline_def split: if_splits sum.splits option.splits prod.splits)
  with pgw.round [OF r 2(2)] process_next_turns [OF r n(2,1)] show ?case
    by (auto dest: sleep_then_check_deadline)
qed

interpretation award_recovery_loop:
    bounded_turns "award_recovery_turn (deadline race) (badges_on_world (pg_badges d sweeping))" snd
    "\<lambda>s. badge_reachable 500 (fst s)"
  for race d sweeping
proof (unfold_locales, goal_cases)
  case (1 s s')
  obtain r s1 where r: "maintain_until_cancelled race (badges_on_world (pg_badges d sweeping)) s = (r, s1)"
    by (meson surj_pair)
  from pgw.maintenance [OF r 1(2)] 1 r show ?case
    by (auto simp: award_recovery_turn_def sleep_or_break_def deadline_def
        split: if_splits prod.splits option.splits bool.splits)
next
  case (2 s s')
  obtain r s1 where r: "maintain_until_cancelled race (badges_on_world (pg_badges d sweeping)) s = (r, s1)"
    by (meson surj_pair)
  have "snd s1 < snd s" if "r \<noteq> None" "snd s \<noteq> 0"
    using r that
    by (auto simp: maintain_until_cancelled_def badges_on_world_def on_world_eq
        split: option.splits prod.splits elim!: run_until_cancelled_cases)
  with pgw.maintenance [OF r 2(2)] 2 r show ?case
    by (auto simp: award_recovery_turn_def sleep_or_break_def deadline_def
        split: if_splits prod.splits option.splits bool.splits)
qed

section \<open>Properties\<close>

text \<open>
  One round of the award worker, whatever the database answers and whenever shutdown arrives,
  leads from a reachable store to a reachable one (so every invariant of the store holds at the
  limit of 500 credentials per minute that the worker passes), and unless shutdown won the race for
  the claim it leaves no job claimed: a failed batch is released for a retry or terminally failed.
\<close>

theorem award_round_releases_claim:
  assumes "badge_reachable (int AWARD_RATE_LIMIT_PER_MINUTE) st"
    and "process_next_award_job race (pg_badges d sweeping) st = (r, st')"
  shows "badge_reachable (int AWARD_RATE_LIMIT_PER_MINUTE) st' \<and>
    (r \<noteq> Inr None \<longrightarrow> store_claims st' \<subseteq> store_claims st)"
  using pg.round [OF assms(2)] assms(1) by (simp add: AWARD_RATE_LIMIT_PER_MINUTE_def)

theorem award_round_releases_claim_witness:
  "length (bs_badges (snd (process_next_award_job (\<lambda>_. Finished) (pg_badges sample_dice False) sample_queued))) = 3 \<and>
   store_claims (snd (process_next_award_job (\<lambda>_. Finished) (pg_badges sample_dice False) sample_queued)) \<subseteq>
     store_claims sample_queued"
proof -
  let ?run = "process_next_award_job (\<lambda>_. Finished) (pg_badges sample_dice False) sample_queued"
  have "badge_reachable (int AWARD_RATE_LIMIT_PER_MINUTE) sample_queued"
    using sample_award_queued_reachable by (simp add: AWARD_RATE_LIMIT_PER_MINUTE_def)
  from award_round_releases_claim [OF this prod.collapse [symmetric]]
  have "fst ?run \<noteq> Inr None \<longrightarrow> store_claims (snd ?run) \<subseteq> store_claims sample_queued" by blast
  moreover have "fst ?run = Inr (Some True) \<and> length (bs_badges (snd ?run)) = 3" by code_simp
  ultimately show ?thesis by simp
qed

text \<open>
  the award worker's loop and the recovery worker's loop end once shutdown is requested, and
  leave a reachable store behind, wherever shutdown interrupts them.
\<close>

theorem award_loops_stop:
  assumes "badge_reachable 500 st"
  shows "(\<exists>s'. award_worker_run (deadline race) (badges_on_world (pg_badges d sweeping)) (st, n) = Some s' \<and>
      badge_reachable 500 (fst s')) \<and>
    (\<exists>s'. award_recovery_run (deadline race) (badges_on_world (pg_badges d sweeping)) (st, n) = Some s' \<and>
      badge_reachable 500 (fst s'))"
  using award_loop.loop_returns [of "(st, n)"] award_recovery_loop.loop_returns [of "(st, n)"] assms
  by (simp add: award_worker_run_def award_recovery_run_def)

theorem award_loops_stop_witness:
  "\<exists>s'. award_worker_run (deadline (\<lambda>_. Finished)) (badges_on_world (pg_badges sample_dice False))
     (sample_claimed, 7) = Some s' \<and> badge_reachable 500 (fst s')"
  using award_loops_stop [OF sample_award_claimed_reachable] by blast

end
