(* ===== verification/Meetings.thy ===== *)
theory Meetings
  imports Worker_Loops
begin

text \<open>
  The synchronisation of meetings with their provider (\<^verbatim>\<open>services/meetings.rs\<close>) and the traits it
  uses, of the provider and of the database (\<^verbatim>\<open>db/meetings.rs\<close>). Three kinds of workers run: one
  creates, updates and deletes provider meetings for events and sessions that are out of sync, one
  ends meetings that are overdue, one gives up claims that were abandoned.

  A \<^verbatim>\<open>Duration\<close> is its nanoseconds, an instant its microseconds. The log is left out.
\<close>

section \<open>Data\<close>

type_synonym duration = nat

definition as_secs :: "duration \<Rightarrow> nat" where
  "as_secs d = d div 1000000000"

definition from_secs :: "nat \<Rightarrow> duration" where
  "from_secs n = n * 1000000000"

datatype MeetingProvider = Zoom

primrec meeting_provider_ref :: "MeetingProvider \<Rightarrow> string" where
  "meeting_provider_ref Zoom = ''zoom''"

datatype MeetingAutoEndCheckOutcome = OutcomeAlreadyNotRunning | OutcomeAutoEnded | OutcomeError | OutcomeNotFound

primrec auto_end_outcome_ref :: "MeetingAutoEndCheckOutcome \<Rightarrow> string" where
  "auto_end_outcome_ref OutcomeAlreadyNotRunning = ''already_not_running''"
| "auto_end_outcome_ref OutcomeAutoEnded = ''auto_ended''"
| "auto_end_outcome_ref OutcomeError = ''error''"
| "auto_end_outcome_ref OutcomeNotFound = ''not_found''"

datatype MeetingEndResult = EndAlreadyNotRunning | MeetingEnded

datatype SyncAction = SyncCreate | SyncDelete | SyncUpdate

record Meeting =
  mt_provider :: MeetingProvider
  mt_delete :: "bool option"
  mt_duration :: "duration option"
  mt_event_id :: "uuid option"
  mt_hosts :: "string list option"
  mt_join_url :: "string option"
  mt_meeting_id :: "uuid option"
  mt_password :: "string option"
  mt_provider_host_user_id :: "string option"
  mt_provider_meeting_id :: "string option"
  mt_recording_requested :: "bool option"
  mt_session_id :: "uuid option"
  mt_starts_at :: "instant option"
  mt_sync_claimed_at :: "instant option"
  mt_sync_state_hash :: "string option"
  mt_timezone :: "string option"
  mt_topic :: "string option"

record MeetingProviderMeeting =
  mp_id :: string
  mp_join_url :: string
  mp_password :: "string option"

record MeetingAutoEndCandidate =
  ae_auto_end_check_claimed_at :: instant
  ae_meeting_id :: uuid
  ae_provider :: MeetingProvider
  ae_provider_meeting_id :: string

definition sync_action :: "Meeting \<Rightarrow> SyncAction" where
  "sync_action m =
     (if mt_delete m = Some True then SyncDelete
      else if mt_provider_meeting_id m = None then SyncCreate else SyncUpdate)"

text \<open>
  The end of a meeting. \<open>checked_add\<close> stands for \<^verbatim>\<open>chrono\<close>: the conversion of the duration and the
  checked addition, either of which may be out of range.
\<close>

definition meeting_ends_at :: "(instant \<Rightarrow> duration \<Rightarrow> instant option) \<Rightarrow> Meeting \<Rightarrow> instant option" where
  "meeting_ends_at checked_add m =
     (case (mt_starts_at m, mt_duration m) of
        (Some s, Some d) \<Rightarrow> checked_add s d | _ \<Rightarrow> None)"

section \<open>Errors\<close>

datatype MeetingProviderError =
    ProviderClient string
  | ProviderNetwork string
  | ProviderNotFound
  | NoSlotsAvailable
  | ProviderRateLimit duration
  | ProviderServer string
  | ProviderToken string

definition provider_error_to_string :: "MeetingProviderError \<Rightarrow> string" where
  "provider_error_to_string e = (case e of
     ProviderClient m \<Rightarrow> ''provider client error: '' @ m
   | ProviderNetwork m \<Rightarrow> ''provider network error: '' @ m
   | ProviderNotFound \<Rightarrow> ''meeting not found''
   | NoSlotsAvailable \<Rightarrow> ''no meeting slots available for automatic creation''
   | ProviderRateLimit d \<Rightarrow> ''rate limit exceeded (retry after '' @ show_nat (as_secs d) @ ''s)''
   | ProviderServer m \<Rightarrow> ''provider server error: '' @ m
   | ProviderToken m \<Rightarrow> ''provider token error: '' @ m)"

definition provider_is_retryable :: "MeetingProviderError \<Rightarrow> bool" where
  "provider_is_retryable e = (case e of
     ProviderNetwork _ \<Rightarrow> True | ProviderRateLimit _ \<Rightarrow> True | ProviderServer _ \<Rightarrow> True
   | ProviderToken _ \<Rightarrow> True | _ \<Rightarrow> False)"

definition provider_retry_after :: "MeetingProviderError \<Rightarrow> duration option" where
  "provider_retry_after e = (case e of ProviderRateLimit d \<Rightarrow> Some d | _ \<Rightarrow> None)"

datatype SyncError =
    SyncProvider MeetingProviderError
  | ProviderNotConfigured MeetingProvider
  | SyncOther anyhow

definition sync_error_to_string :: "SyncError \<Rightarrow> string" where
  "sync_error_to_string e = (case e of
     SyncProvider pe \<Rightarrow> provider_error_to_string pe
   | ProviderNotConfigured p \<Rightarrow> ''provider not configured: '' @ meeting_provider_ref p
   | SyncOther err \<Rightarrow> err_to_string err)"

definition is_non_retryable :: "SyncError \<Rightarrow> bool" where
  "is_non_retryable e = (case e of
     SyncProvider pe \<Rightarrow> \<not> provider_is_retryable pe
   | ProviderNotConfigured _ \<Rightarrow> True
   | SyncOther _ \<Rightarrow> False)"

definition sync_retry_after :: "SyncError \<Rightarrow> duration option" where
  "sync_retry_after e = (case e of SyncProvider pe \<Rightarrow> provider_retry_after pe | _ \<Rightarrow> None)"

section \<open>The traits\<close>

record 's MeetingsProvider =
  mp_create_meeting :: "Meeting \<Rightarrow> ('s, MeetingProviderError, MeetingProviderMeeting) act"
  mp_delete_meeting :: "string \<Rightarrow> ('s, MeetingProviderError, unit) act"
  mp_end_meeting :: "string \<Rightarrow> ('s, MeetingProviderError, MeetingEndResult) act"
  mp_get_meeting :: "string \<Rightarrow> ('s, MeetingProviderError, MeetingProviderMeeting) act"
  mp_update_meeting :: "string \<Rightarrow> Meeting \<Rightarrow> ('s, MeetingProviderError, unit) act"

record 's DBMeetings =
  db_add_meeting :: "Meeting \<Rightarrow> ('s, unit) io"
  db_append_meeting_recording_url :: "MeetingProvider \<Rightarrow> string \<Rightarrow> string \<Rightarrow> ('s, unit) io"
  db_assign_zoom_host_user :: "Meeting \<Rightarrow> string list \<Rightarrow> int \<Rightarrow> instant \<Rightarrow> instant \<Rightarrow> ('s, string option) io"
  db_claim_meeting_for_auto_end :: "('s, MeetingAutoEndCandidate option) io"
  db_claim_meeting_out_of_sync :: "('s, Meeting option) io"
  db_delete_meeting :: "Meeting \<Rightarrow> ('s, unit) io"
  db_mark_stale_meeting_auto_end_checks_unknown :: "duration \<Rightarrow> ('s, nat) io"
  db_mark_stale_meeting_syncs_unknown :: "duration \<Rightarrow> ('s, nat) io"
  db_release_meeting_auto_end_check_claim :: "MeetingAutoEndCandidate \<Rightarrow> ('s, unit) io"
  db_release_meeting_sync_claim :: "Meeting \<Rightarrow> ('s, unit) io"
  db_set_meeting_auto_end_check_outcome ::
    "MeetingAutoEndCandidate \<Rightarrow> MeetingAutoEndCheckOutcome \<Rightarrow> ('s, unit) io"
  db_set_meeting_error :: "Meeting \<Rightarrow> string \<Rightarrow> ('s, unit) io"
  db_update_meeting :: "Meeting \<Rightarrow> ('s, unit) io"

text \<open>The configuration of Zoom (\<^verbatim>\<open>config.rs\<close>).\<close>

record MeetingsZoomConfig =
  zc_account_id :: string
  zc_client_id :: string
  zc_client_secret :: string
  zc_enabled :: bool
  zc_host_pool_users :: "string list"
  zc_max_participants :: int
  zc_max_simultaneous_meetings_per_host :: int
  zc_webhook_secret_token :: string

section \<open>The auto-end worker\<close>

definition MEETING_PROCESSING_TIMEOUT :: duration where "MEETING_PROCESSING_TIMEOUT = from_secs (15 * 60)"
definition PAUSE_ON_AUTO_END_ERROR :: duration where "PAUSE_ON_AUTO_END_ERROR = from_secs 30"
definition PAUSE_ON_AUTO_END_NONE :: duration where "PAUSE_ON_AUTO_END_NONE = from_secs 60"
definition PAUSE_ON_CLAIM_RECOVERY_ERROR :: duration where "PAUSE_ON_CLAIM_RECOVERY_ERROR = from_secs 30"
definition PAUSE_ON_CLAIM_RECOVERY_NONE :: duration where "PAUSE_ON_CLAIM_RECOVERY_NONE = from_secs 60"
definition PAUSE_ON_SYNC_ERROR :: duration where "PAUSE_ON_SYNC_ERROR = from_secs 30"
definition PAUSE_ON_SYNC_NONE :: duration where "PAUSE_ON_SYNC_NONE = from_secs 30"

type_synonym 's providers = "MeetingProvider \<Rightarrow> 's MeetingsProvider option"

text \<open>The stored outcome for the provider's answer; a retryable error has none.\<close>

definition auto_end_outcome :: "MeetingProviderError + MeetingEndResult \<Rightarrow> MeetingAutoEndCheckOutcome option" where
  "auto_end_outcome answer = (case answer of
     Inr EndAlreadyNotRunning \<Rightarrow> Some OutcomeAlreadyNotRunning
   | Inr MeetingEnded \<Rightarrow> Some OutcomeAutoEnded
   | Inl err \<Rightarrow>
       if err = ProviderNotFound then Some OutcomeNotFound
       else if provider_is_retryable err then None else Some OutcomeError)"

definition auto_end_meeting :: "'s DBMeetings \<Rightarrow> 's providers \<Rightarrow> ('s, SyncError, bool) act" where
  "auto_end_meeting db providers =
     act_bind (act_map_err SyncOther (db_claim_meeting_for_auto_end db)) (\<lambda>claimed.
     case claimed of
       None \<Rightarrow> act_ok False
     | Some candidate \<Rightarrow>
         (case providers (ae_provider candidate) of
            None \<Rightarrow>
              act_bind (act_map_err SyncOther
                (db_set_meeting_auto_end_check_outcome db candidate OutcomeError)) (\<lambda>_. act_ok True)
          | Some provider \<Rightarrow>
              act_try (mp_end_meeting provider (ae_provider_meeting_id candidate)) (\<lambda>answer.
              case auto_end_outcome answer of
                Some outcome \<Rightarrow>
                  act_bind (act_map_err SyncOther
                    (db_set_meeting_auto_end_check_outcome db candidate outcome)) (\<lambda>_. act_ok True)
              | None \<Rightarrow>
                  act_bind (act_map_err SyncOther (db_release_meeting_auto_end_check_claim db candidate))
                    (\<lambda>_. act_err (SyncProvider (projl answer))))))"

section \<open>The sync worker\<close>

definition assign_zoom_host_user ::
    "(instant \<Rightarrow> duration \<Rightarrow> instant option) \<Rightarrow> 's DBMeetings \<Rightarrow> MeetingsZoomConfig option \<Rightarrow> Meeting \<Rightarrow>
     ('s, SyncError, Meeting) act" where
  "assign_zoom_host_user checked_add db zoom_cfg meeting =
     (if mt_provider_host_user_id meeting \<noteq> None then act_ok meeting
      else act_bind (act_lift (ok_or (ProviderNotConfigured Zoom) zoom_cfg)) (\<lambda>cfg.
      act_bind (act_lift (ok_or (SyncProvider (ProviderClient ''missing meeting starts_at''))
        (mt_starts_at meeting))) (\<lambda>starts_at.
      act_bind (act_lift (ok_or (SyncProvider (ProviderClient ''missing meeting duration''))
        (meeting_ends_at checked_add meeting))) (\<lambda>ends_at.
      act_bind (act_map_err SyncOther (db_assign_zoom_host_user db meeting (zc_host_pool_users cfg)
        (zc_max_simultaneous_meetings_per_host cfg) starts_at ends_at)) (\<lambda>host.
      case host of
        None \<Rightarrow> act_err (SyncProvider NoSlotsAvailable)
      | Some h \<Rightarrow> act_ok (meeting\<lparr>mt_provider_host_user_id := Some h\<rparr>))))))"

definition assign_provider_host_user ::
    "(instant \<Rightarrow> duration \<Rightarrow> instant option) \<Rightarrow> 's DBMeetings \<Rightarrow> MeetingsZoomConfig option \<Rightarrow> Meeting \<Rightarrow>
     ('s, SyncError, Meeting) act" where
  "assign_provider_host_user checked_add db zoom_cfg meeting =
     (case mt_provider meeting of Zoom \<Rightarrow> assign_zoom_host_user checked_add db zoom_cfg meeting)"

definition create_meeting ::
    "(instant \<Rightarrow> duration \<Rightarrow> instant option) \<Rightarrow> 's DBMeetings \<Rightarrow> MeetingsZoomConfig option \<Rightarrow> Meeting \<Rightarrow>
     's MeetingsProvider \<Rightarrow> ('s, SyncError, unit) act" where
  "create_meeting checked_add db zoom_cfg meeting provider =
     act_bind (assign_provider_host_user checked_add db zoom_cfg meeting) (\<lambda>meeting.
     act_bind (act_map_err SyncProvider (mp_create_meeting provider meeting)) (\<lambda>provider_meeting.
     act_map_err SyncOther (db_add_meeting db (meeting
       \<lparr>mt_join_url := Some (mp_join_url provider_meeting),
        mt_password := mp_password provider_meeting,
        mt_provider_meeting_id := Some (mp_id provider_meeting)\<rparr>))))"

definition delete_meeting ::
    "'s DBMeetings \<Rightarrow> Meeting \<Rightarrow> 's MeetingsProvider \<Rightarrow> ('s, SyncError, unit) act" where
  "delete_meeting db meeting provider =
     act_bind (case mt_provider_meeting_id meeting of
       None \<Rightarrow> act_ok ()
     | Some i \<Rightarrow> act_try (mp_delete_meeting provider i) (\<lambda>answer.
         case answer of
           Inr _ \<Rightarrow> act_ok ()
         | Inl e \<Rightarrow> if e = ProviderNotFound then act_ok () else act_err (SyncProvider e))) (\<lambda>_.
     act_map_err SyncOther (db_delete_meeting db meeting))"

definition update_meeting ::
    "'s DBMeetings \<Rightarrow> Meeting \<Rightarrow> 's MeetingsProvider \<Rightarrow> ('s, SyncError, unit) act" where
  "update_meeting db meeting provider =
     act_bind (act_lift (ok_or (SyncOther (Msg ''missing provider_meeting_id for update''))
       (mt_provider_meeting_id meeting))) (\<lambda>i.
     act_bind (act_map_err SyncProvider (mp_update_meeting provider i meeting)) (\<lambda>_.
     act_bind (act_map_err SyncProvider (mp_get_meeting provider i)) (\<lambda>provider_meeting.
     act_map_err SyncOther (db_update_meeting db (meeting
       \<lparr>mt_join_url := Some (mp_join_url provider_meeting),
        mt_password := mp_password provider_meeting\<rparr>)))))"

text \<open>What happens with the provider and the tables for a claimed meeting.\<close>

definition sync_claimed_meeting ::
    "(instant \<Rightarrow> duration \<Rightarrow> instant option) \<Rightarrow> 's DBMeetings \<Rightarrow> 's providers \<Rightarrow>
     MeetingsZoomConfig option \<Rightarrow> Meeting \<Rightarrow> ('s, SyncError, unit) act" where
  "sync_claimed_meeting checked_add db providers zoom_cfg meeting =
     (case providers (mt_provider meeting) of
        Some provider \<Rightarrow>
          (case sync_action meeting of
             SyncCreate \<Rightarrow> create_meeting checked_add db zoom_cfg meeting provider
           | SyncDelete \<Rightarrow> delete_meeting db meeting provider
           | SyncUpdate \<Rightarrow> update_meeting db meeting provider)
      | None \<Rightarrow> act_err (ProviderNotConfigured (mt_provider meeting)))"

definition sync_meeting ::
    "(instant \<Rightarrow> duration \<Rightarrow> instant option) \<Rightarrow> 's DBMeetings \<Rightarrow> 's providers \<Rightarrow>
     MeetingsZoomConfig option \<Rightarrow> ('s, SyncError, bool) act" where
  "sync_meeting checked_add db providers zoom_cfg =
     act_bind (act_map_err SyncOther (db_claim_meeting_out_of_sync db)) (\<lambda>claimed.
     case claimed of
       None \<Rightarrow> act_ok False
     | Some meeting \<Rightarrow>
         act_try (sync_claimed_meeting checked_add db providers zoom_cfg meeting) (\<lambda>result.
         case result of
           Inr _ \<Rightarrow> act_ok True
         | Inl err \<Rightarrow>
             if is_non_retryable err
             then act_bind (act_map_err SyncOther
               (db_set_meeting_error db meeting (sync_error_to_string err))) (\<lambda>_. act_ok True)
             else act_bind (act_map_err SyncOther (db_release_meeting_sync_claim db meeting))
               (\<lambda>_. act_err err)))"

section \<open>The loops\<close>

text \<open>A pause in nanoseconds is rounded up to the seconds of the clock model.\<close>

definition pause_secs :: "duration \<Rightarrow> nat" where
  "pause_secs d = (d + 999999999) div 1000000000"

text \<open>The pause after a turn: none after work, the error's own delay or a fixed one otherwise.\<close>

definition meeting_pause :: "duration \<Rightarrow> duration \<Rightarrow> SyncError + bool \<Rightarrow> nat option" where
  "meeting_pause on_none on_error result = (case result of
     Inr True \<Rightarrow> None
   | Inr False \<Rightarrow> Some (pause_secs on_none)
   | Inl err \<Rightarrow> Some (pause_secs (case sync_retry_after err of Some d \<Rightarrow> d | None \<Rightarrow> on_error)))"

definition auto_end_turn :: "'s shutdown \<Rightarrow> 's DBMeetings \<Rightarrow> 's providers \<Rightarrow> 's \<Rightarrow> 's + 's" where
  "auto_end_turn sd db providers s =
     (case auto_end_meeting db providers s of
        (result, s1) \<Rightarrow>
          sleep_then_check sd (meeting_pause PAUSE_ON_AUTO_END_NONE PAUSE_ON_AUTO_END_ERROR result) s1)"

definition auto_end_run :: "'s shutdown \<Rightarrow> 's DBMeetings \<Rightarrow> 's providers \<Rightarrow> 's \<Rightarrow> 's option" where
  "auto_end_run sd db providers = run_loop (auto_end_turn sd db providers)"

definition sync_turn ::
    "(instant \<Rightarrow> duration \<Rightarrow> instant option) \<Rightarrow> 's shutdown \<Rightarrow> 's DBMeetings \<Rightarrow> 's providers \<Rightarrow>
     MeetingsZoomConfig option \<Rightarrow> 's \<Rightarrow> 's + 's" where
  "sync_turn checked_add sd db providers zoom_cfg s =
     (case sync_meeting checked_add db providers zoom_cfg s of
        (result, s1) \<Rightarrow>
          sleep_then_check sd (meeting_pause PAUSE_ON_SYNC_NONE PAUSE_ON_SYNC_ERROR result) s1)"

definition sync_run ::
    "(instant \<Rightarrow> duration \<Rightarrow> instant option) \<Rightarrow> 's shutdown \<Rightarrow> 's DBMeetings \<Rightarrow> 's providers \<Rightarrow>
     MeetingsZoomConfig option \<Rightarrow> 's \<Rightarrow> 's option" where
  "sync_run checked_add sd db providers zoom_cfg = run_loop (sync_turn checked_add sd db providers zoom_cfg)"

definition mark_stale_meeting_claims_unknown :: "'s DBMeetings \<Rightarrow> ('s, nat) io" where
  "mark_stale_meeting_claims_unknown db =
     act_bind (db_mark_stale_meeting_auto_end_checks_unknown db MEETING_PROCESSING_TIMEOUT) (\<lambda>auto_end_count.
     act_bind (db_mark_stale_meeting_syncs_unknown db MEETING_PROCESSING_TIMEOUT) (\<lambda>sync_count.
     act_ok (auto_end_count + sync_count)))"

definition claim_recovery_turn :: "'s shutdown \<Rightarrow> 's DBMeetings \<Rightarrow> 's \<Rightarrow> 's + 's" where
  "claim_recovery_turn sd db s =
     (case mark_stale_meeting_claims_unknown db s of
        (Inr _, s1) \<Rightarrow> sleep_or_break sd (pause_secs PAUSE_ON_CLAIM_RECOVERY_NONE) s1
      | (Inl _, s1) \<Rightarrow> sleep_or_break sd (pause_secs PAUSE_ON_CLAIM_RECOVERY_ERROR) s1)"

definition claim_recovery_run :: "'s shutdown \<Rightarrow> 's DBMeetings \<Rightarrow> 's \<Rightarrow> 's option" where
  "claim_recovery_run sd db = run_loop (claim_recovery_turn sd db)"

section \<open>What the workers rely on\<close>

text \<open>A message that is stored is not blank: every error of the provider starts with words.\<close>

lemma btrim_word: "c \<noteq> CHR '' '' \<Longrightarrow> btrim (c # s) \<noteq> []"
  by (auto simp: btrim_def)

lemma non_retryable_message: "is_non_retryable e \<Longrightarrow> btrim (sync_error_to_string e) \<noteq> []"
  by (cases e)
    (auto simp: is_non_retryable_def sync_error_to_string_def provider_error_to_string_def
      provider_is_retryable_def btrim_word split: MeetingProviderError.splits)

text \<open>
  A claim names its row and the time it was taken at. A meeting that was claimed carries it; the
  claims on events and sessions are on those rows, the claims on meetings without an owner on the
  meeting's own row.
\<close>

datatype meeting_claim = EventClaim uuid instant | SessionClaim uuid instant | OrphanClaim uuid instant

definition claim_of :: "Meeting \<Rightarrow> meeting_claim option" where
  "claim_of m = Option.bind (mt_sync_claimed_at m) (\<lambda>t.
     case (mt_event_id m, mt_session_id m, mt_meeting_id m) of
       (Some i, _, _) \<Rightarrow> Some (EventClaim i t)
     | (None, Some i, _) \<Rightarrow> Some (SessionClaim i t)
     | (None, None, Some i) \<Rightarrow> Some (OrphanClaim i t)
     | (None, None, None) \<Rightarrow> None)"

definition is_orphan_claim :: "meeting_claim \<Rightarrow> bool" where
  "is_orphan_claim c = (case c of OrphanClaim _ _ \<Rightarrow> True | _ \<Rightarrow> False)"

definition within :: "('s \<Rightarrow> bool) \<Rightarrow> ('s \<Rightarrow> 'c set) \<Rightarrow> 'c set \<Rightarrow> 's \<Rightarrow> bool" where
  "within ok claims C s \<longleftrightarrow> ok s \<and> claims s \<subseteq> C"

lemma keeps_withinD:
  assumes "\<And>C. keeps (within ok claims C) m" and "m s = (r, s')" and "ok s"
  shows "ok s' \<and> claims s' \<subseteq> claims s"
  using keepsD [OF assms(1) [of "claims s"], of s] assms(2,3) by (simp add: within_def)

text \<open>An action after whose success a claim is gone.\<close>

definition resolves :: "('s \<Rightarrow> bool) \<Rightarrow> ('s \<Rightarrow> 'c set) \<Rightarrow> 'c \<Rightarrow> ('s, 'e, 'a) act \<Rightarrow> bool" where
  "resolves ok claims c m \<longleftrightarrow> (\<forall>s x s'. m s = (Inr x, s') \<longrightarrow> ok s \<longrightarrow> c \<notin> claims s')"

lemma resolvesD: "resolves ok claims c m \<Longrightarrow> m s = (Inr x, s') \<Longrightarrow> ok s \<Longrightarrow> c \<notin> claims s'"
  by (auto simp: resolves_def)

lemma resolves_map_err: "resolves ok claims c m \<Longrightarrow> resolves ok claims c (act_map_err g m)"
  by (auto simp: resolves_def act_map_err_eq_Inr)

lemma resolves_err [simp]: "resolves ok claims c (act_err e)"
  by (simp add: resolves_def)

lemma resolves_bind:
  assumes "\<And>C. keeps (within ok claims C) m" and "\<And>x. resolves ok claims c (f x)"
  shows "resolves ok claims c (act_bind m f)"
  unfolding resolves_def
proof (intro allI impI)
  fix s y t
  assume "act_bind m f s = (Inr y, t)" and ok: "ok s"
  then obtain x u where m: "m s = (Inr x, u)" and f: "f x u = (Inr y, t)" by (auto simp: act_bind_eq_Inr)
  have "ok u" using keeps_withinD [OF assms(1) m ok] by simp
  then show "c \<notin> claims t" by (rule resolvesD [OF assms(2) f])
qed

text \<open>
  The database of the sync worker: \<open>ok\<close> is an invariant and \<open>claims\<close> are the claims that are held.
  Recording an error and releasing always end the claim, the other completions when they succeed.
\<close>

locale meeting_sync_db =
  fixes db :: "'s DBMeetings" and ok :: "'s \<Rightarrow> bool" and claims :: "'s \<Rightarrow> meeting_claim set"
  assumes claim: "db_claim_meeting_out_of_sync db s = (r, s') \<Longrightarrow> ok s \<Longrightarrow> ok s' \<and>
      (case r of
         Inr (Some m) \<Rightarrow> \<exists>c. claim_of m = Some c \<and> (is_orphan_claim c \<longrightarrow> mt_delete m = Some True) \<and>
           claims s' \<subseteq> insert c (claims s)
       | _ \<Rightarrow> claims s' \<subseteq> claims s)"
    and assign: "keeps (within ok claims C) (db_assign_zoom_host_user db m users n t t')"
    and add: "keeps (within ok claims C) (db_add_meeting db m)"
    and add_resolves: "claim_of m = Some c \<Longrightarrow> \<not> is_orphan_claim c \<Longrightarrow> resolves ok claims c (db_add_meeting db m)"
    and update: "keeps (within ok claims C) (db_update_meeting db m)"
    and update_resolves: "claim_of m = Some c \<Longrightarrow> \<not> is_orphan_claim c \<Longrightarrow>
      resolves ok claims c (db_update_meeting db m)"
    and delete: "keeps (within ok claims C) (db_delete_meeting db m)"
    and delete_resolves: "claim_of m = Some c \<Longrightarrow> resolves ok claims c (db_delete_meeting db m)"
    and set_error: "db_set_meeting_error db m e s = (q, s') \<Longrightarrow> claim_of m = Some c \<Longrightarrow> btrim e \<noteq> [] \<Longrightarrow> ok s \<Longrightarrow>
      ok s' \<and> claims s' \<subseteq> claims s - {c}"
    and release: "db_release_meeting_sync_claim db m s = (q, s') \<Longrightarrow> claim_of m = Some c \<Longrightarrow> ok s \<Longrightarrow>
      ok s' \<and> claims s' \<subseteq> claims s - {c}"

text \<open>With providers that leave the database alone.\<close>

locale meeting_sync = meeting_sync_db db ok claims
  for db :: "'s DBMeetings" and ok :: "'s \<Rightarrow> bool" and claims :: "'s \<Rightarrow> meeting_claim set" +
  fixes providers :: "'s providers"
  assumes provider_create: "providers k = Some p \<Longrightarrow> keeps (within ok claims C) (mp_create_meeting p m)"
    and provider_delete: "providers k = Some p \<Longrightarrow> keeps (within ok claims C) (mp_delete_meeting p i)"
    and provider_get: "providers k = Some p \<Longrightarrow> keeps (within ok claims C) (mp_get_meeting p i)"
    and provider_update: "providers k = Some p \<Longrightarrow> keeps (within ok claims C) (mp_update_meeting p i m)"
begin

lemmas provider_keeps = provider_create provider_delete provider_get provider_update

lemma assign_host_keeps: "keeps (within ok claims C) (assign_provider_host_user checked_add db cfg m)"
  by (auto simp: assign_provider_host_user_def assign_zoom_host_user_def
      intro!: keeps_bind keeps_map_err assign split: MeetingProvider.split option.split)

lemma claimed_keeps: "keeps (within ok claims C) (sync_claimed_meeting checked_add db providers cfg m)"
proof (cases "providers (mt_provider m)")
  case (Some p)
  note provider = provider_keeps [OF Some]
  show ?thesis
    by (auto simp: sync_claimed_meeting_def Some create_meeting_def delete_meeting_def update_meeting_def
        intro!: keeps_bind keeps_try keeps_map_err provider assign_host_keeps add delete update
        split: SyncAction.split option.split sum.split)
qed (simp add: sync_claimed_meeting_def)

lemma claim_of_fields [simp]:
  "claim_of (m\<lparr>mt_join_url := u, mt_password := w\<rparr>) = claim_of m"
  "claim_of (m\<lparr>mt_join_url := u, mt_password := w, mt_provider_meeting_id := i\<rparr>) = claim_of m"
  "claim_of (m\<lparr>mt_provider_host_user_id := h\<rparr>) = claim_of m"
  by (simp_all add: claim_of_def)

lemma create_resolves:
  assumes "claim_of m = Some c" "\<not> is_orphan_claim c" and "providers k = Some p"
  shows "resolves ok claims c (create_meeting checked_add db cfg m p)"
proof -
  have same: "claim_of m' = claim_of m" if "assign_provider_host_user checked_add db cfg m s = (Inr m', s')" for m' s s'
    using that
    by (auto simp: assign_provider_host_user_def assign_zoom_host_user_def act_bind_eq_Inr
        split: MeetingProvider.splits option.splits if_splits)
  show ?thesis
    unfolding resolves_def
  proof (intro allI impI)
    fix s x s'
    assume "create_meeting checked_add db cfg m p s = (Inr x, s')" and ok: "ok s"
    then obtain m' s1 pm s2 where 1: "assign_provider_host_user checked_add db cfg m s = (Inr m', s1)"
      and 2: "act_map_err SyncProvider (mp_create_meeting p m') s1 = (Inr pm, s2)"
      and 3: "db_add_meeting db (m'\<lparr>mt_join_url := Some (mp_join_url pm), mt_password := mp_password pm,
        mt_provider_meeting_id := Some (mp_id pm)\<rparr>) s2 = (Inr x, s')"
      by (auto simp: create_meeting_def act_bind_eq_Inr act_map_err_eq_Inr)
    have "ok s1" using keeps_withinD [OF assign_host_keeps 1 ok] by simp
    then have "ok s2" using keeps_withinD [OF keeps_map_err [OF provider_create [OF assms(3)]] 2] by simp
    moreover have "resolves ok claims c (db_add_meeting db (m'\<lparr>mt_join_url := Some (mp_join_url pm),
        mt_password := mp_password pm, mt_provider_meeting_id := Some (mp_id pm)\<rparr>))"
      by (rule add_resolves [OF _ assms(2)]) (simp add: same [OF 1] assms(1))
    ultimately show "c \<notin> claims s'" using 3 by (auto simp: resolves_def)
  qed
qed

lemma delete_meeting_resolves:
  assumes "claim_of m = Some c" and "providers k = Some p"
  shows "resolves ok claims c (delete_meeting db m p)"
  unfolding delete_meeting_def
  by (rule resolves_bind)
    (auto intro!: keeps_try provider_delete [OF assms(2)] resolves_map_err delete_resolves assms(1)
      split: option.split sum.split)

lemma update_meeting_resolves:
  assumes "claim_of m = Some c" "\<not> is_orphan_claim c" and "providers k = Some p"
  shows "resolves ok claims c (update_meeting db m p)"
  unfolding update_meeting_def
  by (intro resolves_bind resolves_map_err update_resolves keeps_lift keeps_map_err
      provider_update [OF assms(3)] provider_get [OF assms(3)]) (simp_all add: assms)

lemma claimed_resolves:
  assumes "claim_of m = Some c" and "is_orphan_claim c \<longrightarrow> mt_delete m = Some True"
  shows "resolves ok claims c (sync_claimed_meeting checked_add db providers cfg m)"
proof (cases "providers (mt_provider m)")
  case (Some p)
  have "sync_action m \<noteq> SyncDelete \<Longrightarrow> \<not> is_orphan_claim c"
    using assms(2) by (auto simp: sync_action_def)
  then show ?thesis
    using create_resolves [OF assms(1) _ Some] delete_meeting_resolves [OF assms(1) Some]
      update_meeting_resolves [OF assms(1) _ Some]
    by (auto simp: sync_claimed_meeting_def Some split: SyncAction.split)
qed (simp add: sync_claimed_meeting_def)

lemma round:
  assumes "sync_meeting checked_add db providers cfg s = (r, s')" and "ok s"
  shows "ok s' \<and> claims s' \<subseteq> claims s"
proof -
  obtain q s1 where q: "db_claim_meeting_out_of_sync db s = (q, s1)" by fastforce
  note c = claim [OF q assms(2)]
  consider (failed) e where "q = Inl e" | (idle) "q = Inr None" | (claimed) m where "q = Inr (Some m)"
    by (cases q; cases "projr q") auto
  then show ?thesis
  proof cases
    case claimed
    with c obtain k where k: "claim_of m = Some k" "is_orphan_claim k \<longrightarrow> mt_delete m = Some True"
      and 1: "ok s1" "claims s1 \<subseteq> insert k (claims s)" by auto
    obtain w s2 where w: "sync_claimed_meeting checked_add db providers cfg m s1 = (w, s2)" by fastforce
    have 2: "ok s2" "claims s2 \<subseteq> claims s1" using keeps_withinD [OF claimed_keeps w 1(1)] by simp_all
    show ?thesis
    proof (cases w)
      case (Inr x)
      then show ?thesis
        using resolvesD [OF claimed_resolves [OF k] w [unfolded Inr] 1(1)] 1 2 assms(1) q w claimed
        by (auto simp: sync_meeting_def act_bind_def act_map_err_def act_try_def)
    next
      case (Inl err)
      obtain z s3 where z: "db_set_meeting_error db m (sync_error_to_string err) s2 = (z, s3)" by fastforce
      obtain v s4 where v: "db_release_meeting_sync_claim db m s2 = (v, s4)" by fastforce
      have "s' = (if is_non_retryable err then s3 else s4)"
        using assms(1) q w claimed Inl z v
        by (auto simp: sync_meeting_def act_bind_def act_map_err_def act_try_def split: sum.splits)
      moreover have "is_non_retryable err \<Longrightarrow> ok s3 \<and> claims s3 \<subseteq> claims s2 - {k}"
        by (rule set_error [OF z k(1) non_retryable_message 2(1)])
      moreover have "ok s4 \<and> claims s4 \<subseteq> claims s2 - {k}" by (rule release [OF v k(1) 2(1)])
      ultimately show ?thesis using 1(2) 2(2) by (auto split: if_splits)
    qed
  qed (use c assms(1) q in \<open>auto simp: sync_meeting_def act_bind_def act_map_err_def\<close>)
qed

end

text \<open>
  The same for the auto-end worker, whose claims are pairs of a meeting and a time. Recording an
  outcome and releasing end a claim.
\<close>

definition check_of :: "MeetingAutoEndCandidate \<Rightarrow> uuid \<times> instant" where
  "check_of c = (ae_meeting_id c, ae_auto_end_check_claimed_at c)"

locale meeting_auto_end =
  fixes db :: "'s DBMeetings" and ok :: "'s \<Rightarrow> bool" and checks :: "'s \<Rightarrow> (uuid \<times> instant) set"
    and providers :: "'s providers"
  assumes claim_check: "db_claim_meeting_for_auto_end db s = (r, s') \<Longrightarrow> ok s \<Longrightarrow> ok s' \<and>
      (case r of Inr (Some c) \<Rightarrow> checks s' \<subseteq> insert (check_of c) (checks s) | _ \<Rightarrow> checks s' \<subseteq> checks s)"
    and set_outcome: "db_set_meeting_auto_end_check_outcome db c outcome s = (q, s') \<Longrightarrow> ok s \<Longrightarrow>
      ok s' \<and> checks s' \<subseteq> checks s - {check_of c}"
    and release_check: "db_release_meeting_auto_end_check_claim db c s = (q, s') \<Longrightarrow> ok s \<Longrightarrow>
      ok s' \<and> checks s' \<subseteq> checks s - {check_of c}"
    and provider_end: "providers k = Some p \<Longrightarrow> keeps (within ok checks C) (mp_end_meeting p i)"
begin

lemma check_round:
  assumes "auto_end_meeting db providers s = (r, s')" and "ok s"
  shows "ok s' \<and> checks s' \<subseteq> checks s"
proof -
  obtain q s1 where q: "db_claim_meeting_for_auto_end db s = (q, s1)" by fastforce
  note c = claim_check [OF q assms(2)]
  consider (failed) e where "q = Inl e" | (idle) "q = Inr None" | (claimed) c where "q = Inr (Some c)"
    by (cases q; cases "projr q") auto
  then show ?thesis
  proof cases
    case (claimed k)
    then have 1: "ok s1" "checks s1 \<subseteq> insert (check_of k) (checks s)" using c by auto
    note end' = assms(1) q claimed
    have *: "ok s' \<and> checks s' \<subseteq> checks s2 - {check_of k}"
      if "ok s2" and "(\<exists>out z. db_set_meeting_auto_end_check_outcome db k out s2 = (z, s')) \<or>
        (\<exists>z. db_release_meeting_auto_end_check_claim db k s2 = (z, s'))" for s2
      using that set_outcome release_check by blast
    show ?thesis
    proof (cases "providers (ae_provider k)")
      case None
      then have "\<exists>z. db_set_meeting_auto_end_check_outcome db k OutcomeError s1 = (z, s')"
        using end' by (auto simp: auto_end_meeting_def act_bind_def act_map_err_def
            split: sum.splits prod.splits)
      then show ?thesis using * [OF 1(1)] 1(2) by auto
    next
      case (Some p)
      obtain w s2 where w: "mp_end_meeting p (ae_provider_meeting_id k) s1 = (w, s2)" by fastforce
      have 2: "ok s2" "checks s2 \<subseteq> checks s1" using keeps_withinD [OF provider_end [OF Some] w 1(1)] by simp_all
      have "(\<exists>out z. db_set_meeting_auto_end_check_outcome db k out s2 = (z, s')) \<or>
        (\<exists>z. db_release_meeting_auto_end_check_claim db k s2 = (z, s'))"
        using end' Some w
        by (cases "auto_end_outcome w")
          (auto simp: auto_end_meeting_def act_bind_def act_map_err_def act_try_def split: sum.splits prod.splits)
      then show ?thesis using * [OF 2(1)] 1(2) 2(2) by auto
    qed
  qed (use c assms(1) q in \<open>auto simp: auto_end_meeting_def act_bind_def act_map_err_def\<close>)
qed

end

end
