(* ===== verification/Meeting_Store.thy ===== *)
theory Meeting_Store
  imports Meetings "HOL-Library.Product_Lexorder" "HOL-Library.List_Lexorder" "HOL-Library.Char_ord"
begin

text \<open>
  The tables and database functions behind the synchronisation of meetings
  (\<^verbatim>\<open>database/migrations/functions/meetings\<close>), and the Postgres implementation of the trait
  \<^verbatim>\<open>DBMeetings\<close> over them (\<^verbatim>\<open>db/meetings.rs\<close>).

  Of the tables \<^verbatim>\<open>event\<close> and \<^verbatim>\<open>session\<close> there are the columns the functions read or write. A function
  runs in one transaction, at the time \<open>mst_now\<close> (in microseconds); rows locked by other transactions
  are in \<open>mst_locked\<close>. The order of a table is its physical one, which the functions do not fix. The
  digest of the state hashes is a parameter, a function of the values that are hashed. \<^verbatim>\<open>lower\<close> is
  modelled for ASCII, the text order is that of the C collation, and a duration passes exactly
  through the JSON answer.
\<close>

section \<open>Tables\<close>

record owner_row =
  mo_ends_at :: "instant option"
  mo_meeting_error :: "string option"
  mo_meeting_hosts :: "string option list option"
  mo_meeting_in_sync :: "bool option"
  mo_meeting_provider_host_user :: "string option"
  mo_meeting_provider_id :: "MeetingProvider option"
  mo_meeting_requested :: "bool option"
  mo_meeting_sync_claimed_at :: "instant option"
  mo_name :: string
  mo_starts_at :: "instant option"

record event_row = owner_row +
  me_event_id :: uuid
  me_canceled :: bool
  me_deleted :: bool
  me_hosts :: "uuid list"
  me_meeting_recording_requested :: bool
  me_published :: bool
  me_speakers :: "uuid list"
  me_timezone :: string

record session_row = owner_row +
  mn_session_id :: uuid
  mn_event_id :: uuid
  mn_session_kind_id :: string
  mn_speakers :: "uuid list"

record meeting_row =
  mm_meeting_id :: uuid
  mm_auto_end_check_at :: "instant option"
  mm_auto_end_check_claimed_at :: "instant option"
  mm_auto_end_check_outcome :: "string option"
  mm_event_id :: "uuid option"
  mm_join_url :: string
  mm_meeting_provider_id :: MeetingProvider
  mm_password :: "string option"
  mm_provider_host_user_id :: "string option"
  mm_provider_meeting_id :: string
  mm_recording_urls :: "string list"
  mm_session_id :: "uuid option"
  mm_sync_claimed_at :: "instant option"

record meeting_store =
  mst_now :: instant
  mst_locked :: "uuid list"
  mst_emails :: "uuid \<Rightarrow> string"
  mst_events :: "event_row list"
  mst_sessions :: "session_row list"
  mst_meetings :: "meeting_row list"

type_synonym 'a meeting_tx = "meeting_store \<Rightarrow> string + 'a \<times> meeting_store"

definition find_event :: "uuid \<Rightarrow> meeting_store \<Rightarrow> event_row option" where
  "find_event i st = find (\<lambda>e. me_event_id e = i) (mst_events st)"

definition find_session :: "uuid \<Rightarrow> meeting_store \<Rightarrow> session_row option" where
  "find_session i st = find (\<lambda>s. mn_session_id s = i) (mst_sessions st)"

definition meeting_of_event :: "uuid \<Rightarrow> meeting_store \<Rightarrow> meeting_row option" where
  "meeting_of_event i st = find (\<lambda>m. mm_event_id m = Some i) (mst_meetings st)"

definition meeting_of_session :: "uuid \<Rightarrow> meeting_store \<Rightarrow> meeting_row option" where
  "meeting_of_session i st = find (\<lambda>m. mm_session_id m = Some i) (mst_meetings st)"

definition update_events :: "(event_row \<Rightarrow> bool) \<Rightarrow> (event_row \<Rightarrow> event_row) \<Rightarrow> meeting_store \<Rightarrow> meeting_store" where
  "update_events P f st = st\<lparr>mst_events := map (\<lambda>e. if P e then f e else e) (mst_events st)\<rparr>"

definition update_sessions ::
    "(session_row \<Rightarrow> bool) \<Rightarrow> (session_row \<Rightarrow> session_row) \<Rightarrow> meeting_store \<Rightarrow> meeting_store" where
  "update_sessions P f st = st\<lparr>mst_sessions := map (\<lambda>s. if P s then f s else s) (mst_sessions st)\<rparr>"

definition update_meetings ::
    "(meeting_row \<Rightarrow> bool) \<Rightarrow> (meeting_row \<Rightarrow> meeting_row) \<Rightarrow> meeting_store \<Rightarrow> meeting_store" where
  "update_meetings P f st = st\<lparr>mst_meetings := map (\<lambda>m. if P m then f m else m) (mst_meetings st)\<rparr>"

text \<open>Comparison in SQL: with a null there is no answer.\<close>

definition sql_eq :: "'a option \<Rightarrow> 'a option \<Rightarrow> bool option" where
  "sql_eq a b = (case (a, b) of (Some x, Some y) \<Rightarrow> Some (x = y) | _ \<Rightarrow> None)"

section \<open>The state hash\<close>

text \<open>The values that are hashed. Arrays of no rows are null, and so is the sorted form of one.\<close>

definition array_agg :: "'a list \<Rightarrow> 'a list option" where
  "array_agg xs = (if xs = [] then None else Some xs)"

text \<open>Text in ascending order, nulls last.\<close>

definition sorted_hosts :: "string option list option \<Rightarrow> string option list option" where
  "sorted_hosts hosts = Option.bind hosts (\<lambda>hs. array_agg (sort_key (\<lambda>h. (h = None, coalesce h [])) hs))"

datatype sync_inputs =
    EventInputs bool bool "instant option" "uuid list option" uuid "uuid list option" "string option list option"
      "MeetingProvider option" bool "bool option" string bool "instant option" string
  | SessionInputs bool bool "uuid list option" bool bool string "instant option" "string option list option"
      "MeetingProvider option" "bool option" string uuid string "uuid list option" "instant option"

definition event_inputs :: "event_row \<Rightarrow> sync_inputs" where
  "event_inputs e = EventInputs (me_canceled e) (me_deleted e) (mo_ends_at e)
     (array_agg (sort_key uint (me_hosts e))) (me_event_id e) (array_agg (sort_key uint (me_speakers e)))
     (sorted_hosts (mo_meeting_hosts e)) (mo_meeting_provider_id e) (me_meeting_recording_requested e)
     (mo_meeting_requested e) (mo_name e) (me_published e) (mo_starts_at e) (me_timezone e)"

definition session_inputs :: "event_row \<Rightarrow> session_row \<Rightarrow> sync_inputs" where
  "session_inputs e s = SessionInputs (me_canceled e) (me_deleted e) (array_agg (sort_key uint (me_hosts e)))
     (me_published e) (me_meeting_recording_requested e) (me_timezone e) (mo_ends_at s)
     (sorted_hosts (mo_meeting_hosts s)) (mo_meeting_provider_id s) (mo_meeting_requested s) (mo_name s)
     (mn_session_id s) (mn_session_kind_id s) (array_agg (sort_key uint (mn_speakers s))) (mo_starts_at s)"

type_synonym digest = "sync_inputs \<Rightarrow> string"

definition get_event_meeting_sync_state_hash :: "digest \<Rightarrow> uuid \<Rightarrow> meeting_store \<Rightarrow> string option" where
  "get_event_meeting_sync_state_hash digest i st = map_option (\<lambda>e. digest (event_inputs e)) (find_event i st)"

definition get_session_meeting_sync_state_hash :: "digest \<Rightarrow> uuid \<Rightarrow> meeting_store \<Rightarrow> string option" where
  "get_session_meeting_sync_state_hash digest i st =
     Option.bind (find_session i st) (\<lambda>s.
     map_option (\<lambda>e. digest (session_inputs e s)) (find_event (mn_event_id s) st))"

section \<open>Completing a claim\<close>

definition completed_owner :: "bool option \<Rightarrow> string option \<Rightarrow> 'a owner_row_scheme \<Rightarrow> 'a owner_row_scheme" where
  "completed_owner same error o' = o'
     \<lparr>mo_meeting_error := (if same = Some True then error else mo_meeting_error o'),
      mo_meeting_in_sync := same,
      mo_meeting_provider_host_user := None,
      mo_meeting_sync_claimed_at := None\<rparr>"

definition event_claimed :: "uuid \<Rightarrow> instant option \<Rightarrow> event_row \<Rightarrow> bool" where
  "event_claimed i claimed_at e \<longleftrightarrow>
     me_event_id e = i \<and> claimed_at \<noteq> None \<and> mo_meeting_sync_claimed_at e = claimed_at"

definition session_claimed :: "uuid \<Rightarrow> instant option \<Rightarrow> session_row \<Rightarrow> bool" where
  "session_claimed i claimed_at s \<longleftrightarrow>
     mn_session_id s = i \<and> claimed_at \<noteq> None \<and> mo_meeting_sync_claimed_at s = claimed_at"

definition orphan_claimed :: "uuid \<Rightarrow> instant option \<Rightarrow> meeting_row \<Rightarrow> bool" where
  "orphan_claimed i claimed_at m \<longleftrightarrow>
     mm_meeting_id m = i \<and> claimed_at \<noteq> None \<and> mm_sync_claimed_at m = claimed_at"

text \<open>The update of the owner, with \<^verbatim>\<open>found\<close>.\<close>

definition complete_event ::
    "digest \<Rightarrow> uuid \<Rightarrow> instant option \<Rightarrow> string option \<Rightarrow> string option \<Rightarrow> meeting_store \<Rightarrow> bool \<times> meeting_store" where
  "complete_event digest i claimed_at hash error st =
     (list_ex (event_claimed i claimed_at) (mst_events st),
      update_events (event_claimed i claimed_at)
        (completed_owner (sql_eq (get_event_meeting_sync_state_hash digest i st) hash) error) st)"

definition complete_session ::
    "digest \<Rightarrow> uuid \<Rightarrow> instant option \<Rightarrow> string option \<Rightarrow> string option \<Rightarrow> meeting_store \<Rightarrow> bool \<times> meeting_store" where
  "complete_session digest i claimed_at hash error st =
     (list_ex (session_claimed i claimed_at) (mst_sessions st),
      update_sessions (session_claimed i claimed_at)
        (completed_owner (sql_eq (get_session_meeting_sync_state_hash digest i st) hash) error) st)"

text \<open>Both owners in turn, as in \<^verbatim>\<open>add_meeting\<close>, \<^verbatim>\<open>delete_meeting\<close> and \<^verbatim>\<open>update_meeting\<close>.\<close>

definition complete_owners :: "digest \<Rightarrow> Meeting \<Rightarrow> meeting_store \<Rightarrow> bool \<times> meeting_store" where
  "complete_owners digest m st =
     (let (held1, st1) = (case mt_event_id m of None \<Rightarrow> (False, st)
            | Some i \<Rightarrow> complete_event digest i (mt_sync_claimed_at m) (mt_sync_state_hash m) None st)
      in case mt_session_id m of None \<Rightarrow> (held1, st1)
         | Some i \<Rightarrow> complete_session digest i (mt_sync_claimed_at m) (mt_sync_state_hash m) None st1)"

section \<open>The functions of the sync worker\<close>

definition sql_raise :: "string \<Rightarrow> 'a meeting_tx" where
  "sql_raise message st = Inl message"

text \<open>A new row; \<open>new_id\<close> is its \<^verbatim>\<open>gen_random_uuid()\<close>. The constraints of the table are checked.\<close>

definition insert_meeting :: "uuid \<Rightarrow> Meeting \<Rightarrow> unit meeting_tx" where
  "insert_meeting new_id m st =
     (case (mt_provider_meeting_id m, mt_join_url m) of
        (Some pid, Some url) \<Rightarrow>
          if btrim pid = [] \<or> btrim url = [] \<or> map_option btrim (mt_provider_host_user_id m) = Some []
          then Inl ''violates check constraint''
          else if list_ex (\<lambda>r. mm_meeting_id r = new_id \<or> mm_provider_meeting_id r = pid \<or>
              mt_event_id m \<noteq> None \<and> mm_event_id r = mt_event_id m \<or>
              mt_session_id m \<noteq> None \<and> mm_session_id r = mt_session_id m) (mst_meetings st)
          then Inl ''duplicate key value violates unique constraint''
          else Inr ((), st\<lparr>mst_meetings := mst_meetings st @
            [\<lparr>mm_meeting_id = new_id, mm_auto_end_check_at = None, mm_auto_end_check_claimed_at = None,
              mm_auto_end_check_outcome = None, mm_event_id = mt_event_id m, mm_join_url = url,
              mm_meeting_provider_id = mt_provider m, mm_password = mt_password m,
              mm_provider_host_user_id = mt_provider_host_user_id m, mm_provider_meeting_id = pid,
              mm_recording_urls = [], mm_session_id = mt_session_id m, mm_sync_claimed_at = None\<rparr>]\<rparr>)
      | _ \<Rightarrow> Inl ''null value violates not-null constraint'')"

definition add_meeting :: "digest \<Rightarrow> uuid \<Rightarrow> Meeting \<Rightarrow> unit meeting_tx" where
  "add_meeting digest new_id m st =
     (case complete_owners digest m st of (held, st1) \<Rightarrow>
        if held then insert_meeting new_id m st1 else Inr ((), st1))"

definition update_meeting_row :: "Meeting \<Rightarrow> unit meeting_tx" where
  "update_meeting_row m st =
     (case mt_meeting_id m of
        None \<Rightarrow> Inr ((), st)
      | Some i \<Rightarrow>
          if \<not> list_ex (\<lambda>r. mm_meeting_id r = i) (mst_meetings st) then Inr ((), st)
          else case (mt_provider_meeting_id m, mt_join_url m) of
            (Some pid, Some url) \<Rightarrow>
              if btrim pid = [] \<or> btrim url = [] then Inl ''violates check constraint''
              else if list_ex (\<lambda>r. mm_meeting_id r \<noteq> i \<and> mm_provider_meeting_id r = pid) (mst_meetings st)
              then Inl ''duplicate key value violates unique constraint''
              else Inr ((), update_meetings (\<lambda>r. mm_meeting_id r = i)
                (\<lambda>r. r\<lparr>mm_provider_meeting_id := pid, mm_join_url := url, mm_password := mt_password m\<rparr>) st)
          | _ \<Rightarrow> Inl ''null value violates not-null constraint'')"

definition update_meeting_sql :: "digest \<Rightarrow> Meeting \<Rightarrow> unit meeting_tx" where
  "update_meeting_sql digest m st =
     (case complete_owners digest m st of (held, st1) \<Rightarrow>
        if held then update_meeting_row m st1 else Inr ((), st1))"

definition remove_meetings :: "(meeting_row \<Rightarrow> bool) \<Rightarrow> meeting_store \<Rightarrow> meeting_store" where
  "remove_meetings P st = st\<lparr>mst_meetings := filter (\<lambda>m. \<not> P m) (mst_meetings st)\<rparr>"

definition remove_orphan :: "Meeting \<Rightarrow> meeting_store \<Rightarrow> meeting_store" where
  "remove_orphan m st = (case mt_meeting_id m of None \<Rightarrow> st
     | Some i \<Rightarrow> remove_meetings (orphan_claimed i (mt_sync_claimed_at m)) st)"

definition delete_meeting_sql :: "digest \<Rightarrow> Meeting \<Rightarrow> unit meeting_tx" where
  "delete_meeting_sql digest m st =
     (if mt_event_id m = None \<and> mt_session_id m = None then Inr ((), remove_orphan m st)
      else case complete_owners digest m st of (held, st1) \<Rightarrow>
        Inr ((), case mt_meeting_id m of
          Some i \<Rightarrow> if held then remove_meetings (\<lambda>r. mm_meeting_id r = i) st1 else st1
        | None \<Rightarrow> st1))"

text \<open>The check constraint on \<^verbatim>\<open>meeting_error\<close> is against a blank one.\<close>

definition set_meeting_error :: "digest \<Rightarrow> Meeting \<Rightarrow> string \<Rightarrow> unit meeting_tx" where
  "set_meeting_error digest m error st =
     (case (mt_event_id m, mt_session_id m) of
        (Some i, _) \<Rightarrow>
          (case complete_event digest i (mt_sync_claimed_at m) (mt_sync_state_hash m) (Some error) st of
             (held, st1) \<Rightarrow>
               if held \<and> sql_eq (get_event_meeting_sync_state_hash digest i st) (mt_sync_state_hash m) = Some True \<and>
                 btrim error = []
               then Inl ''violates check constraint'' else Inr ((), st1))
      | (None, Some i) \<Rightarrow>
          (case complete_session digest i (mt_sync_claimed_at m) (mt_sync_state_hash m) (Some error) st of
             (held, st1) \<Rightarrow>
               if held \<and> sql_eq (get_session_meeting_sync_state_hash digest i st) (mt_sync_state_hash m) = Some True \<and>
                 btrim error = []
               then Inl ''violates check constraint'' else Inr ((), st1))
      | (None, None) \<Rightarrow> Inr ((), remove_orphan m st))"

definition released_owner :: "'a owner_row_scheme \<Rightarrow> 'a owner_row_scheme" where
  "released_owner o' = o'\<lparr>mo_meeting_provider_host_user := None, mo_meeting_sync_claimed_at := None\<rparr>"

definition release_meeting_sync_claim :: "Meeting \<Rightarrow> unit meeting_tx" where
  "release_meeting_sync_claim m st = Inr ((),
     case (mt_event_id m, mt_session_id m, mt_meeting_id m) of
       (Some i, _, _) \<Rightarrow> update_events
         (\<lambda>e. event_claimed i (mt_sync_claimed_at m) e \<and> mo_meeting_in_sync e = Some False) released_owner st
     | (None, Some i, _) \<Rightarrow> update_sessions
         (\<lambda>s. session_claimed i (mt_sync_claimed_at m) s \<and> mo_meeting_in_sync s = Some False) released_owner st
     | (None, None, Some i) \<Rightarrow> update_meetings (orphan_claimed i (mt_sync_claimed_at m))
         (\<lambda>r. r\<lparr>mm_sync_claimed_at := None\<rparr>) st
     | (None, None, None) \<Rightarrow> st)"

section \<open>Claiming\<close>

definition sync_pending :: "'a owner_row_scheme \<Rightarrow> bool" where
  "sync_pending o' \<longleftrightarrow> mo_meeting_in_sync o' = Some False \<and> mo_meeting_sync_claimed_at o' = None"

definition starts_after :: "instant \<Rightarrow> 'a owner_row_scheme \<Rightarrow> bool" where
  "starts_after now o' \<longleftrightarrow> (case mo_starts_at o' of Some t \<Rightarrow> now < t | None \<Rightarrow> False)"

text \<open>An owner to create or update a meeting for, and one to delete the meeting of.\<close>

definition needs_sync :: "instant \<Rightarrow> event_row \<Rightarrow> 'a owner_row_scheme \<Rightarrow> bool" where
  "needs_sync now e o' \<longleftrightarrow> mo_meeting_requested o' = Some True \<and> sync_pending o' \<and>
     \<not> me_deleted e \<and> \<not> me_canceled e \<and> me_published e \<and> starts_after now o'"

definition needs_delete :: "event_row \<Rightarrow> 'a owner_row_scheme \<Rightarrow> bool" where
  "needs_delete e o' \<longleftrightarrow> sync_pending o' \<and>
     (mo_meeting_requested o' = Some True \<and> (me_deleted e \<or> me_canceled e \<or> \<not> me_published e) \<or>
      mo_meeting_requested o' = Some False)"

definition claimed_owner :: "instant \<Rightarrow> 'a owner_row_scheme \<Rightarrow> 'a owner_row_scheme" where
  "claimed_owner now o' = o'\<lparr>mo_meeting_error := None, mo_meeting_sync_claimed_at := Some now\<rparr>"

definition claim_event :: "event_row \<Rightarrow> meeting_store \<Rightarrow> meeting_store" where
  "claim_event e st = update_events (\<lambda>x. me_event_id x = me_event_id e) (claimed_owner (mst_now st)) st"

definition claim_session :: "session_row \<Rightarrow> meeting_store \<Rightarrow> meeting_store" where
  "claim_session s st =
     update_sessions (\<lambda>x. mn_session_id x = mn_session_id s) (claimed_owner (mst_now st)) st"

definition claim_orphan :: "meeting_row \<Rightarrow> meeting_store \<Rightarrow> meeting_store" where
  "claim_orphan m st = update_meetings (\<lambda>x. mm_meeting_id x = mm_meeting_id m)
     (\<lambda>x. x\<lparr>mm_sync_claimed_at := Some (mst_now st)\<rparr>) st"

text \<open>The addresses of the hosts: explicit ones, and those of the host and speaker users.\<close>

definition combined_hosts :: "string option list option \<Rightarrow> string list \<Rightarrow> string list option" where
  "combined_hosts explicit emails =
     array_agg (sort (remdups (List.map_filter (\<lambda>h. h) (coalesce explicit []) @ emails)))"

definition duration_between :: "instant option \<Rightarrow> instant option \<Rightarrow> duration option" where
  "duration_between starts_at ends_at = (case (starts_at, ends_at) of
     (Some s, Some e) \<Rightarrow> Some (nat (e - s) * 1000) | _ \<Rightarrow> None)"

text \<open>The parts of an answer that come from the meeting's row, if there is one.\<close>

definition answer_of :: "meeting_row option \<Rightarrow> Meeting" where
  "answer_of row = \<lparr>mt_provider = Zoom, mt_delete = Some True, mt_duration = None, mt_event_id = None,
     mt_hosts = None, mt_join_url = map_option mm_join_url row, mt_meeting_id = map_option mm_meeting_id row,
     mt_password = Option.bind row mm_password, mt_provider_host_user_id = None,
     mt_provider_meeting_id = map_option mm_provider_meeting_id row, mt_recording_requested = None,
     mt_session_id = None, mt_starts_at = None, mt_sync_claimed_at = None, mt_sync_state_hash = None,
     mt_timezone = None, mt_topic = None\<rparr>"

definition delete_answer ::
    "meeting_row option \<Rightarrow> instant \<Rightarrow> string option \<Rightarrow> 'a owner_row_scheme \<Rightarrow> Meeting" where
  "delete_answer row now hash o' = (answer_of row)
     \<lparr>mt_provider := (case row of Some m \<Rightarrow> mm_meeting_provider_id m | None \<Rightarrow> Zoom),
      mt_provider_host_user_id := mo_meeting_provider_host_user o',
      mt_sync_claimed_at := Some now, mt_sync_state_hash := hash\<rparr>"

definition sync_answer ::
    "meeting_row option \<Rightarrow> instant \<Rightarrow> string option \<Rightarrow> string list \<Rightarrow> event_row \<Rightarrow> 'a owner_row_scheme \<Rightarrow> Meeting" where
  "sync_answer row now hash emails e o' = (answer_of row)
     \<lparr>mt_provider := coalesce (mo_meeting_provider_id o') Zoom, mt_delete := Some False,
      mt_duration := duration_between (mo_starts_at o') (mo_ends_at o'),
      mt_hosts := combined_hosts (mo_meeting_hosts o') emails,
      mt_provider_host_user_id := mo_meeting_provider_host_user o',
      mt_recording_requested := Some (me_meeting_recording_requested e),
      mt_starts_at := mo_starts_at o',
      mt_sync_claimed_at := Some now, mt_sync_state_hash := hash,
      mt_timezone := Some (me_timezone e), mt_topic := Some (mo_name o')\<rparr>"

definition event_answer :: "digest \<Rightarrow> meeting_store \<Rightarrow> event_row \<Rightarrow> bool \<Rightarrow> Meeting" where
  "event_answer digest st e delete =
     (let row = meeting_of_event (me_event_id e) st;
          hash = get_event_meeting_sync_state_hash digest (me_event_id e) st;
          emails = map (mst_emails st) (me_hosts e @ me_speakers e)
      in (if delete then delete_answer row (mst_now st) hash e else sync_answer row (mst_now st) hash emails e e)
         \<lparr>mt_event_id := Some (me_event_id e)\<rparr>)"

definition session_answer :: "digest \<Rightarrow> meeting_store \<Rightarrow> event_row \<Rightarrow> session_row \<Rightarrow> bool \<Rightarrow> Meeting" where
  "session_answer digest st e s delete =
     (let row = meeting_of_session (mn_session_id s) st;
          hash = get_session_meeting_sync_state_hash digest (mn_session_id s) st;
          emails = map (mst_emails st) (me_hosts e @ mn_speakers s)
      in (if delete then delete_answer row (mst_now st) hash s else sync_answer row (mst_now st) hash emails e s)
         \<lparr>mt_session_id := Some (mn_session_id s)\<rparr>)"

definition orphan_answer :: "meeting_store \<Rightarrow> meeting_row \<Rightarrow> Meeting" where
  "orphan_answer st m = (answer_of (Some m))
     \<lparr>mt_provider := mm_meeting_provider_id m, mt_provider_host_user_id := mm_provider_host_user_id m,
      mt_sync_claimed_at := Some (mst_now st)\<rparr>"

text \<open>A session with its event (\<^verbatim>\<open>join event\<close>).\<close>

definition on_event :: "meeting_store \<Rightarrow> (event_row \<Rightarrow> session_row \<Rightarrow> bool) \<Rightarrow> session_row \<Rightarrow> bool" where
  "on_event st P s = (case find_event (mn_event_id s) st of Some e \<Rightarrow> P e s | None \<Rightarrow> False)"

definition next_event :: "(event_row \<Rightarrow> bool) \<Rightarrow> meeting_store \<Rightarrow> event_row option" where
  "next_event P st = find (\<lambda>e. P e \<and> me_event_id e \<notin> set (mst_locked st)) (mst_events st)"

definition next_session :: "(event_row \<Rightarrow> session_row \<Rightarrow> bool) \<Rightarrow> meeting_store \<Rightarrow> session_row option" where
  "next_session P st = find (\<lambda>s. on_event st P s \<and> mn_session_id s \<notin> set (mst_locked st)) (mst_sessions st)"

definition next_orphan :: "meeting_store \<Rightarrow> meeting_row option" where
  "next_orphan st = find (\<lambda>m. mm_event_id m = None \<and> mm_session_id m = None \<and> mm_sync_claimed_at m = None \<and>
     mm_meeting_id m \<notin> set (mst_locked st)) (mst_meetings st)"

text \<open>
  The answer is read after the update; a row of the claimed owner carries the values before it in
  all columns that are read but the claim.
\<close>

definition claim_meeting_out_of_sync :: "digest \<Rightarrow> Meeting option meeting_tx" where
  "claim_meeting_out_of_sync digest st = Inr (
     case next_event (\<lambda>e. needs_sync (mst_now st) e e) st of
       Some e \<Rightarrow> (Some (event_answer digest st e False), claim_event e st)
     | None \<Rightarrow>
     case next_session (needs_sync (mst_now st)) st of
       Some s \<Rightarrow> (Some (session_answer digest st (the (find_event (mn_event_id s) st)) s False), claim_session s st)
     | None \<Rightarrow>
     case next_event (\<lambda>e. needs_delete e e) st of
       Some e \<Rightarrow> (Some (event_answer digest st e True), claim_event e st)
     | None \<Rightarrow>
     case next_session needs_delete st of
       Some s \<Rightarrow> (Some (session_answer digest st (the (find_event (mn_event_id s) st)) s True), claim_session s st)
     | None \<Rightarrow>
     case next_orphan st of
       Some m \<Rightarrow> (Some (orphan_answer st m), claim_orphan m st)
     | None \<Rightarrow> (None, st))"

section \<open>Giving up abandoned claims\<close>

definition older_than :: "instant \<Rightarrow> int \<Rightarrow> instant option \<Rightarrow> bool" where
  "older_than now timeout claimed_at =
     (case claimed_at of Some t \<Rightarrow> t < now - timeout * 1000000 | None \<Rightarrow> False)"

definition OUTCOME_UNKNOWN :: string where
  "OUTCOME_UNKNOWN = ''meeting synchronization outcome unknown after processing timeout''"

definition abandoned_owner :: "'a owner_row_scheme \<Rightarrow> 'a owner_row_scheme" where
  "abandoned_owner o' = o'\<lparr>mo_meeting_error := Some OUTCOME_UNKNOWN, mo_meeting_in_sync := Some True,
     mo_meeting_provider_host_user := None, mo_meeting_sync_claimed_at := None\<rparr>"

definition stale_orphan :: "instant \<Rightarrow> int \<Rightarrow> meeting_row \<Rightarrow> bool" where
  "stale_orphan now timeout m \<longleftrightarrow>
     mm_event_id m = None \<and> mm_session_id m = None \<and> older_than now timeout (mm_sync_claimed_at m)"

definition stale_owner :: "instant \<Rightarrow> int \<Rightarrow> 'a owner_row_scheme \<Rightarrow> bool" where
  "stale_owner now timeout o' = older_than now timeout (mo_meeting_sync_claimed_at o')"

definition mark_stale_meeting_syncs_unknown :: "int \<Rightarrow> int meeting_tx" where
  "mark_stale_meeting_syncs_unknown timeout st =
     (if timeout \<le> 0 then Inl ''processing timeout must be positive''
      else Inr
        (int (length (filter (stale_owner (mst_now st) timeout) (mst_events st)) +
              length (filter (stale_owner (mst_now st) timeout) (mst_sessions st)) +
              length (filter (stale_orphan (mst_now st) timeout) (mst_meetings st))),
         update_events (stale_owner (mst_now st) timeout) abandoned_owner
           (update_sessions (stale_owner (mst_now st) timeout) abandoned_owner
             (update_meetings (stale_orphan (mst_now st) timeout) (\<lambda>m. m\<lparr>mm_sync_claimed_at := None\<rparr>) st))))"

section \<open>The host of a meeting\<close>

definition minutes_15 :: int where "minutes_15 = 15 * 60 * 1000000"

text \<open>The slots taken on the hosts: by provider meetings, and by the claims of sync workers.\<close>

definition meeting_slot :: "meeting_store \<Rightarrow> meeting_row \<Rightarrow> (string \<times> instant \<times> instant) option" where
  "meeting_slot st m =
     (let e = Option.bind (mm_event_id m) (\<lambda>i. find_event i st);
          s = Option.bind (mm_session_id m) (\<lambda>i. find_session i st);
          first = (\<lambda>a b. case a of None \<Rightarrow> b | Some x \<Rightarrow> Some x)
      in case (mm_provider_host_user_id m, first (Option.bind e mo_starts_at) (Option.bind s mo_starts_at),
               first (Option.bind e mo_ends_at) (Option.bind s mo_ends_at)) of
           (Some h, Some a, Some b) \<Rightarrow> Some (h, a, b) | _ \<Rightarrow> None)"

definition claim_slot :: "'a owner_row_scheme \<Rightarrow> (string \<times> instant \<times> instant) option" where
  "claim_slot o' =
     (case (mo_meeting_provider_host_user o', mo_starts_at o', mo_ends_at o') of
        (Some h, Some a, Some b) \<Rightarrow>
          if mo_meeting_provider_id o' = Some Zoom \<and> mo_meeting_sync_claimed_at o' \<noteq> None \<and>
            mo_meeting_in_sync o' = Some False
          then Some (h, a, b) else None
      | _ \<Rightarrow> None)"

definition reserved_slots :: "meeting_store \<Rightarrow> (string \<times> instant \<times> instant) list" where
  "reserved_slots st =
     List.map_filter (meeting_slot st) (filter (\<lambda>m. mm_meeting_provider_id m = Zoom) (mst_meetings st)) @
     List.map_filter claim_slot (mst_events st) @ List.map_filter claim_slot (mst_sessions st)"

definition overlaps :: "instant \<Rightarrow> instant \<Rightarrow> string \<times> instant \<times> instant \<Rightarrow> bool" where
  "overlaps starts_at ends_at slot = (case slot of (_, a, b) \<Rightarrow> a - minutes_15 < ends_at \<and> starts_at < b + minutes_15)"

definition overlapping_meetings :: "meeting_store \<Rightarrow> instant \<Rightarrow> instant \<Rightarrow> string \<Rightarrow> nat" where
  "overlapping_meetings st starts_at ends_at host =
     length (filter (\<lambda>slot. to_ascii_lowercase (fst slot) = host \<and> overlaps starts_at ends_at slot) (reserved_slots st))"

definition upcoming_meetings :: "meeting_store \<Rightarrow> string \<Rightarrow> nat" where
  "upcoming_meetings st host =
     length (filter (\<lambda>(h, _, b). to_ascii_lowercase h = host \<and> mst_now st \<le> b) (reserved_slots st))"

definition host_pool :: "string list \<Rightarrow> string list" where
  "host_pool users = remdups (map (\<lambda>u. to_ascii_lowercase (btrim u)) (filter (\<lambda>u. btrim u \<noteq> []) users))"

definition available_hosts :: "meeting_store \<Rightarrow> string list \<Rightarrow> int \<Rightarrow> instant \<Rightarrow> instant \<Rightarrow> string list" where
  "available_hosts st users max_meetings starts_at ends_at =
     sort_key (\<lambda>u. (overlapping_meetings st starts_at ends_at u, upcoming_meetings st u, u))
       (filter (\<lambda>u. int (overlapping_meetings st starts_at ends_at u) < max_meetings) (host_pool users))"

definition reserve_host :: "Meeting \<Rightarrow> string \<Rightarrow> meeting_store \<Rightarrow> bool \<times> meeting_store" where
  "reserve_host m host st =
     (case (mt_event_id m, mt_session_id m) of
        (Some i, _) \<Rightarrow>
          (list_ex (event_claimed i (mt_sync_claimed_at m)) (mst_events st),
           update_events (event_claimed i (mt_sync_claimed_at m)) (mo_meeting_provider_host_user_update (\<lambda>_. Some host)) st)
      | (None, Some i) \<Rightarrow>
          (list_ex (session_claimed i (mt_sync_claimed_at m)) (mst_sessions st),
           update_sessions (session_claimed i (mt_sync_claimed_at m)) (mo_meeting_provider_host_user_update (\<lambda>_. Some host)) st)
      | (None, None) \<Rightarrow> (False, st))"

definition assign_zoom_host_user_sql ::
    "Meeting \<Rightarrow> string list \<Rightarrow> int \<Rightarrow> instant \<Rightarrow> instant \<Rightarrow> string option meeting_tx" where
  "assign_zoom_host_user_sql m users max_meetings starts_at ends_at st =
     (if max_meetings < 1 \<or> ends_at \<le> starts_at \<or> users = [] \<or> mt_event_id m = None \<and> mt_session_id m = None
      then Inr (None, st)
      else case available_hosts st users max_meetings starts_at ends_at of
        [] \<Rightarrow> Inr (None, st)
      | host # _ \<Rightarrow>
          if mt_sync_claimed_at m = None then Inr (Some host, st)
          else case reserve_host m host st of
            (True, st') \<Rightarrow> Inr (Some host, st') | (False, st') \<Rightarrow> Inr (None, st'))"

section \<open>The functions of the auto-end worker\<close>

definition minutes_10 :: int where "minutes_10 = 10 * 60 * 1000000"

text \<open>The end of an owner whose meeting is to be checked.\<close>

definition overdue :: "instant \<Rightarrow> event_row \<Rightarrow> 'a owner_row_scheme \<Rightarrow> instant option" where
  "overdue now e o' =
     (case mo_ends_at o' of
        Some t \<Rightarrow>
          if \<not> me_canceled e \<and> \<not> me_deleted e \<and> me_published e \<and> mo_meeting_in_sync o' = Some True \<and>
            mo_meeting_requested o' = Some True \<and> t + minutes_10 \<le> now
          then Some t else None
      | None \<Rightarrow> None)"

definition auto_end_open :: "meeting_store \<Rightarrow> meeting_row \<Rightarrow> bool" where
  "auto_end_open st m \<longleftrightarrow> mm_auto_end_check_at m = None \<and> mm_auto_end_check_claimed_at m = None \<and>
     mm_meeting_provider_id m = Zoom \<and> mm_meeting_id m \<notin> set (mst_locked st)"

definition overdue_event_meeting :: "meeting_store \<Rightarrow> meeting_row \<Rightarrow> instant option" where
  "overdue_event_meeting st m =
     (if auto_end_open st m
      then Option.bind (Option.bind (mm_event_id m) (\<lambda>i. find_event i st)) (\<lambda>e. overdue (mst_now st) e e)
      else None)"

definition overdue_session_meeting :: "meeting_store \<Rightarrow> meeting_row \<Rightarrow> instant option" where
  "overdue_session_meeting st m =
     (if auto_end_open st m
      then Option.bind (Option.bind (mm_session_id m) (\<lambda>i. find_session i st)) (\<lambda>s.
           Option.bind (find_event (mn_event_id s) st) (\<lambda>e. overdue (mst_now st) e s))
      else None)"

text \<open>The meeting with the latest end (\<^verbatim>\<open>order by ends_at desc limit 1\<close>).\<close>

definition latest_ended :: "(meeting_row \<Rightarrow> instant option) \<Rightarrow> meeting_store \<Rightarrow> meeting_row option" where
  "latest_ended ended st =
     (case sort_key (\<lambda>m. - the (ended m)) (filter (\<lambda>m. ended m \<noteq> None) (mst_meetings st)) of
        [] \<Rightarrow> None | m # _ \<Rightarrow> Some m)"

definition claim_meeting_for_auto_end :: "MeetingAutoEndCandidate option meeting_tx" where
  "claim_meeting_for_auto_end st = Inr (
     case (case latest_ended (overdue_event_meeting st) st of
             Some m \<Rightarrow> Some m | None \<Rightarrow> latest_ended (overdue_session_meeting st) st) of
       None \<Rightarrow> (None, st)
     | Some m \<Rightarrow>
         (Some \<lparr>ae_auto_end_check_claimed_at = mst_now st, ae_meeting_id = mm_meeting_id m,
            ae_provider = mm_meeting_provider_id m, ae_provider_meeting_id = mm_provider_meeting_id m\<rparr>,
          update_meetings (\<lambda>x. mm_meeting_id x = mm_meeting_id m)
            (\<lambda>x. x\<lparr>mm_auto_end_check_claimed_at := Some (mst_now st)\<rparr>) st))"

definition auto_end_claimed :: "MeetingAutoEndCandidate \<Rightarrow> meeting_row \<Rightarrow> bool" where
  "auto_end_claimed c m \<longleftrightarrow> mm_meeting_id m = ae_meeting_id c \<and>
     mm_auto_end_check_claimed_at m = Some (ae_auto_end_check_claimed_at c)"

definition release_meeting_auto_end_check_claim :: "MeetingAutoEndCandidate \<Rightarrow> unit meeting_tx" where
  "release_meeting_auto_end_check_claim c st = Inr ((),
     update_meetings (\<lambda>m. auto_end_claimed c m \<and> mm_auto_end_check_at m = None)
       (\<lambda>m. m\<lparr>mm_auto_end_check_claimed_at := None\<rparr>) st)"

definition checked_meeting :: "instant \<Rightarrow> string \<Rightarrow> meeting_row \<Rightarrow> meeting_row" where
  "checked_meeting now outcome m = m\<lparr>mm_auto_end_check_at := Some now, mm_auto_end_check_claimed_at := None,
     mm_auto_end_check_outcome := Some outcome\<rparr>"

definition set_meeting_auto_end_check_outcome ::
    "MeetingAutoEndCandidate \<Rightarrow> MeetingAutoEndCheckOutcome \<Rightarrow> unit meeting_tx" where
  "set_meeting_auto_end_check_outcome c outcome st = Inr ((),
     update_meetings (auto_end_claimed c) (checked_meeting (mst_now st) (auto_end_outcome_ref outcome)) st)"

definition stale_check :: "instant \<Rightarrow> int \<Rightarrow> meeting_row \<Rightarrow> bool" where
  "stale_check now timeout m \<longleftrightarrow>
     mm_auto_end_check_at m = None \<and> older_than now timeout (mm_auto_end_check_claimed_at m)"

definition mark_stale_meeting_auto_end_checks_unknown :: "int \<Rightarrow> int meeting_tx" where
  "mark_stale_meeting_auto_end_checks_unknown timeout st =
     (if timeout \<le> 0 then Inl ''processing timeout must be positive''
      else Inr (int (length (filter (stale_check (mst_now st) timeout) (mst_meetings st))),
        update_meetings (stale_check (mst_now st) timeout) (checked_meeting (mst_now st) ''error'') st))"

definition append_meeting_recording_url :: "MeetingProvider \<Rightarrow> string \<Rightarrow> string \<Rightarrow> unit meeting_tx" where
  "append_meeting_recording_url provider pid url st = Inr ((),
     case nullif_blank url of
       None \<Rightarrow> st
     | Some u \<Rightarrow> update_meetings
         (\<lambda>m. mm_meeting_provider_id m = provider \<and> mm_provider_meeting_id m = pid \<and> u \<notin> set (mm_recording_urls m))
         (\<lambda>m. m\<lparr>mm_recording_urls := mm_recording_urls m @ [u]\<rparr>) st)"

section \<open>The Postgres implementation\<close>

text \<open>The seconds of a timeout as an \<^verbatim>\<open>i64\<close>, and a count that is not negative.\<close>

definition timeout_seconds :: "duration \<Rightarrow> anyhow + int" where
  "timeout_seconds timeout =
     (if int (as_secs timeout) \<le> 9223372036854775807 then Inr (int (as_secs timeout))
      else Inl (Msg ''processing timeout cannot exceed i64::MAX seconds''))"

definition count_usize :: "string \<Rightarrow> int \<Rightarrow> anyhow + nat" where
  "count_usize message count = (if 0 \<le> count then Inr (nat count) else Inl (Msg message))"

definition pg_mark_stale_meeting_auto_end_checks_unknown :: "duration \<Rightarrow> (meeting_store \<times> 'p, nat) io" where
  "pg_mark_stale_meeting_auto_end_checks_unknown timeout =
     act_bind (act_lift (timeout_seconds timeout)) (\<lambda>timeout.
     act_bind (run_tx (mark_stale_meeting_auto_end_checks_unknown timeout)) (\<lambda>count.
     act_lift (count_usize ''stale auto-end claim count cannot be negative'' count)))"

definition pg_mark_stale_meeting_syncs_unknown :: "duration \<Rightarrow> (meeting_store \<times> 'p, nat) io" where
  "pg_mark_stale_meeting_syncs_unknown timeout =
     act_bind (act_lift (timeout_seconds timeout)) (\<lambda>timeout.
     act_bind (run_tx (mark_stale_meeting_syncs_unknown timeout)) (\<lambda>count.
     act_lift (count_usize ''stale sync claim count cannot be negative'' count)))"

definition pg_meetings :: "digest \<Rightarrow> (meeting_store \<Rightarrow> uuid) \<Rightarrow> (meeting_store \<times> 'p) DBMeetings" where
  "pg_meetings digest fresh =
     \<lparr>db_add_meeting = (\<lambda>m. run_tx (\<lambda>st. add_meeting digest (fresh st) m st)),
      db_append_meeting_recording_url = (\<lambda>provider pid url. run_tx (append_meeting_recording_url provider pid url)),
      db_assign_zoom_host_user = (\<lambda>m users n starts_at ends_at.
        run_tx (assign_zoom_host_user_sql m users n starts_at ends_at)),
      db_claim_meeting_for_auto_end = run_tx claim_meeting_for_auto_end,
      db_claim_meeting_out_of_sync = run_tx (claim_meeting_out_of_sync digest),
      db_delete_meeting = (\<lambda>m. run_tx (delete_meeting_sql digest m)),
      db_mark_stale_meeting_auto_end_checks_unknown = pg_mark_stale_meeting_auto_end_checks_unknown,
      db_mark_stale_meeting_syncs_unknown = pg_mark_stale_meeting_syncs_unknown,
      db_release_meeting_auto_end_check_claim = (\<lambda>c. run_tx (release_meeting_auto_end_check_claim c)),
      db_release_meeting_sync_claim = (\<lambda>m. run_tx (release_meeting_sync_claim m)),
      db_set_meeting_auto_end_check_outcome = (\<lambda>c outcome. run_tx (set_meeting_auto_end_check_outcome c outcome)),
      db_set_meeting_error = (\<lambda>m error. run_tx (set_meeting_error digest m error)),
      db_update_meeting = (\<lambda>m. run_tx (update_meeting_sql digest m))\<rparr>"

end
