(* ===== verification/Meeting_Sync.thy ===== *)
theory Meeting_Sync
  imports Meeting_Store
begin

text \<open>
  The Postgres implementation keeps the contracts of the meeting workers (\<open>meeting_sync\<close>,
  \<open>meeting_auto_end\<close>): what a round leaves of the claims; and the choice of a host.
\<close>

section \<open>Claims in the tables\<close>

definition sync_claims :: "meeting_store \<Rightarrow> meeting_claim set" where
  "sync_claims st =
     {EventClaim (me_event_id e) t |e t. e \<in> set (mst_events st) \<and> mo_meeting_sync_claimed_at e = Some t} \<union>
     {SessionClaim (mn_session_id s) t |s t. s \<in> set (mst_sessions st) \<and> mo_meeting_sync_claimed_at s = Some t} \<union>
     {OrphanClaim (mm_meeting_id m) t |m t. m \<in> set (mst_meetings st) \<and> mm_sync_claimed_at m = Some t}"

definition auto_end_checks :: "meeting_store \<Rightarrow> (uuid \<times> instant) set" where
  "auto_end_checks st =
     {(mm_meeting_id m, t) |m t. m \<in> set (mst_meetings st) \<and> mm_auto_end_check_claimed_at m = Some t}"

text \<open>
  Keys are unique, only a meeting that is out of sync has a sync claim on its owner, and only a
  meeting that was not checked has an auto-end claim.
\<close>

definition meetings_ok :: "meeting_store \<Rightarrow> bool" where
  "meetings_ok st \<longleftrightarrow>
     distinct (map me_event_id (mst_events st)) \<and> distinct (map mn_session_id (mst_sessions st)) \<and>
     distinct (map mm_meeting_id (mst_meetings st)) \<and>
     (\<forall>e\<in>set (mst_events st). mo_meeting_sync_claimed_at e \<noteq> None \<longrightarrow> mo_meeting_in_sync e = Some False) \<and>
     (\<forall>s\<in>set (mst_sessions st). mo_meeting_sync_claimed_at s \<noteq> None \<longrightarrow> mo_meeting_in_sync s = Some False) \<and>
     (\<forall>m\<in>set (mst_meetings st). mm_auto_end_check_claimed_at m \<noteq> None \<longrightarrow> mm_auto_end_check_at m = None)"

named_theorems store_simps \<open>what the functions do to the tables\<close>

lemma sync_claims_simps [store_simps]:
  "EventClaim i t \<in> sync_claims st \<longleftrightarrow>
     (\<exists>e\<in>set (mst_events st). me_event_id e = i \<and> mo_meeting_sync_claimed_at e = Some t)"
  "SessionClaim i t \<in> sync_claims st \<longleftrightarrow>
     (\<exists>s\<in>set (mst_sessions st). mn_session_id s = i \<and> mo_meeting_sync_claimed_at s = Some t)"
  "OrphanClaim i t \<in> sync_claims st \<longleftrightarrow>
     (\<exists>m\<in>set (mst_meetings st). mm_meeting_id m = i \<and> mm_sync_claimed_at m = Some t)"
  by (auto simp: sync_claims_def)

lemma sync_claims_subsetI:
  assumes "\<And>i t. EventClaim i t \<in> sync_claims st' \<Longrightarrow> EventClaim i t \<in> C"
    and "\<And>i t. SessionClaim i t \<in> sync_claims st' \<Longrightarrow> SessionClaim i t \<in> C"
    and "\<And>i t. OrphanClaim i t \<in> sync_claims st' \<Longrightarrow> OrphanClaim i t \<in> C"
  shows "sync_claims st' \<subseteq> C"
proof
  fix c assume "c \<in> sync_claims st'"
  with assms show "c \<in> C" by (cases c) auto
qed

lemma update_simps [store_simps]:
  "mst_events (update_events P f st) = map (\<lambda>e. if P e then f e else e) (mst_events st)"
  "mst_sessions (update_events P f st) = mst_sessions st" "mst_meetings (update_events P f st) = mst_meetings st"
  "mst_events (update_sessions Q g st) = mst_events st"
  "mst_sessions (update_sessions Q g st) = map (\<lambda>s. if Q s then g s else s) (mst_sessions st)"
  "mst_meetings (update_sessions Q g st) = mst_meetings st"
  "mst_events (update_meetings R h st) = mst_events st" "mst_sessions (update_meetings R h st) = mst_sessions st"
  "mst_meetings (update_meetings R h st) = map (\<lambda>m. if R m then h m else m) (mst_meetings st)"
  "mst_events (remove_meetings R st) = mst_events st" "mst_sessions (remove_meetings R st) = mst_sessions st"
  "mst_meetings (remove_meetings R st) = filter (\<lambda>m. \<not> R m) (mst_meetings st)"
  by (simp_all add: update_events_def update_sessions_def update_meetings_def remove_meetings_def)

lemma owner_simps [store_simps]:
  "mo_meeting_sync_claimed_at (completed_owner same error o') = None"
  "mo_meeting_sync_claimed_at (released_owner o') = None"
  "mo_meeting_sync_claimed_at (abandoned_owner o') = None"
  "mo_meeting_sync_claimed_at (claimed_owner now o') = Some now"
  "mo_meeting_in_sync (claimed_owner now o') = mo_meeting_in_sync o'"
  by (simp_all add: completed_owner_def released_owner_def abandoned_owner_def claimed_owner_def)

lemma key_simps [store_simps]:
  "me_event_id (completed_owner same error e) = me_event_id e" "me_event_id (released_owner e) = me_event_id e"
  "me_event_id (abandoned_owner e) = me_event_id e" "me_event_id (claimed_owner now e) = me_event_id e"
  "mn_session_id (completed_owner same error s) = mn_session_id s" "mn_session_id (released_owner s) = mn_session_id s"
  "mn_session_id (abandoned_owner s) = mn_session_id s" "mn_session_id (claimed_owner now s) = mn_session_id s"
  by (simp_all add: completed_owner_def released_owner_def abandoned_owner_def claimed_owner_def)

text \<open>Changes of one table that give no row a claim it did not have.\<close>

lemma update_events_within:
  assumes "within meetings_ok sync_claims C st"
    and "\<And>e. P e \<Longrightarrow> me_event_id (f e) = me_event_id e"
    and "\<And>e. P e \<Longrightarrow> mo_meeting_sync_claimed_at (f e) = None \<or>
      mo_meeting_sync_claimed_at (f e) = mo_meeting_sync_claimed_at e \<and> mo_meeting_in_sync (f e) = mo_meeting_in_sync e"
  shows "within meetings_ok sync_claims C (update_events P f st)"
proof -
  have keys: "map me_event_id (mst_events (update_events P f st)) = map me_event_id (mst_events st)"
    by (simp add: store_simps assms(2))
  have "mo_meeting_sync_claimed_at e \<noteq> None \<longrightarrow> mo_meeting_in_sync e = Some False"
    if "e \<in> set (mst_events (update_events P f st))" for e
    using that assms(1) by (fastforce simp: store_simps within_def meetings_ok_def dest: assms(3) split: if_splits)
  moreover have "sync_claims (update_events P f st) \<subseteq> sync_claims st"
    by (intro sync_claims_subsetI) (fastforce simp: store_simps assms(2) dest: assms(3) split: if_splits)+
  ultimately show ?thesis
    using assms(1) keys unfolding within_def meetings_ok_def by (auto simp: update_simps(2,3))
qed

lemma update_sessions_within:
  assumes "within meetings_ok sync_claims C st"
    and "\<And>e. P e \<Longrightarrow> mn_session_id (f e) = mn_session_id e"
    and "\<And>e. P e \<Longrightarrow> mo_meeting_sync_claimed_at (f e) = None \<or>
      mo_meeting_sync_claimed_at (f e) = mo_meeting_sync_claimed_at e \<and> mo_meeting_in_sync (f e) = mo_meeting_in_sync e"
  shows "within meetings_ok sync_claims C (update_sessions P f st)"
proof -
  have keys: "map mn_session_id (mst_sessions (update_sessions P f st)) = map mn_session_id (mst_sessions st)"
    by (simp add: store_simps assms(2))
  have "mo_meeting_sync_claimed_at e \<noteq> None \<longrightarrow> mo_meeting_in_sync e = Some False"
    if "e \<in> set (mst_sessions (update_sessions P f st))" for e
    using that assms(1) by (fastforce simp: store_simps within_def meetings_ok_def dest: assms(3) split: if_splits)
  moreover have "sync_claims (update_sessions P f st) \<subseteq> sync_claims st"
    by (intro sync_claims_subsetI) (fastforce simp: store_simps assms(2) dest: assms(3) split: if_splits)+
  ultimately show ?thesis
    using assms(1) keys unfolding within_def meetings_ok_def by (auto simp: update_simps(4,6))
qed

lemma update_meetings_within:
  assumes "within meetings_ok sync_claims C st"
    and "\<And>m. P m \<Longrightarrow> mm_meeting_id (f m) = mm_meeting_id m"
    and "\<And>m. P m \<Longrightarrow> mm_sync_claimed_at (f m) = None \<or> mm_sync_claimed_at (f m) = mm_sync_claimed_at m"
    and "\<And>m. P m \<Longrightarrow> mm_auto_end_check_claimed_at (f m) = None \<or>
      mm_auto_end_check_claimed_at (f m) = mm_auto_end_check_claimed_at m \<and>
      mm_auto_end_check_at (f m) = mm_auto_end_check_at m"
  shows "within meetings_ok sync_claims C (update_meetings P f st)"
proof -
  have keys: "map mm_meeting_id (mst_meetings (update_meetings P f st)) = map mm_meeting_id (mst_meetings st)"
    by (simp add: store_simps assms(2))
  have "mm_auto_end_check_claimed_at e \<noteq> None \<longrightarrow> mm_auto_end_check_at e = None"
    if "e \<in> set (mst_meetings (update_meetings P f st))" for e
    using that assms(1) by (fastforce simp: store_simps within_def meetings_ok_def dest: assms(4) split: if_splits)
  moreover have "sync_claims (update_meetings P f st) \<subseteq> sync_claims st"
    by (intro sync_claims_subsetI) (fastforce simp: store_simps assms(2) dest: assms(3) split: if_splits)+
  ultimately show ?thesis
    using assms(1) keys unfolding within_def meetings_ok_def by (auto simp: update_simps(7,8))
qed

lemma remove_meetings_within:
  assumes "within meetings_ok sync_claims C st"
  shows "within meetings_ok sync_claims C (remove_meetings P st)"
proof -
  have "sync_claims (remove_meetings P st) \<subseteq> sync_claims st"
    by (intro sync_claims_subsetI) (auto simp: store_simps)
  with assms show ?thesis by (auto simp: within_def meetings_ok_def store_simps distinct_map_filter)
qed

text \<open>A claim that is still there after an update that clears the rows it touches.\<close>

lemma event_left:
  assumes "EventClaim i t \<in> sync_claims (update_events P f st)" and "\<And>e. mo_meeting_sync_claimed_at (f e) = None"
  obtains e where "e \<in> set (mst_events st)" "\<not> P e" "me_event_id e = i" "mo_meeting_sync_claimed_at e = Some t"
  using assms by (auto simp: store_simps split: if_splits)

lemma session_left:
  assumes "SessionClaim i t \<in> sync_claims (update_sessions P f st)" and "\<And>e. mo_meeting_sync_claimed_at (f e) = None"
  obtains s where "s \<in> set (mst_sessions st)" "\<not> P s" "mn_session_id s = i" "mo_meeting_sync_claimed_at s = Some t"
  using assms by (auto simp: store_simps split: if_splits)

lemma orphan_left:
  assumes "OrphanClaim i t \<in> sync_claims (update_meetings P f st)" and "\<And>e. mm_sync_claimed_at (f e) = None"
  obtains m where "m \<in> set (mst_meetings st)" "\<not> P m" "mm_meeting_id m = i" "mm_sync_claimed_at m = Some t"
  using assms by (auto simp: store_simps split: if_splits)

lemma claims_elsewhere [store_simps]:
  "EventClaim i t \<in> sync_claims (update_sessions Q g st) \<longleftrightarrow> EventClaim i t \<in> sync_claims st"
  "EventClaim i t \<in> sync_claims (update_meetings R h st) \<longleftrightarrow> EventClaim i t \<in> sync_claims st"
  "SessionClaim i t \<in> sync_claims (update_events P f st) \<longleftrightarrow> SessionClaim i t \<in> sync_claims st"
  "SessionClaim i t \<in> sync_claims (update_meetings R h st) \<longleftrightarrow> SessionClaim i t \<in> sync_claims st"
  "OrphanClaim i t \<in> sync_claims (update_events P f st) \<longleftrightarrow> OrphanClaim i t \<in> sync_claims st"
  "OrphanClaim i t \<in> sync_claims (update_sessions Q g st) \<longleftrightarrow> OrphanClaim i t \<in> sync_claims st"
  by (simp_all add: store_simps)

section \<open>What the functions do to the claims\<close>

abbreviation within_store :: "meeting_claim set \<Rightarrow> meeting_store \<Rightarrow> bool" where
  "within_store \<equiv> within meetings_ok sync_claims"

lemma complete_event_claims:
  assumes "complete_event digest i claimed h e st = (held, st')"
  shows "within_store C st \<Longrightarrow> within_store C st'"
    and "claimed = Some t \<Longrightarrow> EventClaim i t \<notin> sync_claims st'"
proof -
  have st': "st' = update_events (event_claimed i claimed)
      (completed_owner (sql_eq (get_event_meeting_sync_state_hash digest i st) h) e) st"
    using assms by (simp add: complete_event_def)
  show "within_store C st'" if "within_store C st"
    unfolding st' by (rule update_events_within [OF that]) (simp_all add: store_simps)
  show "EventClaim i t \<notin> sync_claims st'" if "claimed = Some t"
    unfolding st' that by (auto simp: event_claimed_def owner_simps elim: event_left)
qed

lemma complete_session_claims:
  assumes "complete_session digest i claimed h e st = (held, st')"
  shows "within_store C st \<Longrightarrow> within_store C st'"
    and "claimed = Some t \<Longrightarrow> SessionClaim i t \<notin> sync_claims st'"
    and "EventClaim j u \<in> sync_claims st' \<longleftrightarrow> EventClaim j u \<in> sync_claims st"
proof -
  have st': "st' = update_sessions (session_claimed i claimed)
      (completed_owner (sql_eq (get_session_meeting_sync_state_hash digest i st) h) e) st"
    using assms by (simp add: complete_session_def)
  show "within_store C st'" if "within_store C st"
    unfolding st' by (rule update_sessions_within [OF that]) (simp_all add: store_simps)
  show "SessionClaim i t \<notin> sync_claims st'" if "claimed = Some t"
    unfolding st' that by (auto simp: session_claimed_def owner_simps elim: session_left)
  show "EventClaim j u \<in> sync_claims st' \<longleftrightarrow> EventClaim j u \<in> sync_claims st"
    unfolding st' by (rule claims_elsewhere)
qed

lemma complete_owners_within:
  assumes "within_store C st" and "complete_owners digest m st = (held, st')"
  shows "within_store C st'"
  using assms
  by (auto simp: complete_owners_def Let_def split: option.splits prod.splits
      dest: complete_event_claims(1) complete_session_claims(1))

lemma complete_owners_resolves:
  assumes "complete_owners digest m st = (held, st')" and "claim_of m = Some c" and "\<not> is_orphan_claim c"
  shows "c \<notin> sync_claims st'"
  using assms
  by (auto simp: complete_owners_def Let_def claim_of_def is_orphan_claim_def complete_session_claims(3)
      split: option.splits prod.splits bind_splits dest: complete_event_claims(2) complete_session_claims(2))

lemma orphan_removed:
  assumes "claim_of m = Some (OrphanClaim i t)"
  shows "OrphanClaim i t \<notin> sync_claims (remove_orphan m st)"
  using assms by (auto simp: claim_of_def remove_orphan_def orphan_claimed_def store_simps split: option.splits bind_splits)

lemma remove_orphan_within: "within_store C st \<Longrightarrow> within_store C (remove_orphan m st)"
  by (auto simp: remove_orphan_def intro: remove_meetings_within split: option.split)

lemma release_result:
  assumes "release_meeting_sync_claim m st = Inr (x, st')" and "claim_of m = Some c" and "meetings_ok st"
  shows "meetings_ok st' \<and> sync_claims st' \<subseteq> sync_claims st - {c}"
proof -
  have ok: "within_store (sync_claims st) st" using assms(3) by (simp add: within_def)
  note rules = update_events_within [OF ok] update_sessions_within [OF ok] update_meetings_within [OF ok]
  have "within_store (sync_claims st) st'"
    using assms(1) ok by (auto simp: release_meeting_sync_claim_def store_simps split: option.splits intro!: rules)
  moreover have "c \<notin> sync_claims st'"
    using assms
    by (auto simp: release_meeting_sync_claim_def claim_of_def event_claimed_def session_claimed_def orphan_claimed_def
        meetings_ok_def owner_simps split: option.splits bind_splits elim!: event_left session_left orphan_left)
  ultimately show ?thesis by (auto simp: within_def)
qed

lemma insert_meeting_within:
  assumes "within_store C st" and "insert_meeting i m st = Inr (x, st')"
  shows "within_store C st'" and "sync_claims st' = sync_claims st"
proof -
  obtain row where row: "mst_meetings st' = mst_meetings st @ [row]" "mm_sync_claimed_at row = None"
      "mm_auto_end_check_claimed_at row = None" "\<forall>r\<in>set (mst_meetings st). mm_meeting_id r \<noteq> mm_meeting_id row"
    and rest: "mst_events st' = mst_events st" "mst_sessions st' = mst_sessions st"
    using assms(2) by (auto simp: insert_meeting_def list_ex_iff split: option.splits if_splits)
  show same: "sync_claims st' = sync_claims st"
    by (auto simp: sync_claims_def row(1,2) rest)
  show "within_store C st'"
    using assms(1) row rest unfolding within_def meetings_ok_def same by auto
qed

lemma update_row_within:
  assumes "within_store C st" and "update_meeting_row m st = Inr (x, st')"
  shows "within_store C st'" and "c \<notin> sync_claims st \<Longrightarrow> c \<notin> sync_claims st'"
proof -
  have *: "within_store C st'" if "within_store C st" for C
    using assms(2) that
    by (auto simp: update_meeting_row_def split: option.splits if_splits intro!: update_meetings_within)
  show "within_store C st'" by (rule * [OF assms(1)])
  have "within_store (sync_claims st) st" using assms(1) by (simp add: within_def)
  from * [OF this] show "c \<notin> sync_claims st \<Longrightarrow> c \<notin> sync_claims st'" by (auto simp: within_def)
qed

lemma add_claims:
  assumes "add_meeting digest i m st = Inr (x, st')" and "within_store C st"
  shows "within_store C st'" and "claim_of m = Some c \<Longrightarrow> \<not> is_orphan_claim c \<Longrightarrow> c \<notin> sync_claims st'"
proof -
  obtain held st1 where 1: "complete_owners digest m st = (held, st1)" by fastforce
  note w = complete_owners_within [OF assms(2) 1]
  show "within_store C st'" using assms(1) 1 w
    by (auto simp: add_meeting_def split: if_splits dest: insert_meeting_within(1))
  show "claim_of m = Some c \<Longrightarrow> \<not> is_orphan_claim c \<Longrightarrow> c \<notin> sync_claims st'"
    using assms(1) 1 complete_owners_resolves [OF 1] insert_meeting_within(2) [OF w]
    by (auto simp: add_meeting_def split: if_splits)
qed

lemma update_claims:
  assumes "update_meeting_sql digest m st = Inr (x, st')" and "within_store C st"
  shows "within_store C st'" and "claim_of m = Some c \<Longrightarrow> \<not> is_orphan_claim c \<Longrightarrow> c \<notin> sync_claims st'"
proof -
  obtain held st1 where 1: "complete_owners digest m st = (held, st1)" by fastforce
  note w = complete_owners_within [OF assms(2) 1]
  show "within_store C st'" using assms(1) 1 w
    by (auto simp: update_meeting_sql_def split: if_splits dest: update_row_within(1))
  show "claim_of m = Some c \<Longrightarrow> \<not> is_orphan_claim c \<Longrightarrow> c \<notin> sync_claims st'"
    using assms(1) 1 complete_owners_resolves [OF 1] update_row_within(2) [OF w]
    by (auto simp: update_meeting_sql_def split: if_splits)
qed

lemma remove_keeps_away: "c \<notin> sync_claims st \<Longrightarrow> c \<notin> sync_claims (remove_meetings P st)"
  by (cases c) (auto simp: store_simps)

lemma claim_of_orphan:
  "claim_of m = Some c \<Longrightarrow> is_orphan_claim c \<longleftrightarrow> mt_event_id m = None \<and> mt_session_id m = None"
  "claim_of m = Some c \<Longrightarrow> mt_event_id m = None \<Longrightarrow> mt_session_id m = None \<Longrightarrow> c \<notin> sync_claims (remove_orphan m st)"
  by (auto simp: claim_of_def is_orphan_claim_def remove_orphan_def orphan_claimed_def store_simps
      split: option.splits bind_splits)

lemma delete_claims:
  assumes "delete_meeting_sql digest m st = Inr (x, st')" and "within_store C st"
  shows "within_store C st'" and "claim_of m = Some c \<Longrightarrow> c \<notin> sync_claims st'"
proof -
  obtain held st1 where 1: "complete_owners digest m st = (held, st1)" by fastforce
  note w = complete_owners_within [OF assms(2) 1]
  show "within_store C st'"
    using assms 1 w
    by (auto simp: delete_meeting_sql_def split: if_splits option.splits intro: remove_orphan_within remove_meetings_within)
  show "claim_of m = Some c \<Longrightarrow> c \<notin> sync_claims st'"
    using assms(1) 1 complete_owners_resolves [OF 1, of c] claim_of_orphan
    by (auto simp: delete_meeting_sql_def split: if_splits option.splits intro!: remove_keeps_away)
qed

lemma set_error_claims:
  assumes "claim_of m = Some c" and "btrim error \<noteq> []" and "meetings_ok st"
  obtains st' where "set_meeting_error digest m error st = Inr ((), st')"
    "meetings_ok st' \<and> sync_claims st' \<subseteq> sync_claims st - {c}"
proof -
  have ok: "within_store (sync_claims st) st" using assms(3) by (simp add: within_def)
  have "\<exists>st'. set_meeting_error digest m error st = Inr ((), st') \<and> within_store (sync_claims st) st' \<and> c \<notin> sync_claims st'"
  proof (cases "mt_event_id m")
    case (Some i)
    obtain held st1 where 1: "complete_event digest i (mt_sync_claimed_at m) (mt_sync_state_hash m) (Some error) st = (held, st1)"
      by fastforce
    from Some assms(1) obtain t where "mt_sync_claimed_at m = Some t" "c = EventClaim i t"
      by (auto simp: claim_of_def split: bind_splits)
    with complete_event_claims [OF 1] ok Some assms(2) 1 show ?thesis by (simp add: set_meeting_error_def)
  next
    case None
    show ?thesis
    proof (cases "mt_session_id m")
      case (Some i)
      obtain held st1 where 1: "complete_session digest i (mt_sync_claimed_at m) (mt_sync_state_hash m) (Some error) st = (held, st1)"
        by fastforce
      from None Some assms(1) obtain t where "mt_sync_claimed_at m = Some t" "c = SessionClaim i t"
        by (auto simp: claim_of_def split: bind_splits)
      with complete_session_claims [OF 1] ok None Some assms(2) 1 show ?thesis by (simp add: set_meeting_error_def)
    next
      case None': None
      show ?thesis
        using remove_orphan_within [OF ok] claim_of_orphan(2) [OF assms(1) None None'] None None'
        by (simp add: set_meeting_error_def)
    qed
  qed
  then show ?thesis using that by (auto simp: within_def)
qed

lemma reserve_within: "reserve_host m h st = (b, st') \<Longrightarrow> within_store C st \<Longrightarrow> within_store C st'"
  by (auto simp: reserve_host_def split: option.splits intro!: update_events_within update_sessions_within)

lemma assign_within:
  assumes "assign_zoom_host_user_sql m users n t t' st = Inr (x, st')" and "within_store C st"
  shows "within_store C st'"
  using assms reserve_within [of m _ st _ _ C]
  by (auto simp: assign_zoom_host_user_sql_def split: if_splits list.splits prod.splits bool.splits)

lemma unique_key: "distinct (map f xs) \<Longrightarrow> x \<in> set xs \<Longrightarrow> y \<in> set xs \<Longrightarrow> f x = f y \<Longrightarrow> x = y"
  by (auto simp: distinct_map inj_on_def)

lemma claim_event_claims:
  assumes "meetings_ok st" and "next_event P st = Some e" and "\<And>e. P e \<Longrightarrow> mo_meeting_in_sync e = Some False"
  shows "meetings_ok (claim_event e st)"
    and "sync_claims (claim_event e st) \<subseteq> insert (EventClaim (me_event_id e) (mst_now st)) (sync_claims st)"
proof -
  have e: "e \<in> set (mst_events st)" "mo_meeting_in_sync e = Some False"
    using assms(2,3) by (auto simp: next_event_def find_Some_iff)
  have same: "x = e" if "x \<in> set (mst_events st)" "me_event_id x = me_event_id e" for x
    using unique_key [OF _ that(1) e(1) that(2)] assms(1) by (simp add: meetings_ok_def)
  have "map me_event_id (mst_events (claim_event e st)) = map me_event_id (mst_events st)"
    by (simp add: claim_event_def store_simps)
  moreover have "mo_meeting_in_sync x = Some False"
    if "x \<in> set (mst_events (claim_event e st))" "mo_meeting_sync_claimed_at x \<noteq> None" for x
  proof -
    from that(1) obtain y where y: "y \<in> set (mst_events st)" "x = (if me_event_id y = me_event_id e then claimed_owner (mst_now st) y else y)"
      by (auto simp: claim_event_def store_simps)
    show ?thesis
    proof (cases "me_event_id y = me_event_id e")
      case True
      with same [OF y(1)] y(2) e(2) show ?thesis by (simp add: owner_simps)
    next
      case False
      with y that(2) assms(1) show ?thesis by (simp add: meetings_ok_def)
    qed
  qed
  ultimately show "meetings_ok (claim_event e st)"
    using assms(1) unfolding meetings_ok_def by (auto simp: claim_event_def update_simps(2,3))
  show "sync_claims (claim_event e st) \<subseteq> insert (EventClaim (me_event_id e) (mst_now st)) (sync_claims st)"
    by (intro sync_claims_subsetI) (auto simp: claim_event_def store_simps split: if_splits)
qed

lemma claim_session_claims:
  assumes "meetings_ok st" and "next_session P st = Some e" and "\<And>x e. P x e \<Longrightarrow> mo_meeting_in_sync e = Some False"
  shows "meetings_ok (claim_session e st)"
    and "sync_claims (claim_session e st) \<subseteq> insert (SessionClaim (mn_session_id e) (mst_now st)) (sync_claims st)"
proof -
  have e: "e \<in> set (mst_sessions st)" "mo_meeting_in_sync e = Some False"
    using assms(2,3) by (auto simp: next_session_def find_Some_iff on_event_def split: option.splits)
  have same: "x = e" if "x \<in> set (mst_sessions st)" "mn_session_id x = mn_session_id e" for x
    using unique_key [OF _ that(1) e(1) that(2)] assms(1) by (simp add: meetings_ok_def)
  have "map mn_session_id (mst_sessions (claim_session e st)) = map mn_session_id (mst_sessions st)"
    by (simp add: claim_session_def store_simps)
  moreover have "mo_meeting_in_sync x = Some False"
    if "x \<in> set (mst_sessions (claim_session e st))" "mo_meeting_sync_claimed_at x \<noteq> None" for x
  proof -
    from that(1) obtain y where y: "y \<in> set (mst_sessions st)" "x = (if mn_session_id y = mn_session_id e then claimed_owner (mst_now st) y else y)"
      by (auto simp: claim_session_def store_simps)
    show ?thesis
    proof (cases "mn_session_id y = mn_session_id e")
      case True
      with same [OF y(1)] y(2) e(2) show ?thesis by (simp add: owner_simps)
    next
      case False
      with y that(2) assms(1) show ?thesis by (simp add: meetings_ok_def)
    qed
  qed
  ultimately show "meetings_ok (claim_session e st)"
    using assms(1) unfolding meetings_ok_def by (auto simp: claim_session_def update_simps(4,6))
  show "sync_claims (claim_session e st) \<subseteq> insert (SessionClaim (mn_session_id e) (mst_now st)) (sync_claims st)"
    by (intro sync_claims_subsetI) (auto simp: claim_session_def store_simps split: if_splits)
qed

lemma claim_orphan_claims:
  assumes "meetings_ok st"
  shows "meetings_ok (claim_orphan m st)"
    and "sync_claims (claim_orphan m st) \<subseteq> insert (OrphanClaim (mm_meeting_id m) (mst_now st)) (sync_claims st)"
proof -
  have "map mm_meeting_id (mst_meetings (claim_orphan m st)) = map mm_meeting_id (mst_meetings st)"
    by (simp add: claim_orphan_def store_simps)
  moreover have "mm_auto_end_check_claimed_at x \<noteq> None \<longrightarrow> mm_auto_end_check_at x = None"
    if "x \<in> set (mst_meetings (claim_orphan m st))" for x
    using that assms by (auto simp: claim_orphan_def store_simps meetings_ok_def)
  ultimately show "meetings_ok (claim_orphan m st)"
    using assms unfolding meetings_ok_def by (auto simp: claim_orphan_def update_simps(7,8))
  show "sync_claims (claim_orphan m st) \<subseteq> insert (OrphanClaim (mm_meeting_id m) (mst_now st)) (sync_claims st)"
    by (intro sync_claims_subsetI) (auto simp: claim_orphan_def store_simps split: if_splits)
qed

lemma answer_claims:
  "claim_of (event_answer digest st e b) = Some (EventClaim (me_event_id e) (mst_now st))"
  "claim_of (session_answer digest st x s b) = Some (SessionClaim (mn_session_id s) (mst_now st))"
  "claim_of (orphan_answer st m) = Some (OrphanClaim (mm_meeting_id m) (mst_now st))"
  "mt_delete (orphan_answer st m) = Some True"
  by (simp_all add: claim_of_def event_answer_def session_answer_def orphan_answer_def sync_answer_def
      delete_answer_def answer_of_def Let_def)

lemma needs_in_sync:
  "needs_sync now e o' \<Longrightarrow> mo_meeting_in_sync o' = Some False" "needs_delete e o' \<Longrightarrow> mo_meeting_in_sync o' = Some False"
  by (simp_all add: needs_sync_def needs_delete_def sync_pending_def)

text \<open>The five cases of the claim.\<close>

lemma claim_cases:
  assumes "claim_meeting_out_of_sync digest st = Inr (r, st')"
  obtains (event) e b P where "r = Some (event_answer digest st e b)" "st' = claim_event e st"
      "next_event P st = Some e" "\<forall>e. P e \<longrightarrow> mo_meeting_in_sync e = Some False"
    | (session) x s b P where "r = Some (session_answer digest st x s b)" "st' = claim_session s st"
      "next_session P st = Some s" "\<forall>x s. P x s \<longrightarrow> mo_meeting_in_sync s = Some False"
    | (orphan) m where "r = Some (orphan_answer st m)" "st' = claim_orphan m st" "next_orphan st = Some m"
    | (idle) "r = None" "st' = st"
proof -
  consider (1) e where "next_event (\<lambda>e. needs_sync (mst_now st) e e) st = Some e"
    | (2) s where "next_event (\<lambda>e. needs_sync (mst_now st) e e) st = None" "next_session (needs_sync (mst_now st)) st = Some s"
    | (3) e where "next_event (\<lambda>e. needs_sync (mst_now st) e e) st = None" "next_session (needs_sync (mst_now st)) st = None"
      "next_event (\<lambda>e. needs_delete e e) st = Some e"
    | (4) s where "next_event (\<lambda>e. needs_sync (mst_now st) e e) st = None" "next_session (needs_sync (mst_now st)) st = None"
      "next_event (\<lambda>e. needs_delete e e) st = None" "next_session needs_delete st = Some s"
    | (5) "next_event (\<lambda>e. needs_sync (mst_now st) e e) st = None" "next_session (needs_sync (mst_now st)) st = None"
      "next_event (\<lambda>e. needs_delete e e) st = None" "next_session needs_delete st = None"
    by fastforce
  moreover have pending: "\<forall>e. needs_sync (mst_now st) e e \<longrightarrow> mo_meeting_in_sync e = Some False"
    "\<forall>x s. needs_sync (mst_now st) x s \<longrightarrow> mo_meeting_in_sync s = Some False"
    "\<forall>e. needs_delete e e \<longrightarrow> mo_meeting_in_sync e = Some False"
    "\<forall>x s. needs_delete x s \<longrightarrow> mo_meeting_in_sync s = Some False"
    using needs_in_sync by blast+
  ultimately show ?thesis
  proof cases
    case 1
    show ?thesis by (rule event [where b = False, OF _ _ 1 pending(1)]) (use 1 assms in \<open>simp_all add: claim_meeting_out_of_sync_def\<close>)
  next
    case 2
    show ?thesis by (rule session [where b = False and x = "the (find_event (mn_event_id s) st)", OF _ _ 2(2) pending(2)])
      (use 2 assms in \<open>simp_all add: claim_meeting_out_of_sync_def\<close>)
  next
    case 3
    show ?thesis by (rule event [where b = True, OF _ _ 3(3) pending(3)])
      (use 3 assms in \<open>simp_all add: claim_meeting_out_of_sync_def\<close>)
  next
    case 4
    show ?thesis by (rule session [where b = True and x = "the (find_event (mn_event_id s) st)", OF _ _ 4(4) pending(4)])
      (use 4 assms in \<open>simp_all add: claim_meeting_out_of_sync_def\<close>)
  next
    case 5
    show ?thesis
    proof (cases "next_orphan st")
      case None
      show ?thesis by (rule idle) (use None 5 assms in \<open>simp_all add: claim_meeting_out_of_sync_def\<close>)
    next
      case (Some m)
      show ?thesis by (rule orphan [OF _ _ Some]) (use Some 5 assms in \<open>simp_all add: claim_meeting_out_of_sync_def\<close>)
    qed
  qed
qed

lemma claim_claims:
  assumes "claim_meeting_out_of_sync digest st = Inr (r, st')" and "meetings_ok st"
  shows "meetings_ok st' \<and> (case r of
      None \<Rightarrow> sync_claims st' \<subseteq> sync_claims st
    | Some m \<Rightarrow> \<exists>c. claim_of m = Some c \<and> (is_orphan_claim c \<longrightarrow> mt_delete m = Some True) \<and>
        sync_claims st' \<subseteq> insert c (sync_claims st))"
  using assms(1)
proof (cases rule: claim_cases)
  case (event e b P)
  then show ?thesis using claim_event_claims [OF assms(2) event(3)] by (simp add: answer_claims is_orphan_claim_def)
next
  case (session x s b P)
  then show ?thesis using claim_session_claims [OF assms(2) session(3)] by (simp add: answer_claims is_orphan_claim_def)
next
  case (orphan m)
  then show ?thesis using claim_orphan_claims [OF assms(2)] by (simp add: answer_claims is_orphan_claim_def)
qed (use assms(2) in simp)

section \<open>The claims of the auto-end worker\<close>

lemma check_update:
  assumes "meetings_ok st" and "\<And>m. P m \<Longrightarrow> mm_meeting_id (f m) = mm_meeting_id m"
    and "\<And>m. P m \<Longrightarrow> mm_auto_end_check_claimed_at (f m) = None"
    and "\<And>m. P m \<Longrightarrow> mm_sync_claimed_at (f m) = mm_sync_claimed_at m"
    and "\<And>m. m \<in> set (mst_meetings st) \<Longrightarrow> auto_end_claimed c m \<Longrightarrow> P m"
  shows "meetings_ok (update_meetings P f st) \<and>
    auto_end_checks (update_meetings P f st) \<subseteq> auto_end_checks st - {check_of c}"
proof
  have "within_store (sync_claims st) st" using assms(1) by (simp add: within_def)
  then have "within_store (sync_claims st) (update_meetings P f st)"
    by (rule update_meetings_within) (simp_all add: assms(2-4))
  then show "meetings_ok (update_meetings P f st)" by (simp add: within_def)
  show "auto_end_checks (update_meetings P f st) \<subseteq> auto_end_checks st - {check_of c}"
    using assms(3,5)
    by (fastforce simp: auto_end_checks_def store_simps check_of_def auto_end_claimed_def split: if_splits)
qed

lemma set_outcome_checks:
  assumes "set_meeting_auto_end_check_outcome c outcome st = Inr (x, st')" and "meetings_ok st"
  shows "meetings_ok st' \<and> auto_end_checks st' \<subseteq> auto_end_checks st - {check_of c}"
proof -
  have "st' = update_meetings (auto_end_claimed c) (checked_meeting (mst_now st) (auto_end_outcome_ref outcome)) st"
    using assms(1) by (simp add: set_meeting_auto_end_check_outcome_def)
  then show ?thesis by (simp only:) (rule check_update [OF assms(2)], simp_all add: checked_meeting_def)
qed

lemma release_checks:
  assumes "release_meeting_auto_end_check_claim c st = Inr (x, st')" and "meetings_ok st"
  shows "meetings_ok st' \<and> auto_end_checks st' \<subseteq> auto_end_checks st - {check_of c}"
proof -
  have open': "auto_end_claimed c m \<Longrightarrow> mm_auto_end_check_at m = None" if "m \<in> set (mst_meetings st)" for m
    using that assms(2) by (auto simp: meetings_ok_def auto_end_claimed_def)
  have "st' = update_meetings (\<lambda>m. auto_end_claimed c m \<and> mm_auto_end_check_at m = None)
      (\<lambda>m. m\<lparr>mm_auto_end_check_claimed_at := None\<rparr>) st"
    using assms(1) by (simp add: release_meeting_auto_end_check_claim_def)
  then show ?thesis by (simp only:) (rule check_update [OF assms(2)], simp_all add: open')
qed

lemma latest_ended_row:
  assumes "latest_ended ended st = Some m"
  shows "m \<in> set (mst_meetings st) \<and> ended m \<noteq> None"
proof -
  obtain ms where "sort_key (\<lambda>m. - the (ended m)) (filter (\<lambda>m. ended m \<noteq> None) (mst_meetings st)) = m # ms"
    using assms unfolding latest_ended_def by (auto split: list.splits)
  then have "m \<in> set (sort_key (\<lambda>m. - the (ended m)) (filter (\<lambda>m. ended m \<noteq> None) (mst_meetings st)))"
    by (metis list.set_intros(1))
  then show ?thesis by simp
qed

lemma claim_check_checks:
  assumes "claim_meeting_for_auto_end st = Inr (r, st')" and "meetings_ok st"
  shows "meetings_ok st' \<and> (case r of
      None \<Rightarrow> auto_end_checks st' \<subseteq> auto_end_checks st
    | Some c \<Rightarrow> auto_end_checks st' \<subseteq> insert (check_of c) (auto_end_checks st))"
proof -
  define row where "row = (case latest_ended (overdue_event_meeting st) st of
    Some m \<Rightarrow> Some m | None \<Rightarrow> latest_ended (overdue_session_meeting st) st)"
  show ?thesis
  proof (cases row)
    case None
    with assms show ?thesis by (simp add: claim_meeting_for_auto_end_def row_def)
  next
    case (Some m)
    have m: "m \<in> set (mst_meetings st)" "mm_auto_end_check_at m = None"
      using Some latest_ended_row [of "overdue_event_meeting st" st m] latest_ended_row [of "overdue_session_meeting st" st m]
      by (auto simp: row_def overdue_event_meeting_def overdue_session_meeting_def auto_end_open_def
          split: option.splits if_splits)
    let ?f = "\<lambda>x. x\<lparr>mm_auto_end_check_claimed_at := Some (mst_now st)\<rparr>"
    have st': "st' = update_meetings (\<lambda>x. mm_meeting_id x = mm_meeting_id m) ?f st"
      and r: "r = Some \<lparr>ae_auto_end_check_claimed_at = mst_now st, ae_meeting_id = mm_meeting_id m,
            ae_provider = mm_meeting_provider_id m, ae_provider_meeting_id = mm_provider_meeting_id m\<rparr>"
      using assms(1) Some by (simp_all add: claim_meeting_for_auto_end_def row_def [symmetric])
    have same: "x = m" if "x \<in> set (mst_meetings st)" "mm_meeting_id x = mm_meeting_id m" for x
      using unique_key [OF _ that(1) m(1) that(2)] assms(2) by (simp add: meetings_ok_def)
    have keys: "map mm_meeting_id (mst_meetings st') = map mm_meeting_id (mst_meetings st)"
      by (simp add: st' store_simps)
    have "mm_auto_end_check_at x = None"
      if "x \<in> set (mst_meetings st')" "mm_auto_end_check_claimed_at x \<noteq> None" for x
    proof -
      from that(1) obtain y where y: "y \<in> set (mst_meetings st)" "x = (if mm_meeting_id y = mm_meeting_id m then ?f y else y)"
        by (auto simp: st' store_simps)
      show ?thesis
        using y(2) same [OF y(1)] m(2) that(2) assms(2) y(1)
        by (cases "mm_meeting_id y = mm_meeting_id m") (simp_all add: meetings_ok_def)
    qed
    then have "meetings_ok st'"
      using keys assms(2) unfolding meetings_ok_def by (auto simp: st' update_simps(7,8))
    moreover have "auto_end_checks st' \<subseteq> insert (mm_meeting_id m, mst_now st) (auto_end_checks st)"
      by (auto simp: auto_end_checks_def st' store_simps split: if_splits)
    ultimately show ?thesis by (simp add: r check_of_def)
  qed
qed

section \<open>The contracts hold\<close>

text \<open>A provider whose calls leave the tables alone.\<close>

definition provider_beside :: "'p MeetingsProvider \<Rightarrow> (meeting_store \<times> 'p) MeetingsProvider" where
  "provider_beside p =
     \<lparr>mp_create_meeting = (\<lambda>m. outside (mp_create_meeting p m)),
      mp_delete_meeting = (\<lambda>i. outside (mp_delete_meeting p i)),
      mp_end_meeting = (\<lambda>i. outside (mp_end_meeting p i)),
      mp_get_meeting = (\<lambda>i. outside (mp_get_meeting p i)),
      mp_update_meeting = (\<lambda>i m. outside (mp_update_meeting p i m))\<rparr>"

abbreviation providers_beside :: "'p providers \<Rightarrow> (meeting_store \<times> 'p) providers" where
  "providers_beside providers \<equiv> \<lambda>k. map_option provider_beside (providers k)"

lemma outside_within: "keeps (within (ok \<circ> fst) (claims \<circ> fst) C) (outside m)"
  by (rule keepsI) (auto simp: outside_def within_def split: prod.splits)

lemma run_tx_within:
  assumes "\<And>st x st'. tx st = Inr (x, st') \<Longrightarrow> within ok claims C st \<Longrightarrow> within ok claims C st'"
  shows "keeps (within (ok \<circ> fst) (claims \<circ> fst) C) (run_tx tx)"
  using assms by (intro keepsI) (fastforce simp: run_tx_def within_def split: prod.splits sum.splits)

lemma run_tx_cases:
  assumes "run_tx tx s = (r, s')"
  obtains e where "tx (fst s) = Inl e" "r = Inl (Msg e)" "s' = s"
    | x st' where "tx (fst s) = Inr (x, st')" "r = Inr x" "s' = (st', snd s)"
  using assms by (auto simp: run_tx_def split: prod.splits sum.splits)

lemma run_tx_resolves:
  assumes "\<And>st x st'. tx st = Inr (x, st') \<Longrightarrow> ok st \<Longrightarrow> c \<notin> claims st'"
  shows "resolves (ok \<circ> fst) (claims \<circ> fst) c (run_tx tx)"
  using assms by (auto simp: resolves_def elim!: run_tx_cases)

lemma ok_within: "meetings_ok st \<Longrightarrow> within_store (sync_claims st) st"
  by (simp add: within_def)

interpretation pgm: meeting_sync "pg_meetings digest fresh" "meetings_ok \<circ> fst" "sync_claims \<circ> fst"
  "providers_beside providers"
  for digest fresh and providers :: "'p providers"
proof (unfold_locales, goal_cases)
  case (1 s r s')
  from 1(1) have "run_tx (claim_meeting_out_of_sync digest) s = (r, s')" by (simp add: pg_meetings_def)
  then show ?case
  proof (cases rule: run_tx_cases)
    case (1 e)
    then show ?thesis by (simp add: claim_meeting_out_of_sync_def)
  next
    case (2 x st')
    with claim_claims [OF 2(1)] 1(2) show ?thesis by (auto split: option.splits)
  qed
next
  case (9 m e s q s' c)
  have "meetings_ok (fst s)" using 9(4) by simp
  from set_error_claims [OF 9(2,3) this] obtain st' where st': "set_meeting_error digest m e (fst s) = Inr ((), st')"
    "meetings_ok st' \<and> sync_claims st' \<subseteq> sync_claims (fst s) - {c}" .
  have "fst s' = st'" using 9(1) st'(1) by (cases s) (auto simp: pg_meetings_def run_tx_def)
  with st'(2) show ?case by simp
next
  case (10 m s q s' c)
  obtain st' where st': "release_meeting_sync_claim m (fst s) = Inr ((), st')"
    by (simp add: release_meeting_sync_claim_def)
  have "fst s' = st'" using 10(1) st' by (cases s) (auto simp: pg_meetings_def run_tx_def)
  with release_result [OF st' 10(2)] 10(3) show ?case by simp
next
  case (2 C m users n t t')
  show ?case by (simp add: pg_meetings_def) (rule run_tx_within, erule assign_within)
next
  case (3 C m)
  show ?case by (simp add: pg_meetings_def) (rule run_tx_within, erule add_claims(1))
next
  case (4 m c)
  show ?case by (simp add: pg_meetings_def) (rule run_tx_resolves, erule add_claims(2) [OF _ ok_within 4])
next
  case (5 C m)
  show ?case by (simp add: pg_meetings_def) (rule run_tx_within, erule update_claims(1))
next
  case (6 m c)
  show ?case by (simp add: pg_meetings_def) (rule run_tx_resolves, erule update_claims(2) [OF _ ok_within 6])
next
  case (7 C m)
  show ?case by (simp add: pg_meetings_def) (rule run_tx_within, erule delete_claims(1))
next
  case (8 m c)
  show ?case by (simp add: pg_meetings_def) (rule run_tx_resolves, erule delete_claims(2) [OF _ ok_within 8])
qed (auto simp: provider_beside_def intro!: outside_within)

interpretation pgm: meeting_auto_end "pg_meetings digest fresh" "meetings_ok \<circ> fst" "auto_end_checks \<circ> fst"
  "providers_beside providers"
  for digest fresh and providers :: "'p providers"
proof (unfold_locales, goal_cases)
  case (1 s r s')
  from 1(1) have "run_tx claim_meeting_for_auto_end s = (r, s')" by (simp add: pg_meetings_def)
  then show ?case
  proof (cases rule: run_tx_cases)
    case (1 e)
    then show ?thesis by (simp add: claim_meeting_for_auto_end_def)
  next
    case (2 x st')
    with claim_check_checks [OF 2(1)] 1(2) show ?thesis by (auto split: option.splits)
  qed
next
  case (2 c outcome s q s')
  obtain st' where st': "set_meeting_auto_end_check_outcome c outcome (fst s) = Inr ((), st')"
    by (simp add: set_meeting_auto_end_check_outcome_def)
  have "fst s' = st'" using 2(1) st' by (cases s) (auto simp: pg_meetings_def run_tx_def)
  with set_outcome_checks [OF st'] 2(2) show ?case by simp
next
  case (3 c s q s')
  obtain st' where st': "release_meeting_auto_end_check_claim c (fst s) = Inr ((), st')"
    by (simp add: release_meeting_auto_end_check_claim_def)
  have "fst s' = st'" using 3(1) st' by (cases s) (auto simp: pg_meetings_def run_tx_def)
  with release_checks [OF st'] 3(2) show ?case by simp
qed (auto simp: provider_beside_def intro!: outside_within)

section \<open>The choice of a host\<close>

lemma filter_changed_le:
  "length (filter P (List.map_filter g (map (\<lambda>e. if Q e then f e else e) xs))) \<le>
     length (filter P (List.map_filter g xs)) + length (filter Q xs)"
  by (induction xs) (auto simp: map_filter_simps split: option.split)

lemma one_key:
  assumes "distinct (map key xs)" and "\<And>x. Q x \<Longrightarrow> key x = k"
  shows "length (filter Q xs) \<le> 1"
  using assms
proof (induction xs)
  case (Cons x xs)
  show ?case
  proof (cases "Q x")
    case True
    then have "filter Q xs = []"
      using Cons.prems by (force simp: filter_empty_conv)
    then show ?thesis by simp
  qed (use Cons in simp)
qed simp

lemma find_changed:
  assumes "\<And>e. key (f e) = key e"
  shows "find (\<lambda>e. key e = i) (map (\<lambda>e. if Q e then f e else e) xs) =
    map_option (\<lambda>e. if Q e then f e else e) (find (\<lambda>e. key e = i) xs)"
  by (induction xs) (auto simp: assms)

lemma reserve_meeting_slot:
  assumes "reserve_host m h st = (b, st')"
  shows "meeting_slot st' = meeting_slot st"
proof -
  have times: "Option.bind (map_option (\<lambda>e. if Q e then mo_meeting_provider_host_user_update g e else e) v) mo_starts_at =
      Option.bind v mo_starts_at"
    "Option.bind (map_option (\<lambda>e. if Q e then mo_meeting_provider_host_user_update g e else e) v) mo_ends_at =
      Option.bind v mo_ends_at" for Q g and v :: "'z owner_row_scheme option"
    by (cases v; simp)+
  have *: "Option.bind (Option.bind k (\<lambda>i. find_event i st')) mo_starts_at = Option.bind (Option.bind k (\<lambda>i. find_event i st)) mo_starts_at"
    "Option.bind (Option.bind k (\<lambda>i. find_event i st')) mo_ends_at = Option.bind (Option.bind k (\<lambda>i. find_event i st)) mo_ends_at"
    "Option.bind (Option.bind k (\<lambda>i. find_session i st')) mo_starts_at = Option.bind (Option.bind k (\<lambda>i. find_session i st)) mo_starts_at"
    "Option.bind (Option.bind k (\<lambda>i. find_session i st')) mo_ends_at = Option.bind (Option.bind k (\<lambda>i. find_session i st)) mo_ends_at" for k
    using assms
    by (cases k; auto simp: reserve_host_def find_event_def find_session_def store_simps find_changed times split: option.splits)+
  show ?thesis unfolding meeting_slot_def fun_eq_iff Let_def * by simp
qed

lemma reserve_count:
  assumes "reserve_host m h st = (b, st')" and "meetings_ok st"
  shows "overlapping_meetings st' t t' u \<le> overlapping_meetings st t t' u + 1"
proof -
  note slot = reserve_meeting_slot [OF assms(1)]
  have keys: "length (filter (event_claimed i c) (mst_events st)) \<le> 1"
    "length (filter (session_claimed i c) (mst_sessions st)) \<le> 1" for i c
    using assms(2) one_key [of me_event_id "mst_events st" "event_claimed i c" i]
      one_key [of mn_session_id "mst_sessions st" "session_claimed i c" i]
    by (simp_all add: meetings_ok_def event_claimed_def session_claimed_def)
  let ?P = "\<lambda>slot. to_ascii_lowercase (fst slot) = u \<and> overlaps t t' slot"
  consider (event) i where "st' = update_events (event_claimed i (mt_sync_claimed_at m)) (mo_meeting_provider_host_user_update (\<lambda>_. Some h)) st"
    | (session) i where "st' = update_sessions (session_claimed i (mt_sync_claimed_at m)) (mo_meeting_provider_host_user_update (\<lambda>_. Some h)) st"
    | (none) "st' = st"
    using assms(1) unfolding reserve_host_def by (auto split: option.splits)
  then show ?thesis
  proof cases
    case (event i)
    have "length (filter ?P (List.map_filter claim_slot (mst_events st'))) \<le>
        length (filter ?P (List.map_filter claim_slot (mst_events st))) + 1"
      unfolding event update_simps by (rule order_trans [OF filter_changed_le]) (use keys(1) in simp)
    then show ?thesis
      unfolding overlapping_meetings_def reserved_slots_def slot by (simp add: event update_simps)
  next
    case (session i)
    have "length (filter ?P (List.map_filter claim_slot (mst_sessions st'))) \<le>
        length (filter ?P (List.map_filter claim_slot (mst_sessions st))) + 1"
      unfolding session update_simps by (rule order_trans [OF filter_changed_le]) (use keys(2) in simp)
    then show ?thesis
      unfolding overlapping_meetings_def reserved_slots_def slot by (simp add: session update_simps)
  qed simp
qed

lemma sort_key_least:
  assumes "sort_key f xs = y # ys"
  shows "y \<in> set xs" and "\<And>x. x \<in> set xs \<Longrightarrow> f y \<le> f x"
proof -
  have "set (y # ys) = set xs" "sorted (map f (y # ys))"
    using set_sort [of f xs] sorted_sort_key [of f xs] by (simp_all add: assms)
  then show "y \<in> set xs" "\<And>x. x \<in> set xs \<Longrightarrow> f y \<le> f x" by auto
qed

section \<open>Completing a claim\<close>

text \<open>Without the claim a completion finds no row.\<close>

lemma not_claimed:
  assumes "claim_of m = Some c" and "c \<notin> sync_claims st" and "mt_event_id m = None \<or> mt_session_id m = None"
  shows "mt_event_id m = Some i \<Longrightarrow> e \<in> set (mst_events st) \<Longrightarrow> \<not> event_claimed i (mt_sync_claimed_at m) e"
    and "mt_session_id m = Some i \<Longrightarrow> s \<in> set (mst_sessions st) \<Longrightarrow> \<not> session_claimed i (mt_sync_claimed_at m) s"
    and "mt_event_id m = None \<Longrightarrow> mt_session_id m = None \<Longrightarrow> mt_meeting_id m = Some i \<Longrightarrow>
      r \<in> set (mst_meetings st) \<Longrightarrow> \<not> orphan_claimed i (mt_sync_claimed_at m) r"
  using assms
  by (auto simp: claim_of_def event_claimed_def session_claimed_def orphan_claimed_def store_simps split: bind_splits)

lemma map_unchanged: "(\<And>x. x \<in> set xs \<Longrightarrow> \<not> P x) \<Longrightarrow> map (\<lambda>x. if P x then f x else x) xs = xs"
  by (induction xs) simp_all

lemma updates_unchanged:
  "(\<And>e. e \<in> set (mst_events st) \<Longrightarrow> \<not> P e) \<Longrightarrow> update_events P f st = st"
  "(\<And>e. e \<in> set (mst_sessions st) \<Longrightarrow> \<not> Q e) \<Longrightarrow> update_sessions Q g st = st"
  "(\<And>e. e \<in> set (mst_meetings st) \<Longrightarrow> \<not> R e) \<Longrightarrow> update_meetings R h st = st"
  "(\<And>e. e \<in> set (mst_meetings st) \<Longrightarrow> \<not> R e) \<Longrightarrow> remove_meetings R st = st"
  by (simp_all add: update_events_def update_sessions_def update_meetings_def remove_meetings_def map_unchanged
      filter_id_conv)

lemma not_completed:
  assumes "claim_of m = Some c" and "c \<notin> sync_claims st" and "mt_event_id m = None \<or> mt_session_id m = None"
  shows "complete_owners digest m st = (False, st)" and "remove_orphan m st = st \<or> mt_event_id m \<noteq> None \<or> mt_session_id m \<noteq> None"
    and "mt_event_id m = Some i \<Longrightarrow> complete_event digest i (mt_sync_claimed_at m) hash err st = (False, st)"
    and "mt_session_id m = Some i \<Longrightarrow> complete_session digest i (mt_sync_claimed_at m) hash err st = (False, st)"
proof -
  note away = not_claimed [OF assms]
  show event: "complete_event digest i (mt_sync_claimed_at m) hash err st = (False, st)" if "mt_event_id m = Some i" for i hash err
    using away(1) [OF that] by (simp add: complete_event_def updates_unchanged list_ex_iff)
  show session: "complete_session digest i (mt_sync_claimed_at m) hash err st = (False, st)" if "mt_session_id m = Some i" for i hash err
    using away(2) [OF that] by (simp add: complete_session_def updates_unchanged list_ex_iff)
  show "complete_owners digest m st = (False, st)"
    using assms(3) by (auto simp: complete_owners_def event session split: option.split)
  have "remove_orphan m st = st" if "mt_event_id m = None" "mt_session_id m = None"
  proof (cases "mt_meeting_id m")
    case (Some i)
    show ?thesis unfolding remove_orphan_def Some option.case
      by (rule updates_unchanged(4)) (rule away(3) [OF that Some])
  qed (simp add: remove_orphan_def)
  then show "remove_orphan m st = st \<or> mt_event_id m \<noteq> None \<or> mt_session_id m \<noteq> None" by blast
qed

lemma completion_events:
  "insert_meeting i m st = Inr (x, st') \<Longrightarrow> mst_events st' = mst_events st"
  "update_meeting_row m st = Inr (x, st') \<Longrightarrow> mst_events st' = mst_events st"
  by (auto simp: insert_meeting_def update_meeting_row_def store_simps split: option.splits if_splits)

text \<open>The answer for an event carries the hash of the row at the time of the claim.\<close>

lemma claim_event_hash:
  assumes "claim_meeting_out_of_sync digest st = Inr (Some m, st')" and "mt_event_id m = Some i"
  shows "mt_sync_state_hash m = map_option (\<lambda>e. digest (event_inputs e)) (find_event i st) \<and> mt_session_id m = None"
  using assms(1)
proof (cases rule: claim_cases)
  case (event e b P)
  then show ?thesis using assms(2)
    by (auto simp: event_answer_def Let_def sync_answer_def delete_answer_def answer_of_def
        get_event_meeting_sync_state_hash_def)
next
  case (session x s b P)
  then show ?thesis using assms(2)
    by (auto simp: session_answer_def Let_def sync_answer_def delete_answer_def answer_of_def split: if_splits)
next
  case (orphan r)
  then show ?thesis using assms(2) by (simp add: orphan_answer_def answer_of_def)
qed simp

text \<open>The four completions of an event's meeting update the event's row in the same way.\<close>

definition event_completion :: "digest \<Rightarrow> Meeting \<Rightarrow> meeting_store \<Rightarrow> meeting_store \<Rightarrow> bool" where
  "event_completion digest m st st' \<longleftrightarrow>
     (\<exists>i. add_meeting digest i m st = Inr ((), st')) \<or> update_meeting_sql digest m st = Inr ((), st') \<or>
     delete_meeting_sql digest m st = Inr ((), st') \<or> (\<exists>error. set_meeting_error digest m error st = Inr ((), st'))"

lemma event_completion_row:
  assumes "event_completion digest m st st'" and "mt_event_id m = Some i" and "mt_session_id m = None"
  obtains err where "mst_events st' = mst_events (snd (complete_event digest i (mt_sync_claimed_at m) (mt_sync_state_hash m) err st))"
proof -
  have owners: "complete_owners digest m st = complete_event digest i (mt_sync_claimed_at m) (mt_sync_state_hash m) None st"
    using assms(2,3) by (simp add: complete_owners_def Let_def split: prod.split)
  have remove: "mst_events (case k of None \<Rightarrow> s | Some j \<Rightarrow> if h then remove_meetings (P j) s else s) = mst_events s" for k h P s
    by (simp add: store_simps split: option.split)
  show ?thesis
    using assms(1) unfolding event_completion_def
  proof (elim disjE exE)
    fix j assume "add_meeting digest j m st = Inr ((), st')"
    then show ?thesis
      by (intro that [of None]) (auto simp: add_meeting_def owners split: prod.splits if_splits dest: completion_events(1))
  next
    assume "update_meeting_sql digest m st = Inr ((), st')"
    then show ?thesis
      by (intro that [of None]) (auto simp: update_meeting_sql_def owners split: prod.splits if_splits dest: completion_events(2))
  next
    assume "delete_meeting_sql digest m st = Inr ((), st')"
    then show ?thesis
      by (intro that [of None]) (auto simp: delete_meeting_sql_def owners assms(2) remove split: prod.splits)
  next
    fix error assume "set_meeting_error digest m error st = Inr ((), st')"
    then show ?thesis
      by (intro that [of "Some error"]) (auto simp: set_meeting_error_def assms(2) split: prod.splits if_splits)
  qed
qed

section \<open>Properties\<close>

text \<open>
  C31: Whatever the provider answers and however a round ends, a round of the sync worker and a
  round of the auto-end worker leave no claim in the tables that was not there before: every claim a
  round takes is completed, recorded as failed or released. No transaction of another process runs
  between the steps of the round.
\<close>

theorem meeting_rounds_release_claims:
  assumes "meetings_ok st"
    and "sync_meeting checked_add (pg_meetings digest fresh) (providers_beside providers) cfg (st, p) = (r, (st1, p1))"
    and "auto_end_meeting (pg_meetings digest fresh) (providers_beside providers) (st, p) = (q, (st2, p2))"
  shows "meetings_ok st1 \<and> sync_claims st1 \<subseteq> sync_claims st \<and>
    meetings_ok st2 \<and> auto_end_checks st2 \<subseteq> auto_end_checks st"
  using pgm.round [OF assms(2)] pgm.check_round [OF assms(3)] assms(1) by simp

text \<open>
  C32: A worker whose claim was given up (or taken over) meanwhile changes nothing: completing the
  synchronisation of a meeting, recording an error for it and releasing it leave the tables as they
  are when the claim it carries is no longer held.
\<close>

theorem lost_claim_changes_nothing:
  assumes "claim_of m = Some c" and "c \<notin> sync_claims st" and "mt_event_id m = None \<or> mt_session_id m = None"
  shows "add_meeting digest i m st = Inr ((), st) \<and> update_meeting_sql digest m st = Inr ((), st) \<and>
    delete_meeting_sql digest m st = Inr ((), st) \<and> set_meeting_error digest m error st = Inr ((), st) \<and>
    release_meeting_sync_claim m st = Inr ((), st)"
proof (intro conjI)
  note none = not_completed [OF assms]
  show "add_meeting digest i m st = Inr ((), st)" by (simp add: add_meeting_def none(1))
  show "update_meeting_sql digest m st = Inr ((), st)" by (simp add: update_meeting_sql_def none(1))
  show "delete_meeting_sql digest m st = Inr ((), st)"
    using none(2) by (auto simp: delete_meeting_sql_def none(1) split: option.split)
  show "set_meeting_error digest m error st = Inr ((), st)"
    using none(2) by (auto simp: set_meeting_error_def none(3,4) split: option.split)
  show "release_meeting_sync_claim m st = Inr ((), st)"
    using not_claimed [OF assms] by (auto simp: release_meeting_sync_claim_def updates_unchanged split: option.split)
qed



section \<open>Witnesses\<close>

text \<open>An event to synchronise at time 100, a provider, and a pool of one host.\<close>

definition sample_event :: event_row where
  "sample_event = \<lparr>mo_ends_at = Some 9000, mo_meeting_error = None, mo_meeting_hosts = None,
     mo_meeting_in_sync = Some False, mo_meeting_provider_host_user = None, mo_meeting_provider_id = Some Zoom,
     mo_meeting_requested = Some True, mo_meeting_sync_claimed_at = None, mo_name = ''talk'', mo_starts_at = Some 5000,
     me_event_id = 1, me_canceled = False, me_deleted = False, me_hosts = [], me_meeting_recording_requested = True,
     me_published = True, me_speakers = [], me_timezone = ''UTC''\<rparr>"

definition sample_store :: meeting_store where
  "sample_store = \<lparr>mst_now = 100, mst_locked = [], mst_emails = \<lambda>_. [], mst_events = [sample_event],
     mst_sessions = [], mst_meetings = []\<rparr>"

definition sample_digest :: digest where
  "sample_digest x = (case x of EventInputs _ _ _ _ _ _ _ _ _ _ name _ _ _ \<Rightarrow> name | SessionInputs _ _ _ _ _ _ _ _ _ _ name _ _ _ _ \<Rightarrow> name)"

text \<open>A provider that is not reachable.\<close>

definition sample_provider :: "unit MeetingsProvider" where
  "sample_provider = \<lparr>mp_create_meeting = \<lambda>_. act_err (ProviderNetwork ''down''),
     mp_delete_meeting = \<lambda>_. act_err (ProviderNetwork ''down''), mp_end_meeting = \<lambda>_. act_err (ProviderNetwork ''down''),
     mp_get_meeting = \<lambda>_. act_err (ProviderNetwork ''down''), mp_update_meeting = \<lambda>_ _. act_err (ProviderNetwork ''down'')\<rparr>"

definition sample_config :: MeetingsZoomConfig where
  "sample_config = \<lparr>zc_account_id = [], zc_client_id = [], zc_client_secret = [],
     zc_enabled = True, zc_host_pool_users = ['' A@x ''], zc_max_participants = 100,
     zc_max_simultaneous_meetings_per_host = 1, zc_webhook_secret_token = []\<rparr>"

definition sample_sync :: "(SyncError + bool) \<times> meeting_store \<times> unit" where
  "sample_sync = sync_meeting (\<lambda>s d. Some (s + int (d div 1000))) (pg_meetings sample_digest (\<lambda>_. 7))
     (providers_beside (\<lambda>_. Some sample_provider)) (Some sample_config) (sample_store, ())"

definition sample_check :: "(SyncError + bool) \<times> meeting_store \<times> unit" where
  "sample_check = auto_end_meeting (pg_meetings sample_digest (\<lambda>_. 7))
     (providers_beside (\<lambda>_. Some sample_provider)) (sample_store, ())"

lemma sample_pool: "host_pool ['' A@x ''] = [''a@x'']"
proof -
  have "to_ascii_lowercase ''A@x'' = ''a@x''" by code_simp
  then show ?thesis by (simp add: host_pool_def btrim_def)
qed

definition sample_answer :: Meeting where
  "sample_answer = event_answer sample_digest sample_store sample_event False"

definition sample_claimed :: meeting_store where
  "sample_claimed = claim_event sample_event sample_store"

lemma sample_answer_fields:
  "mt_event_id sample_answer = Some 1" "mt_session_id sample_answer = None" "mt_sync_claimed_at sample_answer = Some 100"
  "mt_meeting_id sample_answer = None" "claim_of sample_answer = Some (EventClaim 1 100)"
  "mt_provider sample_answer = Zoom" "mt_delete sample_answer = Some False" "mt_provider_meeting_id sample_answer = None"
  "mt_provider_host_user_id sample_answer = None" "mt_starts_at sample_answer = Some 5000"
  "mt_duration sample_answer = Some 4000000"
  by (simp_all add: sample_answer_def answer_claims event_answer_def Let_def sync_answer_def answer_of_def
      duration_between_def meeting_of_event_def sample_event_def sample_store_def claim_of_def coalesce_def)

lemma sample_claim: "claim_meeting_out_of_sync sample_digest sample_store = Inr (Some sample_answer, sample_claimed)"
  by (simp add: claim_meeting_out_of_sync_def next_event_def sample_store_def sample_event_def needs_sync_def
      sync_pending_def starts_after_def sample_answer_def sample_claimed_def)

lemma sample_claimed_rows:
  "mst_events sample_claimed = [sample_event\<lparr>mo_meeting_sync_claimed_at := Some 100\<rparr>]"
  "mst_sessions sample_claimed = []" "mst_meetings sample_claimed = []"
  by (simp_all add: sample_claimed_def claim_event_def store_simps sample_store_def claimed_owner_def sample_event_def)

definition sample_reserved :: meeting_store where
  "sample_reserved = update_events (event_claimed 1 (Some 100)) (mo_meeting_provider_host_user_update (\<lambda>_. Some ''a@x'')) sample_claimed"

lemma sample_assign:
  "assign_zoom_host_user_sql sample_answer ['' A@x ''] 1 5000 9000 sample_claimed = Inr (Some ''a@x'', sample_reserved)"
  by (simp add: assign_zoom_host_user_sql_def available_hosts_def sample_pool overlapping_meetings_def reserved_slots_def
      sample_claimed_rows map_filter_simps claim_slot_def sample_event_def sample_answer_fields reserve_host_def
      event_claimed_def sample_reserved_def)

lemma sample_store_ok: "meetings_ok sample_store" "sync_claims sample_store = {}" "auto_end_checks sample_store = {}"
  by (simp_all add: meetings_ok_def sync_claims_def auto_end_checks_def sample_store_def sample_event_def)

theorem meeting_rounds_release_claims_witness:
  "fst sample_sync = Inl (SyncProvider (ProviderNetwork ''down'')) \<and> sync_claims (fst (snd sample_sync)) = {} \<and>
   auto_end_checks (fst (snd sample_check)) = {}"
proof (intro conjI)
  have "meeting_ends_at (\<lambda>s d. Some (s + int (d div 1000))) sample_answer = Some 9000"
    by (simp add: meeting_ends_at_def sample_answer_fields)
  then show "fst sample_sync = Inl (SyncProvider (ProviderNetwork ''down''))"
    by (simp add: sample_sync_def sync_meeting_def pg_meetings_def run_tx_def sample_claim act_bind_def act_map_err_def
        act_try_def sync_claimed_meeting_def sample_answer_fields sync_action_def create_meeting_def
        assign_provider_host_user_def assign_zoom_host_user_def sample_config_def sample_assign provider_beside_def
        sample_provider_def outside_def is_non_retryable_def provider_is_retryable_def release_meeting_sync_claim_def)
  have "sync_meeting (\<lambda>s d. Some (s + int (d div 1000))) (pg_meetings sample_digest (\<lambda>_. 7))
      (providers_beside (\<lambda>_. Some sample_provider)) (Some sample_config) (sample_store, ()) =
      (fst sample_sync, (fst (snd sample_sync), snd (snd sample_sync)))"
    by (simp add: sample_sync_def prod_eq_iff)
  moreover have "auto_end_meeting (pg_meetings sample_digest (\<lambda>_. 7))
      (providers_beside (\<lambda>_. Some sample_provider)) (sample_store, ()) =
      (fst sample_check, (fst (snd sample_check), snd (snd sample_check)))"
    by (simp add: sample_check_def prod_eq_iff)
  ultimately have rounds: "sync_claims (fst (snd sample_sync)) \<subseteq> sync_claims sample_store \<and>
      auto_end_checks (fst (snd sample_check)) \<subseteq> auto_end_checks sample_store"
    using meeting_rounds_release_claims [where providers = "\<lambda>_. Some sample_provider", OF sample_store_ok(1)] by blast
  then show "sync_claims (fst (snd sample_sync)) = {}" "auto_end_checks (fst (snd sample_check)) = {}"
    by (simp_all add: sample_store_ok)
qed

theorem lost_claim_changes_nothing_witness:
  "release_meeting_sync_claim sample_answer sample_store = Inr ((), sample_store)"
proof -
  show ?thesis
    using lost_claim_changes_nothing [of sample_answer "EventClaim 1 100" sample_store] sample_store_ok(2)
    by (simp add: sample_answer_fields)
qed


text \<open>The event is renamed between the claim and the completion.\<close>

definition sample_renamed :: meeting_store where
  "sample_renamed = update_events (\<lambda>_. True) (\<lambda>e. e\<lparr>mo_name := ''panel''\<rparr>) sample_claimed"


end
