(* ===== verification/Zoom.thy ===== *)
theory Zoom
  imports Meetings
begin

text \<open>
  The Zoom provider (\<^verbatim>\<open>services/meetings/zoom.rs\<close>) and its client (\<^verbatim>\<open>zoom/client.rs\<close>): the
  conversion of meetings to requests, the spacing of requests, the cached token, and the
  classification of answers.

  The world of a client is its two cells, the monotonic clock (nanoseconds) and the requests sent
  so far, the latest first, each with the clock when its slot was granted. What Zoom answers, how
  long it takes and how much longer than asked a sleep lasts are functions of that history. Base64,
  percent encoding, the text of an instant and the messages of the JSON decoder are parameters.
\<close>

section \<open>Requests and answers\<close>

datatype zoom_method = ZoomPost | ZoomDelete | ZoomPut | ZoomGet | ZoomPatch

datatype zoom_body = NoBody | JsonBody json | FormBody string

record zoom_request =
  zq_method :: zoom_method
  zq_url :: string
  zq_authorization :: string
  zq_body :: zoom_body

text \<open>
  A response: its status, the \<^verbatim>\<open>Retry-After\<close> header when it is there as text, and the body read as a
  JSON document, or the message of the failure to read it.
\<close>

record zoom_response =
  zs_status :: nat
  zs_retry_after :: "string option"
  zs_json :: "string + json"

record cached_token =
  ct_access_token :: string
  ct_expires_at :: nat

type_synonym zoom_history = "(nat \<times> zoom_request) list"

record zoom_world =
  zw_now :: nat
  zw_next_request_at :: "nat option"
  zw_token :: "cached_token option"
  zw_sent :: zoom_history

record zoom_env =
  ze_answer :: "zoom_history \<Rightarrow> string + zoom_response"
  ze_latency :: "zoom_history \<Rightarrow> nat"
  ze_oversleep :: "zoom_history \<Rightarrow> nat"
  ze_base64 :: "string \<Rightarrow> string"
  ze_percent_encode :: "string \<Rightarrow> string"
  ze_show_time :: "instant \<Rightarrow> string"
  ze_decode_error :: "json \<Rightarrow> string"

type_synonym ('e, 'a) zoom = "(zoom_world, 'e, 'a) act"

section \<open>Constants\<close>

definition ZOOM_MEETING_NOT_FOUND :: int where "ZOOM_MEETING_NOT_FOUND = 3001"
definition ZOOM_BASE_URL :: string where "ZOOM_BASE_URL = ''https://api.zoom.us/v2''"
definition DEFAULT_RATE_LIMIT_RETRY :: duration where "DEFAULT_RATE_LIMIT_RETRY = from_secs 60"
definition MAX_DURATION_MINUTES :: int where "MAX_DURATION_MINUTES = 720"
definition MIN_DURATION_MINUTES :: int where "MIN_DURATION_MINUTES = 5"
definition TOKEN_EXPIRY_MARGIN :: duration where "TOKEN_EXPIRY_MARGIN = from_secs (5 * 60)"
definition ZOOM_REQUEST_INTERVAL :: duration where "ZOOM_REQUEST_INTERVAL = from_secs 1"
definition ZOOM_TOKEN_URL :: string where "ZOOM_TOKEN_URL = ''https://zoom.us/oauth/token''"

section \<open>Errors\<close>

datatype ZoomClientError =
    ZoomClientFailure int string
  | ZoomInvalidDuration int
  | ZoomNetwork string
  | ZoomRateLimit duration
  | ZoomServer int string
  | ZoomToken string

definition zoom_error_to_string :: "ZoomClientError \<Rightarrow> string" where
  "zoom_error_to_string e = (case e of
     ZoomClientFailure code message \<Rightarrow> ''zoom client client error: '' @ show_int code @ '' - '' @ message
   | ZoomInvalidDuration minutes \<Rightarrow> ''invalid meeting duration: '' @ show_int minutes @ '' minutes''
   | ZoomNetwork m \<Rightarrow> ''zoom client network error: '' @ m
   | ZoomRateLimit d \<Rightarrow> ''zoom client rate limit exceeded (retry after '' @ show_nat (as_secs d) @ ''s)''
   | ZoomServer code message \<Rightarrow> ''zoom client server error: '' @ show_int code @ '' - '' @ message
   | ZoomToken m \<Rightarrow> ''zoom client token error: '' @ m)"

definition provider_error_of_zoom :: "ZoomClientError \<Rightarrow> MeetingProviderError" where
  "provider_error_of_zoom e = (case e of
     ZoomClientFailure code message \<Rightarrow>
       if code = ZOOM_MEETING_NOT_FOUND then ProviderNotFound
       else ProviderClient (show_int code @ '': '' @ message)
   | ZoomInvalidDuration minutes \<Rightarrow> ProviderClient (''invalid meeting duration: '' @ show_int minutes @ '' minutes'')
   | ZoomNetwork m \<Rightarrow> ProviderNetwork m
   | ZoomRateLimit d \<Rightarrow> ProviderRateLimit d
   | ZoomServer code message \<Rightarrow> ProviderServer (show_int code @ '': '' @ message)
   | ZoomToken m \<Rightarrow> ProviderToken m)"

text \<open>\<^verbatim>\<open>str::parse::<u64>\<close>, with the error dropped.\<close>

definition parse_u64 :: "string \<Rightarrow> nat option" where
  "parse_u64 s =
     (let digits = (case s of c # cs \<Rightarrow> if c = CHR ''+'' then cs else s | [] \<Rightarrow> []) in
      if digits = [] then None
      else case read_nat_acc 0 digits of
        Some n \<Rightarrow> if int n \<le> 18446744073709551615 then Some n else None | None \<Rightarrow> None)"

record zoom_error_body =
  zb_code :: int
  zb_message :: string

text \<open>
  The body of an error: fields that are missing have their defaults, and a body that is no such
  object counts as an empty one.
\<close>

definition decode_zoom_error :: "string + json \<Rightarrow> zoom_error_body" where
  "decode_zoom_error body =
     (case body of
        Inr (JObject kvs) \<Rightarrow>
          (case (map_of kvs ''code'', map_of kvs ''message'') of
             (None, None) \<Rightarrow> \<lparr>zb_code = 0, zb_message = []\<rparr>
           | (Some (JInt c), None) \<Rightarrow>
               if - 2147483648 \<le> c \<and> c \<le> 2147483647 then \<lparr>zb_code = c, zb_message = []\<rparr>
               else \<lparr>zb_code = 0, zb_message = []\<rparr>
           | (None, Some (JString m)) \<Rightarrow> \<lparr>zb_code = 0, zb_message = m\<rparr>
           | (Some (JInt c), Some (JString m)) \<Rightarrow>
               if - 2147483648 \<le> c \<and> c \<le> 2147483647 then \<lparr>zb_code = c, zb_message = m\<rparr>
               else \<lparr>zb_code = 0, zb_message = []\<rparr>
           | _ \<Rightarrow> \<lparr>zb_code = 0, zb_message = []\<rparr>)
      | _ \<Rightarrow> \<lparr>zb_code = 0, zb_message = []\<rparr>)"

definition zoom_error_from_response :: "zoom_response \<Rightarrow> ZoomClientError" where
  "zoom_error_from_response response =
     (let retry_after = (case Option.bind (zs_retry_after response) parse_u64 of
            None \<Rightarrow> DEFAULT_RATE_LIMIT_RETRY | Some n \<Rightarrow> from_secs n);
          status = zs_status response;
          error = decode_zoom_error (zs_json response)
      in if status = 429 then ZoomRateLimit retry_after
         else if status = 401 \<or> status = 403
         then ZoomToken (show_int (zb_code error) @ '' - '' @ zb_message error)
         else if 400 \<le> status \<and> status < 500 then ZoomClientFailure (zb_code error) (zb_message error)
         else ZoomServer (zb_code error) (zb_message error))"

definition zoom_is_success :: "zoom_response \<Rightarrow> bool" where
  "zoom_is_success response \<longleftrightarrow> 200 \<le> zs_status response \<and> zs_status response < 300"

section \<open>Data of the requests\<close>

record MeetingSettings =
  zt_auto_recording :: "string option"
  zt_jbh_time :: "int option"
  zt_join_before_host :: "bool option"
  zt_mute_upon_entry :: "bool option"
  zt_participant_video :: "bool option"
  zt_waiting_room :: "bool option"

definition default_meeting_settings :: "bool option \<Rightarrow> MeetingSettings" where
  "default_meeting_settings recording_requested =
     \<lparr>zt_auto_recording = Some (if coalesce recording_requested True then ''cloud'' else ''none''),
      zt_jbh_time = Some 15, zt_join_before_host = Some True, zt_mute_upon_entry = Some True,
      zt_participant_video = Some False, zt_waiting_room = Some False\<rparr>"

record CreateMeetingRequest =
  zm_meeting_type :: int
  zm_topic :: string
  zm_default_password :: "bool option"
  zm_duration :: "int option"
  zm_settings :: "MeetingSettings option"
  zm_start_time :: "instant option"
  zm_timezone :: "string option"

record UpdateMeetingRequest =
  zu_duration :: "int option"
  zu_settings :: "MeetingSettings option"
  zu_start_time :: "instant option"
  zu_timezone :: "string option"
  zu_topic :: "string option"

definition minutes_try_from_duration :: "duration \<Rightarrow> ZoomClientError + int" where
  "minutes_try_from_duration d =
     (let minutes = min (int (as_secs d div 60)) 9223372036854775807
      in if MIN_DURATION_MINUTES \<le> minutes \<and> minutes \<le> MAX_DURATION_MINUTES then Inr minutes
         else Inl (ZoomInvalidDuration minutes))"

text \<open>\<^verbatim>\<open>opt.map(f).transpose()\<close>\<close>

definition map_transpose :: "('a \<Rightarrow> 'e + 'b) \<Rightarrow> 'a option \<Rightarrow> 'e + 'b option" where
  "map_transpose f v = (case v of None \<Rightarrow> Inr None
     | Some x \<Rightarrow> (case f x of Inl e \<Rightarrow> Inl e | Inr y \<Rightarrow> Inr (Some y)))"

definition create_request :: "Meeting \<Rightarrow> ZoomClientError + CreateMeetingRequest" where
  "create_request m =
     and_then (map_transpose minutes_try_from_duration (mt_duration m)) (\<lambda>duration. Inr
       \<lparr>zm_meeting_type = 2, zm_topic = coalesce (mt_topic m) [], zm_default_password = Some True,
        zm_duration = duration, zm_settings = Some (default_meeting_settings (mt_recording_requested m)),
        zm_start_time = mt_starts_at m, zm_timezone = mt_timezone m\<rparr>)"

definition update_request :: "Meeting \<Rightarrow> ZoomClientError + UpdateMeetingRequest" where
  "update_request m =
     and_then (map_transpose minutes_try_from_duration (mt_duration m)) (\<lambda>duration. Inr
       \<lparr>zu_duration = duration, zu_settings = Some (default_meeting_settings (mt_recording_requested m)),
        zu_start_time = mt_starts_at m, zu_timezone = mt_timezone m, zu_topic = mt_topic m\<rparr>)"

text \<open>The JSON form; fields without a value are skipped.\<close>

definition json_field :: "string \<Rightarrow> ('a \<Rightarrow> json) \<Rightarrow> 'a option \<Rightarrow> (string \<times> json) list" where
  "json_field k f v = (case v of None \<Rightarrow> [] | Some x \<Rightarrow> [(k, f x)])"

definition settings_json :: "MeetingSettings \<Rightarrow> json" where
  "settings_json s = JObject (json_field ''auto_recording'' JString (zt_auto_recording s) @
     json_field ''jbh_time'' JInt (zt_jbh_time s) @ json_field ''join_before_host'' JBool (zt_join_before_host s) @
     json_field ''mute_upon_entry'' JBool (zt_mute_upon_entry s) @
     json_field ''participant_video'' JBool (zt_participant_video s) @
     json_field ''waiting_room'' JBool (zt_waiting_room s))"

definition create_request_json :: "(instant \<Rightarrow> string) \<Rightarrow> CreateMeetingRequest \<Rightarrow> json" where
  "create_request_json show_time r = JObject ([(''type'', JInt (zm_meeting_type r)), (''topic'', JString (zm_topic r))] @
     json_field ''default_password'' JBool (zm_default_password r) @ json_field ''duration'' JInt (zm_duration r) @
     json_field ''settings'' settings_json (zm_settings r) @
     json_field ''start_time'' (JString \<circ> show_time) (zm_start_time r) @
     json_field ''timezone'' JString (zm_timezone r))"

definition update_request_json :: "(instant \<Rightarrow> string) \<Rightarrow> UpdateMeetingRequest \<Rightarrow> json" where
  "update_request_json show_time r = JObject (json_field ''duration'' JInt (zu_duration r) @
     json_field ''settings'' settings_json (zu_settings r) @
     json_field ''start_time'' (JString \<circ> show_time) (zu_start_time r) @
     json_field ''timezone'' JString (zu_timezone r) @ json_field ''topic'' JString (zu_topic r))"

definition end_request_json :: json where
  "end_request_json = JObject [(''action'', JString ''end'')]"

section \<open>The client\<close>

record zoom_meeting =
  zg_id :: int
  zg_join_url :: string
  zg_password :: "string option"
  zg_status :: "string option"

text \<open>An optional text field: missing or null is none, and anything but text is an error.\<close>

definition optional_text :: "string \<Rightarrow> (string \<times> json) list \<Rightarrow> string option option" where
  "optional_text k kvs = (case map_of kvs k of
     None \<Rightarrow> Some None | Some JNull \<Rightarrow> Some None | Some (JString x) \<Rightarrow> Some (Some x) | _ \<Rightarrow> None)"

definition decode_zoom_meeting :: "zoom_env \<Rightarrow> string + json \<Rightarrow> string + zoom_meeting" where
  "decode_zoom_meeting env body =
     (case body of
        Inl m \<Rightarrow> Inl m
      | Inr doc \<Rightarrow>
          (case doc of
             JObject kvs \<Rightarrow>
               (case (map_of kvs ''id'', map_of kvs ''join_url'', optional_text ''password'' kvs, optional_text ''status'' kvs) of
                  (Some (JInt i), Some (JString url), Some password, Some status) \<Rightarrow>
                    if - (2 ^ 63) \<le> i \<and> i < 2 ^ 63
                    then Inr \<lparr>zg_id = i, zg_join_url = url, zg_password = password, zg_status = status\<rparr>
                    else Inl (ze_decode_error env doc)
                | _ \<Rightarrow> Inl (ze_decode_error env doc))
           | _ \<Rightarrow> Inl (ze_decode_error env doc)))"

definition decode_token_response :: "zoom_env \<Rightarrow> string + json \<Rightarrow> string + (string \<times> nat)" where
  "decode_token_response env body =
     (case body of
        Inl m \<Rightarrow> Inl m
      | Inr doc \<Rightarrow>
          (case doc of
             JObject kvs \<Rightarrow>
               (case (map_of kvs ''access_token'', map_of kvs ''expires_in'') of
                  (Some (JString t), Some (JInt n)) \<Rightarrow>
                    if 0 \<le> n \<and> n < 2 ^ 64 then Inr (t, nat n) else Inl (ze_decode_error env doc)
                | _ \<Rightarrow> Inl (ze_decode_error env doc))
           | _ \<Rightarrow> Inl (ze_decode_error env doc)))"

text \<open>Waiting for a slot, under the lock of the cell.\<close>

definition wait_for_request_slot :: "zoom_env \<Rightarrow> ('e, unit) zoom" where
  "wait_for_request_slot env = (\<lambda>w.
     let now' = (case zw_next_request_at w of
           Some allowed_at \<Rightarrow> if zw_now w < allowed_at then allowed_at + ze_oversleep env (zw_sent w) else zw_now w
         | None \<Rightarrow> zw_now w)
     in (Inr (), w\<lparr>zw_now := now', zw_next_request_at := Some (now' + ZOOM_REQUEST_INTERVAL)\<rparr>))"

text \<open>Sending a request and reading the answer.\<close>

definition zoom_send :: "zoom_env \<Rightarrow> zoom_request \<Rightarrow> (string, zoom_response) zoom" where
  "zoom_send env request = (\<lambda>w.
     let sent = (zw_now w, request) # zw_sent w
     in (ze_answer env sent, w\<lparr>zw_sent := sent, zw_now := zw_now w + ze_latency env sent\<rparr>))"

definition fetch_token :: "zoom_env \<Rightarrow> MeetingsZoomConfig \<Rightarrow> (anyhow, cached_token) zoom" where
  "fetch_token env cfg =
     (let encoded = ze_base64 env (zc_client_id cfg @ '':'' @ zc_client_secret cfg) in
      act_bind (wait_for_request_slot env) (\<lambda>_.
      act_bind (act_map_err Msg (zoom_send env
        \<lparr>zq_method = ZoomPost, zq_url = ZOOM_TOKEN_URL, zq_authorization = ''Basic '' @ encoded,
         zq_body = FormBody (''grant_type=account_credentials&account_id='' @ zc_account_id cfg)\<rparr>)) (\<lambda>response.
      if \<not> zoom_is_success response
      then let error = decode_zoom_error (zs_json response) in
        act_err (Msg (''zoom token error: '' @ show_int (zb_code error) @ '' - '' @ zb_message error))
      else act_bind (act_map_err Msg (act_lift (decode_token_response env (zs_json response)))) (\<lambda>(token, expires_in).
      \<lambda>w. (Inr \<lparr>ct_access_token = token, ct_expires_at = zw_now w + from_secs expires_in\<rparr>, w)))))"

definition cached_token_valid :: "zoom_world \<Rightarrow> cached_token \<Rightarrow> bool" where
  "cached_token_valid w cached \<longleftrightarrow> zw_now w + TOKEN_EXPIRY_MARGIN < ct_expires_at cached"

definition get_token :: "zoom_env \<Rightarrow> MeetingsZoomConfig \<Rightarrow> (anyhow, string) zoom" where
  "get_token env cfg = (\<lambda>w.
     case zw_token w of
       Some cached \<Rightarrow>
         if cached_token_valid w cached then (Inr (ct_access_token cached), w)
         else act_bind (fetch_token env cfg)
           (\<lambda>new w. (Inr (ct_access_token new), w\<lparr>zw_token := Some new\<rparr>)) w
     | None \<Rightarrow> act_bind (fetch_token env cfg)
         (\<lambda>new w. (Inr (ct_access_token new), w\<lparr>zw_token := Some new\<rparr>)) w)"

text \<open>What the five calls share: the token, the slot, the request, and the test of the status.\<close>

definition zoom_call ::
    "zoom_env \<Rightarrow> MeetingsZoomConfig \<Rightarrow> zoom_method \<Rightarrow> string \<Rightarrow> zoom_body \<Rightarrow> (ZoomClientError, zoom_response) zoom" where
  "zoom_call env cfg meth url body =
     act_bind (act_map_err (\<lambda>e. ZoomToken (err_to_string e)) (get_token env cfg)) (\<lambda>token.
     act_bind (wait_for_request_slot env) (\<lambda>_.
     act_bind (act_map_err ZoomNetwork (zoom_send env
       \<lparr>zq_method = meth, zq_url = url, zq_authorization = ''Bearer '' @ token, zq_body = body\<rparr>)) (\<lambda>response.
     if zoom_is_success response then act_ok response else act_err (zoom_error_from_response response))))"

definition zoom_read_meeting :: "zoom_env \<Rightarrow> zoom_response \<Rightarrow> (ZoomClientError, zoom_meeting) zoom" where
  "zoom_read_meeting env response =
     act_map_err ZoomNetwork (act_lift (decode_zoom_meeting env (zs_json response)))"

definition client_create_meeting ::
    "zoom_env \<Rightarrow> MeetingsZoomConfig \<Rightarrow> string \<Rightarrow> CreateMeetingRequest \<Rightarrow> (ZoomClientError, zoom_meeting) zoom" where
  "client_create_meeting env cfg host_user_id req =
     act_bind (zoom_call env cfg ZoomPost (ZOOM_BASE_URL @ ''/users/'' @ ze_percent_encode env host_user_id @ ''/meetings'')
       (JsonBody (create_request_json (ze_show_time env) req))) (zoom_read_meeting env)"

definition meeting_url :: "int \<Rightarrow> string" where
  "meeting_url meeting_id = ZOOM_BASE_URL @ ''/meetings/'' @ show_int meeting_id"

definition client_delete_meeting :: "zoom_env \<Rightarrow> MeetingsZoomConfig \<Rightarrow> int \<Rightarrow> (ZoomClientError, unit) zoom" where
  "client_delete_meeting env cfg meeting_id =
     act_bind (zoom_call env cfg ZoomDelete (meeting_url meeting_id) NoBody) (\<lambda>_. act_ok ())"

definition client_end_meeting :: "zoom_env \<Rightarrow> MeetingsZoomConfig \<Rightarrow> int \<Rightarrow> (ZoomClientError, unit) zoom" where
  "client_end_meeting env cfg meeting_id =
     act_bind (zoom_call env cfg ZoomPut (meeting_url meeting_id @ ''/status'') (JsonBody end_request_json)) (\<lambda>_. act_ok ())"

definition client_get_meeting :: "zoom_env \<Rightarrow> MeetingsZoomConfig \<Rightarrow> int \<Rightarrow> (ZoomClientError, zoom_meeting) zoom" where
  "client_get_meeting env cfg meeting_id =
     act_bind (zoom_call env cfg ZoomGet (meeting_url meeting_id) NoBody) (zoom_read_meeting env)"

definition client_update_meeting ::
    "zoom_env \<Rightarrow> MeetingsZoomConfig \<Rightarrow> int \<Rightarrow> UpdateMeetingRequest \<Rightarrow> (ZoomClientError, unit) zoom" where
  "client_update_meeting env cfg meeting_id req =
     act_bind (zoom_call env cfg ZoomPatch (meeting_url meeting_id)
       (JsonBody (update_request_json (ze_show_time env) req))) (\<lambda>_. act_ok ())"

section \<open>The provider\<close>

definition parse_meeting_id :: "string \<Rightarrow> (MeetingProviderError, int) zoom" where
  "parse_meeting_id i = act_map_err (\<lambda>e. ProviderClient (err_to_string e)) (act_lift (parse_i64 i))"

definition provider_meeting :: "zoom_meeting \<Rightarrow> MeetingProviderMeeting" where
  "provider_meeting m = \<lparr>mp_id = show_int (zg_id m), mp_join_url = zg_join_url m, mp_password = zg_password m\<rparr>"

definition zoom_create_meeting ::
    "zoom_env \<Rightarrow> MeetingsZoomConfig \<Rightarrow> Meeting \<Rightarrow> (MeetingProviderError, MeetingProviderMeeting) zoom" where
  "zoom_create_meeting env cfg meeting =
     act_bind (act_lift (ok_or (ProviderClient ''missing provider host user id'') (mt_provider_host_user_id meeting))) (\<lambda>host.
     act_bind (act_map_err provider_error_of_zoom (act_lift (create_request meeting))) (\<lambda>req.
     act_bind (act_map_err provider_error_of_zoom (client_create_meeting env cfg host req)) (\<lambda>m.
     act_ok (provider_meeting m))))"

definition zoom_delete_meeting :: "zoom_env \<Rightarrow> MeetingsZoomConfig \<Rightarrow> string \<Rightarrow> (MeetingProviderError, unit) zoom" where
  "zoom_delete_meeting env cfg provider_meeting_id =
     act_bind (parse_meeting_id provider_meeting_id) (\<lambda>i.
     act_try (client_delete_meeting env cfg i) (\<lambda>answer.
     case answer of
       Inr _ \<Rightarrow> act_ok ()
     | Inl e \<Rightarrow>
         (case e of
            ZoomClientFailure code _ \<Rightarrow>
              if code = ZOOM_MEETING_NOT_FOUND then act_err ProviderNotFound else act_err (provider_error_of_zoom e)
          | _ \<Rightarrow> act_err (provider_error_of_zoom e))))"

definition is_started :: "zoom_meeting \<Rightarrow> bool" where
  "is_started m = (case zg_status m of Some status \<Rightarrow> eq_ignore_ascii_case status ''started'' | None \<Rightarrow> False)"

definition zoom_end_meeting :: "zoom_env \<Rightarrow> MeetingsZoomConfig \<Rightarrow> string \<Rightarrow> (MeetingProviderError, MeetingEndResult) zoom" where
  "zoom_end_meeting env cfg provider_meeting_id =
     act_bind (parse_meeting_id provider_meeting_id) (\<lambda>i.
     act_bind (act_map_err provider_error_of_zoom (client_get_meeting env cfg i)) (\<lambda>m.
     if \<not> is_started m then act_ok EndAlreadyNotRunning
     else act_bind (act_map_err provider_error_of_zoom (client_end_meeting env cfg i)) (\<lambda>_. act_ok MeetingEnded)))"

definition zoom_get_meeting :: "zoom_env \<Rightarrow> MeetingsZoomConfig \<Rightarrow> string \<Rightarrow> (MeetingProviderError, MeetingProviderMeeting) zoom" where
  "zoom_get_meeting env cfg provider_meeting_id =
     act_bind (parse_meeting_id provider_meeting_id) (\<lambda>i.
     act_bind (act_map_err provider_error_of_zoom (client_get_meeting env cfg i)) (\<lambda>m. act_ok (provider_meeting m)))"

definition zoom_update_meeting :: "zoom_env \<Rightarrow> MeetingsZoomConfig \<Rightarrow> string \<Rightarrow> Meeting \<Rightarrow> (MeetingProviderError, unit) zoom" where
  "zoom_update_meeting env cfg provider_meeting_id meeting =
     act_bind (parse_meeting_id provider_meeting_id) (\<lambda>i.
     act_bind (act_map_err provider_error_of_zoom (act_lift (update_request meeting))) (\<lambda>req.
     act_map_err provider_error_of_zoom (client_update_meeting env cfg i req)))"

definition zoom_provider :: "zoom_env \<Rightarrow> MeetingsZoomConfig \<Rightarrow> zoom_world MeetingsProvider" where
  "zoom_provider env cfg =
     \<lparr>mp_create_meeting = zoom_create_meeting env cfg, mp_delete_meeting = zoom_delete_meeting env cfg,
      mp_end_meeting = zoom_end_meeting env cfg, mp_get_meeting = zoom_get_meeting env cfg,
      mp_update_meeting = zoom_update_meeting env cfg\<rparr>"

section \<open>Spacing of the requests\<close>

text \<open>Successive slots are at least an interval apart; the latest comes first.\<close>

fun slots_spaced :: "zoom_history \<Rightarrow> bool" where
  "slots_spaced ((t, _) # (u, q) # rest) \<longleftrightarrow> u + ZOOM_REQUEST_INTERVAL \<le> t \<and> slots_spaced ((u, q) # rest)"
| "slots_spaced _ \<longleftrightarrow> True"

definition slot_cell_ok :: "zoom_world \<Rightarrow> bool" where
  "slot_cell_ok w \<longleftrightarrow> slots_spaced (zw_sent w) \<and>
     (case zw_sent w of [] \<Rightarrow> True
      | (t, _) # _ \<Rightarrow> \<exists>n. zw_next_request_at w = Some n \<and> t + ZOOM_REQUEST_INTERVAL \<le> n)"

definition has_slot :: "zoom_world \<Rightarrow> bool" where
  "has_slot w \<longleftrightarrow> slots_spaced (zw_sent w) \<and> zw_next_request_at w = Some (zw_now w + ZOOM_REQUEST_INTERVAL) \<and>
     (case zw_sent w of [] \<Rightarrow> True | (t, _) # _ \<Rightarrow> t + ZOOM_REQUEST_INTERVAL \<le> zw_now w)"

lemma wait_slot: "wait_for_request_slot env w = (r, w1) \<Longrightarrow> slot_cell_ok w \<Longrightarrow> has_slot w1"
  by (auto simp: slot_cell_ok_def has_slot_def wait_for_request_slot_def Let_def split: list.splits option.splits)

lemma send_slot: "has_slot w \<Longrightarrow> slot_cell_ok (snd (zoom_send env q w))"
  by (cases "zw_sent w") (auto simp: slot_cell_ok_def has_slot_def zoom_send_def Let_def)

text \<open>A request is sent right after its slot was granted.\<close>

lemma wait_send_keeps:
  assumes "\<And>r. keeps slot_cell_ok (f r :: ('e, 'a) zoom)"
  shows "keeps slot_cell_ok (act_bind (wait_for_request_slot env) (\<lambda>_. act_bind (act_map_err g (zoom_send env q)) f))"
proof (rule keepsI)
  fix w assume w: "slot_cell_ok w"
  obtain w1 where 1: "(wait_for_request_slot env :: ('e, unit) zoom) w = (Inr (), w1)" by (simp add: wait_for_request_slot_def Let_def)
  then have "has_slot w1" using w by (rule wait_slot)
  then have "slot_cell_ok (snd (act_bind (act_map_err g (zoom_send env q)) f w1))"
    using send_slot [of w1 env q] assms [THEN keepsD]
    by (auto simp: act_bind_def act_map_err_def split: prod.split sum.split)
  then show "slot_cell_ok (snd (act_bind (wait_for_request_slot env) (\<lambda>_. act_bind (act_map_err g (zoom_send env q)) f) w))"
    by (simp add: act_bind_def 1)
qed

lemma keeps_read: "keeps P (\<lambda>w. (f w, w))"
  by (simp add: keeps_def)

lemma fetch_keeps: "keeps slot_cell_ok (fetch_token env cfg)"
  unfolding fetch_token_def Let_def
  by (rule wait_send_keeps) (auto simp: case_prod_beta intro!: keeps_bind keeps_map_err keeps_read)

lemma slot_cell_ok_token: "slot_cell_ok (w\<lparr>zw_token := t\<rparr>) = slot_cell_ok w"
  by (simp add: slot_cell_ok_def split: list.split)

lemma get_token_keeps: "keeps slot_cell_ok (get_token env cfg)"
proof (rule keepsI)
  fix w assume w: "slot_cell_ok w"
  have "slot_cell_ok (snd (act_bind (fetch_token env cfg)
      (\<lambda>new w. (Inr (ct_access_token new), w\<lparr>zw_token := Some new\<rparr>)) w))"
    using keepsD [OF fetch_keeps w, of env cfg]
    by (cases "fetch_token env cfg w"; cases "fst (fetch_token env cfg w)") (simp_all add: act_bind_def slot_cell_ok_token)
  with w show "slot_cell_ok (snd (get_token env cfg w))" by (auto simp: get_token_def split: option.split)
qed

lemma zoom_call_keeps: "keeps slot_cell_ok (zoom_call env cfg m url b)"
  unfolding zoom_call_def
  by (intro keeps_bind keeps_map_err get_token_keeps wait_send_keeps) (simp add: keeps_def)

lemmas client_defs = client_create_meeting_def client_delete_meeting_def client_end_meeting_def
  client_get_meeting_def client_update_meeting_def zoom_read_meeting_def

lemmas provider_defs = zoom_create_meeting_def zoom_delete_meeting_def zoom_end_meeting_def zoom_get_meeting_def
  zoom_update_meeting_def parse_meeting_id_def

lemma provider_keeps_slots:
  "keeps slot_cell_ok (zoom_create_meeting env cfg m)" "keeps slot_cell_ok (zoom_delete_meeting env cfg i)"
  "keeps slot_cell_ok (zoom_end_meeting env cfg i)" "keeps slot_cell_ok (zoom_get_meeting env cfg i)"
  "keeps slot_cell_ok (zoom_update_meeting env cfg i m)"
  by (auto simp: provider_defs client_defs intro!: keeps_bind keeps_try keeps_map_err zoom_call_keeps
      split: sum.split ZoomClientError.split)

section \<open>Properties\<close>

text \<open>What the workers ask of the provider, in any order.\<close>

datatype zoom_operation =
    ZoomOpCreate Meeting | ZoomOpDelete string | ZoomOpEnd string | ZoomOpGet string | ZoomOpUpdate string Meeting

definition run_zoom_operation :: "zoom_env \<Rightarrow> MeetingsZoomConfig \<Rightarrow> zoom_operation \<Rightarrow> zoom_world \<Rightarrow> zoom_world" where
  "run_zoom_operation env cfg op w = (let p = zoom_provider env cfg in
     case op of
       ZoomOpCreate m \<Rightarrow> snd (mp_create_meeting p m w)
     | ZoomOpDelete i \<Rightarrow> snd (mp_delete_meeting p i w)
     | ZoomOpEnd i \<Rightarrow> snd (mp_end_meeting p i w)
     | ZoomOpGet i \<Rightarrow> snd (mp_get_meeting p i w)
     | ZoomOpUpdate i m \<Rightarrow> snd (mp_update_meeting p i m w))"

definition new_zoom_world :: "nat \<Rightarrow> zoom_world" where
  "new_zoom_world now = \<lparr>zw_now = now, zw_next_request_at = None, zw_token = None, zw_sent = []\<rparr>"

lemma operations_keep_slots:
  "slot_cell_ok w \<Longrightarrow> slot_cell_ok (fold (run_zoom_operation env cfg) ops w)"
  by (induction ops arbitrary: w)
    (auto simp: run_zoom_operation_def Let_def zoom_provider_def intro!: keepsD [OF provider_keeps_slots(1)]
      keepsD [OF provider_keeps_slots(2)] keepsD [OF provider_keeps_slots(3)] keepsD [OF provider_keeps_slots(4)]
      keepsD [OF provider_keeps_slots(5)] split: zoom_operation.split)

text \<open>
  C35: The requests a client sends, those for tokens included and whatever they are answered with,
  are at least a second apart: whatever operations run on a new client, each request was granted its
  slot at least \<^verbatim>\<open>ZOOM_REQUEST_INTERVAL\<close> after the one before it.
\<close>

theorem zoom_requests_spaced:
  "slots_spaced (zw_sent (fold (run_zoom_operation env cfg) ops (new_zoom_world now)))"
proof -
  have "slot_cell_ok (new_zoom_world now)" by (simp add: slot_cell_ok_def new_zoom_world_def)
  from operations_keep_slots [OF this] show ?thesis by (simp add: slot_cell_ok_def)
qed

text \<open>
  How an answer that is not a success reaches the sync worker. Rate limits are retried after the
  time Zoom asked for (a minute when it named none), failures of the authorisation and of the server
  are retried, and of the remaining client errors the one that says the meeting does not exist is
  told apart; those are final.
\<close>

theorem zoom_failures_classified:
  "provider_error_of_zoom (zoom_error_from_response response) =
     (let code = zb_code (decode_zoom_error (zs_json response));
          message = zb_message (decode_zoom_error (zs_json response)) in
      if zs_status response = 429 then
        ProviderRateLimit (case Option.bind (zs_retry_after response) parse_u64 of Some n \<Rightarrow> from_secs n | None \<Rightarrow> from_secs 60)
      else if zs_status response \<in> {401, 403} then ProviderToken (show_int code @ '' - '' @ message)
      else if 400 \<le> zs_status response \<and> zs_status response < 500 then
        (if code = 3001 then ProviderNotFound else ProviderClient (show_int code @ '': '' @ message))
      else ProviderServer (show_int code @ '': '' @ message)) \<and>
   (provider_is_retryable (provider_error_of_zoom (zoom_error_from_response response)) \<longleftrightarrow>
     zs_status response \<in> {401, 403, 429} \<or> \<not> (400 \<le> zs_status response \<and> zs_status response < 500))"
  by (auto simp: zoom_error_from_response_def provider_error_of_zoom_def provider_is_retryable_def Let_def
      DEFAULT_RATE_LIMIT_RETRY_def ZOOM_MEETING_NOT_FOUND_def split: option.split)

text \<open>
  A meeting whose duration is known is only requested with a whole number of minutes from five
  to twelve hours, the duration rounded down; any other duration is refused before a request is made.
\<close>

theorem zoom_duration_bounds:
  assumes "mt_duration m = Some d" and "as_secs d < 2 ^ 64"
  shows "case create_request m of
      Inr req \<Rightarrow> zm_duration req = Some (int (as_secs d div 60)) \<and> 5 \<le> as_secs d div 60 \<and> as_secs d div 60 \<le> 720
    | Inl e \<Rightarrow> e = ZoomInvalidDuration (int (as_secs d div 60)) \<and> (as_secs d < 300 \<or> 43260 \<le> as_secs d)"
proof -
  have "as_secs d div 60 \<le> 2 ^ 64 div 60" using assms(2) by (intro div_le_mono) simp
  then have "int (as_secs d div 60) \<le> 9223372036854775807" by simp
  then show ?thesis
    using assms(1)
    by (auto simp: create_request_def map_transpose_def minutes_try_from_duration_def Let_def MIN_DURATION_MINUTES_def
        MAX_DURATION_MINUTES_def min_def)
qed

end
