(* ===== verification/Auth_Types.thy ===== *)
theory Auth_Types
  imports Prelude
begin

text \<open>
  The types of authentication and authorization: external provider metadata
  (\<^verbatim>\<open>ocg-server/src/types/user.rs\<close>), the permissions (\<^verbatim>\<open>types/permissions.rs\<close>), users, credentials
  and sign-up data (\<^verbatim>\<open>auth.rs\<close>), the validation rules of the forms, and the interface the
  database offers for them, the trait \<^verbatim>\<open>DBAuth\<close> (\<^verbatim>\<open>db/auth.rs\<close>). The check that a text is an e-mail
  address is an argument, a function of the library garde. The length limits count bytes, garde's default mode for strings.
\<close>

section \<open>External providers\<close>

record GitHubUserProvider =
  gh_username :: string

record LinuxFoundationUserProvider =
  lf_username :: string
  lf_issuer :: "string option"
  lf_subject :: "string option"

record UserProvider =
  up_github :: "GitHubUserProvider option"
  up_linuxfoundation :: "LinuxFoundationUserProvider option"

definition default_provider :: UserProvider where
  "default_provider = \<lparr>up_github = None, up_linuxfoundation = None\<rparr>"

definition from_github_username :: "string \<Rightarrow> UserProvider" where
  "from_github_username username =
     \<lparr>up_github = Some \<lparr>gh_username = username\<rparr>, up_linuxfoundation = None\<rparr>"

definition from_linuxfoundation_identity :: "string \<Rightarrow> string \<Rightarrow> string \<Rightarrow> UserProvider" where
  "from_linuxfoundation_identity issuer subject username =
     \<lparr>up_github = None,
      up_linuxfoundation = Some \<lparr>lf_username = username, lf_issuer = Some issuer, lf_subject = Some subject\<rparr>\<rparr>"

definition merge_provider :: "UserProvider \<Rightarrow> UserProvider \<Rightarrow> UserProvider" where
  "merge_provider self other =
     (let self = (case up_github other of Some github \<Rightarrow> self\<lparr>up_github := Some github\<rparr> | None \<Rightarrow> self) in
      case up_linuxfoundation other of
        Some linuxfoundation \<Rightarrow> self\<lparr>up_linuxfoundation := Some linuxfoundation\<rparr>
      | None \<Rightarrow> self)"

definition linuxfoundation_provider_identity :: "UserProvider \<Rightarrow> (string \<times> string) option" where
  "linuxfoundation_provider_identity provider =
     (case up_linuxfoundation provider of
        None \<Rightarrow> None
      | Some lf \<Rightarrow> (case lf_issuer lf of
          None \<Rightarrow> None
        | Some issuer \<Rightarrow> (case lf_subject lf of None \<Rightarrow> None | Some subject \<Rightarrow> Some (issuer, subject))))"

lemma merge_provider_fields [simp]:
  "up_github (merge_provider p q) = (case up_github q of Some g \<Rightarrow> Some g | None \<Rightarrow> up_github p)"
  "up_linuxfoundation (merge_provider p q) =
     (case up_linuxfoundation q of Some l \<Rightarrow> Some l | None \<Rightarrow> up_linuxfoundation p)"
  by (simp_all add: merge_provider_def Let_def split: option.split)

lemma merged_identity:
  "linuxfoundation_provider_identity (merge_provider p q) =
     (if up_linuxfoundation q = None then linuxfoundation_provider_identity p
      else linuxfoundation_provider_identity q)"
  by (simp add: linuxfoundation_provider_identity_def split: option.split)

section \<open>Permissions\<close>

datatype CommunityPermission = GroupsWrite | CommunityRead | CommunitySettingsWrite | TaxonomyWrite | CommunityTeamWrite

definition community_permission_str :: "CommunityPermission \<Rightarrow> string" where
  "community_permission_str p =
     (case p of
        GroupsWrite \<Rightarrow> ''community.groups.write''
      | CommunityRead \<Rightarrow> ''community.read''
      | CommunitySettingsWrite \<Rightarrow> ''community.settings.write''
      | TaxonomyWrite \<Rightarrow> ''community.taxonomy.write''
      | CommunityTeamWrite \<Rightarrow> ''community.team.write'')"

datatype GroupPermission =
    BadgesWrite | EventsWrite | MembersWrite | GroupRead | GroupSettingsWrite | SponsorsWrite | GroupTeamWrite

definition group_permission_str :: "GroupPermission \<Rightarrow> string" where
  "group_permission_str p =
     (case p of
        BadgesWrite \<Rightarrow> ''group.badges.write''
      | EventsWrite \<Rightarrow> ''group.events.write''
      | MembersWrite \<Rightarrow> ''group.members.write''
      | GroupRead \<Rightarrow> ''group.read''
      | GroupSettingsWrite \<Rightarrow> ''group.settings.write''
      | SponsorsWrite \<Rightarrow> ''group.sponsors.write''
      | GroupTeamWrite \<Rightarrow> ''group.team.write'')"

section \<open>Users\<close>

text \<open>The profile fields that users, their details and their rows have in common.\<close>

record profile =
  pf_bio :: "string option"
  pf_bluesky_url :: "string option"
  pf_city :: "string option"
  pf_company :: "string option"
  pf_country :: "string option"
  pf_facebook_url :: "string option"
  pf_github_url :: "string option"
  pf_interests :: "string list option"
  pf_linkedin_url :: "string option"
  pf_photo_url :: "string option"
  pf_timezone :: "string option"
  pf_title :: "string option"
  pf_twitter_url :: "string option"
  pf_website_url :: "string option"

definition empty_profile :: profile where
  "empty_profile = \<lparr>pf_bio = None, pf_bluesky_url = None, pf_city = None, pf_company = None,
     pf_country = None, pf_facebook_url = None, pf_github_url = None, pf_interests = None,
     pf_linkedin_url = None, pf_photo_url = None, pf_timezone = None, pf_title = None,
     pf_twitter_url = None, pf_website_url = None\<rparr>"

record User =
  us_auth_hash :: string
  us_email :: string
  us_email_verified :: bool
  us_name :: string
  us_optional_notifications_enabled :: bool
  us_registration_status :: string
  us_user_id :: uuid
  us_username :: string
  us_belongs_to_any_group_team :: "bool option"
  us_belongs_to_community_team :: "bool option"
  us_profile :: profile
  us_has_password :: "bool option"
  us_password :: "string option"
  us_provider :: "UserProvider option"

definition default_registration_status :: string where
  "default_registration_status = ''registered''"

definition profile_field_is_filled :: "string option \<Rightarrow> bool" where
  "profile_field_is_filled v = (case v of Some s \<Rightarrow> trim s \<noteq> [] | None \<Rightarrow> False)"

definition has_any_profile_link :: "User \<Rightarrow> bool" where
  "has_any_profile_link u =
     list_ex (\<lambda>field. profile_field_is_filled (field (us_profile u)))
       [pf_bluesky_url, pf_facebook_url, pf_github_url, pf_linkedin_url, pf_twitter_url, pf_website_url]"

definition is_profile_complete :: "User \<Rightarrow> bool" where
  "is_profile_complete u \<longleftrightarrow>
     profile_field_is_filled (pf_title (us_profile u)) \<and>
     profile_field_is_filled (pf_bio (us_profile u)) \<and> has_any_profile_link u"

record UserSummary =
  sm_email :: string
  sm_name :: string
  sm_username :: string
  sm_has_password :: "bool option"
  sm_password :: "string option"
  sm_provider :: "UserProvider option"

definition summary_of_user :: "User \<Rightarrow> UserSummary" where
  "summary_of_user u =
     \<lparr>sm_email = us_email u, sm_name = us_name u, sm_username = us_username u,
      sm_has_password = us_has_password u, sm_password = None, sm_provider = us_provider u\<rparr>"

definition linuxfoundation_identity :: "UserSummary \<Rightarrow> (string \<times> string) option" where
  "linuxfoundation_identity summary =
     (case sm_provider summary of None \<Rightarrow> None | Some p \<Rightarrow> linuxfoundation_provider_identity p)"

record UserDetails =
  ud_name :: string
  ud_optional_notifications_enabled :: bool
  ud_profile :: profile

definition details_of_user :: "User \<Rightarrow> UserDetails" where
  "details_of_user u =
     \<lparr>ud_name = us_name u, ud_optional_notifications_enabled = us_optional_notifications_enabled u,
      ud_profile = us_profile u\<rparr>"

section \<open>What the providers say about a user\<close>

record GitHubProfile =
  gp_login :: string
  gp_name :: string

record GitHubUserEmail =
  ge_email :: string
  ge_primary :: bool
  ge_verified :: bool

definition github_email :: "GitHubUserEmail list \<Rightarrow> anyhow + GitHubUserEmail" where
  "github_email emails =
     ok_or (Msg ''no valid email found (primary email must be verified)'')
       (find (\<lambda>e. ge_primary e \<and> ge_verified e) emails)"

text \<open>\<^verbatim>\<open>from_github_profile\<close>, of the two answers of the GitHub API.\<close>

definition from_github_profile :: "GitHubProfile \<Rightarrow> GitHubUserEmail list \<Rightarrow> anyhow + UserSummary" where
  "from_github_profile prof emails =
     and_then (github_email emails) (\<lambda>email.
       Inr \<lparr>sm_email = ge_email email, sm_name = gp_name prof, sm_username = gp_login prof,
            sm_has_password = Some False, sm_password = None,
            sm_provider = Some (from_github_username (gp_login prof))\<rparr>)"

text \<open>The claims of an ID token; a localized claim is its values in the order they are visited.\<close>

record IdTokenClaims =
  ic_email_verified :: "bool option"
  ic_email :: "string option"
  ic_issuer :: string
  ic_name :: "string list option"
  ic_subject :: string
  ic_nickname :: "string list option"

definition get_localized_claim :: "string list option \<Rightarrow> string option" where
  "get_localized_claim claim = (case claim of Some (v # _) \<Rightarrow> Some v | _ \<Rightarrow> None)"

definition from_oidc_id_token_claims :: "IdTokenClaims \<Rightarrow> anyhow + UserSummary" where
  "from_oidc_id_token_claims claims =
     (if ic_email_verified claims \<noteq> Some True then Inl (Msg ''email not verified'')
      else and_then (ok_or (Msg ''email missing'') (ic_email claims)) (\<lambda>email.
       and_then (ok_or (Msg ''name missing'') (get_localized_claim (ic_name claims))) (\<lambda>name.
       and_then (ok_or (Msg ''nickname missing'') (get_localized_claim (ic_nickname claims))) (\<lambda>username.
         Inr \<lparr>sm_email = email, sm_name = name, sm_username = username,
              sm_has_password = Some False, sm_password = None,
              sm_provider = Some (from_linuxfoundation_identity (ic_issuer claims) (ic_subject claims) username)\<rparr>))))"

section \<open>Credentials\<close>

datatype OAuth2Provider = GitHub
datatype OidcProvider = LinuxFoundation

definition oauth2_provider_str :: "OAuth2Provider \<Rightarrow> string" where
  "oauth2_provider_str p = (case p of GitHub \<Rightarrow> ''github'')"

definition oidc_provider_str :: "OidcProvider \<Rightarrow> string" where
  "oidc_provider_str p = (case p of LinuxFoundation \<Rightarrow> ''linuxfoundation'')"

record OAuth2Credentials =
  oc_code :: string
  oc_provider :: OAuth2Provider

record OidcCredentials =
  od_code :: string
  od_nonce :: string
  od_provider :: OidcProvider

record PasswordCredentials =
  pc_password :: string
  pc_username :: string

datatype Credentials =
    OAuth2Creds OAuth2Credentials | OidcCreds OidcCredentials | PasswordCreds PasswordCredentials

section \<open>Validation of the forms\<close>

definition MAX_LEN_S :: nat where "MAX_LEN_S = 100"
definition MAX_LEN_M :: nat where "MAX_LEN_M = 250"
definition MAX_LEN_DISPLAY_NAME :: nat where "MAX_LEN_DISPLAY_NAME = 80"
definition MIN_PASSWORD_LEN :: nat where "MIN_PASSWORD_LEN = 8"

definition trimmed_non_empty :: "string \<Rightarrow> bool" where
  "trimmed_non_empty s \<longleftrightarrow> trim s \<noteq> []"

definition trimmed_non_empty_opt :: "string option \<Rightarrow> bool" where
  "trimmed_non_empty_opt v = (case v of Some s \<Rightarrow> trim s \<noteq> [] | None \<Rightarrow> True)"

record LoginForm =
  fm_password :: string
  fm_username :: string

definition login_form_valid :: "LoginForm \<Rightarrow> bool" where
  "login_form_valid f \<longleftrightarrow>
     trimmed_non_empty (fm_password f) \<and> length (fm_password f) \<le> MAX_LEN_S \<and>
     trimmed_non_empty (fm_username f) \<and> length (fm_username f) \<le> MAX_LEN_S"

definition user_summary_valid :: "(string \<Rightarrow> bool) \<Rightarrow> UserSummary \<Rightarrow> bool" where
  "user_summary_valid is_email s \<longleftrightarrow>
     is_email (sm_email s) \<and>
     trimmed_non_empty (sm_name s) \<and> length (sm_name s) \<le> MAX_LEN_DISPLAY_NAME \<and>
     trimmed_non_empty (sm_username s) \<and> length (sm_username s) \<le> MAX_LEN_S \<and>
     trimmed_non_empty_opt (sm_password s) \<and>
     (case sm_password s of
        Some p \<Rightarrow> MIN_PASSWORD_LEN \<le> length p \<and> length p \<le> MAX_LEN_S | None \<Rightarrow> True)"

record UserPassword =
  pw_new_password :: string
  pw_old_password :: string

definition user_password_valid :: "UserPassword \<Rightarrow> bool" where
  "user_password_valid p \<longleftrightarrow>
     MIN_PASSWORD_LEN \<le> length (pw_new_password p) \<and> length (pw_new_password p) \<le> MAX_LEN_S \<and>
     trimmed_non_empty (pw_old_password p) \<and> length (pw_old_password p) \<le> MAX_LEN_M"

section \<open>The database\<close>

record EmailVerification =
  ev_link :: string
  ev_theme :: json

record EmailVerificationNotification =
  en_code :: uuid
  en_template_data :: EmailVerification

text \<open>The data of a session and its expiry; the session layer owns the shape of the data.\<close>

record session_record =
  sr_id :: string
  sr_data :: json
  sr_expiry_date :: instant

text \<open>
  Of a community summary and a group of the user's dashboards there are the identifiers, all that
  the selection of a dashboard reads.
\<close>

record UserGroupsByCommunity =
  gc_community_id :: uuid
  gc_groups :: "uuid list"

record 's DBAuth =
  db_activate_pre_registered_user_email_password ::
    "UserSummary \<Rightarrow> EmailVerificationNotification \<Rightarrow> ('s, (User \<times> uuid) option) io"
  db_activate_pre_registered_user_external_provider :: "uuid \<Rightarrow> UserSummary \<Rightarrow> ('s, User) io"
  db_create_session :: "session_record \<Rightarrow> ('s, unit) io"
  db_delete_session :: "string \<Rightarrow> ('s, unit) io"
  db_get_session :: "string \<Rightarrow> ('s, session_record option) io"
  db_get_user_by_email_for_external_auth :: "string \<Rightarrow> ('s, User option) io"
  db_get_user_by_id :: "uuid \<Rightarrow> ('s, User option) io"
  db_get_user_by_linuxfoundation_identity_for_external_auth :: "string \<Rightarrow> string \<Rightarrow> ('s, User option) io"
  db_get_user_by_username :: "string \<Rightarrow> ('s, User option) io"
  db_get_user_password :: "uuid \<Rightarrow> ('s, string option) io"
  db_group_belongs_to_community :: "uuid \<Rightarrow> uuid \<Rightarrow> ('s, bool) io"
  db_sign_up_user ::
    "UserSummary \<Rightarrow> bool \<Rightarrow> EmailVerificationNotification option \<Rightarrow> ('s, User \<times> uuid option) io"
  db_update_session :: "session_record \<Rightarrow> ('s, unit) io"
  db_update_user_details :: "uuid \<Rightarrow> UserDetails \<Rightarrow> ('s, unit) io"
  db_update_user_external_auth :: "uuid \<Rightarrow> UserSummary \<Rightarrow> ('s, User) io"
  db_update_user_password :: "uuid \<Rightarrow> string \<Rightarrow> ('s, unit) io"
  db_update_user_provider :: "uuid \<Rightarrow> UserProvider \<Rightarrow> ('s, unit) io"
  db_user_has_community_permission :: "uuid \<Rightarrow> uuid \<Rightarrow> CommunityPermission \<Rightarrow> ('s, bool) io"
  db_user_has_group_permission :: "uuid \<Rightarrow> uuid \<Rightarrow> uuid \<Rightarrow> GroupPermission \<Rightarrow> ('s, bool) io"
  db_verify_email :: "uuid \<Rightarrow> ('s, unit) io"

end
