(* ===== verification/Auth_Backend.thy ===== *)
theory Auth_Backend
  imports Auth_Types
begin

text \<open>
  The authentication backend (\<^verbatim>\<open>ocg-server/src/auth.rs\<close>): password, OAuth2 and OIDC credentials, and the
  reconciliation of an external identity with the accounts of the database. The exchange of a code, the
  verification of an ID token, the GitHub API and the password hash are third-party code: fields of
  \<open>external_auth\<close>. What the reconciliation needs of the database is the locale \<open>external_accounts\<close>.
\<close>

definition EXTERNAL_AUTH_EMAIL_CONFLICT_ERROR :: string where
  "EXTERNAL_AUTH_EMAIL_CONFLICT_ERROR = ''external auth email belongs to another user''"

definition EXTERNAL_AUTH_IDENTITY_CONFLICT_ERROR :: string where
  "EXTERNAL_AUTH_IDENTITY_CONFLICT_ERROR = ''external auth identity belongs to another user''"

text \<open>
  The providers that are configured and what they answer: the access token for a code, the profile
  and the e-mails behind a token, the ID token for a code, the claims of an ID token verified with a nonce;
  and whether a password fits a hash.
\<close>

record 's external_auth =
  ea_oauth2_providers :: "OAuth2Provider list"
  ea_oidc_providers :: "OidcProvider list"
  ea_exchange_oauth2 :: "OAuth2Provider \<Rightarrow> string \<Rightarrow> ('s, string) io"
  ea_github_profile :: "string \<Rightarrow> ('s, GitHubProfile) io"
  ea_github_emails :: "string \<Rightarrow> ('s, GitHubUserEmail list) io"
  ea_exchange_oidc :: "OidcProvider \<Rightarrow> string \<Rightarrow> ('s, string option) io"
  ea_id_token_claims :: "OidcProvider \<Rightarrow> string \<Rightarrow> string \<Rightarrow> ('s, IdTokenClaims) io"
  ea_verify_password :: "string \<Rightarrow> string \<Rightarrow> bool"

section \<open>External accounts\<close>

text \<open>The account is linked to another Linux Foundation identity than the incoming one.\<close>

definition identity_conflict :: "UserSummary \<Rightarrow> User \<Rightarrow> bool" where
  "identity_conflict summary user =
     (case linuxfoundation_identity summary of
        None \<Rightarrow> False
      | Some (incoming_issuer, incoming_subject) \<Rightarrow>
          (case Option.bind (us_provider user) linuxfoundation_provider_identity of
             None \<Rightarrow> False
           | Some (existing_issuer, existing_subject) \<Rightarrow>
               existing_issuer \<noteq> incoming_issuer \<or> existing_subject \<noteq> incoming_subject))"

definition link_provider :: "'s DBAuth \<Rightarrow> UserSummary \<Rightarrow> User \<Rightarrow> ('s, User) io" where
  "link_provider db summary user =
     (case sm_provider summary of
        None \<Rightarrow> act_ok user
      | Some provider \<Rightarrow>
          let merged = merge_provider (coalesce (us_provider user) default_provider) provider in
          if us_provider user \<noteq> Some merged
          then act_bind (db_update_user_provider db (us_user_id user) provider) (\<lambda>_.
                 act_ok (user\<lparr>us_provider := Some merged\<rparr>))
          else act_ok user)"

definition get_or_sign_up_by_email :: "'s DBAuth \<Rightarrow> UserSummary \<Rightarrow> ('s, User) io" where
  "get_or_sign_up_by_email db summary =
     act_bind (db_get_user_by_email_for_external_auth db (sm_email summary)) (\<lambda>found.
       case found of
         Some user \<Rightarrow>
           if us_registration_status user = ''pre-registered''
           then db_activate_pre_registered_user_external_provider db (us_user_id user) summary
           else if identity_conflict summary user
           then act_err (Msg EXTERNAL_AUTH_IDENTITY_CONFLICT_ERROR)
           else link_provider db summary user
       | None \<Rightarrow> act_bind (db_sign_up_user db summary True None) (\<lambda>(user, _). act_ok user))"

definition get_or_sign_up_external_user :: "'s DBAuth \<Rightarrow> UserSummary \<Rightarrow> ('s, User) io" where
  "get_or_sign_up_external_user db summary =
     (case linuxfoundation_identity summary of
        Some (issuer, subject) \<Rightarrow>
          act_bind (db_get_user_by_linuxfoundation_identity_for_external_auth db issuer subject) (\<lambda>found.
            case found of
              Some user \<Rightarrow> db_update_user_external_auth db (us_user_id user) summary
            | None \<Rightarrow> get_or_sign_up_by_email db summary)
      | None \<Rightarrow> get_or_sign_up_by_email db summary)"

section \<open>Credentials\<close>

definition authenticate_oauth2 ::
    "'s DBAuth \<Rightarrow> 's external_auth \<Rightarrow> OAuth2Credentials \<Rightarrow> ('s, User option) io" where
  "authenticate_oauth2 db ext creds =
     (if oc_provider creds \<notin> set (ea_oauth2_providers ext) then act_err (Msg ''oauth2 provider not found'')
      else act_bind (ea_exchange_oauth2 ext (oc_provider creds) (oc_code creds)) (\<lambda>access_token.
       act_bind (case oc_provider creds of GitHub \<Rightarrow>
           act_bind (ea_github_profile ext access_token) (\<lambda>prof.
           act_bind (ea_github_emails ext access_token) (\<lambda>emails.
             act_lift (from_github_profile prof emails)))) (\<lambda>summary.
       act_bind (get_or_sign_up_external_user db summary) (\<lambda>user. act_ok (Some user)))))"

definition authenticate_oidc ::
    "'s DBAuth \<Rightarrow> 's external_auth \<Rightarrow> OidcCredentials \<Rightarrow> ('s, User option) io" where
  "authenticate_oidc db ext creds =
     (if od_provider creds \<notin> set (ea_oidc_providers ext) then act_err (Msg ''oidc provider not found'')
      else act_bind (ea_exchange_oidc ext (od_provider creds) (od_code creds)) (\<lambda>id_token.
       case id_token of
         None \<Rightarrow> act_err (Msg ''id token missing'')
       | Some token \<Rightarrow>
           act_bind (ea_id_token_claims ext (od_provider creds) token (od_nonce creds)) (\<lambda>claims.
           act_bind (case od_provider creds of LinuxFoundation \<Rightarrow>
               act_lift (from_oidc_id_token_claims claims)) (\<lambda>summary.
           act_bind (get_or_sign_up_external_user db summary) (\<lambda>user. act_ok (Some user))))))"

definition authenticate_password ::
    "'s DBAuth \<Rightarrow> 's external_auth \<Rightarrow> PasswordCredentials \<Rightarrow> ('s, User option) io" where
  "authenticate_password db ext creds =
     act_bind (db_get_user_by_username db (pc_username creds)) (\<lambda>found.
       case found of
         None \<Rightarrow> act_ok None
       | Some user \<Rightarrow>
           (case us_password user of
              None \<Rightarrow> act_ok None
            | Some password_hash \<Rightarrow>
                if ea_verify_password ext (pc_password creds) password_hash
                then act_ok (Some (user\<lparr>us_password := None\<rparr>)) else act_ok None))"

definition authenticate :: "'s DBAuth \<Rightarrow> 's external_auth \<Rightarrow> Credentials \<Rightarrow> ('s, User option) io" where
  "authenticate db ext creds =
     (case creds of
        OAuth2Creds c \<Rightarrow> authenticate_oauth2 db ext c
      | OidcCreds c \<Rightarrow> authenticate_oidc db ext c
      | PasswordCreds c \<Rightarrow> authenticate_password db ext c)"

section \<open>What the reconciliation needs of the accounts\<close>

text \<open>
  \<open>entered s summary i t\<close>: from the accounts \<open>s\<close>, the owner of the summary may enter account \<open>i\<close>, and \<open>t\<close>
  is what the accounts are then. The laws say when an operation of the database brings this about.
\<close>

locale external_accounts =
  fixes db :: "'s DBAuth" and ok :: "'s \<Rightarrow> bool"
    and entered :: "'s \<Rightarrow> UserSummary \<Rightarrow> uuid \<Rightarrow> 's \<Rightarrow> bool"
  assumes by_identity_reads:
      "db_get_user_by_linuxfoundation_identity_for_external_auth db issuer subject s = (r, s') \<Longrightarrow> s' = s"
    and by_email_reads: "db_get_user_by_email_for_external_auth db email s = (q, s') \<Longrightarrow> s' = s"
    and update_entered:
      "ok s \<Longrightarrow> linuxfoundation_identity summary = Some (issuer, subject) \<Longrightarrow>
       db_get_user_by_linuxfoundation_identity_for_external_auth db issuer subject s = (Inr (Some u), s) \<Longrightarrow>
       db_update_user_external_auth db (us_user_id u) summary s = (Inr v, s') \<Longrightarrow>
       ok s' \<and> entered s summary (us_user_id v) s'"
    and activate_entered:
      "ok s \<Longrightarrow> db_get_user_by_email_for_external_auth db (sm_email summary) s = (Inr (Some u), s) \<Longrightarrow>
       us_registration_status u = ''pre-registered'' \<Longrightarrow>
       db_activate_pre_registered_user_external_provider db (us_user_id u) summary s = (Inr v, s') \<Longrightarrow>
       ok s' \<and> entered s summary (us_user_id v) s'"
    and known_entered:
      "ok s \<Longrightarrow> db_get_user_by_email_for_external_auth db (sm_email summary) s = (Inr (Some u), s) \<Longrightarrow>
       us_registration_status u \<noteq> ''pre-registered'' \<Longrightarrow> \<not> identity_conflict summary u \<Longrightarrow>
       sm_provider summary = None \<or> us_provider u =
         Some (merge_provider (coalesce (us_provider u) default_provider) (the (sm_provider summary))) \<Longrightarrow>
       entered s summary (us_user_id u) s"
    and linked_entered:
      "ok s \<Longrightarrow> db_get_user_by_email_for_external_auth db (sm_email summary) s = (Inr (Some u), s) \<Longrightarrow>
       us_registration_status u \<noteq> ''pre-registered'' \<Longrightarrow> \<not> identity_conflict summary u \<Longrightarrow>
       sm_provider summary = Some provider \<Longrightarrow>
       db_update_user_provider db (us_user_id u) provider s = (Inr (), s') \<Longrightarrow>
       ok s' \<and> entered s summary (us_user_id u) s'"
    and signed_up_entered:
      "ok s \<Longrightarrow> db_get_user_by_email_for_external_auth db (sm_email summary) s = (Inr None, s) \<Longrightarrow>
       db_sign_up_user db summary True None s = (Inr (v, code), s') \<Longrightarrow>
       ok s' \<and> entered s summary (us_user_id v) s'"
begin

lemma link_provider_enters:
  assumes "ok s" and "db_get_user_by_email_for_external_auth db (sm_email summary) s = (Inr (Some u), s)"
    and "us_registration_status u \<noteq> ''pre-registered''" and "\<not> identity_conflict summary u"
    and "link_provider db summary u s = (Inr v, s')"
  shows "ok s' \<and> entered s summary (us_user_id v) s'"
proof -
  note known = known_entered [OF assms(1-4)] and linked = linked_entered [OF assms(1-4)]
  show ?thesis
  proof (cases "sm_provider summary")
    case None
    with assms(1,5) known show ?thesis by (simp add: link_provider_def)
  next
    case (Some provider)
    show ?thesis
    proof (cases "us_provider u = Some (merge_provider (coalesce (us_provider u) default_provider) provider)")
      case True
      with assms(1,5) known Some show ?thesis by (simp add: link_provider_def Let_def)
    next
      case False
      with assms(5) Some obtain t where "db_update_user_provider db (us_user_id u) provider s = (Inr (), t)"
        "s' = t" "us_user_id v = us_user_id u"
        by (auto simp: link_provider_def Let_def act_bind_eq_Inr)
      with linked [OF Some] show ?thesis by simp
    qed
  qed
qed

lemma by_email_enters:
  assumes "ok s" and "get_or_sign_up_by_email db summary s = (Inr v, s')"
  shows "ok s' \<and> entered s summary (us_user_id v) s'"
proof -
  obtain found t where found: "db_get_user_by_email_for_external_auth db (sm_email summary) s = (Inr found, t)"
    and rest: "(case found of Some user \<Rightarrow>
        if us_registration_status user = ''pre-registered''
        then db_activate_pre_registered_user_external_provider db (us_user_id user) summary
        else if identity_conflict summary user then act_err (Msg EXTERNAL_AUTH_IDENTITY_CONFLICT_ERROR)
        else link_provider db summary user
      | None \<Rightarrow> act_bind (db_sign_up_user db summary True None) (\<lambda>(user, _). act_ok user)) t = (Inr v, s')"
    using assms(2) by (auto simp: get_or_sign_up_by_email_def act_bind_eq_Inr)
  from by_email_reads [OF found] have t: "t = s" .
  show ?thesis
  proof (cases found)
    case None
    with rest t found obtain code where "db_sign_up_user db summary True None s = (Inr (v, code), s')"
      by (auto simp: act_bind_eq_Inr)
    with signed_up_entered [OF assms(1)] found t None show ?thesis by blast
  next
    case (Some u)
    with rest t found activate_entered [OF assms(1)] link_provider_enters [OF assms(1)] show ?thesis
      by (auto split: if_splits)
  qed
qed

text \<open>Whoever enters an account may enter it.\<close>

lemma enters:
  assumes "ok s" and "get_or_sign_up_external_user db summary s = (Inr v, s')"
  shows "ok s' \<and> entered s summary (us_user_id v) s'"
proof (cases "linuxfoundation_identity summary")
  case None
  with assms by_email_enters show ?thesis by (simp add: get_or_sign_up_external_user_def)
next
  case (Some identity)
  obtain issuer subject where i: "identity = (issuer, subject)" by (cases identity)
  let ?lookup = "db_get_user_by_linuxfoundation_identity_for_external_auth db issuer subject"
  from assms(2) Some i obtain found t where found: "?lookup s = (Inr found, t)"
    and rest: "(case found of Some u \<Rightarrow> db_update_user_external_auth db (us_user_id u) summary
      | None \<Rightarrow> get_or_sign_up_by_email db summary) t = (Inr v, s')"
    by (auto simp: get_or_sign_up_external_user_def act_bind_eq_Inr)
  from by_identity_reads [OF found] have t: "t = s" .
  show ?thesis
  proof (cases found)
    case None
    with rest t by_email_enters [OF assms(1)] show ?thesis by simp
  next
    case (Some u)
    with rest t found i update_entered [OF assms(1)] \<open>linuxfoundation_identity summary = Some identity\<close>
    show ?thesis by simp
  qed
qed

end

end
