(* ===== verification/Auth_Handlers.thy ===== *)
theory Auth_Handlers
  imports Auth_Backend Badge_Handlers Payments_Notifications
begin

text \<open>
  The authentication handlers and the authorization middleware
  (\<^verbatim>\<open>ocg-server/src/handlers/auth.rs\<close>).

  A request runs in the world \<open>web\<close>: the database, the data of its session (\<^verbatim>\<open>None\<close> when the session
  layer cannot load it, and then each of its operations fails), the user of \<^verbatim>\<open>AuthSession\<close> and the flash messages.
  Of the session data there are the entries of this module, by the type they were stored with. Third-party code is
  a field of \<open>auth_app\<close>: \<^verbatim>\<open>login\<close> and \<^verbatim>\<open>logout\<close> of the session layer, the authorization URLs with their
  fresh secrets, the hash of a password, validation reports, template rendering. A redirect is a 303 response with the location that is
  asked for.
\<close>

section \<open>The world of a request\<close>

datatype session_value = SvText string | SvOptText "string option" | SvId uuid
datatype flash = FlashError string | FlashSuccess string

record 'd web =
  wb_db :: 'd
  wb_session :: "(string \<Rightarrow> session_value option) option"
  wb_user :: "User option"
  wb_messages :: "flash list"

type_synonym ('d, 'a) handling = "('d web, HandlerError, 'a) act"

definition session_error :: HandlerError where
  "session_error = Session ''session error''"

definition on_session ::
    "((string \<Rightarrow> session_value option) \<Rightarrow> (HandlerError + 'a) \<times> (string \<Rightarrow> session_value option)) \<Rightarrow>
     ('d, 'a) handling" where
  "on_session f w =
     (case wb_session w of
        None \<Rightarrow> (Inl session_error, w)
      | Some m \<Rightarrow> (case f m of (r, m') \<Rightarrow> (r, w\<lparr>wb_session := Some m'\<rparr>)))"

definition session_insert :: "string \<Rightarrow> session_value \<Rightarrow> ('d, unit) handling" where
  "session_insert k v = on_session (\<lambda>m. (Inr (), m(k \<mapsto> v)))"

text \<open>\<^verbatim>\<open>get::<Uuid>\<close>, \<^verbatim>\<open>remove::<String>\<close> and the like: a value of another type does not deserialize.\<close>

definition as_id :: "session_value option \<Rightarrow> HandlerError + uuid option" where
  "as_id v = (case v of None \<Rightarrow> Inr None | Some (SvId i) \<Rightarrow> Inr (Some i) | _ \<Rightarrow> Inl session_error)"

definition as_text :: "session_value option \<Rightarrow> HandlerError + string option" where
  "as_text v = (case v of None \<Rightarrow> Inr None | Some (SvText s) \<Rightarrow> Inr (Some s) | _ \<Rightarrow> Inl session_error)"

definition as_opt_text :: "session_value option \<Rightarrow> HandlerError + string option option" where
  "as_opt_text v =
     (case v of None \<Rightarrow> Inr None | Some (SvOptText s) \<Rightarrow> Inr (Some s) | _ \<Rightarrow> Inl session_error)"

definition session_get_id :: "string \<Rightarrow> ('d, uuid option) handling" where
  "session_get_id k = on_session (\<lambda>m. (as_id (m k), m))"

definition session_remove :: "(session_value option \<Rightarrow> HandlerError + 'a) \<Rightarrow> string \<Rightarrow> ('d, 'a) handling" where
  "session_remove kind k = on_session (\<lambda>m. (kind (m k), m(k := None)))"

definition in_db :: "('d, 'a) io \<Rightarrow> ('d web, anyhow, 'a) act" where
  "in_db m w = (case m (wb_db w) of (r, d) \<Rightarrow> (r, w\<lparr>wb_db := d\<rparr>))"

definition flash :: "flash \<Rightarrow> ('d, unit) handling" where
  "flash f w = (Inr (), w\<lparr>wb_messages := wb_messages w @ [f]\<rparr>)"

definition current_user :: "('d, User option) handling" where
  "current_user w = (Inr (wb_user w), w)"

record 'd auth_app =
  ap_db :: "'d DBAuth"
  ap_external :: "'d external_auth"
  ap_list_user_groups :: "uuid \<Rightarrow> ('d, UserGroupsByCommunity list) io"
  ap_list_user_communities :: "uuid \<Rightarrow> ('d, uuid list) io"
  ap_get_site_theme :: "('d, json) io"
  ap_errors :: error_classes
  ap_base_url :: string
  ap_login :: "User \<Rightarrow> ('d web, anyhow, unit) act"
  ap_logout :: "('d web, anyhow, unit) act"
  ap_new_uuid :: "'d \<Rightarrow> uuid"
  ap_generate_hash :: "string \<Rightarrow> string"
  ap_is_email :: "string \<Rightarrow> bool"
  ap_login_report :: "LoginForm \<Rightarrow> string"
  ap_summary_report :: "UserSummary \<Rightarrow> string"
  ap_password_report :: "UserPassword \<Rightarrow> string"
  ap_authorize_oauth2 :: "OAuth2Provider \<Rightarrow> 'd \<Rightarrow> string \<times> string"
  ap_authorize_oidc :: "OidcProvider \<Rightarrow> 'd \<Rightarrow> string \<times> string \<times> string"

definition db_call :: "'d auth_app \<Rightarrow> ('d, 'a) io \<Rightarrow> ('d, 'a) handling" where
  "db_call app m = act_map_err (handler_error_from (ap_errors app)) (in_db m)"

definition auth_error :: "anyhow \<Rightarrow> HandlerError" where
  "auth_error e = Auth (err_to_string e)"

section \<open>Constants\<close>

definition AUTH_PROVIDER_KEY :: string where "AUTH_PROVIDER_KEY = ''auth_provider''"
definition AUTH_PROVIDER_EMAIL :: string where "AUTH_PROVIDER_EMAIL = ''email''"
definition LOG_IN_URL :: string where "LOG_IN_URL = ''/log-in''"
definition LOG_OUT_URL :: string where "LOG_OUT_URL = ''/log-out''"
definition SIGN_UP_URL :: string where "SIGN_UP_URL = ''/sign-up''"
definition NEXT_URL_KEY :: string where "NEXT_URL_KEY = ''next_url''"
definition OAUTH2_CSRF_STATE_KEY :: string where "OAUTH2_CSRF_STATE_KEY = ''oauth2.csrf_state''"
definition OIDC_NONCE_KEY :: string where "OIDC_NONCE_KEY = ''oidc.nonce''"
definition SELECTED_COMMUNITY_ID_KEY :: string where "SELECTED_COMMUNITY_ID_KEY = ''selected_community_id''"
definition SELECTED_GROUP_ID_KEY :: string where "SELECTED_GROUP_ID_KEY = ''selected_group_id''"

definition USER_DASHBOARD_INVITATIONS_URL :: string where
  "USER_DASHBOARD_INVITATIONS_URL = ''/dashboard/user?tab=invitations''"

definition LF_SSO_EMAIL_CONFLICT_MESSAGE :: string where
  "LF_SSO_EMAIL_CONFLICT_MESSAGE =
     ''Your LF SSO account matches an existing OCG account, but its email address is already used '' @
     ''by another account. Please contact the site administrators.''"

definition LF_SSO_IDENTITY_CONFLICT_MESSAGE :: string where
  "LF_SSO_IDENTITY_CONFLICT_MESSAGE = ''This LF SSO account is already linked to another OCG account.''"

definition OAUTH2_AUTHORIZATION_FAILED :: string where
  "OAUTH2_AUTHORIZATION_FAILED = ''OAuth2 authorization failed''"

definition OIDC_AUTHORIZATION_FAILED :: string where
  "OIDC_AUTHORIZATION_FAILED = ''OpenID Connect authorization failed''"

datatype SelectedGroupPolicy = Optional | Required

section \<open>Responses\<close>

definition status_response :: "nat \<Rightarrow> response" where
  "status_response code = \<lparr>rs_status = code, rs_headers = [], rs_body = EmptyBody\<rparr>"

definition redirect_to :: "string \<Rightarrow> response" where
  "redirect_to uri = \<lparr>rs_status = 303, rs_headers = [(''location'', uri)], rs_body = EmptyBody\<rparr>"

text \<open>\<^verbatim>\<open>IntoResponse for HandlerError\<close>\<close>

definition error_response :: "HandlerError \<Rightarrow> response" where
  "error_response e =
     (case e of
        Database msg \<Rightarrow> \<lparr>rs_status = 422, rs_headers = [], rs_body = HtmlBody msg\<rparr>
      | Deserialization msg \<Rightarrow> \<lparr>rs_status = 422, rs_headers = [], rs_body = HtmlBody msg\<rparr>
      | Validation report \<Rightarrow> \<lparr>rs_status = 422, rs_headers = [], rs_body = HtmlBody report\<rparr>
      | _ \<Rightarrow> status_response (handler_status e))"

section \<open>Where to go next\<close>

definition sanitize_next_url :: "string option \<Rightarrow> string option" where
  "sanitize_next_url next_url =
     (case next_url of
        None \<Rightarrow> None
      | Some v \<Rightarrow>
          let v = trim v in
          if v = [] then None
          else if \<not> prefix ''/'' v \<or> prefix ''//'' v then None
          else Some v)"

text \<open>\<^verbatim>\<open>utf8_percent_encode(_, NON_ALPHANUMERIC)\<close>, byte by byte.\<close>

definition is_ascii_alphanumeric :: "char \<Rightarrow> bool" where
  "is_ascii_alphanumeric c \<longleftrightarrow> is_ascii_alphabetic c \<or> is_ascii_digit c"

definition hex_upper :: "nat \<Rightarrow> char" where
  "hex_upper n = (if n < 10 then char_of (48 + n) else char_of (55 + n))"

definition percent_encode_byte :: "char \<Rightarrow> string" where
  "percent_encode_byte c =
     (if is_ascii_alphanumeric c then [c]
      else let n = of_char c :: nat in [CHR ''%'', hex_upper (n div 16), hex_upper (n mod 16)])"

definition encode_next_url :: "string \<Rightarrow> string" where
  "encode_next_url next_url = concat (map percent_encode_byte next_url)"

definition with_next_url :: "string \<Rightarrow> string option \<Rightarrow> string" where
  "with_next_url url next_url =
     (case sanitize_next_url next_url of
        Some v \<Rightarrow> url @ ''?next_url='' @ encode_next_url v
      | None \<Rightarrow> url)"

definition get_log_in_url :: "string option \<Rightarrow> string" where
  "get_log_in_url next_url = with_next_url LOG_IN_URL next_url"

definition get_sign_up_url :: "string option \<Rightarrow> response" where
  "get_sign_up_url next_url = redirect_to (with_next_url SIGN_UP_URL next_url)"

section \<open>The selected community and group\<close>

definition track_auth_provider :: "string \<Rightarrow> ('d, unit) handling" where
  "track_auth_provider provider = session_insert AUTH_PROVIDER_KEY (SvText provider)"

definition select_first_community_and_group :: "'d auth_app \<Rightarrow> uuid \<Rightarrow> ('d, unit) handling" where
  "select_first_community_and_group app user_id =
     act_bind (db_call app (ap_list_user_groups app user_id)) (\<lambda>groups_by_community.
       case groups_by_community of
         first_community # _ \<Rightarrow>
           act_bind (session_insert SELECTED_COMMUNITY_ID_KEY (SvId (gc_community_id first_community))) (\<lambda>_.
             case gc_groups first_community of
               first_group # _ \<Rightarrow> session_insert SELECTED_GROUP_ID_KEY (SvId first_group)
             | [] \<Rightarrow> act_ok ())
       | [] \<Rightarrow>
           act_bind (db_call app (ap_list_user_communities app user_id)) (\<lambda>communities.
             case communities of
               first_community # _ \<Rightarrow> session_insert SELECTED_COMMUNITY_ID_KEY (SvId first_community)
             | [] \<Rightarrow> act_ok ()))"

definition first_group_of :: "uuid \<Rightarrow> UserGroupsByCommunity list \<Rightarrow> uuid option" where
  "first_group_of community_id groups_by_community =
     (case find (\<lambda>c. gc_community_id c = community_id) groups_by_community of
        None \<Rightarrow> None
      | Some c \<Rightarrow> (case gc_groups c of g # _ \<Rightarrow> Some g | [] \<Rightarrow> None))"

definition sync_selected_community_and_group ::
    "'d auth_app \<Rightarrow> uuid \<Rightarrow> uuid \<Rightarrow> SelectedGroupPolicy \<Rightarrow> ('d, unit) handling" where
  "sync_selected_community_and_group app user_id community_id selected_group_policy =
     act_bind (db_call app (ap_list_user_groups app user_id)) (\<lambda>groups_by_community.
       let first_group_id = first_group_of community_id groups_by_community in
       if selected_group_policy = Required \<and> first_group_id = None then act_err Forbidden
       else act_bind (session_insert SELECTED_COMMUNITY_ID_KEY (SvId community_id)) (\<lambda>_.
         case first_group_id of
           Some g \<Rightarrow> session_insert SELECTED_GROUP_ID_KEY (SvId g)
         | None \<Rightarrow> act_bind (session_remove as_id SELECTED_GROUP_ID_KEY) (\<lambda>_. act_ok ())))"

definition select_first_accessible_community_for_dashboard :: "'d auth_app \<Rightarrow> uuid \<Rightarrow> ('d, uuid option) handling" where
  "select_first_accessible_community_for_dashboard app user_id =
     act_bind (db_call app (ap_list_user_communities app user_id)) (\<lambda>communities.
       case communities of
         [] \<Rightarrow> act_ok None
       | first_community # _ \<Rightarrow>
           act_bind (sync_selected_community_and_group app user_id first_community Optional) (\<lambda>_.
             act_ok (Some first_community)))"

text \<open>The selected community when it has groups, or else the first community that has.\<close>

definition dashboard_community :: "uuid option \<Rightarrow> UserGroupsByCommunity list \<Rightarrow> UserGroupsByCommunity option" where
  "dashboard_community selected_community_id groups_by_community =
     (let selected = Option.bind selected_community_id (\<lambda>community_id.
            find (\<lambda>c. gc_community_id c = community_id) groups_by_community) in
      case selected of
        Some c \<Rightarrow> if gc_groups c \<noteq> [] then Some c else find (\<lambda>c. gc_groups c \<noteq> []) groups_by_community
      | None \<Rightarrow> find (\<lambda>c. gc_groups c \<noteq> []) groups_by_community)"

definition select_first_accessible_group_for_dashboard ::
    "'d auth_app \<Rightarrow> uuid \<Rightarrow> uuid option \<Rightarrow> ('d, (uuid \<times> uuid) option) handling" where
  "select_first_accessible_group_for_dashboard app user_id selected_community_id =
     act_bind (db_call app (ap_list_user_groups app user_id)) (\<lambda>groups_by_community.
       case dashboard_community selected_community_id groups_by_community of
         None \<Rightarrow> act_ok None
       | Some c \<Rightarrow> (case gc_groups c of
           [] \<Rightarrow> act_ok None
         | first_group # _ \<Rightarrow>
             act_bind (session_insert SELECTED_COMMUNITY_ID_KEY (SvId (gc_community_id c))) (\<lambda>_.
             act_bind (session_insert SELECTED_GROUP_ID_KEY (SvId first_group)) (\<lambda>_.
               act_ok (Some (gc_community_id c, first_group))))))"

section \<open>Logging in and out\<close>

definition log_in :: "'d auth_app \<Rightarrow> string option \<Rightarrow> LoginForm \<Rightarrow> ('d, response) handling" where
  "log_in app next_url_param login_form =
     (let next_url = sanitize_next_url next_url_param in
      if \<not> login_form_valid login_form
      then act_bind (flash (FlashError (ap_login_report app login_form))) (\<lambda>_.
             act_ok (redirect_to (get_log_in_url next_url)))
      else
        act_bind (act_map_err auth_error (in_db (authenticate (ap_db app) (ap_external app)
            (PasswordCreds \<lparr>pc_password = fm_password login_form, pc_username = fm_username login_form\<rparr>)))) (\<lambda>found.
          case found of
            None \<Rightarrow>
              act_bind (flash (FlashError
                ''Invalid credentials. Please make sure you have verified your email address.'')) (\<lambda>_.
                act_ok (redirect_to (get_log_in_url next_url)))
          | Some user \<Rightarrow>
              act_bind (act_map_err auth_error (ap_login app user)) (\<lambda>_.
              act_bind (select_first_community_and_group app (us_user_id user)) (\<lambda>_.
              act_bind (track_auth_provider AUTH_PROVIDER_EMAIL) (\<lambda>_.
                act_ok (redirect_to (coalesce next_url ''/'')))))))"

definition log_out :: "'d auth_app \<Rightarrow> ('d, response) handling" where
  "log_out app = act_bind (act_map_err auth_error (ap_logout app)) (\<lambda>_. act_ok (redirect_to LOG_IN_URL))"

definition oauth2_redirect :: "'d auth_app \<Rightarrow> OAuth2Provider \<Rightarrow> string option \<Rightarrow> ('d, response) handling" where
  "oauth2_redirect app provider next_url_param =
     (\<lambda>w. case ap_authorize_oauth2 app provider (wb_db w) of (authorize_url, csrf_state) \<Rightarrow>
       (let next_url = sanitize_next_url next_url_param in
        act_bind (session_insert OAUTH2_CSRF_STATE_KEY (SvText csrf_state)) (\<lambda>_.
        act_bind (session_insert NEXT_URL_KEY (SvOptText next_url)) (\<lambda>_.
          act_ok (redirect_to authorize_url)))) w)"

definition oidc_redirect :: "'d auth_app \<Rightarrow> OidcProvider \<Rightarrow> string option \<Rightarrow> ('d, response) handling" where
  "oidc_redirect app provider next_url_param =
     (\<lambda>w. case ap_authorize_oidc app provider (wb_db w) of (authorize_url, csrf_state, nonce) \<Rightarrow>
       (let next_url = sanitize_next_url next_url_param in
        act_bind (session_insert OAUTH2_CSRF_STATE_KEY (SvText csrf_state)) (\<lambda>_.
        act_bind (session_insert OIDC_NONCE_KEY (SvText nonce)) (\<lambda>_.
        act_bind (session_insert NEXT_URL_KEY (SvOptText next_url)) (\<lambda>_.
          act_ok (redirect_to authorize_url))))) w)"

definition oidc_authorization_error_message :: "string \<Rightarrow> string" where
  "oidc_authorization_error_message err =
     (if sublist EXTERNAL_AUTH_EMAIL_CONFLICT_ERROR err then LF_SSO_EMAIL_CONFLICT_MESSAGE
      else if sublist EXTERNAL_AUTH_IDENTITY_CONFLICT_ERROR err then LF_SSO_IDENTITY_CONFLICT_MESSAGE
      else OIDC_AUTHORIZATION_FAILED @ '': '' @ err)"

definition callback_failed :: "string \<Rightarrow> string \<Rightarrow> ('d, response) handling" where
  "callback_failed message url = act_bind (flash (FlashError message)) (\<lambda>_. act_ok (redirect_to url))"

text \<open>The next URL of the session, which the callback takes out of it.\<close>

definition take_next_url :: "('d, string option) handling" where
  "take_next_url = act_bind (session_remove as_opt_text NEXT_URL_KEY) (\<lambda>v.
     act_ok (case v of Some (Some url) \<Rightarrow> sanitize_next_url (Some url) | _ \<Rightarrow> None))"

definition finish_callback :: "'d auth_app \<Rightarrow> User \<Rightarrow> string \<Rightarrow> string option \<Rightarrow> ('d, response) handling" where
  "finish_callback app user provider next_url =
     act_bind (act_map_err auth_error (ap_login app user)) (\<lambda>_.
     act_bind (select_first_community_and_group app (us_user_id user)) (\<lambda>_.
     act_bind (track_auth_provider provider) (\<lambda>_.
       act_ok (redirect_to (coalesce next_url ''/'')))))"

definition oauth2_callback_with_auth ::
    "'d auth_app \<Rightarrow> OAuth2Provider \<Rightarrow> string \<Rightarrow> string \<Rightarrow> ('d, response) handling" where
  "oauth2_callback_with_auth app provider code state =
     act_bind (session_remove as_text OAUTH2_CSRF_STATE_KEY) (\<lambda>state_in_session.
       if state_in_session \<noteq> Some state then callback_failed OAUTH2_AUTHORIZATION_FAILED LOG_IN_URL
       else act_bind take_next_url (\<lambda>next_url.
         let log_in_url = get_log_in_url next_url in
         act_try (in_db (authenticate (ap_db app) (ap_external app)
             (OAuth2Creds \<lparr>oc_code = code, oc_provider = provider\<rparr>))) (\<lambda>r.
           case r of
             Inr (Some user) \<Rightarrow> finish_callback app user (oauth2_provider_str provider) next_url
           | Inr None \<Rightarrow> callback_failed OAUTH2_AUTHORIZATION_FAILED log_in_url
           | Inl err \<Rightarrow> callback_failed (OAUTH2_AUTHORIZATION_FAILED @ '': '' @ err_to_string err) log_in_url)))"

definition oidc_callback_with_auth ::
    "'d auth_app \<Rightarrow> OidcProvider \<Rightarrow> string \<Rightarrow> string \<Rightarrow> ('d, response) handling" where
  "oidc_callback_with_auth app provider code state =
     act_bind (session_remove as_text OAUTH2_CSRF_STATE_KEY) (\<lambda>state_in_session.
       if state_in_session \<noteq> Some state then callback_failed OIDC_AUTHORIZATION_FAILED LOG_IN_URL
       else act_bind (session_remove as_text OIDC_NONCE_KEY) (\<lambda>nonce_in_session.
         case nonce_in_session of
           None \<Rightarrow> callback_failed OIDC_AUTHORIZATION_FAILED LOG_IN_URL
         | Some nonce \<Rightarrow>
             act_bind take_next_url (\<lambda>next_url.
               let log_in_url = get_log_in_url next_url in
               act_try (in_db (authenticate (ap_db app) (ap_external app)
                   (OidcCreds \<lparr>od_code = code, od_nonce = nonce, od_provider = provider\<rparr>))) (\<lambda>r.
                 case r of
                   Inr (Some user) \<Rightarrow> finish_callback app user (oidc_provider_str provider) next_url
                 | Inr None \<Rightarrow> callback_failed OIDC_AUTHORIZATION_FAILED log_in_url
                 | Inl err \<Rightarrow> callback_failed (oidc_authorization_error_message (err_to_string err)) log_in_url))))"

section \<open>Accounts\<close>

definition build_email_verification_notification ::
    "'d auth_app \<Rightarrow> ('d, EmailVerificationNotification) handling" where
  "build_email_verification_notification app =
     (\<lambda>w. let code = ap_new_uuid app (wb_db w); base_url = base_url_without_trailing_slash (ap_base_url app) in
       (if base_url = [] then act_err (Database ''base URL is required to send verification email'')
        else act_bind (db_call app (ap_get_site_theme app)) (\<lambda>theme.
          act_ok \<lparr>en_code = code, en_template_data =
            \<lparr>ev_link = base_url @ ''/verify-email/'' @ show_uuid code, ev_theme = theme\<rparr>\<rparr>)) w)"

definition sign_up_failed :: "('d, response) handling" where
  "sign_up_failed =
     act_bind (flash (FlashError ''Something went wrong while signing up. Please try again later.'')) (\<lambda>_.
       act_ok (redirect_to SIGN_UP_URL))"

definition sign_up :: "'d auth_app \<Rightarrow> string option \<Rightarrow> UserSummary \<Rightarrow> ('d, response) handling" where
  "sign_up app next_url_param form =
     (let next_url = sanitize_next_url next_url_param in
      if \<not> user_summary_valid (ap_is_email app) form
      then act_bind (flash (FlashError (ap_summary_report app form))) (\<lambda>_. act_ok (get_sign_up_url next_url))
      else case sm_password form of
        None \<Rightarrow> act_ok \<lparr>rs_status = 400, rs_headers = [], rs_body = HtmlBody ''password not provided''\<rparr>
      | Some password \<Rightarrow>
          let summary = form\<lparr>sm_password := Some (ap_generate_hash app password)\<rparr> in
          act_try (build_email_verification_notification app) (\<lambda>built.
            case built of
              Inl _ \<Rightarrow> sign_up_failed
            | Inr verification \<Rightarrow>
                act_try (act_bind
                    (in_db (db_activate_pre_registered_user_email_password (ap_db app) summary verification)) (\<lambda>activated.
                      case activated of
                        Some (user, verification_code) \<Rightarrow> act_ok (user, Some verification_code)
                      | None \<Rightarrow> in_db (db_sign_up_user (ap_db app) summary False (Some verification)))) (\<lambda>result.
                  case result of
                    Inl _ \<Rightarrow> sign_up_failed
                  | Inr (_, email_verification_code) \<Rightarrow>
                      act_bind (if email_verification_code \<noteq> None
                          then flash (FlashSuccess ''Please verify your email to complete the sign up process.'')
                          else act_ok ()) (\<lambda>_.
                        act_ok (redirect_to (get_log_in_url next_url))))))"

definition update_user_details_handler :: "'d auth_app \<Rightarrow> User \<Rightarrow> UserDetails \<Rightarrow> ('d, response) handling" where
  "update_user_details_handler app user user_data =
     act_bind (db_call app (db_update_user_details (ap_db app) (us_user_id user) user_data)) (\<lambda>_.
     act_bind (flash (FlashSuccess ''User details updated successfully.'')) (\<lambda>_.
       act_ok \<lparr>rs_status = 204, rs_headers = [(''HX-Trigger'', ''refresh-body'')], rs_body = EmptyBody\<rparr>))"

text \<open>\<^verbatim>\<open>ValidatedForm\<close> around the handler that updates the password.\<close>

definition update_user_password_handler :: "'d auth_app \<Rightarrow> User \<Rightarrow> UserPassword \<Rightarrow> ('d, response) handling" where
  "update_user_password_handler app user form =
     (if \<not> user_password_valid form
      then act_ok \<lparr>rs_status = 422, rs_headers = [], rs_body = HtmlBody (ap_password_report app form)\<rparr>
      else act_bind (db_call app (db_get_user_password (ap_db app) (us_user_id user))) (\<lambda>found.
        case found of
          None \<Rightarrow> act_ok (status_response 400)
        | Some old_password_hash \<Rightarrow>
            if \<not> ea_verify_password (ap_external app) (pw_old_password form) old_password_hash
            then act_ok (status_response 403)
            else act_bind (db_call app (db_update_user_password (ap_db app) (us_user_id user)
                   (ap_generate_hash app (pw_new_password form)))) (\<lambda>_.
              act_ok (redirect_to LOG_OUT_URL))))"

definition verify_email_handler :: "'d auth_app \<Rightarrow> uuid \<Rightarrow> ('d, response) handling" where
  "verify_email_handler app code =
     act_try (in_db (db_verify_email (ap_db app) code)) (\<lambda>r.
       act_bind (flash (case r of
           Inr _ \<Rightarrow> FlashSuccess ''Email verified successfully. You can now log in using your credentials.''
         | Inl _ \<Rightarrow> FlashError ''Error verifying email (please note that links are only valid for 24 hours).'')) (\<lambda>_.
         act_ok (redirect_to LOG_IN_URL)))"

section \<open>Middleware\<close>

text \<open>
  A middleware answers a request itself or passes it on, with the selected community and group for the
  extractors behind it: an action whose error is the answer. A handler error turns into its response.
\<close>

type_synonym ('d, 'a) gate = "('d web, response, 'a) act"
type_synonym header_map = "string \<Rightarrow> string option"

definition gated :: "('d, 'a) gate \<Rightarrow> ('a \<Rightarrow> 'd web \<Rightarrow> response \<times> 'd web) \<Rightarrow> 'd web \<Rightarrow> response \<times> 'd web" where
  "gated gate run w = (case gate w of (Inl response, w') \<Rightarrow> (response, w') | (Inr x, w') \<Rightarrow> run x w')"

definition or_respond :: "('d, 'a) handling \<Rightarrow> ('d, 'a) gate" where
  "or_respond = act_map_err error_response"

text \<open>\<^verbatim>\<open>let Ok(..) = .. else { return INTERNAL_SERVER_ERROR }\<close>\<close>

definition or_internal_error :: "('d web, 'e, 'a) act \<Rightarrow> ('d, 'a) gate" where
  "or_internal_error = act_map_err (\<lambda>_. status_response 500)"

definition is_htmx_request :: "header_map \<Rightarrow> bool" where
  "is_htmx_request headers =
     (case headers ''HX-Request'' of Some v \<Rightarrow> eq_ignore_ascii_case v ''true'' | None \<Rightarrow> False)"

definition is_ocg_fetch_request :: "header_map \<Rightarrow> bool" where
  "is_ocg_fetch_request headers =
     (case headers ''X-OCG-Fetch'' of Some v \<Rightarrow> eq_ignore_ascii_case v ''true'' | None \<Rightarrow> False)"

definition redirect_to_log_in_for_request :: "header_map \<Rightarrow> response" where
  "redirect_to_log_in_for_request headers =
     (if is_htmx_request headers
      then \<lparr>rs_status = 200, rs_headers = [(''HX-Redirect'', LOG_IN_URL)], rs_body = EmptyBody\<rparr>
      else if is_ocg_fetch_request headers
      then \<lparr>rs_status = 401, rs_headers = [(''X-OCG-Redirect'', LOG_IN_URL)], rs_body = EmptyBody\<rparr>
      else redirect_to LOG_IN_URL)"

definition log_out_for_stale_dashboard_context :: "'d auth_app \<Rightarrow> header_map \<Rightarrow> ('d, response) handling" where
  "log_out_for_stale_dashboard_context app headers =
     act_bind (act_map_err auth_error (ap_logout app)) (\<lambda>_. act_ok (redirect_to_log_in_for_request headers))"

definition stale_context :: "'d auth_app \<Rightarrow> header_map \<Rightarrow> ('d, 'a) gate" where
  "stale_context app headers =
     act_bind (or_respond (log_out_for_stale_dashboard_context app headers)) act_err"

definition require_user :: "('d, User) gate" where
  "require_user =
     act_bind (or_respond current_user) (\<lambda>user.
       case user of Some u \<Rightarrow> act_ok u | None \<Rightarrow> act_err (status_response 403))"

definition get_selected_community_id_optional :: "('d, uuid option) gate" where
  "get_selected_community_id_optional = or_internal_error (session_get_id SELECTED_COMMUNITY_ID_KEY)"

definition get_selected_community_id :: "('d, uuid) gate" where
  "get_selected_community_id =
     act_bind get_selected_community_id_optional (\<lambda>found.
       case found of
         Some community_id \<Rightarrow> act_ok community_id
       | None \<Rightarrow> act_err (redirect_to USER_DASHBOARD_INVITATIONS_URL))"

definition get_selected_community_and_group_ids_optional :: "('d, (uuid \<times> uuid) option) gate" where
  "get_selected_community_and_group_ids_optional =
     act_bind get_selected_community_id_optional (\<lambda>found.
       case found of
         None \<Rightarrow> act_ok None
       | Some community_id \<Rightarrow>
           act_bind (or_internal_error (session_get_id SELECTED_GROUP_ID_KEY)) (\<lambda>found_group.
             act_ok (case found_group of Some group_id \<Rightarrow> Some (community_id, group_id) | None \<Rightarrow> None)))"

definition or_invitations :: "'a option \<Rightarrow> ('d, 'a) gate" where
  "or_invitations found =
     (case found of Some x \<Rightarrow> act_ok x | None \<Rightarrow> act_err (redirect_to USER_DASHBOARD_INVITATIONS_URL))"

definition selected_or_first_community :: "'d auth_app \<Rightarrow> uuid \<Rightarrow> ('d, uuid) gate" where
  "selected_or_first_community app user_id =
     act_bind get_selected_community_id_optional (\<lambda>found.
       case found of
         Some community_id \<Rightarrow> act_ok community_id
       | None \<Rightarrow>
           act_bind (or_respond (select_first_accessible_community_for_dashboard app user_id)) or_invitations)"

definition community_permission ::
    "'d auth_app \<Rightarrow> uuid \<Rightarrow> uuid \<Rightarrow> CommunityPermission \<Rightarrow> ('d, bool) gate" where
  "community_permission app community_id user_id permission =
     or_internal_error (in_db (db_user_has_community_permission (ap_db app) community_id user_id permission))"

definition group_permission ::
    "'d auth_app \<Rightarrow> uuid \<Rightarrow> uuid \<Rightarrow> uuid \<Rightarrow> GroupPermission \<Rightarrow> ('d, bool) gate" where
  "group_permission app community_id group_id user_id permission =
     or_internal_error (in_db (db_user_has_group_permission (ap_db app) community_id group_id user_id permission))"

definition user_has_community_dashboard_permission :: "'d auth_app \<Rightarrow> header_map \<Rightarrow> ('d, uuid) gate" where
  "user_has_community_dashboard_permission app headers =
     act_bind require_user (\<lambda>user.
     act_bind (selected_or_first_community app (us_user_id user)) (\<lambda>community_id.
     act_bind (community_permission app community_id (us_user_id user) CommunityRead) (\<lambda>has_read_permission.
       if \<not> has_read_permission then stale_context app headers else act_ok community_id)))"

definition user_has_path_community_permission ::
    "'d auth_app \<Rightarrow> CommunityPermission \<Rightarrow> uuid \<Rightarrow> ('d, unit) gate" where
  "user_has_path_community_permission app permission community_id =
     act_bind require_user (\<lambda>user.
     act_bind (community_permission app community_id (us_user_id user) permission) (\<lambda>has_permission.
       if \<not> has_permission then act_err (status_response 403) else act_ok ()))"

definition user_has_path_group_permission ::
    "'d auth_app \<Rightarrow> GroupPermission \<Rightarrow> uuid \<Rightarrow> ('d, unit) gate" where
  "user_has_path_group_permission app permission group_id =
     act_bind require_user (\<lambda>user.
     act_bind get_selected_community_id (\<lambda>community_id.
     act_bind (or_internal_error (in_db (db_group_belongs_to_community (ap_db app) community_id group_id))) (\<lambda>belongs.
       if \<not> belongs then act_err (status_response 403)
       else act_bind (group_permission app community_id group_id (us_user_id user) permission) (\<lambda>has_permission.
         if \<not> has_permission then act_err (status_response 403) else act_ok ()))))"

definition user_has_selected_community_permission ::
    "'d auth_app \<Rightarrow> CommunityPermission \<Rightarrow> header_map \<Rightarrow> ('d, uuid) gate" where
  "user_has_selected_community_permission app permission headers =
     act_bind require_user (\<lambda>user.
     act_bind (selected_or_first_community app (us_user_id user)) (\<lambda>community_id.
     act_bind (community_permission app community_id (us_user_id user) permission) (\<lambda>has_permission.
       if has_permission then act_ok community_id
       else if permission \<noteq> CommunityRead
       then act_bind (community_permission app community_id (us_user_id user) CommunityRead) (\<lambda>has_read_permission.
         if has_read_permission then act_err (status_response 403) else stale_context app headers)
       else stale_context app headers)))"

definition selected_or_first_group :: "'d auth_app \<Rightarrow> uuid \<Rightarrow> ('d, uuid \<times> uuid) gate" where
  "selected_or_first_group app user_id =
     act_bind get_selected_community_and_group_ids_optional (\<lambda>found.
       case found of
         Some ids \<Rightarrow> act_ok ids
       | None \<Rightarrow>
           act_bind get_selected_community_id_optional (\<lambda>selected_community_id.
           act_bind (or_respond
             (select_first_accessible_group_for_dashboard app user_id selected_community_id)) or_invitations))"

definition user_has_selected_group_permission ::
    "'d auth_app \<Rightarrow> GroupPermission \<Rightarrow> header_map \<Rightarrow> ('d, uuid \<times> uuid) gate" where
  "user_has_selected_group_permission app permission headers =
     act_bind require_user (\<lambda>user.
     act_bind (selected_or_first_group app (us_user_id user)) (\<lambda>(community_id, group_id).
     act_bind (group_permission app community_id group_id (us_user_id user) permission) (\<lambda>has_permission.
       if has_permission then act_ok (community_id, group_id)
       else if permission \<noteq> GroupRead
       then act_bind (group_permission app community_id group_id (us_user_id user) GroupRead) (\<lambda>has_read_permission.
         if has_read_permission then act_err (status_response 403) else stale_context app headers)
       else stale_context app headers)))"

end
