(* ===== verification/Auth_Store.thy ===== *)
theory Auth_Store
  imports Auth_Types "HOL-Library.List_Lexorder" "HOL-Library.Char_ord"
begin

text \<open>
  The tables and database functions of authentication and authorization
  (\<^verbatim>\<open>database/migrations/functions/auth\<close>, with \<^verbatim>\<open>list_user_groups\<close> and \<^verbatim>\<open>list_user_communities\<close>), and the
  Postgres implementation of the trait \<^verbatim>\<open>DBAuth\<close> over them (\<^verbatim>\<open>db/auth.rs\<close>).

  A function runs in one transaction at the time \<open>as_now\<close> (in microseconds) and raises without
  effect. \<^verbatim>\<open>lower\<close> is modelled for ASCII and the text order is that of the C collation. A provider
  document is the typed value that this program stores, so that the shallow merge of two documents
  is the merge of \<^verbatim>\<open>UserProvider\<close>. Random bytes and generated identifiers come from \<open>auth_dice\<close>, by the number
  of the draw. The notification queue and the audit log are the calls made to them. Constraints are those of
  the schema: the unique indexes on the lower-cased e-mail, on the lower-cased user name and on a complete
  Linux Foundation identity, and the checks against blank texts.
\<close>

section \<open>Tables\<close>

datatype registration_status = Registered | PreRegistered

definition registration_status_str :: "registration_status \<Rightarrow> string" where
  "registration_status_str s = (case s of Registered \<Rightarrow> ''registered'' | PreRegistered \<Rightarrow> ''pre-registered'')"

record user_row =
  ur_user_id :: uuid
  ur_auth_hash :: string
  ur_email :: string
  ur_email_verified :: bool
  ur_name :: "string option"
  ur_optional_notifications_enabled :: bool
  ur_password :: "string option"
  ur_profile :: profile
  ur_provider :: "UserProvider option"
  ur_registration_status :: registration_status
  ur_username :: string

record code_row =
  cd_code :: uuid
  cd_created_at :: instant
  cd_user_id :: uuid

text \<open>The roles, which the schema fixes.\<close>

datatype community_role = CommunityAdmin | GroupsManager | CommunityViewer
datatype group_role = GroupAdmin | EventsManager | GroupViewer

record community_row =
  cm_community_id :: uuid
  cm_name :: string
  cm_group_team_management_restricted :: bool

record group_row =
  gr_group_id :: uuid
  gr_community_id :: uuid
  gr_deleted :: bool
  gr_name :: string

record community_team_row =
  ct_community_id :: uuid
  ct_user_id :: uuid
  ct_accepted :: bool
  ct_role :: community_role

record group_team_row =
  gt_group_id :: uuid
  gt_user_id :: uuid
  gt_accepted :: bool
  gt_role :: group_role

datatype auth_call =
    AuthAudit string uuid
  | AuthNotification string EmailVerification "uuid list"

record auth_store =
  as_now :: instant
  as_draws :: nat
  as_users :: "user_row list"
  as_codes :: "code_row list"
  as_sessions :: "session_record list"
  as_communities :: "community_row list"
  as_groups :: "group_row list"
  as_community_team :: "community_team_row list"
  as_group_team :: "group_team_row list"
  as_calls :: "auth_call list"

type_synonym 'a auth_tx = "auth_store \<Rightarrow> string + 'a \<times> auth_store"

record auth_dice =
  ad_uuid :: "nat \<Rightarrow> uuid"
  ad_auth_hash :: "nat \<Rightarrow> string"

definition one_day :: int where
  "one_day = 86400 * 1000000"

definition find_user :: "uuid \<Rightarrow> auth_store \<Rightarrow> user_row option" where
  "find_user i st = find (\<lambda>u. ur_user_id u = i) (as_users st)"

definition row_identity :: "user_row \<Rightarrow> (string \<times> string) option" where
  "row_identity u =
     (case ur_provider u of None \<Rightarrow> None | Some p \<Rightarrow> linuxfoundation_provider_identity p)"

definition complete_identity :: "(string \<times> string) option \<Rightarrow> bool" where
  "complete_identity i = (case i of Some (issuer, subject) \<Rightarrow> issuer \<noteq> [] \<and> subject \<noteq> [] | None \<Rightarrow> False)"

text \<open>Two rows that the unique indexes do not let stand together.\<close>

definition users_clash :: "user_row \<Rightarrow> user_row \<Rightarrow> bool" where
  "users_clash u v \<longleftrightarrow>
     to_ascii_lowercase (ur_email u) = to_ascii_lowercase (ur_email v) \<or>
     to_ascii_lowercase (ur_username u) = to_ascii_lowercase (ur_username v) \<or>
     complete_identity (row_identity u) \<and> row_identity u = row_identity v"

definition not_blank :: "string option \<Rightarrow> bool" where
  "not_blank v = (case v of Some s \<Rightarrow> btrim s \<noteq> [] | None \<Rightarrow> True)"

definition user_checks :: "user_row \<Rightarrow> bool" where
  "user_checks u \<longleftrightarrow>
     btrim (ur_auth_hash u) \<noteq> [] \<and> btrim (ur_email u) \<noteq> [] \<and> btrim (ur_username u) \<noteq> [] \<and>
     not_blank (ur_password u) \<and>
     list_all (\<lambda>field. not_blank (field (ur_profile u)))
       [pf_bio, pf_bluesky_url, pf_city, pf_company, pf_country, pf_facebook_url, pf_github_url,
        pf_linkedin_url, pf_photo_url, pf_timezone, pf_title, pf_twitter_url, pf_website_url]"

definition write_user :: "user_row \<Rightarrow> unit auth_tx" where
  "write_user u st =
     (if list_ex (\<lambda>v. ur_user_id v \<noteq> ur_user_id u \<and> users_clash u v) (as_users st)
      then Inl ''duplicate key value violates unique constraint''
      else if \<not> user_checks u then Inl ''new row violates check constraint''
      else Inr ((), st\<lparr>as_users := map (\<lambda>v. if ur_user_id v = ur_user_id u then u else v) (as_users st)\<rparr>))"

definition insert_user :: "user_row \<Rightarrow> unit auth_tx" where
  "insert_user u st =
     (if list_ex (\<lambda>v. ur_user_id v = ur_user_id u \<or> users_clash u v) (as_users st)
      then Inl ''duplicate key value violates unique constraint''
      else if \<not> user_checks u then Inl ''new row violates check constraint''
      else Inr ((), st\<lparr>as_users := as_users st @ [u]\<rparr>))"

definition auth_draw :: "auth_store \<Rightarrow> auth_store" where
  "auth_draw st = st\<lparr>as_draws := as_draws st + 1\<rparr>"

definition add_auth_call :: "auth_call \<Rightarrow> auth_store \<Rightarrow> auth_store" where
  "add_auth_call c st = st\<lparr>as_calls := as_calls st @ [c]\<rparr>"

section \<open>Reading users\<close>

text \<open>
  The document of \<^verbatim>\<open>get_user_by_id\<close>, as the user that \<^verbatim>\<open>serde_json\<close> makes of it: a null name is
  stripped, and the user has no name field to read.
\<close>

definition in_group_team :: "uuid \<Rightarrow> auth_store \<Rightarrow> bool" where
  "in_group_team i st = list_ex (\<lambda>t. gt_user_id t = i \<and> gt_accepted t) (as_group_team st)"

definition in_community_team :: "uuid \<Rightarrow> auth_store \<Rightarrow> bool" where
  "in_community_team i st = list_ex (\<lambda>t. ct_user_id t = i \<and> ct_accepted t) (as_community_team st)"

definition user_of_row :: "auth_store \<Rightarrow> user_row \<Rightarrow> bool \<Rightarrow> string \<Rightarrow> User" where
  "user_of_row st u include_password name =
     \<lparr>us_auth_hash = ur_auth_hash u, us_email = ur_email u, us_email_verified = ur_email_verified u,
      us_name = name, us_optional_notifications_enabled = ur_optional_notifications_enabled u,
      us_registration_status = default_registration_status, us_user_id = ur_user_id u,
      us_username = ur_username u,
      us_belongs_to_any_group_team = Some (in_group_team (ur_user_id u) st \<or> in_community_team (ur_user_id u) st),
      us_belongs_to_community_team = Some (in_community_team (ur_user_id u) st),
      us_profile = ur_profile u,
      us_has_password = (if ur_password u \<noteq> None then Some True else None),
      us_password = (if include_password then ur_password u else None),
      us_provider = ur_provider u\<rparr>"

definition get_user_by_id :: "uuid option \<Rightarrow> bool \<Rightarrow> auth_store \<Rightarrow> string + User option" where
  "get_user_by_id user_id include_password st =
     (case user_id of
        None \<Rightarrow> Inr None
      | Some i \<Rightarrow> (case find_user i st of
          None \<Rightarrow> Inr None
        | Some u \<Rightarrow> (case ur_name u of
            None \<Rightarrow> Inl ''missing field `name`''
          | Some name \<Rightarrow> Inr (Some (user_of_row st u include_password name)))))"

definition get_user_by_id_verified :: "uuid \<Rightarrow> auth_store \<Rightarrow> string + User option" where
  "get_user_by_id_verified user_id st =
     get_user_by_id (map_option ur_user_id
       (find (\<lambda>u. ur_user_id u = user_id \<and> ur_email_verified u \<and> ur_registration_status u = Registered)
         (as_users st))) False st"

definition get_user_by_username :: "string \<Rightarrow> auth_store \<Rightarrow> string + User option" where
  "get_user_by_username username st =
     get_user_by_id (map_option ur_user_id
       (find (\<lambda>u. to_ascii_lowercase (ur_username u) = to_ascii_lowercase username \<and> ur_email_verified u \<and>
                  ur_registration_status u = Registered \<and> ur_password u \<noteq> None) (as_users st))) True st"

definition external_user :: "auth_store \<Rightarrow> user_row \<Rightarrow> User" where
  "external_user st u =
     (user_of_row st u False (coalesce (ur_name u) []))
       \<lparr>us_registration_status := registration_status_str (ur_registration_status u)\<rparr>"

definition get_user_by_email_for_external_auth :: "string \<Rightarrow> auth_store \<Rightarrow> User option" where
  "get_user_by_email_for_external_auth email st =
     map_option (external_user st)
       (find (\<lambda>u. to_ascii_lowercase (ur_email u) = to_ascii_lowercase email \<and>
                  (ur_registration_status u = Registered \<and> ur_email_verified u \<or>
                   ur_registration_status u = PreRegistered)) (as_users st))"

definition get_user_by_linuxfoundation_identity_for_external_auth ::
    "string \<Rightarrow> string \<Rightarrow> auth_store \<Rightarrow> User option" where
  "get_user_by_linuxfoundation_identity_for_external_auth issuer subject st =
     (if issuer = [] \<or> subject = [] then None
      else map_option (external_user st)
        (find (\<lambda>u. row_identity u = Some (issuer, subject) \<and> ur_registration_status u = Registered \<and>
                   ur_email_verified u) (as_users st)))"

section \<open>User names\<close>

definition username_taken :: "string \<Rightarrow> uuid option \<Rightarrow> auth_store \<Rightarrow> bool" where
  "username_taken username excluded st =
     list_ex (\<lambda>u. to_ascii_lowercase (ur_username u) = to_ascii_lowercase username \<and>
                  (excluded = None \<or> excluded \<noteq> Some (ur_user_id u))) (as_users st)"

definition resolve_unique_username :: "string \<Rightarrow> uuid option \<Rightarrow> auth_store \<Rightarrow> string + string" where
  "resolve_unique_username base excluded st =
     (if \<not> username_taken base excluded st then Inr base
      else case find (\<lambda>n. \<not> username_taken (base @ show_nat n) excluded st) [2..<100] of
        Some n \<Rightarrow> Inr (base @ show_nat n)
      | None \<Rightarrow> Inl (''unable to generate unique username: all variants from '' @ base @ '' to '' @ base @
                    ''99 are taken''))"

section \<open>Signing up\<close>

definition core_user :: "user_row \<Rightarrow> string \<Rightarrow> User" where
  "core_user u name =
     \<lparr>us_auth_hash = ur_auth_hash u, us_email = ur_email u, us_email_verified = ur_email_verified u,
      us_name = name, us_optional_notifications_enabled = ur_optional_notifications_enabled u,
      us_registration_status = default_registration_status, us_user_id = ur_user_id u,
      us_username = ur_username u, us_belongs_to_any_group_team = None,
      us_belongs_to_community_team = None, us_profile = empty_profile, us_has_password = None,
      us_password = None, us_provider = ur_provider u\<rparr>"

definition new_user_row :: "auth_dice \<Rightarrow> UserSummary \<Rightarrow> bool \<Rightarrow> string \<Rightarrow> auth_store \<Rightarrow> user_row" where
  "new_user_row d summary email_verified username st =
     \<lparr>ur_user_id = ad_uuid d (as_draws st), ur_auth_hash = ad_auth_hash d (as_draws st),
      ur_email = to_ascii_lowercase (sm_email summary), ur_email_verified = email_verified,
      ur_name = Some (sm_name summary), ur_optional_notifications_enabled = True,
      ur_password = sm_password summary, ur_profile = empty_profile,
      ur_provider = sm_provider summary, ur_registration_status = Registered, ur_username = username\<rparr>"

definition insert_code :: "code_row \<Rightarrow> unit auth_tx" where
  "insert_code c st =
     (if list_ex (\<lambda>k. cd_code k = cd_code c \<or> cd_user_id k = cd_user_id c) (as_codes st)
      then Inl ''duplicate key value violates unique constraint''
      else Inr ((), st\<lparr>as_codes := as_codes st @ [c]\<rparr>))"

definition sign_up_user ::
    "auth_dice \<Rightarrow> UserSummary \<Rightarrow> bool \<Rightarrow> EmailVerificationNotification option \<Rightarrow> (User \<times> uuid option) auth_tx" where
  "sign_up_user d summary email_verified verification st =
     (if \<not> email_verified \<and> verification = None
      then Inl ''verification code is required to send verification email''
      else and_then (resolve_unique_username (sm_username summary) None st) (\<lambda>username.
        let u = new_user_row d summary email_verified username st in
        and_then (insert_user u (auth_draw st)) (\<lambda>(_, st1).
          if email_verified then Inr ((core_user u (sm_name summary), None), st1)
          else let v = the verification;
                   c = \<lparr>cd_code = en_code v, cd_created_at = as_now st, cd_user_id = ur_user_id u\<rparr> in
            and_then (insert_code c st1) (\<lambda>(_, st2).
              Inr ((core_user u (sm_name summary), Some (en_code v)),
                add_auth_call (AuthNotification ''email-verification'' (en_template_data v) [ur_user_id u]) st2)))))"

text \<open>\<^verbatim>\<open>on conflict (user_id) do update\<close>: the row of the user is replaced, and the code stays unique.\<close>

definition upsert_code :: "code_row \<Rightarrow> unit auth_tx" where
  "upsert_code c st =
     (if list_ex (\<lambda>k. cd_code k = cd_code c \<and> cd_user_id k \<noteq> cd_user_id c) (as_codes st)
      then Inl ''duplicate key value violates unique constraint''
      else Inr ((), st\<lparr>as_codes :=
        (if list_ex (\<lambda>k. cd_user_id k = cd_user_id c) (as_codes st)
         then map (\<lambda>k. if cd_user_id k = cd_user_id c then c else k) (as_codes st)
         else as_codes st @ [c])\<rparr>))"

definition activate_pre_registered_user_email_password ::
    "auth_dice \<Rightarrow> UserSummary \<Rightarrow> EmailVerificationNotification \<Rightarrow> (User \<times> uuid) option auth_tx" where
  "activate_pre_registered_user_email_password d summary v st =
     (case find (\<lambda>u. to_ascii_lowercase (ur_email u) = to_ascii_lowercase (sm_email summary) \<and>
                     ur_registration_status u = PreRegistered) (as_users st) of
        None \<Rightarrow> Inr (None, st)
      | Some placeholder \<Rightarrow>
          let i = ur_user_id placeholder in
          and_then (resolve_unique_username (sm_username summary) (Some i) st) (\<lambda>username.
            let u = placeholder\<lparr>ur_auth_hash := ad_auth_hash d (as_draws st), ur_email_verified := False,
                  ur_name := Some (sm_name summary), ur_password := sm_password summary,
                  ur_provider := sm_provider summary, ur_registration_status := Registered,
                  ur_username := username\<rparr> in
            and_then (write_user u (auth_draw st)) (\<lambda>(_, st1).
            and_then (upsert_code \<lparr>cd_code = en_code v, cd_created_at = as_now st, cd_user_id = i\<rparr> st1) (\<lambda>(_, st2).
              Inr (Some (core_user u (sm_name summary), en_code v),
                add_auth_call (AuthNotification ''email-verification'' (en_template_data v) [i]) st2)))))"

definition activate_pre_registered_user_external_provider ::
    "auth_dice \<Rightarrow> uuid \<Rightarrow> UserSummary \<Rightarrow> User auth_tx" where
  "activate_pre_registered_user_external_provider d user_id summary st =
     and_then (resolve_unique_username (sm_username summary) (Some user_id) st) (\<lambda>username.
       case find (\<lambda>u. ur_user_id u = user_id \<and> ur_registration_status u = PreRegistered) (as_users st) of
         None \<Rightarrow> Inl ''pre-registered user not found''
       | Some placeholder \<Rightarrow>
           let u = placeholder\<lparr>ur_auth_hash := ad_auth_hash d (as_draws st), ur_email_verified := True,
                 ur_name := Some (sm_name summary), ur_provider := sm_provider summary,
                 ur_registration_status := Registered, ur_username := username\<rparr> in
           and_then (write_user u (auth_draw st)) (\<lambda>(_, st1).
             Inr (user_of_row st1 u False (sm_name summary), st1)))"

section \<open>Updating users\<close>

definition nullif_empty :: "string option \<Rightarrow> string option" where
  "nullif_empty v = (if v = Some [] then None else v)"

definition merged_provider :: "UserProvider option \<Rightarrow> UserProvider option \<Rightarrow> UserProvider option" where
  "merged_provider old new =
     (case new of None \<Rightarrow> old | Some p \<Rightarrow> Some (merge_provider (coalesce old default_provider) p))"

text \<open>\<^verbatim>\<open>update_user_external_auth\<close> reads the identity of the payload with empty parts as null.\<close>

definition update_user_external_auth :: "uuid \<Rightarrow> UserSummary \<Rightarrow> User auth_tx" where
  "update_user_external_auth user_id summary st =
     (case nullif_blank (sm_email summary) of
        None \<Rightarrow> Inl ''external auth email is required''
      | Some trimmed \<Rightarrow>
          let email = to_ascii_lowercase trimmed; incoming = linuxfoundation_identity summary in
          if list_ex (\<lambda>v. to_ascii_lowercase (ur_email v) = email \<and> ur_user_id v \<noteq> user_id) (as_users st)
          then Inl ''external auth email belongs to another user''
          else if complete_identity incoming \<and>
                  list_ex (\<lambda>v. row_identity v = incoming \<and> ur_user_id v \<noteq> user_id) (as_users st)
          then Inl ''external auth identity belongs to another user''
          else case find (\<lambda>u. ur_user_id u = user_id \<and> ur_registration_status u = Registered) (as_users st) of
            None \<Rightarrow> Inl ''registered external-auth user not found''
          | Some row \<Rightarrow>
              let u = row\<lparr>ur_email := email, ur_email_verified := True,
                    ur_name := (case nullif_blank (sm_name summary) of Some n \<Rightarrow> Some n | None \<Rightarrow> ur_name row),
                    ur_provider := merged_provider (ur_provider row) (sm_provider summary)\<rparr> in
              and_then (write_user u st) (\<lambda>(_, st1).
                Inr (user_of_row st1 u False (coalesce (ur_name u) []), st1)))"

definition update_user_provider :: "uuid \<Rightarrow> UserProvider \<Rightarrow> unit auth_tx" where
  "update_user_provider user_id provider st =
     (case find_user user_id st of
        None \<Rightarrow> Inr ((), st)
      | Some u \<Rightarrow> write_user (u\<lparr>ur_provider := merged_provider (ur_provider u) (Some provider)\<rparr>) st)"

definition update_user_password :: "auth_dice \<Rightarrow> uuid \<Rightarrow> string \<Rightarrow> unit auth_tx" where
  "update_user_password d actor password st =
     (let audit = (\<lambda>st. Inr ((), add_auth_call (AuthAudit ''user_password_updated'' actor) st)) in
      case find_user actor st of
        None \<Rightarrow> audit st
      | Some u \<Rightarrow>
          and_then (write_user (u\<lparr>ur_auth_hash := ad_auth_hash d (as_draws st), ur_password := Some password\<rparr>)
              (auth_draw st)) (\<lambda>(_, st1). audit st1))"

definition stored_profile :: "profile \<Rightarrow> profile" where
  "stored_profile p =
     \<lparr>pf_bio = nullif_empty (pf_bio p), pf_bluesky_url = nullif_empty (pf_bluesky_url p),
      pf_city = nullif_empty (pf_city p), pf_company = nullif_empty (pf_company p),
      pf_country = nullif_empty (pf_country p), pf_facebook_url = nullif_empty (pf_facebook_url p),
      pf_github_url = nullif_empty (pf_github_url p), pf_interests = pf_interests p,
      pf_linkedin_url = nullif_empty (pf_linkedin_url p), pf_photo_url = nullif_empty (pf_photo_url p),
      pf_timezone = nullif_empty (pf_timezone p), pf_title = nullif_empty (pf_title p),
      pf_twitter_url = nullif_empty (pf_twitter_url p), pf_website_url = nullif_empty (pf_website_url p)\<rparr>"

definition update_user_details :: "uuid \<Rightarrow> UserDetails \<Rightarrow> unit auth_tx" where
  "update_user_details actor details st =
     (let audit = (\<lambda>st. Inr ((), add_auth_call (AuthAudit ''user_details_updated'' actor) st)) in
      case find_user actor st of
        None \<Rightarrow> audit st
      | Some u \<Rightarrow>
          and_then (write_user (u\<lparr>ur_name := Some (ud_name details),
              ur_optional_notifications_enabled := ud_optional_notifications_enabled details,
              ur_profile := stored_profile (ud_profile details)\<rparr>) st) (\<lambda>(_, st1). audit st1))"

definition verify_email :: "uuid \<Rightarrow> unit auth_tx" where
  "verify_email code st =
     (case find (\<lambda>k. cd_code k = code \<and> as_now st - one_day < cd_created_at k) (as_codes st) of
        None \<Rightarrow> Inl ''email verification failed: invalid code''
      | Some k \<Rightarrow> Inr ((), st
          \<lparr>as_codes := filter (\<lambda>k. \<not> (cd_code k = code \<and> as_now st - one_day < cd_created_at k)) (as_codes st),
           as_users := map (\<lambda>u. if ur_user_id u = cd_user_id k then u\<lparr>ur_email_verified := True\<rparr> else u)
             (as_users st)\<rparr>))"

section \<open>Permissions\<close>

text \<open>The grants the migrations insert.\<close>

fun community_role_community_permission :: "community_role \<Rightarrow> CommunityPermission \<Rightarrow> bool" where
  "community_role_community_permission CommunityAdmin _ = True"
| "community_role_community_permission GroupsManager p = (p \<in> {GroupsWrite, CommunityRead})"
| "community_role_community_permission CommunityViewer p = (p = CommunityRead)"

fun community_role_group_permission :: "community_role \<Rightarrow> GroupPermission \<Rightarrow> bool" where
  "community_role_group_permission CommunityAdmin _ = True"
| "community_role_group_permission GroupsManager _ = True"
| "community_role_group_permission CommunityViewer p = (p = GroupRead)"

fun group_role_group_permission :: "group_role \<Rightarrow> GroupPermission \<Rightarrow> bool" where
  "group_role_group_permission GroupAdmin _ = True"
| "group_role_group_permission EventsManager p = (p \<in> {EventsWrite, GroupRead, BadgesWrite})"
| "group_role_group_permission GroupViewer p = (p = GroupRead)"

definition user_has_community_permission ::
    "uuid \<Rightarrow> uuid \<Rightarrow> CommunityPermission \<Rightarrow> auth_store \<Rightarrow> bool" where
  "user_has_community_permission community_id user_id permission st =
     list_ex (\<lambda>ct. ct_community_id ct = community_id \<and> ct_user_id ct = user_id \<and> ct_accepted ct \<and>
                   community_role_community_permission (ct_role ct) permission) (as_community_team st)"

definition user_has_group_permission ::
    "uuid \<Rightarrow> uuid \<Rightarrow> uuid \<Rightarrow> GroupPermission \<Rightarrow> auth_store \<Rightarrow> bool" where
  "user_has_group_permission community_id group_id user_id permission st \<longleftrightarrow>
     list_ex (\<lambda>gt. list_ex (\<lambda>g. list_ex (\<lambda>c.
         gr_group_id g = gt_group_id gt \<and> cm_community_id c = gr_community_id g \<and>
         gr_community_id g = community_id \<and> \<not> gr_deleted g \<and> gt_group_id gt = group_id \<and>
         gt_user_id gt = user_id \<and> gt_accepted gt \<and> group_role_group_permission (gt_role gt) permission \<and>
         (permission \<noteq> GroupTeamWrite \<or> \<not> cm_group_team_management_restricted c))
       (as_communities st)) (as_groups st)) (as_group_team st) \<or>
     list_ex (\<lambda>ct. list_ex (\<lambda>g.
         gr_community_id g = ct_community_id ct \<and> ct_community_id ct = community_id \<and> \<not> gr_deleted g \<and>
         gr_group_id g = group_id \<and> ct_user_id ct = user_id \<and> ct_accepted ct \<and>
         community_role_group_permission (ct_role ct) permission)
       (as_groups st)) (as_community_team st)"

definition group_belongs_to_community :: "uuid \<Rightarrow> uuid \<Rightarrow> auth_store \<Rightarrow> bool" where
  "group_belongs_to_community community_id group_id st =
     list_ex (\<lambda>g. gr_community_id g = community_id \<and> gr_group_id g = group_id \<and> \<not> gr_deleted g) (as_groups st)"

section \<open>The dashboards of a user\<close>

text \<open>
  Of a community summary and a group of the answers there are the identifiers, all that the
  selection of a dashboard reads.
\<close>

definition list_user_communities :: "uuid \<Rightarrow> auth_store \<Rightarrow> uuid list" where
  "list_user_communities user_id st =
     map cm_community_id (sort_key cm_name
       (filter (\<lambda>c. list_ex (\<lambda>ct. ct_user_id ct = user_id \<and> ct_community_id ct = cm_community_id c \<and>
                                  ct_accepted ct) (as_community_team st)) (as_communities st)))"

definition user_group :: "uuid \<Rightarrow> auth_store \<Rightarrow> group_row \<Rightarrow> bool" where
  "user_group user_id st g \<longleftrightarrow>
     \<not> gr_deleted g \<and>
     (list_ex (\<lambda>ct. ct_user_id ct = user_id \<and> ct_community_id ct = gr_community_id g \<and> ct_accepted ct)
        (as_community_team st) \<or>
      list_ex (\<lambda>gt. gt_group_id gt = gr_group_id g \<and> gt_user_id gt = user_id \<and> gt_accepted gt)
        (as_group_team st))"

definition groups_in :: "uuid \<Rightarrow> auth_store \<Rightarrow> uuid \<Rightarrow> uuid list" where
  "groups_in user_id st community_id =
     map gr_group_id (sort_key gr_name
       (filter (\<lambda>g. user_group user_id st g \<and> gr_community_id g = community_id) (as_groups st)))"

definition list_user_groups :: "uuid \<Rightarrow> auth_store \<Rightarrow> UserGroupsByCommunity list" where
  "list_user_groups user_id st =
     map (\<lambda>c. \<lparr>gc_community_id = cm_community_id c, gc_groups = groups_in user_id st (cm_community_id c)\<rparr>)
       (sort_key cm_name
         (filter (\<lambda>c. groups_in user_id st (cm_community_id c) \<noteq> []) (as_communities st)))"

section \<open>Sessions\<close>

definition create_session :: "session_record \<Rightarrow> unit auth_tx" where
  "create_session r st =
     (if list_ex (\<lambda>s. sr_id s = sr_id r) (as_sessions st)
      then Inl ''duplicate key value violates unique constraint''
      else Inr ((), st\<lparr>as_sessions := as_sessions st @ [r]\<rparr>))"

definition delete_session :: "string \<Rightarrow> unit auth_tx" where
  "delete_session i st = Inr ((), st\<lparr>as_sessions := filter (\<lambda>s. sr_id s \<noteq> i) (as_sessions st)\<rparr>)"

definition get_session :: "string \<Rightarrow> auth_store \<Rightarrow> session_record option" where
  "get_session i st = find (\<lambda>s. sr_id s = i) (as_sessions st)"

definition update_session :: "session_record \<Rightarrow> unit auth_tx" where
  "update_session r st =
     Inr ((), st\<lparr>as_sessions := map (\<lambda>s. if sr_id s = sr_id r then r else s) (as_sessions st)\<rparr>)"

definition get_user_password :: "uuid \<Rightarrow> auth_store \<Rightarrow> string option" where
  "get_user_password i st = (case find_user i st of Some u \<Rightarrow> ur_password u | None \<Rightarrow> None)"

section \<open>The implementation of the trait\<close>

definition query_tx :: "(auth_store \<Rightarrow> 'a) \<Rightarrow> 'a auth_tx" where
  "query_tx q st = Inr (q st, st)"

definition fallible_query_tx :: "(auth_store \<Rightarrow> string + 'a) \<Rightarrow> 'a auth_tx" where
  "fallible_query_tx q st = and_then (q st) (\<lambda>x. Inr (x, st))"

definition pg_auth :: "auth_dice \<Rightarrow> (auth_store \<times> 'p) DBAuth" where
  "pg_auth d =
     \<lparr>db_activate_pre_registered_user_email_password =
        (\<lambda>summary v. run_tx (activate_pre_registered_user_email_password d summary v)),
      db_activate_pre_registered_user_external_provider =
        (\<lambda>i summary. run_tx (activate_pre_registered_user_external_provider d i summary)),
      db_create_session = (\<lambda>r. run_tx (create_session r)),
      db_delete_session = (\<lambda>i. run_tx (delete_session i)),
      db_get_session = (\<lambda>i. run_tx (query_tx (get_session i))),
      db_get_user_by_email_for_external_auth =
        (\<lambda>email. run_tx (query_tx (get_user_by_email_for_external_auth email))),
      db_get_user_by_id = (\<lambda>i. run_tx (fallible_query_tx (get_user_by_id_verified i))),
      db_get_user_by_linuxfoundation_identity_for_external_auth =
        (\<lambda>issuer subject. run_tx (query_tx (get_user_by_linuxfoundation_identity_for_external_auth issuer subject))),
      db_get_user_by_username = (\<lambda>username. run_tx (fallible_query_tx (get_user_by_username username))),
      db_get_user_password = (\<lambda>i. run_tx (query_tx (get_user_password i))),
      db_group_belongs_to_community = (\<lambda>c g. run_tx (query_tx (group_belongs_to_community c g))),
      db_sign_up_user = (\<lambda>summary verified v. run_tx (sign_up_user d summary verified v)),
      db_update_session = (\<lambda>r. run_tx (update_session r)),
      db_update_user_details = (\<lambda>i details. run_tx (update_user_details i details)),
      db_update_user_external_auth = (\<lambda>i summary. run_tx (update_user_external_auth i summary)),
      db_update_user_password = (\<lambda>i password. run_tx (update_user_password d i password)),
      db_update_user_provider = (\<lambda>i provider. run_tx (update_user_provider i provider)),
      db_user_has_community_permission = (\<lambda>c u p. run_tx (query_tx (user_has_community_permission c u p))),
      db_user_has_group_permission = (\<lambda>c g u p. run_tx (query_tx (user_has_group_permission c g u p))),
      db_verify_email = (\<lambda>code. run_tx (verify_email code))\<rparr>"

end
