(* ===== verification/Auth_Accounts.thy ===== *)
theory Auth_Accounts
  imports Auth_Store Auth_Backend
begin

text \<open>
  The Postgres accounts satisfy the contract of the reconciliation (\<open>external_accounts\<close>), and what follows
  for the accounts: who enters which account, that a linked identity stays, who logs in with a
  password, which user name a new account gets, and what an e-mail verification does.
\<close>

section \<open>The table of users\<close>

definition users_inv :: "auth_store \<Rightarrow> bool" where
  "users_inv st \<longleftrightarrow>
     distinct (map ur_user_id (as_users st)) \<and>
     (\<forall>u\<in>set (as_users st). \<forall>v\<in>set (as_users st). ur_user_id u \<noteq> ur_user_id v \<longrightarrow> \<not> users_clash u v)"

named_theorems account_simps \<open>what the functions do to the accounts\<close>

lemma users_clash_sym: "users_clash u v \<longleftrightarrow> users_clash v u"
  by (auto simp: users_clash_def)

lemma find_user_in: "find_user i st = Some u \<Longrightarrow> u \<in> set (as_users st) \<and> ur_user_id u = i"
  by (auto simp: find_user_def find_Some_iff)

lemma find_user_None: "find_user i st = None \<longleftrightarrow> (\<forall>u\<in>set (as_users st). ur_user_id u \<noteq> i)"
  by (auto simp: find_user_def find_None_iff)

lemma find_user_row:
  assumes "users_inv st" and "u \<in> set (as_users st)"
  shows "find_user (ur_user_id u) st = Some u"
proof -
  obtain v where v: "find_user (ur_user_id u) st = Some v"
    using assms(2) find_user_None by (cases "find_user (ur_user_id u) st") auto
  with assms have "v = u" by (metis find_user_in users_inv_def distinct_map inj_onD)
  with v show ?thesis by simp
qed

lemma find_selected:
  assumes "find P (as_users st) = Some u"
  shows "u \<in> set (as_users st)" "P u"
  using assms by (auto simp: find_Some_iff)

lemma no_clash:
  assumes "users_inv st" and "u \<in> set (as_users st)" and "v \<in> set (as_users st)" and "users_clash u v"
  shows "u = v"
proof -
  have "ur_user_id u = ur_user_id v" using assms by (auto simp: users_inv_def)
  with assms(1-3) show ?thesis by (metis find_user_row option.inject)
qed

lemma users_inv_cong: "as_users st' = as_users st \<Longrightarrow> users_inv st' = users_inv st"
  by (simp add: users_inv_def)

lemma find_user_cong: "as_users st' = as_users st \<Longrightarrow> find_user i st' = find_user i st"
  by (simp add: find_user_def)

lemma auth_draw_users [simp]: "as_users (auth_draw st) = as_users st"
  by (simp add: auth_draw_def)

lemma add_auth_call_users [simp]: "as_users (add_auth_call c st) = as_users st"
  by (simp add: add_auth_call_def)

lemma find_map_row:
  "find (\<lambda>v. ur_user_id v = i) (map (\<lambda>v. if ur_user_id v = ur_user_id u then u else v) vs) =
     (if i = ur_user_id u \<and> (\<exists>v\<in>set vs. ur_user_id v = i) then Some u
      else find (\<lambda>v. ur_user_id v = i) vs)"
  by (induction vs) auto

lemma map_ids: "map ur_user_id (map (\<lambda>v. if ur_user_id v = ur_user_id u then u else v) vs) = map ur_user_id vs"
  by (induction vs) auto

text \<open>A row that was written or inserted, and what it leaves.\<close>

lemma write_user:
  assumes "write_user u st = Inr (x, st')" and "users_inv st"
  shows "users_inv st'"
    and "find_user j st' = (if j = ur_user_id u \<and> find_user j st \<noteq> None then Some u else find_user j st)"
proof -
  from assms(1) have nc: "\<forall>v\<in>set (as_users st). ur_user_id v \<noteq> ur_user_id u \<longrightarrow> \<not> users_clash u v"
    and st': "as_users st' = map (\<lambda>v. if ur_user_id v = ur_user_id u then u else v) (as_users st)"
    by (auto simp: write_user_def list_ex_iff split: if_splits)
  have rows: "w \<in> set (as_users st') \<Longrightarrow> w = u \<or> w \<in> set (as_users st) \<and> ur_user_id w \<noteq> ur_user_id u" for w
    by (auto simp: st' split: if_splits)
  have "\<not> users_clash v w" if "v \<in> set (as_users st')" "w \<in> set (as_users st')" "ur_user_id v \<noteq> ur_user_id w" for v w
    using rows [OF that(1)] rows [OF that(2)] that(3) nc assms(2) users_clash_sym
    by (auto simp: users_inv_def)
  moreover have "distinct (map ur_user_id (as_users st'))"
    using assms(2) by (simp only: st' map_ids users_inv_def)
  ultimately show "users_inv st'" by (simp add: users_inv_def)
  show "find_user j st' = (if j = ur_user_id u \<and> find_user j st \<noteq> None then Some u else find_user j st)"
    by (auto simp: find_user_def st' find_map_row find_None_iff)
qed

lemma insert_user:
  assumes "insert_user u st = Inr (x, st')" and "users_inv st"
  shows "users_inv st'"
    and "find_user j st' = (if j = ur_user_id u then Some u else find_user j st)"
    and "find_user (ur_user_id u) st = None"
    and "\<forall>v\<in>set (as_users st). \<not> users_clash u v"
proof -
  from assms(1) have nc: "\<forall>v\<in>set (as_users st). ur_user_id v \<noteq> ur_user_id u \<and> \<not> users_clash u v"
    and st': "as_users st' = as_users st @ [u]"
    by (auto simp: insert_user_def list_ex_iff split: if_splits)
  then show fresh: "find_user (ur_user_id u) st = None" by (auto simp: find_user_None)
  show "\<forall>v\<in>set (as_users st). \<not> users_clash u v" using nc by blast
  have "\<forall>v\<in>set (as_users st). \<not> users_clash v u" using nc users_clash_sym by blast
  with nc assms(2) show "users_inv st'" by (auto simp: users_inv_def st')
  have "find P (vs @ [w]) = (case find P vs of None \<Rightarrow> if P w then Some w else None | y \<Rightarrow> y)"
    for P and vs :: "user_row list" and w
    by (induction vs) auto
  with fresh show "find_user j st' = (if j = ur_user_id u then Some u else find_user j st)"
    by (auto simp: find_user_def st' split: option.split)
qed

lemma user_of_row_fields [simp]:
  "us_user_id (user_of_row st u b n) = ur_user_id u" "us_provider (user_of_row st u b n) = ur_provider u"
  "us_user_id (external_user st u) = ur_user_id u" "us_provider (external_user st u) = ur_provider u"
  "us_registration_status (external_user st u) = registration_status_str (ur_registration_status u)"
  "us_user_id (core_user u n) = ur_user_id u"
  by (simp_all add: user_of_row_def external_user_def core_user_def)

lemma registration_status_str_iff [simp]:
  "registration_status_str s = ''pre-registered'' \<longleftrightarrow> s = PreRegistered"
  by (cases s) (simp_all add: registration_status_str_def)

section \<open>Entering an account\<close>

text \<open>
  The accounts whose owner is the one of a verified summary: the account that is linked to its Linux
  Foundation identity; or else the account of its e-mail address, when that is a placeholder, or
  is verified and not linked to another identity.
\<close>

definition owned_by :: "UserSummary \<Rightarrow> user_row \<Rightarrow> bool" where
  "owned_by summary u \<longleftrightarrow>
     linuxfoundation_identity summary \<noteq> None \<and> row_identity u = linuxfoundation_identity summary \<and>
       ur_registration_status u = Registered \<and> ur_email_verified u \<or>
     to_ascii_lowercase (ur_email u) = to_ascii_lowercase (sm_email summary) \<and>
       (ur_registration_status u = PreRegistered \<or>
        ur_registration_status u = Registered \<and> ur_email_verified u \<and>
        (linuxfoundation_identity summary = None \<or> row_identity u = None \<or>
         row_identity u = linuxfoundation_identity summary))"

text \<open>
  Entering account \<open>i\<close> leaves it registered, verified and linked to the identity of the summary, if
  there is one, or as it was linked, if the summary says nothing; the other accounts stay as they are.
\<close>

definition links_nothing :: "UserSummary \<Rightarrow> bool" where
  "links_nothing summary = (case sm_provider summary of Some p \<Rightarrow> up_linuxfoundation p = None | None \<Rightarrow> True)"

definition account_entered :: "auth_store \<Rightarrow> UserSummary \<Rightarrow> uuid \<Rightarrow> auth_store \<Rightarrow> bool" where
  "account_entered st summary i st' \<longleftrightarrow>
     (case find_user i st of
        Some u \<Rightarrow> owned_by summary u
      | None \<Rightarrow> \<forall>v\<in>set (as_users st).
          to_ascii_lowercase (ur_email v) \<noteq> to_ascii_lowercase (sm_email summary)) \<and>
     (\<exists>u. find_user i st' = Some u \<and> ur_registration_status u = Registered \<and> ur_email_verified u \<and>
          (linuxfoundation_identity summary = None \<or> row_identity u = linuxfoundation_identity summary) \<and>
          (case find_user i st of
             Some v \<Rightarrow> links_nothing summary \<and> ur_registration_status v = Registered \<longrightarrow>
                       row_identity u = row_identity v
           | None \<Rightarrow> True)) \<and>
     (\<forall>j. j = i \<or> find_user j st' = find_user j st)"

lemma summary_identity:
  "linuxfoundation_identity summary = Some i \<Longrightarrow>
     \<exists>p. sm_provider summary = Some p \<and> linuxfoundation_provider_identity p = Some i \<and> up_linuxfoundation p \<noteq> None"
  by (auto simp: linuxfoundation_identity_def linuxfoundation_provider_identity_def split: option.splits)

lemma merged_row_identity:
  assumes "linuxfoundation_identity summary = Some i"
  shows "row_identity (u\<lparr>ur_provider := merged_provider old (sm_provider summary)\<rparr>) = Some i"
  using summary_identity [OF assms] by (auto simp: row_identity_def merged_provider_def merged_identity)

lemma links_nothing_identity: "links_nothing summary \<Longrightarrow> linuxfoundation_identity summary = None"
  by (cases "linuxfoundation_identity summary") (auto simp: links_nothing_def dest: summary_identity)

lemma row_identity_cong: "ur_provider u = ur_provider v \<Longrightarrow> row_identity u = row_identity v"
  by (simp add: row_identity_def)

lemma to_ascii_lowercase_idem [simp]: "to_ascii_lowercase (to_ascii_lowercase s) = to_ascii_lowercase s"
proof -
  have "ascii_lower (ascii_lower c) = ascii_lower c" for c
    by (auto simp: ascii_lower_def Let_def of_char_of take_bit_nat_def)
  then show ?thesis by (simp add: to_ascii_lowercase_def)
qed

lemma written_enters:
  assumes "users_inv st" and "write_user u st1 = Inr (x, st')" and "as_users st1 = as_users st"
    and "old \<in> set (as_users st)" and "ur_user_id old = ur_user_id u" and "owned_by summary old"
    and "ur_registration_status u = Registered" and "ur_email_verified u"
    and "linuxfoundation_identity summary = None \<or> row_identity u = linuxfoundation_identity summary"
    and "links_nothing summary \<Longrightarrow> ur_registration_status old = Registered \<Longrightarrow> row_identity u = row_identity old"
  shows "users_inv st' \<and> account_entered st summary (ur_user_id u) st'"
proof -
  from assms(1,3) have inv: "users_inv st1" by (simp add: users_inv_def)
  from find_user_row [OF assms(1,4)] assms(5) have old: "find_user (ur_user_id u) st = Some old" by simp
  note w = write_user [OF assms(2) inv]
  have same: "find_user j st1 = find_user j st" for j using assms(3) by (rule find_user_cong)
  with w(2) old have "find_user j st' = (if j = ur_user_id u then Some u else find_user j st)" for j by simp
  with w(1) old assms(6-10) show ?thesis by (auto simp: account_entered_def)
qed

lemma by_email_found:
  assumes "get_user_by_email_for_external_auth email st = Some user"
  obtains u where "u \<in> set (as_users st)" and "user = external_user st u"
    and "to_ascii_lowercase (ur_email u) = to_ascii_lowercase email"
    and "ur_registration_status u = Registered \<and> ur_email_verified u \<or> ur_registration_status u = PreRegistered"
  using assms by (auto simp: get_user_by_email_for_external_auth_def dest: find_selected)

lemma by_identity_found:
  assumes "get_user_by_linuxfoundation_identity_for_external_auth issuer subject st = Some user"
  obtains u where "u \<in> set (as_users st)" and "user = external_user st u"
    and "row_identity u = Some (issuer, subject)" and "ur_registration_status u = Registered"
    and "ur_email_verified u" and "issuer \<noteq> []" and "subject \<noteq> []"
  using assms by (auto simp: get_user_by_linuxfoundation_identity_for_external_auth_def
      dest: find_selected split: if_splits)

lemma update_external_enters:
  assumes "users_inv st" and "linuxfoundation_identity summary = Some (issuer, subject)"
    and "get_user_by_linuxfoundation_identity_for_external_auth issuer subject st = Some user"
    and "update_user_external_auth (us_user_id user) summary st = Inr (v, st')"
  shows "users_inv st' \<and> account_entered st summary (us_user_id v) st'"
proof -
  obtain old where old: "old \<in> set (as_users st)" "user = external_user st old"
    "row_identity old = Some (issuer, subject)" "ur_registration_status old = Registered" "ur_email_verified old"
    using assms(3) by (rule by_identity_found)
  obtain trimmed where t: "nullif_blank (sm_email summary) = Some trimmed"
    using assms(4) by (cases "nullif_blank (sm_email summary)") (auto simp: update_user_external_auth_def)
  obtain row where row: "find (\<lambda>u. ur_user_id u = ur_user_id old \<and> ur_registration_status u = Registered)
        (as_users st) = Some row"
    using assms(4) old(2) t
    by (cases "find (\<lambda>u. ur_user_id u = ur_user_id old \<and> ur_registration_status u = Registered) (as_users st)")
      (auto simp: update_user_external_auth_def Let_def split: if_splits)
  let ?u = "row\<lparr>ur_email := to_ascii_lowercase trimmed, ur_email_verified := True,
        ur_name := (case nullif_blank (sm_name summary) of Some n \<Rightarrow> Some n | None \<Rightarrow> ur_name row),
        ur_provider := merged_provider (ur_provider row) (sm_provider summary)\<rparr>"
  have w: "write_user ?u st = Inr ((), st')" and v: "us_user_id v = ur_user_id row"
    using assms(4) old(2) t row
    by (auto simp: update_user_external_auth_def Let_def and_then_eq_Inr split: if_splits)
  from find_selected [OF row] have r: "row \<in> set (as_users st)" "ur_user_id row = ur_user_id old"
    "ur_registration_status row = Registered" by auto
  have i: "row_identity ?u = Some (issuer, subject)"
    using merged_row_identity [OF assms(2), where u = row and old = "ur_provider row"] by (simp add: row_identity_def)
  have "owned_by summary old" using old assms(2) by (simp add: owned_by_def)
  moreover have "\<not> links_nothing summary" using assms(2) links_nothing_identity [of summary] by auto
  ultimately show ?thesis
    using written_enters [OF assms(1) w refl old(1), of summary] r i assms(2) v by simp
qed

lemma activate_enters:
  assumes "users_inv st" and "get_user_by_email_for_external_auth (sm_email summary) st = Some user"
    and "us_registration_status user = ''pre-registered''"
    and "activate_pre_registered_user_external_provider d (us_user_id user) summary st = Inr (v, st')"
  shows "users_inv st' \<and> account_entered st summary (us_user_id v) st'"
proof -
  obtain old where old: "old \<in> set (as_users st)" "user = external_user st old"
    "to_ascii_lowercase (ur_email old) = to_ascii_lowercase (sm_email summary)"
    using assms(2) by (rule by_email_found)
  obtain row h name where row: "find (\<lambda>u. ur_user_id u = ur_user_id old \<and> ur_registration_status u = PreRegistered)
        (as_users st) = Some row"
    and w: "write_user (row\<lparr>ur_auth_hash := h, ur_email_verified := True, ur_name := Some (sm_name summary),
        ur_provider := sm_provider summary, ur_registration_status := Registered, ur_username := name\<rparr>)
        (auth_draw st) = Inr ((), st')"
    and v: "us_user_id v = ur_user_id row"
    using assms(4) old(2)
    by (auto simp: activate_pre_registered_user_external_provider_def Let_def and_then_eq_Inr
        split: option.splits)
  let ?u = "row\<lparr>ur_auth_hash := h, ur_email_verified := True, ur_name := Some (sm_name summary),
        ur_provider := sm_provider summary, ur_registration_status := Registered, ur_username := name\<rparr>"
  from find_selected [OF row] have r: "row \<in> set (as_users st)" "ur_user_id row = ur_user_id old"
    "ur_registration_status row = PreRegistered" by auto
  have same: "row = old" by (metis assms(1) find_user_row old(1) option.inject r(1,2))
  have i: "linuxfoundation_identity summary = None \<or> row_identity ?u = linuxfoundation_identity summary"
    by (simp add: row_identity_def linuxfoundation_identity_def)
  have "owned_by summary old" using old(3) r(3) same by (simp add: owned_by_def)
  with written_enters [OF assms(1) w _ old(1), of summary] r i v same show ?thesis by simp
qed

lemma known_owner:
  assumes "get_user_by_email_for_external_auth (sm_email summary) st = Some user"
    and "us_registration_status user \<noteq> ''pre-registered''" and "\<not> identity_conflict summary user"
  obtains u where "u \<in> set (as_users st)" and "user = external_user st u" and "owned_by summary u"
    and "ur_registration_status u = Registered" and "ur_email_verified u"
proof -
  obtain u where u: "u \<in> set (as_users st)" "user = external_user st u"
    "to_ascii_lowercase (ur_email u) = to_ascii_lowercase (sm_email summary)"
    "ur_registration_status u = Registered" "ur_email_verified u"
    using assms(1) by (rule by_email_found) (use assms(2) in auto)
  have "linuxfoundation_identity summary = None \<or> row_identity u = None \<or>
        row_identity u = linuxfoundation_identity summary"
  proof (cases "linuxfoundation_identity summary")
    case (Some a)
    then show ?thesis using assms(3) u(2)
      by (cases "row_identity u")
        (auto simp: identity_conflict_def row_identity_def split: option.splits prod.splits bind_splits)
  qed simp
  with u have "owned_by summary u" by (auto simp: owned_by_def)
  with u that show thesis by blast
qed

lemma row_identity_bind: "row_identity u = Option.bind (ur_provider u) linuxfoundation_provider_identity"
  by (simp add: row_identity_def split: option.split)

lemma known_enters:
  assumes "users_inv st" and "get_user_by_email_for_external_auth (sm_email summary) st = Some user"
    and "us_registration_status user \<noteq> ''pre-registered''" and "\<not> identity_conflict summary user"
    and "sm_provider summary = None \<or> us_provider user =
         Some (merge_provider (coalesce (us_provider user) default_provider) (the (sm_provider summary)))"
  shows "account_entered st summary (us_user_id user) st"
proof -
  obtain u where u: "u \<in> set (as_users st)" "user = external_user st u" "owned_by summary u"
    "ur_registration_status u = Registered" "ur_email_verified u"
    using assms(2-4) by (rule known_owner)
  have "row_identity u = Some i" if i: "linuxfoundation_identity summary = Some i" for i
  proof -
    from summary_identity [OF i] obtain p where p: "sm_provider summary = Some p"
      "linuxfoundation_provider_identity p = Some i" "up_linuxfoundation p \<noteq> None" by blast
    with assms(5) u(2) obtain q where "ur_provider u = Some (merge_provider q p)" by auto
    with p show ?thesis by (auto simp: row_identity_def merged_identity)
  qed
  with u find_user_row [OF assms(1) u(1)] show ?thesis
    by (cases "linuxfoundation_identity summary") (auto simp: account_entered_def)
qed

lemma linked_enters:
  assumes "users_inv st" and "get_user_by_email_for_external_auth (sm_email summary) st = Some user"
    and "us_registration_status user \<noteq> ''pre-registered''" and "\<not> identity_conflict summary user"
    and "sm_provider summary = Some provider"
    and "update_user_provider (us_user_id user) provider st = Inr (x, st')"
  shows "users_inv st' \<and> account_entered st summary (us_user_id user) st'"
proof -
  obtain u where u: "u \<in> set (as_users st)" "user = external_user st u" "owned_by summary u"
    "ur_registration_status u = Registered" "ur_email_verified u"
    using assms(2-4) by (rule known_owner)
  let ?u = "u\<lparr>ur_provider := merged_provider (ur_provider u) (Some provider)\<rparr>"
  have w: "write_user ?u st = Inr (x, st')"
    using assms(6) u(2) find_user_row [OF assms(1) u(1)] by (simp add: update_user_provider_def)
  have i: "linuxfoundation_identity summary = None \<or> row_identity ?u = linuxfoundation_identity summary"
    using merged_row_identity [where summary = summary and u = u and old = "ur_provider u"] assms(5)
    by (cases "linuxfoundation_identity summary") auto
  have "row_identity ?u = row_identity u" if "links_nothing summary"
    using that assms(5)
    by (cases "ur_provider u") (auto simp: links_nothing_def row_identity_def merged_provider_def merged_identity
        linuxfoundation_provider_identity_def coalesce_def default_provider_def)
  with written_enters [OF assms(1) w refl u(1), of summary] u i show ?thesis by simp
qed

lemma sign_up_enters:
  assumes "users_inv st" and "sign_up_user d summary True None st = Inr ((v, code), st')"
  shows "users_inv st' \<and> account_entered st summary (us_user_id v) st'"
proof -
  obtain name where i: "insert_user (new_user_row d summary True name st) (auth_draw st) = Inr ((), st')"
    and v: "us_user_id v = ur_user_id (new_user_row d summary True name st)"
    using assms(2) by (auto simp: sign_up_user_def Let_def and_then_eq_Inr)
  let ?u = "new_user_row d summary True name st"
  have inv: "users_inv (auth_draw st)" using assms(1) by (simp add: users_inv_def)
  note ins = insert_user [OF i inv]
  have same: "find_user j (auth_draw st) = find_user j st" for j by (rule find_user_cong) simp
  have fields: "to_ascii_lowercase (ur_email ?u) = to_ascii_lowercase (sm_email summary)"
    "ur_registration_status ?u = Registered" "ur_email_verified ?u"
    "row_identity ?u = linuxfoundation_identity summary"
    by (simp_all add: new_user_row_def row_identity_def linuxfoundation_identity_def)
  have "\<forall>w\<in>set (as_users st). to_ascii_lowercase (ur_email w) \<noteq> to_ascii_lowercase (sm_email summary)"
    using ins(4) fields(1) by (auto simp: users_clash_def)
  with ins(1-3) fields v show ?thesis by (simp add: account_entered_def same)
qed

text \<open>The Postgres accounts, beside a world of their own.\<close>

abbreviation pg_ok :: "auth_store \<times> 'p \<Rightarrow> bool" where
  "pg_ok s \<equiv> users_inv (fst s)"

abbreviation pg_entered :: "auth_store \<times> 'p \<Rightarrow> UserSummary \<Rightarrow> uuid \<Rightarrow> auth_store \<times> 'p \<Rightarrow> bool" where
  "pg_entered s summary i s' \<equiv> account_entered (fst s) summary i (fst s') \<and> snd s' = snd s"

lemma run_tx_result:
  "run_tx op s = (Inr x, s') \<longleftrightarrow> (\<exists>st'. op (fst s) = Inr (x, st') \<and> s' = (st', snd s))"
  by (cases s) (auto simp: run_tx_def split: sum.splits)

lemma run_query_result: "run_tx (query_tx q) s = (Inr (q (fst s)), s)"
  by (cases s) (simp add: run_tx_def query_tx_def)

interpretation pga: external_accounts "pg_auth d" pg_ok pg_entered
proof (unfold_locales, goal_cases)
  case 1 then show ?case by (auto simp: pg_auth_def run_query_result)
next
  case 2 then show ?case by (auto simp: pg_auth_def run_query_result)
next
  case 3 then show ?case using update_external_enters
    by (fastforce simp: pg_auth_def run_query_result run_tx_result)
next
  case 4 then show ?case using activate_enters
    by (fastforce simp: pg_auth_def run_query_result run_tx_result)
next
  case 5 then show ?case using known_enters
    by (simp add: pg_auth_def run_query_result)
next
  case 6 then show ?case using linked_enters
    by (fastforce simp: pg_auth_def run_query_result run_tx_result)
next
  case 7 then show ?case using sign_up_enters
    by (fastforce simp: pg_auth_def run_query_result run_tx_result)
qed

section \<open>The life of an account\<close>

text \<open>
  What happens to the accounts: placeholders of invited people, sign-ups with a password, external
  logins with the summary of a provider, verifications and changes of the user. The other
  tables may change at any time.
\<close>

definition external_summary :: "UserSummary \<Rightarrow> bool" where
  "external_summary summary \<longleftrightarrow>
     (\<exists>prof emails. from_github_profile prof emails = Inr summary) \<or>
     (\<exists>claims. from_oidc_id_token_claims claims = Inr summary)"

inductive account_step :: "auth_dice \<Rightarrow> auth_store \<Rightarrow> auth_store \<Rightarrow> bool" for d where
  invited: "account_step d st st'" if "insert_user u st = Inr (x, st')" "ur_registration_status u = PreRegistered"
| signed_up: "account_step d st st'" if "sign_up_user d summary False v st = Inr (y, st')"
| activated: "account_step d st st'"
    if "activate_pre_registered_user_email_password d summary w st = Inr (z, st')"
| external: "account_step d st st'"
    if "external_summary summary" "get_or_sign_up_external_user (pg_auth d) summary (st, ()) = (Inr user, (st', ()))"
| verified: "account_step d st st'" if "verify_email code st = Inr (x, st')"
| password: "account_step d st st'" if "update_user_password d i pw st = Inr (x, st')"
| details: "account_step d st st'" if "update_user_details i details st = Inr (x, st')"
| elsewhere: "account_step d st st'" if "as_users st' = as_users st"

abbreviation account_steps :: "auth_dice \<Rightarrow> auth_store \<Rightarrow> auth_store \<Rightarrow> bool" where
  "account_steps d \<equiv> (account_step d)\<^sup>*\<^sup>*"

text \<open>The account is registered and linked to the identity.\<close>

definition linked :: "auth_store \<Rightarrow> uuid \<Rightarrow> string \<times> string \<Rightarrow> bool" where
  "linked st i k \<longleftrightarrow>
     (\<exists>u. find_user i st = Some u \<and> ur_registration_status u = Registered \<and> row_identity u = Some k)"

lemma linked_cong: "as_users st' = as_users st \<Longrightarrow> linked st' i k = linked st i k"
  by (simp add: linked_def find_user_def)

lemma inserted_linked:
  assumes "insert_user u st = Inr (x, st')" and "users_inv st" and "linked st i k"
  shows "linked st' i k"
  using insert_user [OF assms(1,2)] assms(3) by (auto simp: linked_def)

lemma written_linked:
  assumes "write_user u st = Inr (x, st')" and "users_inv st" and "linked st i k"
    and "\<And>v. find_user (ur_user_id u) st = Some v \<Longrightarrow> ur_registration_status v = Registered \<Longrightarrow>
           ur_registration_status u = Registered \<and> ur_provider u = ur_provider v"
  shows "linked st' i k"
proof -
  from assms(3) obtain v where v: "find_user i st = Some v" "ur_registration_status v = Registered"
    "row_identity v = Some k" by (auto simp: linked_def)
  show ?thesis
  proof (cases "i = ur_user_id u")
    case True
    with assms(4) v have "ur_registration_status u = Registered" "row_identity u = Some k"
      by (auto simp: row_identity_def)
    with write_user(2) [OF assms(1,2)] v True show ?thesis by (auto simp: linked_def)
  next
    case False
    with write_user(2) [OF assms(1,2)] v show ?thesis by (auto simp: linked_def)
  qed
qed

lemma github_links_nothing: "from_github_profile prof emails = Inr summary \<Longrightarrow> links_nothing summary"
  by (auto simp: from_github_profile_def and_then_eq_Inr links_nothing_def from_github_username_def)

lemma oidc_identity:
  "from_oidc_id_token_claims claims = Inr summary \<Longrightarrow>
     linuxfoundation_identity summary = Some (ic_issuer claims, ic_subject claims)"
  by (auto simp: from_oidc_id_token_claims_def and_then_eq_Inr linuxfoundation_identity_def
      from_linuxfoundation_identity_def linuxfoundation_provider_identity_def split: if_splits)

lemma entered_linked:
  assumes "account_entered st summary j st'" and "linked st i k" and "external_summary summary"
  shows "linked st' i k"
proof -
  from assms(2) obtain v where v: "find_user i st = Some v" "ur_registration_status v = Registered"
    "row_identity v = Some k" by (auto simp: linked_def)
  show ?thesis
  proof (cases "i = j")
    case False
    with assms(1) v show ?thesis by (auto simp: account_entered_def linked_def)
  next
    case True
    with assms(1) v obtain u where u: "find_user i st' = Some u" "ur_registration_status u = Registered"
      "linuxfoundation_identity summary = None \<or> row_identity u = linuxfoundation_identity summary"
      "links_nothing summary \<longrightarrow> row_identity u = row_identity v" "owned_by summary v"
      by (auto simp: account_entered_def)
    have "row_identity u = Some k"
    proof (cases "links_nothing summary")
      case False
      with assms(3) github_links_nothing oidc_identity
      have "linuxfoundation_identity summary \<noteq> None" by (auto simp: external_summary_def)
      with u(3,5) v show ?thesis by (auto simp: owned_by_def)
    qed (use u v in auto)
    with u show ?thesis by (auto simp: linked_def)
  qed
qed

lemma upsert_code_users: "upsert_code c st = Inr (x, st') \<Longrightarrow> as_users st' = as_users st"
  by (auto simp: upsert_code_def split: if_splits)

lemma insert_code_users: "insert_code c st = Inr (x, st') \<Longrightarrow> as_users st' = as_users st"
  by (auto simp: insert_code_def split: if_splits)

lemma signed_up_step:
  assumes "sign_up_user d summary False v st = Inr (y, st')" and "users_inv st"
  shows "users_inv st'" and "linked st i k \<Longrightarrow> linked st' i k"
proof -
  obtain name where name: "resolve_unique_username (sm_username summary) None st = Inr name"
    and v: "v \<noteq> None"
    using assms(1) by (auto simp: sign_up_user_def and_then_eq_Inr split: if_splits)
  let ?u = "new_user_row d summary False name st"
  obtain st1 c st2 where u: "insert_user ?u (auth_draw st) = Inr ((), st1)"
    and c: "insert_code c st1 = Inr ((), st2)" and st': "as_users st' = as_users st2"
    using assms(1) name v by (auto simp: sign_up_user_def Let_def and_then_eq_Inr)
  from st' insert_code_users [OF c] have same: "as_users st' = as_users st1" by simp
  have inv: "users_inv (auth_draw st)" using assms(2) by (simp add: users_inv_def)
  show "users_inv st'" using insert_user(1) [OF u inv] by (simp add: users_inv_cong [OF same])
  assume "linked st i k"
  then have "linked (auth_draw st) i k" by (simp add: linked_cong [OF auth_draw_users])
  from inserted_linked [OF u inv this] show "linked st' i k" by (simp add: linked_cong [OF same])
qed

lemma activated_step:
  assumes "activate_pre_registered_user_email_password d summary v st = Inr (y, st')" and "users_inv st"
  shows "users_inv st'" and "linked st i k \<Longrightarrow> linked st' i k"
proof -
  let ?placeholder = "find (\<lambda>u. to_ascii_lowercase (ur_email u) = to_ascii_lowercase (sm_email summary) \<and>
      ur_registration_status u = PreRegistered) (as_users st)"
  have inv: "users_inv (auth_draw st)" using assms(2) by (simp add: users_inv_def)
  have "users_inv st' \<and> (linked st i k \<longrightarrow> linked st' i k)"
  proof (cases ?placeholder)
    case None
    with assms show ?thesis by (simp add: activate_pre_registered_user_email_password_def)
  next
    case (Some old)
    note old = find_selected [OF Some]
    obtain name st1 st2 where
      w: "write_user (old\<lparr>ur_auth_hash := ad_auth_hash d (as_draws st), ur_email_verified := False,
          ur_name := Some (sm_name summary), ur_password := sm_password summary,
          ur_provider := sm_provider summary, ur_registration_status := Registered,
          ur_username := name\<rparr>) (auth_draw st) = Inr ((), st1)"
      and c: "upsert_code \<lparr>cd_code = en_code v, cd_created_at = as_now st, cd_user_id = ur_user_id old\<rparr> st1 =
          Inr ((), st2)" and st': "as_users st' = as_users st2"
      using assms(1) Some
      by (auto simp: activate_pre_registered_user_email_password_def Let_def and_then_eq_Inr)
    from st' upsert_code_users [OF c] have same: "as_users st' = as_users st1" by simp
    have "find_user (ur_user_id old) (auth_draw st) = Some old"
      using find_user_row [OF assms(2) old(1)] by (simp add: find_user_cong [OF auth_draw_users])
    with old(2) have "linked (auth_draw st) i k \<Longrightarrow> linked st1 i k" by (intro written_linked [OF w inv]) auto
    with write_user(1) [OF w inv] show ?thesis
      by (simp add: linked_cong [OF auth_draw_users] linked_cong [OF same] users_inv_cong [OF same])
  qed
  then show "users_inv st'" and "linked st i k \<Longrightarrow> linked st' i k" by blast+
qed

lemma verified_step:
  assumes "verify_email code st = Inr (x, st')" and "users_inv st"
  shows "users_inv st'" and "linked st i k \<Longrightarrow> linked st' i k"
proof -
  define j where "j = cd_user_id (the (find (\<lambda>k. cd_code k = code \<and> as_now st - one_day < cd_created_at k) (as_codes st)))"
  have st': "as_users st' = map (\<lambda>u. if ur_user_id u = j then u\<lparr>ur_email_verified := True\<rparr> else u) (as_users st)"
    using assms(1) by (auto simp: verify_email_def j_def split: option.splits)
  have ids: "map ur_user_id (as_users st') = map ur_user_id (as_users st)" by (simp add: st')
  have clash: "users_clash (u\<lparr>ur_email_verified := True\<rparr>) v = users_clash u v"
    "users_clash u (v\<lparr>ur_email_verified := True\<rparr>) = users_clash u v" for u v
    by (simp_all add: users_clash_def row_identity_def)
  have "\<forall>u\<in>set (as_users st'). \<forall>v\<in>set (as_users st'). ur_user_id u \<noteq> ur_user_id v \<longrightarrow> \<not> users_clash u v"
    using assms(2) by (auto simp: users_inv_def st' clash)
  with assms(2) ids show "users_inv st'" by (simp add: users_inv_def)
  have "find (\<lambda>u. ur_user_id u = i) (map (\<lambda>u. if ur_user_id u = j then u\<lparr>ur_email_verified := True\<rparr> else u) us) =
    map_option (\<lambda>u. if ur_user_id u = j then u\<lparr>ur_email_verified := True\<rparr> else u)
      (find (\<lambda>u. ur_user_id u = i) us)" for us :: "user_row list"
    by (induction us) auto
  then have found: "find_user i st' =
      map_option (\<lambda>u. if ur_user_id u = j then u\<lparr>ur_email_verified := True\<rparr> else u) (find_user i st)"
    by (simp add: find_user_def st')
  assume "linked st i k"
  then obtain u where "find_user i st = Some u" "ur_registration_status u = Registered" "row_identity u = Some k"
    by (auto simp: linked_def)
  with found show "linked st' i k" by (cases "ur_user_id u = j") (simp_all add: linked_def row_identity_def)
qed

lemma changed_step:
  assumes "write_user u st1 = Inr (x, st')" and "users_inv st" and "as_users st1 = as_users st"
    and "find_user (ur_user_id u) st = Some v" and "ur_provider u = ur_provider v"
    and "ur_registration_status u = ur_registration_status v"
  shows "users_inv st' \<and> (linked st i k \<longrightarrow> linked st' i k)"
proof -
  have inv: "users_inv st1" using assms(2,3) by (simp add: users_inv_def)
  have "linked st1 i k \<Longrightarrow> linked st' i k"
    using assms(4-6) find_user_cong [OF assms(3)] by (intro written_linked [OF assms(1) inv]) auto
  with write_user(1) [OF assms(1) inv] linked_cong [OF assms(3)] show ?thesis by simp
qed

lemma account_step_keeps:
  assumes "account_step d st st'" and "users_inv st"
  shows "users_inv st' \<and> (linked st i k \<longrightarrow> linked st' i k)"
  using assms
proof (cases rule: account_step.cases)
  case (invited u x)
  from insert_user(1) [OF invited(1) assms(2)] inserted_linked [OF invited(1) assms(2)] show ?thesis by blast
next
  case (external summary user)
  from pga.enters [OF _ external(2)] assms(2) have "users_inv st'" "account_entered st summary (us_user_id user) st'"
    by auto
  with entered_linked [OF _ _ external(1)] show ?thesis by blast
next
  case (password j pw x)
  show ?thesis
  proof (cases "find_user j st")
    case (Some v)
    with password obtain st1 where "write_user (v\<lparr>ur_auth_hash := ad_auth_hash d (as_draws st),
        ur_password := Some pw\<rparr>) (auth_draw st) = Inr ((), st1)" and same: "as_users st' = as_users st1"
      by (auto simp: update_user_password_def and_then_eq_Inr)
    with changed_step [OF _ assms(2) auth_draw_users, of _ "()" st1 v i k] Some find_user_in [OF Some]
    show ?thesis by (simp add: users_inv_cong [OF same] linked_cong [OF same])
  next
    case None
    with password have same: "as_users st' = as_users st" by (auto simp: update_user_password_def)
    from assms(2) show ?thesis by (simp add: users_inv_cong [OF same] linked_cong [OF same])
  qed
next
  case (details j det x)
  show ?thesis
  proof (cases "find_user j st")
    case (Some v)
    with details obtain st1 where "write_user (v\<lparr>ur_name := Some (ud_name det),
        ur_optional_notifications_enabled := ud_optional_notifications_enabled det,
        ur_profile := stored_profile (ud_profile det)\<rparr>) st = Inr ((), st1)" and same: "as_users st' = as_users st1"
      by (auto simp: update_user_details_def and_then_eq_Inr)
    with changed_step [OF _ assms(2) refl, of _ "()" st1 v i k] Some find_user_in [OF Some]
    show ?thesis by (simp add: users_inv_cong [OF same] linked_cong [OF same])
  next
    case None
    with details have same: "as_users st' = as_users st" by (auto simp: update_user_details_def)
    from assms(2) show ?thesis by (simp add: users_inv_cong [OF same] linked_cong [OF same])
  qed
next
  case elsewhere
  from assms(2) show ?thesis by (simp add: users_inv_cong [OF elsewhere] linked_cong [OF elsewhere])
next
  case (signed_up summary v y)
  from signed_up_step [OF this assms(2)] show ?thesis by blast
next
  case (activated summary w z)
  from activated_step [OF this assms(2)] show ?thesis by blast
next
  case (verified code x)
  from verified_step [OF this assms(2)] show ?thesis by blast
qed

lemma account_steps_keep:
  assumes "account_steps d st st'" and "users_inv st"
  shows "users_inv st' \<and> (linked st i k \<longrightarrow> linked st' i k)"
  using assms(1) by induction (use assms(2) account_step_keeps in blast)+

end
