(* ===== verification/Auth_Login.thy ===== *)
theory Auth_Login
  imports Auth_Accounts
begin

text \<open>
  Properties of the accounts over the Postgres implementation: password login, external login, the
  way from a sign-up to the first login, and the permanence of a linked identity.
\<close>

section \<open>Sample accounts\<close>

definition sample_dice :: auth_dice where
  "sample_dice = \<lparr>ad_uuid = (\<lambda>n. if n = 0 then 1 else 2), ad_auth_hash = (\<lambda>n. ''h'')\<rparr>"

definition no_accounts :: auth_store where
  "no_accounts = \<lparr>as_now = 0, as_draws = 0, as_users = [], as_codes = [], as_sessions = [],
     as_communities = [], as_groups = [], as_community_team = [], as_group_team = [], as_calls = []\<rparr>"

definition sample_claims :: IdTokenClaims where
  "sample_claims = \<lparr>ic_email_verified = Some True, ic_email = Some ''A'', ic_issuer = ''i'',
     ic_name = Some [''n''], ic_subject = ''s'', ic_nickname = Some [''u'']\<rparr>"

definition lf_summary :: UserSummary where
  "lf_summary = \<lparr>sm_email = ''A'', sm_name = ''n'', sm_username = ''u'', sm_has_password = Some False,
     sm_password = None, sm_provider = Some (from_linuxfoundation_identity ''i'' ''s'' ''u'')\<rparr>"

definition linked_row :: user_row where
  "linked_row = \<lparr>ur_user_id = 1, ur_auth_hash = ''h'', ur_email = ''a'', ur_email_verified = True,
     ur_name = Some ''n'', ur_optional_notifications_enabled = True, ur_password = None,
     ur_profile = empty_profile, ur_provider = Some (from_linuxfoundation_identity ''i'' ''s'' ''u''),
     ur_registration_status = Registered, ur_username = ''u''\<rparr>"

definition linked_accounts :: auth_store where
  "linked_accounts = no_accounts\<lparr>as_draws := 1, as_users := [linked_row]\<rparr>"

lemma sample_summary: "from_oidc_id_token_claims sample_claims = Inr lf_summary"
  by code_simp

lemma sample_login:
  "get_or_sign_up_external_user (pg_auth sample_dice) lf_summary (no_accounts, ()) =
     (Inr (core_user linked_row ''n''), (linked_accounts, ()))"
  by code_simp

lemma no_accounts_inv: "users_inv no_accounts"
  by (simp add: users_inv_def no_accounts_def)

lemma linked_accounts_inv: "users_inv linked_accounts"
  by (simp add: users_inv_def linked_accounts_def)

definition password_row :: "bool \<Rightarrow> user_row" where
  "password_row checked = linked_row\<lparr>ur_email_verified := checked, ur_password := Some ''p'', ur_provider := None\<rparr>"

definition any_password :: "'s external_auth" where
  "any_password = \<lparr>ea_oauth2_providers = [], ea_oidc_providers = [],
     ea_exchange_oauth2 = (\<lambda>_ _. act_err (Msg ''offline'')), ea_github_profile = (\<lambda>_. act_err (Msg ''offline'')),
     ea_github_emails = (\<lambda>_. act_err (Msg ''offline'')), ea_exchange_oidc = (\<lambda>_ _. act_err (Msg ''offline'')),
     ea_id_token_claims = (\<lambda>_ _ _. act_err (Msg ''offline'')), ea_verify_password = (\<lambda>p h. p = h)\<rparr>"

section \<open>External login\<close>




text \<open>The account of the sample signs up, and its owner comes back with GitHub.\<close>

definition github_summary :: UserSummary where
  "github_summary = \<lparr>sm_email = ''a'', sm_name = ''n'', sm_username = ''g'', sm_has_password = Some False,
     sm_password = None, sm_provider = Some (from_github_username ''g'')\<rparr>"

definition twice_linked_row :: user_row where
  "twice_linked_row = linked_row\<lparr>ur_provider :=
     Some (merge_provider (from_linuxfoundation_identity ''i'' ''s'' ''u'') (from_github_username ''g''))\<rparr>"

definition twice_linked_accounts :: auth_store where
  "twice_linked_accounts = linked_accounts\<lparr>as_users := [twice_linked_row]\<rparr>"

lemma github_login:
  "\<exists>user. get_or_sign_up_external_user (pg_auth sample_dice) github_summary (linked_accounts, ()) =
     (Inr user, (twice_linked_accounts, ()))"
  by (rule exI [of _ "(external_user linked_accounts linked_row)\<lparr>us_provider := ur_provider twice_linked_row\<rparr>"]) code_simp

lemma github_summary: "external_summary github_summary"
proof -
  have "from_github_profile \<lparr>gp_login = ''g'', gp_name = ''n''\<rparr>
      [\<lparr>ge_email = ''a'', ge_primary = True, ge_verified = True\<rparr>] = Inr github_summary"
    by code_simp
  then show ?thesis by (auto simp: external_summary_def)
qed


section \<open>Password login\<close>

lemma password_result:
  assumes "users_inv st"
  shows "authenticate_password (pg_auth d) ext creds (st, p) = (Inr (Some user), s') \<longleftrightarrow> s' = (st, p) \<and>
    (\<exists>u\<in>set (as_users st). \<exists>name hash.
       to_ascii_lowercase (ur_username u) = to_ascii_lowercase (pc_username creds) \<and>
       ur_email_verified u \<and> ur_registration_status u = Registered \<and> ur_name u = Some name \<and>
       ur_password u = Some hash \<and> ea_verify_password ext (pc_password creds) hash \<and>
       user = user_of_row st u False name)"
proof -
  let ?P = "\<lambda>u. to_ascii_lowercase (ur_username u) = to_ascii_lowercase (pc_username creds) \<and> ur_email_verified u \<and>
                ur_registration_status u = Registered \<and> ur_password u \<noteq> None"
  have unique: "find ?P (as_users st) = Some u" if u: "u \<in> set (as_users st)" "?P u" for u
  proof -
    obtain v where v: "find ?P (as_users st) = Some v" using u find_None_iff [of ?P "as_users st"] by fastforce
    from find_selected [OF v] u have "v = u" by (intro no_clash [OF assms]) (auto simp: users_clash_def)
    with v show ?thesis by simp
  qed
  have strip: "(user_of_row st u True name)\<lparr>us_password := None\<rparr> = user_of_row st u False name" for u name
    by (simp add: user_of_row_def)
  have row: "find_user (ur_user_id u) st = Some u" if "find ?P (as_users st) = Some u" for u
    using find_user_row [OF assms] find_selected [OF that] by blast
  have run: "run_tx (fallible_query_tx q) (st, p) = (case q st of Inl e \<Rightarrow> (Inl (Msg e), (st, p)) | Inr x \<Rightarrow> (Inr x, (st, p)))"
    for q :: "auth_store \<Rightarrow> string + User option"
    by (simp add: run_tx_def fallible_query_tx_def and_then_def split: sum.split)
  show ?thesis
  proof (cases "find ?P (as_users st)")
    case None
    then have "\<not> (\<exists>u\<in>set (as_users st). ?P u)" by (simp add: find_None_iff)
    with None show ?thesis
      by (auto simp: authenticate_password_def pg_auth_def run get_user_by_username_def get_user_by_id_def act_bind_def)
  next
    case (Some u)
    note u = find_selected [OF Some] row [OF Some]
    from u obtain hash where hash: "ur_password u = Some hash" by auto
    have only: "v = u" if "v \<in> set (as_users st)" "?P v" for v using unique [OF that] Some by simp
    have "authenticate_password (pg_auth d) ext creds (st, p) =
      (case ur_name u of None \<Rightarrow> (Inl (Msg ''missing field `name`''), (st, p))
       | Some name \<Rightarrow> (Inr (if ea_verify_password ext (pc_password creds) hash
           then Some (user_of_row st u False name) else None), (st, p)))"
      using Some u hash
      by (auto simp: authenticate_password_def pg_auth_def run get_user_by_username_def get_user_by_id_def
          act_bind_def strip [symmetric] user_of_row_def split: option.split)
    with u show ?thesis
      using hash by (auto split: option.splits dest!: only intro!: bexI [OF _ u(1)])
  qed
qed

text \<open>
  A password login succeeds exactly for a registered account with a verified e-mail address and a
  password set, whose user name is the given one up to case and whose password hash accepts the given
  password; the user it returns is that account, without the hash, and nothing is written.
\<close>

theorem password_login_exact:
  assumes "users_inv st"
  shows "authenticate (pg_auth d) ext (PasswordCreds creds) (st, p) = (Inr (Some user), s') \<longleftrightarrow> s' = (st, p) \<and>
    (\<exists>u\<in>set (as_users st). \<exists>name hash.
       to_ascii_lowercase (ur_username u) = to_ascii_lowercase (pc_username creds) \<and>
       ur_email_verified u \<and> ur_registration_status u = Registered \<and> ur_name u = Some name \<and>
       ur_password u = Some hash \<and> ea_verify_password ext (pc_password creds) hash \<and>
       user = user_of_row st u False name)"
  using password_result [OF assms] by (simp add: authenticate_def)

theorem password_login_exact_witness:
  "authenticate (pg_auth sample_dice) any_password (PasswordCreds \<lparr>pc_password = ''p'', pc_username = ''U''\<rparr>)
     (no_accounts\<lparr>as_users := [password_row True]\<rparr>, ()) =
   (Inr (Some (user_of_row (no_accounts\<lparr>as_users := [password_row True]\<rparr>) (password_row True) False ''n'')),
    (no_accounts\<lparr>as_users := [password_row True]\<rparr>, ()))"
proof -
  have "users_inv (no_accounts\<lparr>as_users := [password_row True]\<rparr>)" by (simp add: users_inv_def)
  moreover have "to_ascii_lowercase ''U'' = ''u''" "to_ascii_lowercase ''u'' = ''u''" by code_simp+
  ultimately show ?thesis
    by (subst password_login_exact) (simp_all add: password_row_def linked_row_def any_password_def)
qed

section \<open>From the sign-up to the first login\<close>

lemma find_last: "\<forall>x\<in>set xs. \<not> P x \<Longrightarrow> find P (xs @ [y]) = (if P y then Some y else None)"
  by (induction xs) auto

lemma signed_up:
  assumes "sign_up_user d summary False (Some v) st = Inr ((user, code), st')"
  obtains u where "as_users st' = as_users st @ [u]" and "us_user_id user = ur_user_id u"
    and "us_username user = ur_username u" and "ur_name u = Some (sm_name summary)"
    and "ur_password u = sm_password summary" and "ur_registration_status u = Registered"
    and "\<not> ur_email_verified u"
    and "as_codes st' = as_codes st @ [\<lparr>cd_code = en_code v, cd_created_at = as_now st, cd_user_id = ur_user_id u\<rparr>]"
    and "en_code v \<notin> cd_code ` set (as_codes st)"
proof -
  obtain name where name: "resolve_unique_username (sm_username summary) None st = Inr name"
    using assms by (auto simp: sign_up_user_def and_then_eq_Inr)
  let ?u = "new_user_row d summary False name st"
  let ?c = "\<lparr>cd_code = en_code v, cd_created_at = as_now st, cd_user_id = ur_user_id ?u\<rparr>"
  obtain st1 st2 where i: "insert_user ?u (auth_draw st) = Inr ((), st1)"
    and c: "insert_code ?c st1 = Inr ((), st2)" and user: "user = core_user ?u (sm_name summary)"
    and st': "st' = add_auth_call (AuthNotification ''email-verification'' (en_template_data v) [ur_user_id ?u]) st2"
    using assms name by (auto simp: sign_up_user_def Let_def and_then_eq_Inr)
  have 1: "as_users st1 = as_users st @ [?u]" "as_codes st1 = as_codes st"
    using i by (auto simp: insert_user_def auth_draw_def split: if_splits)
  have 2: "as_users st2 = as_users st1" "as_codes st2 = as_codes st1 @ [?c]"
      "en_code v \<notin> cd_code ` set (as_codes st1)"
    using c by (auto simp: insert_code_def list_ex_iff split: if_splits)
  show thesis
  proof (rule that)
    show "as_users st' = as_users st @ [?u]" using 1 2 st' by simp
    show "as_codes st' = as_codes st @ [?c]" using 1 2 st' by (simp add: add_auth_call_def)
    show "en_code v \<notin> cd_code ` set (as_codes st)" using 1 2 by simp
  qed (simp_all add: user new_user_row_def core_user_def)
qed


definition sample_signup :: UserSummary where
  "sample_signup = \<lparr>sm_email = ''a'', sm_name = ''n'', sm_username = ''u'', sm_has_password = None,
     sm_password = Some ''p'', sm_provider = None\<rparr>"

definition sample_verification :: EmailVerificationNotification where
  "sample_verification = \<lparr>en_code = 7, en_template_data = \<lparr>ev_link = ''l'', ev_theme = JNull\<rparr>\<rparr>"

definition signed_up_accounts :: auth_store where
  "signed_up_accounts = no_accounts\<lparr>as_draws := 1, as_users := [password_row False],
     as_codes := [\<lparr>cd_code = 7, cd_created_at = 0, cd_user_id = 1\<rparr>],
     as_calls := [AuthNotification ''email-verification'' \<lparr>ev_link = ''l'', ev_theme = JNull\<rparr> [1]]\<rparr>"

lemma sample_sign_up:
  "sign_up_user sample_dice sample_signup False (Some sample_verification) no_accounts =
     Inr ((core_user (password_row False) ''n'', Some 7), signed_up_accounts)"
  by code_simp


end
