(* ===== verification/Auth_Security.thy ===== *)
theory Auth_Security
  imports Auth_Handlers Auth_Login
begin

text \<open>
  Properties of the authentication handlers and the middleware: redirects stay on the site and bring the
  next URL back, a callback needs the state of its session and uses it up, the dashboards open
  only to people with the permission, and a repaired selection is one that its user can read.
\<close>

section \<open>Redirects\<close>

text \<open>A path of the site: what a browser that reads only slashes as slashes stays on the host with.\<close>

definition on_site :: "string \<Rightarrow> bool" where
  "on_site url \<longleftrightarrow> prefix ''/'' url \<and> \<not> prefix ''//'' url"

definition redirects_on_site :: "HandlerError + response \<Rightarrow> bool" where
  "redirects_on_site r \<longleftrightarrow> (case r of Inl _ \<Rightarrow> True | Inr response \<Rightarrow> \<exists>url. response = redirect_to url \<and> on_site url)"

lemma sanitized_on_site: "sanitize_next_url next = Some v \<Longrightarrow> on_site v"
  by (auto simp: sanitize_next_url_def on_site_def Let_def split: option.splits if_splits)

lemma sanitized_again: "sanitize_next_url next = Some v \<Longrightarrow> sanitize_next_url (Some v) = Some v"
  by (auto simp: sanitize_next_url_def Let_def split: option.splits if_splits)

text \<open>A path of the site in this sense may still begin with a slash and a backslash.\<close>

lemma backslash_accepted:
  "sanitize_next_url (Some (CHR ''/'' # CHR 0x5C # ''h'')) = Some (CHR ''/'' # CHR 0x5C # ''h'')"
  by code_simp

lemma LOG_IN_URL_on_site: "on_site LOG_IN_URL" "on_site (LOG_IN_URL @ rest)"
  by (simp_all add: on_site_def LOG_IN_URL_def)

lemma get_log_in_url_on_site: "on_site (get_log_in_url next)"
  by (auto simp: get_log_in_url_def with_next_url_def LOG_IN_URL_on_site split: option.split)

lemma next_or_root_on_site: "on_site (coalesce (sanitize_next_url next) ''/'')"
proof (cases "sanitize_next_url next")
  case None
  then show ?thesis by (simp add: coalesce_def on_site_def)
next
  case (Some v)
  then show ?thesis using sanitized_on_site by (simp add: coalesce_def)
qed

text \<open>What holds of every result of an action.\<close>

definition yields :: "('d, 'a) handling \<Rightarrow> (HandlerError + 'a \<Rightarrow> bool) \<Rightarrow> bool" where
  "yields m P \<longleftrightarrow> (\<forall>w. P (fst (m w)))"

lemma yields_bind:
  assumes "\<And>x. yields (f x) P" and "\<And>e. P (Inl e)"
  shows "yields (act_bind m f) P"
  using assms by (auto simp: yields_def act_bind_def split: prod.split sum.split)

lemma yields_try: "(\<And>r. yields (f r) P) \<Longrightarrow> yields (act_try m f) P"
  by (auto simp: yields_def act_try_def split: prod.split)

lemma yields_redirect: "on_site url \<Longrightarrow> yields (act_ok (redirect_to url)) redirects_on_site"
  by (auto simp: yields_def redirects_on_site_def)

lemma redirects_on_site_Inl [simp]: "redirects_on_site (Inl e)"
  by (simp add: redirects_on_site_def)

lemma callback_failed_on_site: "on_site url \<Longrightarrow> yields (callback_failed m url) redirects_on_site"
  unfolding callback_failed_def by (intro yields_bind yields_redirect) simp_all

lemma finish_callback_on_site:
  "on_site (coalesce next ''/'') \<Longrightarrow> yields (finish_callback app user provider next) redirects_on_site"
  unfolding finish_callback_def by (intro yields_bind yields_redirect) simp_all

text \<open>The next URL out of the session is a path of the site, whatever the session holds.\<close>

lemma take_next_url_yields:
  assumes "\<And>next. on_site (coalesce next ''/'') \<Longrightarrow> yields (f next) redirects_on_site"
  shows "yields (act_bind take_next_url f) redirects_on_site"
proof -
  have site: "on_site (coalesce (case v of Some (Some url) \<Rightarrow> sanitize_next_url (Some url) | _ \<Rightarrow> None) ''/'')" for v
  proof -
    have "on_site ''/''" by (simp add: on_site_def)
    then show ?thesis
      by (cases v; cases "the v") (simp_all add: next_or_root_on_site, simp_all add: coalesce_def)
  qed
  show ?thesis
    unfolding take_next_url_def act_bind_assoc by (rule yields_bind) (simp_all add: assms site)
qed


section \<open>The next URL in a link\<close>

text \<open>The value of a query parameter: plus signs are blanks, and two digits after a percent sign are a byte.\<close>

definition hex_value :: "char \<Rightarrow> nat" where
  "hex_value c = (let n = of_char c :: nat in if n < 58 then n - 48 else n - 55)"

fun query_value :: "string \<Rightarrow> string" where
  "query_value (c # h # l # cs) =
     (if c = CHR ''%'' then char_of (16 * hex_value h + hex_value l) # query_value cs
      else (if c = CHR ''+'' then CHR '' '' else c) # query_value (h # l # cs))"
| "query_value (c # cs) = (if c = CHR ''+'' then CHR '' '' else c) # query_value cs"
| "query_value [] = []"

lemma hex_value_upper: "n < 16 \<Longrightarrow> hex_value (hex_upper n) = n"
  by (auto simp: hex_value_def hex_upper_def Let_def of_char_of take_bit_nat_def)

lemma hex_upper_alphanumeric: "n < 16 \<Longrightarrow> is_ascii_alphanumeric (hex_upper n)"
  by (auto simp: is_ascii_alphanumeric_def is_ascii_alphabetic_def is_ascii_digit_def hex_upper_def Let_def
      of_char_of take_bit_nat_def)

lemma alphanumeric_plain: "is_ascii_alphanumeric c \<Longrightarrow> c \<noteq> CHR ''%'' \<and> c \<noteq> CHR ''+''"
  by (auto simp: is_ascii_alphanumeric_def is_ascii_alphabetic_def is_ascii_digit_def)

lemma query_value_plain:
  "c \<noteq> CHR ''%'' \<Longrightarrow> c \<noteq> CHR ''+'' \<Longrightarrow> query_value (c # cs) = c # query_value cs"
  by (cases "(c # cs)" rule: query_value.cases) auto

lemma of_char_lt: "(of_char c :: nat) < 256"
  by (rule nat_of_char_less_256)

lemma query_value_encoded: "query_value (percent_encode_byte c @ cs) = c # query_value cs"
proof (cases "is_ascii_alphanumeric c")
  case True
  with alphanumeric_plain query_value_plain show ?thesis by (simp add: percent_encode_byte_def)
next
  case False
  have n: "(of_char c :: nat) div 16 < 16" "(of_char c :: nat) mod 16 < 16"
    using of_char_lt [of c] by (auto simp: less_mult_imp_div_less)
  have "char_of (16 * ((of_char c :: nat) div 16) + (of_char c :: nat) mod 16) = c"
    by (metis char_of_char mult_div_mod_eq)
  with False n show ?thesis by (simp add: percent_encode_byte_def Let_def hex_value_upper)
qed

lemma query_value_encode: "query_value (encode_next_url v) = v"
  by (induction v) (simp_all add: encode_next_url_def query_value_encoded)

lemma encoded_safe: "list_all (\<lambda>c. is_ascii_alphanumeric c \<or> c = CHR ''%'') (encode_next_url v)"
proof (induction v)
  case (Cons c v)
  have "(of_char c :: nat) div 16 < 16" "(of_char c :: nat) mod 16 < 16"
    using of_char_lt [of c] by (auto simp: less_mult_imp_div_less)
  with Cons show ?case
    by (simp add: encode_next_url_def percent_encode_byte_def Let_def hex_upper_alphanumeric)
qed (simp add: encode_next_url_def)

text \<open>
  C17: The log-in link carries an accepted next URL as a query value of alphanumeric characters and percent signs
  only, which reads back as that URL and is accepted again as it is.
\<close>

theorem next_url_round_trip:
  assumes "sanitize_next_url next = Some v"
  shows "\<exists>q. get_log_in_url next = LOG_IN_URL @ ''?next_url='' @ q \<and>
    list_all (\<lambda>c. is_ascii_alphanumeric c \<or> c = CHR ''%'') q \<and>
    query_value q = v \<and> sanitize_next_url (Some (query_value q)) = Some v"
  using assms sanitized_again [OF assms]
  by (auto simp: get_log_in_url_def with_next_url_def query_value_encode encoded_safe)

theorem next_url_round_trip_witness:
  "\<exists>q. get_log_in_url (Some '' /a?b=c'') = LOG_IN_URL @ ''?next_url='' @ q \<and> query_value q = ''/a?b=c''"
proof -
  have "sanitize_next_url (Some '' /a?b=c'') = Some ''/a?b=c''" by code_simp
  from next_url_round_trip [OF this] show ?thesis by blast
qed

section \<open>Callbacks\<close>

text \<open>The session has no authorization state.\<close>

definition no_state :: "'d web \<Rightarrow> bool" where
  "no_state w \<longleftrightarrow> (case wb_session w of Some m \<Rightarrow> m OAUTH2_CSRF_STATE_KEY = None | None \<Rightarrow> True)"

lemmas session_defs = session_insert_def session_get_id_def session_remove_def on_session_def

lemma keys_distinct [simp]:
  "NEXT_URL_KEY \<noteq> OAUTH2_CSRF_STATE_KEY" "OIDC_NONCE_KEY \<noteq> OAUTH2_CSRF_STATE_KEY"
  "SELECTED_COMMUNITY_ID_KEY \<noteq> OAUTH2_CSRF_STATE_KEY" "SELECTED_GROUP_ID_KEY \<noteq> OAUTH2_CSRF_STATE_KEY"
  "AUTH_PROVIDER_KEY \<noteq> OAUTH2_CSRF_STATE_KEY" "SELECTED_GROUP_ID_KEY \<noteq> SELECTED_COMMUNITY_ID_KEY"
  "SELECTED_COMMUNITY_ID_KEY \<noteq> SELECTED_GROUP_ID_KEY"
  by (simp_all add: NEXT_URL_KEY_def OAUTH2_CSRF_STATE_KEY_def OIDC_NONCE_KEY_def SELECTED_COMMUNITY_ID_KEY_def
      SELECTED_GROUP_ID_KEY_def AUTH_PROVIDER_KEY_def)

lemma insert_keeps: "k \<noteq> OAUTH2_CSRF_STATE_KEY \<Longrightarrow> keeps no_state (session_insert k v)"
  by (auto simp: keeps_def no_state_def session_defs split: option.split)

lemma remove_keeps: "keeps no_state (session_remove kind k)"
  by (auto simp: keeps_def no_state_def session_defs split: option.split)

lemma in_db_keeps: "keeps no_state (in_db m)"
  by (auto simp: keeps_def no_state_def in_db_def split: prod.split)

lemma flash_keeps: "keeps no_state (flash f)"
  by (auto simp: keeps_def no_state_def flash_def)

lemmas state_keeps = insert_keeps remove_keeps in_db_keeps flash_keeps

lemma select_first_keeps: "keeps no_state (select_first_community_and_group app i)"
  unfolding select_first_community_and_group_def db_call_def
  by (auto intro!: keeps_bind keeps_map_err state_keeps split: list.split)

lemma callback_failed_keeps: "keeps no_state (callback_failed m url)"
  unfolding callback_failed_def by (auto intro!: keeps_bind state_keeps)

lemma take_next_url_keeps: "keeps no_state take_next_url"
  unfolding take_next_url_def by (auto intro!: keeps_bind state_keeps)

lemma finish_callback_keeps:
  "(\<And>u. keeps no_state (ap_login app u)) \<Longrightarrow> keeps no_state (finish_callback app user provider next)"
  unfolding finish_callback_def track_auth_provider_def
  by (auto intro!: keeps_bind keeps_map_err state_keeps select_first_keeps)

lemmas callback_keeps = callback_failed_keeps take_next_url_keeps finish_callback_keeps state_keeps

lemma remove_state: "no_state (snd (session_remove as_text OAUTH2_CSRF_STATE_KEY w))"
  by (auto simp: no_state_def session_defs split: option.split)

lemma after_state:
  assumes "\<And>x. keeps no_state (f x)"
  shows "no_state (snd (act_bind (session_remove as_text OAUTH2_CSRF_STATE_KEY) f w))"
proof -
  obtain r w1 where r: "session_remove as_text OAUTH2_CSRF_STATE_KEY w = (r, w1)" by fastforce
  with remove_state [of w] have "no_state w1" by simp
  with r assms show ?thesis by (auto simp: act_bind_def keeps_def split: sum.split)
qed

lemma oauth2_callback_uses_state:
  assumes "\<And>u. keeps no_state (ap_login app u)"
  shows "no_state (snd (oauth2_callback_with_auth app provider code state w))"
  unfolding oauth2_callback_with_auth_def Let_def
  by (rule after_state)
    (auto intro!: keeps_bind keeps_try callback_keeps assms split: sum.split option.split)

lemma oidc_callback_uses_state:
  assumes "\<And>u. keeps no_state (ap_login app u)"
  shows "no_state (snd (oidc_callback_with_auth app provider code state w))"
  unfolding oidc_callback_with_auth_def Let_def
  by (rule after_state)
    (auto intro!: keeps_bind keeps_try callback_keeps assms split: sum.split option.split)

text \<open>A callback that the session did not ask for, and what becomes of it.\<close>

definition callback_refused :: "string \<Rightarrow> 'd web \<Rightarrow> (HandlerError + response) \<times> 'd web \<Rightarrow> bool" where
  "callback_refused message w result \<longleftrightarrow>
     (case wb_session w of
        None \<Rightarrow> result = (Inl session_error, w)
      | Some m \<Rightarrow> result = (Inr (redirect_to LOG_IN_URL),
          w\<lparr>wb_session := Some (m(OAUTH2_CSRF_STATE_KEY := None)),
            wb_messages := wb_messages w @ [FlashError message]\<rparr>))"

definition other_state :: "string \<Rightarrow> 'd web \<Rightarrow> bool" where
  "other_state state w \<longleftrightarrow>
     (case wb_session w of
        None \<Rightarrow> True
      | Some m \<Rightarrow> m OAUTH2_CSRF_STATE_KEY = None \<or>
          (\<exists>s. m OAUTH2_CSRF_STATE_KEY = Some (SvText s) \<and> s \<noteq> state))"

lemma oauth2_other_state:
  "other_state state w \<Longrightarrow>
     callback_refused OAUTH2_AUTHORIZATION_FAILED w (oauth2_callback_with_auth app provider code state w)"
  by (auto simp: other_state_def callback_refused_def oauth2_callback_with_auth_def session_defs act_bind_def
      as_text_def callback_failed_def flash_def split: option.splits)

lemma oidc_other_state:
  "other_state state w \<Longrightarrow>
     callback_refused OIDC_AUTHORIZATION_FAILED w (oidc_callback_with_auth app provider code state w)"
  by (auto simp: other_state_def callback_refused_def oidc_callback_with_auth_def session_defs act_bind_def
      as_text_def callback_failed_def flash_def split: option.splits)

lemma no_state_other: "no_state w \<Longrightarrow> other_state state w"
  by (auto simp: no_state_def other_state_def split: option.split)

text \<open>
  C14: A callback whose state is not the one of the session is refused: it redirects to the log-in page with a
  message, exchanges no code, logs nobody in and leaves the database alone. And a state is good for one
  callback only: after a callback, whatever came of it, the next one is refused, if logging in leaves no
  state in the session.
\<close>

theorem callback_needs_fresh_state:
  assumes "\<And>u. keeps no_state (ap_login app u)"
  shows "(other_state state w \<longrightarrow>
     callback_refused OAUTH2_AUTHORIZATION_FAILED w (oauth2_callback_with_auth app provider code state w) \<and>
     callback_refused OIDC_AUTHORIZATION_FAILED w (oidc_callback_with_auth app oidc code state w)) \<and>
   (w' \<in> {snd (oauth2_callback_with_auth app provider code state w),
          snd (oidc_callback_with_auth app oidc code state w)} \<longrightarrow>
     callback_refused OAUTH2_AUTHORIZATION_FAILED w' (oauth2_callback_with_auth app provider2 code2 state2 w') \<and>
     callback_refused OIDC_AUTHORIZATION_FAILED w' (oidc_callback_with_auth app oidc2 code2 state2 w'))"
  using oauth2_callback_uses_state [OF assms, of provider code state w]
    oidc_callback_uses_state [OF assms, of oidc code state w]
    oauth2_other_state oidc_other_state no_state_other
  by blast

text \<open>An application over the Postgres accounts, whose session layer stores the user.\<close>

definition sample_web :: "auth_store \<Rightarrow> (string \<Rightarrow> session_value option) \<Rightarrow> User option \<Rightarrow> (auth_store \<times> unit) web" where
  "sample_web st m user = \<lparr>wb_db = (st, ()), wb_session = Some m, wb_user = user, wb_messages = []\<rparr>"

definition sample_auth_app :: "(auth_store \<times> unit) auth_app" where
  "sample_auth_app = \<lparr>ap_db = pg_auth sample_dice, ap_external = any_password,
     ap_list_user_groups = (\<lambda>i. run_tx (query_tx (list_user_groups i))),
     ap_list_user_communities = (\<lambda>i. run_tx (query_tx (list_user_communities i))),
     ap_get_site_theme = act_ok JNull, ap_errors = \<lparr>ec_extract_db_error_message = (\<lambda>_. None), ec_downcast = (\<lambda>_. None)\<rparr>,
     ap_base_url = ''https://h'', ap_login = (\<lambda>u w. (Inr (), w\<lparr>wb_user := Some u\<rparr>)),
     ap_logout = (\<lambda>w. (Inr (), w\<lparr>wb_user := None, wb_session := Some (\<lambda>_. None)\<rparr>)), ap_new_uuid = (\<lambda>_. 7),
     ap_generate_hash = (\<lambda>p. p), ap_is_email = (\<lambda>_. True), ap_login_report = (\<lambda>_. ''invalid''),
     ap_summary_report = (\<lambda>_. ''invalid''), ap_password_report = (\<lambda>_. ''invalid''),
     ap_authorize_oauth2 = (\<lambda>_ _. (''https://p'', ''s'')), ap_authorize_oidc = (\<lambda>_ _. (''https://p'', ''s'', ''n''))\<rparr>"

theorem callback_needs_fresh_state_witness:
  "callback_refused OIDC_AUTHORIZATION_FAILED
     (sample_web no_accounts [OAUTH2_CSRF_STATE_KEY \<mapsto> SvText ''s''] None)
     (oidc_callback_with_auth sample_auth_app LinuxFoundation ''c'' ''t''
       (sample_web no_accounts [OAUTH2_CSRF_STATE_KEY \<mapsto> SvText ''s''] None))"
proof -
  have "keeps no_state (ap_login sample_auth_app u)" for u
    by (auto simp: keeps_def no_state_def sample_auth_app_def)
  moreover have "other_state ''t'' (sample_web no_accounts [OAUTH2_CSRF_STATE_KEY \<mapsto> SvText ''s''] None)"
    by (simp add: other_state_def sample_web_def)
  ultimately show ?thesis using callback_needs_fresh_state by blast
qed

section \<open>The dashboards\<close>

text \<open>The middleware reads the permission from the Postgres tables, last of all.\<close>

lemma pg_group_permission:
  assumes "ap_db app = pg_auth d"
  shows "group_permission app c g i p w = (Inr (user_has_group_permission c g i p (fst (wb_db w))), w)"
  by (cases "wb_db w") (simp add: assms group_permission_def or_internal_error_def act_map_err_def in_db_def pg_auth_def
      run_query_result)

lemma pg_community_permission:
  assumes "ap_db app = pg_auth d"
  shows "community_permission app c i p w = (Inr (user_has_community_permission c i p (fst (wb_db w))), w)"
  by (cases "wb_db w") (simp add: assms community_permission_def or_internal_error_def act_map_err_def in_db_def
      pg_auth_def run_query_result)

lemma require_user: "require_user w = (case wb_user w of Some u \<Rightarrow> (Inr u, w) | None \<Rightarrow> (Inl (status_response 403), w))"
  by (auto simp: require_user_def or_respond_def current_user_def act_map_err_def act_bind_def split: option.split)

lemma stale_never_passes: "stale_context app headers w \<noteq> (Inr x, w')"
  by (auto simp: stale_context_def act_bind_def split: prod.split sum.split)

lemma session_get_id: "session_get_id k w =
    (case wb_session w of None \<Rightarrow> (Inl session_error, w) | Some m \<Rightarrow> (as_id (m k), w))"
  by (cases w) (simp add: session_get_id_def on_session_def split: option.split)

lemma selected_community: "get_selected_community_id_optional w =
    (case wb_session w of
       None \<Rightarrow> (Inl (status_response 500), w)
     | Some m \<Rightarrow> (case as_id (m SELECTED_COMMUNITY_ID_KEY) of
         Inl _ \<Rightarrow> (Inl (status_response 500), w) | Inr found \<Rightarrow> (Inr found, w)))"
  by (simp add: get_selected_community_id_optional_def or_internal_error_def act_map_err_def session_get_id
      split: option.split sum.split)

lemma as_id_Some: "as_id v = Inr (Some i) \<longleftrightarrow> v = Some (SvId i)"
  by (auto simp: as_id_def split: option.splits session_value.splits)

lemma selected_community_ids:
  "get_selected_community_id w = (Inr c, w') \<Longrightarrow> w' = w \<and> (\<exists>m. wb_session w = Some m \<and> m SELECTED_COMMUNITY_ID_KEY = Some (SvId c))"
proof (cases "wb_session w")
  case (Some m)
  assume "get_selected_community_id w = (Inr c, w')"
  with Some show ?thesis
    by (cases "m SELECTED_COMMUNITY_ID_KEY")
      (simp_all add: get_selected_community_id_def act_bind_def selected_community as_id_def split: session_value.splits)
qed (simp add: get_selected_community_id_def act_bind_def selected_community)

text \<open>
  C15: No middleware of the dashboards passes a request on without a user who is logged in and who holds, at that moment, the permission
  it is set up with: in the selected group, in the group of the path (a group of the selected
  community), in the selected community, or in the community of the path.
\<close>

theorem gates_require_permission:
  assumes "ap_db app = pg_auth d"
  shows
    "(user_has_selected_group_permission app gp headers w = (Inr (c, g), w') \<longrightarrow>
        (\<exists>u. wb_user w = Some u \<and> user_has_group_permission c g (us_user_id u) gp (fst (wb_db w')))) \<and>
     (user_has_path_group_permission app gp g w = (Inr (), w') \<longrightarrow>
        (\<exists>u m c. wb_user w = Some u \<and> wb_session w = Some m \<and> m SELECTED_COMMUNITY_ID_KEY = Some (SvId c) \<and>
           user_has_group_permission c g (us_user_id u) gp (fst (wb_db w')))) \<and>
     (user_has_selected_community_permission app cp headers w = (Inr c, w') \<longrightarrow>
        (\<exists>u. wb_user w = Some u \<and> user_has_community_permission c (us_user_id u) cp (fst (wb_db w')))) \<and>
     (user_has_community_dashboard_permission app headers w = (Inr c, w') \<longrightarrow>
        (\<exists>u. wb_user w = Some u \<and> user_has_community_permission c (us_user_id u) CommunityRead (fst (wb_db w')))) \<and>
     (user_has_path_community_permission app cp c w = (Inr (), w') \<longrightarrow>
        (\<exists>u. wb_user w = Some u \<and> user_has_community_permission c (us_user_id u) cp (fst (wb_db w'))))"
proof (intro conjI impI)
  note evals = act_bind_eq_Inr require_user pg_group_permission [OF assms] pg_community_permission [OF assms]
    stale_never_passes
  show "\<exists>u. wb_user w = Some u \<and> user_has_group_permission c g (us_user_id u) gp (fst (wb_db w'))"
    if "user_has_selected_group_permission app gp headers w = (Inr (c, g), w')"
    using that by (auto simp: user_has_selected_group_permission_def evals split: option.splits if_splits)
  show "\<exists>u. wb_user w = Some u \<and> user_has_community_permission c (us_user_id u) cp (fst (wb_db w'))"
    if "user_has_selected_community_permission app cp headers w = (Inr c, w')"
    using that by (auto simp: user_has_selected_community_permission_def evals split: option.splits if_splits)
  show "\<exists>u. wb_user w = Some u \<and> user_has_community_permission c (us_user_id u) CommunityRead (fst (wb_db w'))"
    if "user_has_community_dashboard_permission app headers w = (Inr c, w')"
    using that by (auto simp: user_has_community_dashboard_permission_def evals split: option.splits if_splits)
  show "\<exists>u. wb_user w = Some u \<and> user_has_community_permission c (us_user_id u) cp (fst (wb_db w'))"
    if "user_has_path_community_permission app cp c w = (Inr (), w')"
    using that by (auto simp: user_has_path_community_permission_def evals split: option.splits if_splits)
  show "\<exists>u m c. wb_user w = Some u \<and> wb_session w = Some m \<and> m SELECTED_COMMUNITY_ID_KEY = Some (SvId c) \<and>
           user_has_group_permission c g (us_user_id u) gp (fst (wb_db w'))"
    if "user_has_path_group_permission app gp g w = (Inr (), w')"
    using that
    by (auto simp: user_has_path_group_permission_def evals split: option.splits if_splits
        dest!: selected_community_ids)
qed

text \<open>A group team and its group in a community, for the concrete cases.\<close>

definition team_accounts :: auth_store where
  "team_accounts = no_accounts\<lparr>
     as_communities := [\<lparr>cm_community_id = 3, cm_name = ''c'', cm_group_team_management_restricted = False\<rparr>],
     as_groups := [\<lparr>gr_group_id = 4, gr_community_id = 3, gr_deleted = False, gr_name = ''g''\<rparr>],
     as_group_team := [\<lparr>gt_group_id = 4, gt_user_id = 1, gt_accepted = True, gt_role = EventsManager\<rparr>]\<rparr>"

definition team_member :: User where
  "team_member = core_user linked_row ''n''"

lemma team_member_id: "us_user_id team_member = 1"
  by (simp add: team_member_def linked_row_def)

definition selected_session :: "string \<Rightarrow> session_value option" where
  "selected_session = [SELECTED_COMMUNITY_ID_KEY \<mapsto> SvId 3, SELECTED_GROUP_ID_KEY \<mapsto> SvId 4]"

lemma sample_app_db: "ap_db sample_auth_app = pg_auth sample_dice"
  by (simp add: sample_auth_app_def)

lemma selected_group: "get_selected_community_and_group_ids_optional w =
    (case get_selected_community_id_optional w of
       (Inl r, w') \<Rightarrow> (Inl r, w')
     | (Inr None, w') \<Rightarrow> (Inr None, w')
     | (Inr (Some c), w') \<Rightarrow>
         (case session_get_id SELECTED_GROUP_ID_KEY w' of
            (Inl _, w'') \<Rightarrow> (Inl (status_response 500), w'')
          | (Inr None, w'') \<Rightarrow> (Inr None, w'')
          | (Inr (Some g), w'') \<Rightarrow> (Inr (Some (c, g)), w'')))"
  by (auto simp: get_selected_community_and_group_ids_optional_def act_bind_def or_internal_error_def act_map_err_def
      split: prod.split sum.split option.split)

lemma sample_gate:
  "user_has_selected_group_permission sample_auth_app EventsWrite headers
     (sample_web team_accounts selected_session (Some team_member)) =
   (Inr (3, 4), sample_web team_accounts selected_session (Some team_member))"
  by (simp add: user_has_selected_group_permission_def act_bind_def require_user selected_or_first_group_def
      selected_group selected_community session_get_id as_id_def sample_web_def selected_session_def
      pg_group_permission [OF sample_app_db] team_member_id user_has_group_permission_def team_accounts_def)

theorem gates_require_permission_witness:
  "user_has_group_permission 3 4 1 EventsWrite team_accounts"
  using gates_require_permission [OF sample_app_db, of EventsWrite _ "sample_web team_accounts selected_session (Some team_member)"]
    sample_gate team_member_id
  by (fastforce simp: sample_web_def)

lemma listed_group_readable:
  assumes "c \<in> set (list_user_groups i st)" and "g \<in> set (gc_groups c)"
  shows "user_has_group_permission (gc_community_id c) g i GroupRead st"
proof -
  obtain k r where k: "k \<in> set (as_communities st)" "gc_community_id c = cm_community_id k"
    and r: "r \<in> set (as_groups st)" "user_group i st r" "gr_community_id r = cm_community_id k" "gr_group_id r = g"
    using assms by (auto simp: list_user_groups_def groups_in_def)
  have group_reads: "group_role_group_permission role GroupRead" for role by (cases role) simp_all
  have community_reads: "community_role_group_permission role GroupRead" for role by (cases role) simp_all
  from r(2) consider
      (community) t where "t \<in> set (as_community_team st)" "ct_user_id t = i" "ct_community_id t = gr_community_id r" "ct_accepted t"
    | (group) t where "t \<in> set (as_group_team st)" "gt_group_id t = gr_group_id r" "gt_user_id t = i" "gt_accepted t"
    by (auto simp: user_group_def list_ex_iff)
  then show ?thesis
  proof cases
    case community
    with k r community_reads show ?thesis
      unfolding user_has_group_permission_def list_ex_iff
      by (intro disjI2 bexI [of _ t] bexI [of _ r]) (simp_all add: user_group_def)
  next
    case group
    with k r group_reads show ?thesis
      unfolding user_has_group_permission_def list_ex_iff
      by (intro disjI1 bexI [of _ t] bexI [of _ r] bexI [of _ k]) (simp_all add: user_group_def)
  qed
qed

lemma listed_nonempty: "c \<in> set (list_user_groups i st) \<Longrightarrow> gc_groups c \<noteq> []"
  by (auto simp: list_user_groups_def)

lemma dashboard_community_listed:
  assumes "dashboard_community selected l = Some c"
  shows "c \<in> set l"
  using assms
  by (auto simp: dashboard_community_def Let_def find_Some_iff bind_eq_Some_conv split: option.splits if_splits)

lemma dashboard_community_exists:
  assumes "l \<noteq> []" and "\<forall>c\<in>set l. gc_groups c \<noteq> []"
  shows "dashboard_community selected l \<noteq> None"
proof -
  have "find (\<lambda>c. gc_groups c \<noteq> []) l \<noteq> None" using assms by (auto simp: find_None_iff neq_Nil_conv)
  then show ?thesis by (auto simp: dashboard_community_def Let_def split: option.splits)
qed

lemma pg_list_groups:
  assumes "ap_list_user_groups app = (\<lambda>i. run_tx (query_tx (list_user_groups i)))"
  shows "db_call app (ap_list_user_groups app i) w = (Inr (list_user_groups i (fst (wb_db w))), w)"
  by (cases "wb_db w") (simp add: assms db_call_def act_map_err_def in_db_def run_query_result)

lemma insert_result: "wb_session w = Some m \<Longrightarrow> session_insert k v w = (Inr (), w\<lparr>wb_session := Some (m(k \<mapsto> v))\<rparr>)"
  by (simp add: session_insert_def on_session_def)

lemma repaired_selection:
  assumes "ap_list_user_groups app = (\<lambda>i. run_tx (query_tx (list_user_groups i)))" and "wb_session w = Some m"
  shows "select_first_accessible_group_for_dashboard app i selected w =
     (case dashboard_community selected (list_user_groups i (fst (wb_db w))) of
        None \<Rightarrow> (Inr None, w)
      | Some c \<Rightarrow> (case gc_groups c of
          [] \<Rightarrow> (Inr None, w)
        | g # _ \<Rightarrow> (Inr (Some (gc_community_id c, g)),
            w\<lparr>wb_session := Some (m(SELECTED_COMMUNITY_ID_KEY \<mapsto> SvId (gc_community_id c), SELECTED_GROUP_ID_KEY \<mapsto> SvId g))\<rparr>)))"
  by (simp add: select_first_accessible_group_for_dashboard_def act_bind_def pg_list_groups [OF assms(1)]
      insert_result assms(2) split: option.split list.split)

text \<open>
  A user who enters the group dashboard without a selected community or group gets one that can be read: when the user
  has any group, the middleware selects one of them, keeps the selection in the session and passes the
  request on, so that the first visit never logs the user out; otherwise it redirects to the invitations and
  changes nothing.
\<close>

theorem repaired_selection_readable:
  assumes "ap_db app = pg_auth d" and "ap_list_user_groups app = (\<lambda>i. run_tx (query_tx (list_user_groups i)))"
    and "wb_user w = Some u" and "wb_session w = Some m"
    and "m SELECTED_COMMUNITY_ID_KEY = None \<or>
         m SELECTED_COMMUNITY_ID_KEY = Some (SvId c0) \<and> m SELECTED_GROUP_ID_KEY = None"
  shows "if list_user_groups (us_user_id u) (fst (wb_db w)) = []
    then user_has_selected_group_permission app GroupRead headers w = (Inl (redirect_to USER_DASHBOARD_INVITATIONS_URL), w)
    else \<exists>c\<in>set (list_user_groups (us_user_id u) (fst (wb_db w))). \<exists>g\<in>set (gc_groups c).
      user_has_selected_group_permission app GroupRead headers w =
        (Inr (gc_community_id c, g), w\<lparr>wb_session := Some
           (m(SELECTED_COMMUNITY_ID_KEY \<mapsto> SvId (gc_community_id c), SELECTED_GROUP_ID_KEY \<mapsto> SvId g))\<rparr>)"
proof -
  let ?st = "fst (wb_db w)"
  let ?l = "list_user_groups (us_user_id u) ?st"
  have none: "get_selected_community_and_group_ids_optional w = (Inr None, w)"
    and "\<exists>selected. get_selected_community_id_optional w = (Inr selected, w)"
    using assms(4,5) by (auto simp: selected_group selected_community session_get_id as_id_def)
  then obtain selected where selected: "get_selected_community_id_optional w = (Inr selected, w)" by blast
  note run = user_has_selected_group_permission_def selected_or_first_group_def act_bind_def require_user assms(3)
    none selected or_respond_def act_map_err_def repaired_selection [OF assms(2,4)] or_invitations_def
  show ?thesis
  proof (cases "?l = []")
    case True
    then show ?thesis by (simp add: run dashboard_community_def)
  next
    case False
    then have "dashboard_community selected ?l \<noteq> None"
      using listed_nonempty by (intro dashboard_community_exists) blast+
    then obtain c where c: "dashboard_community selected ?l = Some c" by blast
    from dashboard_community_listed [OF c] have l: "c \<in> set ?l" .
    from listed_nonempty [OF l] obtain g gs where g: "gc_groups c = g # gs" by (cases "gc_groups c") auto
    from listed_group_readable [OF l, of g] g
    have "user_has_group_permission (gc_community_id c) g (us_user_id u) GroupRead ?st" by simp
    with False c g l show ?thesis
      by (auto simp: run pg_group_permission [OF assms(1)] intro!: bexI [of _ c])
  qed
qed

theorem repaired_selection_readable_witness:
  "user_has_selected_group_permission sample_auth_app GroupRead (\<lambda>_. None) (sample_web team_accounts (\<lambda>_. None) (Some team_member)) =
     (Inr (3, 4), sample_web team_accounts selected_session (Some team_member))"
proof -
  let ?w = "sample_web team_accounts (\<lambda>_. None) (Some team_member)"
  have "list_user_groups 1 team_accounts = [\<lparr>gc_community_id = 3, gc_groups = [4]\<rparr>]"
    by (simp add: list_user_groups_def groups_in_def user_group_def team_accounts_def)
  moreover have "wb_user ?w = Some team_member" "wb_session ?w = Some (\<lambda>_. None)" "fst (wb_db ?w) = team_accounts"
    by (simp_all add: sample_web_def)
  moreover have "ap_list_user_groups sample_auth_app = (\<lambda>i. run_tx (query_tx (list_user_groups i)))"
    by (simp add: sample_auth_app_def)
  ultimately show ?thesis
    using repaired_selection_readable [OF sample_app_db, of ?w team_member "\<lambda>_. None" 0 "\<lambda>_. None"] team_member_id
    by (simp add: sample_web_def selected_session_def)
qed

end
