(* ===== verification/Event_Types.thy ===== *)
theory Event_Types
  imports Payment_Types Questionnaire Auth_Types Meetings
begin

text \<open>
  The event vocabulary of \<^verbatim>\<open>ocg-server/src/types/event.rs\<close> with the types it embeds
  (\<^verbatim>\<open>types/group.rs\<close>, \<^verbatim>\<open>types/community.rs\<close>, \<^verbatim>\<open>types/user.rs\<close>, \<^verbatim>\<open>types/site.rs\<close>), the location text of
  \<^verbatim>\<open>types/location.rs\<close>, and what the templates ask of an event: whether it is past or live, when
  registration is open and what is said about it, which tickets are shown and at what price, and who
  speaks.

  \<^verbatim>\<open>Utc::now()\<close> is the argument \<open>now\<close>, in microseconds. A time zone is its name, a coordinate the bit
  pattern of its \<^verbatim>\<open>f64\<close> (nothing computes with it). How a moment reads in a time zone is a function
  of the chrono library.
\<close>

section \<open>Locations\<close>

type_synonym f64 = "64 word"

record LocationParts =
  lp_address :: "string option"
  lp_city :: "string option"
  lp_country_code :: "string option"
  lp_country_name :: "string option"
  lp_name :: "string option"
  lp_state_code :: "string option"
  lp_state_name :: "string option"

definition new_location_parts :: LocationParts where
  "new_location_parts = \<lparr>lp_address = None, lp_city = None, lp_country_code = None,
     lp_country_name = None, lp_name = None, lp_state_code = None, lp_state_name = None\<rparr>"

text \<open>The closure \<^verbatim>\<open>push\<close>: whether the part was added, and the text after it.\<close>

definition push_part :: "nat \<Rightarrow> string option \<Rightarrow> string \<Rightarrow> bool \<times> string" where
  "push_part max_len part location =
     (case part of
        Some p \<Rightarrow>
          if length location + length p > max_len then (False, location)
          else (True, (if location \<noteq> [] then location @ '', '' else location) @ p)
      | None \<Rightarrow> (False, location))"

definition push_first :: "nat \<Rightarrow> string option \<Rightarrow> string option \<Rightarrow> string \<Rightarrow> string" where
  "push_first max_len a b location =
     (case push_part max_len a location of
        (True, location') \<Rightarrow> location'
      | (False, location') \<Rightarrow> snd (push_part max_len b location'))"

definition build_location :: "LocationParts \<Rightarrow> nat \<Rightarrow> string option" where
  "build_location parts max_len =
     (let location = snd (push_part max_len (lp_name parts) []);
          location = snd (push_part max_len (lp_address parts) location);
          location = snd (push_part max_len (lp_city parts) location);
          location = push_first max_len (lp_state_name parts) (lp_state_code parts) location;
          location = push_first max_len (lp_country_name parts) (lp_country_code parts) location
      in if location \<noteq> [] then Some location else None)"

section \<open>Communities, groups, users and the site\<close>

record CommunitySummary =
  cs_banner_mobile_url :: string
  cs_banner_url :: string
  cs_community_id :: uuid
  cs_display_name :: string
  cs_logo_url :: string
  cs_name :: string
  cs_ad_banner_link_url :: "string option"
  cs_ad_banner_url :: "string option"
  cs_og_image_url :: "string option"

record GroupCategory =
  gt_group_category_id :: uuid
  gt_name :: string
  gt_normalized_name :: string
  gt_groups_count :: "nat option"
  gt_order :: "int option"

record GroupRegion =
  gn_name :: string
  gn_normalized_name :: string
  gn_region_id :: uuid
  gn_groups_count :: "nat option"
  gn_order :: "int option"

record GroupSummary =
  gs_active :: bool
  gs_category :: GroupCategory
  gs_community_display_name :: string
  gs_community_name :: string
  gs_created_at :: instant
  gs_group_id :: uuid
  gs_logo_url :: string
  gs_name :: string
  gs_slug :: string
  gs_banner_mobile_url :: "string option"
  gs_banner_url :: "string option"
  gs_city :: "string option"
  gs_country_code :: "string option"
  gs_country_name :: "string option"
  gs_description_short :: "string option"
  gs_latitude :: "f64 option"
  gs_longitude :: "f64 option"
  gs_og_image_url :: "string option"
  gs_popover_html :: "string option"
  gs_region :: "GroupRegion option"
  gs_slug_pretty :: "string option"
  gs_state :: "string option"

definition group_location :: "GroupSummary \<Rightarrow> nat \<Rightarrow> string option" where
  "group_location g max_len = build_location
     (new_location_parts\<lparr>lp_city := gs_city g, lp_country_code := gs_country_code g,
        lp_country_name := gs_country_name g, lp_state_name := gs_state g\<rparr>) max_len"

definition public_slug :: "GroupSummary \<Rightarrow> string" where
  "public_slug g = coalesce (gs_slug_pretty g) (gs_slug g)"

record SiteUser =
  su_user_id :: uuid
  su_username :: string
  su_bio :: "string option"
  su_bluesky_url :: "string option"
  su_company :: "string option"
  su_facebook_url :: "string option"
  su_github_url :: "string option"
  su_linkedin_url :: "string option"
  su_name :: "string option"
  su_photo_url :: "string option"
  su_provider :: "UserProvider option"
  su_title :: "string option"
  su_twitter_url :: "string option"
  su_website_url :: "string option"

record Theme =
  th_palette :: "(nat \<times> string) list"
  th_primary_color :: string

record SiteSettings =
  ss_description :: string
  ss_site_id :: uuid
  ss_theme :: Theme
  ss_title :: string
  ss_copyright_notice :: "string option"
  ss_favicon_url :: "string option"
  ss_footer_logo_url :: "string option"
  ss_header_logo_url :: "string option"
  ss_og_image_url :: "string option"

section \<open>Parts of an event\<close>

datatype EventDiscountType = FixedAmount | PercentageDiscount

record EventDiscountCode =
  dc_active :: bool
  dc_code :: string
  dc_event_discount_code_id :: uuid
  dc_kind :: EventDiscountType
  dc_title :: string
  dc_amount_minor :: "int option"
  dc_available :: "int option"
  dc_available_override_active :: bool
  dc_ends_at :: "instant option"
  dc_percentage :: "int option"
  dc_starts_at :: "instant option"
  dc_total_available :: "int option"

datatype EventKind = EventHybrid | EventInPerson | EventVirtual

datatype SessionKind = SessionHybrid | SessionInPerson | SessionVirtual

datatype EventDeleteEligibility = DeleteAllowed | CancelFirst | RefundsPending

record EventCfsLabel =
  cl_color :: string
  cl_name :: string
  cl_event_cfs_label_id :: "uuid option"

record EventSponsor =
  es_group_sponsor_id :: uuid
  es_level :: string
  es_logo_url :: string
  es_name :: string
  es_website_url :: "string option"

record LegacyUser =
  lu_bio :: "string option"
  lu_name :: "string option"
  lu_photo_url :: "string option"
  lu_title :: "string option"

record Speaker =
  sk_featured :: bool
  sk_user :: SiteUser

record Session =
  sn_kind :: SessionKind
  sn_name :: string
  sn_session_id :: uuid
  sn_speakers :: "Speaker list"
  sn_starts_at :: instant
  sn_cfs_submission_id :: "uuid option"
  sn_description :: "string option"
  sn_ends_at :: "instant option"
  sn_location :: "string option"
  sn_meeting_error :: "string option"
  sn_meeting_hosts :: "string list option"
  sn_meeting_in_sync :: "bool option"
  sn_meeting_join_instructions :: "string option"
  sn_meeting_join_url :: "string option"
  sn_meeting_password :: "string option"
  sn_meeting_provider :: "MeetingProvider option"
  sn_meeting_recording_public_url :: "string option"
  sn_meeting_recording_published :: "bool option"
  sn_meeting_recording_raw_urls :: "string list option"
  sn_meeting_recording_url :: "string option"
  sn_meeting_requested :: "bool option"

datatype EventEnrollmentStatus =
    Attendee | InvitationApproved | NotEnrolled | OfferExpired | PendingApproval | PendingPayment
  | RegistrationQuestionsPending | EnrollmentRejected | Waitlisted

record EventEnrollmentState =
  en_is_checked_in :: bool
  en_status :: EventEnrollmentStatus
  en_admission_offer_id :: "uuid option"
  en_event_ticket_type_id :: "uuid option"
  en_manually_invited :: bool
  en_purchase_amount_minor :: "int option"
  en_refund_rejection_reason :: "string option"
  en_refund_request_status :: "EventRefundRequestStatus option"
  en_resume_checkout_url :: "string option"

definition can_request_refund :: "instant \<Rightarrow> EventEnrollmentState \<Rightarrow> instant option \<Rightarrow> bool" where
  "can_request_refund now e starts_at \<longleftrightarrow>
     en_status e = Attendee \<and>
     (case en_purchase_amount_minor e of Some amount \<Rightarrow> amount > 0 | None \<Rightarrow> False) \<and>
     en_refund_request_status e = None \<and>
     (case starts_at of Some t \<Rightarrow> t > now | None \<Rightarrow> True)"

section \<open>Events\<close>

record EventSummary =
  ev_attendee_approval_required :: bool
  ev_canceled :: bool
  ev_community_display_name :: string
  ev_community_name :: string
  ev_event_id :: uuid
  ev_group_category_name :: string
  ev_group_name :: string
  ev_group_slug :: string
  ev_has_registration_questions :: bool
  ev_has_related_events :: bool
  ev_kind :: EventKind
  ev_logo_url :: string
  ev_name :: string
  ev_published :: bool
  ev_slug :: string
  ev_test_event :: bool
  ev_timezone :: string
  ev_waitlist_count :: int
  ev_waitlist_enabled :: bool
  ev_attendee_count :: "int option"
  ev_capacity :: "int option"
  ev_created_by_display_name :: "string option"
  ev_created_by_username :: "string option"
  ev_delete_eligibility :: "EventDeleteEligibility option"
  ev_description_short :: "string option"
  ev_ends_at :: "instant option"
  ev_event_series_id :: "uuid option"
  ev_group_slug_pretty :: "string option"
  ev_latitude :: "f64 option"
  ev_longitude :: "f64 option"
  ev_meeting_join_instructions :: "string option"
  ev_meeting_join_url :: "string option"
  ev_meeting_password :: "string option"
  ev_meeting_provider :: "MeetingProvider option"
  ev_payment_currency_code :: "string option"
  ev_popover_html :: "string option"
  ev_registration_ends_at :: "instant option"
  ev_registration_starts_at :: "instant option"
  ev_remaining_capacity :: "int option"
  ev_starts_at :: "instant option"
  ev_ticket_types :: "EventTicketType list option"
  ev_venue_address :: "string option"
  ev_venue_city :: "string option"
  ev_venue_country_code :: "string option"
  ev_venue_country_name :: "string option"
  ev_venue_name :: "string option"
  ev_venue_state_code :: "string option"
  ev_venue_state_name :: "string option"
  ev_zip_code :: "string option"

record EventFull =
  ef_attendee_approval_required :: bool
  ef_attendee_count :: int
  ef_canceled :: bool
  ef_category_name :: string
  ef_cfs_labels :: "EventCfsLabel list"
  ef_community :: CommunitySummary
  ef_created_at :: instant
  ef_description :: string
  ef_event_id :: uuid
  ef_group :: GroupSummary
  ef_has_registration_questions :: bool
  ef_has_related_events :: bool
  ef_has_ticket_purchases :: bool
  ef_hosts :: "SiteUser list"
  ef_kind :: EventKind
  ef_logo_url :: string
  ef_manual_tax_rate_ids :: "string list"
  ef_name :: string
  ef_organizers :: "SiteUser list"
  ef_published :: bool
  ef_registration_questions :: "QuestionnaireQuestion list"
  ef_registration_questions_locked :: bool
  ef_sessions :: "(string \<times> Session list) list"
  ef_slug :: string
  ef_speakers :: "Speaker list"
  ef_sponsors :: "EventSponsor list"
  ef_tax_behavior :: TicketTaxBehavior
  ef_tax_calculation_mode :: TicketTaxCalculationMode
  ef_test_event :: bool
  ef_timezone :: string
  ef_waitlist_count :: int
  ef_waitlist_enabled :: bool
  ef_banner_mobile_url :: "string option"
  ef_banner_url :: "string option"
  ef_capacity :: "int option"
  ef_cfs_description :: "string option"
  ef_cfs_enabled :: "bool option"
  ef_cfs_ends_at :: "instant option"
  ef_cfs_starts_at :: "instant option"
  ef_description_short :: "string option"
  ef_discount_codes :: "EventDiscountCode list option"
  ef_ends_at :: "instant option"
  ef_event_reminder_enabled :: "bool option"
  ef_event_series_id :: "uuid option"
  ef_latitude :: "f64 option"
  ef_legacy_hosts :: "LegacyUser list option"
  ef_legacy_speakers :: "LegacyUser list option"
  ef_longitude :: "f64 option"
  ef_luma_url :: "string option"
  ef_meeting_error :: "string option"
  ef_meeting_hosts :: "string list option"
  ef_meeting_in_sync :: "bool option"
  ef_meeting_join_instructions :: "string option"
  ef_meeting_join_url :: "string option"
  ef_meeting_password :: "string option"
  ef_meeting_provider :: "MeetingProvider option"
  ef_meeting_recording_public_url :: "string option"
  ef_meeting_recording_published :: "bool option"
  ef_meeting_recording_raw_urls :: "string list option"
  ef_meeting_recording_requested :: "bool option"
  ef_meeting_recording_url :: "string option"
  ef_meeting_requested :: "bool option"
  ef_meetup_url :: "string option"
  ef_payment_currency_code :: "string option"
  ef_photos_urls :: "string list option"
  ef_published_at :: "instant option"
  ef_registration_ends_at :: "instant option"
  ef_registration_starts_at :: "instant option"
  ef_remaining_capacity :: "int option"
  ef_starts_at :: "instant option"
  ef_tags :: "string list option"
  ef_ticket_types :: "EventTicketType list option"
  ef_venue_address :: "string option"
  ef_venue_city :: "string option"
  ef_venue_country_code :: "string option"
  ef_venue_country_name :: "string option"
  ef_venue_name :: "string option"
  ef_venue_state_code :: "string option"
  ef_venue_state_name :: "string option"
  ef_venue_zip_code :: "string option"

section \<open>Tickets\<close>

definition single_public_ticket_type :: "instant \<Rightarrow> EventTicketType list option \<Rightarrow> EventTicketType option" where
  "single_public_ticket_type now ticket_types = Option.bind ticket_types (\<lambda>ts.
     case filter (\<lambda>t. tt_active t \<and> tt_availability t = Public \<and> current_amount_minor now t \<noteq> None) ts of
       [t] \<Rightarrow> Some t
     | _ \<Rightarrow> None)"

definition single_free_public_ticket_type ::
    "instant \<Rightarrow> EventTicketType list option \<Rightarrow> EventTicketType option" where
  "single_free_public_ticket_type now ticket_types =
     Option.bind (single_public_ticket_type now ticket_types)
       (\<lambda>t. if current_amount_minor now t = Some 0 then Some t else None)"

definition has_sellable_ticket_types :: "instant \<Rightarrow> EventTicketType list option \<Rightarrow> bool" where
  "has_sellable_ticket_types now ticket_types =
     (case ticket_types of Some ts \<Rightarrow> list_ex (is_sellable_now now) ts | None \<Rightarrow> False)"

definition has_paid_capable_ticket_types :: "EventTicketType list option \<Rightarrow> bool" where
  "has_paid_capable_ticket_types ticket_types =
     (case ticket_types of
        Some ts \<Rightarrow> list_ex (\<lambda>t. list_ex (\<lambda>w. pw_amount_minor w > 0) (tt_price_windows t)) ts
      | None \<Rightarrow> False)"

definition sellable_ticket_types :: "instant \<Rightarrow> EventFull \<Rightarrow> EventTicketType list" where
  "sellable_ticket_types now event = filter (is_sellable_now now) (coalesce (ef_ticket_types event) [])"

text \<open>\<^verbatim>\<open>sort_by_key\<close> is stable, like \<^const>\<open>sort_key\<close>.\<close>

definition visible_ticket_types :: "instant \<Rightarrow> EventFull \<Rightarrow> EventTicketType list" where
  "visible_ticket_types now event =
     sort_key (\<lambda>t. coalesce (current_amount_minor now t) 0)
       (filter (\<lambda>t. tt_active t \<and> current_amount_minor now t \<noteq> None) (coalesce (ef_ticket_types event) []))"

definition has_only_free_visible_ticket_types :: "instant \<Rightarrow> EventFull \<Rightarrow> bool" where
  "has_only_free_visible_ticket_types now event =
     (let ticket_types = visible_ticket_types now event
      in ticket_types \<noteq> [] \<and> list_all (\<lambda>t. current_amount_minor now t = Some 0) ticket_types)"

definition has_sold_out_visible_ticket_types :: "instant \<Rightarrow> EventFull \<Rightarrow> bool" where
  "has_sold_out_visible_ticket_types now event = list_ex tt_sold_out (visible_ticket_types now event)"

definition has_visible_ticket_types :: "instant \<Rightarrow> EventFull \<Rightarrow> bool" where
  "has_visible_ticket_types now event \<longleftrightarrow> visible_ticket_types now event \<noteq> []"

definition has_single_free_public_ticket_type :: "instant \<Rightarrow> EventFull \<Rightarrow> bool" where
  "has_single_free_public_ticket_type now event \<longleftrightarrow>
     single_free_public_ticket_type now (ef_ticket_types event) \<noteq> None"

definition shows_additional_ticket_tax :: "EventFull \<Rightarrow> bool" where
  "shows_additional_ticket_tax event \<longleftrightarrow>
     collects_tax (ef_tax_calculation_mode event) \<and> ef_tax_behavior event = Exclusive"

definition format_ticket_price_badge ::
    "instant \<Rightarrow> string option \<Rightarrow> EventTicketType list option \<Rightarrow> string option" where
  "format_ticket_price_badge now payment_currency_code ticket_types =
     Option.bind ticket_types (\<lambda>ts.
       let sellable_amounts = List.map_filter (current_amount_minor now) (filter (is_sellable_now now) ts)
       in if sellable_amounts = [] then None
          else let amount_minor = Min (set sellable_amounts)
            in if amount_minor = 0
               then Some (if list_ex (\<lambda>amount. amount > 0) sellable_amounts then ''Free and up'' else ''Free'')
               else Option.bind payment_currency_code
                 (\<lambda>currency_code. Some (''From '' @ format_amount_minor amount_minor currency_code)))"

section \<open>Registration windows\<close>

definition registration_window_configured :: "instant option \<Rightarrow> instant option \<Rightarrow> bool" where
  "registration_window_configured starts_at ends_at \<longleftrightarrow> starts_at \<noteq> None \<or> ends_at \<noteq> None"

definition registration_window_effective_ends_at ::
    "instant option \<Rightarrow> instant option \<Rightarrow> instant option \<Rightarrow> instant option" where
  "registration_window_effective_ends_at starts_at ends_at event_starts_at =
     (if ends_at \<noteq> None then ends_at else if starts_at \<noteq> None then event_starts_at else None)"

definition registration_window_is_open ::
    "instant \<Rightarrow> instant option \<Rightarrow> instant option \<Rightarrow> instant option \<Rightarrow> bool" where
  "registration_window_is_open now starts_at ends_at event_starts_at \<longleftrightarrow>
     (case starts_at of Some t \<Rightarrow> now \<ge> t | None \<Rightarrow> True) \<and>
     (case registration_window_effective_ends_at starts_at ends_at event_starts_at of
        Some t \<Rightarrow> now < t
      | None \<Rightarrow> True)"

text \<open>
  \<open>format_time\<close> stands for \<^verbatim>\<open>format_registration_window_time\<close>: the chrono library's rendering of a
  moment in a time zone.
\<close>

definition registration_window_message ::
    "(instant \<Rightarrow> string \<Rightarrow> string) \<Rightarrow> instant \<Rightarrow> instant option \<Rightarrow> instant option \<Rightarrow> instant option \<Rightarrow>
     string \<Rightarrow> string option" where
  "registration_window_message format_time now starts_at ends_at event_starts_at timezone =
     (if \<not> registration_window_configured starts_at ends_at then None
      else let at = (\<lambda>t. format_time t timezone)
        in case (starts_at, registration_window_effective_ends_at starts_at ends_at event_starts_at) of
             (Some s, Some e) \<Rightarrow>
               Some (if now < s then ''Registration opens '' @ at s @ '' and closes '' @ at e @ ''.''
                     else if now \<ge> e then ''Registration closed '' @ at e @ ''.''
                     else ''Registration is open until '' @ at e @ ''.'')
           | (None, Some e) \<Rightarrow>
               Some (if now \<ge> e then ''Registration closed '' @ at e @ ''.''
                     else ''Registration is open until '' @ at e @ ''.'')
           | (Some s, None) \<Rightarrow>
               Some (if now < s then ''Registration opens '' @ at s @ ''.''
                     else ''Registration opened '' @ at s @ ''.'')
           | (None, None) \<Rightarrow> None)"

definition registration_window_unavailable_title ::
    "(instant \<Rightarrow> string \<Rightarrow> string) \<Rightarrow> instant \<Rightarrow> instant option \<Rightarrow> instant option \<Rightarrow> instant option \<Rightarrow>
     string \<Rightarrow> string option" where
  "registration_window_unavailable_title format_time now starts_at ends_at event_starts_at timezone =
     (case starts_at of
        Some s \<Rightarrow>
          if now < s then Some (''Registration opens '' @ format_time s timezone @ ''.'')
          else (case registration_window_effective_ends_at starts_at ends_at event_starts_at of
             Some e \<Rightarrow> if now \<ge> e then Some (''Registration closed '' @ format_time e timezone @ ''.'') else None
           | None \<Rightarrow> None)
      | None \<Rightarrow>
          (case registration_window_effective_ends_at starts_at ends_at event_starts_at of
             Some e \<Rightarrow> if now \<ge> e then Some (''Registration closed '' @ format_time e timezone @ ''.'') else None
           | None \<Rightarrow> None))"

section \<open>What is asked of an event\<close>

definition can_delete :: "EventSummary \<Rightarrow> bool" where
  "can_delete event = (case ev_delete_eligibility event of Some e \<Rightarrow> e = DeleteAllowed | None \<Rightarrow> True)"

definition created_by_tooltip :: "EventSummary \<Rightarrow> string option" where
  "created_by_tooltip event =
     (case (ev_created_by_display_name event, ev_created_by_username event) of
        (Some display_name, Some username) \<Rightarrow>
          Some (if display_name \<noteq> username
                then ''Created by '' @ display_name @ '' (@'' @ username @ '')''
                else ''Created by '' @ display_name)
      | (Some display_name, None) \<Rightarrow> Some (''Created by '' @ display_name)
      | (None, Some username) \<Rightarrow> Some (''Created by @'' @ username)
      | (None, None) \<Rightarrow> None)"

definition delete_unavailable_title :: "EventSummary \<Rightarrow> string option" where
  "delete_unavailable_title event =
     (case ev_delete_eligibility event of
        Some CancelFirst \<Rightarrow> Some ''Cancel this event before deleting it.''
      | Some RefundsPending \<Rightarrow> Some ''Resolve pending checkouts and refunds before deleting this event.''
      | _ \<Rightarrow> None)"

definition past :: "instant \<Rightarrow> instant option \<Rightarrow> instant option \<Rightarrow> bool" where
  "past now starts_at ends_at =
     (case (if ends_at \<noteq> None then ends_at else starts_at) of Some t \<Rightarrow> t < now | None \<Rightarrow> False)"

definition summary_is_past :: "instant \<Rightarrow> EventSummary \<Rightarrow> bool" where
  "summary_is_past now event = past now (ev_starts_at event) (ev_ends_at event)"

definition full_is_past :: "instant \<Rightarrow> EventFull \<Rightarrow> bool" where
  "full_is_past now event = past now (ef_starts_at event) (ef_ends_at event)"

definition summary_location :: "EventSummary \<Rightarrow> nat \<Rightarrow> string option" where
  "summary_location e max_len = build_location
     \<lparr>lp_address = ev_venue_address e, lp_city = ev_venue_city e, lp_country_code = ev_venue_country_code e,
      lp_country_name = ev_venue_country_name e, lp_name = ev_venue_name e,
      lp_state_code = ev_venue_state_code e, lp_state_name = ev_venue_state_name e\<rparr> max_len"

definition full_location :: "EventFull \<Rightarrow> nat \<Rightarrow> string option" where
  "full_location e max_len = build_location
     \<lparr>lp_address = ef_venue_address e, lp_city = ef_venue_city e, lp_country_code = ef_venue_country_code e,
      lp_country_name = ef_venue_country_name e, lp_name = ef_venue_name e,
      lp_state_code = ef_venue_state_code e, lp_state_name = ef_venue_state_name e\<rparr> max_len"

definition event_public_group_slug :: "EventSummary \<Rightarrow> string" where
  "event_public_group_slug event = coalesce (ev_group_slug_pretty event) (ev_group_slug event)"

definition summary_ticket_price_badge :: "instant \<Rightarrow> EventSummary \<Rightarrow> string option" where
  "summary_ticket_price_badge now e =
     format_ticket_price_badge now (ev_payment_currency_code e) (ev_ticket_types e)"

definition full_ticket_price_badge :: "instant \<Rightarrow> EventFull \<Rightarrow> string option" where
  "full_ticket_price_badge now e =
     format_ticket_price_badge now (ef_payment_currency_code e) (ef_ticket_types e)"

definition summary_registration_is_open :: "instant \<Rightarrow> EventSummary \<Rightarrow> bool" where
  "summary_registration_is_open now e = registration_window_is_open now
     (ev_registration_starts_at e) (ev_registration_ends_at e) (ev_starts_at e)"

definition full_registration_is_open :: "instant \<Rightarrow> EventFull \<Rightarrow> bool" where
  "full_registration_is_open now e = registration_window_is_open now
     (ef_registration_starts_at e) (ef_registration_ends_at e) (ef_starts_at e)"

definition cfs_is_enabled :: "EventFull \<Rightarrow> bool" where
  "cfs_is_enabled e = coalesce (ef_cfs_enabled e) False"

definition cfs_is_closed :: "instant \<Rightarrow> EventFull \<Rightarrow> bool" where
  "cfs_is_closed now e = (case ef_cfs_ends_at e of
     Some ends_at \<Rightarrow> coalesce (ef_cfs_enabled e) False \<and> now \<ge> ends_at
   | None \<Rightarrow> False)"

definition cfs_is_open :: "instant \<Rightarrow> EventFull \<Rightarrow> bool" where
  "cfs_is_open now e = (case (ef_cfs_starts_at e, ef_cfs_ends_at e) of
     (Some starts_at, Some ends_at) \<Rightarrow>
       coalesce (ef_cfs_enabled e) False \<and> now \<ge> starts_at \<and> now < ends_at
   | _ \<Rightarrow> False)"

definition cfs_is_upcoming :: "instant \<Rightarrow> EventFull \<Rightarrow> bool" where
  "cfs_is_upcoming now e = (case ef_cfs_starts_at e of
     Some starts_at \<Rightarrow> coalesce (ef_cfs_enabled e) False \<and> now < starts_at
   | None \<Rightarrow> False)"

definition event_reminder_is_enabled :: "EventFull \<Rightarrow> bool" where
  "event_reminder_is_enabled e = coalesce (ef_event_reminder_enabled e) True"

definition EVENT_LIVE_LEAD_TIME_MINUTES :: int where
  "EVENT_LIVE_LEAD_TIME_MINUTES = 15"

definition is_live :: "instant \<Rightarrow> EventFull \<Rightarrow> bool" where
  "is_live now e = (case (ef_starts_at e, ef_ends_at e) of
     (Some starts_at, Some ends_at) \<Rightarrow>
       now \<ge> starts_at - EVENT_LIVE_LEAD_TIME_MINUTES * 60 * 1000000 \<and> now \<le> ends_at
   | _ \<Rightarrow> False)"

text \<open>The set of the code is sorted at the end, so the order of its elements does not matter.\<close>

definition speakers_ids :: "EventFull \<Rightarrow> uuid list" where
  "speakers_ids event = sort (remdups
     (map (\<lambda>s. su_user_id (sk_user s)) (ef_speakers event) @
      concat (map (\<lambda>(day, sessions). concat (map (\<lambda>session.
        map (\<lambda>s. su_user_id (sk_user s)) (sn_speakers session)) sessions)) (ef_sessions event))))"

definition event_summary_from :: "EventFull \<Rightarrow> EventSummary" where
  "event_summary_from event =
     \<lparr>ev_attendee_approval_required = ef_attendee_approval_required event,
      ev_canceled = ef_canceled event,
      ev_community_display_name = cs_display_name (ef_community event),
      ev_community_name = cs_name (ef_community event),
      ev_event_id = ef_event_id event,
      ev_group_category_name = gt_name (gs_category (ef_group event)),
      ev_group_name = gs_name (ef_group event),
      ev_group_slug = gs_slug (ef_group event),
      ev_has_registration_questions =
        (ef_has_registration_questions event \<or> ef_registration_questions event \<noteq> []),
      ev_has_related_events = ef_has_related_events event,
      ev_kind = ef_kind event,
      ev_logo_url = ef_logo_url event,
      ev_name = ef_name event,
      ev_published = ef_published event,
      ev_slug = ef_slug event,
      ev_test_event = ef_test_event event,
      ev_timezone = ef_timezone event,
      ev_waitlist_count = ef_waitlist_count event,
      ev_waitlist_enabled = ef_waitlist_enabled event,
      ev_attendee_count = Some (ef_attendee_count event),
      ev_capacity = ef_capacity event,
      ev_created_by_display_name = None,
      ev_created_by_username = None,
      ev_delete_eligibility = None,
      ev_description_short = ef_description_short event,
      ev_ends_at = ef_ends_at event,
      ev_event_series_id = ef_event_series_id event,
      ev_group_slug_pretty = gs_slug_pretty (ef_group event),
      ev_latitude = ef_latitude event,
      ev_longitude = ef_longitude event,
      ev_meeting_join_instructions = ef_meeting_join_instructions event,
      ev_meeting_join_url = ef_meeting_join_url event,
      ev_meeting_password = ef_meeting_password event,
      ev_meeting_provider = ef_meeting_provider event,
      ev_payment_currency_code = ef_payment_currency_code event,
      ev_popover_html = None,
      ev_registration_ends_at = ef_registration_ends_at event,
      ev_registration_starts_at = ef_registration_starts_at event,
      ev_remaining_capacity = ef_remaining_capacity event,
      ev_starts_at = ef_starts_at event,
      ev_ticket_types = ef_ticket_types event,
      ev_venue_address = ef_venue_address event,
      ev_venue_city = ef_venue_city event,
      ev_venue_country_code = ef_venue_country_code event,
      ev_venue_country_name = ef_venue_country_name event,
      ev_venue_name = ef_venue_name event,
      ev_venue_state_code = ef_venue_state_code event,
      ev_venue_state_name = ef_venue_state_name event,
      ev_zip_code = ef_venue_zip_code event\<rparr>"

section \<open>What the templates show\<close>

text \<open>The separators are not counted, so a location may be two characters longer than asked.\<close>

lemma push_part_length: "length location \<le> max_len + 2 \<Longrightarrow> length (snd (push_part max_len part location)) \<le> max_len + 2"
  by (auto simp: push_part_def split: option.split)

lemma push_first_length: "length location \<le> max_len + 2 \<Longrightarrow> length (push_first max_len a b location) \<le> max_len + 2"
proof -
  assume short: "length location \<le> max_len + 2"
  obtain added l where p: "push_part max_len a location = (added, l)" by (cases "push_part max_len a location")
  with push_part_length [OF short, of a] have "length l \<le> max_len + 2" by simp
  with push_part_length [OF this, of b] show ?thesis by (cases added) (simp_all add: push_first_def p)
qed

theorem location_length:
  assumes "build_location parts max_len = Some s"
  shows "s \<noteq> [] \<and> length s \<le> max_len + 2"
proof -
  let ?s = "snd (push_part max_len (lp_city parts) (snd (push_part max_len (lp_address parts)
    (snd (push_part max_len (lp_name parts) [])))))"
  have "length ?s \<le> max_len + 2" by (intro push_part_length) simp
  then have "length (push_first max_len (lp_country_name parts) (lp_country_code parts)
      (push_first max_len (lp_state_name parts) (lp_state_code parts) ?s)) \<le> max_len + 2"
    by (intro push_first_length)
  with assms show ?thesis by (auto simp: build_location_def Let_def split: if_splits)
qed

theorem location_exceeds_limit:
  "build_location (new_location_parts\<lparr>lp_name := Some ''ab'', lp_address := Some ''cd''\<rparr>) 4 = Some ''ab, cd''"
  by (simp add: build_location_def push_part_def push_first_def new_location_parts_def Let_def)

text \<open>
  Registration is open exactly when no reason is given why it is not, and the summary of an event
  answers as the event does.
\<close>

theorem registration_title_iff_closed:
  "registration_window_unavailable_title format_time now starts_at ends_at event_starts_at timezone = None \<longleftrightarrow>
     registration_window_is_open now starts_at ends_at event_starts_at"
  by (auto simp: registration_window_unavailable_title_def registration_window_is_open_def split: option.splits)

theorem summary_answers_as_event:
  "summary_registration_is_open now (event_summary_from e) = full_registration_is_open now e \<and>
   summary_is_past now (event_summary_from e) = full_is_past now e \<and>
   summary_location (event_summary_from e) max_len = full_location e max_len \<and>
   summary_ticket_price_badge now (event_summary_from e) = full_ticket_price_badge now e"
  by (simp add: event_summary_from_def summary_registration_is_open_def full_registration_is_open_def
      summary_is_past_def full_is_past_def summary_location_def full_location_def
      summary_ticket_price_badge_def full_ticket_price_badge_def)

end
