(* ===== verification/Notification_Content.thy ===== *)
theory Notification_Content
  imports Event_Types Payments_Notifications Badge_Credentials
begin

text \<open>
  What a notification is and says: the kinds of \<^verbatim>\<open>services/notifications.rs\<close>, the template structures
  of \<^verbatim>\<open>templates/notifications.rs\<close>, the subject and body a delivery makes of the queued data
  (\<^verbatim>\<open>prepare_content\<close>), and the builders of \<^verbatim>\<open>services/notifications/payloads.rs\<close> that queue it.

  Reading a template from JSON, writing it and rendering it are derived by serde and askama: each
  template type has a \<open>template_codec\<close> of these three functions, the fields of the record \<open>templates\<close>.
  Templates with the same first fields extend a common record. The calendar file of an event is made
  by the iCalendar library.
\<close>

section \<open>Notifications\<close>

datatype NotificationKind =
    BadgeAwardedKind | BadgeRevokedKind | CfsSubmissionUpdatedKind | CommunityTeamInvitationKind
  | EmailVerificationKind | EventAdmissionOfferCanceledKind | EventAdmissionOfferCreatedKind
  | EventAdmissionOfferDeclinedKind | EventAttendanceCanceledKind | EventCanceledKind | EventCustomKind
  | EventInvitationKind | EventPaidConfiguredKind | EventPublishedKind | EventRefundApprovedKind
  | EventRefundRejectedKind | EventRefundRequestedKind | EventReminderKind | EventRescheduledKind
  | EventSeriesCanceledKind | EventSeriesPublishedKind | EventTicketRequestApprovedKind
  | EventTicketWaitlistOfferKind | EventWaitlistJoinedKind | EventWaitlistLeftKind
  | EventWaitlistPromotedKind | EventWelcomeKind | GroupCustomKind | GroupTeamInvitationKind
  | GroupWelcomeKind | SessionProposalCoSpeakerInvitationKind | SpeakerSeriesWelcomeKind
  | SpeakerWelcomeKind

text \<open>The kebab-case names, which \<^verbatim>\<open>Display\<close> writes and \<^verbatim>\<open>TryFrom\<close> reads.\<close>

primrec kind_to_string :: "NotificationKind \<Rightarrow> string" where
  "kind_to_string BadgeAwardedKind = ''badge-awarded''"
| "kind_to_string BadgeRevokedKind = ''badge-revoked''"
| "kind_to_string CfsSubmissionUpdatedKind = ''cfs-submission-updated''"
| "kind_to_string CommunityTeamInvitationKind = ''community-team-invitation''"
| "kind_to_string EmailVerificationKind = ''email-verification''"
| "kind_to_string EventAdmissionOfferCanceledKind = ''event-admission-offer-canceled''"
| "kind_to_string EventAdmissionOfferCreatedKind = ''event-admission-offer-created''"
| "kind_to_string EventAdmissionOfferDeclinedKind = ''event-admission-offer-declined''"
| "kind_to_string EventAttendanceCanceledKind = ''event-attendance-canceled''"
| "kind_to_string EventCanceledKind = ''event-canceled''"
| "kind_to_string EventCustomKind = ''event-custom''"
| "kind_to_string EventInvitationKind = ''event-invitation''"
| "kind_to_string EventPaidConfiguredKind = ''event-paid-configured''"
| "kind_to_string EventPublishedKind = ''event-published''"
| "kind_to_string EventRefundApprovedKind = ''event-refund-approved''"
| "kind_to_string EventRefundRejectedKind = ''event-refund-rejected''"
| "kind_to_string EventRefundRequestedKind = ''event-refund-requested''"
| "kind_to_string EventReminderKind = ''event-reminder''"
| "kind_to_string EventRescheduledKind = ''event-rescheduled''"
| "kind_to_string EventSeriesCanceledKind = ''event-series-canceled''"
| "kind_to_string EventSeriesPublishedKind = ''event-series-published''"
| "kind_to_string EventTicketRequestApprovedKind = ''event-ticket-request-approved''"
| "kind_to_string EventTicketWaitlistOfferKind = ''event-ticket-waitlist-offer''"
| "kind_to_string EventWaitlistJoinedKind = ''event-waitlist-joined''"
| "kind_to_string EventWaitlistLeftKind = ''event-waitlist-left''"
| "kind_to_string EventWaitlistPromotedKind = ''event-waitlist-promoted''"
| "kind_to_string EventWelcomeKind = ''event-welcome''"
| "kind_to_string GroupCustomKind = ''group-custom''"
| "kind_to_string GroupTeamInvitationKind = ''group-team-invitation''"
| "kind_to_string GroupWelcomeKind = ''group-welcome''"
| "kind_to_string SessionProposalCoSpeakerInvitationKind = ''session-proposal-co-speaker-invitation''"
| "kind_to_string SpeakerSeriesWelcomeKind = ''speaker-series-welcome''"
| "kind_to_string SpeakerWelcomeKind = ''speaker-welcome''"

definition notification_kinds :: "NotificationKind list" where
  "notification_kinds =
     [BadgeAwardedKind, BadgeRevokedKind, CfsSubmissionUpdatedKind, CommunityTeamInvitationKind,
      EmailVerificationKind, EventAdmissionOfferCanceledKind, EventAdmissionOfferCreatedKind,
      EventAdmissionOfferDeclinedKind, EventAttendanceCanceledKind, EventCanceledKind, EventCustomKind,
      EventInvitationKind, EventPaidConfiguredKind, EventPublishedKind, EventRefundApprovedKind,
      EventRefundRejectedKind, EventRefundRequestedKind, EventReminderKind, EventRescheduledKind,
      EventSeriesCanceledKind, EventSeriesPublishedKind, EventTicketRequestApprovedKind,
      EventTicketWaitlistOfferKind, EventWaitlistJoinedKind, EventWaitlistLeftKind,
      EventWaitlistPromotedKind, EventWelcomeKind, GroupCustomKind, GroupTeamInvitationKind,
      GroupWelcomeKind, SessionProposalCoSpeakerInvitationKind, SpeakerSeriesWelcomeKind,
      SpeakerWelcomeKind]"

definition kind_from_string :: "string \<Rightarrow> NotificationKind option" where
  "kind_from_string s = find (\<lambda>k. kind_to_string k = s) notification_kinds"

record Attachment =
  at_content_type :: string
  at_data :: string
  at_file_name :: string

record NewNotification =
  nn_attachments :: "Attachment list"
  nn_kind :: NotificationKind
  nn_recipients :: "uuid list"
  nn_template_data :: "json option"

record Notification =
  no_attachments :: "Attachment list"
  no_delivery_claimed_at :: instant
  no_email :: string
  no_kind :: NotificationKind
  no_notification_id :: uuid
  no_template_data :: "json option"

section \<open>Templates\<close>

record BadgeAwarded =
  ba_badge :: BadgeSnapshot
  ba_dashboard_url :: string
  ba_theme :: Theme
  ba_base_url :: string

definition badge_awarded_image_url :: "BadgeAwarded \<Rightarrow> string" where
  "badge_awarded_image_url t = base_url_without_trailing_slash (ba_base_url t) @ ''/images/badges/'' @
     bs_image_file_name (ba_badge t)"

record BadgeRevoked =
  br_badge_name :: string
  br_dashboard_url :: string
  br_group_name :: string
  br_theme :: Theme

record CommunityTeamInvitation =
  ci_community_name :: string
  ci_link :: string
  ci_theme :: Theme

record SessionProposalCoSpeakerInvitation =
  pi_link :: string
  pi_session_proposal_title :: string
  pi_speaker_name :: string
  pi_theme :: Theme

text \<open>Templates about one event.\<close>

record event_template =
  et_event :: EventSummary
  et_link :: string
  et_theme :: Theme

type_synonym EventCanceled = event_template
type_synonym EventPublished = event_template
type_synonym EventRefundApproved = event_template
type_synonym EventRefundRequested = event_template
type_synonym EventRescheduled = event_template
type_synonym EventWaitlistJoined = event_template
type_synonym EventWaitlistLeft = event_template
type_synonym SpeakerWelcome = event_template

record CfsSubmissionUpdated = event_template +
  su_status_name :: string
  su_action_required_message :: "string option"

record EventAttendanceCanceled = event_template +
  ac_dashboard_link :: string

record EventCustom = event_template +
  ec_body :: string
  ec_subject :: string

record EventInvitation = event_template +
  ei_has_registration_questions :: bool

record EventRefundRejected = event_template +
  rr_rejection_reason :: string

record EventReminder = event_template +
  er_show_attendance_cancellation_copy :: bool
  er_dashboard_link :: "string option"

record EventWaitlistPromoted = event_template +
  wp_has_registration_questions :: bool
  wp_dashboard_link :: "string option"

record EventWelcome = event_template +
  ew_dashboard_link :: "string option"

text \<open>Templates about an admission offer.\<close>

record EventAdmissionOfferCanceled =
  oc_dashboard_url :: string
  oc_event_name :: string
  oc_group_name :: string
  oc_theme :: Theme
  oc_ticket_title :: "string option"

record EventAdmissionOfferDeclined = EventAdmissionOfferCanceled +
  od_recipient_name :: string

record EventAdmissionOfferCreated = EventAdmissionOfferCanceled +
  on_expires_at :: instant
  on_timezone :: string
  on_amount_minor :: "int option"
  on_currency_code :: "string option"
  on_is_simple_rsvp :: bool
  on_registration_questions_required :: bool

record EventTicketRequestApproved =
  tq_amount_minor :: int
  tq_dashboard_url :: string
  tq_event_name :: string
  tq_expires_at :: instant
  tq_group_name :: string
  tq_theme :: Theme
  tq_ticket_title :: string
  tq_timezone :: string
  tq_currency_code :: "string option"
  tq_is_simple_rsvp :: bool

type_synonym EventTicketWaitlistOffer = EventTicketRequestApproved

definition format_offer_price :: "int option \<Rightarrow> string option \<Rightarrow> string" where
  "format_offer_price amount_minor currency_code =
     (case amount_minor of
        None \<Rightarrow> ''Free''
      | Some amount_minor \<Rightarrow>
          if amount_minor = 0 then ''Free''
          else (case currency_code of
             None \<Rightarrow> ''Price unavailable''
           | Some currency_code \<Rightarrow> format_amount_minor amount_minor currency_code))"

definition offer_price_label :: "EventAdmissionOfferCreated \<Rightarrow> string" where
  "offer_price_label t = format_offer_price (on_amount_minor t) (on_currency_code t)"

definition ticket_price_label :: "EventTicketRequestApproved \<Rightarrow> string" where
  "ticket_price_label t = format_offer_price (Some (tq_amount_minor t)) (tq_currency_code t)"

text \<open>Templates about several events.\<close>

record EventPaidConfiguredItem =
  pc_event_id :: uuid
  pc_name :: string
  pc_timezone :: string
  pc_starts_at :: "instant option"

record EventPaidConfigured =
  ep_community_display_name :: string
  ep_event_count :: nat
  ep_events :: "EventPaidConfiguredItem list"
  ep_group_name :: string
  ep_theme :: Theme

record EventSeriesNotificationItem =
  si_event :: EventSummary
  si_link :: string

record EventSeriesCanceled =
  se_event_count :: nat
  se_events :: "EventSeriesNotificationItem list"
  se_group_name :: string
  se_theme :: Theme

type_synonym SpeakerSeriesWelcome = EventSeriesCanceled

record EventSeriesPublished = EventSeriesCanceled +
  sp_community_display_name :: string

text \<open>Templates about a group.\<close>

record GroupTeamInvitation =
  gi_group :: GroupSummary
  gi_link :: string
  gi_theme :: Theme

type_synonym GroupWelcome = GroupTeamInvitation

record GroupCustom = GroupTeamInvitation +
  gc_body :: string
  gc_subject :: string

text \<open>What serde and askama derive from a template type.\<close>

record 't template_codec =
  tc_from_value :: "json \<Rightarrow> anyhow + 't"
  tc_to_value :: "'t \<Rightarrow> anyhow + json"
  tc_render :: "'t \<Rightarrow> anyhow + string"

record templates =
  tm_badge_awarded :: "BadgeAwarded template_codec"
  tm_badge_revoked :: "BadgeRevoked template_codec"
  tm_cfs_submission_updated :: "CfsSubmissionUpdated template_codec"
  tm_community_team_invitation :: "CommunityTeamInvitation template_codec"
  tm_email_verification :: "EmailVerification template_codec"
  tm_event_admission_offer_canceled :: "EventAdmissionOfferCanceled template_codec"
  tm_event_admission_offer_created :: "EventAdmissionOfferCreated template_codec"
  tm_event_admission_offer_declined :: "EventAdmissionOfferDeclined template_codec"
  tm_event_attendance_canceled :: "EventAttendanceCanceled template_codec"
  tm_event_canceled :: "EventCanceled template_codec"
  tm_event_custom :: "EventCustom template_codec"
  tm_event_invitation :: "EventInvitation template_codec"
  tm_event_paid_configured :: "EventPaidConfigured template_codec"
  tm_event_published :: "EventPublished template_codec"
  tm_event_refund_approved :: "EventRefundApproved template_codec"
  tm_event_refund_rejected :: "EventRefundRejected template_codec"
  tm_event_refund_requested :: "EventRefundRequested template_codec"
  tm_event_reminder :: "EventReminder template_codec"
  tm_event_rescheduled :: "EventRescheduled template_codec"
  tm_event_series_canceled :: "EventSeriesCanceled template_codec"
  tm_event_series_published :: "EventSeriesPublished template_codec"
  tm_event_ticket_request_approved :: "EventTicketRequestApproved template_codec"
  tm_event_ticket_waitlist_offer :: "EventTicketWaitlistOffer template_codec"
  tm_event_waitlist_joined :: "EventWaitlistJoined template_codec"
  tm_event_waitlist_left :: "EventWaitlistLeft template_codec"
  tm_event_waitlist_promoted :: "EventWaitlistPromoted template_codec"
  tm_event_welcome :: "EventWelcome template_codec"
  tm_group_custom :: "GroupCustom template_codec"
  tm_group_team_invitation :: "GroupTeamInvitation template_codec"
  tm_group_welcome :: "GroupWelcome template_codec"
  tm_session_proposal_co_speaker_invitation :: "SessionProposalCoSpeakerInvitation template_codec"
  tm_speaker_series_welcome :: "SpeakerSeriesWelcome template_codec"
  tm_speaker_welcome :: "SpeakerWelcome template_codec"

section \<open>Subject and body\<close>

definition absolute_url :: "string \<Rightarrow> string \<Rightarrow> string" where
  "absolute_url base_url path =
     (let base_url = base_url_without_trailing_slash base_url
      in if prefix ''/'' path then base_url @ path else base_url @ ''/'' @ path)"

definition scoped_subject :: "string \<Rightarrow> string \<Rightarrow> string" where
  "scoped_subject scope subject = ''['' @ scope @ ''] '' @ subject"

text \<open>Links the database wrote without a host get one.\<close>

definition complete_url :: "string \<Rightarrow> string \<Rightarrow> string" where
  "complete_url base_url url = (if prefix ''/'' url then absolute_url base_url url else url)"

text \<open>Read the template, complete it, take its subject and render its body.\<close>

definition rendered ::
    "'t template_codec \<Rightarrow> ('t \<Rightarrow> 't) \<Rightarrow> ('t \<Rightarrow> string) \<Rightarrow> json \<Rightarrow> anyhow + string \<times> string" where
  "rendered codec complete subject data =
     and_then (tc_from_value codec data) (\<lambda>template.
     let template = complete template in
     and_then (tc_render codec template) (\<lambda>body. Inr (subject template, body)))"

text \<open>The subject of a template about one event, scoped by its group.\<close>

definition event_subject :: "string \<Rightarrow> ('a event_template_scheme) \<Rightarrow> string" where
  "event_subject subject t = scoped_subject (ev_group_name (et_event t)) subject"

definition prepare_content :: "templates \<Rightarrow> Notification \<Rightarrow> string \<Rightarrow> anyhow + string \<times> string" where
  "prepare_content tm notification base_url =
     and_then (ok_or (Msg ''missing template data'') (no_template_data notification)) (\<lambda>data.
     case no_kind notification of
       BadgeAwardedKind \<Rightarrow>
         rendered (tm_badge_awarded tm)
           (\<lambda>t. t\<lparr>ba_dashboard_url := complete_url base_url (ba_dashboard_url t), ba_base_url := base_url\<rparr>)
           (\<lambda>t. scoped_subject (bsi_group_name (bs_issuer (ba_badge t)))
              (''You earned the '' @ bs_name (ba_badge t) @ '' badge'')) data
     | BadgeRevokedKind \<Rightarrow>
         rendered (tm_badge_revoked tm)
           (\<lambda>t. t\<lparr>br_dashboard_url := complete_url base_url (br_dashboard_url t)\<rparr>)
           (\<lambda>t. scoped_subject (br_group_name t) (''Your '' @ br_badge_name t @ '' badge was revoked'')) data
     | CfsSubmissionUpdatedKind \<Rightarrow>
         rendered (tm_cfs_submission_updated tm) id
           (\<lambda>t. event_subject (''Submission update: '' @ ev_name (et_event t)) t) data
     | CommunityTeamInvitationKind \<Rightarrow>
         rendered (tm_community_team_invitation tm) id
           (\<lambda>t. scoped_subject (ci_community_name t) ''You have been invited to join a community team'') data
     | EmailVerificationKind \<Rightarrow>
         rendered (tm_email_verification tm) id (\<lambda>t. ''Verify your email address'') data
     | EventAdmissionOfferCanceledKind \<Rightarrow>
         rendered (tm_event_admission_offer_canceled tm)
           (\<lambda>t. t\<lparr>oc_dashboard_url := complete_url base_url (oc_dashboard_url t)\<rparr>)
           (\<lambda>t. scoped_subject (oc_group_name t) ''Your event offer was canceled'') data
     | EventAdmissionOfferCreatedKind \<Rightarrow>
         rendered (tm_event_admission_offer_created tm)
           (\<lambda>t. t\<lparr>oc_dashboard_url := complete_url base_url (oc_dashboard_url t)\<rparr>)
           (\<lambda>t. scoped_subject (oc_group_name t) ''You have a new event offer'') data
     | EventAdmissionOfferDeclinedKind \<Rightarrow>
         rendered (tm_event_admission_offer_declined tm)
           (\<lambda>t. t\<lparr>oc_dashboard_url := complete_url base_url (oc_dashboard_url t)\<rparr>)
           (\<lambda>t. scoped_subject (oc_group_name t) ''Event offer declined'') data
     | EventAttendanceCanceledKind \<Rightarrow>
         rendered (tm_event_attendance_canceled tm) id (event_subject ''Attendance canceled'') data
     | EventCanceledKind \<Rightarrow> rendered (tm_event_canceled tm) id (event_subject ''Event canceled'') data
     | EventCustomKind \<Rightarrow> rendered (tm_event_custom tm) id ec_subject data
     | EventInvitationKind \<Rightarrow>
         rendered (tm_event_invitation tm) id (event_subject ''You have been invited to an event'') data
     | EventPaidConfiguredKind \<Rightarrow>
         rendered (tm_event_paid_configured tm) id
           (\<lambda>t. scoped_subject (ep_group_name t)
              (if ep_event_count t = 1 then ''Paid event configured'' else ''Paid events configured'')) data
     | EventPublishedKind \<Rightarrow>
         rendered (tm_event_published tm) id (event_subject ''New event published'') data
     | EventRefundApprovedKind \<Rightarrow>
         rendered (tm_event_refund_approved tm) id (event_subject ''Refund approved'') data
     | EventRefundRejectedKind \<Rightarrow>
         rendered (tm_event_refund_rejected tm) id (event_subject ''Refund request update'') data
     | EventRefundRequestedKind \<Rightarrow>
         rendered (tm_event_refund_requested tm) id (event_subject ''Refund requested'') data
     | EventReminderKind \<Rightarrow>
         rendered (tm_event_reminder tm) id
           (\<lambda>t. event_subject (''Reminder: '' @ ev_name (et_event t) @ '' starts in 24 hours'') t) data
     | EventRescheduledKind \<Rightarrow>
         rendered (tm_event_rescheduled tm) id (event_subject ''Event rescheduled'') data
     | EventSeriesCanceledKind \<Rightarrow>
         rendered (tm_event_series_canceled tm) id (\<lambda>t. scoped_subject (se_group_name t) ''Events canceled'') data
     | EventSeriesPublishedKind \<Rightarrow>
         rendered (tm_event_series_published tm) id
           (\<lambda>t. scoped_subject (se_group_name t) ''New events published'') data
     | EventTicketRequestApprovedKind \<Rightarrow>
         rendered (tm_event_ticket_request_approved tm)
           (\<lambda>t. t\<lparr>tq_dashboard_url := complete_url base_url (tq_dashboard_url t)\<rparr>)
           (\<lambda>t. scoped_subject (tq_group_name t) ''Your event request was approved'') data
     | EventTicketWaitlistOfferKind \<Rightarrow>
         rendered (tm_event_ticket_waitlist_offer tm)
           (\<lambda>t. t\<lparr>tq_dashboard_url := complete_url base_url (tq_dashboard_url t)\<rparr>)
           (\<lambda>t. scoped_subject (tq_group_name t) ''A place is available for you'') data
     | EventWaitlistJoinedKind \<Rightarrow>
         rendered (tm_event_waitlist_joined tm) id (event_subject ''You joined the waiting list'') data
     | EventWaitlistLeftKind \<Rightarrow>
         rendered (tm_event_waitlist_left tm) id (event_subject ''You left the waiting list'') data
     | EventWaitlistPromotedKind \<Rightarrow>
         rendered (tm_event_waitlist_promoted tm) id (event_subject ''You moved off the waiting list'') data
     | EventWelcomeKind \<Rightarrow> rendered (tm_event_welcome tm) id (event_subject ''Welcome to the event'') data
     | GroupCustomKind \<Rightarrow> rendered (tm_group_custom tm) id gc_subject data
     | GroupTeamInvitationKind \<Rightarrow>
         rendered (tm_group_team_invitation tm) id
           (\<lambda>t. scoped_subject (gs_name (gi_group t)) ''You have been invited to join a group team'') data
     | GroupWelcomeKind \<Rightarrow>
         rendered (tm_group_welcome tm) id
           (\<lambda>t. scoped_subject (gs_name (gi_group t)) ''Welcome to the group'') data
     | SessionProposalCoSpeakerInvitationKind \<Rightarrow>
         rendered (tm_session_proposal_co_speaker_invitation tm) id
           (\<lambda>t. ''Session proposal co-speaker invitation'') data
     | SpeakerSeriesWelcomeKind \<Rightarrow>
         rendered (tm_speaker_series_welcome tm) id
           (\<lambda>t. scoped_subject (se_group_name t) ''You're speaking at upcoming events'') data
     | SpeakerWelcomeKind \<Rightarrow>
         rendered (tm_speaker_welcome tm) id (event_subject ''You're speaking at an event'') data)"

section \<open>Builders\<close>

definition build_event_page_link :: "string \<Rightarrow> EventSummary \<Rightarrow> string" where
  "build_event_page_link base_url event =
     base_url_without_trailing_slash base_url @ ''/'' @ ev_community_name event @ ''/group/'' @
     event_public_group_slug event @ ''/event/'' @ ev_slug event"

definition build_user_dashboard_events_link :: "string \<Rightarrow> string" where
  "build_user_dashboard_events_link base_url =
     base_url_without_trailing_slash base_url @ ''/dashboard/user?tab=events''"

text \<open>
  The builders take the base URL of the server configuration; those that attach the calendar file of
  the event take its maker too (\<^verbatim>\<open>build_event_calendar_attachment\<close>, with the clock it reads).
\<close>

type_synonym calendar = "string \<Rightarrow> EventSummary \<Rightarrow> Attachment"

definition new_notification ::
    "NotificationKind \<Rightarrow> Attachment list \<Rightarrow> uuid list \<Rightarrow> json \<Rightarrow> NewNotification" where
  "new_notification kind attachments recipients data =
     \<lparr>nn_attachments = attachments, nn_kind = kind, nn_recipients = recipients,
      nn_template_data = Some data\<rparr>"

definition event_page_template :: "string \<Rightarrow> EventSummary \<Rightarrow> SiteSettings \<Rightarrow> event_template" where
  "event_page_template base_url event site_settings =
     \<lparr>et_event = event, et_link = build_event_page_link base_url event, et_theme = ss_theme site_settings\<rparr>"

definition build_event_attendance_canceled_notification ::
    "templates \<Rightarrow> EventSummary \<Rightarrow> uuid \<Rightarrow> string \<Rightarrow> SiteSettings \<Rightarrow> anyhow + NewNotification" where
  "build_event_attendance_canceled_notification tm event recipient_user_id server_base_url site_settings =
     (let base_url = base_url_without_trailing_slash server_base_url;
          template_data = event_template.extend (event_page_template base_url event site_settings)
            (EventAttendanceCanceled.fields (build_user_dashboard_events_link base_url))
      in and_then (tc_to_value (tm_event_attendance_canceled tm) template_data) (\<lambda>data.
         Inr (new_notification EventAttendanceCanceledKind [] [recipient_user_id] data)))"

definition build_event_canceled_notification ::
    "templates \<Rightarrow> calendar \<Rightarrow> EventSummary \<Rightarrow> uuid list \<Rightarrow> string \<Rightarrow> SiteSettings \<Rightarrow>
     anyhow + NewNotification" where
  "build_event_canceled_notification tm cal event recipients server_base_url site_settings =
     (let base_url = base_url_without_trailing_slash server_base_url
      in and_then (tc_to_value (tm_event_canceled tm) (event_page_template base_url event site_settings))
         (\<lambda>data. Inr (new_notification EventCanceledKind [cal base_url event] recipients data)))"

definition build_event_paid_configured_notification ::
    "templates \<Rightarrow> EventSummary list \<Rightarrow> uuid list \<Rightarrow> SiteSettings \<Rightarrow> anyhow + NewNotification" where
  "build_event_paid_configured_notification tm events recipients site_settings =
     (case events of
        [] \<Rightarrow> Inl (Msg ''paid event notification requires at least one event'')
      | first_event # _ \<Rightarrow>
          let items = map (\<lambda>event. \<lparr>pc_event_id = ev_event_id event, pc_name = ev_name event,
                pc_timezone = ev_timezone event, pc_starts_at = ev_starts_at event\<rparr>) events;
              template_data = \<lparr>ep_community_display_name = ev_community_display_name first_event,
                ep_event_count = length items, ep_events = items,
                ep_group_name = ev_group_name first_event, ep_theme = ss_theme site_settings\<rparr>
          in and_then (tc_to_value (tm_event_paid_configured tm) template_data) (\<lambda>data.
             Inr (new_notification EventPaidConfiguredKind [] recipients data)))"

definition build_event_published_notification ::
    "templates \<Rightarrow> calendar \<Rightarrow> EventSummary \<Rightarrow> uuid list \<Rightarrow> string \<Rightarrow> SiteSettings \<Rightarrow>
     anyhow + NewNotification" where
  "build_event_published_notification tm cal event recipients server_base_url site_settings =
     (let base_url = base_url_without_trailing_slash server_base_url
      in and_then (tc_to_value (tm_event_published tm) (event_page_template base_url event site_settings))
         (\<lambda>data. Inr (new_notification EventPublishedKind [cal base_url event] recipients data)))"

definition build_event_refund_approved_template_data ::
    "templates \<Rightarrow> EventSummary \<Rightarrow> string \<Rightarrow> SiteSettings \<Rightarrow> anyhow + json" where
  "build_event_refund_approved_template_data tm event server_base_url site_settings =
     (let base_url = base_url_without_trailing_slash server_base_url
      in tc_to_value (tm_event_refund_approved tm) (event_page_template base_url event site_settings))"

definition build_event_refund_rejected_notification ::
    "templates \<Rightarrow> EventSummary \<Rightarrow> uuid \<Rightarrow> string \<Rightarrow> string \<Rightarrow> SiteSettings \<Rightarrow> anyhow + NewNotification" where
  "build_event_refund_rejected_notification tm event recipient_user_id rejection_reason server_base_url
     site_settings =
     (let base_url = base_url_without_trailing_slash server_base_url;
          template_data = event_template.extend (event_page_template base_url event site_settings)
            (EventRefundRejected.fields rejection_reason)
      in and_then (tc_to_value (tm_event_refund_rejected tm) template_data) (\<lambda>data.
         Inr (new_notification EventRefundRejectedKind [] [recipient_user_id] data)))"

definition build_event_rescheduled_notification ::
    "templates \<Rightarrow> calendar \<Rightarrow> EventSummary \<Rightarrow> uuid list \<Rightarrow> string \<Rightarrow> SiteSettings \<Rightarrow>
     anyhow + NewNotification" where
  "build_event_rescheduled_notification tm cal event recipients server_base_url site_settings =
     (let base_url = base_url_without_trailing_slash server_base_url
      in and_then (tc_to_value (tm_event_rescheduled tm) (event_page_template base_url event site_settings))
         (\<lambda>data. Inr (new_notification EventRescheduledKind [cal base_url event] recipients data)))"

definition build_event_waitlist_joined_notification ::
    "templates \<Rightarrow> EventSummary \<Rightarrow> uuid \<Rightarrow> string \<Rightarrow> SiteSettings \<Rightarrow> anyhow + NewNotification" where
  "build_event_waitlist_joined_notification tm event recipient_user_id server_base_url site_settings =
     (let base_url = base_url_without_trailing_slash server_base_url
      in and_then (tc_to_value (tm_event_waitlist_joined tm) (event_page_template base_url event site_settings))
         (\<lambda>data. Inr (new_notification EventWaitlistJoinedKind [] [recipient_user_id] data)))"

definition build_event_waitlist_left_notification ::
    "templates \<Rightarrow> EventSummary \<Rightarrow> uuid \<Rightarrow> string \<Rightarrow> SiteSettings \<Rightarrow> anyhow + NewNotification" where
  "build_event_waitlist_left_notification tm event recipient_user_id server_base_url site_settings =
     (let base_url = base_url_without_trailing_slash server_base_url
      in and_then (tc_to_value (tm_event_waitlist_left tm) (event_page_template base_url event site_settings))
         (\<lambda>data. Inr (new_notification EventWaitlistLeftKind [] [recipient_user_id] data)))"

definition build_event_welcome_notification ::
    "templates \<Rightarrow> calendar \<Rightarrow> EventSummary \<Rightarrow> uuid \<Rightarrow> string \<Rightarrow> SiteSettings \<Rightarrow> bool \<Rightarrow>
     anyhow + NewNotification" where
  "build_event_welcome_notification tm cal event recipient_user_id server_base_url site_settings
     include_dashboard_link =
     (let base_url = base_url_without_trailing_slash server_base_url;
          dashboard_link =
            (if include_dashboard_link then Some (build_user_dashboard_events_link base_url) else None);
          template_data = event_template.extend (event_page_template base_url event site_settings)
            (EventWelcome.fields dashboard_link)
      in and_then (tc_to_value (tm_event_welcome tm) template_data) (\<lambda>data.
         Inr (new_notification EventWelcomeKind [cal base_url event] [recipient_user_id] data)))"

definition build_speaker_welcome_notification ::
    "templates \<Rightarrow> calendar \<Rightarrow> EventSummary \<Rightarrow> uuid list \<Rightarrow> string \<Rightarrow> SiteSettings \<Rightarrow>
     anyhow + NewNotification" where
  "build_speaker_welcome_notification tm cal event recipients server_base_url site_settings =
     (let base_url = base_url_without_trailing_slash server_base_url
      in and_then (tc_to_value (tm_speaker_welcome tm) (event_page_template base_url event site_settings))
         (\<lambda>data. Inr (new_notification SpeakerWelcomeKind [cal base_url event] recipients data)))"

section \<open>An example\<close>

text \<open>Templates that serialise to nothing, of which only the verification e-mail can be read back.\<close>

definition no_codec :: "'t template_codec" where
  "no_codec = \<lparr>tc_from_value = \<lambda>_. Inl (Msg ''other template''), tc_to_value = \<lambda>_. Inr JNull,
     tc_render = \<lambda>_. Inl (Msg ''other template'')\<rparr>"

definition sample_templates :: templates where
  "sample_templates = \<lparr>
     tm_badge_awarded = no_codec, tm_badge_revoked = no_codec, tm_cfs_submission_updated = no_codec,
     tm_community_team_invitation = no_codec,
     tm_email_verification = no_codec\<lparr>
       tc_from_value := \<lambda>_. Inr \<lparr>ev_link = ''/verify'', ev_theme = JNull\<rparr>,
       tc_render := \<lambda>t. Inr (ev_link t)\<rparr>,
     tm_event_admission_offer_canceled = no_codec, tm_event_admission_offer_created = no_codec,
     tm_event_admission_offer_declined = no_codec, tm_event_attendance_canceled = no_codec,
     tm_event_canceled = no_codec, tm_event_custom = no_codec, tm_event_invitation = no_codec,
     tm_event_paid_configured = no_codec, tm_event_published = no_codec, tm_event_refund_approved = no_codec,
     tm_event_refund_rejected = no_codec, tm_event_refund_requested = no_codec, tm_event_reminder = no_codec,
     tm_event_rescheduled = no_codec, tm_event_series_canceled = no_codec,
     tm_event_series_published = no_codec, tm_event_ticket_request_approved = no_codec,
     tm_event_ticket_waitlist_offer = no_codec, tm_event_waitlist_joined = no_codec,
     tm_event_waitlist_left = no_codec, tm_event_waitlist_promoted = no_codec, tm_event_welcome = no_codec,
     tm_group_custom = no_codec, tm_group_team_invitation = no_codec, tm_group_welcome = no_codec,
     tm_session_proposal_co_speaker_invitation = no_codec, tm_speaker_series_welcome = no_codec,
     tm_speaker_welcome = no_codec\<rparr>"

end
