(* ===== verification/Notifications.thy ===== *)
theory Notifications
  imports Notification_Content
begin

text \<open>
  The delivery of notifications by e-mail (\<^verbatim>\<open>services/notifications.rs\<close>) and the database trait it uses
  (\<^verbatim>\<open>db/notifications.rs\<close>). Workers claim a queued notification, make a message of it, send it with a
  few attempts and record the outcome by what is safe to do next; other workers give up abandoned
  claims and queue the reminders of upcoming events.

  The mail library parses addresses and content types and builds messages; its functions are the
  fields of \<open>mail_lib\<close>. An error of its transport is known by the answers the code asks of it. The log
  is left out.
\<close>

section \<open>Errors\<close>

datatype EmailDeliveryError = EmailRetryable anyhow | EmailTerminal anyhow | EmailUnknown anyhow

datatype SmtpErrorKind =
    SmtpClient | SmtpConnection | SmtpPermanent | SmtpTls | SmtpTransient | SmtpTransportShutdown
  | SmtpUnknown

record SmtpError =
  sx_is_client :: bool
  sx_is_permanent :: bool
  sx_is_tls :: bool
  sx_is_transient :: bool
  sx_is_transport_shutdown :: bool
  sx_to_string :: string

definition from_smtp_kind :: "SmtpErrorKind \<Rightarrow> anyhow \<Rightarrow> EmailDeliveryError" where
  "from_smtp_kind kind err =
     (if kind \<in> {SmtpClient, SmtpPermanent, SmtpTls} then EmailTerminal err
      else if kind \<in> {SmtpConnection, SmtpTransient, SmtpTransportShutdown} then EmailRetryable err
      else EmailUnknown err)"

definition smtp_error_kind :: "SmtpError \<Rightarrow> SmtpErrorKind" where
  "smtp_error_kind err =
     (if sx_is_client err then SmtpClient
      else if prefix ''Connection error'' (sx_to_string err) then SmtpConnection
      else if sx_is_permanent err then SmtpPermanent
      else if sx_is_tls err then SmtpTls
      else if sx_is_transient err then SmtpTransient
      else if sx_is_transport_shutdown err then SmtpTransportShutdown
      else SmtpUnknown)"

definition from_smtp :: "SmtpError \<Rightarrow> EmailDeliveryError" where
  "from_smtp err = from_smtp_kind (smtp_error_kind err) (Msg (sx_to_string err))"

definition email_is_retryable :: "EmailDeliveryError \<Rightarrow> bool" where
  "email_is_retryable err = (case err of EmailRetryable _ \<Rightarrow> True | _ \<Rightarrow> False)"

definition email_error_to_string :: "EmailDeliveryError \<Rightarrow> string" where
  "email_error_to_string err = (case err of
     EmailRetryable e \<Rightarrow> err_to_string e | EmailTerminal e \<Rightarrow> err_to_string e
   | EmailUnknown e \<Rightarrow> err_to_string e)"

section \<open>What the workers use\<close>

record CustomNotificationTracking =
  ct_body :: string
  ct_created_by :: uuid
  ct_event_id :: "uuid option"
  ct_group_id :: "uuid option"
  ct_recipient_count :: nat
  ct_subject :: string

record 's DBNotifications =
  db_claim_pending_notification :: "('s, Notification option) io"
  db_enqueue_due_event_reminders :: "string \<Rightarrow> ('s, nat) io"
  db_enqueue_notification :: "NewNotification \<Rightarrow> ('s, unit) io"
  db_enqueue_tracked_custom_notification ::
    "NewNotification \<Rightarrow> CustomNotificationTracking \<Rightarrow> ('s, unit) io"
  db_get_notification_attachment :: "uuid \<Rightarrow> ('s, Attachment) io"
  db_mark_notification_delivery_unknown :: "Notification \<Rightarrow> string \<Rightarrow> ('s, unit) io"
  db_mark_stale_processing_notifications_unknown :: "duration \<Rightarrow> ('s, nat) io"
  db_requeue_notification ::
    "Notification \<Rightarrow> string \<Rightarrow> duration \<Rightarrow> duration \<Rightarrow> nat \<Rightarrow> ('s, unit) io"
  db_update_notification :: "Notification \<Rightarrow> string option \<Rightarrow> ('s, unit) io"

record SmtpConfig =
  sc_host :: string
  sc_password :: string
  sc_port :: nat
  sc_username :: string

record EmailConfig =
  em_from_address :: string
  em_from_name :: string
  em_smtp :: SmtpConfig
  em_rcpts_whitelist :: "string list option"

record Message =
  ms_from_name :: string
  ms_from_address :: string
  ms_to :: string
  ms_subject :: string
  ms_body :: string
  ms_attachments :: "Attachment list"

record mail_lib =
  ml_parse_address :: "string \<Rightarrow> anyhow + string"
  ml_parse_content_type :: "string \<Rightarrow> anyhow + string"
  ml_build :: "Message \<Rightarrow> anyhow + Message"

type_synonym 's EmailSender = "Message \<Rightarrow> ('s, EmailDeliveryError, unit) act"

text \<open>The sender over a transport, and the encryption of the transport.\<close>

definition lettre_send :: "(Message \<Rightarrow> ('s, SmtpError, unit) act) \<Rightarrow> 's EmailSender" where
  "lettre_send transport message = act_map_err from_smtp (transport message)"

datatype transport_tls = ImplicitTls | StartTls

definition SUBMISSIONS_PORT :: nat where "SUBMISSIONS_PORT = 465"

definition transport_builder :: "EmailConfig \<Rightarrow> transport_tls \<times> string \<times> nat" where
  "transport_builder cfg =
     (if sc_port (em_smtp cfg) = SUBMISSIONS_PORT then ImplicitTls else StartTls,
      sc_host (em_smtp cfg), sc_port (em_smtp cfg))"

section \<open>Constants\<close>

definition DELIVERY_MAX_CLAIMS :: nat where "DELIVERY_MAX_CLAIMS = 10"
definition DELIVERY_PROCESSING_TIMEOUT :: duration where "DELIVERY_PROCESSING_TIMEOUT = from_secs (15 * 60)"
definition DELIVERY_REQUEUE_BASE_DELAY :: duration where "DELIVERY_REQUEUE_BASE_DELAY = from_secs 60"
definition DELIVERY_REQUEUE_MAX_DELAY :: duration where "DELIVERY_REQUEUE_MAX_DELAY = from_secs (30 * 60)"
definition DELIVERY_SEND_MAX_ATTEMPTS :: nat where "DELIVERY_SEND_MAX_ATTEMPTS = 3"
definition NUM_DELIVERY_RECOVERY_WORKERS :: nat where "NUM_DELIVERY_RECOVERY_WORKERS = 1"
definition NUM_DELIVERY_WORKERS :: nat where "NUM_DELIVERY_WORKERS = 2"
definition NUM_ENQUEUE_WORKERS :: nat where "NUM_ENQUEUE_WORKERS = 1"
definition PAUSE_ON_DELIVERY_ERROR :: duration where "PAUSE_ON_DELIVERY_ERROR = from_secs 10"
definition PAUSE_ON_DELIVERY_NONE :: duration where "PAUSE_ON_DELIVERY_NONE = from_secs 15"
definition PAUSE_ON_DELIVERY_RECOVERY_ERROR :: duration where "PAUSE_ON_DELIVERY_RECOVERY_ERROR = from_secs 30"
definition PAUSE_ON_DELIVERY_RECOVERY_NONE :: duration where "PAUSE_ON_DELIVERY_RECOVERY_NONE = from_secs 60"
definition PAUSE_ON_DELIVERY_RETRY :: duration where "PAUSE_ON_DELIVERY_RETRY = from_secs 5"
definition PAUSE_ON_ENQUEUE_ERROR :: duration where "PAUSE_ON_ENQUEUE_ERROR = from_secs 30"
definition PAUSE_ON_ENQUEUE_NONE :: duration where "PAUSE_ON_ENQUEUE_NONE = from_secs (5 * 60)"

section \<open>Sending\<close>

text \<open>A library error while preparing the message is terminal.\<close>

definition or_terminal :: "anyhow + 'a \<Rightarrow> EmailDeliveryError + 'a" where
  "or_terminal r = (case r of Inl e \<Rightarrow> Inl (EmailTerminal e) | Inr x \<Rightarrow> Inr x)"

fun attachment_parts :: "mail_lib \<Rightarrow> Attachment list \<Rightarrow> EmailDeliveryError + Attachment list" where
  "attachment_parts ml [] = Inr []"
| "attachment_parts ml (attachment # rest) =
     and_then (or_terminal (ml_parse_content_type ml (at_content_type attachment))) (\<lambda>content_type.
     and_then (attachment_parts ml rest) (\<lambda>parts.
     Inr (attachment\<lparr>at_content_type := content_type\<rparr> # parts)))"

definition email_message ::
    "mail_lib \<Rightarrow> EmailConfig \<Rightarrow> string \<Rightarrow> string \<Rightarrow> string \<Rightarrow> Attachment list \<Rightarrow> EmailDeliveryError + Message" where
  "email_message ml cfg to_address subject body attachments =
     and_then (or_terminal (ml_parse_address ml (em_from_address cfg))) (\<lambda>from_address.
     and_then (or_terminal (ml_parse_address ml to_address)) (\<lambda>recipient.
     and_then (attachment_parts ml attachments) (\<lambda>parts.
     or_terminal (ml_build ml \<lparr>ms_from_name = em_from_name cfg, ms_from_address = from_address,
        ms_to = recipient, ms_subject = subject, ms_body = body, ms_attachments = parts\<rparr>))))"

definition recipient_allowed :: "EmailConfig \<Rightarrow> string \<Rightarrow> bool" where
  "recipient_allowed cfg to_address =
     (case em_rcpts_whitelist cfg of
        Some whitelist \<Rightarrow> whitelist \<noteq> [] \<and> list_ex (\<lambda>wa. wa = to_address) whitelist
      | None \<Rightarrow> True)"

definition send_email ::
    "mail_lib \<Rightarrow> EmailConfig \<Rightarrow> 's EmailSender \<Rightarrow> string \<Rightarrow> string \<Rightarrow> string \<Rightarrow> Attachment list \<Rightarrow>
     ('s, EmailDeliveryError, unit) act" where
  "send_email ml cfg sender to_address subject body attachments =
     act_bind (act_lift (email_message ml cfg to_address subject body attachments)) (\<lambda>message.
     if \<not> recipient_allowed cfg to_address then act_ok ()
     else act_bind (sender message) (\<lambda>_. act_ok ()))"

text \<open>
  The loop over attempts, from a given one. Between two of them the worker sleeps, which the world
  sees as \<open>pause\<close>.
\<close>

function send_attempts ::
    "(duration \<Rightarrow> 's \<Rightarrow> 's) \<Rightarrow> ('s, EmailDeliveryError, unit) act \<Rightarrow> nat \<Rightarrow>
     ('s, EmailDeliveryError, unit) act" where
  "send_attempts pause send attempt s =
     (case send s of
        (Inr _, s1) \<Rightarrow> (Inr (), s1)
      | (Inl err, s1) \<Rightarrow>
          if attempt < DELIVERY_SEND_MAX_ATTEMPTS \<and> email_is_retryable err
          then send_attempts pause send (attempt + 1) (pause PAUSE_ON_DELIVERY_RETRY s1)
          else (Inl err, s1))"
  by pat_completeness auto
termination
  by (relation "measure (\<lambda>(_, _, attempt, _). DELIVERY_SEND_MAX_ATTEMPTS - attempt)") auto

declare send_attempts.simps [simp del]

definition send_email_with_retries ::
    "(duration \<Rightarrow> 's \<Rightarrow> 's) \<Rightarrow> mail_lib \<Rightarrow> EmailConfig \<Rightarrow> 's EmailSender \<Rightarrow> string \<Rightarrow> string \<Rightarrow> string \<Rightarrow>
     Attachment list \<Rightarrow> ('s, EmailDeliveryError, unit) act" where
  "send_email_with_retries pause ml cfg sender to_address subject body attachments =
     send_attempts pause (send_email ml cfg sender to_address subject body attachments) 1"

section \<open>The delivery worker\<close>

record 's DeliveryWorker =
  wk_base_url :: string
  wk_cfg :: EmailConfig
  wk_db :: "'s DBNotifications"
  wk_email_sender :: "'s EmailSender"
  wk_mail :: mail_lib
  wk_pause :: "duration \<Rightarrow> 's \<Rightarrow> 's"
  wk_templates :: templates

definition record_delivery_error ::
    "'s DeliveryWorker \<Rightarrow> Notification \<Rightarrow> EmailDeliveryError \<Rightarrow> ('s, unit) io" where
  "record_delivery_error w notification err =
     (let error = email_error_to_string err in
      case err of
        EmailRetryable _ \<Rightarrow>
          db_requeue_notification (wk_db w) notification error DELIVERY_REQUEUE_BASE_DELAY
            DELIVERY_REQUEUE_MAX_DELAY DELIVERY_MAX_CLAIMS
      | EmailTerminal _ \<Rightarrow> db_update_notification (wk_db w) notification (Some error)
      | EmailUnknown _ \<Rightarrow> db_mark_notification_delivery_unknown (wk_db w) notification error)"

definition deliver_claimed :: "'s DeliveryWorker \<Rightarrow> Notification \<Rightarrow> ('s, unit) io" where
  "deliver_claimed w notification =
     (case prepare_content (wk_templates w) notification (wk_base_url w) of
        Inr (subject, body) \<Rightarrow>
          act_try (send_email_with_retries (wk_pause w) (wk_mail w) (wk_cfg w) (wk_email_sender w)
                     (no_email notification) subject body (no_attachments notification))
            (\<lambda>r. case r of
               Inr _ \<Rightarrow> db_update_notification (wk_db w) notification None
             | Inl err \<Rightarrow> record_delivery_error w notification err)
      | Inl err \<Rightarrow> db_update_notification (wk_db w) notification (Some (err_to_string err)))"

definition deliver_notification :: "'s DeliveryWorker \<Rightarrow> ('s, bool) io" where
  "deliver_notification w =
     act_bind (db_claim_pending_notification (wk_db w)) (\<lambda>claimed.
     case claimed of
       None \<Rightarrow> act_ok False
     | Some notification \<Rightarrow>
         act_bind (deliver_claimed w notification) (\<lambda>_. act_ok True))"

section \<open>The loops\<close>

definition delivery_pause :: "anyhow + bool \<Rightarrow> nat option" where
  "delivery_pause result = (case result of
     Inr True \<Rightarrow> None
   | Inr False \<Rightarrow> Some (pause_secs PAUSE_ON_DELIVERY_NONE)
   | Inl _ \<Rightarrow> Some (pause_secs PAUSE_ON_DELIVERY_ERROR))"

definition delivery_turn :: "'s shutdown \<Rightarrow> 's DeliveryWorker \<Rightarrow> 's \<Rightarrow> 's + 's" where
  "delivery_turn sd w s =
     (case deliver_notification w s of (result, s1) \<Rightarrow> sleep_then_check sd (delivery_pause result) s1)"

definition delivery_run :: "'s shutdown \<Rightarrow> 's DeliveryWorker \<Rightarrow> 's \<Rightarrow> 's option" where
  "delivery_run sd w = run_loop (delivery_turn sd w)"

definition enqueue_due_notifications :: "'s DBNotifications \<Rightarrow> string \<Rightarrow> ('s, nat) io" where
  "enqueue_due_notifications db base_url = db_enqueue_due_event_reminders db base_url"

definition enqueue_turn :: "'s shutdown \<Rightarrow> 's DBNotifications \<Rightarrow> string \<Rightarrow> 's \<Rightarrow> 's + 's" where
  "enqueue_turn sd db base_url s =
     (case enqueue_due_notifications db base_url s of
        (Inr _, s1) \<Rightarrow> sleep_or_break sd (pause_secs PAUSE_ON_ENQUEUE_NONE) s1
      | (Inl _, s1) \<Rightarrow> sleep_or_break sd (pause_secs PAUSE_ON_ENQUEUE_ERROR) s1)"

definition enqueue_run :: "'s shutdown \<Rightarrow> 's DBNotifications \<Rightarrow> string \<Rightarrow> 's \<Rightarrow> 's option" where
  "enqueue_run sd db base_url = run_loop (enqueue_turn sd db base_url)"

definition recover_stale_deliveries :: "'s DBNotifications \<Rightarrow> ('s, nat) io" where
  "recover_stale_deliveries db =
     db_mark_stale_processing_notifications_unknown db DELIVERY_PROCESSING_TIMEOUT"

definition delivery_recovery_turn :: "'s shutdown \<Rightarrow> 's DBNotifications \<Rightarrow> 's \<Rightarrow> 's + 's" where
  "delivery_recovery_turn sd db s =
     (case recover_stale_deliveries db s of
        (Inr _, s1) \<Rightarrow> sleep_or_break sd (pause_secs PAUSE_ON_DELIVERY_RECOVERY_NONE) s1
      | (Inl _, s1) \<Rightarrow> sleep_or_break sd (pause_secs PAUSE_ON_DELIVERY_RECOVERY_ERROR) s1)"

definition delivery_recovery_run :: "'s shutdown \<Rightarrow> 's DBNotifications \<Rightarrow> 's \<Rightarrow> 's option" where
  "delivery_recovery_run sd db = run_loop (delivery_recovery_turn sd db)"

text \<open>The workers a manager spawns, with the base URL they are given, and its own operation.\<close>

datatype notification_worker = Enqueuer string | Recoverer | Deliverer string

definition spawned_notification_workers :: "string \<Rightarrow> notification_worker list" where
  "spawned_notification_workers base_url =
     (let base_url = base_url_without_trailing_slash base_url
      in replicate NUM_ENQUEUE_WORKERS (Enqueuer base_url) @
         replicate NUM_DELIVERY_RECOVERY_WORKERS Recoverer @
         replicate NUM_DELIVERY_WORKERS (Deliverer base_url))"

definition manager_enqueue :: "'s DBNotifications \<Rightarrow> NewNotification \<Rightarrow> ('s, unit) io" where
  "manager_enqueue db notification = db_enqueue_notification db notification"

end
