(* ===== verification/Notification_Store.thy ===== *)
theory Notification_Store
  imports Notifications
begin

text \<open>
  The tables behind notifications, the SQL functions on them
  (\<^verbatim>\<open>database/migrations/functions/notifications\<close>) and the Postgres implementation of
  \<^verbatim>\<open>DBNotifications\<close> (\<^verbatim>\<open>db/notifications.rs\<close>).

  Of the tables of users and events there are the columns the functions read or write; an event row
  carries the columns of its group and community. A function runs in one transaction at the time
  \<open>ns_now\<close> (in microseconds); rows locked by other transactions are in \<open>ns_locked\<close>. The order of a
  table is its physical one. Fresh identifiers, the digests and base64 are the fields of
  \<open>notify_env\<close>, with the summary of an event as JSON, which another SQL function computes.
\<close>

section \<open>Tables\<close>

datatype delivery_status =
    DeliveryUnknown | DeliveryFailed | DeliveryPending | DeliveryProcessed | DeliveryProcessing

record notified_user =
  nu_user_id :: uuid
  nu_email :: string
  nu_email_verified :: bool
  nu_optional_notifications_enabled :: bool
  nu_registration_status :: string

record kind_row =
  nk_name :: string
  nk_optional_notification :: bool

record template_data_row =
  td_id :: uuid
  td_data :: json
  td_hash :: string

record attachment_row =
  ar_id :: uuid
  ar_content_type :: string
  ar_data :: string
  ar_file_name :: string
  ar_hash :: string

record notification_row =
  nr_id :: uuid
  nr_created_at :: instant
  nr_delivery_attempts :: int
  nr_delivery_status :: delivery_status
  nr_kind :: string
  nr_user_id :: uuid
  nr_delivery_claimed_at :: "instant option"
  nr_error :: "string option"
  nr_next_delivery_attempt_at :: "instant option"
  nr_template_data_id :: "uuid option"
  nr_processed_at :: "instant option"

record custom_notification_row =
  cn_body :: string
  cn_created_by :: uuid
  cn_event_id :: "uuid option"
  cn_group_id :: "uuid option"
  cn_subject :: string

record reminder_event =
  re_event_id :: uuid
  re_attendees :: "(uuid \<times> string) list"
  re_canceled :: bool
  re_community_active :: bool
  re_community_id :: uuid
  re_community_name :: string
  re_deleted :: bool
  re_event_reminder_enabled :: bool
  re_event_reminder_evaluated_for_starts_at :: "instant option"
  re_event_reminder_sent_at :: "instant option"
  re_group_active :: bool
  re_group_deleted :: bool
  re_group_id :: uuid
  re_group_slug :: string
  re_group_slug_pretty :: "string option"
  re_published :: bool
  re_slug :: string
  re_speakers :: "uuid list"
  re_starts_at :: "instant option"
  re_test_event :: bool

text \<open>Entries of the audit log; the name of the database user is left out.\<close>

datatype notification_audit =
    ManuallyRequeued uuid delivery_status "string option" string
  | CustomSent uuid "uuid option" "uuid option" int string

record notification_store =
  ns_now :: instant
  ns_draws :: nat
  ns_locked :: "uuid list"
  ns_reminder_lock_taken :: bool
  ns_users :: "notified_user list"
  ns_kinds :: "kind_row list"
  ns_template_data :: "template_data_row list"
  ns_attachments :: "attachment_row list"
  ns_notifications :: "notification_row list"
  ns_links :: "(uuid \<times> uuid) list"
  ns_custom :: "custom_notification_row list"
  ns_events :: "reminder_event list"
  ns_theme :: "json option"
  ns_audit :: "notification_audit list"

record notify_env =
  nv_uuid :: "nat \<Rightarrow> uuid"
  nv_data_hash :: "json \<Rightarrow> string"
  nv_bytes_hash :: "string \<Rightarrow> string"
  nv_base64_encode :: "string \<Rightarrow> string"
  nv_base64_decode :: "string \<Rightarrow> string option"
  nv_event_summary :: "reminder_event \<Rightarrow> json"

type_synonym 'a notify_tx = "notification_store \<Rightarrow> string + 'a \<times> notification_store"

definition secs :: "int \<Rightarrow> int" where
  "secs n = n * 1000000"

definition find_notified :: "uuid \<Rightarrow> notification_store \<Rightarrow> notified_user option" where
  "find_notified u st = find (\<lambda>x. nu_user_id x = u) (ns_users st)"

definition template_data_of :: "notification_row \<Rightarrow> notification_store \<Rightarrow> json option" where
  "template_data_of n st = Option.bind (nr_template_data_id n)
     (\<lambda>i. map_option td_data (find (\<lambda>d. td_id d = i) (ns_template_data st)))"

definition map_notifications ::
    "(notification_row \<Rightarrow> notification_row) \<Rightarrow> notification_store \<Rightarrow> notification_store" where
  "map_notifications f st = st\<lparr>ns_notifications := map f (ns_notifications st)\<rparr>"

definition check_violated :: string where
  "check_violated = ''new row violates check constraint''"

section \<open>Claiming\<close>

text \<open>Claims whose time lies in the rolling window.\<close>

definition claimed_since :: "instant \<Rightarrow> notification_row \<Rightarrow> bool" where
  "claimed_since t n = (case nr_delivery_claimed_at n of Some c \<Rightarrow> c \<ge> t | None \<Rightarrow> False)"

text \<open>Who may be written to: verified users, and others only about what concerns their account.\<close>

definition eligible_user :: "notified_user \<Rightarrow> string \<Rightarrow> bool" where
  "eligible_user u kind \<longleftrightarrow>
     nu_registration_status u = ''registered'' \<and> nu_email_verified u \<or>
     kind = ''email-verification'' \<or>
     kind \<in> {''event-admission-offer-canceled'', ''event-admission-offer-created'', ''event-invitation''} \<and>
       nu_registration_status u = ''pre-registered''"

definition deliverable :: "notification_store \<Rightarrow> notification_row \<Rightarrow> bool" where
  "deliverable st n \<longleftrightarrow>
     nr_delivery_status n = DeliveryPending \<and>
     (case nr_next_delivery_attempt_at n of Some t \<Rightarrow> t \<le> ns_now st | None \<Rightarrow> True) \<and>
     (case find_notified (nr_user_id n) st of Some u \<Rightarrow> eligible_user u (nr_kind n) | None \<Rightarrow> False)"

definition claimed_row :: "instant \<Rightarrow> notification_row \<Rightarrow> notification_row" where
  "claimed_row now n = n\<lparr>nr_delivery_attempts := nr_delivery_attempts n + 1,
     nr_delivery_claimed_at := Some now, nr_delivery_status := DeliveryProcessing, nr_error := None,
     nr_next_delivery_attempt_at := None, nr_processed_at := None\<rparr>"

record claimed_notification =
  cl_attachment_ids :: "uuid list option"
  cl_delivery_claimed_at :: instant
  cl_email :: string
  cl_kind :: string
  cl_notification_id :: uuid
  cl_template_data :: "json option"

definition claim_answer :: "notification_store \<Rightarrow> notification_row \<Rightarrow> claimed_notification" where
  "claim_answer st n =
     (let ids = sort (map snd (filter (\<lambda>link. fst link = nr_id n) (ns_links st)))
      in \<lparr>cl_attachment_ids = (if ids = [] then None else Some ids),
          cl_delivery_claimed_at = ns_now st,
          cl_email = (case find_notified (nr_user_id n) st of Some u \<Rightarrow> nu_email u | None \<Rightarrow> []),
          cl_kind = nr_kind n, cl_notification_id = nr_id n,
          cl_template_data = template_data_of n st\<rparr>)"

definition claim_pending_notification :: "int \<Rightarrow> int \<Rightarrow> claimed_notification option notify_tx" where
  "claim_pending_notification rate_limit window st =
     (if rate_limit \<le> 0 then Inl ''delivery rate limit must be positive''
      else if window \<le> 0 then Inl ''delivery rate limit window must be positive''
      else if int (length (filter (claimed_since (ns_now st - secs window)) (ns_notifications st))) \<ge> rate_limit
      then Inr (None, st)
      else
        case sort_key nr_created_at
               (filter (\<lambda>n. deliverable st n \<and> nr_id n \<notin> set (ns_locked st)) (ns_notifications st)) of
          [] \<Rightarrow> Inr (None, st)
        | n # _ \<Rightarrow>
            Inr (Some (claim_answer st n),
              map_notifications (\<lambda>m. if nr_id m = nr_id n then claimed_row (ns_now st) m else m) st))"

definition DELIVERY_RATE_LIMIT :: int where "DELIVERY_RATE_LIMIT = 15000"
definition DELIVERY_RATE_LIMIT_WINDOW :: int where "DELIVERY_RATE_LIMIT_WINDOW = 60"

section \<open>Recording an outcome\<close>

definition holds_claim :: "uuid \<Rightarrow> instant \<Rightarrow> notification_row \<Rightarrow> bool" where
  "holds_claim i claimed_at n \<longleftrightarrow>
     nr_id n = i \<and> nr_delivery_status n = DeliveryProcessing \<and> nr_delivery_claimed_at n = Some claimed_at"

definition change_claimed ::
    "uuid \<Rightarrow> instant \<Rightarrow> (notification_row \<Rightarrow> notification_row) \<Rightarrow> unit notify_tx" where
  "change_claimed i claimed_at f st =
     (if list_ex (holds_claim i claimed_at) (ns_notifications st)
      then Inr ((), map_notifications (\<lambda>n. if holds_claim i claimed_at n then f n else n) st)
      else Inl ''notification delivery claim not found or no longer active'')"

definition settled_row ::
    "delivery_status \<Rightarrow> string option \<Rightarrow> instant \<Rightarrow> notification_row \<Rightarrow> notification_row" where
  "settled_row status error now n = n\<lparr>nr_delivery_status := status, nr_error := error,
     nr_next_delivery_attempt_at := None, nr_processed_at := Some now\<rparr>"

definition blank_error :: "string option \<Rightarrow> bool" where
  "blank_error error = (case error of Some e \<Rightarrow> btrim e = [] | None \<Rightarrow> False)"

definition update_notification :: "uuid \<Rightarrow> string option \<Rightarrow> instant \<Rightarrow> unit notify_tx" where
  "update_notification i error claimed_at st =
     and_then (change_claimed i claimed_at
         (settled_row (if error = None then DeliveryProcessed else DeliveryFailed) error (ns_now st)) st)
       (\<lambda>r. if blank_error error then Inl check_violated else Inr r)"

definition mark_notification_delivery_unknown :: "uuid \<Rightarrow> string option \<Rightarrow> instant \<Rightarrow> unit notify_tx" where
  "mark_notification_delivery_unknown i error claimed_at st =
     (if error = None \<or> blank_error error then Inl ''delivery error is required''
      else change_claimed i claimed_at (settled_row DeliveryUnknown error (ns_now st)) st)"

definition abandoned :: "instant \<Rightarrow> notification_row \<Rightarrow> bool" where
  "abandoned t n \<longleftrightarrow> nr_delivery_status n = DeliveryProcessing \<and>
     (case nr_delivery_claimed_at n of Some c \<Rightarrow> c < t | None \<Rightarrow> False)"

definition mark_stale_processing_notifications_unknown :: "int \<Rightarrow> int notify_tx" where
  "mark_stale_processing_notifications_unknown timeout st =
     (if timeout \<le> 0 then Inl ''processing timeout must be positive''
      else let stale = abandoned (ns_now st - secs timeout);
               error = ''delivery outcome unknown after processing timeout''
        in Inr (int (length (filter stale (ns_notifications st))),
             map_notifications
               (\<lambda>n. if stale n then settled_row DeliveryUnknown (Some error) (ns_now st) n else n) st))"

text \<open>The delay before the next attempt, in seconds; a cast to \<^verbatim>\<open>bigint\<close> may raise.\<close>

definition uncapped_retry :: "int \<Rightarrow> int \<Rightarrow> int" where
  "uncapped_retry base attempts = base * 2 ^ nat (min (max (attempts - 1) 0) 30)"

definition retry_after :: "int \<Rightarrow> int \<Rightarrow> int \<Rightarrow> int" where
  "retry_after base limit attempts = min limit (uncapped_retry base attempts)"

definition requeued_notification_row ::
    "string option \<Rightarrow> int \<Rightarrow> int \<Rightarrow> int \<Rightarrow> instant \<Rightarrow> notification_row \<Rightarrow> notification_row" where
  "requeued_notification_row error base limit max_attempts now n =
     (if nr_delivery_attempts n \<ge> max_attempts
      then n\<lparr>nr_delivery_status := DeliveryFailed, nr_error := error,
             nr_next_delivery_attempt_at := None, nr_processed_at := Some now\<rparr>
      else n\<lparr>nr_delivery_status := DeliveryPending, nr_error := error,
             nr_next_delivery_attempt_at := Some (now + secs (retry_after base limit (nr_delivery_attempts n))),
             nr_processed_at := None\<rparr>)"

definition requeue_notification ::
    "uuid \<Rightarrow> string option \<Rightarrow> int \<Rightarrow> int \<Rightarrow> int \<Rightarrow> instant \<Rightarrow> unit notify_tx" where
  "requeue_notification i error base limit max_attempts claimed_at st =
     (if error = None \<or> blank_error error then Inl ''delivery error is required''
      else if base \<le> 0 then Inl ''base retry delay must be positive''
      else if limit \<le> 0 then Inl ''maximum retry delay must be positive''
      else if limit < base then Inl ''maximum retry delay cannot be less than base retry delay''
      else if max_attempts \<le> 0 then Inl ''maximum delivery attempts must be positive''
      else if list_ex (\<lambda>n. holds_claim i claimed_at n \<and> nr_delivery_attempts n < max_attempts \<and>
                          uncapped_retry base (nr_delivery_attempts n) > 9223372036854775807)
                (ns_notifications st)
      then Inl ''bigint out of range''
      else change_claimed i claimed_at (requeued_notification_row error base limit max_attempts (ns_now st)) st)"

text \<open>An operator returns terminal notifications to the queue.\<close>

definition selected_terminal :: "uuid list \<Rightarrow> notification_row \<Rightarrow> bool" where
  "selected_terminal ids n \<longleftrightarrow> nr_id n \<in> set ids \<and> nr_delivery_status n \<in> {DeliveryUnknown, DeliveryFailed}"

definition reset_row :: "string \<Rightarrow> notification_row \<Rightarrow> notification_row" where
  "reset_row reason n = n\<lparr>nr_delivery_attempts := 0, nr_delivery_claimed_at := None,
     nr_delivery_status := DeliveryPending, nr_error := Some reason,
     nr_next_delivery_attempt_at := None, nr_processed_at := None\<rparr>"

definition manual_requeue_notifications :: "uuid list \<Rightarrow> string \<Rightarrow> int notify_tx" where
  "manual_requeue_notifications ids reason st =
     (if ids = [] then Inl ''notification ids are required''
      else if btrim reason = [] then Inl ''requeue reason is required''
      else let selected = sort_key nr_id (filter (selected_terminal ids) (ns_notifications st));
               st1 = map_notifications (\<lambda>n. if selected_terminal ids n then reset_row reason n else n) st
        in Inr (int (length selected),
             st1\<lparr>ns_audit := ns_audit st1 @ map (\<lambda>n. ManuallyRequeued (nr_id n)
                (nr_delivery_status n) (nr_error n) reason) selected\<rparr>))"

section \<open>Queueing\<close>

record EnqueueNotificationAttachment =
  ea_content_type :: string
  ea_data_base64 :: string
  ea_file_name :: string

text \<open>Template data is stored once per hash.\<close>

definition upsert_template_data :: "notify_env \<Rightarrow> json \<Rightarrow> notification_store \<Rightarrow> uuid \<times> notification_store" where
  "upsert_template_data env data st =
     (let hash = nv_data_hash env data in
      case find (\<lambda>d. td_hash d = hash) (ns_template_data st) of
        Some d \<Rightarrow> (td_id d, st)
      | None \<Rightarrow> (nv_uuid env (ns_draws st),
          st\<lparr>ns_draws := ns_draws st + 1, ns_template_data := ns_template_data st @
             [\<lparr>td_id = nv_uuid env (ns_draws st), td_data = data, td_hash = hash\<rparr>]\<rparr>))"

definition new_row :: "string \<Rightarrow> uuid option \<Rightarrow> instant \<Rightarrow> uuid \<Rightarrow> uuid \<Rightarrow> notification_row" where
  "new_row kind data_id now user i = \<lparr>nr_id = i, nr_created_at = now, nr_delivery_attempts = 0,
     nr_delivery_status = DeliveryPending, nr_kind = kind, nr_user_id = user,
     nr_delivery_claimed_at = None, nr_error = None, nr_next_delivery_attempt_at = None,
     nr_template_data_id = data_id, nr_processed_at = None\<rparr>"

definition fresh_ids :: "notify_env \<Rightarrow> nat \<Rightarrow> notification_store \<Rightarrow> uuid list" where
  "fresh_ids env n st = map (nv_uuid env) [ns_draws st..<ns_draws st + n]"

definition insert_notifications ::
    "notify_env \<Rightarrow> string \<Rightarrow> uuid option \<Rightarrow> uuid list \<Rightarrow> notification_store \<Rightarrow> notification_store" where
  "insert_notifications env kind data_id recipients st =
     st\<lparr>ns_draws := ns_draws st + length recipients, ns_notifications := ns_notifications st @
        map2 (new_row kind data_id (ns_now st)) recipients (fresh_ids env (length recipients) st)\<rparr>"

text \<open>A file is stored once per hash of its bytes.\<close>

definition upsert_attachment ::
    "notify_env \<Rightarrow> EnqueueNotificationAttachment \<Rightarrow> string \<Rightarrow> notification_store \<Rightarrow>
     uuid \<times> notification_store" where
  "upsert_attachment env a data st =
     (let hash = nv_bytes_hash env data in
      case find (\<lambda>r. ar_hash r = hash) (ns_attachments st) of
        Some r \<Rightarrow> (ar_id r, st)
      | None \<Rightarrow> (nv_uuid env (ns_draws st),
          st\<lparr>ns_draws := ns_draws st + 1, ns_attachments := ns_attachments st @
             [\<lparr>ar_id = nv_uuid env (ns_draws st), ar_content_type = ea_content_type a, ar_data = data,
               ar_file_name = ea_file_name a, ar_hash = hash\<rparr>]\<rparr>))"

fun link_attachments ::
    "notify_env \<Rightarrow> uuid list \<Rightarrow> EnqueueNotificationAttachment list \<Rightarrow> notification_store \<Rightarrow>
     string + notification_store" where
  "link_attachments env ids [] st = Inr st"
| "link_attachments env ids (a # rest) st =
     (case nv_base64_decode env (ea_data_base64 a) of
        None \<Rightarrow> Inl ''invalid base64''
      | Some data \<Rightarrow>
          if btrim (ea_content_type a) = [] \<or> btrim (ea_file_name a) = [] \<or>
             btrim (nv_bytes_hash env data) = [] then Inl check_violated
          else case upsert_attachment env a data st of (attachment_id, st1) \<Rightarrow>
            if list_ex (\<lambda>i. (i, attachment_id) \<in> set (ns_links st1)) ids
            then Inl ''duplicate key value violates unique constraint''
            else link_attachments env ids rest
              (st1\<lparr>ns_links := ns_links st1 @ map (\<lambda>i. (i, attachment_id)) ids\<rparr>))"

definition wants_optional :: "notification_store \<Rightarrow> uuid \<Rightarrow> bool" where
  "wants_optional st u =
     (case find_notified u st of Some x \<Rightarrow> nu_optional_notifications_enabled x | None \<Rightarrow> True)"

text \<open>Primary keys; a statement that would break one raises.\<close>

definition keys_unique :: "notification_store \<Rightarrow> bool" where
  "keys_unique st \<longleftrightarrow> distinct (map nr_id (ns_notifications st)) \<and>
     distinct (map td_id (ns_template_data st)) \<and> distinct (map ar_id (ns_attachments st))"

definition insert_for_recipients ::
    "notify_env \<Rightarrow> string \<Rightarrow> json option \<Rightarrow> EnqueueNotificationAttachment list \<Rightarrow> uuid list \<Rightarrow>
     unit notify_tx" where
  "insert_for_recipients env kind data attachments recipients st =
     (case (case data of
              None \<Rightarrow> (None, st)
            | Some d \<Rightarrow> (case upsert_template_data env d st of (i, st1) \<Rightarrow> (Some i, st1))) of
        (data_id, st1) \<Rightarrow>
          if list_ex (\<lambda>u. find_notified u st1 = None) recipients
          then Inl ''insert violates foreign key constraint on user''
          else and_then (link_attachments env (sort (fresh_ids env (length recipients) st1)) attachments
                   (insert_notifications env kind data_id recipients st1))
                 (\<lambda>st2. if keys_unique st2 then Inr ((), st2)
                   else Inl ''duplicate key value violates unique constraint''))"

definition enqueue_notification ::
    "notify_env \<Rightarrow> string \<Rightarrow> json option \<Rightarrow> EnqueueNotificationAttachment list \<Rightarrow> uuid list \<Rightarrow>
     unit notify_tx" where
  "enqueue_notification env kind data attachments recipients st =
     (case find (\<lambda>k. nk_name k = kind) (ns_kinds st) of
        None \<Rightarrow> Inl (''notification kind does not exist: '' @ kind)
      | Some k \<Rightarrow>
          if nk_optional_notification k then
            (let wanted = filter (wants_optional st) recipients
             in if wanted = [] then Inr ((), st)
                else insert_for_recipients env kind data attachments wanted st)
          else insert_for_recipients env kind data attachments recipients st)"

definition track_custom_notification ::
    "uuid \<Rightarrow> uuid option \<Rightarrow> uuid option \<Rightarrow> int \<Rightarrow> string \<Rightarrow> string \<Rightarrow> unit notify_tx" where
  "track_custom_notification created_by event_id group_id recipient_count subject body st =
     (let row = \<lparr>cn_body = body, cn_created_by = created_by, cn_event_id = event_id,
            cn_group_id = (if event_id = None then group_id else None), cn_subject = subject\<rparr>
      in if btrim body = [] \<or> btrim subject = [] \<or> event_id = None \<and> group_id = None
         then Inl check_violated
         else Inr ((), st\<lparr>ns_custom := ns_custom st @ [row],
                ns_audit := ns_audit st @ [CustomSent created_by event_id group_id recipient_count subject]\<rparr>))"

definition enqueue_tracked_custom_notification ::
    "notify_env \<Rightarrow> string \<Rightarrow> json option \<Rightarrow> EnqueueNotificationAttachment list \<Rightarrow> uuid list \<Rightarrow> uuid \<Rightarrow>
     uuid option \<Rightarrow> uuid option \<Rightarrow> int \<Rightarrow> string \<Rightarrow> string \<Rightarrow> unit notify_tx" where
  "enqueue_tracked_custom_notification env kind data attachments recipients created_by event_id group_id
     recipient_count subject body st =
     and_then (enqueue_notification env kind data attachments recipients st) (\<lambda>(_, st1).
     track_custom_notification created_by event_id group_id recipient_count subject body st1)"

section \<open>Reminders\<close>

fun jsonb_strip_nulls :: "json \<Rightarrow> json" where
  "jsonb_strip_nulls (JObject kvs) =
     JObject (map (\<lambda>(k, v). (k, jsonb_strip_nulls v)) (filter (\<lambda>kv. snd kv \<noteq> JNull) kvs))"
| "jsonb_strip_nulls (JArray vs) = JArray (map jsonb_strip_nulls vs)"
| "jsonb_strip_nulls v = v"

definition reminder_horizon :: int where "reminder_horizon = secs (24 * 60 * 60)"

definition due_for_reminder :: "notification_store \<Rightarrow> reminder_event \<Rightarrow> bool" where
  "due_for_reminder st e \<longleftrightarrow>
     re_community_active e \<and> \<not> re_deleted e \<and> \<not> re_canceled e \<and> re_published e \<and> \<not> re_test_event e \<and>
     re_group_active e \<and> \<not> re_group_deleted e \<and> re_event_reminder_enabled e \<and>
     re_event_reminder_sent_at e = None \<and>
     (case re_starts_at e of
        Some t \<Rightarrow> t > ns_now st \<and> t \<le> ns_now st + reminder_horizon
      | None \<Rightarrow> False) \<and>
     re_event_reminder_evaluated_for_starts_at e \<noteq> re_starts_at e"

definition verified_user :: "notification_store \<Rightarrow> uuid \<Rightarrow> bool" where
  "verified_user st u = (case find_notified u st of Some x \<Rightarrow> nu_email_verified x | None \<Rightarrow> False)"

definition confirmed_attendees :: "reminder_event \<Rightarrow> uuid list" where
  "confirmed_attendees e = map fst (filter (\<lambda>a. snd a = ''confirmed'') (re_attendees e))"

definition attendee_recipients :: "notification_store \<Rightarrow> reminder_event \<Rightarrow> uuid list" where
  "attendee_recipients st e = sort (filter (verified_user st) (confirmed_attendees e))"

definition speaker_only_recipients :: "notification_store \<Rightarrow> reminder_event \<Rightarrow> uuid list" where
  "speaker_only_recipients st e =
     sort (filter (\<lambda>u. u \<notin> set (confirmed_attendees e) \<and> verified_user st u) (re_speakers e))"

definition reminder_data ::
    "notify_env \<Rightarrow> string \<Rightarrow> notification_store \<Rightarrow> reminder_event \<Rightarrow> bool \<Rightarrow> json" where
  "reminder_data env base_url st e cancellation_copy =
     (case jsonb_strip_nulls (JObject
         [(''event'', nv_event_summary env e),
          (''link'', JString (base_url @ ''/'' @ re_community_name e @ ''/group/'' @
             coalesce (re_group_slug_pretty e) (re_group_slug e) @ ''/event/'' @ re_slug e)),
          (''dashboard_link'', JString (base_url @ ''/dashboard/user?tab=events'')),
          (''theme'', coalesce (ns_theme st) JNull)]) of
        JObject kvs \<Rightarrow> JObject (obj_insert ''show_attendance_cancellation_copy'' (JBool cancellation_copy) kvs)
      | v \<Rightarrow> v)"

text \<open>Queue reminders for some of the recipients of an event, if there are any.\<close>

definition remind ::
    "notify_env \<Rightarrow> string \<Rightarrow> reminder_event \<Rightarrow> bool \<Rightarrow> uuid list \<Rightarrow> unit notify_tx" where
  "remind env base_url e cancellation_copy recipients st =
     (if recipients = [] then Inr ((), st)
      else enqueue_notification env ''event-reminder''
             (Some (reminder_data env base_url st e cancellation_copy)) [] recipients st)"

definition evaluated_event :: "instant option \<Rightarrow> reminder_event \<Rightarrow> reminder_event" where
  "evaluated_event sent_at e = e\<lparr>re_event_reminder_evaluated_for_starts_at := re_starts_at e,
     re_event_reminder_sent_at := (if sent_at = None then re_event_reminder_sent_at e else sent_at)\<rparr>"

definition update_reminder_event ::
    "uuid \<Rightarrow> (reminder_event \<Rightarrow> reminder_event) \<Rightarrow> notification_store \<Rightarrow> notification_store" where
  "update_reminder_event i f st =
     st\<lparr>ns_events := map (\<lambda>e. if re_event_id e = i then f e else e) (ns_events st)\<rparr>"

definition remind_event :: "notify_env \<Rightarrow> string \<Rightarrow> reminder_event \<Rightarrow> int notify_tx" where
  "remind_event env base_url e st =
     (let attendees = attendee_recipients st e; speakers = speaker_only_recipients st e;
          recipient_count = int (length attendees + length speakers)
      in if recipient_count > 0 then
           and_then (remind env base_url e True attendees st) (\<lambda>(_, st1).
           and_then (remind env base_url e False speakers st1) (\<lambda>(_, st2).
           Inr (recipient_count,
             update_reminder_event (re_event_id e) (evaluated_event (Some (ns_now st2))) st2)))
         else Inr (0, update_reminder_event (re_event_id e) (evaluated_event None) st))"

fun remind_events :: "notify_env \<Rightarrow> string \<Rightarrow> reminder_event list \<Rightarrow> int \<Rightarrow> int notify_tx" where
  "remind_events env base_url [] count st = Inr (count, st)"
| "remind_events env base_url (e # rest) count st =
     and_then (remind_event env base_url e st) (\<lambda>(n, st1).
     remind_events env base_url rest (count + n) st1)"

text \<open>Ascending by start and identifier; every due event has a start.\<close>

definition due_events :: "notification_store \<Rightarrow> reminder_event list" where
  "due_events st =
     sort_key (\<lambda>e. coalesce (re_starts_at e) 0)
       (sort_key re_event_id
          (filter (\<lambda>e. due_for_reminder st e \<and> re_event_id e \<notin> set (ns_locked st)) (ns_events st)))"

definition enqueue_due_event_reminders :: "notify_env \<Rightarrow> string \<Rightarrow> int notify_tx" where
  "enqueue_due_event_reminders env p_base_url st =
     (if ns_reminder_lock_taken st then Inr (0, st)
      else remind_events env (base_url_without_trailing_slash p_base_url) (due_events st) 0 st)"

section \<open>The Postgres implementation\<close>

definition delivery_seconds_i64 :: "duration \<Rightarrow> string \<Rightarrow> anyhow + int" where
  "delivery_seconds_i64 d overflow_message =
     (if int (as_secs d) \<le> 9223372036854775807 then Inr (int (as_secs d)) else Inl (Msg overflow_message))"

definition attachment_payload :: "notify_env \<Rightarrow> Attachment \<Rightarrow> EnqueueNotificationAttachment" where
  "attachment_payload env a = \<lparr>ea_content_type = at_content_type a,
     ea_data_base64 = nv_base64_encode env (at_data a), ea_file_name = at_file_name a\<rparr>"

text \<open>
  Attachment rows never change, so the cache in front of this query is not modelled.
\<close>

definition pg_get_notification_attachment :: "uuid \<Rightarrow> (notification_store \<times> 'p, Attachment) io" where
  "pg_get_notification_attachment attachment_id =
     run_tx (\<lambda>st. case find (\<lambda>r. ar_id r = attachment_id) (ns_attachments st) of
        None \<Rightarrow> Inl ''query returned an unexpected number of rows''
      | Some r \<Rightarrow> Inr (\<lparr>at_content_type = ar_content_type r, at_data = ar_data r,
          at_file_name = ar_file_name r\<rparr>, st))"

fun claimed_attachments ::
    "uuid \<Rightarrow> instant \<Rightarrow> uuid list \<Rightarrow> (notification_store \<times> 'p, Attachment list) io" where
  "claimed_attachments i claimed_at [] = act_ok []"
| "claimed_attachments i claimed_at (attachment_id # rest) =
     act_try (pg_get_notification_attachment attachment_id) (\<lambda>r. case r of
       Inr attachment \<Rightarrow>
         act_bind (claimed_attachments i claimed_at rest) (\<lambda>attachments. act_ok (attachment # attachments))
     | Inl err \<Rightarrow>
         act_bind (run_tx (update_notification i (Some (err_to_string err)) claimed_at)) (\<lambda>_. act_err err))"

text \<open>A kind that the program does not know makes the worker panic: an error after the claim.\<close>

definition pg_claim_pending_notification :: "(notification_store \<times> 'p, Notification option) io" where
  "pg_claim_pending_notification =
     act_bind (run_tx (claim_pending_notification DELIVERY_RATE_LIMIT DELIVERY_RATE_LIMIT_WINDOW)) (\<lambda>row.
     case row of
       None \<Rightarrow> act_ok None
     | Some c \<Rightarrow>
         act_bind (claimed_attachments (cl_notification_id c) (cl_delivery_claimed_at c)
                     (coalesce (cl_attachment_ids c) [])) (\<lambda>attachments.
         case kind_from_string (cl_kind c) of
           None \<Rightarrow> act_err (Msg ''kind to be valid'')
         | Some kind \<Rightarrow>
             act_ok (Some \<lparr>no_attachments = attachments, no_delivery_claimed_at = cl_delivery_claimed_at c,
               no_email = cl_email c, no_kind = kind, no_notification_id = cl_notification_id c,
               no_template_data = cl_template_data c\<rparr>)))"

definition pg_enqueue_due_event_reminders :: "notify_env \<Rightarrow> string \<Rightarrow> (notification_store \<times> 'p, nat) io" where
  "pg_enqueue_due_event_reminders env base_url =
     act_bind (run_tx (enqueue_due_event_reminders env base_url)) (\<lambda>count.
     if count < 0 then act_err (Msg ''enqueued reminders count cannot be negative'')
     else act_ok (nat count))"

definition pg_enqueue_notification ::
    "notify_env \<Rightarrow> NewNotification \<Rightarrow> (notification_store \<times> 'p, unit) io" where
  "pg_enqueue_notification env notification =
     (if nn_recipients notification = [] then act_ok ()
      else run_tx (enqueue_notification env (kind_to_string (nn_kind notification))
             (nn_template_data notification) (map (attachment_payload env) (nn_attachments notification))
             (nn_recipients notification)))"

definition pg_enqueue_tracked_custom_notification ::
    "notify_env \<Rightarrow> NewNotification \<Rightarrow> CustomNotificationTracking \<Rightarrow> (notification_store \<times> 'p, unit) io" where
  "pg_enqueue_tracked_custom_notification env notification tracking =
     (if nn_recipients notification = [] then act_ok ()
      else if ct_recipient_count tracking > 2147483647
      then act_err (Msg ''recipient count cannot exceed i32::MAX'')
      else run_tx (enqueue_tracked_custom_notification env (kind_to_string (nn_kind notification))
             (nn_template_data notification) (map (attachment_payload env) (nn_attachments notification))
             (nn_recipients notification) (ct_created_by tracking) (ct_event_id tracking)
             (ct_group_id tracking) (int (ct_recipient_count tracking)) (ct_subject tracking)
             (ct_body tracking)))"

definition pg_mark_notification_delivery_unknown ::
    "Notification \<Rightarrow> string \<Rightarrow> (notification_store \<times> 'p, unit) io" where
  "pg_mark_notification_delivery_unknown n error =
     run_tx (mark_notification_delivery_unknown (no_notification_id n) (Some error) (no_delivery_claimed_at n))"

definition pg_mark_stale_processing_notifications_unknown ::
    "duration \<Rightarrow> (notification_store \<times> 'p, nat) io" where
  "pg_mark_stale_processing_notifications_unknown timeout =
     act_bind (act_lift (delivery_seconds_i64 timeout ''processing timeout cannot exceed i64::MAX seconds''))
       (\<lambda>timeout_seconds.
     act_bind (run_tx (mark_stale_processing_notifications_unknown timeout_seconds)) (\<lambda>count.
     act_ok (nat count)))"

definition pg_requeue_notification ::
    "Notification \<Rightarrow> string \<Rightarrow> duration \<Rightarrow> duration \<Rightarrow> nat \<Rightarrow> (notification_store \<times> 'p, unit) io" where
  "pg_requeue_notification n error base_retry_after max_retry_after max_delivery_attempts =
     act_bind (act_lift (delivery_seconds_i64 base_retry_after
         ''base retry delay cannot exceed i64::MAX seconds'')) (\<lambda>base.
     act_bind (act_lift (delivery_seconds_i64 max_retry_after
         ''maximum retry delay cannot exceed i64::MAX seconds'')) (\<lambda>limit.
     if max_delivery_attempts > 2147483647
     then act_err (Msg ''maximum delivery attempts cannot exceed i32::MAX'')
     else run_tx (requeue_notification (no_notification_id n) (Some error) base limit
            (int max_delivery_attempts) (no_delivery_claimed_at n))))"

definition pg_update_notification ::
    "Notification \<Rightarrow> string option \<Rightarrow> (notification_store \<times> 'p, unit) io" where
  "pg_update_notification n error =
     run_tx (update_notification (no_notification_id n) error (no_delivery_claimed_at n))"

definition pg_notifications :: "notify_env \<Rightarrow> (notification_store \<times> 'p) DBNotifications" where
  "pg_notifications env = \<lparr>
     db_claim_pending_notification = pg_claim_pending_notification,
     db_enqueue_due_event_reminders = pg_enqueue_due_event_reminders env,
     db_enqueue_notification = pg_enqueue_notification env,
     db_enqueue_tracked_custom_notification = pg_enqueue_tracked_custom_notification env,
     db_get_notification_attachment = pg_get_notification_attachment,
     db_mark_notification_delivery_unknown = pg_mark_notification_delivery_unknown,
     db_mark_stale_processing_notifications_unknown = pg_mark_stale_processing_notifications_unknown,
     db_requeue_notification = pg_requeue_notification,
     db_update_notification = pg_update_notification\<rparr>"

end
