(* ===== verification/Notification_Delivery.thy ===== *)
theory Notification_Delivery
  imports Notification_Store
begin

text \<open>
  Delivery as a system: any number of workers on the tables of \<open>Notification_Store\<close>, the mail server,
  the recovery of abandoned claims, operators that requeue, and everybody who queues notifications or
  changes users and events. The step relation \<open>delivery_step\<close> interleaves them; beside the tables the
  world has an \<open>outbox\<close>, which the steps maintain and the program does not read: the claim each worker
  is working on, the messages the server may have accepted, the claims made, and how often an operator
  requeued a notification (its generation).

  About the server it is assumed what the classification of \<^verbatim>\<open>EmailDeliveryError\<close> says: a message
  whose sending failed with a terminal or retryable error was not accepted. A worker that stops, or
  loses the database, abandons its claim.
\<close>

section \<open>The system\<close>

record holding =
  hg_id :: uuid
  hg_claimed_at :: instant
  hg_generation :: nat
  hg_open :: bool

record outbox =
  ob_workers :: "nat \<Rightarrow> holding option"
  ob_sent :: "(uuid \<times> nat) list"
  ob_requeues :: "uuid \<Rightarrow> nat"
  ob_claims :: "(uuid \<times> nat \<times> instant) list"

type_synonym delivery_world = "notification_store \<times> outbox"

abbreviation claim_next :: "claimed_notification option notify_tx" where
  "claim_next \<equiv> claim_pending_notification DELIVERY_RATE_LIMIT DELIVERY_RATE_LIMIT_WINDOW"

definition release :: "nat \<Rightarrow> outbox \<Rightarrow> outbox" where
  "release w ob = ob\<lparr>ob_workers := (ob_workers ob)(w := None)\<rparr>"

definition note_claim :: "nat \<Rightarrow> claimed_notification \<Rightarrow> outbox \<Rightarrow> outbox" where
  "note_claim w c ob =
     (let i = cl_notification_id c; t = cl_delivery_claimed_at c; g = ob_requeues ob i
      in ob\<lparr>ob_workers := (ob_workers ob)(w \<mapsto>
              \<lparr>hg_id = i, hg_claimed_at = t, hg_generation = g, hg_open = True\<rparr>),
            ob_claims := ob_claims ob @ [(i, g, t)]\<rparr>)"

text \<open>The answer of the server to a message sent under the claim \<open>h\<close>.\<close>

definition note_answer :: "nat \<Rightarrow> holding \<Rightarrow> SmtpError + unit \<Rightarrow> outbox \<Rightarrow> outbox" where
  "note_answer w h answer ob =
     (let close = (ob_workers ob)(w \<mapsto> h\<lparr>hg_open := False\<rparr>);
          accepted = ob\<lparr>ob_workers := close, ob_sent := ob_sent ob @ [(hg_id h, hg_generation h)]\<rparr>
      in case answer of
           Inr _ \<Rightarrow> accepted
         | Inl e \<Rightarrow>
             (case from_smtp e of
                EmailUnknown _ \<Rightarrow> accepted
              | EmailTerminal _ \<Rightarrow> ob\<lparr>ob_workers := close\<rparr>
              | EmailRetryable _ \<Rightarrow> ob))"

definition note_requeue :: "uuid list \<Rightarrow> notification_store \<Rightarrow> outbox \<Rightarrow> outbox" where
  "note_requeue ids st ob = ob\<lparr>ob_requeues := \<lambda>i.
     if list_ex (\<lambda>n. nr_id n = i \<and> selected_terminal ids n) (ns_notifications st)
     then ob_requeues ob i + 1 else ob_requeues ob i\<rparr>"

text \<open>A step of a worker, labelled with it, or of anybody else.\<close>

inductive delivery_step :: "notify_env \<Rightarrow> nat option \<Rightarrow> delivery_world \<Rightarrow> delivery_world \<Rightarrow> bool"
  for env where
  step_claim: "ob_workers ob w = None \<Longrightarrow> claim_next st = Inr (Some c, st') \<Longrightarrow>
     delivery_step env (Some w) (st, ob) (st', note_claim w c ob)"
| step_send: "ob_workers ob w = Some h \<Longrightarrow> hg_open h \<Longrightarrow>
     delivery_step env (Some w) (st, ob) (st, note_answer w h answer ob)"
| step_update: "ob_workers ob w = Some h \<Longrightarrow>
     update_notification (hg_id h) error (hg_claimed_at h) st = Inr ((), st') \<Longrightarrow>
     delivery_step env (Some w) (st, ob) (st', release w ob)"
| step_unknown: "ob_workers ob w = Some h \<Longrightarrow>
     mark_notification_delivery_unknown (hg_id h) error (hg_claimed_at h) st = Inr ((), st') \<Longrightarrow>
     delivery_step env (Some w) (st, ob) (st', release w ob)"
| step_requeue: "ob_workers ob w = Some h \<Longrightarrow> hg_open h \<Longrightarrow>
     requeue_notification (hg_id h) error 60 1800 10 (hg_claimed_at h) st = Inr ((), st') \<Longrightarrow>
     delivery_step env (Some w) (st, ob) (st', release w ob)"
| step_abandon: "delivery_step env (Some w) (st, ob) (st, release w ob)"
| step_stale: "mark_stale_processing_notifications_unknown 900 st = Inr (n, st') \<Longrightarrow>
     delivery_step env None (st, ob) (st', ob)"
| step_manual: "manual_requeue_notifications ids reason st = Inr (n, st') \<Longrightarrow>
     delivery_step env None (st, ob) (st', note_requeue ids st ob)"
| step_enqueue: "enqueue_notification env kind data attachments recipients st = Inr ((), st') \<Longrightarrow>
     delivery_step env None (st, ob) (st', ob)"
| step_tracked: "enqueue_tracked_custom_notification env kind data attachments recipients created_by
       event_id group_id recipient_count subject body st = Inr ((), st') \<Longrightarrow>
     delivery_step env None (st, ob) (st', ob)"
| step_reminders: "enqueue_due_event_reminders env base_url st = Inr (k, st') \<Longrightarrow>
     delivery_step env None (st, ob) (st', ob)"
| step_clock: "ns_now st \<le> now \<Longrightarrow> delivery_step env None (st, ob) (st\<lparr>ns_now := now\<rparr>, ob)"
| step_others: "ns_notifications st' = ns_notifications st \<Longrightarrow> ns_now st' = ns_now st \<Longrightarrow>
     delivery_step env None (st, ob) (st', ob)"

definition empty_outbox :: outbox where
  "empty_outbox = \<lparr>ob_workers = \<lambda>_. None, ob_sent = [], ob_requeues = \<lambda>_. 0, ob_claims = []\<rparr>"

definition delivery_steps :: "notify_env \<Rightarrow> delivery_world \<Rightarrow> delivery_world \<Rightarrow> bool" where
  "delivery_steps env = (\<lambda>x y. \<exists>a. delivery_step env a x y)\<^sup>*\<^sup>*"

definition delivery_reachable :: "notify_env \<Rightarrow> delivery_world \<Rightarrow> bool" where
  "delivery_reachable env x \<longleftrightarrow>
     (\<exists>st. ns_notifications st = [] \<and> delivery_steps env (st, empty_outbox) x)"

section \<open>The invariant\<close>

abbreviation delivery_timeout :: int where
  "delivery_timeout \<equiv> secs 900"

definition row_ok :: "instant \<Rightarrow> notification_row \<Rightarrow> bool" where
  "row_ok now n \<longleftrightarrow>
     0 \<le> nr_delivery_attempts n \<and> nr_delivery_attempts n \<le> 10 \<and>
     (nr_delivery_status n = DeliveryPending \<longrightarrow> nr_delivery_attempts n < 10) \<and>
     (nr_delivery_status n = DeliveryProcessing \<longrightarrow> nr_delivery_claimed_at n \<noteq> None) \<and>
     (\<forall>t. nr_delivery_claimed_at n = Some t \<longrightarrow> t \<le> now) \<and>
     (\<forall>t. nr_delivery_claimed_at n = Some t \<longrightarrow> nr_delivery_status n = DeliveryPending \<longrightarrow>
        (\<exists>a. nr_next_delivery_attempt_at n = Some a \<and> t + secs 60 \<le> a)) \<and>
     (\<forall>a. nr_next_delivery_attempt_at n = Some a \<longrightarrow>
        nr_delivery_status n = DeliveryPending \<and> a \<le> now + secs 1800)"

text \<open>What a claim of generation \<open>g\<close> knows of its row, which operators requeued \<open>r\<close> times.\<close>

definition claim_view :: "instant \<Rightarrow> nat \<Rightarrow> holding \<Rightarrow> notification_row \<Rightarrow> bool" where
  "claim_view now r h n \<longleftrightarrow>
     (if hg_generation h = r
      then nr_delivery_claimed_at n = Some (hg_claimed_at h) \<and>
        (nr_delivery_status n = DeliveryProcessing \<or>
         nr_delivery_status n \<noteq> DeliveryPending \<and> hg_claimed_at h + delivery_timeout < now)
      else hg_claimed_at h + delivery_timeout < now \<and>
        (\<forall>t. nr_delivery_claimed_at n = Some t \<longrightarrow> hg_claimed_at h < t))"

definition holding_ok :: "instant \<Rightarrow> notification_row list \<Rightarrow> (uuid \<Rightarrow> nat) \<Rightarrow> holding \<Rightarrow> bool" where
  "holding_ok now rows requeues h \<longleftrightarrow>
     hg_id h \<in> nr_id ` set rows \<and> hg_claimed_at h \<le> now \<and> hg_generation h \<le> requeues (hg_id h) \<and>
     (\<forall>n\<in>set rows. nr_id n = hg_id h \<longrightarrow> claim_view now (requeues (hg_id h)) h n)"

definition workers_ok ::
    "instant \<Rightarrow> notification_row list \<Rightarrow> (uuid \<Rightarrow> nat) \<Rightarrow> (uuid \<times> nat) list \<Rightarrow> (nat \<Rightarrow> holding option) \<Rightarrow> bool" where
  "workers_ok now rows requeues sent workers \<longleftrightarrow>
     (\<forall>w h. workers w = Some h \<longrightarrow>
        holding_ok now rows requeues h \<and> (hg_open h \<longrightarrow> (hg_id h, hg_generation h) \<notin> set sent)) \<and>
     (\<forall>w w' h h'. workers w = Some h \<longrightarrow> workers w' = Some h' \<longrightarrow> hg_id h = hg_id h' \<longrightarrow>
        hg_generation h = hg_generation h' \<longrightarrow> w = w')"

definition sent_ok :: "notification_row list \<Rightarrow> (uuid \<Rightarrow> nat) \<Rightarrow> (uuid \<times> nat) list \<Rightarrow> bool" where
  "sent_ok rows requeues sent \<longleftrightarrow>
     distinct sent \<and> (\<forall>(i, g)\<in>set sent. i \<in> nr_id ` set rows \<and> g \<le> requeues i) \<and>
     (\<forall>n\<in>set rows. nr_delivery_status n = DeliveryPending \<longrightarrow> (nr_id n, requeues (nr_id n)) \<notin> set sent)"

text \<open>Claims of the last minute whose notification nobody requeued since.\<close>

definition recent :: "instant \<Rightarrow> (uuid \<Rightarrow> nat) \<Rightarrow> uuid \<times> nat \<times> instant \<Rightarrow> bool" where
  "recent now requeues = (\<lambda>(i, g, t). g = requeues i \<and> now - secs 60 < t)"

definition claims_ok ::
    "instant \<Rightarrow> notification_row list \<Rightarrow> (uuid \<Rightarrow> nat) \<Rightarrow> (uuid \<times> nat \<times> instant) list \<Rightarrow> bool" where
  "claims_ok now rows requeues claims \<longleftrightarrow>
     (\<forall>(i, g, t)\<in>set claims. i \<in> nr_id ` set rows \<and> g \<le> requeues i \<and> t \<le> now \<and>
        (g = requeues i \<longrightarrow> (\<forall>n\<in>set rows. nr_id n = i \<longrightarrow>
           (\<exists>t'. nr_delivery_claimed_at n = Some t' \<and> t \<le> t')))) \<and>
     distinct (map fst (filter (recent now requeues) claims)) \<and>
     int (length (filter (recent now requeues) claims)) \<le> DELIVERY_RATE_LIMIT"

definition delivery_inv :: "delivery_world \<Rightarrow> bool" where
  "delivery_inv = (\<lambda>(st, ob).
     distinct (map nr_id (ns_notifications st)) \<and>
     (\<forall>n\<in>set (ns_notifications st). row_ok (ns_now st) n) \<and>
     workers_ok (ns_now st) (ns_notifications st) (ob_requeues ob) (ob_sent ob) (ob_workers ob) \<and>
     sent_ok (ns_notifications st) (ob_requeues ob) (ob_sent ob) \<and>
     claims_ok (ns_now st) (ns_notifications st) (ob_requeues ob) (ob_claims ob))"

text \<open>Steps that change rows in place keep each part of the invariant when they keep it row by row.\<close>

lemma claim_view_now: "claim_view now r h n \<Longrightarrow> now \<le> now' \<Longrightarrow> claim_view now' r h n"
  unfolding claim_view_def by (auto split: if_splits)

lemma workers_ok_map:
  assumes "workers_ok now rows rq sent ws"
    and ids: "\<And>n. nr_id (f n) = nr_id n"
    and later: "now \<le> now'" "\<And>i. rq i \<le> rq' i"
    and sub: "\<And>w h. ws' w = Some h \<Longrightarrow> ws w = Some h"
    and view: "\<And>w h n. ws' w = Some h \<Longrightarrow> n \<in> set rows \<Longrightarrow> nr_id n = hg_id h \<Longrightarrow>
      claim_view now (rq (hg_id h)) h n \<Longrightarrow> claim_view now' (rq' (hg_id h)) h (f n)"
  shows "workers_ok now' (map f rows) rq' sent ws'"
proof -
  have "holding_ok now' (map f rows) rq' h" if "ws' w = Some h" for w h
  proof -
    from assms(1) sub [OF that] have h: "holding_ok now rows rq h" by (auto simp: workers_ok_def)
    then show ?thesis
      using later view [OF that] ids
      by (auto simp: holding_ok_def image_image intro: order_trans)
  qed
  moreover have "hg_open h \<longrightarrow> (hg_id h, hg_generation h) \<notin> set sent" if "ws' w = Some h" for w h
    using assms(1) sub [OF that] by (auto simp: workers_ok_def)
  moreover have "w = w'" if "ws' w = Some h" "ws' w' = Some h'" "hg_id h = hg_id h'"
      "hg_generation h = hg_generation h'" for w w' h h'
    using assms(1) sub [OF that(1)] sub [OF that(2)] that(3,4) unfolding workers_ok_def by blast
  ultimately show ?thesis unfolding workers_ok_def by blast
qed

lemma sent_ok_map:
  assumes "sent_ok rows rq sent"
    and ids: "\<And>n. nr_id (f n) = nr_id n" and later: "\<And>i. rq i \<le> rq' i"
    and pending: "\<And>n. n \<in> set rows \<Longrightarrow> nr_delivery_status (f n) = DeliveryPending \<Longrightarrow>
      nr_delivery_status n = DeliveryPending \<and> rq' (nr_id n) = rq (nr_id n) \<or>
      (nr_id n, rq' (nr_id n)) \<notin> set sent"
  shows "sent_ok (map f rows) rq' sent"
proof -
  have "i \<in> nr_id ` set (map f rows) \<and> g \<le> rq' i" if "(i, g) \<in> set sent" for i g
    using assms(1) that later [of i] ids by (fastforce simp: sent_ok_def image_image)
  moreover have "(nr_id n, rq' (nr_id n)) \<notin> set sent"
    if "n \<in> set (map f rows)" "nr_delivery_status n = DeliveryPending" for n
  proof -
    from that(1) obtain m where m: "m \<in> set rows" "n = f m" by auto
    with pending [OF m(1)] that(2) assms(1) show ?thesis by (auto simp: sent_ok_def ids)
  qed
  ultimately show ?thesis using assms(1) unfolding sent_ok_def by blast
qed

lemma distinct_map_filter_sub:
  assumes "\<And>x. x \<in> set xs \<Longrightarrow> Q x \<Longrightarrow> P x"
  shows "distinct (map f (filter P xs)) \<Longrightarrow> distinct (map f (filter Q xs))"
    and "length (filter Q xs) \<le> length (filter P xs)"
proof -
  have "filter Q xs = filter Q (filter P xs)"
    unfolding filter_filter by (rule filter_cong) (use assms in auto)
  then show "distinct (map f (filter P xs)) \<Longrightarrow> distinct (map f (filter Q xs))"
    and "length (filter Q xs) \<le> length (filter P xs)"
    by (metis distinct_map_filter, metis length_filter_le)
qed

lemma claims_ok_map:
  assumes ok: "claims_ok now rows rq claims"
    and ids: "\<And>n. nr_id (f n) = nr_id n"
    and later: "now \<le> now'" "\<And>i. rq i \<le> rq' i"
    and claimed: "\<And>n. n \<in> set rows \<Longrightarrow> rq' (nr_id n) = rq (nr_id n) \<Longrightarrow>
      nr_delivery_claimed_at (f n) = nr_delivery_claimed_at n"
  shows "claims_ok now' (map f rows) rq' claims"
proof -
  have sub: "recent now rq x" if "x \<in> set claims" "recent now' rq' x" for x
  proof -
    obtain i g t where x: "x = (i, g, t)" by (cases x)
    with ok that(1) have "g \<le> rq i" by (auto simp: claims_ok_def)
    with that(2) later(2) [of i] later(1) show ?thesis by (auto simp: recent_def x)
  qed
  note fewer = distinct_map_filter_sub [of claims "recent now' rq'" "recent now rq", OF sub]
  have "i \<in> nr_id ` set (map f rows) \<and> g \<le> rq' i \<and> t \<le> now' \<and>
      (g = rq' i \<longrightarrow> (\<forall>n\<in>set (map f rows). nr_id n = i \<longrightarrow>
         (\<exists>t'. nr_delivery_claimed_at n = Some t' \<and> t \<le> t')))" if "(i, g, t) \<in> set claims" for i g t
  proof -
    from ok that have c: "i \<in> nr_id ` set rows" "g \<le> rq i" "t \<le> now"
      "g = rq i \<longrightarrow> (\<forall>n\<in>set rows. nr_id n = i \<longrightarrow> (\<exists>t'. nr_delivery_claimed_at n = Some t' \<and> t \<le> t'))"
      unfolding claims_ok_def by fastforce+
    have "\<exists>t'. nr_delivery_claimed_at (f n) = Some t' \<and> t \<le> t'"
      if "g = rq' i" "n \<in> set rows" "nr_id n = i" for n
    proof -
      from c(2) later(2) [of i] that(1) have "g = rq i" "rq' i = rq i" by auto
      with c(4) that claimed [OF that(2)] show ?thesis by simp
    qed
    moreover have "g \<le> rq' i" using c(2) later(2) [of i] by (rule order_trans)
    ultimately show ?thesis using c(1,3) later(1) by (auto simp: ids image_image)
  qed
  then show ?thesis
    using fewer(1) [where f = fst] fewer(2) ok unfolding claims_ok_def by fastforce
qed

section \<open>The steps of a worker\<close>

lemma change_claimed_Inr:
  "change_claimed i t f st = Inr (u, st') \<longleftrightarrow>
     list_ex (holds_claim i t) (ns_notifications st) \<and>
     st' = map_notifications (\<lambda>n. if holds_claim i t n then f n else n) st"
  by (auto simp: change_claimed_def)

lemma map_notifications_fields [simp]:
  "ns_notifications (map_notifications f st) = map f (ns_notifications st)"
  "ns_now (map_notifications f st) = ns_now st"
  by (simp_all add: map_notifications_def)

text \<open>A claim that still holds its row is of the row's generation.\<close>

lemma held_generation:
  assumes "workers_ok now rows rq sent ws" "ws w = Some h" "n \<in> set rows"
    "holds_claim (hg_id h) (hg_claimed_at h) n"
  shows "hg_generation h = rq (hg_id h)"
proof -
  from assms have "claim_view now (rq (hg_id h)) h n" "nr_delivery_claimed_at n = Some (hg_claimed_at h)"
    by (auto simp: workers_ok_def holding_ok_def holds_claim_def)
  then show ?thesis by (auto simp: claim_view_def split: if_splits)
qed

lemma settle_inv:
  assumes inv: "delivery_inv (st, ob)" and h: "ob_workers ob w = Some h"
    and st': "st' = map_notifications
      (\<lambda>n. if holds_claim (hg_id h) (hg_claimed_at h) n then g n else n) st"
    and keeps: "\<And>n. nr_id (g n) = nr_id n" "\<And>n. nr_delivery_claimed_at (g n) = nr_delivery_claimed_at n"
    and row: "\<And>n. row_ok (ns_now st) n \<Longrightarrow> holds_claim (hg_id h) (hg_claimed_at h) n \<Longrightarrow>
      row_ok (ns_now st) (g n)"
    and pending: "\<And>n. nr_delivery_status (g n) = DeliveryPending \<Longrightarrow> hg_open h"
  shows "delivery_inv (st', release w ob)"
proof -
  let ?f = "\<lambda>n. if holds_claim (hg_id h) (hg_claimed_at h) n then g n else n"
  let ?rq = "ob_requeues ob" and ?rows = "ns_notifications st" and ?now = "ns_now st"
  from inv have distinct: "distinct (map nr_id ?rows)" and rows: "\<forall>n\<in>set ?rows. row_ok ?now n"
    and workers: "workers_ok ?now ?rows ?rq (ob_sent ob) (ob_workers ob)"
    and sent: "sent_ok ?rows ?rq (ob_sent ob)" and claims: "claims_ok ?now ?rows ?rq (ob_claims ob)"
    by (auto simp: delivery_inv_def)
  have ids: "nr_id (?f n) = nr_id n" for n by (simp add: keeps)
  have "workers_ok ?now (map ?f ?rows) ?rq (ob_sent ob) ((ob_workers ob)(w := None))"
  proof (rule workers_ok_map [OF workers ids])
    fix w' h' n
    assume w': "((ob_workers ob)(w := None)) w' = Some h'" and n: "n \<in> set ?rows" "nr_id n = hg_id h'"
      and view: "claim_view ?now (?rq (hg_id h')) h' n"
    show "claim_view ?now (?rq (hg_id h')) h' (?f n)"
    proof (cases "holds_claim (hg_id h) (hg_claimed_at h) n")
      case True
      then have "hg_id h = hg_id h'" using n by (simp add: holds_claim_def)
      moreover have "hg_generation h = ?rq (hg_id h)" by (rule held_generation [OF workers h n(1) True])
      moreover have "w' \<noteq> w" "ob_workers ob w' = Some h'" using w' by (auto split: if_splits)
      ultimately have "hg_generation h' \<noteq> ?rq (hg_id h')"
        using workers h unfolding workers_ok_def by metis
      with view show ?thesis by (simp add: claim_view_def True keeps)
    qed (simp add: view)
  qed (auto split: if_splits)
  moreover have "sent_ok (map ?f ?rows) ?rq (ob_sent ob)"
  proof (rule sent_ok_map [OF sent ids])
    fix n assume n: "n \<in> set ?rows" and p: "nr_delivery_status (?f n) = DeliveryPending"
    show "nr_delivery_status n = DeliveryPending \<and> ?rq (nr_id n) = ?rq (nr_id n) \<or>
      (nr_id n, ?rq (nr_id n)) \<notin> set (ob_sent ob)"
    proof (cases "holds_claim (hg_id h) (hg_claimed_at h) n")
      case True
      with p pending have "hg_open h" by auto
      with workers h have "(hg_id h, hg_generation h) \<notin> set (ob_sent ob)" unfolding workers_ok_def by blast
      with held_generation [OF workers h n True] True show ?thesis by (simp add: holds_claim_def)
    qed (use p in simp)
  qed simp
  moreover have "claims_ok ?now (map ?f ?rows) ?rq (ob_claims ob)"
    by (rule claims_ok_map [OF claims ids]) (simp_all add: keeps)
  moreover have "\<forall>n\<in>set (map ?f ?rows). row_ok ?now n" using rows row by auto
  moreover have "distinct (map nr_id (map ?f ?rows))"
    using distinct by (simp add: comp_def keeps if_distrib cong: if_cong)
  ultimately show ?thesis
    unfolding delivery_inv_def st' release_def by (simp del: map_map set_map)
qed

lemma settled_row_ok: "row_ok now n \<Longrightarrow> status \<notin> {DeliveryPending, DeliveryProcessing} \<Longrightarrow>
    row_ok now (settled_row status error now n)"
  by (auto simp: row_ok_def settled_row_def)

lemma settled_row_fields [simp]:
  "nr_id (settled_row status error now n) = nr_id n"
  "nr_delivery_claimed_at (settled_row status error now n) = nr_delivery_claimed_at n"
  "nr_delivery_status (settled_row status error now n) = status"
  by (simp_all add: settled_row_def)

lemma retry_after_bounds:
  "0 < base \<Longrightarrow> base \<le> limit \<Longrightarrow> base \<le> retry_after base limit attempts \<and> retry_after base limit attempts \<le> limit"
  by (simp add: retry_after_def uncapped_retry_def)

lemma requeued_notification_row_ok:
  assumes "row_ok now n" "nr_delivery_status n = DeliveryProcessing"
  shows "row_ok now (requeued_notification_row error 60 1800 10 now n)"
proof -
  from retry_after_bounds [of 60 1800 "nr_delivery_attempts n"]
  have r: "secs 60 \<le> secs (retry_after 60 1800 (nr_delivery_attempts n))"
    "secs (retry_after 60 1800 (nr_delivery_attempts n)) \<le> secs 1800" by (simp_all add: secs_def)
  from assms obtain t where "nr_delivery_claimed_at n = Some t" "t \<le> now" by (auto simp: row_ok_def)
  with assms r show ?thesis by (auto simp: row_ok_def requeued_notification_row_def)
qed

lemma requeued_notification_row_fields [simp]:
  "nr_id (requeued_notification_row error base limit k now n) = nr_id n"
  "nr_delivery_claimed_at (requeued_notification_row error base limit k now n) = nr_delivery_claimed_at n"
  by (simp_all add: requeued_notification_row_def)

lemma update_inv:
  assumes "delivery_inv (st, ob)" "ob_workers ob w = Some h"
    "update_notification (hg_id h) error (hg_claimed_at h) st = Inr (u, st')"
  shows "delivery_inv (st', release w ob)"
proof (rule settle_inv [OF assms(1,2)])
  let ?status = "if error = None then DeliveryProcessed else DeliveryFailed"
  show "st' = map_notifications (\<lambda>n. if holds_claim (hg_id h) (hg_claimed_at h) n
      then settled_row ?status error (ns_now st) n else n) st"
    using assms(3) by (auto simp: update_notification_def and_then_eq_Inr change_claimed_Inr split: if_splits)
qed (auto simp: settled_row_ok split: if_splits)

lemma unknown_inv:
  assumes "delivery_inv (st, ob)" "ob_workers ob w = Some h"
    "mark_notification_delivery_unknown (hg_id h) error (hg_claimed_at h) st = Inr (u, st')"
  shows "delivery_inv (st', release w ob)"
proof (rule settle_inv [OF assms(1,2)])
  show "st' = map_notifications (\<lambda>n. if holds_claim (hg_id h) (hg_claimed_at h) n
      then settled_row DeliveryUnknown error (ns_now st) n else n) st"
    using assms(3) by (auto simp: mark_notification_delivery_unknown_def change_claimed_Inr split: if_splits)
qed (auto simp: settled_row_ok)

lemma requeue_notification_inv:
  assumes "delivery_inv (st, ob)" "ob_workers ob w = Some h" "hg_open h"
    "requeue_notification (hg_id h) error 60 1800 10 (hg_claimed_at h) st = Inr (u, st')"
  shows "delivery_inv (st', release w ob)"
proof (rule settle_inv [OF assms(1,2)])
  show "st' = map_notifications (\<lambda>n. if holds_claim (hg_id h) (hg_claimed_at h) n
      then requeued_notification_row error 60 1800 10 (ns_now st) n else n) st"
    using assms(4) by (auto simp: requeue_notification_def change_claimed_Inr split: if_splits)
qed (auto simp: requeued_notification_row_ok holds_claim_def assms(3))

lemma abandon_inv: "delivery_inv (st, ob) \<Longrightarrow> delivery_inv (st, release w ob)"
  unfolding delivery_inv_def release_def workers_ok_def by (auto split: if_splits)

lemma claim_next_Some:
  assumes "claim_pending_notification rate_limit window st = Inr (Some c, st')"
  obtains n where "n \<in> set (ns_notifications st)" "deliverable st n" "c = claim_answer st n"
    "st' = map_notifications (\<lambda>m. if nr_id m = nr_id n then claimed_row (ns_now st) m else m) st"
    "int (length (filter (claimed_since (ns_now st - secs window)) (ns_notifications st))) < rate_limit"
    "nr_id n \<notin> set (ns_locked st)"
proof -
  let ?q = "sort_key nr_created_at
    (filter (\<lambda>n. deliverable st n \<and> nr_id n \<notin> set (ns_locked st)) (ns_notifications st))"
  from assms obtain n rest where q: "?q = n # rest" and c: "c = claim_answer st n"
    "st' = map_notifications (\<lambda>m. if nr_id m = nr_id n then claimed_row (ns_now st) m else m) st"
    "int (length (filter (claimed_since (ns_now st - secs window)) (ns_notifications st))) < rate_limit"
    by (auto simp: claim_pending_notification_def split: if_splits list.splits)
  have "n \<in> set ?q" unfolding q by simp
  then show ?thesis by (intro that [OF _ _ c]) simp_all
qed

lemma claim_answer_fields [simp]:
  "cl_notification_id (claim_answer st n) = nr_id n"
  "cl_delivery_claimed_at (claim_answer st n) = ns_now st"
  "cl_kind (claim_answer st n) = nr_kind n"
  "cl_template_data (claim_answer st n) = template_data_of n st"
  by (simp_all add: claim_answer_def Let_def)

lemma same_row: "distinct (map nr_id rows) \<Longrightarrow> m \<in> set rows \<Longrightarrow> n \<in> set rows \<Longrightarrow> nr_id m = nr_id n \<Longrightarrow> m = n"
  by (auto simp: distinct_map inj_on_def)

lemma workers_ok_add:
  assumes "workers_ok now rows rq sent ws" "holding_ok now rows rq h"
    "(hg_id h, hg_generation h) \<notin> set sent"
    "\<And>w' h'. ws w' = Some h' \<Longrightarrow> hg_id h' = hg_id h \<Longrightarrow> hg_generation h' \<noteq> hg_generation h"
  shows "workers_ok now rows rq sent (ws(w \<mapsto> h))"
proof -
  have uniq: "w1 = w2" if "ws w1 = Some h1" "ws w2 = Some h2" "hg_id h1 = hg_id h2"
      "hg_generation h1 = hg_generation h2" for w1 w2 h1 h2
    using assms(1) that unfolding workers_ok_def by blast
  have "w1 = w2" if "(ws(w \<mapsto> h)) w1 = Some h1" "(ws(w \<mapsto> h)) w2 = Some h2" "hg_id h1 = hg_id h2"
      "hg_generation h1 = hg_generation h2" for w1 w2 h1 h2
    using that assms(4) [of w1 h1] assms(4) [of w2 h2] uniq [of w1 h1 w2 h2]
    by (auto split: if_split_asm)
  moreover have "holding_ok now rows rq h0 \<and> (hg_open h0 \<longrightarrow> (hg_id h0, hg_generation h0) \<notin> set sent)"
    if "(ws(w \<mapsto> h)) w0 = Some h0" for w0 h0
  proof (cases "w0 = w")
    case True then show ?thesis using that assms(2,3) by auto
  next
    case False then show ?thesis using that assms(1) unfolding workers_ok_def by (metis fun_upd_other)
  qed
  ultimately show ?thesis unfolding workers_ok_def by blast
qed

text \<open>Claims of the last minute are rows counted by the rate limit.\<close>

lemma recent_claims_counted:
  assumes "claims_ok now rows rq claims"
  shows "length (filter (recent now rq) claims) \<le> length (filter (claimed_since (now - secs 60)) rows)"
proof -
  let ?recent = "map fst (filter (recent now rq) claims)"
  let ?counted = "map nr_id (filter (claimed_since (now - secs 60)) rows)"
  have "set ?recent \<subseteq> set ?counted"
  proof
    fix i assume "i \<in> set ?recent"
    then obtain t where c: "(i, rq i, t) \<in> set claims" "now - secs 60 < t" by (auto simp: recent_def)
    with assms obtain n t' where "n \<in> set rows" "nr_id n = i" "nr_delivery_claimed_at n = Some t'" "t \<le> t'"
      unfolding claims_ok_def by fastforce
    with c show "i \<in> set ?counted" by (force simp: claimed_since_def)
  qed
  then have "card (set ?recent) \<le> card (set ?counted)" by (intro card_mono) auto
  moreover have "card (set ?recent) = length ?recent"
    using assms unfolding claims_ok_def by (intro distinct_card) blast
  ultimately show ?thesis using card_length [of ?counted] by simp
qed

lemma delivery_claim_inv:
  assumes inv: "delivery_inv (st, ob)" and free: "ob_workers ob w = None"
    and claim: "claim_next st = Inr (Some c, st')"
  shows "delivery_inv (st', note_claim w c ob)"
proof -
  let ?rq = "ob_requeues ob" and ?rows = "ns_notifications st" and ?now = "ns_now st"
  from inv have distinct: "distinct (map nr_id ?rows)" and rows: "\<forall>n\<in>set ?rows. row_ok ?now n"
    and workers: "workers_ok ?now ?rows ?rq (ob_sent ob) (ob_workers ob)"
    and sent: "sent_ok ?rows ?rq (ob_sent ob)" and claims: "claims_ok ?now ?rows ?rq (ob_claims ob)"
    by (auto simp: delivery_inv_def)
  from claim obtain n where n: "n \<in> set ?rows" and del: "deliverable st n" and c: "c = claim_answer st n"
    and st': "st' = map_notifications (\<lambda>m. if nr_id m = nr_id n then claimed_row ?now m else m) st"
    and room: "int (length (filter (claimed_since (?now - secs 60)) ?rows)) < DELIVERY_RATE_LIMIT"
    by (rule claim_next_Some) (simp add: DELIVERY_RATE_LIMIT_WINDOW_def)
  let ?i = "nr_id n"
  let ?f = "\<lambda>m. if nr_id m = ?i then claimed_row ?now m else m"
  let ?h = "\<lparr>hg_id = ?i, hg_claimed_at = ?now, hg_generation = ?rq ?i, hg_open = True\<rparr>"
  have only: "m = n" if "m \<in> set ?rows" "nr_id m = ?i" for m using same_row [OF distinct that(1) n that(2)] .
  have pending: "nr_delivery_status n = DeliveryPending" using del by (simp add: deliverable_def)
  have ids: "nr_id (?f m) = nr_id m" for m by (simp add: claimed_row_def)
  have idset: "nr_id ` set (map ?f ?rows) = nr_id ` set ?rows" by (simp only: set_map image_image ids)
  have others: "hg_generation h' \<noteq> ?rq ?i" "hg_claimed_at h' + delivery_timeout < ?now"
    if "ob_workers ob w' = Some h'" "hg_id h' = ?i" for w' h'
  proof -
    from workers that(1) have "holding_ok ?now ?rows ?rq h'" unfolding workers_ok_def by blast
    then have "claim_view ?now (?rq ?i) h' n" unfolding holding_ok_def using that(2) n by metis
    with pending show "hg_generation h' \<noteq> ?rq ?i" "hg_claimed_at h' + delivery_timeout < ?now"
      by (auto simp: claim_view_def split: if_splits)
  qed
  have "workers_ok ?now (map ?f ?rows) ?rq (ob_sent ob) (ob_workers ob)"
  proof (rule workers_ok_map [OF workers ids])
    fix w' h' m
    assume h': "ob_workers ob w' = Some h'" "m \<in> set ?rows" "nr_id m = hg_id h'"
      "claim_view ?now (?rq (hg_id h')) h' m"
    show "claim_view ?now (?rq (hg_id h')) h' (?f m)"
    proof (cases "nr_id m = ?i")
      case True
      with h' have i: "hg_id h' = ?i" by simp
      from others [OF h'(1) i] i True show ?thesis by (simp add: claim_view_def claimed_row_def secs_def)
    qed (simp add: h'(4))
  qed simp_all
  moreover have "holding_ok ?now (map ?f ?rows) ?rq ?h"
    unfolding holding_ok_def idset using n by (auto simp: claim_view_def claimed_row_def)
  moreover have "(?i, ?rq ?i) \<notin> set (ob_sent ob)" using sent n pending unfolding sent_ok_def by blast
  ultimately have W: "workers_ok ?now (map ?f ?rows) ?rq (ob_sent ob) ((ob_workers ob)(w \<mapsto> ?h))"
    using others(1) by (intro workers_ok_add) auto
  have S: "sent_ok (map ?f ?rows) ?rq (ob_sent ob)"
    by (rule sent_ok_map [OF sent ids]) (auto simp: claimed_row_def split: if_splits)
  have last: "t \<le> t' \<and> t' + secs 60 \<le> ?now \<and> nr_delivery_claimed_at n = Some t'"
    if "(?i, ?rq ?i, t) \<in> set (ob_claims ob)" "nr_delivery_claimed_at n = Some t'" for t t'
  proof -
    from claims that n have "t \<le> t'" unfolding claims_ok_def by fastforce
    moreover from rows n that(2) pending obtain a where "nr_next_delivery_attempt_at n = Some a" "t' + secs 60 \<le> a"
      unfolding row_ok_def by blast
    ultimately show ?thesis using del that(2) by (auto simp: deliverable_def)
  qed
  have fresh: "?i \<notin> set (map fst (filter (recent ?now ?rq) (ob_claims ob)))"
  proof
    assume "?i \<in> set (map fst (filter (recent ?now ?rq) (ob_claims ob)))"
    then obtain t where t: "(?i, ?rq ?i, t) \<in> set (ob_claims ob)" "?now - secs 60 < t" by (auto simp: recent_def)
    with claims n obtain t' where "nr_delivery_claimed_at n = Some t'" unfolding claims_ok_def by fastforce
    with last [OF t(1)] t(2) show False by auto
  qed
  let ?good = "\<lambda>(j, g, t). j \<in> nr_id ` set (map ?f ?rows) \<and> g \<le> ?rq j \<and> t \<le> ?now \<and>
      (g = ?rq j \<longrightarrow> (\<forall>m\<in>set (map ?f ?rows). nr_id m = j \<longrightarrow>
         (\<exists>t'. nr_delivery_claimed_at m = Some t' \<and> t \<le> t')))"
  have old: "?good x" if "x \<in> set (ob_claims ob)" for x
  proof -
    obtain j g t where x: "x = (j, g, t)" by (cases x)
    from claims that have "j \<in> nr_id ` set ?rows" "g \<le> ?rq j" "t \<le> ?now"
      "g = ?rq j \<longrightarrow> (\<forall>m\<in>set ?rows. nr_id m = j \<longrightarrow> (\<exists>t'. nr_delivery_claimed_at m = Some t' \<and> t \<le> t'))"
      unfolding claims_ok_def x by fastforce+
    then show ?thesis unfolding x prod.case idset by (auto simp: claimed_row_def)
  qed
  have own: "?good (?i, ?rq ?i, ?now)" unfolding prod.case idset using n by (auto simp: claimed_row_def)
  have "claims_ok ?now (map ?f ?rows) ?rq (ob_claims ob @ [(?i, ?rq ?i, ?now)])"
    unfolding claims_ok_def
  proof (intro conjI)
    show "\<forall>x\<in>set (ob_claims ob @ [(?i, ?rq ?i, ?now)]). ?good x"
      unfolding set_append list.set using old own by blast
    have new: "recent ?now ?rq (?i, ?rq ?i, ?now)" by (simp add: recent_def secs_def)
    show "distinct (map fst (filter (recent ?now ?rq) (ob_claims ob @ [(?i, ?rq ?i, ?now)])))"
      using claims fresh new by (simp add: claims_ok_def)
    show "int (length (filter (recent ?now ?rq) (ob_claims ob @ [(?i, ?rq ?i, ?now)]))) \<le> DELIVERY_RATE_LIMIT"
      using recent_claims_counted [OF claims] room new by simp
  qed
  moreover have "\<forall>m\<in>set (map ?f ?rows). row_ok ?now m"
  proof
    fix m assume "m \<in> set (map ?f ?rows)"
    then obtain x where x: "x \<in> set ?rows" "m = ?f x" by auto
    have "row_ok ?now (claimed_row ?now n)"
      using bspec [OF rows n] pending by (auto simp: row_ok_def claimed_row_def)
    then show "row_ok ?now m" using x rows only [OF x(1)] by auto
  qed
  moreover have "distinct (map nr_id (map ?f ?rows))" using distinct by (simp only: map_map comp_def ids)
  ultimately show ?thesis
    using W S unfolding delivery_inv_def st' c note_claim_def by (simp add: Let_def del: map_map set_map)
qed

lemma note_answer_fields [simp]:
  "ob_requeues (note_answer w h a ob) = ob_requeues ob" "ob_claims (note_answer w h a ob) = ob_claims ob"
  by (auto simp: note_answer_def Let_def split: sum.split EmailDeliveryError.split)

lemma note_answer_cases:
  "note_answer w h a ob = ob \<or>
   note_answer w h a ob = ob\<lparr>ob_workers := (ob_workers ob)(w \<mapsto> h\<lparr>hg_open := False\<rparr>)\<rparr> \<or>
   note_answer w h a ob = ob\<lparr>ob_workers := (ob_workers ob)(w \<mapsto> h\<lparr>hg_open := False\<rparr>),
     ob_sent := ob_sent ob @ [(hg_id h, hg_generation h)]\<rparr>"
  by (auto simp: note_answer_def Let_def split: sum.split EmailDeliveryError.split)

lemma holding_ok_close: "holding_ok now rows rq (h\<lparr>hg_open := b\<rparr>) = holding_ok now rows rq h"
  by (simp add: holding_ok_def claim_view_def)

lemma workers_ok_close:
  assumes ok: "workers_ok now rows rq sent ws" and h: "ws w = Some h"
    and sent': "set sent' \<subseteq> insert (hg_id h, hg_generation h) (set sent)"
  shows "workers_ok now rows rq sent' (ws(w \<mapsto> h\<lparr>hg_open := False\<rparr>))"
proof -
  let ?ws = "ws(w \<mapsto> h\<lparr>hg_open := False\<rparr>)"
  have old: "\<exists>h0'. ws w0 = Some h0' \<and> hg_id h0' = hg_id h0 \<and> hg_generation h0' = hg_generation h0 \<and>
      (holding_ok now rows rq h0' \<longrightarrow> holding_ok now rows rq h0)" if "?ws w0 = Some h0" for w0 h0
    using that h by (auto simp: holding_ok_close split: if_split_asm)
  have uniq: "w1 = w2" if "ws w1 = Some h1" "ws w2 = Some h2" "hg_id h1 = hg_id h2"
      "hg_generation h1 = hg_generation h2" for w1 w2 h1 h2
    using ok that unfolding workers_ok_def by blast
  have "holding_ok now rows rq h0 \<and> (hg_open h0 \<longrightarrow> (hg_id h0, hg_generation h0) \<notin> set sent')"
    if w0: "?ws w0 = Some h0" for w0 h0
  proof (cases "w0 = w")
    case True
    with w0 have "h0 = h\<lparr>hg_open := False\<rparr>" by simp
    with ok h show ?thesis unfolding workers_ok_def by (simp add: holding_ok_close)
  next
    case False
    with w0 have "ws w0 = Some h0" by simp
    with ok have "holding_ok now rows rq h0" "hg_open h0 \<longrightarrow> (hg_id h0, hg_generation h0) \<notin> set sent"
      unfolding workers_ok_def by blast+
    with uniq [OF \<open>ws w0 = Some h0\<close> h] False sent' show ?thesis by blast
  qed
  moreover have "w1 = w2" if "?ws w1 = Some h1" "?ws w2 = Some h2" "hg_id h1 = hg_id h2"
      "hg_generation h1 = hg_generation h2" for w1 w2 h1 h2
    using old [OF that(1)] old [OF that(2)] that(3,4) uniq by metis
  ultimately show ?thesis unfolding workers_ok_def by blast
qed

lemma send_inv:
  assumes inv: "delivery_inv (st, ob)" and h: "ob_workers ob w = Some h" "hg_open h"
  shows "delivery_inv (st, note_answer w h answer ob)"
proof -
  let ?rq = "ob_requeues ob" and ?rows = "ns_notifications st" and ?now = "ns_now st"
  let ?sent = "ob_sent ob @ [(hg_id h, hg_generation h)]"
  from inv have workers: "workers_ok ?now ?rows ?rq (ob_sent ob) (ob_workers ob)"
    and sent: "sent_ok ?rows ?rq (ob_sent ob)" by (auto simp: delivery_inv_def)
  from workers h have ok: "holding_ok ?now ?rows ?rq h" "(hg_id h, hg_generation h) \<notin> set (ob_sent ob)"
    unfolding workers_ok_def by blast+
  have "hg_generation h \<noteq> ?rq (nr_id n)"
    if "n \<in> set ?rows" "nr_delivery_status n = DeliveryPending" "nr_id n = hg_id h" for n
    using ok(1) that by (auto simp: holding_ok_def claim_view_def)
  with sent ok have "sent_ok ?rows ?rq ?sent" by (auto simp: sent_ok_def holding_ok_def)
  moreover have "workers_ok ?now ?rows ?rq ?sent ((ob_workers ob)(w \<mapsto> h\<lparr>hg_open := False\<rparr>))"
    "workers_ok ?now ?rows ?rq (ob_sent ob) ((ob_workers ob)(w \<mapsto> h\<lparr>hg_open := False\<rparr>))"
    by (rule workers_ok_close [OF workers h(1)], auto)+
  ultimately show ?thesis
    using note_answer_cases [of w h answer ob] inv unfolding delivery_inv_def by (elim disjE) simp_all
qed

section \<open>The other steps\<close>

lemma in_place_inv:
  assumes inv: "delivery_inv (st, ob)"
    and rows': "ns_notifications st' = map f (ns_notifications st)" and now: "ns_now st \<le> ns_now st'"
    and ids: "\<And>n. nr_id (f n) = nr_id n"
    and later: "\<And>i. ob_requeues ob i \<le> rq' i"
    and row: "\<And>n. n \<in> set (ns_notifications st) \<Longrightarrow> row_ok (ns_now st) n \<Longrightarrow> row_ok (ns_now st') (f n)"
    and view: "\<And>h n. n \<in> set (ns_notifications st) \<Longrightarrow> nr_id n = hg_id h \<Longrightarrow>
      hg_generation h \<le> ob_requeues ob (hg_id h) \<Longrightarrow>
      claim_view (ns_now st) (ob_requeues ob (hg_id h)) h n \<Longrightarrow> claim_view (ns_now st') (rq' (hg_id h)) h (f n)"
    and pending: "\<And>n. n \<in> set (ns_notifications st) \<Longrightarrow> nr_delivery_status (f n) = DeliveryPending \<Longrightarrow>
      nr_delivery_status n = DeliveryPending \<and> rq' (nr_id n) = ob_requeues ob (nr_id n) \<or>
      ob_requeues ob (nr_id n) < rq' (nr_id n)"
    and claimed: "\<And>n. n \<in> set (ns_notifications st) \<Longrightarrow> rq' (nr_id n) = ob_requeues ob (nr_id n) \<Longrightarrow>
      nr_delivery_claimed_at (f n) = nr_delivery_claimed_at n"
  shows "delivery_inv (st', ob\<lparr>ob_requeues := rq'\<rparr>)"
proof -
  let ?rq = "ob_requeues ob" and ?rows = "ns_notifications st"
  from inv have distinct: "distinct (map nr_id ?rows)" and rows: "\<forall>n\<in>set ?rows. row_ok (ns_now st) n"
    and workers: "workers_ok (ns_now st) ?rows ?rq (ob_sent ob) (ob_workers ob)"
    and sent: "sent_ok ?rows ?rq (ob_sent ob)" and claims: "claims_ok (ns_now st) ?rows ?rq (ob_claims ob)"
    by (auto simp: delivery_inv_def)
  have "workers_ok (ns_now st') (map f ?rows) rq' (ob_sent ob) (ob_workers ob)"
  proof (rule workers_ok_map [OF workers ids now later])
    fix w h n
    assume "ob_workers ob w = Some h" "n \<in> set ?rows" "nr_id n = hg_id h" "claim_view (ns_now st) (?rq (hg_id h)) h n"
    then show "claim_view (ns_now st') (rq' (hg_id h)) h (f n)"
      using workers unfolding workers_ok_def holding_ok_def by (intro view) blast+
  qed
  moreover have "sent_ok (map f ?rows) rq' (ob_sent ob)"
  proof (rule sent_ok_map [OF sent ids later])
    fix n assume n: "n \<in> set ?rows" "nr_delivery_status (f n) = DeliveryPending"
    have "g \<le> ?rq (nr_id n)" if "(nr_id n, g) \<in> set (ob_sent ob)" for g
      using sent that unfolding sent_ok_def by blast
    with pending [OF n] show "nr_delivery_status n = DeliveryPending \<and> rq' (nr_id n) = ?rq (nr_id n) \<or>
        (nr_id n, rq' (nr_id n)) \<notin> set (ob_sent ob)" by fastforce
  qed
  moreover have "claims_ok (ns_now st') (map f ?rows) rq' (ob_claims ob)"
    by (rule claims_ok_map [OF claims ids now later claimed])
  moreover have "distinct (map nr_id (map f ?rows))" using distinct by (simp add: comp_def ids)
  moreover have "\<forall>n\<in>set (map f ?rows). row_ok (ns_now st') n" using rows row by auto
  ultimately show ?thesis unfolding delivery_inv_def by (simp add: rows' del: map_map set_map)
qed

lemma same_outbox: "ob\<lparr>ob_requeues := ob_requeues ob\<rparr> = ob"
  by simp

lemma row_ok_now: "row_ok now n \<Longrightarrow> now \<le> now' \<Longrightarrow> row_ok now' n"
  unfolding row_ok_def by force

lemma clock_inv_delivery:
  assumes "delivery_inv (st, ob)" "ns_notifications st' = ns_notifications st" "ns_now st \<le> ns_now st'"
  shows "delivery_inv (st', ob)"
  using in_place_inv [OF assms(1), of st' "\<lambda>n. n" "ob_requeues ob"] assms(2,3)
  by (simp add: row_ok_now claim_view_now)

lemma stale_inv:
  assumes inv: "delivery_inv (st, ob)"
    and stale: "mark_stale_processing_notifications_unknown 900 st = Inr (k, st')"
  shows "delivery_inv (st', ob)"
proof -
  let ?s = "abandoned (ns_now st - delivery_timeout)"
  let ?e = "''delivery outcome unknown after processing timeout''"
  let ?f = "\<lambda>n. if ?s n then settled_row DeliveryUnknown (Some ?e) (ns_now st) n else n"
  have st': "st' = map_notifications ?f st"
    using stale by (simp add: mark_stale_processing_notifications_unknown_def Let_def)
  have "delivery_inv (st', ob\<lparr>ob_requeues := ob_requeues ob\<rparr>)"
  proof (rule in_place_inv [OF inv, where f = ?f])
    fix h n
    assume view: "claim_view (ns_now st) (ob_requeues ob (hg_id h)) h n"
    then show "claim_view (ns_now st') (ob_requeues ob (hg_id h)) h (?f n)"
      by (auto simp: claim_view_def st' abandoned_def)
  qed (auto simp: st' settled_row_ok split: if_splits)
  then show ?thesis by simp
qed

lemma manual_inv:
  assumes inv: "delivery_inv (st, ob)"
    and manual: "manual_requeue_notifications ids reason st = Inr (k, st')"
  shows "delivery_inv (st', note_requeue ids st ob)"
proof -
  let ?s = "selected_terminal ids" and ?rows = "ns_notifications st"
  let ?f = "\<lambda>n. if ?s n then reset_row reason n else n"
  let ?rq = "\<lambda>i. if list_ex (\<lambda>n. nr_id n = i \<and> ?s n) ?rows then ob_requeues ob i + 1 else ob_requeues ob i"
  have st': "ns_notifications st' = map ?f ?rows" "ns_now st' = ns_now st"
    using manual by (auto simp: manual_requeue_notifications_def Let_def split: if_splits)
  from inv have distinct: "distinct (map nr_id ?rows)" by (simp add: delivery_inv_def)
  have sel: "list_ex (\<lambda>m. nr_id m = nr_id n \<and> ?s m) ?rows \<longleftrightarrow> ?s n" if "n \<in> set ?rows" for n
    using that same_row [OF distinct _ that] by (auto simp: list_ex_iff)
  show ?thesis unfolding note_requeue_def
  proof (rule in_place_inv [OF inv st'(1)])
    fix n assume "n \<in> set ?rows" "row_ok (ns_now st) n"
    then show "row_ok (ns_now st') (?f n)" by (auto simp: row_ok_def reset_row_def st'(2))
  next
    fix h n
    assume n: "n \<in> set ?rows" "nr_id n = hg_id h" and g: "hg_generation h \<le> ob_requeues ob (hg_id h)"
      and view: "claim_view (ns_now st) (ob_requeues ob (hg_id h)) h n"
    show "claim_view (ns_now st') (?rq (hg_id h)) h (?f n)"
      using view g sel [OF n(1)] n(2)
      by (auto simp: claim_view_def st'(2) reset_row_def selected_terminal_def split: if_split_asm)
  qed (auto simp: st'(2) reset_row_def sel)
qed

text \<open>Queueing appends untouched rows under new identifiers.\<close>

definition untouched :: "notification_row \<Rightarrow> bool" where
  "untouched n \<longleftrightarrow> nr_delivery_attempts n = 0 \<and> nr_delivery_status n = DeliveryPending \<and>
     nr_delivery_claimed_at n = None \<and> nr_next_delivery_attempt_at n = None"

definition extends :: "notification_store \<Rightarrow> notification_store \<Rightarrow> bool" where
  "extends st st' \<longleftrightarrow> ns_now st' = ns_now st \<and>
     (\<exists>new. ns_notifications st' = ns_notifications st @ new \<and> (\<forall>n\<in>set new. untouched n)) \<and>
     (distinct (map nr_id (ns_notifications st)) \<longrightarrow> distinct (map nr_id (ns_notifications st')))"

lemma extends_same: "ns_now st' = ns_now st \<Longrightarrow> ns_notifications st' = ns_notifications st \<Longrightarrow> extends st st'"
  by (simp add: extends_def)

lemma extends_then:
  "extends a b \<Longrightarrow> ns_now c = ns_now b \<Longrightarrow> ns_notifications c = ns_notifications b \<Longrightarrow> extends a c"
  by (simp add: extends_def)

lemma extends_trans: "extends a b \<Longrightarrow> extends b c \<Longrightarrow> extends a c"
  by (auto simp: extends_def)

lemma extends_inv:
  assumes inv: "delivery_inv (st, ob)" and ext: "extends st st'"
  shows "delivery_inv (st', ob)"
proof -
  let ?rq = "ob_requeues ob" and ?rows = "ns_notifications st"
  from inv have distinct: "distinct (map nr_id ?rows)" and rows: "\<forall>n\<in>set ?rows. row_ok (ns_now st) n"
    and workers: "workers_ok (ns_now st) ?rows ?rq (ob_sent ob) (ob_workers ob)"
    and sent: "sent_ok ?rows ?rq (ob_sent ob)" and claims: "claims_ok (ns_now st) ?rows ?rq (ob_claims ob)"
    by (auto simp: delivery_inv_def)
  from ext obtain new where now: "ns_now st' = ns_now st" and rows': "ns_notifications st' = ?rows @ new"
    and new: "\<forall>n\<in>set new. untouched n" by (auto simp: extends_def)
  from ext distinct have distinct': "distinct (map nr_id (?rows @ new))" by (simp add: extends_def rows')
  then have apart: "nr_id m \<noteq> nr_id n" if "n \<in> set new" "m \<in> set ?rows" for m n using that by auto
  have "holding_ok (ns_now st) (?rows @ new) ?rq h" if "holding_ok (ns_now st) ?rows ?rq h" for h
    using that by (auto simp: holding_ok_def dest: apart)
  with workers have "workers_ok (ns_now st) (?rows @ new) ?rq (ob_sent ob) (ob_workers ob)"
    unfolding workers_ok_def by blast
  moreover have "sent_ok (?rows @ new) ?rq (ob_sent ob)"
    using sent by (fastforce simp: sent_ok_def dest: apart)
  moreover have "claims_ok (ns_now st) (?rows @ new) ?rq (ob_claims ob)"
    using claims by (fastforce simp: claims_ok_def dest: apart)
  moreover have "row_ok (ns_now st) n" if "n \<in> set new" for n
    using new that by (auto simp: row_ok_def untouched_def)
  ultimately show ?thesis using distinct' rows unfolding delivery_inv_def by (auto simp: rows' now)
qed

lemma upsert_template_data_same:
  assumes "upsert_template_data env d st = (i, st')"
  shows "ns_now st' = ns_now st" "ns_notifications st' = ns_notifications st" "ns_users st' = ns_users st"
  using assms by (auto simp: upsert_template_data_def Let_def split: option.splits)

lemma upsert_attachment_same:
  assumes "upsert_attachment env a data st = (i, st')"
  shows "ns_now st' = ns_now st" "ns_notifications st' = ns_notifications st"
  using assms by (auto simp: upsert_attachment_def Let_def split: option.splits)

lemma link_attachments_same:
  "link_attachments env ids as st = Inr st' \<Longrightarrow>
     ns_now st' = ns_now st \<and> ns_notifications st' = ns_notifications st"
proof (induction as arbitrary: st)
  case (Cons a as)
  from Cons.prems obtain data where data: "nv_base64_decode env (ea_data_base64 a) = Some data"
    by (auto split: option.splits)
  obtain i st1 where up: "upsert_attachment env a data st = (i, st1)" by (cases "upsert_attachment env a data st")
  from Cons.prems have "link_attachments env ids as
      (st1\<lparr>ns_links := ns_links st1 @ map (\<lambda>j. (j, i)) ids\<rparr>) = Inr st'"
    by (simp add: data up split: if_splits)
  from Cons.IH [OF this] upsert_attachment_same [OF up] show ?case by simp
qed simp

lemma insert_notifications_rows:
  "ns_now (insert_notifications env kind data_id rs st) = ns_now st"
  "\<exists>new. ns_notifications (insert_notifications env kind data_id rs st) = ns_notifications st @ new \<and>
     (\<forall>n\<in>set new. untouched n \<and> nr_kind n = kind \<and> nr_user_id n \<in> set rs)"
proof -
  show "ns_now (insert_notifications env kind data_id rs st) = ns_now st"
    by (simp add: insert_notifications_def)
  have "untouched n \<and> nr_kind n = kind \<and> nr_user_id n \<in> set rs"
    if "n \<in> set (map2 (new_row kind data_id (ns_now st)) rs (fresh_ids env (length rs) st))" for n
    using that by (auto simp: new_row_def untouched_def dest: set_zip_leftD)
  then show "\<exists>new. ns_notifications (insert_notifications env kind data_id rs st) = ns_notifications st @ new \<and>
     (\<forall>n\<in>set new. untouched n \<and> nr_kind n = kind \<and> nr_user_id n \<in> set rs)"
    by (simp add: insert_notifications_def)
qed

text \<open>What an insertion adds: untouched rows of the kind, for some of the recipients.\<close>

lemma insert_for_recipients_rows:
  assumes "insert_for_recipients env kind data as rs st = Inr (u, st')"
  obtains new where "ns_notifications st' = ns_notifications st @ new"
    "\<forall>n\<in>set new. untouched n \<and> nr_kind n = kind \<and> nr_user_id n \<in> set rs" "ns_now st' = ns_now st"
    "distinct (map nr_id (ns_notifications st'))"
proof -
  obtain data_id st1 where up: "(case data of None \<Rightarrow> (None, st)
      | Some d \<Rightarrow> (case upsert_template_data env d st of (i, st1) \<Rightarrow> (Some i, st1))) = (data_id, st1)"
    by (cases "case data of None \<Rightarrow> (None, st)
      | Some d \<Rightarrow> (case upsert_template_data env d st of (i, st1) \<Rightarrow> (Some i, st1))")
  then have st1: "ns_now st1 = ns_now st" "ns_notifications st1 = ns_notifications st"
    by (auto split: option.splits prod.splits dest: upsert_template_data_same)
  from assms have l: "link_attachments env (sort (fresh_ids env (length rs) st1)) as
      (insert_notifications env kind data_id rs st1) = Inr st'" and k: "keys_unique st'"
    by (auto simp: insert_for_recipients_def up and_then_eq_Inr split: if_splits)
  from insert_notifications_rows(2) [of env kind data_id rs st1] obtain new where new:
    "ns_notifications (insert_notifications env kind data_id rs st1) = ns_notifications st1 @ new"
    "\<forall>n\<in>set new. untouched n \<and> nr_kind n = kind \<and> nr_user_id n \<in> set rs" by blast
  show ?thesis
    using link_attachments_same [OF l] new st1 k that [of new]
    by (simp add: insert_notifications_rows(1) keys_unique_def)
qed

lemma enqueue_rows:
  assumes "enqueue_notification env kind data as rs st = Inr (u, st')"
  obtains new where "ns_notifications st' = ns_notifications st @ new"
    "\<forall>n\<in>set new. untouched n \<and> nr_kind n = kind \<and> nr_user_id n \<in> set rs" "ns_now st' = ns_now st"
    "distinct (map nr_id (ns_notifications st)) \<longrightarrow> distinct (map nr_id (ns_notifications st'))"
proof -
  from assms have "st' = st \<or>
      insert_for_recipients env kind data as (filter (wants_optional st) rs) st = Inr (u, st') \<or>
      insert_for_recipients env kind data as rs st = Inr (u, st')"
    unfolding enqueue_notification_def Let_def by (simp split: option.splits if_split_asm)
  then consider "st' = st" | rs' where "insert_for_recipients env kind data as rs' st = Inr (u, st')"
    "set rs' \<subseteq> set rs" 
    using filter_is_subset [of "wants_optional st" rs] subset_refl [of "set rs"] by metis
  then show ?thesis
  proof cases
    case 1
    then show ?thesis by (intro that [of "[]"]) simp_all
  next
    case 2
    from insert_for_recipients_rows [OF 2(1)] obtain new where new: "ns_notifications st' = ns_notifications st @ new"
      "\<forall>n\<in>set new. untouched n \<and> nr_kind n = kind \<and> nr_user_id n \<in> set rs'" "ns_now st' = ns_now st"
      "distinct (map nr_id (ns_notifications st'))" by blast
    show ?thesis
    proof (rule that [OF new(1) _ new(3)])
      show "\<forall>n\<in>set new. untouched n \<and> nr_kind n = kind \<and> nr_user_id n \<in> set rs" using new(2) 2(2) by blast
    qed (simp add: new(4))
  qed
qed

lemma enqueue_extends: "enqueue_notification env kind data as rs st = Inr (u, st') \<Longrightarrow> extends st st'"
  by (erule enqueue_rows) (auto simp: extends_def)

lemma tracked_extends:
  "enqueue_tracked_custom_notification env kind data as rs by e g k subject body st = Inr (u, st') \<Longrightarrow> extends st st'"
  unfolding enqueue_tracked_custom_notification_def and_then_eq_Inr track_custom_notification_def
  by (auto split: if_splits dest!: enqueue_extends elim!: extends_then)

lemma remind_extends: "remind env base_url e copy rs st = Inr (u, st') \<Longrightarrow> extends st st'"
  by (auto simp: remind_def extends_same split: if_splits dest: enqueue_extends)

lemma update_reminder_event_same [simp]:
  "ns_now (update_reminder_event i f st) = ns_now st"
  "ns_notifications (update_reminder_event i f st) = ns_notifications st"
  by (simp_all add: update_reminder_event_def)

lemma remind_event_extends:
  assumes "remind_event env base_url e st = Inr (k, st')"
  shows "extends st st'"
proof (cases "length (attendee_recipients st e) + length (speaker_only_recipients st e) > 0")
  case True
  with assms obtain st1 st2 where
    "remind env base_url e True (attendee_recipients st e) st = Inr ((), st1)"
    "remind env base_url e False (speaker_only_recipients st e) st1 = Inr ((), st2)"
    and st': "st' = update_reminder_event (re_event_id e) (evaluated_event (Some (ns_now st2))) st2"
    by (auto simp: remind_event_def Let_def and_then_eq_Inr)
  then have "extends st st2" by (blast intro: remind_extends extends_trans)
  then show ?thesis by (rule extends_then) (simp_all add: st')
next
  case False
  with assms have "st' = update_reminder_event (re_event_id e) (evaluated_event None) st"
    by (simp add: remind_event_def Let_def)
  then show ?thesis by (simp add: extends_same)
qed

lemma remind_events_extends: "remind_events env base_url es k st = Inr (k', st') \<Longrightarrow> extends st st'"
proof (induction es arbitrary: k st)
  case Nil
  then show ?case by (simp add: extends_same)
next
  case (Cons e es)
  from Cons.prems obtain n st1 where "remind_event env base_url e st = Inr (n, st1)"
    "remind_events env base_url es (k + n) st1 = Inr (k', st')" by (auto simp: and_then_eq_Inr)
  then show ?case using Cons.IH remind_event_extends extends_trans by blast
qed

lemma reminders_extend: "enqueue_due_event_reminders env base_url st = Inr (k, st') \<Longrightarrow> extends st st'"
  by (auto simp: enqueue_due_event_reminders_def extends_same split: if_splits dest: remind_events_extends)

section \<open>Reachable states\<close>

lemma delivery_step_inv: "delivery_step env a x y \<Longrightarrow> delivery_inv x \<Longrightarrow> delivery_inv y"
proof (induction rule: delivery_step.induct)
  case (step_claim ob w st c st') then show ?case using delivery_claim_inv by blast
next
  case (step_send ob w h st answer) then show ?case using send_inv by blast
next
  case (step_update ob w h error st st') then show ?case using update_inv by blast
next
  case (step_unknown ob w h error st st') then show ?case using unknown_inv by blast
next
  case (step_requeue ob w h error st st') then show ?case using requeue_notification_inv by blast
next
  case (step_abandon w st ob) then show ?case using abandon_inv by blast
next
  case (step_stale st n st' ob) then show ?case using stale_inv by blast
next
  case (step_manual ids reason st n st' ob) then show ?case using manual_inv by blast
next
  case (step_enqueue kind data attachments recipients st st' ob)
  then show ?case using extends_inv enqueue_extends by blast
next
  case (step_tracked kind data attachments recipients created_by event_id group_id k subject body st st' ob)
  then show ?case using extends_inv tracked_extends by blast
next
  case (step_reminders base_url st k st' ob) then show ?case using extends_inv reminders_extend by blast
next
  case (step_clock st now ob)
  then show ?case using clock_inv_delivery [of st ob "st\<lparr>ns_now := now\<rparr>"] by simp
next
  case (step_others st' st ob) then show ?case using clock_inv_delivery [of st ob st'] by simp
qed

lemma delivery_steps_inv: "delivery_steps env x y \<Longrightarrow> delivery_inv x \<Longrightarrow> delivery_inv y"
  unfolding delivery_steps_def
  by (induction rule: rtranclp_induct) (auto intro: delivery_step_inv)

lemma empty_delivery_inv: "ns_notifications st = [] \<Longrightarrow> delivery_inv (st, empty_outbox)"
  by (simp add: delivery_inv_def empty_outbox_def workers_ok_def sent_ok_def claims_ok_def
      DELIVERY_RATE_LIMIT_def)

lemma delivery_reachable_inv: "delivery_reachable env x \<Longrightarrow> delivery_inv x"
  unfolding delivery_reachable_def using delivery_steps_inv empty_delivery_inv by blast

lemma delivery_reachable_steps: "delivery_reachable env x \<Longrightarrow> delivery_steps env x y \<Longrightarrow> delivery_reachable env y"
  unfolding delivery_reachable_def delivery_steps_def by (meson rtranclp_trans)

lemma sent_count:
  assumes "sent_ok rows rq sent"
  shows "length (filter (\<lambda>m. fst m = i) sent) \<le> Suc (rq i)"
proof -
  let ?mine = "filter (\<lambda>m. fst m = i) sent"
  have "snd ` set ?mine \<subseteq> {..rq i}" using assms by (auto simp: sent_ok_def)
  then have "card (snd ` set ?mine) \<le> card {..rq i}" by (intro card_mono) auto
  moreover have "inj_on snd (set ?mine)" by (auto simp: inj_on_def)
  moreover have "card (set ?mine) = length ?mine"
    using assms by (intro distinct_card) (simp add: sent_ok_def)
  ultimately show ?thesis by (simp add: card_image)
qed

section \<open>Delivery at most once\<close>

text \<open>
  C6: a notification is delivered at most once. However many workers run, however their steps
  interleave with recoveries, retries, restarts and each other, the mail server has accepted (or may
  have accepted) at most one message of a notification, and one more for each time an operator
  requeued it by hand.
\<close>

theorem notification_delivered_at_most_once:
  assumes "delivery_reachable env (st, ob)"
  shows "length (filter (\<lambda>m. fst m = i) (ob_sent ob)) \<le> 1 + ob_requeues ob i"
  using delivery_reachable_inv [OF assms] sent_count [of "ns_notifications st"]
  by (auto simp: delivery_inv_def)



section \<open>An example\<close>

lemma steps_refl [simp]: "delivery_steps env x x"
  by (simp add: delivery_steps_def)

lemma steps_trans: "delivery_steps env x y \<Longrightarrow> delivery_steps env y z \<Longrightarrow> delivery_steps env x z"
  unfolding delivery_steps_def by (rule rtranclp_trans)

lemma one_step: "delivery_step env a x y \<Longrightarrow> delivery_steps env x y"
  unfolding delivery_steps_def by blast

text \<open>One user with one queued verification e-mail, and a library and templates that accept anything.\<close>

definition sample_notify_env :: notify_env where
  "sample_notify_env = \<lparr>nv_uuid = of_nat, nv_data_hash = (\<lambda>_. ''h''), nv_bytes_hash = id,
     nv_base64_encode = id, nv_base64_decode = Some, nv_event_summary = (\<lambda>_. JNull)\<rparr>"

definition sample_notify_store :: notification_store where
  "sample_notify_store = \<lparr>ns_now = 0, ns_draws = 0, ns_locked = [], ns_reminder_lock_taken = False,
     ns_users = [\<lparr>nu_user_id = 7, nu_email = ''ada@example.org'', nu_email_verified = False,
       nu_optional_notifications_enabled = True, nu_registration_status = ''registered''\<rparr>],
     ns_kinds = [\<lparr>nk_name = ''email-verification'', nk_optional_notification = False\<rparr>],
     ns_template_data = [], ns_attachments = [], ns_notifications = [], ns_links = [], ns_custom = [],
     ns_events = [], ns_theme = None, ns_audit = []\<rparr>"

definition sample_row :: notification_row where
  "sample_row = new_row ''email-verification'' (Some 0) 0 7 1"

definition queued_store :: notification_store where
  "queued_store = sample_notify_store\<lparr>ns_draws := 2, ns_notifications := [sample_row],
     ns_template_data := [\<lparr>td_id = 0, td_data = JNull, td_hash = ''h''\<rparr>]\<rparr>"

lemma sample_enqueue:
  "enqueue_notification sample_notify_env ''email-verification'' (Some JNull) [] [7] sample_notify_store =
     Inr ((), queued_store)"
  by code_simp

lemma queued_reachable: "delivery_reachable sample_notify_env (queued_store, empty_outbox)"
  unfolding delivery_reachable_def
  using one_step [OF step_enqueue [OF sample_enqueue]]
  by (intro exI [of _ sample_notify_store] conjI) (simp_all add: sample_notify_store_def)

definition sample_claim :: claimed_notification where
  "sample_claim = \<lparr>cl_attachment_ids = None, cl_delivery_claimed_at = 0, cl_email = ''ada@example.org'',
     cl_kind = ''email-verification'', cl_notification_id = 1, cl_template_data = Some JNull\<rparr>"

definition claimed_store :: notification_store where
  "claimed_store = queued_store\<lparr>ns_notifications := [claimed_row 0 sample_row]\<rparr>"

lemma sample_delivery_claims: "claim_next queued_store = Inr (Some sample_claim, claimed_store)"
  by (simp add: claim_pending_notification_def DELIVERY_RATE_LIMIT_def DELIVERY_RATE_LIMIT_WINDOW_def,
      simp add: queued_store_def sample_notify_store_def sample_row_def new_row_def claimed_since_def,
      simp add: deliverable_def find_notified_def eligible_user_def,
      simp add: claim_answer_def find_notified_def template_data_of_def sample_claim_def map_notifications_def
        claimed_store_def queued_store_def sample_notify_store_def sample_row_def new_row_def)

definition sent_outbox :: outbox where
  "sent_outbox = note_answer 0 \<lparr>hg_id = 1, hg_claimed_at = 0, hg_generation = 0, hg_open = True\<rparr>
     (Inr ()) (note_claim 0 sample_claim empty_outbox)"

lemma sent_reachable: "delivery_reachable sample_notify_env (claimed_store, sent_outbox)"
proof -
  let ?ob = "note_claim 0 sample_claim empty_outbox"
  have 1: "delivery_step sample_notify_env (Some 0) (queued_store, empty_outbox) (claimed_store, ?ob)"
    by (rule step_claim) (simp_all add: sample_delivery_claims empty_outbox_def)
  have 2: "delivery_step sample_notify_env (Some 0) (claimed_store, ?ob) (claimed_store, sent_outbox)"
    unfolding sent_outbox_def
    by (rule step_send) (simp_all add: note_claim_def sample_claim_def empty_outbox_def)
  show ?thesis
    by (rule delivery_reachable_steps [OF queued_reachable steps_trans [OF one_step [OF 1] one_step [OF 2]]])
qed

theorem notification_delivered_at_most_once_witness:
  "length (filter (\<lambda>m. fst m = 1) (ob_sent sent_outbox)) \<le> 1 \<and> ob_sent sent_outbox = [(1, 0)]"
  using notification_delivered_at_most_once [OF sent_reachable, of 1]
  by (simp add: sent_outbox_def note_answer_def note_claim_def empty_outbox_def sample_claim_def)



end
