(* ===== verification/Notification_Worker.thy ===== *)
theory Notification_Worker
  imports Notification_Delivery
begin

text \<open>
  The delivery worker of the program as a worker of the system of \<open>Notification_Delivery\<close>: each of its
  rounds is a sequence of steps there, so what was proved of the reachable states of the system holds
  of the program. The rest of the theory is about single rounds: what is recorded for which answer, and
  who is never written to.
\<close>

section \<open>The worker of the program takes steps of the system\<close>

text \<open>
  The worker of \<open>Notifications\<close> as the worker \<open>w\<close> of the system. Before each of its calls, and while
  it sleeps, the others run: \<open>others\<close> is any function of the world that takes steps of theirs.
  \<open>answer\<close> is the mail server. Claiming, sending and recording maintain the outbox.
\<close>

definition noted_claim :: "nat \<Rightarrow> (delivery_world, Notification option) io" where
  "noted_claim w = (\<lambda>(st, ob).
     case pg_claim_pending_notification (st, ob) of (r, (st', _)) \<Rightarrow>
       (r, (st', case claim_next st of
          Inr (Some c, _) \<Rightarrow>
            (case r of Inr (Some _) \<Rightarrow> note_claim w c ob | _ \<Rightarrow> release w (note_claim w c ob))
        | _ \<Rightarrow> ob)))"

definition finishing :: "nat \<Rightarrow> (delivery_world, unit) io \<Rightarrow> (delivery_world, unit) io" where
  "finishing w m = (\<lambda>x. case m x of (r, (st, ob)) \<Rightarrow> (r, (st, release w ob)))"

definition worker_db ::
    "notify_env \<Rightarrow> nat \<Rightarrow> (delivery_world \<Rightarrow> delivery_world) \<Rightarrow> delivery_world DBNotifications" where
  "worker_db env w others = (pg_notifications env)\<lparr>
     db_claim_pending_notification := noted_claim w \<circ> others,
     db_mark_notification_delivery_unknown :=
       \<lambda>n e. finishing w (pg_mark_notification_delivery_unknown n e) \<circ> others,
     db_requeue_notification :=
       \<lambda>n e base limit k. finishing w (pg_requeue_notification n e base limit k) \<circ> others,
     db_update_notification := \<lambda>n e. finishing w (pg_update_notification n e) \<circ> others\<rparr>"

definition answering ::
    "nat \<Rightarrow> (delivery_world \<Rightarrow> delivery_world) \<Rightarrow> (Message \<Rightarrow> delivery_world \<Rightarrow> SmtpError + unit) \<Rightarrow>
     Message \<Rightarrow> (delivery_world, SmtpError, unit) act" where
  "answering w others answer m = (\<lambda>x.
     case others x of (st, ob) \<Rightarrow>
       (answer m (st, ob), (st, case ob_workers ob w of
          Some h \<Rightarrow> note_answer w h (answer m (st, ob)) ob
        | None \<Rightarrow> ob)))"

definition system_worker ::
    "notify_env \<Rightarrow> string \<Rightarrow> EmailConfig \<Rightarrow> mail_lib \<Rightarrow> templates \<Rightarrow>
     (Message \<Rightarrow> delivery_world \<Rightarrow> SmtpError + unit) \<Rightarrow> nat \<Rightarrow> (delivery_world \<Rightarrow> delivery_world) \<Rightarrow>
     delivery_world DeliveryWorker" where
  "system_worker env base_url cfg ml tm answer w others =
     \<lparr>wk_base_url = base_url, wk_cfg = cfg, wk_db = worker_db env w others,
      wk_email_sender = lettre_send (answering w others answer), wk_mail = ml,
      wk_pause = \<lambda>_. others, wk_templates = tm\<rparr>"

definition steps_of_others :: "notify_env \<Rightarrow> nat \<Rightarrow> delivery_world \<Rightarrow> delivery_world \<Rightarrow> bool" where
  "steps_of_others env w = (\<lambda>x y. \<exists>a. a \<noteq> Some w \<and> delivery_step env a x y)\<^sup>*\<^sup>*"

definition interference :: "notify_env \<Rightarrow> nat \<Rightarrow> (delivery_world \<Rightarrow> delivery_world) \<Rightarrow> bool" where
  "interference env w others \<longleftrightarrow> (\<forall>x. steps_of_others env w x (others x))"

lemma other_step_keeps: "delivery_step env a x y \<Longrightarrow> a \<noteq> Some w \<Longrightarrow> ob_workers (snd y) w = ob_workers (snd x) w"
proof (induction rule: delivery_step.induct)
  case (step_send ob w' h st answer)
  then show ?case using note_answer_cases [of w' h answer ob] by auto
qed (auto simp: note_claim_def release_def note_requeue_def Let_def)

lemma steps_of_others_D:
  assumes "steps_of_others env w x y"
  shows "delivery_steps env x y" "ob_workers (snd y) w = ob_workers (snd x) w"
proof -
  show "delivery_steps env x y"
    using assms unfolding steps_of_others_def delivery_steps_def by (rule rtranclp_mono [THEN predicate2D, rotated]) blast
  show "ob_workers (snd y) w = ob_workers (snd x) w"
    using assms unfolding steps_of_others_def
    by (induction rule: rtranclp_induct) (auto dest: other_step_keeps)
qed

text \<open>The worker holds the claim of a notification; no message of the claim may have been accepted.\<close>

definition holds :: "nat \<Rightarrow> Notification \<Rightarrow> delivery_world \<Rightarrow> bool" where
  "holds w n x \<longleftrightarrow> (\<exists>h. ob_workers (snd x) w = Some h \<and> hg_id h = no_notification_id n \<and>
     hg_claimed_at h = no_delivery_claimed_at n)"

definition holds_open :: "nat \<Rightarrow> Notification \<Rightarrow> delivery_world \<Rightarrow> bool" where
  "holds_open w n x \<longleftrightarrow> (\<exists>h. ob_workers (snd x) w = Some h \<and> hg_id h = no_notification_id n \<and>
     hg_claimed_at h = no_delivery_claimed_at n \<and> hg_open h)"

lemma holds_open_holds: "holds_open w n x \<Longrightarrow> holds w n x"
  by (auto simp: holds_open_def holds_def)

lemma holds_others:
  assumes "steps_of_others env w x y"
  shows "holds w n y = holds w n x" "holds_open w n y = holds_open w n x"
  using steps_of_others_D(2) [OF assms] by (simp_all add: holds_def holds_open_def)

text \<open>What an attempt leaves behind.\<close>

definition attempted ::
    "notify_env \<Rightarrow> nat \<Rightarrow> Notification \<Rightarrow> delivery_world \<Rightarrow> (EmailDeliveryError + unit) \<times> delivery_world \<Rightarrow> bool" where
  "attempted env w n x = (\<lambda>(r, y). delivery_steps env x y \<and> holds w n y \<and>
     (\<forall>e. r = Inl (EmailRetryable e) \<longrightarrow> holds_open w n y))"

lemma attempted_after: "delivery_steps env x y \<Longrightarrow> attempted env w n y p \<Longrightarrow> attempted env w n x p"
  unfolding attempted_def by (cases p) (auto intro: steps_trans)

lemma attachment_parts_terminal: "attachment_parts ml as = Inl e \<Longrightarrow> \<exists>m. e = EmailTerminal m"
  by (induction as) (auto simp: and_then_def or_terminal_def split: sum.splits)

lemma email_message_terminal: "email_message ml cfg to_address subject body as = Inl e \<Longrightarrow> \<exists>m. e = EmailTerminal m"
  by (auto simp: email_message_def and_then_def or_terminal_def split: sum.splits
      dest: attachment_parts_terminal)

lemma answered_attempt:
  assumes others: "interference env w others" and open_claim: "holds_open w n x"
  shows "attempted env w n x (lettre_send (answering w others answer) m x)"
proof -
  note others' = others [unfolded interference_def, rule_format]
  obtain st ob where o: "others x = (st, ob)" by (cases "others x")
  from open_claim obtain h where h: "ob_workers ob w = Some h" "hg_id h = no_notification_id n"
    "hg_claimed_at h = no_delivery_claimed_at n" "hg_open h"
    using holds_others(2) [OF others' [of x]] by (auto simp: o holds_open_def)
  let ?a = "answer m (st, ob)"
  have "delivery_steps env x (st, note_answer w h ?a ob)"
    using steps_of_others_D(1) [OF others' [of x]] one_step [OF step_send [OF h(1,4)]] steps_trans
    by (metis o)
  moreover have "holds w n (st, note_answer w h ?a ob)"
    using note_answer_cases [of w h ?a ob] h by (auto simp: holds_def)
  moreover have "holds_open w n (st, note_answer w h ?a ob)" if "?a = Inl e" "from_smtp e = EmailRetryable e'" for e e'
    using that h by (simp add: note_answer_def holds_open_def)
  ultimately show ?thesis
    by (auto simp: attempted_def lettre_send_def answering_def act_map_err_def o h(1) split: sum.splits)
qed

lemma send_email_attempt:
  assumes others: "interference env w others" and open_claim: "holds_open w n x"
  shows "attempted env w n x
    (send_email ml cfg (lettre_send (answering w others answer)) to_address subject body as x)"
proof (cases "email_message ml cfg to_address subject body as")
  case (Inl e)
  with email_message_terminal [OF Inl] show ?thesis
    using holds_open_holds [OF open_claim] by (auto simp: send_email_def attempted_def)
next
  case (Inr m)
  show ?thesis
  proof (cases "recipient_allowed cfg to_address")
    case True
    have "send_email ml cfg (lettre_send (answering w others answer)) to_address subject body as x =
        lettre_send (answering w others answer) m x"
      by (auto simp: send_email_def Inr True act_bind_def act_ok_def act_lift_def split: prod.split sum.split)
    with answered_attempt [OF others open_claim] show ?thesis by simp
  next
    case False
    then show ?thesis using holds_open_holds [OF open_claim] by (auto simp: send_email_def Inr attempted_def)
  qed
qed

lemma send_attempts_attempt:
  assumes others: "interference env w others"
    and send: "\<And>x. holds_open w n x \<Longrightarrow> attempted env w n x (send x)"
  shows "holds_open w n x \<Longrightarrow> attempted env w n x (send_attempts (\<lambda>_. others) send k x)"
proof (induction "DELIVERY_SEND_MAX_ATTEMPTS - k" arbitrary: k x rule: less_induct)
  case less
  note others' = others [unfolded interference_def, rule_format]
  obtain r y where y: "send x = (r, y)" by (cases "send x")
  from send [OF less.prems] have a: "attempted env w n x (r, y)" by (simp add: y)
  show ?case
  proof (cases "\<exists>e. r = Inl e \<and> k < DELIVERY_SEND_MAX_ATTEMPTS \<and> email_is_retryable e")
    case True
    then obtain e0 where "r = Inl e0" "k < DELIVERY_SEND_MAX_ATTEMPTS" "email_is_retryable e0" by blast
    then obtain e where e: "r = Inl (EmailRetryable e)" "k < DELIVERY_SEND_MAX_ATTEMPTS"
      by (cases e0) (auto simp: email_is_retryable_def)
    with a have "holds_open w n (others y)" using holds_others(2) [OF others'] by (simp add: attempted_def)
    from less.hyps [OF _ this, of "k + 1"] e(2)
    have rest: "attempted env w n (others y) (send_attempts (\<lambda>_. others) send (k + 1) (others y))" by simp
    have "send_attempts (\<lambda>_. others) send k x = send_attempts (\<lambda>_. others) send (k + 1) (others y)"
      using e by (simp add: send_attempts.simps [of _ _ k] y email_is_retryable_def)
    moreover have "delivery_steps env x (others y)"
      using a steps_of_others_D(1) [OF others'] steps_trans by (fastforce simp: attempted_def)
    ultimately show ?thesis using attempted_after [OF _ rest] by simp
  next
    case False
    then have "send_attempts (\<lambda>_. others) send k x = (r, y)"
      by (auto simp: send_attempts.simps [of _ _ k] y split: sum.split)
    with a show ?thesis by simp
  qed
qed

text \<open>Recording the outcome ends the claim, whether the database accepts the record or not.\<close>

definition settles :: "notify_env \<Rightarrow> nat \<Rightarrow> delivery_world \<Rightarrow> 'r \<times> delivery_world \<Rightarrow> bool" where
  "settles env w x = (\<lambda>(r, y). delivery_steps env x y \<and> ob_workers (snd y) w = None)"

lemma finishing_settles:
  assumes others: "interference env w others" and held: "holds w n x"
    and step: "\<And>st ob st' h. ob_workers ob w = Some h \<Longrightarrow> hg_id h = no_notification_id n \<Longrightarrow>
      hg_claimed_at h = no_delivery_claimed_at n \<Longrightarrow> others x = (st, ob) \<Longrightarrow> op st = Inr ((), st') \<Longrightarrow>
      delivery_step env (Some w) (st, ob) (st', release w ob)"
  shows "settles env w x (finishing w (run_tx op) (others x))"
proof -
  note others' = others [unfolded interference_def, rule_format]
  obtain st ob where o: "others x = (st, ob)" by (cases "others x")
  from held holds_others(1) [OF others' [of x]] obtain h where h: "ob_workers ob w = Some h"
    "hg_id h = no_notification_id n" "hg_claimed_at h = no_delivery_claimed_at n" by (auto simp: o holds_def)
  have before: "delivery_steps env x (st, ob)" using steps_of_others_D(1) [OF others' [of x]] by (simp add: o)
  have "delivery_steps env x (st, release w ob)"
    using before one_step [OF step_abandon] steps_trans by blast
  moreover have "delivery_steps env x (st', release w ob)" if "op st = Inr ((), st')" for st'
    using before one_step [OF step [OF h o that]] steps_trans by blast
  ultimately show ?thesis
    by (auto simp: settles_def finishing_def run_tx_def o release_def split: sum.splits)
qed

lemma settles_after: "delivery_steps env x y \<Longrightarrow> settles env w y p \<Longrightarrow> settles env w x p"
  unfolding settles_def by (cases p) (auto intro: steps_trans)

lemma worker_constants:
  "delivery_seconds_i64 DELIVERY_REQUEUE_BASE_DELAY m = Inr 60"
  "delivery_seconds_i64 DELIVERY_REQUEUE_MAX_DELAY m = Inr 1800"
  "DELIVERY_MAX_CLAIMS = 10"
  by (simp_all add: delivery_seconds_i64_def DELIVERY_REQUEUE_BASE_DELAY_def
      DELIVERY_REQUEUE_MAX_DELAY_def DELIVERY_MAX_CLAIMS_def as_secs_def from_secs_def)

lemma record_delivery_error_settles:
  assumes others: "interference env w others" and held: "holds w n x"
    and retry: "\<And>m. e = EmailRetryable m \<Longrightarrow> holds_open w n x"
  shows "settles env w x (record_delivery_error (system_worker env base_url cfg ml tm answer w others) n e x)"
proof (cases e)
  case (EmailRetryable m)
  with retry have "holds_open w n x" by blast
  have "settles env w x (finishing w (run_tx (requeue_notification (no_notification_id n)
      (Some (email_error_to_string e)) 60 1800 10 (no_delivery_claimed_at n))) (others x))"
  proof (rule finishing_settles [OF others held])
    fix st ob st' h
    assume h: "ob_workers ob w = Some h" "hg_id h = no_notification_id n"
      "hg_claimed_at h = no_delivery_claimed_at n" "others x = (st, ob)"
      "requeue_notification (no_notification_id n) (Some (email_error_to_string e)) 60 1800 10
         (no_delivery_claimed_at n) st = Inr ((), st')"
    have "holds_open w n (st, ob)"
      using holds_others(2) [OF others [unfolded interference_def, rule_format, of x]] \<open>holds_open w n x\<close> h(4)
      by simp
    with h have "hg_open h" by (auto simp: holds_open_def)
    from step_requeue [OF h(1) this, of "Some (email_error_to_string e)" st st' env] h
    show "delivery_step env (Some w) (st, ob) (st', release w ob)" by simp
  qed
  then show ?thesis
    by (simp add: EmailRetryable record_delivery_error_def system_worker_def worker_db_def
        pg_requeue_notification_def worker_constants comp_def)
next
  case (EmailTerminal m)
  have "settles env w x (finishing w (run_tx (update_notification (no_notification_id n)
      (Some (email_error_to_string e)) (no_delivery_claimed_at n))) (others x))"
    by (rule finishing_settles [OF others held]) (auto intro!: step_update)
  then show ?thesis
    by (simp add: EmailTerminal record_delivery_error_def system_worker_def worker_db_def
        pg_update_notification_def comp_def)
next
  case (EmailUnknown m)
  have "settles env w x (finishing w (run_tx (mark_notification_delivery_unknown (no_notification_id n)
      (Some (email_error_to_string e)) (no_delivery_claimed_at n))) (others x))"
    by (rule finishing_settles [OF others held]) (auto intro!: step_unknown)
  then show ?thesis
    by (simp add: EmailUnknown record_delivery_error_def system_worker_def worker_db_def
        pg_mark_notification_delivery_unknown_def comp_def)
qed

lemma update_settles:
  assumes others: "interference env w others" and held: "holds w n x"
  shows "settles env w x (db_update_notification (worker_db env w others) n e x)"
proof -
  have "settles env w x (finishing w (run_tx (update_notification (no_notification_id n) e
      (no_delivery_claimed_at n))) (others x))"
    by (rule finishing_settles [OF others held]) (auto intro!: step_update)
  then show ?thesis by (simp add: worker_db_def pg_update_notification_def comp_def)
qed

lemma deliver_claimed_settles:
  assumes others: "interference env w others" and open_claim: "holds_open w n x"
  shows "settles env w x (deliver_claimed (system_worker env base_url cfg ml tm answer w others) n x)"
proof -
  let ?wk = "system_worker env base_url cfg ml tm answer w others"
  note update = update_settles [OF others]
  show ?thesis
  proof (cases "prepare_content tm n base_url")
    case (Inl err)
    then show ?thesis using update [OF holds_open_holds [OF open_claim]]
      by (simp add: deliver_claimed_def system_worker_def)
  next
    case (Inr content)
    obtain subject body where c: "content = (subject, body)" by (cases content)
    let ?send = "send_email_with_retries (\<lambda>_. others) ml cfg (lettre_send (answering w others answer))
      (no_email n) subject body (no_attachments n)"
    obtain r y where y: "?send x = (r, y)" by (cases "?send x")
    have "attempted env w n x (?send x)"
      unfolding send_email_with_retries_def
      by (rule send_attempts_attempt [OF others send_email_attempt [OF others] open_claim])
    then have a: "delivery_steps env x y" "holds w n y" "\<forall>e. r = Inl (EmailRetryable e) \<longrightarrow> holds_open w n y"
      by (simp_all add: y attempted_def)
    have "settles env w y (case r of Inr _ \<Rightarrow> db_update_notification (worker_db env w others) n None y
        | Inl err \<Rightarrow> record_delivery_error ?wk n err y)"
      using a update [OF a(2)] record_delivery_error_settles [OF others a(2)] by (auto split: sum.split)
    with settles_after [OF a(1)] show ?thesis
      by (simp add: deliver_claimed_def system_worker_def Inr c act_try_def y split: sum.split_asm sum.split)
  qed
qed

text \<open>Claiming. When an attachment is gone the claim is failed at once; otherwise the worker holds it.\<close>

lemma claimed_attachments_cases:
  "claimed_attachments i t ids (st, p) = (r, y) \<Longrightarrow>
     (\<exists>st'. y = (st', p) \<and> (st' = st \<or>
        (\<exists>error e. r = Inl e \<and> update_notification i error t st = Inr ((), st'))))"
proof (induction ids arbitrary: r y)
  case (Cons a rest)
  show ?case
  proof (cases "find (\<lambda>r. ar_id r = a) (ns_attachments st)")
    case None
    with Cons.prems show ?thesis
      by (auto simp: act_try_def pg_get_notification_attachment_def run_tx_def act_bind_def act_err_def
          split: sum.splits prod.splits)
  next
    case (Some x)
    obtain r0 y0 where y0: "claimed_attachments i t rest (st, p) = (r0, y0)"
      by (cases "claimed_attachments i t rest (st, p)")
    from Cons.IH [OF this] Cons.prems Some y0 show ?thesis
      by (auto simp: act_try_def pg_get_notification_attachment_def run_tx_def act_bind_def act_ok_def
          split: sum.splits)
  qed
qed (auto simp: act_ok_def)

lemma claim_next_None: "claim_next st = Inr (None, st') \<Longrightarrow> st' = st"
  by (auto simp: claim_pending_notification_def split: if_splits list.splits)

lemma noted_claim_steps:
  assumes others: "interference env w others" and free: "ob_workers (snd x) w = None"
    and claim: "(noted_claim w \<circ> others) x = (r, y)"
  shows "delivery_steps env x y \<and>
    (case r of Inr (Some n) \<Rightarrow> holds_open w n y | _ \<Rightarrow> ob_workers (snd y) w = None)"
proof -
  note others' = others [unfolded interference_def, rule_format]
  obtain st ob where o: "others x = (st, ob)" by (cases "others x")
  have before: "delivery_steps env x (st, ob)" "ob_workers ob w = None"
    using steps_of_others_D [OF others' [of x]] free by (simp_all add: o)
  show ?thesis
  proof (cases "claim_next st")
    case (Inl e)
    with claim before show ?thesis
      by (auto simp: noted_claim_def o pg_claim_pending_notification_def run_tx_def act_bind_def)
  next
    case (Inr cs)
    obtain co st1 where cs: "cs = (co, st1)" by (cases cs)
    show ?thesis
    proof (cases co)
      case None
      with Inr claim before claim_next_None [of st st1] show ?thesis
        by (auto simp: noted_claim_def o pg_claim_pending_notification_def run_tx_def act_bind_def cs act_ok_def)
    next
      case (Some c)
      note co = Some
      let ?ob = "note_claim w c ob"
      let ?h = "\<lparr>hg_id = cl_notification_id c, hg_claimed_at = cl_delivery_claimed_at c,
        hg_generation = ob_requeues ob (cl_notification_id c), hg_open = True\<rparr>"
      have h: "ob_workers ?ob w = Some ?h" by (simp add: note_claim_def Let_def)
      have claimed: "delivery_steps env x (st1, ?ob)"
        using before(1) one_step [OF step_claim [OF before(2)]] Inr Some cs steps_trans by blast
      obtain r0 y0 where a: "claimed_attachments (cl_notification_id c) (cl_delivery_claimed_at c)
          (coalesce (cl_attachment_ids c) []) (st1, ob) = (r0, y0)"
        by (cases "claimed_attachments (cl_notification_id c) (cl_delivery_claimed_at c)
          (coalesce (cl_attachment_ids c) []) (st1, ob)")
      from claimed_attachments_cases [OF a] obtain st2 where y0: "y0 = (st2, ob)"
        and st2: "st2 = st1 \<or> (\<exists>error e. r0 = Inl e \<and>
           update_notification (cl_notification_id c) error (cl_delivery_claimed_at c) st1 = Inr ((), st2))"
        by blast
      have released: "delivery_steps env x (st2, release w ?ob)"
        using st2 claimed one_step [OF step_abandon] one_step [OF step_update [OF h]] steps_trans
        by (metis holding.select_convs(1,2))
      show ?thesis
      proof (cases r0)
        case (Inl e)
        with claim have "r = Inl e" "y = (st2, release w ?ob)"
          by (auto simp: noted_claim_def o pg_claim_pending_notification_def run_tx_def act_bind_def Inr
              cs Some a y0)
        with released show ?thesis by (simp add: release_def)
      next
        case (Inr as)
        with st2 have [simp]: "st2 = st1" by auto
        show ?thesis
        proof (cases "kind_from_string (cl_kind c)")
          case None
          with claim have "\<exists>e. r = Inl e" "y = (st2, release w ?ob)"
            by (auto simp: noted_claim_def o pg_claim_pending_notification_def run_tx_def act_bind_def
                \<open>claim_next st = Inr cs\<close> cs Some a y0 Inr act_err_def)
          with released show ?thesis by (auto simp: release_def)
        next
          case (Some k)
          with claim obtain n where n: "r = Inr (Some n)" "y = (st1, ?ob)"
            "no_notification_id n = cl_notification_id c" "no_delivery_claimed_at n = cl_delivery_claimed_at c"
            by (auto simp: noted_claim_def o pg_claim_pending_notification_def run_tx_def act_bind_def
                \<open>claim_next st = Inr cs\<close> cs co a y0 Inr act_ok_def)
          with claimed h show ?thesis by (simp add: holds_open_def)
        qed
      qed
    qed
  qed
qed

text \<open>
  C7: the worker of the program refines the abstract one. A round of the delivery worker, whatever
  other workers, recoveries and operators do between any two of its calls and whatever the server
  answers, is a sequence of steps of the system, and at its end the worker holds no claim. So what
  holds in every reachable state of the system holds of the program.
\<close>

theorem delivery_round_refines:
  assumes "interference env w others" "ob_workers (snd x) w = None" "delivery_reachable env x"
    "deliver_notification (system_worker env base_url cfg ml tm answer w others) x = (r, y)"
  shows "delivery_reachable env y \<and> delivery_steps env x y \<and> ob_workers (snd y) w = None"
proof -
  let ?wk = "system_worker env base_url cfg ml tm answer w others"
  obtain c x1 where c: "(noted_claim w \<circ> others) x = (c, x1)" by (cases "(noted_claim w \<circ> others) x")
  note claimed = noted_claim_steps [OF assms(1,2) c]
  have db: "db_claim_pending_notification (wk_db ?wk) x = (c, x1)"
    using c by (simp add: system_worker_def worker_db_def)
  have "delivery_steps env x y \<and> ob_workers (snd y) w = None"
  proof (cases "\<exists>n. c = Inr (Some n)")
    case True
    then obtain n where n: "c = Inr (Some n)" by blast
    obtain r1 x2 where d: "deliver_claimed ?wk n x1 = (r1, x2)" by (cases "deliver_claimed ?wk n x1")
    from claimed n deliver_claimed_settles [OF assms(1)] have "settles env w x1 (r1, x2)"
      by (metis d option.simps(5) sum.simps(6))
    moreover have "y = x2"
      using assms(4) by (auto simp: deliver_notification_def act_bind_def db n d act_ok_def split: sum.splits)
    ultimately show ?thesis using claimed by (auto simp: settles_def intro: steps_trans)
  next
    case False
    then have "y = x1"
      using assms(4) by (auto simp: deliver_notification_def act_bind_def db act_ok_def split: sum.splits option.splits)
    with claimed False show ?thesis by (auto split: sum.splits option.splits)
  qed
  moreover from this assms(3) have "delivery_reachable env y"
    unfolding delivery_reachable_def using steps_trans by blast
  ultimately show ?thesis by blast
qed

section \<open>Who is written to, and what is recorded\<close>

text \<open>
  Only listed addresses are written to. With a whitelist configured, an attempt to write to any other
  address leaves the world as it was, whatever the sender would have done: the message is at most
  composed, and a message that cannot be composed is a terminal error.
\<close>

theorem unlisted_recipient_not_written_to:
  assumes "\<not> recipient_allowed cfg to_address"
  shows "send_email_with_retries pause ml cfg sender to_address subject body attachments s =
    (case email_message ml cfg to_address subject body attachments of
       Inl e \<Rightarrow> (Inl e, s) | Inr _ \<Rightarrow> (Inr (), s))"
proof (cases "email_message ml cfg to_address subject body attachments")
  case (Inl e)
  with email_message_terminal [OF Inl] show ?thesis
    by (auto simp: send_email_with_retries_def send_attempts.simps [of _ _ "Suc 0"] send_email_def email_is_retryable_def)
next
  case (Inr message)
  with assms show ?thesis
    by (simp add: send_email_with_retries_def send_attempts.simps [of _ _ "Suc 0"] send_email_def)
qed

text \<open>The retry delay in closed form; no overflow can occur in it.\<close>

definition outcome_row :: "EmailDeliveryError \<Rightarrow> instant \<Rightarrow> notification_row \<Rightarrow> notification_row" where
  "outcome_row err now n =
     (let error = Some (email_error_to_string err) in
      case err of
        EmailTerminal _ \<Rightarrow> settled_row DeliveryFailed error now n
      | EmailUnknown _ \<Rightarrow> settled_row DeliveryUnknown error now n
      | EmailRetryable _ \<Rightarrow>
          if nr_delivery_attempts n \<ge> 10 then settled_row DeliveryFailed error now n
          else n\<lparr>nr_delivery_status := DeliveryPending, nr_error := error, nr_processed_at := None,
             nr_next_delivery_attempt_at :=
               Some (now + secs (min 1800 (60 * 2 ^ nat (nr_delivery_attempts n - 1))))\<rparr>)"

lemma retry_delay:
  assumes "a < 10"
  shows "retry_after 60 1800 a = min 1800 (60 * 2 ^ nat (a - 1))"
proof -
  have "nat (min (max (a - 1) 0) 30) = nat (a - 1)" using assms by (auto simp: min_def max_def)
  then show ?thesis unfolding retry_after_def uncapped_retry_def by (rule arg_cong)
qed

lemma uncapped_retry_fits: "\<not> uncapped_retry 60 a > 9223372036854775807"
proof -
  have "(2::int) ^ nat (min (max (a - 1) 0) 30) \<le> 2 ^ 30" by (rule power_increasing) auto
  then show ?thesis by (simp add: uncapped_retry_def)
qed

lemma requeued_outcome:
  "requeued_notification_row (Some (email_error_to_string (EmailRetryable e))) 60 1800 10 now n =
     outcome_row (EmailRetryable e) now n"
  using retry_delay [of "nr_delivery_attempts n"]
  by (simp add: requeued_notification_row_def outcome_row_def settled_row_def Let_def)

text \<open>
  C38: what an unsuccessful delivery leaves behind follows from what is known of the message. A message
  that was certainly refused for good fails the notification; one that was certainly not accepted yet
  is tried again after one minute, doubled with each claim up to half an hour, and fails after the
  tenth; one whose fate is unknown is never tried again. Nothing but the row of the claim changes.
\<close>

theorem delivery_outcome_recorded:
  assumes "list_ex (holds_claim (no_notification_id n) (no_delivery_claimed_at n)) (ns_notifications st)"
    and "btrim (email_error_to_string err) \<noteq> []"
  shows "record_delivery_error (w\<lparr>wk_db := pg_notifications env\<rparr>) n err (st, p) =
    (Inr (), (map_notifications (\<lambda>m.
       if holds_claim (no_notification_id n) (no_delivery_claimed_at n) m
       then outcome_row err (ns_now st) m else m) st, p))"
proof -
  note defs = record_delivery_error_def pg_notifications_def pg_requeue_notification_def
    pg_update_notification_def pg_mark_notification_delivery_unknown_def worker_constants run_tx_def
    change_claimed_def blank_error_def
  show ?thesis
  proof (cases err)
    case (EmailRetryable e)
    have "\<not> list_ex (\<lambda>m. holds_claim (no_notification_id n) (no_delivery_claimed_at n) m \<and>
        nr_delivery_attempts m < 10 \<and> uncapped_retry 60 (nr_delivery_attempts m) > 9223372036854775807)
        (ns_notifications st)"
      using uncapped_retry_fits by (simp add: list_ex_iff)
    with assms show ?thesis
      by (simp add: defs EmailRetryable requeue_notification_def requeued_outcome cong: if_cong)
  next
    case (EmailTerminal e)
    with assms show ?thesis by (simp add: defs update_notification_def outcome_row_def cong: if_cong)
  next
    case (EmailUnknown e)
    with assms show ?thesis by (simp add: defs mark_notification_delivery_unknown_def outcome_row_def cong: if_cong)
  qed
qed

section \<open>An example\<close>

text \<open>A library and a configuration that accept the verification e-mail.\<close>

definition sample_mail :: mail_lib where
  "sample_mail = \<lparr>ml_parse_address = Inr, ml_parse_content_type = Inr, ml_build = Inr\<rparr>"

definition sample_email_config :: EmailConfig where
  "sample_email_config = \<lparr>em_from_address = ''noreply@example.org'', em_from_name = ''OCG'',
     em_smtp = \<lparr>sc_host = ''mail'', sc_password = '''', sc_port = 465, sc_username = ''''\<rparr>,
     em_rcpts_whitelist = None\<rparr>"

definition sample_delivery_worker :: "delivery_world DeliveryWorker" where
  "sample_delivery_worker = system_worker sample_notify_env ''https://example.org'' sample_email_config
     sample_mail sample_templates (\<lambda>_ _. Inr ()) 0 id"

definition processed_store :: notification_store where
  "processed_store = queued_store\<lparr>ns_notifications :=
     [settled_row DeliveryProcessed None 0 (claimed_row 0 sample_row)]\<rparr>"

definition sample_claimed :: Notification where
  "sample_claimed = \<lparr>no_attachments = [], no_delivery_claimed_at = 0, no_email = ''ada@example.org'',
     no_kind = EmailVerificationKind, no_notification_id = 1, no_template_data = Some JNull\<rparr>"

lemma sample_claimed_fields [simp]:
  "no_email sample_claimed = ''ada@example.org''" "no_attachments sample_claimed = []"
  "no_notification_id sample_claimed = 1" "no_delivery_claimed_at sample_claimed = 0"
  by (simp_all add: sample_claimed_def)

lemma sample_noted_claim:
  "noted_claim 0 (queued_store, empty_outbox) =
     (Inr (Some sample_claimed), (claimed_store, note_claim 0 sample_claim empty_outbox))"
proof -
  have "kind_from_string ''email-verification'' = Some EmailVerificationKind" by code_simp
  then show ?thesis
    by (simp add: noted_claim_def pg_claim_pending_notification_def run_tx_def act_bind_def sample_delivery_claims
        sample_claim_def sample_claimed_def coalesce_def)
qed

lemma sample_content:
  "prepare_content sample_templates sample_claimed ''https://example.org'' =
     Inr (''Verify your email address'', ''/verify'')"
  by (simp add: prepare_content_def sample_claimed_def sample_templates_def rendered_def no_codec_def Let_def)

lemma sample_update:
  "update_notification 1 None 0 claimed_store = Inr ((), processed_store)"
  by (simp add: update_notification_def change_claimed_def holds_claim_def map_notifications_def blank_error_def
      claimed_store_def processed_store_def queued_store_def sample_notify_store_def sample_row_def
      new_row_def claimed_row_def)

lemma sample_holding:
  "note_claim 0 sample_claim empty_outbox = \<lparr>ob_workers = [0 \<mapsto>
       \<lparr>hg_id = 1, hg_claimed_at = 0, hg_generation = 0, hg_open = True\<rparr>],
     ob_sent = [], ob_requeues = \<lambda>_. 0, ob_claims = [(1, 0, 0)]\<rparr>"
  by (simp add: note_claim_def sample_claim_def empty_outbox_def)

lemma sample_round: "deliver_notification sample_delivery_worker (queued_store, empty_outbox) =
    (Inr True, (processed_store, release 0 sent_outbox))"
proof -
  let ?w = sample_delivery_worker and ?ob = "note_claim 0 sample_claim empty_outbox"
  have "send_email sample_mail sample_email_config (wk_email_sender ?w) ''ada@example.org''
      ''Verify your email address'' ''/verify'' [] (claimed_store, ?ob) = (Inr (), (claimed_store, sent_outbox))"
    by (simp add: send_email_def email_message_def sample_mail_def sample_email_config_def or_terminal_def
        recipient_allowed_def sample_delivery_worker_def system_worker_def lettre_send_def answering_def
        act_map_err_def act_bind_def sent_outbox_def sample_holding)
  then have "deliver_claimed ?w sample_claimed (claimed_store, ?ob) = (Inr (), (processed_store, release 0 sent_outbox))"
    by (simp add: deliver_claimed_def sample_delivery_worker_def system_worker_def sample_content act_try_def
        send_email_with_retries_def send_attempts.simps worker_db_def finishing_def
        pg_update_notification_def run_tx_def sample_update)
  then show ?thesis
    by (simp add: deliver_notification_def sample_delivery_worker_def system_worker_def worker_db_def
        act_bind_def sample_noted_claim)
qed

theorem delivery_round_refines_witness:
  "delivery_reachable sample_notify_env (processed_store, release 0 sent_outbox) \<and>
   deliver_notification sample_delivery_worker (queued_store, empty_outbox) =
    (Inr True, (processed_store, release 0 sent_outbox))"
  using delivery_round_refines [of sample_notify_env 0 id "(queued_store, empty_outbox)",
      OF _ _ queued_reachable sample_round [unfolded sample_delivery_worker_def]] sample_round
  by (simp add: interference_def steps_of_others_def empty_outbox_def)

theorem unlisted_recipient_not_written_to_witness:
  "send_email_with_retries (\<lambda>_. id) sample_mail (sample_email_config\<lparr>em_rcpts_whitelist := Some [''x'']\<rparr>)
     (\<lambda>_ s. (Inr (), Suc s)) ''y'' ''subject'' ''body'' [] 0 = (Inr (), 0)"
  using unlisted_recipient_not_written_to [of "sample_email_config\<lparr>em_rcpts_whitelist := Some [''x'']\<rparr>" "''y''"
      "\<lambda>_. id" sample_mail "\<lambda>_ s. (Inr (), Suc s)" "''subject''" "''body''" "[]" 0]
  by (simp add: recipient_allowed_def email_message_def sample_mail_def or_terminal_def)

theorem delivery_outcome_recorded_witness:
  "\<exists>st. record_delivery_error (sample_delivery_worker\<lparr>wk_db := pg_notifications sample_notify_env\<rparr>)
      sample_claimed (EmailRetryable (Msg ''busy'')) (claimed_store, empty_outbox) = (Inr (), (st, empty_outbox)) \<and>
    map nr_next_delivery_attempt_at (ns_notifications st) = [Some (secs 60)]"
  using delivery_outcome_recorded [of sample_claimed claimed_store "EmailRetryable (Msg ''busy'')"
      sample_notify_env sample_delivery_worker empty_outbox]
  by (simp add: claimed_store_def queued_store_def sample_row_def new_row_def claimed_row_def holds_claim_def
      outcome_row_def email_error_to_string_def map_notifications_def btrim_def sample_notify_store_def)

end
