(* ===== verification/Notification_Reminders.thy ===== *)
theory Notification_Reminders
  imports Notification_Delivery
begin

text \<open>
  The reminders of upcoming events (\<^verbatim>\<open>enqueue_due_event_reminders\<close>): who gets one, how many are counted,
  and that an event is evaluated once for its start.
\<close>

section \<open>What queueing leaves alone\<close>

definition same_events :: "notification_store \<Rightarrow> notification_store \<Rightarrow> bool" where
  "same_events st st' \<longleftrightarrow> ns_now st' = ns_now st \<and> ns_users st' = ns_users st \<and> ns_locked st' = ns_locked st \<and>
     ns_events st' = ns_events st \<and> ns_reminder_lock_taken st' = ns_reminder_lock_taken st"

lemma same_events_refl [simp]: "same_events st st"
  by (simp add: same_events_def)

lemma same_events_trans: "same_events a b \<Longrightarrow> same_events b c \<Longrightarrow> same_events a c"
  by (simp add: same_events_def)

lemma template_data_same_events: "upsert_template_data env d st = (i, st') \<Longrightarrow> same_events st st'"
  by (auto simp: upsert_template_data_def same_events_def Let_def split: option.splits)

lemma link_attachments_same_events: "link_attachments env ids as st = Inr st' \<Longrightarrow> same_events st st'"
proof (induction as arbitrary: st)
  case (Cons a as)
  from Cons.prems obtain data where data: "nv_base64_decode env (ea_data_base64 a) = Some data"
    by (auto split: option.splits)
  obtain i st1 where up: "upsert_attachment env a data st = (i, st1)" by (cases "upsert_attachment env a data st")
  then have "same_events st st1"
    by (auto simp: upsert_attachment_def same_events_def Let_def split: option.splits)
  moreover from Cons.prems have "link_attachments env ids as
      (st1\<lparr>ns_links := ns_links st1 @ map (\<lambda>j. (j, i)) ids\<rparr>) = Inr st'"
    by (simp add: data up split: if_splits)
  from Cons.IH [OF this] have "same_events st1 st'" by (simp add: same_events_def)
  ultimately show ?case by (rule same_events_trans)
qed simp

lemma insert_for_recipients_same_events:
  assumes "insert_for_recipients env kind data as rs st = Inr (u, st')"
  shows "same_events st st'"
proof -
  obtain data_id st1 where up: "(case data of None \<Rightarrow> (None, st)
      | Some d \<Rightarrow> (case upsert_template_data env d st of (i, st1) \<Rightarrow> (Some i, st1))) = (data_id, st1)"
    by (cases "case data of None \<Rightarrow> (None, st)
      | Some d \<Rightarrow> (case upsert_template_data env d st of (i, st1) \<Rightarrow> (Some i, st1))")
  then have "same_events st st1"
    by (auto split: option.splits prod.splits dest: template_data_same_events)
  moreover from assms have "link_attachments env (sort (fresh_ids env (length rs) st1)) as
      (insert_notifications env kind data_id rs st1) = Inr st'"
    by (auto simp: insert_for_recipients_def up and_then_eq_Inr split: if_splits)
  from link_attachments_same_events [OF this] have "same_events st1 st'"
    by (simp add: same_events_def insert_notifications_def)
  ultimately show ?thesis by (rule same_events_trans)
qed

lemma remind_same_events: "remind env base_url e copy rs st = Inr (u, st') \<Longrightarrow> same_events st st'"
  by (auto simp: remind_def enqueue_notification_def Let_def split: if_splits option.splits
      dest: insert_for_recipients_same_events)

section \<open>Evaluating events\<close>

text \<open>The events whose identifier is listed were evaluated for their start; the others did not change.\<close>

definition evaluated :: "uuid set \<Rightarrow> notification_store \<Rightarrow> notification_store \<Rightarrow> bool" where
  "evaluated ids st st' \<longleftrightarrow> ns_now st' = ns_now st \<and> ns_users st' = ns_users st \<and> ns_locked st' = ns_locked st \<and>
     ns_reminder_lock_taken st' = ns_reminder_lock_taken st \<and>
     (\<forall>e\<in>set (ns_events st').
        if re_event_id e \<in> ids then re_event_reminder_evaluated_for_starts_at e = re_starts_at e
        else e \<in> set (ns_events st))"

definition reminder_count :: "notification_store \<Rightarrow> reminder_event \<Rightarrow> int" where
  "reminder_count st e = int (length (attendee_recipients st e) + length (speaker_only_recipients st e))"

lemma reminder_count_users: "ns_users st' = ns_users st \<Longrightarrow> reminder_count st' e = reminder_count st e"
proof -
  assume "ns_users st' = ns_users st"
  then have "verified_user st' = verified_user st" by (simp add: fun_eq_iff verified_user_def find_notified_def)
  then show ?thesis by (simp add: reminder_count_def attendee_recipients_def speaker_only_recipients_def)
qed

lemma update_evaluated:
  "same_events st st1 \<Longrightarrow>
     evaluated {i} st (update_reminder_event i (evaluated_event sent_at) st1)"
  by (auto simp: evaluated_def same_events_def update_reminder_event_def evaluated_event_def)

lemma remind_event_evaluated:
  assumes "remind_event env base_url e st = Inr (k, st')"
  shows "k = reminder_count st e" "evaluated {re_event_id e} st st'"
proof -
  let ?as = "attendee_recipients st e" and ?ss = "speaker_only_recipients st e"
  have "k = reminder_count st e \<and> evaluated {re_event_id e} st st'"
  proof (cases "int (length ?as + length ?ss) > 0")
    case True
    with assms obtain st1 st2 where "remind env base_url e True ?as st = Inr ((), st1)"
      "remind env base_url e False ?ss st1 = Inr ((), st2)" and k: "k = int (length ?as + length ?ss)"
      and st': "st' = update_reminder_event (re_event_id e) (evaluated_event (Some (ns_now st2))) st2"
      by (auto simp: remind_event_def Let_def and_then_eq_Inr)
    then have "same_events st st2" by (blast intro: remind_same_events same_events_trans)
    from update_evaluated [OF this] show ?thesis by (simp add: k st' reminder_count_def)
  next
    case False
    with assms update_evaluated [OF same_events_refl] show ?thesis
      by (auto simp: remind_event_def Let_def reminder_count_def)
  qed
  then show "k = reminder_count st e" "evaluated {re_event_id e} st st'" by simp_all
qed

lemma evaluated_then: "evaluated I st st1 \<Longrightarrow> evaluated J st1 st2 \<Longrightarrow> evaluated (I \<union> J) st st2"
  unfolding evaluated_def by (fastforce split: if_splits)

lemma remind_events_evaluated:
  "remind_events env base_url es k st = Inr (k', st') \<Longrightarrow>
     k' = k + sum_list (map (reminder_count st) es) \<and> evaluated (re_event_id ` set es) st st'"
proof (induction es arbitrary: k st)
  case Nil
  then show ?case by (simp add: evaluated_def)
next
  case (Cons e es)
  from Cons.prems obtain n st1 where 1: "remind_event env base_url e st = Inr (n, st1)"
    and 2: "remind_events env base_url es (k + n) st1 = Inr (k', st')" by (auto simp: and_then_eq_Inr)
  note e = remind_event_evaluated [OF 1] and rest = Cons.IH [OF 2]
  have "map (reminder_count st1) es = map (reminder_count st) es"
    using e(2) by (auto simp: evaluated_def intro: reminder_count_users)
  with rest e(1) evaluated_then [OF e(2) conjunct2 [OF rest]] show ?case by simp
qed


section \<open>An example\<close>

text \<open>One event that starts in an hour, with a verified attendee.\<close>

definition sample_reminder_event :: reminder_event where
  "sample_reminder_event = \<lparr>re_event_id = 3, re_attendees = [(7, ''confirmed'')], re_canceled = False,
     re_community_active = True, re_community_id = 1, re_community_name = ''c'', re_deleted = False,
     re_event_reminder_enabled = True, re_event_reminder_evaluated_for_starts_at = None,
     re_event_reminder_sent_at = None, re_group_active = True, re_group_deleted = False, re_group_id = 2,
     re_group_slug = ''g'', re_group_slug_pretty = None, re_published = True, re_slug = ''e'',
     re_speakers = [], re_starts_at = Some (secs 3600), re_test_event = False\<rparr>"

definition sample_reminder_store :: notification_store where
  "sample_reminder_store = sample_notify_store\<lparr>
     ns_users := [\<lparr>nu_user_id = 7, nu_email = ''ada@example.org'', nu_email_verified = True,
       nu_optional_notifications_enabled = True, nu_registration_status = ''registered''\<rparr>],
     ns_kinds := [\<lparr>nk_name = ''event-reminder'', nk_optional_notification = False\<rparr>],
     ns_events := [sample_reminder_event]\<rparr>"

lemma sample_reminders:
  "\<exists>st. enqueue_due_event_reminders sample_notify_env ''https://example.org'' sample_reminder_store = Inr (1, st)"
proof -
  have "map_sum id fst (enqueue_due_event_reminders sample_notify_env ''https://example.org''
      sample_reminder_store) = Inr 1" by code_simp
  then show ?thesis
    by (cases "enqueue_due_event_reminders sample_notify_env ''https://example.org'' sample_reminder_store") auto
qed


end
