(* ===== verification/Notification_Enqueue.thy ===== *)
theory Notification_Enqueue
  imports Notifications "HOL-Library.Option_ord"
begin

text \<open>
  The workflows that queue notifications about events (\<^verbatim>\<open>services/notifications/enqueue.rs\<close>): who
  hears of a canceled, published, moved or paid event, and how the recipients of a series are grouped
  so that each of them gets one message that lists exactly the occurrences that concern them.

  The queries are the fields of \<open>enqueue_db\<close>. A hash set or map of the standard library is iterated in
  an order that depends on a random seed: \<open>hash_order\<close> and \<open>key_order\<close> of \<open>enqueue_lib\<close> stand for it,
  and an association list for the contents of a map. Queries that run concurrently
  (\<^verbatim>\<open>try_join!\<close>) only read; they are made one after the other, in the order they are written.
\<close>

section \<open>What the workflows use\<close>

record 's enqueue_db =
  eq_enqueue_notification :: "NewNotification \<Rightarrow> ('s, unit) io"
  eq_get_event_full :: "uuid \<Rightarrow> uuid \<Rightarrow> uuid \<Rightarrow> ('s, EventFull) io"
  eq_get_event_summary :: "uuid \<Rightarrow> uuid \<Rightarrow> uuid \<Rightarrow> ('s, EventSummary) io"
  eq_get_event_summary_by_id :: "uuid \<Rightarrow> uuid \<Rightarrow> ('s, EventSummary) io"
  eq_get_site_settings :: "('s, SiteSettings) io"
  eq_list_community_admin_ids :: "uuid \<Rightarrow> ('s, uuid list) io"
  eq_list_event_attendees_ids :: "uuid \<Rightarrow> uuid \<Rightarrow> bool \<Rightarrow> ('s, uuid list) io"
  eq_list_event_waitlist_ids :: "uuid \<Rightarrow> uuid \<Rightarrow> ('s, uuid list) io"
  eq_list_group_members_ids :: "uuid \<Rightarrow> ('s, uuid list) io"
  eq_list_group_team_members_ids :: "uuid \<Rightarrow> ('s, uuid list) io"

record enqueue_lib =
  el_base_url :: string
  el_templates :: templates
  el_calendar :: calendar
  el_hash_order :: "uuid list \<Rightarrow> uuid list"
  el_key_order :: "uuid list list \<Rightarrow> uuid list list"

definition try_join2 :: "('s, 'a) io \<Rightarrow> ('s, 'b) io \<Rightarrow> ('s, 'a \<times> 'b) io" where
  "try_join2 m1 m2 = act_bind m1 (\<lambda>x. act_bind m2 (\<lambda>y. act_ok (x, y)))"

definition try_join3 :: "('s, 'a) io \<Rightarrow> ('s, 'b) io \<Rightarrow> ('s, 'c) io \<Rightarrow> ('s, 'a \<times> 'b \<times> 'c) io" where
  "try_join3 m1 m2 m3 = act_bind m1 (\<lambda>x. act_bind m2 (\<lambda>y. act_bind m3 (\<lambda>z. act_ok (x, y, z))))"

text \<open>Collecting into a hash set and back.\<close>

definition distinct_ids :: "enqueue_lib \<Rightarrow> uuid list \<Rightarrow> uuid list" where
  "distinct_ids l ids = el_hash_order l (remdups ids)"

definition event_notification_context ::
    "'s enqueue_db \<Rightarrow> uuid \<Rightarrow> uuid \<Rightarrow> ('s, EventSummary \<times> SiteSettings) io" where
  "event_notification_context db community_id event_id =
     act_bind (try_join2 (eq_get_site_settings db) (eq_get_event_summary_by_id db community_id event_id))
       (\<lambda>(site_settings, event). act_ok (event, site_settings))"

section \<open>One event\<close>

definition enqueue_event_attendance_cancellation_notifications ::
    "'s enqueue_db \<Rightarrow> enqueue_lib \<Rightarrow> uuid \<Rightarrow> uuid \<Rightarrow> uuid \<Rightarrow> ('s, unit) io" where
  "enqueue_event_attendance_cancellation_notifications db l community_id event_id canceled_user_id =
     act_bind (event_notification_context db community_id event_id) (\<lambda>(event, site_settings).
     act_bind (act_lift (build_event_attendance_canceled_notification (el_templates l) event
                 canceled_user_id (el_base_url l) site_settings)) (\<lambda>notification.
     eq_enqueue_notification db notification))"

definition enqueue_event_canceled_notification ::
    "'s enqueue_db \<Rightarrow> enqueue_lib \<Rightarrow> uuid \<Rightarrow> uuid \<Rightarrow> uuid \<Rightarrow> ('s, unit) io" where
  "enqueue_event_canceled_notification db l community_id group_id event_id =
     act_bind (try_join3 (eq_get_event_full db community_id group_id event_id)
                 (eq_list_event_attendees_ids db group_id event_id False)
                 (eq_list_event_waitlist_ids db group_id event_id)) (\<lambda>(event_full, attendee_ids, waitlist_ids).
     if ef_test_event event_full then act_ok ()
     else
       let recipients = distinct_ids l (attendee_ids @ waitlist_ids @ speakers_ids event_full) in
       if recipients = [] then act_ok ()
       else
         act_bind (eq_get_site_settings db) (\<lambda>site_settings.
         act_bind (act_lift (build_event_canceled_notification (el_templates l) (el_calendar l)
                     (event_summary_from event_full) recipients (el_base_url l) site_settings)) (\<lambda>notification.
         eq_enqueue_notification db notification)))"

fun paid_events :: "'s enqueue_db \<Rightarrow> uuid \<Rightarrow> uuid \<Rightarrow> uuid list \<Rightarrow> ('s, EventSummary list) io" where
  "paid_events db community_id group_id [] = act_ok []"
| "paid_events db community_id group_id (event_id # rest) =
     act_bind (eq_get_event_summary db community_id group_id event_id) (\<lambda>event.
     act_bind (paid_events db community_id group_id rest) (\<lambda>events.
     act_ok (if ev_test_event event then events else event # events)))"

definition enqueue_event_paid_configured_notifications ::
    "'s enqueue_db \<Rightarrow> enqueue_lib \<Rightarrow> uuid \<Rightarrow> uuid \<Rightarrow> uuid list \<Rightarrow> ('s, unit) io" where
  "enqueue_event_paid_configured_notifications db l community_id group_id event_ids =
     (if event_ids = [] then act_ok ()
      else
        act_bind (eq_list_community_admin_ids db community_id) (\<lambda>recipients.
        if recipients = [] then act_ok ()
        else
          act_bind (paid_events db community_id group_id event_ids) (\<lambda>events.
          if events = [] then act_ok ()
          else
            act_bind (eq_get_site_settings db) (\<lambda>site_settings.
            act_bind (act_lift (build_event_paid_configured_notification (el_templates l) events recipients
                        site_settings)) (\<lambda>notification.
            eq_enqueue_notification db notification)))))"

text \<open>Members of a group and its team, sorted and without duplicates.\<close>

definition group_audience :: "uuid list \<Rightarrow> uuid list \<Rightarrow> uuid list" where
  "group_audience group_member_ids team_member_ids = remdups_adj (sort (group_member_ids @ team_member_ids))"

definition enqueue_event_published_notifications ::
    "'s enqueue_db \<Rightarrow> enqueue_lib \<Rightarrow> uuid \<Rightarrow> uuid \<Rightarrow> uuid \<Rightarrow> ('s, unit) io" where
  "enqueue_event_published_notifications db l community_id group_id event_id =
     act_bind (try_join3 (eq_get_event_full db community_id group_id event_id)
                 (eq_list_group_members_ids db group_id)
                 (eq_list_group_team_members_ids db group_id)) (\<lambda>(event_full, group_member_ids, team_member_ids).
     if ef_test_event event_full then act_ok ()
     else
       let speaker_ids = speakers_ids event_full;
           recipients = filter (\<lambda>u. u \<notin> set speaker_ids) (group_audience group_member_ids team_member_ids) in
       if recipients = [] \<and> speaker_ids = [] then act_ok ()
       else
         act_bind (eq_get_site_settings db) (\<lambda>site_settings.
         let event_summary = event_summary_from event_full in
         act_bind
           (if recipients \<noteq> [] then
              act_bind (act_lift (build_event_published_notification (el_templates l) (el_calendar l)
                          event_summary recipients (el_base_url l) site_settings)) (\<lambda>notification.
              eq_enqueue_notification db notification)
            else act_ok ()) (\<lambda>_.
         if speaker_ids \<noteq> [] then
           act_bind (act_lift (build_speaker_welcome_notification (el_templates l) (el_calendar l)
                       event_summary speaker_ids (el_base_url l) site_settings)) (\<lambda>notification.
           eq_enqueue_notification db notification)
         else act_ok ())))"

text \<open>In microseconds. The clock is read twice: for \<^verbatim>\<open>is_past\<close>, and after the query.\<close>

definition MIN_RESCHEDULE_SHIFT :: int where
  "MIN_RESCHEDULE_SHIFT = 15 * 60 * 1000000"

definition should_notify_reschedule :: "instant \<Rightarrow> EventSummary \<Rightarrow> EventSummary \<Rightarrow> bool" where
  "should_notify_reschedule now before after =
     (case (ev_published before, ev_starts_at before, ev_starts_at after) of
        (True, Some b_starts_at, Some a_starts_at) \<Rightarrow>
          if a_starts_at > now then \<bar>a_starts_at - b_starts_at\<bar> \<ge> MIN_RESCHEDULE_SHIFT else False
      | _ \<Rightarrow> False)"

definition enqueue_event_rescheduled_notification ::
    "'s enqueue_db \<Rightarrow> enqueue_lib \<Rightarrow> instant \<Rightarrow> instant \<Rightarrow> uuid \<Rightarrow> uuid \<Rightarrow> uuid \<Rightarrow> EventSummary \<Rightarrow>
     ('s, unit) io" where
  "enqueue_event_rescheduled_notification db l now now' community_id group_id event_id before =
     (if summary_is_past now before \<or> ev_test_event before then act_ok ()
      else
        act_bind (eq_get_event_summary db community_id group_id event_id) (\<lambda>after.
        if \<not> should_notify_reschedule now' before after then act_ok ()
        else
          act_bind (try_join2 (eq_get_event_full db community_id group_id event_id)
                      (eq_list_event_attendees_ids db group_id event_id False)) (\<lambda>(event_full, attendee_ids).
          let recipients = distinct_ids l (attendee_ids @ speakers_ids event_full) in
          if recipients = [] then act_ok ()
          else
            act_bind (eq_get_site_settings db) (\<lambda>site_settings.
            act_bind (act_lift (build_event_rescheduled_notification (el_templates l) (el_calendar l)
                        (event_summary_from event_full) recipients (el_base_url l) site_settings)) (\<lambda>notification.
            eq_enqueue_notification db notification)))))"

section \<open>A series\<close>

record EventSeriesNotificationGroup =
  sg_events :: "EventSeriesNotificationItem list"
  sg_recipients :: "uuid list"

definition event_series_notification_item :: "string \<Rightarrow> EventFull \<Rightarrow> EventSeriesNotificationItem" where
  "event_series_notification_item base_url event_full =
     (let event = event_summary_from event_full
      in \<lparr>si_event = event, si_link = build_event_page_link base_url event\<rparr>)"

text \<open>The entry of a key, made when it is missing, and changed.\<close>

fun map_entry :: "'k \<Rightarrow> 'v \<Rightarrow> ('v \<Rightarrow> 'v) \<Rightarrow> ('k \<times> 'v) list \<Rightarrow> ('k \<times> 'v) list" where
  "map_entry k d f [] = [(k, f d)]"
| "map_entry k d f ((k', v) # rest) = (if k' = k then (k, f v) # rest else (k', v) # map_entry k d f rest)"

type_synonym recipient_events = "(uuid \<times> EventSeriesNotificationItem list) list"

definition push_event :: "EventSeriesNotificationItem \<Rightarrow> uuid list \<Rightarrow> recipient_events \<Rightarrow> recipient_events" where
  "push_event event recipients m = fold (\<lambda>u. map_entry u [] (\<lambda>events. events @ [event])) recipients m"

text \<open>Iteration over a map: its keys in hash order, with their values.\<close>

definition in_order :: "('k list \<Rightarrow> 'k list) \<Rightarrow> ('k \<times> 'v) list \<Rightarrow> ('k \<times> 'v) list" where
  "in_order order m = List.map_filter (\<lambda>k. map_option (Pair k) (map_of m k)) (order (map fst m))"

definition item_ids :: "EventSeriesNotificationItem list \<Rightarrow> uuid list" where
  "item_ids events = map (\<lambda>event. ev_event_id (si_event event)) events"

definition group_entries ::
    "recipient_events \<Rightarrow> (uuid list \<times> EventSeriesNotificationGroup) list \<Rightarrow>
     (uuid list \<times> EventSeriesNotificationGroup) list" where
  "group_entries entries groups =
     fold (\<lambda>(recipient, events). map_entry (item_ids events) \<lparr>sg_events = events, sg_recipients = []\<rparr>
       (\<lambda>g. g\<lparr>sg_recipients := sg_recipients g @ [recipient]\<rparr>)) entries groups"

definition first_event :: "EventSeriesNotificationGroup \<Rightarrow> EventSummary option" where
  "first_event g = (case sg_events g of [] \<Rightarrow> None | event # _ \<Rightarrow> Some (si_event event))"

definition group_recipients_by_events ::
    "enqueue_lib \<Rightarrow> recipient_events \<Rightarrow> EventSeriesNotificationGroup list" where
  "group_recipients_by_events l recipient_events =
     (let groups = group_entries (in_order (el_hash_order l) recipient_events) [];
          groups = map snd (in_order (el_key_order l) groups);
          groups = map (\<lambda>g. g\<lparr>sg_recipients := remdups_adj (sort (sg_recipients g))\<rparr>) groups
      in sort_key (\<lambda>g. map_option ev_event_id (first_event g)) groups)"

fun canceled_recipient_events ::
    "'s enqueue_db \<Rightarrow> enqueue_lib \<Rightarrow> uuid \<Rightarrow> uuid \<Rightarrow> uuid list \<Rightarrow> recipient_events \<Rightarrow>
     ('s, recipient_events) io" where
  "canceled_recipient_events db l community_id group_id [] m = act_ok m"
| "canceled_recipient_events db l community_id group_id (event_id # rest) m =
     act_bind (try_join3 (eq_get_event_full db community_id group_id event_id)
                 (eq_list_event_attendees_ids db group_id event_id False)
                 (eq_list_event_waitlist_ids db group_id event_id)) (\<lambda>(event_full, attendee_ids, waitlist_ids).
     canceled_recipient_events db l community_id group_id rest
       (if ef_test_event event_full then m
        else push_event (event_series_notification_item (base_url_without_trailing_slash (el_base_url l)) event_full)
               (distinct_ids l (attendee_ids @ waitlist_ids @ speakers_ids event_full)) m))"

text \<open>One notification per group; a group without events is skipped.\<close>

fun enqueue_groups ::
    "'s enqueue_db \<Rightarrow> NotificationKind \<Rightarrow> (EventSummary \<Rightarrow> EventSeriesNotificationGroup \<Rightarrow> anyhow + json) \<Rightarrow>
     EventSeriesNotificationGroup list \<Rightarrow> ('s, unit) io" where
  "enqueue_groups db kind template_data [] = act_ok ()"
| "enqueue_groups db kind template_data (g # rest) =
     (case first_event g of
        None \<Rightarrow> enqueue_groups db kind template_data rest
      | Some event \<Rightarrow>
          act_bind (act_lift (template_data event g)) (\<lambda>data.
          act_bind (eq_enqueue_notification db (new_notification kind [] (sg_recipients g) data)) (\<lambda>_.
          enqueue_groups db kind template_data rest)))"

definition series_template :: "SiteSettings \<Rightarrow> EventSummary \<Rightarrow> EventSeriesNotificationGroup \<Rightarrow> EventSeriesCanceled" where
  "series_template site_settings event g =
     \<lparr>se_event_count = length (sg_events g), se_events = sg_events g,
      se_group_name = ev_group_name event, se_theme = ss_theme site_settings\<rparr>"

definition enqueue_event_series_canceled_notifications ::
    "'s enqueue_db \<Rightarrow> enqueue_lib \<Rightarrow> uuid \<Rightarrow> uuid \<Rightarrow> uuid list \<Rightarrow> ('s, unit) io" where
  "enqueue_event_series_canceled_notifications db l community_id group_id event_ids =
     act_bind (canceled_recipient_events db l community_id group_id event_ids []) (\<lambda>recipient_events.
     if recipient_events = [] then act_ok ()
     else
       act_bind (eq_get_site_settings db) (\<lambda>site_settings.
       enqueue_groups db EventSeriesCanceledKind
         (\<lambda>event g. tc_to_value (tm_event_series_canceled (el_templates l))
            (series_template site_settings event g))
         (group_recipients_by_events l recipient_events)))"

fun published_recipient_events ::
    "'s enqueue_db \<Rightarrow> enqueue_lib \<Rightarrow> uuid \<Rightarrow> uuid \<Rightarrow> uuid list \<Rightarrow> uuid list \<Rightarrow>
     recipient_events \<times> recipient_events \<Rightarrow> ('s, recipient_events \<times> recipient_events) io" where
  "published_recipient_events db l community_id group_id member_ids [] ms = act_ok ms"
| "published_recipient_events db l community_id group_id member_ids (event_id # rest) (member_events, speaker_events) =
     act_bind (eq_get_event_full db community_id group_id event_id) (\<lambda>event_full.
     published_recipient_events db l community_id group_id member_ids rest
       (if ef_test_event event_full then (member_events, speaker_events)
        else
          let event = event_series_notification_item (base_url_without_trailing_slash (el_base_url l)) event_full;
              speaker_ids = speakers_ids event_full
          in (push_event event (filter (\<lambda>u. u \<notin> set speaker_ids) member_ids) member_events,
              push_event event speaker_ids speaker_events)))"

definition enqueue_event_series_published_notifications ::
    "'s enqueue_db \<Rightarrow> enqueue_lib \<Rightarrow> uuid \<Rightarrow> uuid \<Rightarrow> uuid list \<Rightarrow> ('s, unit) io" where
  "enqueue_event_series_published_notifications db l community_id group_id event_ids =
     act_bind (try_join2 (eq_list_group_members_ids db group_id) (eq_list_group_team_members_ids db group_id))
       (\<lambda>(group_member_ids, team_member_ids).
     act_bind (published_recipient_events db l community_id group_id
                 (group_audience group_member_ids team_member_ids) event_ids ([], []))
       (\<lambda>(member_events, speaker_events).
     if member_events = [] \<and> speaker_events = [] then act_ok ()
     else
       act_bind (eq_get_site_settings db) (\<lambda>site_settings.
       act_bind (enqueue_groups db EventSeriesPublishedKind
           (\<lambda>event g. tc_to_value (tm_event_series_published (el_templates l))
              (EventSeriesCanceled.extend (series_template site_settings event g)
                 (EventSeriesPublished.fields (ev_community_display_name event))))
           (group_recipients_by_events l member_events)) (\<lambda>_.
       enqueue_groups db SpeakerSeriesWelcomeKind
         (\<lambda>event g. tc_to_value (tm_speaker_series_welcome (el_templates l))
            (series_template site_settings event g))
         (group_recipients_by_events l speaker_events)))))"

end
