(* ===== verification/Notification_Audience.thy ===== *)
theory Notification_Audience
  imports Notification_Enqueue "HOL-Library.Multiset"
begin

text \<open>
  Who hears of what. The grouping of the recipients of a series is a partition, whatever order the hash
  maps are iterated in; a cancellation reaches each affected user once, with the occurrences that
  concern them; members and speakers of a published event get different messages; small or late moves
  and test events are not announced. The workflows are run against queries that answer from
  \<open>audience\<close> and a queue that records.
\<close>

section \<open>Maps\<close>

lemma map_of_map_entry:
  "map_of (map_entry k d f m) k' =
     (if k' = k then Some (f (case map_of m k of Some v \<Rightarrow> v | None \<Rightarrow> d)) else map_of m k')"
  by (induction m) auto

lemma map_entry_keys:
  "map fst (map_entry k d f m) = (if k \<in> fst ` set m then map fst m else map fst m @ [k])"
  by (induction m) (force split: if_splits)+

lemma map_entry_distinct: "distinct (map fst m) \<Longrightarrow> distinct (map fst (map_entry k d f m))"
  by (auto simp: map_entry_keys)

lemma map_entry_adds:
  assumes "h d = []" "\<And>v. mset (h (f v)) = mset (h v) + {#x#}"
  shows "mset (concat (map (h \<circ> snd) (map_entry k d f m))) = mset (concat (map (h \<circ> snd) m)) + {#x#}"
  by (induction m) (auto simp: assms)

definition permutes_lists :: "('k list \<Rightarrow> 'k list) \<Rightarrow> bool" where
  "permutes_lists order \<longleftrightarrow> (\<forall>xs. mset (order xs) = mset xs)"

lemma permutes_set: "permutes_lists order \<Longrightarrow> set (order xs) = set xs"
  unfolding permutes_lists_def by (metis set_mset_mset)

lemma in_order_mset:
  assumes "permutes_lists order" "distinct (map fst m)"
  shows "mset (in_order order m) = mset m"
proof -
  let ?p = "\<lambda>k. (k, the (map_of m k))"
  have "in_order order m = map ?p (order (map fst m))"
  proof -
    have "List.map_filter (\<lambda>k. map_option (Pair k) (map_of m k)) ks = map ?p ks" if "set ks \<subseteq> fst ` set m" for ks
      using that by (induction ks) (auto simp: List.map_filter_simps split: option.split
          dest!: weak_map_of_SomeI simp: map_of_eq_None_iff)
    then show ?thesis using permutes_set [OF assms(1)] by (simp add: in_order_def)
  qed
  also have "mset \<dots> = mset (map ?p (map fst m))"
    using assms(1) by (metis mset_map permutes_lists_def)
  also have "map ?p (map fst m) = m" using assms(2) by (auto simp: comp_def intro!: map_idI)
  finally show ?thesis .
qed

section \<open>Grouping\<close>

abbreviation same_events_as :: "uuid list \<Rightarrow> uuid \<times> EventSeriesNotificationItem list \<Rightarrow> bool" where
  "same_events_as key \<equiv> \<lambda>entry. item_ids (snd entry) = key"

lemma group_entries_snoc:
  "group_entries (entries @ [(u, es)]) groups =
     map_entry (item_ids es) \<lparr>sg_events = es, sg_recipients = []\<rparr>
       (\<lambda>g. g\<lparr>sg_recipients := sg_recipients g @ [u]\<rparr>) (group_entries entries groups)"
  by (simp add: group_entries_def)

lemma group_entries_distinct: "distinct (map fst (group_entries entries []))"
proof (induction entries rule: rev_induct)
  case (snoc x xs)
  then show ?case by (cases x) (simp add: group_entries_snoc map_entry_distinct)
qed (simp add: group_entries_def)

lemma group_entries_lookup:
  "map_of (group_entries entries []) key =
     (case filter (same_events_as key) entries of
        [] \<Rightarrow> None
      | (u, es) # rest \<Rightarrow> Some \<lparr>sg_events = es, sg_recipients = map fst (filter (same_events_as key) entries)\<rparr>)"
proof (induction entries rule: rev_induct)
  case (snoc x xs)
  then show ?case
    by (cases x) (auto simp: group_entries_snoc map_of_map_entry split: list.split)
qed (simp add: group_entries_def)

lemma group_entries_recipients:
  "mset (concat (map (sg_recipients \<circ> snd) (group_entries entries []))) = mset (map fst entries)"
proof (induction entries rule: rev_induct)
  case (snoc x xs)
  obtain u es where x: "x = (u, es)" by (cases x)
  show ?case
    unfolding x group_entries_snoc by (subst map_entry_adds [where x = u]) (auto simp: snoc)
qed (simp add: group_entries_def)

lemma group_entry:
  assumes "(key, g) \<in> set (group_entries entries [])"
  shows "item_ids (sg_events g) = key" "sg_recipients g = map fst (filter (same_events_as key) entries)"
    "\<exists>u. (u, sg_events g) \<in> set entries"
proof -
  have "map_of (group_entries entries []) key = Some g"
    using assms group_entries_distinct by (simp add: map_of_eq_Some_iff)
  then obtain u es rest where f: "filter (same_events_as key) entries = (u, es) # rest"
    and g: "g = \<lparr>sg_events = es, sg_recipients = map fst (filter (same_events_as key) entries)\<rparr>"
    by (auto simp: group_entries_lookup split: list.splits)
  from f have "(u, es) \<in> set (filter (same_events_as key) entries)" by simp
  then show "item_ids (sg_events g) = key" "\<exists>u. (u, sg_events g) \<in> set entries" by (auto simp: g)
  show "sg_recipients g = map fst (filter (same_events_as key) entries)" by (simp add: g)
qed

definition normal :: "EventSeriesNotificationGroup \<Rightarrow> EventSeriesNotificationGroup" where
  "normal g = g\<lparr>sg_recipients := remdups_adj (sort (sg_recipients g))\<rparr>"

lemma normal_events [simp]: "sg_events (normal g) = sg_events g"
  by (simp add: normal_def)

lemma mset_concat_map_cong: "mset xs = mset ys \<Longrightarrow> mset (concat (map h xs)) = mset (concat (map h ys))"
  by (simp add: mset_concat sum_mset_sum_list [symmetric])

text \<open>The groups before they are ordered, in terms of the entries in hash order.\<close>

lemma groups_mset:
  assumes "permutes_lists (el_key_order l)"
  shows "mset (group_recipients_by_events l m) =
    mset (map (normal \<circ> snd) (group_entries (in_order (el_hash_order l) m) []))"
proof -
  let ?G = "group_entries (in_order (el_hash_order l) m) []"
  have "mset (map normal (map snd (in_order (el_key_order l) ?G))) = mset (map normal (map snd ?G))"
    using in_order_mset [OF assms group_entries_distinct] by simp
  then show ?thesis by (simp add: group_recipients_by_events_def Let_def normal_def [abs_def] comp_def)
qed

lemma normal_recipients: "distinct (sg_recipients g) \<Longrightarrow> sg_recipients (normal g) = sort (sg_recipients g)"
  by (simp add: normal_def remdups_adj_distinct)

lemma series_groups_parts:
  assumes "permutes_lists (el_hash_order l)" "permutes_lists (el_key_order l)" "distinct (map fst m)"
  shows "let groups = group_recipients_by_events l m in
    mset (concat (map sg_recipients groups)) = mset (map fst m) \<and>
    distinct (map (\<lambda>g. item_ids (sg_events g)) groups) \<and>
    sorted (map (\<lambda>g. map_option ev_event_id (first_event g)) groups) \<and>
    (\<forall>g\<in>set groups. sorted (sg_recipients g) \<and> distinct (sg_recipients g) \<and>
       set (sg_recipients g) = {u. \<exists>es. (u, es) \<in> set m \<and> item_ids es = item_ids (sg_events g)})"
proof -
  let ?E = "in_order (el_hash_order l) m" and ?gs = "group_recipients_by_events l m"
  let ?G = "group_entries ?E []"
  note E = in_order_mset [OF assms(1,3)] and gs = groups_mset [OF assms(2), of m]
  have distinct: "distinct (map fst ?E)"
    using assms(3) E by (metis mset_map mset_eq_imp_distinct_iff)
  have entry: "distinct (sg_recipients g) \<and> (normal g) = g\<lparr>sg_recipients := sort (sg_recipients g)\<rparr>"
    if "(key, g) \<in> set ?G" for key g
  proof -
    have "distinct (sg_recipients g)"
      unfolding group_entry(2) [OF that] using distinct by (rule distinct_map_filter)
    then show ?thesis using normal_recipients [of g] by (simp add: normal_def)
  qed
  have "mset (concat (map sg_recipients ?gs)) = mset (concat (map sg_recipients (map (normal \<circ> snd) ?G)))"
    by (rule mset_concat_map_cong [OF gs])
  also have "\<dots> = mset (concat (map (sg_recipients \<circ> snd) ?G))"
  proof -
    have "mset (sg_recipients (normal g)) = mset (sg_recipients g)" if "(key, g) \<in> set ?G" for key g
      using entry [OF that] by simp
    then show ?thesis by (induction ?G) (auto simp: mset_concat intro!: arg_cong [of _ _ sum_list])
  qed
  also have "\<dots> = mset (map fst m)" using group_entries_recipients [of ?E] E by (metis mset_map)
  finally have parts: "mset (concat (map sg_recipients ?gs)) = mset (map fst m)" .
  have "map (\<lambda>g. item_ids (sg_events g)) (map (normal \<circ> snd) ?G) = map fst ?G"
    using group_entry(1) by (auto simp: normal_def)
  with group_entries_distinct [of ?E] have "distinct (map (\<lambda>g. item_ids (sg_events g)) (map (normal \<circ> snd) ?G))" by metis
  with gs have keys: "distinct (map (\<lambda>g. item_ids (sg_events g)) ?gs)"
    by (metis mset_map mset_eq_imp_distinct_iff)
  have ordered: "sorted (map (\<lambda>g. map_option ev_event_id (first_event g)) ?gs)"
    by (simp add: group_recipients_by_events_def Let_def)
  have "sorted (sg_recipients g) \<and> distinct (sg_recipients g) \<and>
      set (sg_recipients g) = {u. \<exists>es. (u, es) \<in> set m \<and> item_ids es = item_ids (sg_events g)}"
    if "g \<in> set ?gs" for g
  proof -
    from that gs have "g \<in> set (map (normal \<circ> snd) ?G)" by (metis set_mset_mset)
    then obtain key g' where g': "(key, g') \<in> set ?G" "g = normal g'" by auto
    note e = entry [OF g'(1)] and r = group_entry [OF g'(1)]
    have "set ?E = set m" using E by (metis set_mset_mset)
    with e r g'(2) show ?thesis by (auto simp: image_iff)
  qed
  with parts keys ordered show ?thesis by (simp add: Let_def)
qed

lemma group_events:
  assumes "permutes_lists (el_hash_order l)" "permutes_lists (el_key_order l)" "distinct (map fst m)"
    and "g \<in> set (group_recipients_by_events l m)"
  shows "\<exists>u. (u, sg_events g) \<in> set m"
proof -
  from assms(4) groups_mset [OF assms(2), of m]
  have "g \<in> set (map (normal \<circ> snd) (group_entries (in_order (el_hash_order l) m) []))"
    by (metis set_mset_mset)
  then obtain key g' where g': "(key, g') \<in> set (group_entries (in_order (el_hash_order l) m) [])" "g = normal g'"
    by auto
  from group_entry(3) [OF g'(1)] in_order_mset [OF assms(1,3)] show ?thesis
    by (metis g'(2) normal_events set_mset_mset)
qed

text \<open>
  Grouping the recipients of a series is a partition of them by what concerns them, in whatever
  order the hash maps are iterated: everybody is in exactly one group, next to exactly those who
  have the same occurrences; the recipients of a group are in order and distinct, and the groups are
  ordered by their first occurrence.
\<close>

theorem series_groups_partition_recipients:
  assumes "permutes_lists (el_hash_order l)" "permutes_lists (el_key_order l)" "distinct (map fst m)"
  shows "let groups = group_recipients_by_events l m in
    mset (concat (map sg_recipients groups)) = mset (map fst m) \<and>
    distinct (map (\<lambda>g. item_ids (sg_events g)) groups) \<and>
    sorted (map (\<lambda>g. map_option ev_event_id (first_event g)) groups) \<and>
    (\<forall>g\<in>set groups. sorted (sg_recipients g) \<and> distinct (sg_recipients g) \<and>
       set (sg_recipients g) = {u. \<exists>es. (u, es) \<in> set m \<and> item_ids es = item_ids (sg_events g)})"
  using assms by (rule series_groups_parts)

section \<open>Queries that answer and a queue that records\<close>

record audience =
  au_full :: "uuid \<Rightarrow> EventFull"
  au_summary :: "uuid \<Rightarrow> EventSummary"
  au_attendees :: "uuid \<Rightarrow> uuid list"
  au_waitlist :: "uuid \<Rightarrow> uuid list"
  au_admins :: "uuid list"
  au_members :: "uuid list"
  au_team :: "uuid list"
  au_site :: SiteSettings

definition recording :: "audience \<Rightarrow> NewNotification list enqueue_db" where
  "recording a = \<lparr>
     eq_enqueue_notification = \<lambda>n queued. (Inr (), queued @ [n]),
     eq_get_event_full = \<lambda>_ _ e. act_ok (au_full a e),
     eq_get_event_summary = \<lambda>_ _ e. act_ok (au_summary a e),
     eq_get_event_summary_by_id = \<lambda>_ e. act_ok (au_summary a e),
     eq_get_site_settings = act_ok (au_site a),
     eq_list_community_admin_ids = \<lambda>_. act_ok (au_admins a),
     eq_list_event_attendees_ids = \<lambda>_ e _. act_ok (au_attendees a e),
     eq_list_event_waitlist_ids = \<lambda>_ e. act_ok (au_waitlist a e),
     eq_list_group_members_ids = \<lambda>_. act_ok (au_members a),
     eq_list_group_team_members_ids = \<lambda>_. act_ok (au_team a)\<rparr>"

lemma recording_queries [simp]:
  "eq_enqueue_notification (recording a) n queued = (Inr (), queued @ [n])"
  "eq_get_event_full (recording a) c g e = act_ok (au_full a e)"
  "eq_get_event_summary (recording a) c g e = act_ok (au_summary a e)"
  "eq_get_site_settings (recording a) = act_ok (au_site a)"
  "eq_list_community_admin_ids (recording a) c = act_ok (au_admins a)"
  "eq_list_event_attendees_ids (recording a) g e b = act_ok (au_attendees a e)"
  "eq_list_event_waitlist_ids (recording a) g e = act_ok (au_waitlist a e)"
  "eq_list_group_members_ids (recording a) g = act_ok (au_members a)"
  "eq_list_group_team_members_ids (recording a) g = act_ok (au_team a)"
  by (simp_all add: recording_def)

lemma try_join_ok [simp]:
  "try_join2 (act_ok x) (act_ok y) = act_ok (x, y)"
  "try_join3 (act_ok x) (act_ok y) (act_ok z) = act_ok (x, y, z)"
  by (rule ext, simp add: try_join2_def try_join3_def)+

section \<open>Cancellation of a series\<close>

text \<open>The occurrences that concern a user, in the order given.\<close>

definition concerned :: "audience \<Rightarrow> uuid \<Rightarrow> uuid \<Rightarrow> bool" where
  "concerned a u e \<longleftrightarrow> \<not> ef_test_event (au_full a e) \<and>
     (u \<in> set (au_attendees a e) \<or> u \<in> set (au_waitlist a e) \<or> u \<in> set (speakers_ids (au_full a e)))"

definition series_item :: "audience \<Rightarrow> enqueue_lib \<Rightarrow> uuid \<Rightarrow> EventSeriesNotificationItem" where
  "series_item a l e =
     event_series_notification_item (base_url_without_trailing_slash (el_base_url l)) (au_full a e)"

definition canceled_for :: "audience \<Rightarrow> enqueue_lib \<Rightarrow> uuid list \<Rightarrow> uuid \<Rightarrow> EventSeriesNotificationItem list" where
  "canceled_for a l event_ids u = map (series_item a l) (filter (concerned a u) event_ids)"

definition events_of :: "recipient_events \<Rightarrow> uuid \<Rightarrow> EventSeriesNotificationItem list" where
  "events_of m u = (case map_of m u of Some es \<Rightarrow> es | None \<Rightarrow> [])"

definition recipient_map :: "recipient_events \<Rightarrow> bool" where
  "recipient_map m \<longleftrightarrow> distinct (map fst m) \<and> (\<forall>entry\<in>set m. snd entry \<noteq> [])"

lemma recipient_map_entry:
  assumes "recipient_map m"
  shows "(u, es) \<in> set m \<longleftrightarrow> es \<noteq> [] \<and> events_of m u = es"
proof -
  have "(u, es) \<in> set m \<longleftrightarrow> map_of m u = Some es"
    using assms by (simp add: recipient_map_def map_of_eq_Some_iff)
  moreover have "map_of m u \<noteq> Some []" using assms by (auto simp: recipient_map_def dest: map_of_SomeD)
  ultimately show ?thesis by (auto simp: events_of_def split: option.splits)
qed

lemma push_event_events:
  "distinct us \<Longrightarrow> events_of (push_event event us m) u = events_of m u @ (if u \<in> set us then [event] else [])"
proof (induction us arbitrary: m)
  case (Cons v us)
  have "events_of (map_entry v [] (\<lambda>es. es @ [event]) m) u = events_of m u @ (if u = v then [event] else [])"
    by (auto simp: events_of_def map_of_map_entry)
  with Cons show ?case by (auto simp: push_event_def)
qed (simp add: push_event_def)

lemma map_entry_nonempty:
  "\<forall>entry\<in>set m. snd entry \<noteq> [] \<Longrightarrow> \<forall>entry\<in>set (map_entry u [] (\<lambda>es. es @ [event]) m). snd entry \<noteq> []"
  by (induction m) (fastforce split: if_splits)+

lemma push_event_map: "recipient_map m \<Longrightarrow> recipient_map (push_event event us m)"
proof (induction us arbitrary: m)
  case (Cons v us)
  from Cons.prems have "recipient_map (map_entry v [] (\<lambda>es. es @ [event]) m)"
    using map_entry_distinct [of m v "[]" "\<lambda>es. es @ [event]"] map_entry_nonempty [of m v event]
    by (simp add: recipient_map_def)
  from Cons.IH [OF this] show ?case by (simp add: push_event_def)
qed (simp add: push_event_def)

lemma distinct_ids:
  assumes "permutes_lists (el_hash_order l)"
  shows "distinct (distinct_ids l ids)" "set (distinct_ids l ids) = set ids"
proof -
  have "mset (distinct_ids l ids) = mset (remdups ids)"
    using assms by (simp add: distinct_ids_def permutes_lists_def)
  then show "distinct (distinct_ids l ids)" "set (distinct_ids l ids) = set ids"
    by (metis distinct_remdups mset_eq_imp_distinct_iff, metis set_mset_mset set_remdups)
qed

lemma canceled_recipient_events_run:
  assumes "permutes_lists (el_hash_order l)" "recipient_map m"
  shows "\<exists>m'. canceled_recipient_events (recording a) l c g event_ids m queued = (Inr m', queued) \<and>
    recipient_map m' \<and> (\<forall>u. events_of m' u = events_of m u @ canceled_for a l event_ids u)"
  using assms(2)
proof (induction event_ids arbitrary: m)
  case Nil
  then show ?case by (simp add: canceled_for_def)
next
  case (Cons e event_ids)
  let ?us = "distinct_ids l (au_attendees a e @ au_waitlist a e @ speakers_ids (au_full a e))"
  let ?m = "if ef_test_event (au_full a e) then m else push_event (series_item a l e) ?us m"
  note us = distinct_ids [OF assms(1)]
  have "recipient_map ?m" using Cons.prems push_event_map by simp
  from Cons.IH [OF this] obtain m' where
    m': "canceled_recipient_events (recording a) l c g event_ids ?m queued = (Inr m', queued)"
      "recipient_map m'" "\<forall>u. events_of m' u = events_of ?m u @ canceled_for a l event_ids u" by blast
  have "events_of ?m u @ canceled_for a l event_ids u =
      events_of m u @ canceled_for a l (e # event_ids) u" for u
    by (simp add: push_event_events [OF us(1)] us(2) canceled_for_def concerned_def)
  with m' have "\<forall>u. events_of m' u = events_of m u @ canceled_for a l (e # event_ids) u" by simp
  moreover have "canceled_recipient_events (recording a) l c g (e # event_ids) m queued = (Inr m', queued)"
    using m'(1) by (cases "ef_test_event (au_full a e)") (simp_all add: act_bind_def series_item_def)
  ultimately show ?case using m'(2) by blast
qed

lemma enqueue_groups_run:
  assumes "\<And>event g. template_data event g = Inr (J event g)" "\<forall>g\<in>set groups. sg_events g \<noteq> []"
  shows "enqueue_groups (recording a) kind template_data groups queued =
    (Inr (), queued @ map (\<lambda>g. new_notification kind [] (sg_recipients g) (J (si_event (hd (sg_events g))) g)) groups)"
  using assms(2)
proof (induction groups arbitrary: queued)
  case (Cons g groups)
  then show ?case
    by (cases "sg_events g") (auto simp: first_event_def assms(1) act_bind_def)
qed simp

lemma item_ids_series:
  assumes "\<And>e. ef_event_id (au_full a e) = e"
  shows "item_ids (map (series_item a l) es) = es"
  by (simp add: item_ids_def series_item_def event_series_notification_item_def event_summary_from_def
      assms comp_def Let_def)

text \<open>
  C40: the cancellation of a series reaches everybody it concerns, once. One message is queued for each
  group of recipients; everybody who attends, waits for or speaks at one of the canceled occurrences
  is among the recipients of exactly one of them, nobody else is, and the message lists exactly the
  occurrences that concern its recipients, in order. Test events are left out.
\<close>

theorem series_cancellation_reaches_each_once:
  assumes "permutes_lists (el_hash_order l)" "permutes_lists (el_key_order l)"
    "\<And>e. ef_event_id (au_full a e) = e"
    "\<And>t. tc_to_value (tm_event_series_canceled (el_templates l)) t = Inr (J t)"
  shows "\<exists>groups. enqueue_event_series_canceled_notifications (recording a) l community_id group_id event_ids [] =
      (Inr (), map (\<lambda>g. new_notification EventSeriesCanceledKind [] (sg_recipients g)
         (J (series_template (au_site a) (si_event (hd (sg_events g))) g))) groups) \<and>
    distinct (concat (map sg_recipients groups)) \<and>
    (\<forall>u. u \<in> set (concat (map sg_recipients groups)) \<longleftrightarrow> (\<exists>e\<in>set event_ids. concerned a u e)) \<and>
    (\<forall>g\<in>set groups. \<forall>u\<in>set (sg_recipients g). sg_events g = canceled_for a l event_ids u)"
proof -
  obtain m where run: "canceled_recipient_events (recording a) l community_id group_id event_ids [] [] = (Inr m, [])"
    and m: "recipient_map m" "\<And>u. events_of m u = canceled_for a l event_ids u"
    using canceled_recipient_events_run [OF assms(1), of "[]" a community_id group_id event_ids "[]"]
    by (auto simp: recipient_map_def events_of_def)
  have entry: "(u, es) \<in> set m \<longleftrightarrow> es \<noteq> [] \<and> es = canceled_for a l event_ids u" for u es
    using recipient_map_entry [OF m(1)] m(2) by auto
  let ?groups = "group_recipients_by_events l m"
  have keys: "u \<in> fst ` set m \<longleftrightarrow> (\<exists>e\<in>set event_ids. concerned a u e)" for u
  proof -
    have "u \<in> fst ` set m \<longleftrightarrow> (\<exists>es. (u, es) \<in> set m)" by force
    also have "\<dots> \<longleftrightarrow> canceled_for a l event_ids u \<noteq> []" by (simp add: entry)
    finally show ?thesis by (auto simp: canceled_for_def filter_empty_conv)
  qed
  from m(1) have "distinct (map fst m)" by (simp add: recipient_map_def)
  note parts = series_groups_parts [OF assms(1,2) this, unfolded Let_def]
  then have all: "mset (concat (map sg_recipients ?groups)) = mset (map fst m)" by blast
  have groups: "sg_events g \<noteq> [] \<and> (\<forall>u\<in>set (sg_recipients g). sg_events g = canceled_for a l event_ids u)"
    if g: "g \<in> set ?groups" for g
  proof -
    from group_events [OF assms(1,2) \<open>distinct (map fst m)\<close> g] obtain v where v: "(v, sg_events g) \<in> set m" by blast
    have "sg_events g = canceled_for a l event_ids u" if "u \<in> set (sg_recipients g)" for u
    proof -
      from parts g that have "\<exists>es. (u, es) \<in> set m \<and> item_ids es = item_ids (sg_events g)" by blast
      with v show ?thesis by (auto simp: entry canceled_for_def item_ids_series [OF assms(3)])
    qed
    with v show ?thesis by (auto simp: entry)
  qed
  have sent: "enqueue_event_series_canceled_notifications (recording a) l community_id group_id event_ids [] =
      (Inr (), map (\<lambda>g. new_notification EventSeriesCanceledKind [] (sg_recipients g)
         (J (series_template (au_site a) (si_event (hd (sg_events g))) g))) ?groups)"
  proof (cases "m = []")
    case True
    then have "?groups = []" using group_events [OF assms(1,2) \<open>distinct (map fst m)\<close>] by (cases ?groups) auto
    with True run show ?thesis by (simp add: enqueue_event_series_canceled_notifications_def act_bind_def)
  next
    case False
    have "enqueue_groups (recording a) EventSeriesCanceledKind (\<lambda>event g.
        tc_to_value (tm_event_series_canceled (el_templates l)) (series_template (au_site a) event g)) ?groups [] =
      (Inr (), [] @ map (\<lambda>g. new_notification EventSeriesCanceledKind [] (sg_recipients g)
         (J (series_template (au_site a) (si_event (hd (sg_events g))) g))) ?groups)"
      by (rule enqueue_groups_run) (use groups assms(4) in auto)
    with False run show ?thesis by (simp add: enqueue_event_series_canceled_notifications_def act_bind_def)
  qed
  have "distinct (concat (map sg_recipients ?groups))"
    using all \<open>distinct (map fst m)\<close> by (metis mset_eq_imp_distinct_iff)
  moreover have "set (concat (map sg_recipients ?groups)) = fst ` set m"
    using all by (metis set_map set_mset_mset)
  ultimately show ?thesis using sent groups keys by (intro exI [of _ ?groups]) blast
qed

section \<open>One event\<close>

lemma speakers_distinct: "distinct (speakers_ids e)"
  by (simp add: speakers_ids_def)

lemma sorted_dedup: "sorted xs \<Longrightarrow> distinct (remdups_adj xs)"
  by (induction xs rule: remdups_adj.induct) auto

lemma group_audience:
  "distinct (group_audience ms ts)" "set (group_audience ms ts) = set ms \<union> set ts"
  by (simp_all add: group_audience_def sorted_dedup)

lemma two_messages:
  "set (concat (map nn_recipients
     ((if us = [] then [] else [new_notification k as us d]) @
      (if vs = [] then [] else [new_notification k' as' vs d'])))) = set us \<union> set vs"
  by (simp add: new_notification_def)

text \<open>
  A publication is told to everybody once. The members and the team of the group and the speakers
  are the recipients of the messages that are queued, each of exactly one: speakers of the welcome for
  speakers, everybody else of the announcement. No message without recipients is queued.
\<close>

theorem publication_told_to_each_once:
  assumes "\<not> ef_test_event (au_full a e)"
    "\<And>t. tc_to_value (tm_event_published (el_templates l)) t = Inr (J t)"
    "\<And>t. tc_to_value (tm_speaker_welcome (el_templates l)) t = Inr (K t)"
  shows "\<exists>ns. enqueue_event_published_notifications (recording a) l community_id group_id e queued =
      (Inr (), queued @ ns) \<and>
    distinct (concat (map nn_recipients ns)) \<and>
    set (concat (map nn_recipients ns)) =
      set (au_members a) \<union> set (au_team a) \<union> set (speakers_ids (au_full a e)) \<and>
    (\<forall>n\<in>set ns. nn_recipients n \<noteq> [] \<and> (\<forall>u\<in>set (nn_recipients n).
       nn_kind n = (if u \<in> set (speakers_ids (au_full a e)) then SpeakerWelcomeKind else EventPublishedKind)))"
proof -
  let ?speakers = "speakers_ids (au_full a e)"
  let ?members = "filter (\<lambda>u. u \<notin> set ?speakers) (group_audience (au_members a) (au_team a))"
  let ?data = "event_page_template (base_url_without_trailing_slash (el_base_url l))
    (event_summary_from (au_full a e)) (au_site a)"
  let ?attachment = "el_calendar l (base_url_without_trailing_slash (el_base_url l))
    (event_summary_from (au_full a e))"
  let ?ns = "(if ?members = [] then [] else [new_notification EventPublishedKind [?attachment] ?members (J ?data)]) @
    (if ?speakers = [] then [] else [new_notification SpeakerWelcomeKind [?attachment] ?speakers (K ?data)])"
  have "enqueue_event_published_notifications (recording a) l community_id group_id e queued = (Inr (), queued @ ?ns)"
    using assms
    by (auto simp: enqueue_event_published_notifications_def act_bind_def Let_def
        build_event_published_notification_def build_speaker_welcome_notification_def)
  moreover have "distinct (concat (map nn_recipients ?ns))"
    using speakers_distinct [of "au_full a e"] by (auto simp: new_notification_def group_audience)
  moreover have "set (concat (map nn_recipients ?ns)) = set (au_members a) \<union> set (au_team a) \<union> set ?speakers"
    unfolding two_messages by (auto simp: group_audience)
  moreover have "\<forall>n\<in>set ?ns. nn_recipients n \<noteq> [] \<and> (\<forall>u\<in>set (nn_recipients n).
       nn_kind n = (if u \<in> set ?speakers then SpeakerWelcomeKind else EventPublishedKind))"
    by (auto simp: new_notification_def)
  ultimately show ?thesis by blast
qed

text \<open>
  Test events are never announced: whatever happens to one, no workflow queues a message about it.
\<close>

theorem test_events_not_announced:
  assumes "ef_test_event (au_full a e)" "ev_test_event (au_summary a e)" "ev_test_event before"
  shows "enqueue_event_canceled_notification (recording a) l community_id group_id e queued = (Inr (), queued) \<and>
    enqueue_event_published_notifications (recording a) l community_id group_id e queued = (Inr (), queued) \<and>
    enqueue_event_rescheduled_notification (recording a) l now now' community_id group_id e before queued =
      (Inr (), queued) \<and>
    enqueue_event_paid_configured_notifications (recording a) l community_id group_id [e] queued = (Inr (), queued) \<and>
    enqueue_event_series_canceled_notifications (recording a) l community_id group_id [e] queued = (Inr (), queued) \<and>
    enqueue_event_series_published_notifications (recording a) l community_id group_id [e] queued = (Inr (), queued)"
  using assms
  by (simp add: enqueue_event_canceled_notification_def enqueue_event_published_notifications_def
      enqueue_event_rescheduled_notification_def enqueue_event_paid_configured_notifications_def
      enqueue_event_series_canceled_notifications_def enqueue_event_series_published_notifications_def act_bind_def)

text \<open>
  Only moves that matter are announced. When the update of an event queues a message, the event was
  published and not over, it is no test event, it now starts in the future, and its start moved by at
  least a quarter of an hour, in either direction.
\<close>

theorem only_real_moves_announced:
  assumes "enqueue_event_rescheduled_notification (recording a) l now now' community_id group_id e before queued =
    (r, queued')" "queued' \<noteq> queued"
  shows "ev_published before \<and> \<not> ev_test_event before \<and> \<not> summary_is_past now before \<and>
    (\<exists>b s. ev_starts_at before = Some b \<and> ev_starts_at (au_summary a e) = Some s \<and> s > now' \<and>
       (s \<ge> b + 15 * 60 * 1000000 \<or> b \<ge> s + 15 * 60 * 1000000))"
proof -
  have "queued' = queued"
    if "summary_is_past now before \<or> ev_test_event before \<or> \<not> should_notify_reschedule now' before (au_summary a e)"
    using assms(1) that
    by (auto simp: enqueue_event_rescheduled_notification_def act_bind_def split: if_split_asm)
  with assms(2) have "\<not> (summary_is_past now before \<or> ev_test_event before)"
    "should_notify_reschedule now' before (au_summary a e)" by blast+
  then show ?thesis
    by (cases "ev_starts_at before"; cases "ev_starts_at (au_summary a e)")
      (auto simp: should_notify_reschedule_def MIN_RESCHEDULE_SHIFT_def split: if_splits bool.splits)
qed

section \<open>An example\<close>

text \<open>
  A series of two occurrences; user 1 attends both, user 2 the first, and the hash maps are iterated
  backwards.
\<close>

definition sample_category :: GroupCategory where
  "sample_category =
     \<lparr>gt_group_category_id = 0, gt_name = '''', gt_normalized_name = '''', gt_groups_count = None,
      gt_order = None\<rparr>"

definition sample_community :: CommunitySummary where
  "sample_community =
     \<lparr>cs_banner_mobile_url = '''', cs_banner_url = '''', cs_community_id = 0, cs_display_name = '''',
      cs_logo_url = '''', cs_name = ''c'', cs_ad_banner_link_url = None, cs_ad_banner_url = None,
      cs_og_image_url = None\<rparr>"

definition sample_group :: GroupSummary where
  "sample_group =
     \<lparr>gs_active = False, gs_category = sample_category, gs_community_display_name = '''',
      gs_community_name = '''', gs_created_at = 0, gs_group_id = 0, gs_logo_url = '''', gs_name = ''g'',
      gs_slug = ''g'', gs_banner_mobile_url = None, gs_banner_url = None, gs_city = None,
      gs_country_code = None, gs_country_name = None, gs_description_short = None, gs_latitude = None,
      gs_longitude = None, gs_og_image_url = None, gs_popover_html = None, gs_region = None,
      gs_slug_pretty = None, gs_state = None\<rparr>"

definition sample_event :: EventFull where
  "sample_event =
     \<lparr>ef_attendee_approval_required = False, ef_attendee_count = 0, ef_canceled = False,
      ef_category_name = '''', ef_cfs_labels = [], ef_community = sample_community, ef_created_at = 0,
      ef_description = '''', ef_event_id = 0, ef_group = sample_group,
      ef_has_registration_questions = False, ef_has_related_events = False,
      ef_has_ticket_purchases = False, ef_hosts = [], ef_kind = EventInPerson, ef_logo_url = '''',
      ef_manual_tax_rate_ids = [], ef_name = ''e'', ef_organizers = [], ef_published = True,
      ef_registration_questions = [], ef_registration_questions_locked = False, ef_sessions = [],
      ef_slug = ''e'', ef_speakers = [], ef_sponsors = [], ef_tax_behavior = Exclusive,
      ef_tax_calculation_mode = TaxNone, ef_test_event = False, ef_timezone = '''', ef_waitlist_count = 0,
      ef_waitlist_enabled = False, ef_banner_mobile_url = None, ef_banner_url = None, ef_capacity = None,
      ef_cfs_description = None, ef_cfs_enabled = None, ef_cfs_ends_at = None, ef_cfs_starts_at = None,
      ef_description_short = None, ef_discount_codes = None, ef_ends_at = None,
      ef_event_reminder_enabled = None, ef_event_series_id = None, ef_latitude = None,
      ef_legacy_hosts = None, ef_legacy_speakers = None, ef_longitude = None, ef_luma_url = None,
      ef_meeting_error = None, ef_meeting_hosts = None, ef_meeting_in_sync = None,
      ef_meeting_join_instructions = None, ef_meeting_join_url = None, ef_meeting_password = None,
      ef_meeting_provider = None, ef_meeting_recording_public_url = None,
      ef_meeting_recording_published = None, ef_meeting_recording_raw_urls = None,
      ef_meeting_recording_requested = None, ef_meeting_recording_url = None, ef_meeting_requested = None,
      ef_meetup_url = None, ef_payment_currency_code = None, ef_photos_urls = None, ef_published_at = None,
      ef_registration_ends_at = None, ef_registration_starts_at = None, ef_remaining_capacity = None,
      ef_starts_at = None, ef_tags = None, ef_ticket_types = None, ef_venue_address = None,
      ef_venue_city = None, ef_venue_country_code = None, ef_venue_country_name = None,
      ef_venue_name = None, ef_venue_state_code = None, ef_venue_state_name = None, ef_venue_zip_code = None\<rparr>"

definition sample_site :: SiteSettings where
  "sample_site =
     \<lparr>ss_description = '''', ss_site_id = 0,
      ss_theme = \<lparr>th_palette = [], th_primary_color = ''''\<rparr>, ss_title = '''',
      ss_copyright_notice = None, ss_favicon_url = None, ss_footer_logo_url = None,
      ss_header_logo_url = None, ss_og_image_url = None\<rparr>"

definition sample_audience :: audience where
  "sample_audience = \<lparr>au_full = \<lambda>e. sample_event\<lparr>ef_event_id := e\<rparr>,
     au_summary = \<lambda>e. (event_summary_from sample_event)\<lparr>ev_starts_at := Some 2000000000\<rparr>,
     au_attendees = \<lambda>e. if e = 10 then [1, 2] else [1], au_waitlist = \<lambda>_. [], au_admins = [],
     au_members = [3, 1], au_team = [3], au_site = sample_site\<rparr>"

definition sample_enqueue_lib :: enqueue_lib where
  "sample_enqueue_lib = \<lparr>el_base_url = ''https://example.org'',
     el_templates = sample_templates,
     el_calendar = \<lambda>_ _. \<lparr>at_content_type = ''text/calendar'', at_data = [], at_file_name = ''event.ics''\<rparr>,
     el_hash_order = rev, el_key_order = rev\<rparr>"

lemma sample_orders [simp]:
  "permutes_lists (el_hash_order sample_enqueue_lib)" "permutes_lists (el_key_order sample_enqueue_lib)"
  by (simp_all add: permutes_lists_def sample_enqueue_lib_def)

lemma sample_to_value [simp]:
  "tc_to_value (tm_event_series_canceled (el_templates sample_enqueue_lib)) t1 = Inr JNull"
  "tc_to_value (tm_event_published (el_templates sample_enqueue_lib)) t2 = Inr JNull"
  "tc_to_value (tm_speaker_welcome (el_templates sample_enqueue_lib)) t3 = Inr JNull"
  "tc_to_value (tm_event_rescheduled (el_templates sample_enqueue_lib)) t4 = Inr JNull"
  by (simp_all add: sample_enqueue_lib_def sample_templates_def no_codec_def)

definition sample_recipients :: recipient_events where
  "sample_recipients = [(1, map (series_item sample_audience sample_enqueue_lib) [10, 11]),
     (2, map (series_item sample_audience sample_enqueue_lib) [10]),
     (3, map (series_item sample_audience sample_enqueue_lib) [10])]"

theorem series_groups_partition_recipients_witness:
  "mset (concat (map sg_recipients (group_recipients_by_events sample_enqueue_lib sample_recipients))) = {#1, 2, 3#}"
  using series_groups_partition_recipients [of sample_enqueue_lib sample_recipients]
  by (simp add: Let_def sample_recipients_def)

lemma sample_concerned: "concerned sample_audience u e \<longleftrightarrow> u = 1 \<or> e = 10 \<and> u = 2"
  by (auto simp: concerned_def sample_audience_def sample_event_def speakers_ids_def)

theorem series_cancellation_reaches_each_once_witness:
  "\<exists>groups :: EventSeriesNotificationGroup list. enqueue_event_series_canceled_notifications
      (recording sample_audience) sample_enqueue_lib 0 0 [10, 11] [] =
      (Inr (), map (\<lambda>g. new_notification EventSeriesCanceledKind [] (sg_recipients g) JNull) groups) \<and>
    distinct (concat (map sg_recipients groups)) \<and> set (concat (map sg_recipients groups)) = {1, 2} \<and>
    (\<forall>g. g \<in> set groups \<longrightarrow> 2 \<in> set (sg_recipients g) \<longrightarrow>
       sg_events g = [series_item sample_audience sample_enqueue_lib 10])"
proof -
  have "ef_event_id (au_full sample_audience e) = e" for e by (simp add: sample_audience_def)
  from series_cancellation_reaches_each_once [OF sample_orders this sample_to_value(1), of 0 0 "[10, 11]"]
  obtain groups :: "EventSeriesNotificationGroup list" where run: "enqueue_event_series_canceled_notifications (recording sample_audience)
      sample_enqueue_lib 0 0 [10, 11] [] =
      (Inr (), map (\<lambda>g. new_notification EventSeriesCanceledKind [] (sg_recipients g) JNull) groups)"
    and "distinct (concat (map sg_recipients groups))"
    and all: "\<forall>u. u \<in> set (concat (map sg_recipients groups)) \<longleftrightarrow>
      (\<exists>e\<in>set [10, 11]. concerned sample_audience u e)"
    and lists: "\<forall>g\<in>set groups. \<forall>u\<in>set (sg_recipients g).
      sg_events g = canceled_for sample_audience sample_enqueue_lib [10, 11] u" by (elim exE conjE)
  moreover have "set (concat (map sg_recipients groups)) = {1, 2}"
    using all by (auto simp: sample_concerned)
  moreover have "canceled_for sample_audience sample_enqueue_lib [10, 11] 2 =
      [series_item sample_audience sample_enqueue_lib 10]"
    by (simp add: canceled_for_def sample_concerned)
  ultimately show ?thesis using lists by (intro exI [of _ groups]) auto
qed

theorem publication_told_to_each_once_witness:
  "\<exists>ns. enqueue_event_published_notifications (recording sample_audience) sample_enqueue_lib 0 0 10 [] = (Inr (), ns) \<and>
     set (concat (map nn_recipients ns)) = {1, 3}"
proof -
  have "\<not> ef_test_event (au_full sample_audience 10)" by (simp add: sample_audience_def sample_event_def)
  from publication_told_to_each_once [OF this sample_to_value(2,3), of 0 0 "[]"]
  obtain ns where "enqueue_event_published_notifications (recording sample_audience) sample_enqueue_lib 0 0 10 [] =
      (Inr (), ns)" "set (concat (map nn_recipients ns)) = set (au_members sample_audience) \<union>
      set (au_team sample_audience) \<union> set (speakers_ids (au_full sample_audience 10))" by auto
  then show ?thesis
    by (intro exI [of _ ns]) (auto simp: sample_audience_def sample_event_def speakers_ids_def)
qed

theorem test_events_not_announced_witness:
  "enqueue_event_canceled_notification (recording (sample_audience\<lparr>
       au_full := \<lambda>_. sample_event\<lparr>ef_test_event := True\<rparr>,
       au_summary := \<lambda>_. event_summary_from (sample_event\<lparr>ef_test_event := True\<rparr>)\<rparr>))
     sample_enqueue_lib 0 0 10 [] = (Inr (), [])"
  using test_events_not_announced [of "sample_audience\<lparr>au_full := \<lambda>_. sample_event\<lparr>ef_test_event := True\<rparr>,
      au_summary := \<lambda>_. event_summary_from (sample_event\<lparr>ef_test_event := True\<rparr>)\<rparr>" 10
      "event_summary_from (sample_event\<lparr>ef_test_event := True\<rparr>)" sample_enqueue_lib 0 0 "[]"]
  by (simp add: event_summary_from_def)

definition sample_before :: EventSummary where
  "sample_before = (event_summary_from sample_event)\<lparr>ev_starts_at := Some 1000000000\<rparr>"

theorem only_real_moves_announced_witness:
  "\<exists>ns. enqueue_event_rescheduled_notification (recording sample_audience) sample_enqueue_lib 0 0 0 0 10
       sample_before [] = (Inr (), ns) \<and> ns \<noteq> [] \<and> ev_published sample_before"
proof -
  let ?run = "enqueue_event_rescheduled_notification (recording sample_audience) sample_enqueue_lib 0 0 0 0 10
       sample_before []"
  have "fst ?run = Inr () \<and> snd ?run \<noteq> []"
    by (simp add: enqueue_event_rescheduled_notification_def sample_before_def sample_audience_def
        summary_is_past_def past_def event_summary_from_def sample_event_def should_notify_reschedule_def
        MIN_RESCHEDULE_SHIFT_def act_bind_def speakers_ids_def distinct_ids_def Let_def
        build_event_rescheduled_notification_def recording_def sample_enqueue_lib_def sample_templates_def no_codec_def)
  then obtain ns where run: "?run = (Inr (), ns)" and ns: "ns \<noteq> []" by (cases ?run) auto
  with only_real_moves_announced [OF run ns] show ?thesis by (intro exI [of _ ns]) blast
qed

end
