(* ===== verification/Spec2Isabelle.thy ===== *)
theory Spec2Isabelle
  imports Payments_Manager Payment_Workers Stripe_Provider Badge_Handlers Activity_Tracker Redirector
    Questionnaire Pagination Badge_Award_Worker Meeting_Sync Zoom Auth_Security Notification_Worker
    Notification_Reminders Notification_Audience
begin

text \<open>
  A verification development for Open Community Groups, a site where communities run groups and
  events, sell tickets through Stripe and award Open Badges. The server is
  \<^verbatim>\<open>src/ocg-server\<close>, the redirector of legacy addresses \<^verbatim>\<open>src/ocg-redirector\<close>, and the database
  functions the workers rely on are SQL files under \<^verbatim>\<open>src/database/migrations/functions\<close>.

  \<^bold>\<open>The parts and how they interact.\<close> People log in with a password, through
  GitHub or through the Linux Foundation, and middleware admits them to the dashboards of the groups and
  communities they may manage. A buyer's checkout creates a Stripe session through the
  payments manager. Stripe reports back by signed webhooks, which the endpoint verifies and the
  reconciler translates into database calls. Refunds live in a table: approvals and cancellations
  queue them, the refund worker claims them, asks Stripe, records the result and finalizes; a sweep
  requeues abandoned claims, and administrators retry or recover. Credit notes and fee adjustments are
  queued by a confirmed refund and done by two more workers. Badges are awarded to users, signed as
  credentials, exported inside PNG files and verified when somebody uploads one; revocations are
  published as signed bit strings; awards to many users run as durable jobs in the background. Notifications are
  queued in a table; workers claim them, send e-mails and record what is known of each. Meetings
  of events and sessions are kept in step with Zoom by workers that claim what is out of sync. Page
  views flow through the activity tracker.

  \<^bold>\<open>Theories and sources.\<close>
  \<^item> \<open>Prelude\<close>: actions (state passing with errors), strings as byte sequences with \<^verbatim>\<open>trim\<close> and ASCII
    case, decimal and uuid text, JSON documents, generic lemmas.
  \<^item> \<open>Payment_Types\<close>: \<^verbatim>\<open>types/payments.rs\<close>. \<open>Payments_Interfaces\<close>: the traits and types of
    \<^verbatim>\<open>services/payments/provider.rs\<close> and \<^verbatim>\<open>db/payments.rs\<close>; a trait object is a record of actions.
  \<^item> \<open>Refund_Store\<close>: the refund rows and the SQL functions on them; \<open>Refund_Lifecycle\<close>: the step
    relation over these functions, the clock, locks and the other writers, with its invariants.
  \<^item> \<open>Payments_Notifications\<close>: \<^verbatim>\<open>notification_composer.rs\<close>; \<open>Refund_Worker\<close>: \<^verbatim>\<open>workers/refund.rs\<close> and
    \<^verbatim>\<open>refund_recorder.rs\<close>; \<open>Payment_Workers\<close>: \<^verbatim>\<open>claim_loop.rs\<close>, \<^verbatim>\<open>recovery.rs\<close>, \<^verbatim>\<open>credit_note.rs\<close>,
    \<^verbatim>\<open>application_fee_adjustment.rs\<close>; \<open>Webhook_Reconciler\<close>: \<^verbatim>\<open>webhook_reconciler.rs\<close>;
    \<open>Payments_Manager\<close>: \<^verbatim>\<open>manager.rs\<close> and the endpoints of \<^verbatim>\<open>handlers/payments.rs\<close>.
  \<^item> \<open>Stripe_Webhook\<close>, \<open>Stripe_Api\<close>, \<open>Stripe_Provider\<close>: \<^verbatim>\<open>provider/stripe.rs\<close>, its signature
    verification and event translation, its forms and responses, its trait methods.
  \<^item> \<open>Badge_Png\<close>: \<^verbatim>\<open>services/badges/png.rs\<close>; \<open>Badge_Status\<close>: \<^verbatim>\<open>status.rs\<close>; \<open>Badge_Credentials\<close>:
    \<^verbatim>\<open>services/badges.rs\<close> with \<^verbatim>\<open>keys.rs\<close>, \<^verbatim>\<open>credential.rs\<close>, \<^verbatim>\<open>verification.rs\<close>; \<open>Badge_Handlers\<close>:
    \<^verbatim>\<open>handlers/badges.rs\<close>, the export of \<^verbatim>\<open>handlers/dashboard/user/badges.rs\<close>, \<^verbatim>\<open>handlers/error.rs\<close>.
  \<^item> \<open>Worker_Loops\<close>: \<^verbatim>\<open>services/workers.rs\<close> and what all loops share. \<open>Badge_Award_Store\<close>: the tables of
    durable awards and the SQL functions on them; \<open>Badge_Award_Lifecycle\<close>: the step relation
    \<open>badge_step\<close> over these functions with its invariant; \<open>Badge_Award_Worker\<close>: \<^verbatim>\<open>db/badges.rs\<close> and
    \<^verbatim>\<open>services/badges/award_worker.rs\<close>.
  \<^item> \<open>Meetings\<close>: \<^verbatim>\<open>services/meetings.rs\<close> with the traits it uses, and what its workers rely on;
    \<open>Meeting_Store\<close>: the tables, the SQL functions of \<^verbatim>\<open>functions/meetings\<close> and \<^verbatim>\<open>db/meetings.rs\<close>;
    \<open>Meeting_Sync\<close>: that these keep the contract, and the choice of hosts; \<open>Zoom\<close>:
    \<^verbatim>\<open>services/meetings/zoom.rs\<close> and \<^verbatim>\<open>zoom/client.rs\<close>.
  \<^item> \<open>Auth_Types\<close>: \<^verbatim>\<open>types/user.rs\<close>, \<^verbatim>\<open>types/permissions.rs\<close>, the data of \<^verbatim>\<open>auth.rs\<close> and the trait of
    \<^verbatim>\<open>db/auth.rs\<close>; \<open>Auth_Store\<close>: the tables and the SQL functions of \<^verbatim>\<open>functions/auth\<close>;
    \<open>Auth_Backend\<close>: the backend of \<^verbatim>\<open>auth.rs\<close> that identifies a user; \<open>Auth_Accounts\<close>: the step
    relation \<open>account_step\<close> over the store; \<open>Auth_Login\<close>: logins against the store;
    \<open>Auth_Handlers\<close>: \<^verbatim>\<open>handlers/auth.rs\<close>, its handlers and middleware; \<open>Auth_Security\<close>: what they
    guarantee together.
  \<^item> \<open>Event_Types\<close>: \<^verbatim>\<open>types/event.rs\<close> with what it embeds; \<open>Notification_Content\<close>: \<^verbatim>\<open>templates/notifications.rs\<close> and
    \<^verbatim>\<open>notifications/payloads.rs\<close>; \<open>Notifications\<close>: the workers of \<^verbatim>\<open>services/notifications.rs\<close>;
    \<open>Notification_Store\<close>: the SQL functions of \<^verbatim>\<open>functions/notifications\<close> and \<^verbatim>\<open>db/notifications.rs\<close>;
    \<open>Notification_Delivery\<close>: the step relation \<open>delivery_step\<close> over them with its invariant;
    \<open>Notification_Worker\<close>: that the worker takes its steps; \<open>Notification_Reminders\<close>: the reminders;
    \<open>Notification_Enqueue\<close>: \<^verbatim>\<open>notifications/enqueue.rs\<close>; \<open>Notification_Audience\<close>: who hears of what.
  \<^item> \<open>Activity_Tracker\<close>: \<^verbatim>\<open>activity_tracker.rs\<close>; \<open>Questionnaire\<close>: \<^verbatim>\<open>types/questionnaire.rs\<close>;
    \<open>Pagination\<close>: \<^verbatim>\<open>types/pagination.rs\<close>; \<open>Redirector\<close>: \<^verbatim>\<open>ocg-redirector/src\<close>.

  \<^bold>\<open>State and effects.\<close> A function that touches the outside is an action on a world \<open>'s\<close> that is never
  inspected except through the records of operations it was given; a raised error is a left value
  and keeps the state reached so far, a SQL function that raises changes nothing. Concurrency is a
  choice of steps: the refund lifecycle, the badge awards, the user accounts, the delivery of notifications and the
  activity tracker are
  inductive step relations and their invariants hold on every reachable state. Machine integers that take part in arithmetic which may
  overflow are words (webhook timestamps, view counters, pagination, PNG lengths); amounts and counters
  kept by the database are integers.

  \<^bold>\<open>What is shown.\<close>
  \<^item> Refunds: rows satisfy the constraints of their table and evolve monotonically, the effects of
    finalization happen once, claims are exclusive and stale claims are fenced, purchases agree,
    the functions refine a four-state outcome automaton; the worker always releases its claim, and against Stripe
    it never pays a refund twice.
  \<^item> Webhooks: forged deliveries are rejected without effect, accepted ones are authentic and fresh,
    the two endpoints cannot reach each other's operations, events are applied only to the purchase and
    account they belong to.
  \<^item> Stripe: the best matching refund is found and one is created only when none is there; credit
    notes and fee refunds are reused; checkout is guarded by the seller's readiness; listing ends and is complete.
  \<^item> Badges: extraction accepts exactly one class of files, the bit string is exactly the set of revoked
    indexes, what is issued verifies and what verifies is authentic, the cache is never stale, and an
    exported PNG verifies end to end.
  \<^item> Badge awards: the issuance limit holds over every minute, every credential has its own status bit,
    nobody holds a badge twice, jobs account for each recipient, and a round leaves no job claimed.
  \<^item> Meetings: a round of a worker leaves no claim behind, a lost claim changes nothing, an event changed
    meanwhile is synchronised again, hosts are not overbooked, and Zoom requests keep their distance.
  \<^item> Accounts: an external login enters the account it belongs to and is refused when identities
    conflict, a linked identity stays linked, a password opens exactly the verified account it was set for.
  \<^item> Sessions: redirects stay on the site, a callback needs the state its own login stored, the gates
    ask for the permission they are named after, a repaired selection points to something the user manages.
  \<^item> Notifications: a message is delivered at most once for each time it was queued, the delivery rate and the
    retries are bounded, a round of the worker refines the step relation, reminders are queued once, and a
    cancellation or publication reaches each person it concerns once.
  \<^item> Tracker: no view is lost or counted twice. Questionnaires, redirects and pagination: exact
    characterisations of what is accepted and where a request is sent.

  \<^bold>\<open>Interfaces.\<close> What a component relies on is a locale where the provider is part of the model
  (worker loops and the runtime, the provider contract of the refund worker, the databases of the award
  and meeting workers, the account operations of the login backend), interpreted on the model's own
  definitions; where the provider is a library (image codec, signature suite, LRU cache, JSON decoders) it is a
  named predicate on the record of its functions, and a witness instantiates it.

  \<^bold>\<open>Bounds and termination.\<close> There is no fuel. Loops over data are structural or have a measure
  (PNG chunks move forward, trimming shortens); the worker loops and the paginated listing, which may run for
  ever, are partial functions, and that they return is proved from the runtime's or the API's contract.

  \<^bold>\<open>Not modelled.\<close> Template rendering, the SMTP transport, image storage, the cookie layer that
  carries a session, the database queries without logic of their own, and process start-up are
  input and output around the parts above. The repair of typed booleans in \<^verbatim>\<open>badges/document.rs\<close> rewrites
  values of the JSON-LD library. A database connection that is lost between two calls is not modelled; the claims of
  such a worker are what the recovery workers give up.
\<close>

section \<open>Properties that span components\<close>

text \<open>A manager over the Stripe provider, and the secret an endpoint checks deliveries with.\<close>

definition stripe_manager ::
    "'s stripe_env \<Rightarrow> StripeProvider \<Rightarrow> 's PaymentsProvider \<Rightarrow> 's PgPaymentsManager \<Rightarrow>
     's PgPaymentsManager" where
  "stripe_manager env sp base pm = pm\<lparr>pm_payments_provider := Some (stripe_provider env sp base)\<rparr>"

lemma stripe_endpoint:
  "endpoint_handle_webhook (stripe_manager env sp base pm) connected headers body s =
     (case verify_and_parse_webhook (se_webhook env) (sp_cfg sp) (se_now env s)
             (webhook_scope connected) headers body of
        Inl _ \<Rightarrow> (401, s)
      | Inr event \<Rightarrow>
          (case handle_webhook_event (pm_db pm) (pm_notification_composer pm)
                  (stripe_provider env sp base) event s of
             (Inl _, s') \<Rightarrow> (500, s')
           | (Inr _, s') \<Rightarrow> (200, s')))"
  by (auto simp: endpoint_handle_webhook_def manager_handle_connected_webhook_def
      manager_handle_webhook_def handle_scoped_webhook_def stripe_manager_def stripe_provider_def
      webhook_scope_def webhook_status_def act_bind_def act_map_err_def
      split: sum.split prod.split)

text \<open>
  C9: a forged delivery changes nothing. When no signature of the delivery's header is the digest of
  its timestamp and body under the secret of the endpoint, in particular when the header is missing
  or malformed, the endpoint answers 401 and the database, the provider and the notification queue are
  as before, whatever the body says.
\<close>

theorem forged_webhook_rejected:
  assumes "\<forall>field header timestamp signatures.
    map_of headers ''stripe-signature'' = Some field \<longrightarrow>
    wh_header_to_str (se_webhook env) field = Some header \<longrightarrow>
    parse_signature_header header = Inr (timestamp, signatures) \<longrightarrow>
    wh_hmac_sha256_hex (se_webhook env) (webhook_secret (sp_cfg sp) (webhook_scope connected))
      (timestamp @ ''.'' @ body) \<notin> set signatures"
  shows "endpoint_handle_webhook (stripe_manager env sp base pm) connected headers body s = (401, s)"
proof (cases "verify_and_parse_webhook (se_webhook env) (sp_cfg sp) (se_now env s)
    (webhook_scope connected) headers body")
  case (Inr ev)
  from verify_and_parse_webhook_InrD [OF Inr] assms show ?thesis by blast
qed (simp add: stripe_endpoint)

theorem forged_webhook_rejected_witness:
  "\<forall>base pm. endpoint_handle_webhook (stripe_manager sample_stripe
     (new_stripe_provider sample_stripe_config) base pm) False
     [(''stripe-signature'', ''t=990,v1=whsec_c-990.cs_1'')] ''cs_1'' True = (401, True)"
proof (intro allI forged_webhook_rejected impI)
  fix field header timestamp signatures
  assume "map_of [(''stripe-signature'', ''t=990,v1=whsec_c-990.cs_1'')] ''stripe-signature'' =
      Some field" and "wh_header_to_str (se_webhook sample_stripe) field = Some header"
    and parsed: "parse_signature_header header = Inr (timestamp, signatures)"
  then have header: "header = ''t=990,v1=whsec_c-990.cs_1''"
    by (simp add: sample_stripe_def sample_webhook_env_def)
  have "parse_signature_header ''t=990,v1=whsec_c-990.cs_1'' = Inr (''990'', [''whsec_c-990.cs_1''])"
    by code_simp
  with parsed header have "timestamp = ''990''" "signatures = [''whsec_c-990.cs_1'']" by simp_all
  then show "wh_hmac_sha256_hex (se_webhook sample_stripe)
      (webhook_secret (sp_cfg (new_stripe_provider sample_stripe_config)) (webhook_scope False))
      (timestamp @ ''.'' @ ''cs_1'') \<notin> set signatures"
    by (simp add: sample_stripe_def sample_webhook_env_def new_stripe_provider_def webhook_secret_def
        webhook_scope_def sample_stripe_config_def)
qed

lemma handle_webhook_event_other_attach:
  "\<not> is_ApplicationFeeCreated ev \<Longrightarrow>
     handle_webhook_event (db\<lparr>db_attach_application_fee_to_event_purchase := other\<rparr>) env pp ev =
     handle_webhook_event db env pp ev"
proof -
  let ?db = "db\<lparr>db_attach_application_fee_to_event_purchase := other\<rparr>"
  have "persist_provider_refund_result ?db = persist_provider_refund_result db"
    by (intro ext) (auto simp: persist_provider_refund_result_def Let_def
        split: RefundPaymentStatus.split)
  then have status: "reconcile_refund_status ?db = reconcile_refund_status db"
    by (intro ext) (simp add: reconcile_refund_status_def)
  have "load_refund_for_purchase ?db = load_refund_for_purchase db"
    by (intro ext) (auto simp: load_refund_for_purchase_def)
  then have load: "load_validated_refund_for_event ?db = load_validated_refund_for_event db"
    by (intro ext) (simp add: load_validated_refund_for_event_def)
  have updated: "handle_refund_updated ?db pp = handle_refund_updated db pp"
    by (intro ext) (unfold handle_refund_updated_def status load, simp)
  show "\<not> is_ApplicationFeeCreated ev \<Longrightarrow> handle_webhook_event ?db env pp ev =
      handle_webhook_event db env pp ev"
    by (cases ev)
      (simp_all add: handle_webhook_event_def handle_completed_checkout_def
        expire_checkout_session_def attach_invoice_def updated)
qed

text \<open>
  The two webhook endpoints are isolated. Whatever Stripe delivers to the platform endpoint, the
  only database operation it can reach is the attachment of an application fee: with any other
  database that agrees on that one operation, and any other notification service, the endpoint
  answers the same and leaves the same world. The connected endpoint, in turn, never reaches that
  operation.
\<close>

theorem webhook_endpoints_isolated:
  assumes "db_attach_application_fee_to_event_purchase db1 =
    db_attach_application_fee_to_event_purchase db2"
  shows "endpoint_handle_webhook (stripe_manager env sp base (pm\<lparr>pm_db := db1\<rparr>)) False headers body s =
      endpoint_handle_webhook (stripe_manager env sp base
        (pm\<lparr>pm_db := db2, pm_notification_composer := other_composer\<rparr>)) False headers body s \<and>
    endpoint_handle_webhook (stripe_manager env sp base (pm\<lparr>pm_db := db1\<rparr>)) True headers body s =
      endpoint_handle_webhook (stripe_manager env sp base (pm\<lparr>pm_db :=
        db1\<lparr>db_attach_application_fee_to_event_purchase := other_attach\<rparr>\<rparr>)) True headers body s"
proof (intro conjI)
  let ?verify = "\<lambda>scope. verify_and_parse_webhook (se_webhook env) (sp_cfg sp) (se_now env s) scope
    headers body"
  show "endpoint_handle_webhook (stripe_manager env sp base (pm\<lparr>pm_db := db1\<rparr>)) False headers body s =
      endpoint_handle_webhook (stripe_manager env sp base
        (pm\<lparr>pm_db := db2, pm_notification_composer := other_composer\<rparr>)) False headers body s"
  proof (cases "?verify PlatformAccount")
    case (Inr ev)
    from verify_and_parse_webhook_InrD [OF Inr] parse_platform_event
    have "ev = WebhookNoop \<or> is_ApplicationFeeCreated ev" by blast
    then show ?thesis
      using assms by (cases ev)
        (simp_all add: stripe_endpoint webhook_scope_def Inr handle_webhook_event_def
          attach_application_fee_def)
  qed (simp add: stripe_endpoint webhook_scope_def)
  show "endpoint_handle_webhook (stripe_manager env sp base (pm\<lparr>pm_db := db1\<rparr>)) True headers body s =
      endpoint_handle_webhook (stripe_manager env sp base (pm\<lparr>pm_db :=
        db1\<lparr>db_attach_application_fee_to_event_purchase := other_attach\<rparr>\<rparr>)) True headers body s"
  proof (cases "?verify ConnectedAccount")
    case (Inr ev)
    from verify_and_parse_webhook_InrD [OF Inr] parse_connected_event
    have "\<not> is_ApplicationFeeCreated ev" by blast
    then show ?thesis
      by (simp add: stripe_endpoint webhook_scope_def Inr handle_webhook_event_other_attach)
  qed (simp add: stripe_endpoint webhook_scope_def)
qed

theorem webhook_endpoints_isolated_witness:
  "\<forall>env sp base composer attach headers body.
     endpoint_handle_webhook (stripe_manager env sp base sample_manager) False headers body () =
     endpoint_handle_webhook (stripe_manager env sp base (sample_manager
       \<lparr>pm_db := failing_db\<lparr>db_get_event_purchase_refund := \<lambda>_. act_err (Msg ''other'')\<rparr>,
        pm_notification_composer := composer\<rparr>)) False headers body () \<and>
     endpoint_handle_webhook (stripe_manager env sp base sample_manager) True headers body () =
     endpoint_handle_webhook (stripe_manager env sp base (sample_manager\<lparr>pm_db :=
       failing_db\<lparr>db_attach_application_fee_to_event_purchase := attach\<rparr>\<rparr>)) True headers body ()"
  using webhook_endpoints_isolated [of failing_db
      "failing_db\<lparr>db_get_event_purchase_refund := \<lambda>_. act_err (Msg ''other'')\<rparr>", where pm = sample_manager]
  by (simp add: sample_manager_def)

end
